(* ===== verification/Netops_Base.thy ===== *)
theory Netops_Base
  imports Main "HOL-Library.AList" "HOL-Library.Char_ord" "HOL-Library.List_Lexorder"
begin

text \<open>
  Prelude of the development: the Python string operations the sources use, dictionaries as
  association lists in insertion order, decimal numerals, the exceptions of the Admin component
  and effectful computations that may raise. A text is a list of characters, one per code point;
  the model covers ASCII texts (the case folding and white space below are those of ASCII).
  The generic lemmas the component theories share are collected here.
\<close>

named_theorems dict_simps "lookup after update and delete in dictionaries"
named_theorems act_simps "unfolding of effectful computations"

section \<open>Characters and strings of Python\<close>

abbreviation newline :: char where "newline \<equiv> CHR 0x0A"
abbreviation creturn :: char where "creturn \<equiv> CHR 0x0D"
abbreviation tab :: char where "tab \<equiv> CHR 0x09"
abbreviation blank :: char where "blank \<equiv> CHR 0x20"
abbreviation dquote :: char where "dquote \<equiv> CHR 0x22"
abbreviation squote :: char where "squote \<equiv> CHR 0x27"
abbreviation backslash :: char where "backslash \<equiv> CHR 0x5C"

definition code :: "char \<Rightarrow> nat" where
  "code c = of_char c"

text \<open>\<open>str.isspace\<close> on one ASCII character: tab to carriage return, the four information
  separators and the blank.\<close>

definition is_space :: "char \<Rightarrow> bool" where
  "is_space c \<longleftrightarrow> c \<in> set [CHR 0x09, CHR 0x0A, CHR 0x0B, CHR 0x0C, CHR 0x0D,
     CHR 0x1C, CHR 0x1D, CHR 0x1E, CHR 0x1F, CHR 0x20]"

definition lstrip :: "string \<Rightarrow> string" where
  "lstrip s = dropWhile is_space s"

definition rstrip :: "string \<Rightarrow> string" where
  "rstrip s = rev (dropWhile is_space (rev s))"

definition strip :: "string \<Rightarrow> string" where
  "strip s = rstrip (lstrip s)"

text \<open>\<open>str.split()\<close>: the maximal runs of characters that are not white space.\<close>

fun split_words :: "string \<Rightarrow> string \<Rightarrow> string list" where
  "split_words [] cur = (if cur = [] then [] else [cur])"
| "split_words (c # cs) cur =
     (if is_space c then (if cur = [] then split_words cs [] else cur # split_words cs [])
      else split_words cs (cur @ [c]))"

definition split_ws :: "string \<Rightarrow> string list" where
  "split_ws s = split_words s []"

text \<open>\<open>str.split(c)\<close> for one separator character: never empty.\<close>

fun split_on :: "char \<Rightarrow> string \<Rightarrow> string list" where
  "split_on d [] = [[]]"
| "split_on d (c # cs) =
     (if c = d then [] # split_on d cs
      else (case split_on d cs of [] \<Rightarrow> [[c]] | w # ws \<Rightarrow> (c # w) # ws))"

text \<open>\<open>sep.join(xs)\<close>\<close>

fun join :: "string \<Rightarrow> string list \<Rightarrow> string" where
  "join sep [] = []"
| "join sep [x] = x"
| "join sep (x # y # ys) = x @ sep @ join sep (y # ys)"

definition starts_with :: "string \<Rightarrow> string \<Rightarrow> bool" where
  "starts_with p s \<longleftrightarrow> take (length p) s = p"

definition ends_with :: "string \<Rightarrow> string \<Rightarrow> bool" where
  "ends_with p s \<longleftrightarrow> starts_with (rev p) (rev s)"

text \<open>\<open>p in s\<close> for strings\<close>

fun contains :: "string \<Rightarrow> string \<Rightarrow> bool" where
  "contains p [] = (p = [])"
| "contains p (c # cs) = (starts_with p (c # cs) \<or> contains p cs)"

text \<open>\<open>s.replace(c, r)\<close> for a single character \<open>c\<close>\<close>

definition replace_char :: "char \<Rightarrow> string \<Rightarrow> string \<Rightarrow> string" where
  "replace_char c r s = concat (map (\<lambda>x. if x = c then r else [x]) s)"

definition fold_char :: "char \<Rightarrow> char" where
  "fold_char c = (if 65 \<le> code c \<and> code c \<le> 90 then char_of (code c + 32) else c)"

text \<open>\<open>str.casefold()\<close> on ASCII\<close>

definition casefold :: "string \<Rightarrow> string" where
  "casefold s = map fold_char s"

definition is_digit :: "char \<Rightarrow> bool" where
  "is_digit c \<longleftrightarrow> 48 \<le> code c \<and> code c \<le> 57"

definition is_alpha :: "char \<Rightarrow> bool" where
  "is_alpha c \<longleftrightarrow> (65 \<le> code c \<and> code c \<le> 90) \<or> (97 \<le> code c \<and> code c \<le> 122)"

definition is_lower_hex :: "char \<Rightarrow> bool" where
  "is_lower_hex c \<longleftrightarrow> is_digit c \<or> (97 \<le> code c \<and> code c \<le> 102)"

section \<open>Decimal numerals\<close>

definition digit_char :: "nat \<Rightarrow> char" where
  "digit_char d = char_of (48 + d)"

fun show_nat :: "nat \<Rightarrow> string" where
  "show_nat n = (if n < 10 then [digit_char n] else show_nat (n div 10) @ [digit_char (n mod 10)])"

declare show_nat.simps [simp del]

fun nat_value :: "string \<Rightarrow> nat \<Rightarrow> nat" where
  "nat_value [] acc = acc"
| "nat_value (c # cs) acc = nat_value cs (10 * acc + (code c - 48))"

text \<open>\<open>int(s)\<close> on a string of decimal digits\<close>

definition int_of :: "string \<Rightarrow> nat" where
  "int_of s = nat_value s 0"

section \<open>Quoted values in messages\<close>

definition hex_digit :: "nat \<Rightarrow> char" where
  "hex_digit d = (if d < 10 then char_of (48 + d) else char_of (87 + d))"

definition repr_char :: "char \<Rightarrow> char \<Rightarrow> string" where
  "repr_char q c =
     (if c = q \<or> c = backslash then [backslash, c]
      else if c = newline then [backslash, CHR ''n'']
      else if c = creturn then [backslash, CHR ''r'']
      else if c = tab then [backslash, CHR ''t'']
      else if code c < 32 \<or> code c = 127 then [backslash, CHR ''x'', hex_digit (code c div 16), hex_digit (code c mod 16)]
      else [c])"

text \<open>\<open>repr(s)\<close> on ASCII: double quotes only when the text holds a single quote and no double one\<close>

definition py_repr :: "string \<Rightarrow> string" where
  "py_repr s = (let q = (if squote \<in> set s \<and> dquote \<notin> set s then dquote else squote)
     in [q] @ concat (map (repr_char q) s) @ [q])"

text \<open>\<open>errors.shown\<close>\<close>

definition SHOWN_CHARACTERS :: nat where "SHOWN_CHARACTERS = 64"

definition shown :: "string \<Rightarrow> string" where
  "shown s = (if length s \<le> SHOWN_CHARACTERS then py_repr s
     else py_repr (take SHOWN_CHARACTERS s) @ ''... ('' @ show_nat (length s) @ '' characters)'')"

section \<open>Dictionaries in insertion order\<close>

type_synonym ('k, 'v) dict = "('k \<times> 'v) list"

definition keys :: "('k, 'v) dict \<Rightarrow> 'k list" where
  "keys d = map fst d"

definition wf_dict :: "('k, 'v) dict \<Rightarrow> bool" where
  "wf_dict d \<longleftrightarrow> distinct (keys d)"

text \<open>\<open>a == b\<close> for dictionaries: the same keys with the same values, in any order\<close>

definition dict_eq :: "('k, 'v) dict \<Rightarrow> ('k, 'v) dict \<Rightarrow> bool" where
  "dict_eq a b \<longleftrightarrow> (\<forall>k \<in> set (keys a) \<union> set (keys b). map_of a k = map_of b k)"

lemma dict_eq_map_of: "dict_eq a b \<longleftrightarrow> map_of a = map_of b"
proof
  assume eq: "dict_eq a b"
  show "map_of a = map_of b"
  proof
    fix k
    show "map_of a k = map_of b k"
    proof (cases "k \<in> set (keys a) \<union> set (keys b)")
      case True
      with eq show ?thesis by (auto simp: dict_eq_def)
    next
      case False
      then have "map_of a k = None" and "map_of b k = None"
        by (auto simp: keys_def map_of_eq_None_iff)
      then show ?thesis by simp
    qed
  qed
qed (simp add: dict_eq_def)

lemma dict_eq_refl [simp]: "dict_eq a a"
  by (simp add: dict_eq_map_of)

lemma map_of_update [dict_simps, simp]:
  "map_of (AList.update k v d) = (map_of d)(k \<mapsto> v)"
  by (simp add: update_conv')

lemma map_of_delete [dict_simps, simp]:
  "map_of (AList.delete k d) = (map_of d)(k := None)"
  by (simp add: delete_conv')

lemma wf_dict_update [simp]: "wf_dict d \<Longrightarrow> wf_dict (AList.update k v d)"
  by (simp add: wf_dict_def keys_def distinct_update)

lemma wf_dict_delete [simp]: "wf_dict d \<Longrightarrow> wf_dict (AList.delete k d)"
  by (simp add: wf_dict_def keys_def distinct_delete)

lemma update_fresh: "k \<notin> set (keys d) \<Longrightarrow> AList.update k v d = d @ [(k, v)]"
  by (induction d) (auto simp: keys_def)

lemma update_last: "k \<notin> set (keys d) \<Longrightarrow> AList.update k v (d @ [(k, w)]) = d @ [(k, v)]"
  by (induction d) (auto simp: keys_def)

text \<open>The same tests on the bits of a character, for evaluation\<close>

lemma is_digit_bits [code]:
  "is_digit (Char b0 b1 b2 b3 b4 b5 b6 b7) \<longleftrightarrow> \<not> b7 \<and> \<not> b6 \<and> b5 \<and> b4 \<and> (b3 \<longrightarrow> \<not> b2 \<and> \<not> b1)"
  unfolding is_digit_def code_def by (cases b0; cases b1; cases b2; cases b3; cases b4; cases b5; cases b6; cases b7) simp_all

lemma is_alpha_bits [code]:
  "is_alpha (Char b0 b1 b2 b3 b4 b5 b6 b7) \<longleftrightarrow>
     \<not> b7 \<and> b6 \<and> (b0 \<or> b1 \<or> b2 \<or> b3 \<or> b4) \<and> \<not> (b4 \<and> b3 \<and> (b2 \<or> b1 \<and> b0))"
  unfolding is_alpha_def code_def by (cases b0; cases b1; cases b2; cases b3; cases b4; cases b5; cases b6; cases b7) simp_all

lemma fold_char_bits [code]:
  "fold_char (Char b0 b1 b2 b3 b4 b5 b6 b7) = Char b0 b1 b2 b3 b4 (b5 \<or> is_alpha (Char b0 b1 b2 b3 b4 b5 b6 b7)) b6 b7"
  unfolding fold_char_def is_alpha_bits code_def
  by (cases b0; cases b1; cases b2; cases b3; cases b4; cases b5; cases b6; cases b7) (simp_all add: char_of_def bit_0)

section \<open>Shared lemmas\<close>

lemma join_Cons: "join sep (x # xs) = (if xs = [] then x else x @ sep @ join sep xs)"
  by (cases xs) auto

lemma split_on_nonempty [simp]: "split_on d s \<noteq> []"
  by (induction s) (auto split: list.splits)

lemma join_split_on [simp]: "join [d] (split_on d s) = s"
proof (induction s)
  case (Cons c cs)
  then show ?case
    by (cases "split_on d cs") (auto simp: join_Cons split: if_splits)
qed simp

lemma split_on_append: "split_on d (xs @ d # ys) = split_on d xs @ split_on d ys"
proof (induction xs)
  case (Cons c cs)
  then show ?case
    by (cases "split_on d cs") auto
qed simp

lemma split_on_set: "p \<in> set (split_on d s) \<Longrightarrow> set p \<subseteq> set s"
proof (induction s arbitrary: p)
  case (Cons c cs)
  then show ?case
    by (cases "split_on d cs") (fastforce split: if_splits)+
qed simp

lemma strip_indent:
  assumes "\<forall>c \<in> set indent. is_space c" and "l \<noteq> []" and "\<not> is_space (hd l)" and "\<not> is_space (last l)"
  shows "strip (indent @ l) = l"
proof -
  have "lstrip (indent @ l) = l"
    using assms by (cases l) (simp_all add: lstrip_def dropWhile_append2 dropWhile_append)
  moreover have "rstrip l = l"
  proof -
    have "rev l \<noteq> []" and "\<not> is_space (hd (rev l))"
      using assms by (simp_all add: hd_rev)
    then have "dropWhile is_space (rev l) = rev l"
      by (cases "rev l") simp_all
    then show ?thesis by (simp add: rstrip_def)
  qed
  ultimately show ?thesis by (simp add: strip_def)
qed

lemma keys_append [simp]: "keys (xs @ ys) = keys xs @ keys ys"
  by (simp add: keys_def)

lemma keys_Cons [simp]: "keys ((k, v) # d) = k # keys d" "keys [] = []"
  by (simp_all add: keys_def)

lemma is_space_blank [simp]: "is_space blank"
  by (simp add: is_space_def)

lemma map_of_fresh: "k \<notin> set (keys d) \<Longrightarrow> map_of d k = None"
  by (simp add: keys_def map_of_eq_None_iff)

lemma map_eq_append2: "map f xs = a @ b \<Longrightarrow> \<exists>x y. xs = x @ y \<and> map f x = a \<and> map f y = b"
  by (metis map_eq_append_conv)

section \<open>Exceptions and effects\<close>

text \<open>
  The exception classes of \<open>netops_admin/errors.py\<close>; every other exception is named by its class
  and carries its message. An \<open>AccessError\<close> also counts the lines the device accepted. \<open>BudgetExhausted\<close>, \<open>StateUnreadable\<close> and \<open>SnapshotRejected\<close> are
  subclasses of \<open>Rejected\<close>, which is what \<open>is_rejected\<close> (\<open>except Rejected\<close>) tests.
\<close>

datatype exn =
    Rejected "string list"
  | SnapshotRejected "string list" string
  | BudgetExhausted "string list"
  | StateUnreadable "string list"
  | Incomplete "string list" string
  | AccessError string nat
  | OtherError string string

fun is_rejected :: "exn \<Rightarrow> bool" where
  "is_rejected (OtherError _ _) = False"
| "is_rejected (AccessError _ _) = False"
| "is_rejected _ = True"

fun reasons_of :: "exn \<Rightarrow> string list" where
  "reasons_of (Rejected rs) = rs"
| "reasons_of (SnapshotRejected rs _) = rs"
| "reasons_of (BudgetExhausted rs) = rs"
| "reasons_of (StateUnreadable rs) = rs"
| "reasons_of (Incomplete rs _) = rs"
| "reasons_of _ = []"

text \<open>\<open>type(exc).__name__\<close>\<close>

fun class_name :: "exn \<Rightarrow> string" where
  "class_name (Rejected _) = ''Rejected''"
| "class_name (SnapshotRejected _ _) = ''SnapshotRejected''"
| "class_name (BudgetExhausted _) = ''BudgetExhausted''"
| "class_name (StateUnreadable _) = ''StateUnreadable''"
| "class_name (Incomplete _ _) = ''Incomplete''"
| "class_name (AccessError _ _) = ''AccessError''"
| "class_name (OtherError c _) = c"

type_synonym ('s, 'a) act = "'s \<Rightarrow> (exn + 'a) \<times> 's"

definition ret :: "'a \<Rightarrow> ('s, 'a) act" where
  "ret x s = (Inr x, s)"

definition throw :: "exn \<Rightarrow> ('s, 'a) act" where
  "throw e s = (Inl e, s)"

definition bind :: "('s, 'a) act \<Rightarrow> ('a \<Rightarrow> ('s, 'b) act) \<Rightarrow> ('s, 'b) act" where
  "bind m f s = (case m s of (Inl e, s') \<Rightarrow> (Inl e, s') | (Inr x, s') \<Rightarrow> f x s')"

definition seq :: "('s, 'a) act \<Rightarrow> ('s, 'b) act \<Rightarrow> ('s, 'b) act" where
  "seq m n = bind m (\<lambda>_. n)"

text \<open>\<open>try: m / except: h\<close>, where the handler decides from the exception, and re-raises it
  with \<open>throw\<close> if its class does not match\<close>

definition handle :: "('s, 'a) act \<Rightarrow> (exn \<Rightarrow> ('s, 'a) act) \<Rightarrow> ('s, 'a) act" where
  "handle m h s = (case m s of (Inl e, s') \<Rightarrow> h e s' | (Inr x, s') \<Rightarrow> (Inr x, s'))"

text \<open>\<open>try: m / except: h / else: f\<close>: the continuation \<open>f\<close> is not covered by the handler\<close>

definition attempt :: "('s, 'a) act \<Rightarrow> (exn \<Rightarrow> ('s, 'b) act) \<Rightarrow> ('a \<Rightarrow> ('s, 'b) act) \<Rightarrow> ('s, 'b) act" where
  "attempt m h f s = (case m s of (Inl e, s') \<Rightarrow> h e s' | (Inr x, s') \<Rightarrow> f x s')"

definition lift_res :: "exn + 'a \<Rightarrow> ('s, 'a) act" where
  "lift_res r s = (r, s)"

definition fetch :: "('s \<Rightarrow> 'a) \<Rightarrow> ('s, 'a) act" where
  "fetch f s = (Inr (f s), s)"

definition modify :: "('s \<Rightarrow> 's) \<Rightarrow> ('s, unit) act" where
  "modify f s = (Inr (), f s)"

fun each :: "('a \<Rightarrow> ('s, 'b) act) \<Rightarrow> 'a list \<Rightarrow> ('s, 'b list) act" where
  "each f [] = ret []"
| "each f (x # xs) = bind (f x) (\<lambda>y. bind (each f xs) (\<lambda>ys. ret (y # ys)))"

lemmas act_defs [act_simps] = ret_def throw_def bind_def seq_def handle_def attempt_def lift_res_def
  fetch_def modify_def

section \<open>What every run of an action keeps\<close>

text \<open>\<open>pres R m\<close>: however the action ends, by a result or by an exception, the states before and after
  it are related by \<open>R\<close>.\<close>

definition pres :: "('s \<Rightarrow> 's \<Rightarrow> bool) \<Rightarrow> ('s, 'a) act \<Rightarrow> bool" where
  "pres R m \<longleftrightarrow> (\<forall>s. R s (snd (m s)))"

text \<open>\<open>returns m P\<close>: every result of the action satisfies \<open>P\<close>; an exception is no result.\<close>

definition returns :: "('s, 'a) act \<Rightarrow> ('a \<Rightarrow> bool) \<Rightarrow> bool" where
  "returns m P \<longleftrightarrow> (\<forall>s x s'. m s = (Inr x, s') \<longrightarrow> P x)"

lemma presD: "pres R m \<Longrightarrow> m s = (r, s') \<Longrightarrow> R s s'"
  by (metis pres_def snd_conv)

lemma presI: "(\<And>s r s'. m s = (r, s') \<Longrightarrow> R s s') \<Longrightarrow> pres R m"
  by (metis pres_def prod.collapse)

lemma returnsD: "returns m P \<Longrightarrow> m s = (Inr x, s') \<Longrightarrow> P x"
  by (auto simp: returns_def)

lemma pres_if: "(b \<Longrightarrow> pres R m) \<Longrightarrow> (\<not> b \<Longrightarrow> pres R n) \<Longrightarrow> pres R (if b then m else n)"
  by simp

lemma pres_option: "(x = None \<Longrightarrow> pres R m) \<Longrightarrow> (\<And>y. x = Some y \<Longrightarrow> pres R (f y)) \<Longrightarrow> pres R (case x of None \<Rightarrow> m | Some y \<Rightarrow> f y)"
  by (cases x) auto

lemma pres_list: "(x = [] \<Longrightarrow> pres R m) \<Longrightarrow> (\<And>y ys. x = y # ys \<Longrightarrow> pres R (f y ys)) \<Longrightarrow> pres R (case x of [] \<Rightarrow> m | y # ys \<Rightarrow> f y ys)"
  by (cases x) auto

lemma pres_prod: "(\<And>a b. pres R (f a b)) \<Longrightarrow> pres R (case x of (a, b) \<Rightarrow> f a b)"
  by (cases x) auto

lemma pres_sum: "(\<And>a. pres R (f a)) \<Longrightarrow> (\<And>b. pres R (g b)) \<Longrightarrow> pres R (case x of Inl a \<Rightarrow> f a | Inr b \<Rightarrow> g b)"
  by (cases x) auto

lemma pres_Let: "(\<And>x. pres R (f x)) \<Longrightarrow> pres R (let x = e in f x)"
  by simp

lemma pres_exn:
  "(\<And>x. pres R (f x)) \<Longrightarrow> pres R (case x of Rejected a \<Rightarrow> f (Rejected a) | SnapshotRejected a b \<Rightarrow> f (SnapshotRejected a b)
     | BudgetExhausted a \<Rightarrow> f (BudgetExhausted a) | StateUnreadable a \<Rightarrow> f (StateUnreadable a)
     | Incomplete a b \<Rightarrow> f (Incomplete a b) | AccessError a n \<Rightarrow> f (AccessError a n) | OtherError a b \<Rightarrow> f (OtherError a b))"
  by (cases x) auto

lemmas pres_splits = pres_if pres_option pres_list pres_prod pres_sum pres_Let

lemma handle_attempt: "handle m h = attempt m h ret"
  by (rule ext) (simp add: handle_def attempt_def ret_def split: prod.splits sum.splits)

lemma bind_attempt: "bind m f = attempt m throw f"
  by (rule ext) (simp add: bind_def attempt_def throw_def split: prod.splits sum.splits)

text \<open>A relation that composes along sequences of actions.\<close>

locale run_order =
  fixes R :: "'s \<Rightarrow> 's \<Rightarrow> bool"
  assumes refl: "R s s" and trans: "R s t \<Longrightarrow> R t u \<Longrightarrow> R s u"
begin

lemma pres_ret: "pres R (ret x)"
  by (simp add: pres_def ret_def refl)

lemma pres_throw: "pres R (throw x)"
  by (simp add: pres_def throw_def refl)

lemma pres_lift: "pres R (lift_res x)"
  by (simp add: pres_def lift_res_def refl)

lemma pres_fetch: "pres R (fetch f)"
  by (simp add: pres_def fetch_def refl)

lemma pres_attempt: "pres R m \<Longrightarrow> (\<And>x. pres R (h x)) \<Longrightarrow> (\<And>a. pres R (f a)) \<Longrightarrow> pres R (attempt m h f)"
proof (rule presI)
  fix s r s'
  assume m: "pres R m" and h: "\<And>x. pres R (h x)" and f: "\<And>a. pres R (f a)" and run: "attempt m h f s = (r, s')"
  obtain q t where mt: "m s = (q, t)" by fastforce
  then have "R s t" using m by (rule presD [rotated])
  moreover have "R t s'"
    using run mt h f by (cases q) (auto simp: attempt_def dest: presD)
  ultimately show "R s s'" by (rule trans)
qed

lemma pres_handle: "pres R m \<Longrightarrow> (\<And>x. pres R (h x)) \<Longrightarrow> pres R (handle m h)"
  unfolding handle_attempt by (intro pres_attempt pres_ret)

lemma pres_bind: "pres R m \<Longrightarrow> (\<And>a. pres R (f a)) \<Longrightarrow> pres R (bind m f)"
  unfolding bind_attempt by (intro pres_attempt pres_throw)

lemma pres_seq: "pres R m \<Longrightarrow> pres R n \<Longrightarrow> pres R (seq m n)"
  by (simp add: seq_def pres_bind)

lemma pres_each: "(\<And>x. pres R (f x)) \<Longrightarrow> pres R (each f xs)"
  by (induction xs) (simp_all add: pres_ret pres_bind)

lemmas pres_basic = pres_ret pres_throw pres_lift pres_fetch pres_attempt pres_handle pres_bind pres_seq pres_each

end

section \<open>What every result of an action is\<close>

lemma bind_Inr_cases:
  assumes "bind m f s = (Inr y, s')"
  obtains x s1 where "m s = (Inr x, s1)" and "f x s1 = (Inr y, s')"
  using assms by (auto simp: bind_def split: prod.splits sum.splits)

lemma seq_Inr_cases:
  assumes "seq m n s = (Inr y, s')"
  obtains x s1 where "m s = (Inr x, s1)" and "n s1 = (Inr y, s')"
  using assms unfolding seq_def by (rule bind_Inr_cases)

lemma bind_cases:
  assumes "bind m f s = (r, s')"
  obtains (raised) x where "m s = (Inl x, s')" and "r = Inl x"
    | (passed) a s1 where "m s = (Inr a, s1)" and "f a s1 = (r, s')"
  using assms by (auto simp: bind_def split: prod.splits sum.splits)

lemma seq_cases:
  assumes "seq m n s = (r, s')"
  obtains (raised) x where "m s = (Inl x, s')" and "r = Inl x"
    | (passed) a s1 where "m s = (Inr a, s1)" and "n s1 = (r, s')"
  using assms unfolding seq_def by (rule bind_cases)

lemma attempt_cases:
  assumes "attempt m h f s = (r, s')"
  obtains (handled) x s1 where "m s = (Inl x, s1)" and "h x s1 = (r, s')"
    | (passed) a s1 where "m s = (Inr a, s1)" and "f a s1 = (r, s')"
  using assms by (auto simp: attempt_def split: prod.splits sum.splits)

lemma attempt_Inr_cases:
  assumes "attempt m h f s = (Inr y, s')"
  obtains (handled) x s1 where "m s = (Inl x, s1)" and "h x s1 = (Inr y, s')"
    | (passed) a s1 where "m s = (Inr a, s1)" and "f a s1 = (Inr y, s')"
  using assms by (auto simp: attempt_def split: prod.splits sum.splits)

lemma returns_ret: "P x \<Longrightarrow> returns (ret x) P"
  by (simp add: returns_def ret_def)

lemma returns_throw: "returns (throw x) P"
  by (simp add: returns_def throw_def)

lemma returns_bind: "(\<And>a. returns (f a) P) \<Longrightarrow> returns (bind m f) P"
  by (metis bind_Inr_cases returns_def)

lemma returns_seq: "returns n P \<Longrightarrow> returns (seq m n) P"
  by (simp add: seq_def returns_bind)

lemma returns_attempt: "(\<And>x. returns (h x) P) \<Longrightarrow> (\<And>a. returns (f a) P) \<Longrightarrow> returns (attempt m h f) P"
  by (metis attempt_Inr_cases returns_def)

lemma returns_if: "(b \<Longrightarrow> returns m P) \<Longrightarrow> (\<not> b \<Longrightarrow> returns n P) \<Longrightarrow> returns (if b then m else n) P"
  by simp

lemma returns_option: "(x = None \<Longrightarrow> returns m P) \<Longrightarrow> (\<And>y. x = Some y \<Longrightarrow> returns (f y) P) \<Longrightarrow> returns (case x of None \<Rightarrow> m | Some y \<Rightarrow> f y) P"
  by (cases x) auto

lemma returns_prod: "(\<And>a b. returns (f a b) P) \<Longrightarrow> returns (case x of (a, b) \<Rightarrow> f a b) P"
  by (cases x) auto

lemma returns_Let: "(\<And>x. returns (f x) P) \<Longrightarrow> returns (let x = e in f x) P"
  by simp

lemmas returns_basic = returns_throw returns_bind returns_seq returns_attempt returns_if returns_option returns_prod returns_Let

end
