(* ===== verification/Admin_Types.thy ===== *)
theory Admin_Types
  imports Netops_Base Complex_Main
begin

text \<open>
  The documents the Admin component passes around: requests, profiles, plans, configured devices,
  journal records and audit events. Times are real numbers of seconds; the device clock and the
  time a safeguard fires are whole seconds. Field names carry a prefix for their record. A journal
  record is a Python dictionary whose keys appear over time: a key that may be missing is an option.
\<close>

section \<open>JSON documents\<close>

text \<open>A decoded JSON document. Objects keep the order of their fields; a number that is not an integer
  is kept as the text Python prints for it.\<close>

datatype json =
    JNull
  | JBool bool
  | JInt int
  | JFloat string
  | JStr string
  | JArr "json list"
  | JObj "(string \<times> json) list"

section \<open>Attribute states\<close>

text \<open>The state of one object: attribute names with their canonical values.\<close>

type_synonym attributes = "(string, string) dict"

section \<open>Profiles and requests\<close>

datatype attribute_type = Ipv4Network | Ipv4Address | MacAddress | NameList | TextType | IntegerType

text \<open>A compiled expression is the set of strings it matches in full, with its source text.\<close>

record pattern =
  re_source :: string
  re_fullmatch :: "string \<Rightarrow> bool"

record attribute =
  at_name :: string
  at_type :: attribute_type
  at_default :: "string option"
  at_required_on_create :: bool
  at_update :: bool
  at_unset :: bool
  at_referenced_update :: bool
  at_max_length :: "int option"
  at_minimum :: "int option"
  at_maximum :: "int option"
  at_forbidden_values :: "string list"
  at_pattern :: "pattern option"
  at_undo_to_default :: bool

record profile =
  pf_platform :: string
  pf_table :: string
  pf_versions :: "string list"
  pf_ops :: "string list"
  pf_key_pattern :: pattern
  pf_protected_keys :: "string list"
  pf_attributes :: "(string, attribute) dict"
  pf_fixed :: "(string, string) dict"
  pf_volatile :: "string list"
  pf_reserved_values :: "(string, string list) dict"
  pf_inverse_identity_changes :: "(string, string list) dict"
  pf_rollback_evidence :: string
  pf_implicit_keys :: bool
  pf_undo_ops :: "string list"
  pf_exact_versions :: bool
  pf_table_scoped_key :: bool
  pf_create_values :: "(string, string) dict"
  pf_create_position :: "string option"
  pf_isolated_update :: "string list"
  pf_provisional :: bool
  pf_value_requires :: "(string, (string, string list) dict) dict"

text \<open>The value of a requested change: \<open>null\<close>, a string, an integer or a list.\<close>

datatype change_value = VNull | VStr string | VInt int | VList "json list"

record request =
  rq_device :: "string option"
  rq_table :: string
  rq_op :: string
  rq_key :: string
  rq_changes :: "(string, change_value) dict"
  rq_reason :: string
  rq_user_request :: string
  rq_request_id :: string

section \<open>Plans\<close>

record plan =
  pl_safeguard_id :: "string option"
  pl_admin_version :: string
  pl_platform :: string
  pl_firmware :: "string option"
  pl_table :: string
  pl_op :: string
  pl_key :: string
  pl_device :: "string option"
  pl_request_id :: string
  pl_request_sha256 :: string
  pl_reason_characters :: nat
  pl_user_request_characters :: nat
  pl_snapshot_sha256 :: string
  pl_rest_sha256 :: string
  pl_prechecks :: "string list"
  pl_commands :: "string list"
  pl_inverse :: "string list"
  pl_before :: "attributes option"
  pl_after :: "attributes option"
  pl_ignored_attributes :: "string list"
  pl_inverse_identity_changes :: "string list"
  pl_rollback_evidence :: string
  pl_plan_sha256 :: string
  pl_ports :: "string list option"

record verdict =
  vd_match :: bool
  vd_object_matches :: bool
  vd_rest_matches :: bool
  vd_differences :: "string list"

section \<open>Configuration\<close>

record limits =
  lm_changes_per_device_per_hour :: int
  lm_changes_per_day :: int
  lm_rejections_per_hour :: int
  lm_plan_commands :: int
  lm_journal_records :: int

record device =
  dv_name :: string
  dv_platform :: string
  dv_firmware :: "string option"
  dv_safeguard_seconds :: int
  dv_confirm_margin_seconds :: int
  dv_protected :: "(string, string list) dict"
  dv_opt_in :: "string list"
  dv_host_key_fingerprint :: string
  dv_address :: string
  dv_accounts :: "string list"

record config =
  cg_limits :: limits
  cg_devices :: "(string, device) dict"

section \<open>Device dialogues\<close>

text \<open>A line of a device dialogue: a command after which the prompt returns, a command with the question
  that follows it, a line typed without waiting, or a command after which the device may ask for the
  password.\<close>

datatype line = Command string | Ask string string | Raw string | Password string

section \<open>Journal records and audit events\<close>

record step =
  sp_step :: string
  sp_detail :: "string option"

record safeguard =
  sg_fire_at :: string
  sg_name :: string

text \<open>\<open>op_budget_at\<close> distinguishes a missing key (\<open>None\<close>) from a stored \<open>null\<close> (\<open>Some None\<close>), as
  \<open>record.get("budget_at_epoch", ...)\<close> does. The findings of the auditor before the change are kept
  as the mapping from fingerprints to rule, severity and signature.\<close>

type_synonym findings = "(string, string \<times> string \<times> string) dict"

record operation =
  op_change_id :: string
  op_request_id :: string
  op_request_sha256 :: "string option"
  op_device :: string
  op_status :: string
  op_result :: "string option"
  op_reason :: "string option"
  op_hostname :: string
  op_plan :: plan
  op_steps :: "step list"
  op_created_at :: "real option"
  op_budget_at :: "real option option"
  op_finished_at :: "real option"
  op_kind :: string
  op_budget_changes :: "int option"
  op_audit_before :: findings
  op_accounts :: string
  op_safeguard :: "safeguard option"
  op_foreign_sessions :: "int option"
  op_differences :: "string list"
  op_postcheck_differences :: "string list"
  op_final_check_differences :: "string list"
  op_audit_findings :: "string list"
  op_notification :: "string option"
  op_audit_delivery :: "string option"
  op_enrollment :: "string option"

text \<open>The events of the audit log, with the fields that depend on the operation. The summary of the
  requested changes in the start event is left out.\<close>

datatype audit_event =
    EvStart string string string string nat nat string
  | EvStep string string string "string option"
  | EvResult string string string string "string option" nat string string "string option"
  | EvAdministrative string string nat "string option"
  | EvDelivery string string "string option" "string option"

text \<open>The effects of a run that can be seen from outside the process, in their order: what was made
  durable, what was appended to the audit log, whether an installed safeguard was verified, which
  change commands were sent, whether a safeguard was seen removed, and whether a fresh snapshot
  matched the side of the plan it was compared with.\<close>

datatype io =
    Saved operation
  | Blocked string "string option" string
  | Audited audit_event
  | Installed bool
  | Applied "string list"
  | Removed bool
  | Verified string bool

section \<open>Sample documents\<close>

text \<open>A small VLAN creation and its journal record; the witnesses of the development are evaluated
  on them.\<close>

definition sample_plan :: plan where
  "sample_plan = \<lparr>pl_safeguard_id = None, pl_admin_version = ''1'', pl_platform = ''exos'', pl_firmware = Some ''32.7.2.19'', pl_table = ''vlan'',
     pl_op = ''create'', pl_key = ''Lab'', pl_device = Some ''sw1'', pl_request_id = ''request-1'',
     pl_request_sha256 = ''r'', pl_reason_characters = 3, pl_user_request_characters = 3, pl_snapshot_sha256 = ''s'', pl_rest_sha256 = ''t'', pl_prechecks = [],
     pl_commands = [''create vlan Lab tag 7''], pl_inverse = [''delete vlan Lab''], pl_before = None,
     pl_after = Some [(''tag'', ''7'')], pl_ignored_attributes = [], pl_inverse_identity_changes = [],
     pl_rollback_evidence = ''lab'', pl_plan_sha256 = ''p'', pl_ports = None\<rparr>"

definition sample_operation :: operation where
  "sample_operation = \<lparr>op_change_id = ''0123456789abcdef0123456789abcdef'', op_request_id = ''request-1'',
     op_request_sha256 = Some ''r'', op_device = ''sw1'', op_status = ''running'', op_result = None, op_reason = None,
     op_hostname = ''sw1'', op_plan = sample_plan, op_steps = [], op_created_at = Some 0, op_budget_at = Some (Some 0),
     op_finished_at = None, op_kind = ''change'', op_budget_changes = Some 1, op_audit_before = [],
     op_accounts = ''a'', op_safeguard = None, op_foreign_sessions = None, op_differences = [],
     op_postcheck_differences = [], op_final_check_differences = [], op_audit_findings = [],
     op_notification = None, op_audit_delivery = None, op_enrollment = None\<rparr>"

end
