(* ===== verification/Admin_Store.thy ===== *)
theory Admin_Store
  imports Admin_Types
begin

text \<open>
  The durable state of the Admin component, \<open>netops_admin/state.py\<close>: the journal of operations,
  request identifiers, blocks, account baselines, enrollment certificates, refused requests, the
  budget clock and the device locks. A file is absent, damaged (whatever \<open>_document\<close> refuses) or
  holds a document. The disk, the locks of other processes and the clocks are services of the
  runtime; a write fails before or after the file was replaced, as \<open>_write_atomic\<close> can. Formatting,
  file modes and the clean-up of temporary files are not modelled.
\<close>

section \<open>Data\<close>

datatype 'a jfile = Damaged | Holds 'a

record request_entry =
  re_request_id :: string
  re_change_id :: string
  re_request_sha256 :: string
  re_device :: string

record block =
  bk_device :: string
  bk_change_id :: "string option"
  bk_reason :: string

record anchor =
  an_boot :: string
  an_epoch :: real
  an_monotonic :: real

record certificate =
  ce_protocol :: string
  ce_binding :: string
  ce_firmware :: "string option"
  ce_change_id :: string

text \<open>Each journal file carries a revision stamp (inode, time and size in the source); \<open>s_stamp\<close>
  is the next fresh one. \<open>s_held\<close> are the device locks this process holds.\<close>

record store =
  s_operations :: "(string, nat \<times> operation jfile) dict"
  s_requests :: "(string, request_entry jfile) dict"
  s_blocks :: "(string, block jfile) dict"
  s_baselines :: "(string, string jfile) dict"
  s_enrollments :: "(string, certificate jfile) dict"
  s_rejections :: "real list jfile option"
  s_clock :: "anchor option jfile option"
  s_held :: "string list"
  s_stamp :: nat

datatype write_outcome = Written | FailedBefore exn | FailedAfter exn

text \<open>\<open>w_record\<close> is the record object the running operation mutates in memory; it survives an
  exception, as the dictionary in the source does.\<close>

record 'd world =
  w_store :: store
  w_ext :: 'd
  w_io :: "io list"
  w_record :: operation

text \<open>What the store needs from outside: the outcome of the next durable write or removal, opening a
  lock file, taking a device lock or the admission lock against other processes, what other
  processes do to the state between two accesses, the host clocks and the boot identity, and the
  append to the audit log.\<close>

record 'd services =
  v_disk :: "'d \<Rightarrow> write_outcome \<times> 'd"
  v_lock_file :: "string \<Rightarrow> ('d, unit) act"
  v_flock :: "string \<Rightarrow> ('d, unit) act"
  v_admission :: "('d, unit) act"
  v_others :: "'d \<Rightarrow> store \<Rightarrow> store"
  v_time :: "'d \<Rightarrow> real \<times> 'd"
  v_monotonic :: "'d \<Rightarrow> real \<times> 'd"
  v_boot :: "('d, string) act"
  v_audit :: "audit_event \<Rightarrow> ('d, unit) act"

definition REJECTION_WINDOW :: real where "REJECTION_WINDOW = 3600"
definition MAX_REJECTION_ENTRIES :: nat where "MAX_REJECTION_ENTRIES = 10000"

section \<open>Names and texts\<close>

definition name_char :: "char \<Rightarrow> bool" where
  "name_char c \<longleftrightarrow> is_alpha c \<or> is_digit c \<or> c \<in> set ''._-''"

definition DEVICE_NAME :: "string \<Rightarrow> bool" where
  "DEVICE_NAME s \<longleftrightarrow> s \<noteq> [] \<and> (is_alpha (hd s) \<or> is_digit (hd s)) \<and> length s \<le> 64 \<and> list_all name_char (tl s)"

definition CHANGE_NAME :: "string \<Rightarrow> bool" where
  "CHANGE_NAME s \<longleftrightarrow> length s = 32 \<and> list_all is_lower_hex s"

definition REQUEST_NAME :: "string \<Rightarrow> bool" where
  "REQUEST_NAME s \<longleftrightarrow> 8 \<le> length s \<and> length s \<le> 64 \<and> list_all (\<lambda>c. name_char c \<or> c = CHR '':'') s"

text \<open>\<open>_text\<close>: printable ASCII of at most 200 characters\<close>

definition safe_text :: "string \<Rightarrow> bool" where
  "safe_text s \<longleftrightarrow> length s \<le> 200 \<and> list_all (\<lambda>c. 32 \<le> code c \<and> code c \<le> 126) s"

definition boot_name :: "string \<Rightarrow> bool" where
  "boot_name s \<longleftrightarrow> length s = 36 \<and> list_all (\<lambda>c. is_lower_hex c \<or> (65 \<le> code c \<and> code c \<le> 70) \<or> c = CHR ''-'') s"

definition unreadable :: "string \<Rightarrow> exn" where
  "unreadable path = StateUnreadable [''the state file '' @ path @ '' cannot be read; a person must check it'']"

definition json_path :: "string \<Rightarrow> string \<Rightarrow> string" where
  "json_path directory stem = directory @ ''/'' @ stem @ ''.json''"

section \<open>Effects on the world\<close>

definition ext :: "('d, 'a) act \<Rightarrow> ('d world, 'a) act" where
  "ext m w = (let (r, d) = m (w_ext w) in (r, w\<lparr>w_ext := d\<rparr>))"

definition ext_fun :: "('d \<Rightarrow> 'a \<times> 'd) \<Rightarrow> ('d world, 'a) act" where
  "ext_fun f w = (let (x, d) = f (w_ext w) in (Inr x, w\<lparr>w_ext := d\<rparr>))"

definition trace :: "io \<Rightarrow> ('d world, unit) act" where
  "trace event = modify (\<lambda>w. w\<lparr>w_io := w_io w @ [event]\<rparr>)"

text \<open>\<open>_write_atomic\<close>: the file is replaced as a whole or not at all; \<open>out\<close> is what becomes visible.\<close>

definition write_atomic ::
  "('d, 'z) services_scheme \<Rightarrow> (store \<Rightarrow> store) \<Rightarrow> io list \<Rightarrow> ('d world, unit) act" where
  "write_atomic v put out w =
     (case v_disk v (w_ext w) of
        (Written, d) \<Rightarrow> (Inr (), w\<lparr>w_ext := d, w_store := put (w_store w), w_io := w_io w @ out\<rparr>)
      | (FailedBefore x, d) \<Rightarrow> (Inl x, w\<lparr>w_ext := d\<rparr>)
      | (FailedAfter x, d) \<Rightarrow> (Inl x, w\<lparr>w_ext := d, w_store := put (w_store w), w_io := w_io w @ out\<rparr>))"

definition others :: "('d, 'z) services_scheme \<Rightarrow> ('d world, unit) act" where
  "others v = modify (\<lambda>w. w\<lparr>w_store := v_others v (w_ext w) (w_store w)\<rparr>)"

text \<open>\<open>AuditLog.event\<close>\<close>

definition audit_record :: "('d, 'z) services_scheme \<Rightarrow> audit_event \<Rightarrow> ('d world, unit) act" where
  "audit_record v event = seq (ext (v_audit v event)) (trace (Audited event))"

section \<open>The budget clock\<close>

definition put_clock :: "anchor \<Rightarrow> store \<Rightarrow> store" where
  "put_clock a s = s\<lparr>s_clock := Some (Holds (Some a))\<rparr>"

text \<open>\<open>Some (Holds None)\<close> is a clock file of another shape; one that does not parse raises a
  \<open>ValueError\<close>, which \<open>budget_now\<close> turns into its own refusal.\<close>

definition read_clock :: "('d world, anchor option option) act" where
  "read_clock = bind (fetch (\<lambda>w. s_clock (w_store w))) (\<lambda>f. case f of
     None \<Rightarrow> ret None
   | Some Damaged \<Rightarrow> throw (OtherError ''ValueError'' '''')
   | Some (Holds a) \<Rightarrow> ret (Some a))"

definition new_anchor :: "('d, 'z) services_scheme \<Rightarrow> string \<Rightarrow> real \<Rightarrow> ('d world, anchor) act" where
  "new_anchor v boot now = bind (ext_fun (v_time v)) (\<lambda>t.
     let a = \<lparr>an_boot = boot, an_epoch = t, an_monotonic = now\<rparr>
     in seq (write_atomic v (put_clock a) []) (ret a))"

definition current_anchor ::
  "('d, 'z) services_scheme \<Rightarrow> string \<Rightarrow> real \<Rightarrow> anchor option option \<Rightarrow> ('d world, anchor) act" where
  "current_anchor v boot now anchor = (case anchor of
     None \<Rightarrow> new_anchor v boot now
   | Some None \<Rightarrow> throw (unreadable ''budget-clock.json'')
   | Some (Some a) \<Rightarrow>
       if \<not> boot_name (an_boot a) then throw (unreadable ''budget-clock.json'')
       else if an_boot a \<noteq> boot then new_anchor v boot now
       else ret a)"

definition elapsed :: "anchor \<Rightarrow> real \<Rightarrow> ('d world, real) act" where
  "elapsed a now =
     (if now < an_monotonic a
      then throw (StateUnreadable [''the host monotonic clock moved backwards for change budgets''])
      else ret (an_epoch a + now - an_monotonic a))"

definition budget_now_raw :: "('d, 'z) services_scheme \<Rightarrow> ('d world, real) act" where
  "budget_now_raw v =
     bind (ext (v_boot v)) (\<lambda>boot.
     if \<not> boot_name boot
     then throw (StateUnreadable [''the host boot identity cannot be read for change budgets''])
     else seq (ext (v_lock_file v ''.budget-clock.lock''))
     (bind read_clock (\<lambda>anchor.
     bind (ext_fun (v_monotonic v)) (\<lambda>now.
     bind (current_anchor v boot now anchor) (\<lambda>a. elapsed a now)))))"

text \<open>\<open>except (OSError, ValueError, subprocess.SubprocessError)\<close>: other exceptions pass.\<close>

definition OS_ERRORS :: "string list" where
  "OS_ERRORS = [''OSError'', ''BlockingIOError'', ''ChildProcessError'', ''ConnectionError'', ''BrokenPipeError'',
     ''ConnectionAbortedError'', ''ConnectionRefusedError'', ''ConnectionResetError'', ''FileExistsError'',
     ''FileNotFoundError'', ''InterruptedError'', ''IsADirectoryError'', ''NotADirectoryError'',
     ''PermissionError'', ''ProcessLookupError'', ''TimeoutError'']"

definition VALUE_ERRORS :: "string list" where
  "VALUE_ERRORS = [''ValueError'', ''UnicodeError'', ''UnicodeDecodeError'', ''UnicodeEncodeError'', ''JSONDecodeError'']"

definition SUBPROCESS_ERRORS :: "string list" where
  "SUBPROCESS_ERRORS = [''SubprocessError'', ''CalledProcessError'', ''TimeoutExpired'']"

fun is_os_error :: "exn \<Rightarrow> bool" where
  "is_os_error (OtherError c _) = (c \<in> set OS_ERRORS)"
| "is_os_error _ = False"

fun is_clock_error :: "exn \<Rightarrow> bool" where
  "is_clock_error (OtherError c _) = (c \<in> set (OS_ERRORS @ VALUE_ERRORS @ SUBPROCESS_ERRORS))"
| "is_clock_error _ = False"

definition budget_now :: "('d, 'z) services_scheme \<Rightarrow> ('d world, real) act" where
  "budget_now v = handle (budget_now_raw v)
     (\<lambda>x. if is_clock_error x
          then throw (StateUnreadable [''the host budget clock cannot be read: '' @ class_name x])
          else throw x)"

fun message :: "exn \<Rightarrow> string" where
  "message (OtherError _ m) = m"
| "message (AccessError m _) = m"
| "message x = join ''; '' (reasons_of x)"

text \<open>The probe file is written and removed again.\<close>

definition check_writable :: "('d, 'z) services_scheme \<Rightarrow> ('d world, unit) act" where
  "check_writable v = handle (seq (write_atomic v (\<lambda>s. s) []) (write_atomic v (\<lambda>s. s) []))
     (\<lambda>x. if is_os_error x
          then throw (Rejected [''the journal cannot be written durably: '' @ message x]) else throw x)"

section \<open>Locks\<close>

definition hold :: "string \<Rightarrow> store \<Rightarrow> store" where
  "hold name s = s\<lparr>s_held := (if name \<in> set (s_held s) then s_held s else s_held s @ [name])\<rparr>"

definition unhold :: "string \<Rightarrow> store \<Rightarrow> store" where
  "unhold name s = s\<lparr>s_held := filter (\<lambda>n. n \<noteq> name) (s_held s)\<rparr>"

definition on_store :: "(store \<Rightarrow> store) \<Rightarrow> ('d world, unit) act" where
  "on_store f = modify (\<lambda>w. w\<lparr>w_store := f (w_store w)\<rparr>)"

text \<open>\<open>with store.lock(device): m\<close>. The lock is released on every way out of the body.\<close>

definition with_lock :: "('d, 'z) services_scheme \<Rightarrow> string \<Rightarrow> ('d world, 'a) act \<Rightarrow> ('d world, 'a) act" where
  "with_lock v name m =
     (if \<not> DEVICE_NAME name then throw (Rejected [''the device name of the journal cannot name a lock''])
      else seq (ext (v_lock_file v name)) (seq (ext (v_flock v name)) (seq (on_store (hold name))
        (attempt m (\<lambda>x. seq (on_store (unhold name)) (throw x))
                   (\<lambda>r. seq (on_store (unhold name)) (ret r))))))"

text \<open>\<open>with store.admission(): m\<close>; it does not enter the set of held device locks.\<close>

definition with_admission :: "('d, 'z) services_scheme \<Rightarrow> ('d world, 'a) act \<Rightarrow> ('d world, 'a) act" where
  "with_admission v m = seq (ext (v_lock_file v ''.admission.lock'')) (seq (ext (v_admission v)) m)"

section \<open>Requests and operations\<close>

text \<open>\<open>_document\<close>: a missing file is \<open>None\<close>, a damaged one stops the caller.\<close>

definition document :: "string \<Rightarrow> 'a jfile option \<Rightarrow> ('s, 'a option) act" where
  "document path f = (case f of
     None \<Rightarrow> ret None
   | Some Damaged \<Rightarrow> throw (unreadable path)
   | Some (Holds x) \<Rightarrow> ret (Some x))"

definition store_request :: "string \<Rightarrow> ('d world, request_entry option) act" where
  "store_request request_id =
     (if \<not> REQUEST_NAME request_id then ret None
      else bind (fetch (\<lambda>w. map_of (s_requests (w_store w)) request_id)) (\<lambda>f.
           bind (document (json_path ''requests'' request_id) f) (\<lambda>doc.
           case doc of
             None \<Rightarrow> ret None
           | Some entry \<Rightarrow>
               if \<not> CHANGE_NAME (re_change_id entry) \<or> re_request_id entry \<noteq> request_id
                  \<or> \<not> safe_text (re_device entry)
               then throw (unreadable (json_path ''requests'' request_id))
               else ret (Some entry))))"

definition put_request :: "request_entry \<Rightarrow> store \<Rightarrow> store" where
  "put_request entry s = s\<lparr>s_requests := AList.update (re_request_id entry) (Holds entry) (s_requests s)\<rparr>"

definition remember_request ::
  "('d, 'z) services_scheme \<Rightarrow> string \<Rightarrow> string \<Rightarrow> string \<Rightarrow> string \<Rightarrow> ('d world, unit) act" where
  "remember_request v request_id change_id fingerprint dev =
     write_atomic v (put_request \<lparr>re_request_id = request_id, re_change_id = change_id,
       re_request_sha256 = fingerprint, re_device = dev\<rparr>) []"

text \<open>\<open>_operation(path)\<close>; the name of the file is the change identifier of the record it holds.\<close>

definition operation_at :: "string \<Rightarrow> store \<Rightarrow> operation jfile option" where
  "operation_at stem s = (case map_of (s_operations s) stem of
     None \<Rightarrow> None
   | Some (_, Damaged) \<Rightarrow> Some Damaged
   | Some (_, Holds r) \<Rightarrow>
       if op_change_id r = stem \<and> op_status r \<in> set [''running'', ''finished''] then Some (Holds r)
       else Some Damaged)"

definition load_operation :: "string \<Rightarrow> ('d world, operation option) act" where
  "load_operation stem =
     bind (fetch (\<lambda>w. operation_at stem (w_store w))) (document (json_path ''operations'' stem))"

definition store_operation :: "string \<Rightarrow> ('d world, operation option) act" where
  "store_operation change_id = (if \<not> CHANGE_NAME change_id then ret None else load_operation change_id)"

definition put_operation :: "operation \<Rightarrow> store \<Rightarrow> store" where
  "put_operation r s = s\<lparr>s_operations := AList.update (op_change_id r) (s_stamp s, Holds r) (s_operations s),
     s_stamp := Suc (s_stamp s)\<rparr>"

definition save :: "('d, 'z) services_scheme \<Rightarrow> operation \<Rightarrow> ('d world, unit) act" where
  "save v r = write_atomic v (put_operation r) [Saved r]"

definition revision :: "string \<Rightarrow> store \<Rightarrow> nat option" where
  "revision stem s = map_option fst (map_of (s_operations s) stem)"

definition update_conflict :: "string \<Rightarrow> exn" where
  "update_conflict change_id =
     Rejected [''the journal record '' @ change_id @ '' changed during the update; nothing was saved'']"

text \<open>\<open>_updated\<close>: read, let the caller decide, and write only over the revision that was read.
  Other processes may act between the two. The flag says whether the callback asked to save, which
  the closures of the callers record.\<close>

definition updated ::
  "('d, 'z) services_scheme \<Rightarrow> string \<Rightarrow> (operation \<Rightarrow> operation option) \<Rightarrow> ('d world, operation \<times> bool) act" where
  "updated v change_id change =
     bind (load_operation change_id) (\<lambda>found.
     bind (fetch (\<lambda>w. revision change_id (w_store w))) (\<lambda>rev.
     case found of
       None \<Rightarrow> throw (unreadable (json_path ''operations'' change_id))
     | Some record \<Rightarrow>
         (case change record of
            None \<Rightarrow> ret (record, False)
          | Some record' \<Rightarrow>
              seq (others v)
              (bind (fetch (\<lambda>w. revision change_id (w_store w))) (\<lambda>now.
               if now \<noteq> rev
               then throw (update_conflict change_id)
               else seq (write_atomic v (put_operation record') [Saved record']) (ret (record', True)))))))"

definition update ::
  "('d, 'z) services_scheme \<Rightarrow> string \<Rightarrow> (operation \<Rightarrow> operation option) \<Rightarrow> ('d world, (operation \<times> bool) option) act" where
  "update v change_id change =
     bind (store_operation change_id) (\<lambda>found.
     case found of
       None \<Rightarrow> ret None
     | Some record \<Rightarrow>
         bind (fetch (\<lambda>w. s_held (w_store w))) (\<lambda>held.
         if op_device record \<in> set held
         then bind (updated v change_id change) (\<lambda>r. ret (Some r))
         else with_lock v (op_device record) (bind (updated v change_id change) (\<lambda>r. ret (Some r)))))"

text \<open>\<open>records\<close> and \<open>running\<close> read every journal file in the order of the file names.\<close>

definition stems :: "store \<Rightarrow> string list" where
  "stems s = sort_key (\<lambda>stem. stem @ ''.json'') (keys (s_operations s))"

fun load_all :: "string list \<Rightarrow> ('d world, operation list) act" where
  "load_all [] = ret []"
| "load_all (stem # rest) =
     bind (load_operation stem) (\<lambda>found.
     bind (load_all rest) (\<lambda>rs. ret (case found of None \<Rightarrow> rs | Some r \<Rightarrow> r # rs)))"

definition records :: "('d world, operation list) act" where
  "records = bind (fetch (\<lambda>w. stems (w_store w))) load_all"

definition running :: "string \<Rightarrow> ('d world, operation list) act" where
  "running dev = bind records (\<lambda>rs. ret (filter (\<lambda>r. op_device r = dev \<and> op_status r = ''running'') rs))"

section \<open>Refused requests\<close>

definition refused :: "('d world, real list) act" where
  "refused = bind (fetch (\<lambda>w. s_rejections (w_store w))) (\<lambda>f. case f of
     None \<Rightarrow> ret []
   | Some Damaged \<Rightarrow> throw (Rejected [''the count of refused requests (rejections.json) cannot be read; a person must check it''])
   | Some (Holds ms) \<Rightarrow> ret ms)"

definition rejections_since :: "real \<Rightarrow> ('d world, int) act" where
  "rejections_since since = bind refused (\<lambda>ms. ret (int (length (filter (\<lambda>m. m \<ge> since) ms))))"

definition last_entries :: "nat \<Rightarrow> 'a list \<Rightarrow> 'a list" where
  "last_entries n xs = drop (length xs - n) xs"

definition put_rejections :: "real list \<Rightarrow> store \<Rightarrow> store" where
  "put_rejections ms s = s\<lparr>s_rejections := Some (Holds ms)\<rparr>"

definition note_rejection :: "('d, 'z) services_scheme \<Rightarrow> real \<Rightarrow> ('d world, unit) act" where
  "note_rejection v now = seq (ext (v_lock_file v ''.rejections.lock'')) (bind refused (\<lambda>ms.
     write_atomic v (put_rejections (last_entries MAX_REJECTION_ENTRIES
       (filter (\<lambda>m. m \<ge> now - REJECTION_WINDOW) ms @ [now]))) []))"

section \<open>Baselines, enrollments and blocks\<close>

text \<open>\<open>_removed\<close>: a file that is not there is no error, one that cannot be removed is.\<close>

definition removed ::
  "('d, 'z) services_scheme \<Rightarrow> string \<Rightarrow> (store \<Rightarrow> bool) \<Rightarrow> (store \<Rightarrow> store) \<Rightarrow> ('d world, bool) act" where
  "removed v path present remove w =
     (if \<not> present (w_store w) then (Inr False, w)
      else case v_disk v (w_ext w) of
        (Written, d) \<Rightarrow> (Inr True, w\<lparr>w_ext := d, w_store := remove (w_store w)\<rparr>)
      | (FailedBefore _, d) \<Rightarrow> (Inl (unreadable path), w\<lparr>w_ext := d\<rparr>)
      | (FailedAfter x, d) \<Rightarrow> (Inl x, w\<lparr>w_ext := d, w_store := remove (w_store w)\<rparr>))"

definition store_baseline :: "string \<Rightarrow> ('d world, string option) act" where
  "store_baseline dev = bind (fetch (\<lambda>w. map_of (s_baselines (w_store w)) dev)) (document (json_path ''baselines'' dev))"

definition put_baseline :: "string \<Rightarrow> string \<Rightarrow> store \<Rightarrow> store" where
  "put_baseline dev fingerprint s = s\<lparr>s_baselines := AList.update dev (Holds fingerprint) (s_baselines s)\<rparr>"

definition save_baseline :: "('d, 'z) services_scheme \<Rightarrow> string \<Rightarrow> string \<Rightarrow> ('d world, unit) act" where
  "save_baseline v dev fingerprint = write_atomic v (put_baseline dev fingerprint) []"

definition clear_baseline :: "('d, 'z) services_scheme \<Rightarrow> string \<Rightarrow> ('d world, unit) act" where
  "clear_baseline v dev = seq (removed v (json_path ''baselines'' dev)
     (\<lambda>s. map_of (s_baselines s) dev \<noteq> None)
     (\<lambda>s. s\<lparr>s_baselines := AList.delete dev (s_baselines s)\<rparr>)) (ret ())"

definition store_enrollment :: "string \<Rightarrow> ('d world, certificate option) act" where
  "store_enrollment dev = bind (fetch (\<lambda>w. map_of (s_enrollments (w_store w)) dev)) (document (json_path ''enrollments'' dev))"

definition put_enrollment :: "string \<Rightarrow> certificate \<Rightarrow> store \<Rightarrow> store" where
  "put_enrollment dev c s = s\<lparr>s_enrollments := AList.update dev (Holds c) (s_enrollments s)\<rparr>"

definition save_enrollment :: "('d, 'z) services_scheme \<Rightarrow> string \<Rightarrow> certificate \<Rightarrow> ('d world, unit) act" where
  "save_enrollment v dev c = write_atomic v (put_enrollment dev c) []"

definition clear_enrollment :: "('d, 'z) services_scheme \<Rightarrow> string \<Rightarrow> ('d world, unit) act" where
  "clear_enrollment v dev = seq (removed v (json_path ''enrollments'' dev)
     (\<lambda>s. map_of (s_enrollments s) dev \<noteq> None)
     (\<lambda>s. s\<lparr>s_enrollments := AList.delete dev (s_enrollments s)\<rparr>)) (ret ())"

text \<open>\<open>_block_valid\<close>\<close>

definition block_valid :: "block \<Rightarrow> bool" where
  "block_valid b \<longleftrightarrow> safe_text (bk_device b) \<and> safe_text (bk_reason b)
     \<and> (case bk_change_id b of None \<Rightarrow> True | Some c \<Rightarrow> CHANGE_NAME c)"

definition block_at :: "string \<Rightarrow> store \<Rightarrow> block jfile option" where
  "block_at dev s = (case map_of (s_blocks s) dev of
     Some (Holds b) \<Rightarrow> if block_valid b then Some (Holds b) else Some Damaged
   | f \<Rightarrow> f)"

definition blocked :: "string \<Rightarrow> ('d world, block option) act" where
  "blocked dev = bind (fetch (\<lambda>w. block_at dev (w_store w))) (document (json_path ''blocked'' dev))"

definition put_block :: "block \<Rightarrow> store \<Rightarrow> store" where
  "put_block b s = s\<lparr>s_blocks := AList.update (bk_device b) (Holds b) (s_blocks s)\<rparr>"

definition block_device ::
  "('d, 'z) services_scheme \<Rightarrow> string \<Rightarrow> string option \<Rightarrow> string \<Rightarrow> ('d world, unit) act" where
  "block_device v dev change_id reason =
     write_atomic v (put_block \<lparr>bk_device = dev, bk_change_id = change_id, bk_reason = reason\<rparr>)
       [Blocked dev change_id reason]"

definition unblock_device :: "('d, 'z) services_scheme \<Rightarrow> string \<Rightarrow> block \<Rightarrow> ('d world, bool) act" where
  "unblock_device v dev expected =
     bind (blocked dev) (\<lambda>current. case current of
       None \<Rightarrow> ret False
     | Some b \<Rightarrow>
         if b \<noteq> expected
         then throw (Rejected [''the block of device '' @ dev @ '' changed while it was being lifted (now: ''
           @ bk_reason b @ '', operation '' @ (case bk_change_id b of None \<Rightarrow> ''none'' | Some c \<Rightarrow> c)
           @ ''); nothing was removed, a person must check the new block''])
         else removed v (json_path ''blocked'' dev) (\<lambda>s. map_of (s_blocks s) dev \<noteq> None)
           (\<lambda>s. s\<lparr>s_blocks := AList.delete dev (s_blocks s)\<rparr>))"

section \<open>Observations of the state\<close>

text \<open>The number of refusals since a moment, and the reading of the monotonic clock that a call of
  \<open>budget_now\<close> takes.\<close>

definition refused_since :: "real \<Rightarrow> store \<Rightarrow> int" where
  "refused_since since s = (case s_rejections s of
     Some (Holds ms) \<Rightarrow> int (length (filter (\<lambda>m. m \<ge> since) ms)) | _ \<Rightarrow> 0)"

definition clock_reading :: "('d, 'z) services_scheme \<Rightarrow> 'd world \<Rightarrow> real" where
  "clock_reading v w =
     fst (v_monotonic v (snd (v_lock_file v ''.budget-clock.lock'' (snd (v_boot v (w_ext w))))))"

section \<open>A quiet host\<close>

text \<open>A host on which every service works, with a monotonic clock that advances by one at every
  reading, and an empty state directory; the witnesses are evaluated there.\<close>

definition quiet_services :: "real services" where
  "quiet_services = \<lparr>v_disk = Pair Written, v_lock_file = (\<lambda>_. ret ()), v_flock = (\<lambda>_. ret ()), v_admission = ret (),
     v_others = (\<lambda>_ s. s), v_time = Pair 1000, v_monotonic = (\<lambda>t. (t, t + 1)),
     v_boot = ret ''00000000-0000-0000-0000-000000000000'', v_audit = (\<lambda>_. ret ())\<rparr>"

definition empty_store :: store where
  "empty_store = \<lparr>s_operations = [], s_requests = [], s_blocks = [], s_baselines = [], s_enrollments = [],
     s_rejections = None, s_clock = None, s_held = [], s_stamp = 0\<rparr>"

definition quiet_world :: "real world" where
  "quiet_world = \<lparr>w_store = empty_store, w_ext = 5, w_io = [], w_record = sample_operation\<rparr>"

definition sample_block :: block where
  "sample_block = \<lparr>bk_device = ''sw1'', bk_change_id = None, bk_reason = ''administrator table''\<rparr>"

text \<open>Another process that saved the record again between the two accesses.\<close>

definition busy_services :: "real services" where
  "busy_services = quiet_services\<lparr>v_others := (\<lambda>_. put_operation (sample_operation\<lparr>op_reason := Some ''other''\<rparr>))\<rparr>"

lemmas quiet_defs = quiet_services_def empty_store_def quiet_world_def sample_operation_def

lemma quiet_boot: "boot_name ''00000000-0000-0000-0000-000000000000''"
  by code_simp

lemma sample_block_valid: "block_valid sample_block"
  by code_simp

section \<open>Effects: shared lemmas\<close>

lemmas world_defs = ext_def ext_fun_def trace_def write_atomic_def others_def on_store_def

lemma write_atomic_cases:
  assumes "write_atomic v put out w = (r, w')"
  obtains (written) "r = Inr ()" "w_store w' = put (w_store w)" "w_io w' = w_io w @ out"
    | (kept) x where "r = Inl x" "w_store w' = w_store w" "w_io w' = w_io w"
    | (torn) x where "r = Inl x" "w_store w' = put (w_store w)" "w_io w' = w_io w @ out"
  using assms by (auto simp: write_atomic_def split: prod.splits write_outcome.splits)

lemma ext_frame:
  assumes "ext m w = (r, w')"
  shows "w_store w' = w_store w" and "w_io w' = w_io w" and "w_record w' = w_record w"
  using assms by (auto simp: ext_def split: prod.splits)

lemma ext_fun_frame:
  assumes "ext_fun f w = (r, w')"
  shows "w_store w' = w_store w" and "w_io w' = w_io w" and "w_record w' = w_record w"
  using assms by (auto simp: ext_fun_def split: prod.splits)

section \<open>The contract of a directory of documents\<close>

text \<open>A directory is read by name and written one whole document at a time; \<open>ok k x\<close> says that a
  document is one the reader of the directory accepts under that name.\<close>

locale file_table =
  fixes get :: "'k \<Rightarrow> store \<Rightarrow> 'v jfile option"
    and put :: "'k \<Rightarrow> 'v \<Rightarrow> store \<Rightarrow> store"
    and ok :: "'k \<Rightarrow> 'v \<Rightarrow> bool"
  assumes get_put: "ok k x \<Longrightarrow> get k (put k x s) = Some (Holds x)"
    and get_put_other: "k' \<noteq> k \<Longrightarrow> get k' (put k x s) = get k' s"
begin

lemma write_reads_back:
  assumes "write_atomic v (put k x) out w = (Inr (), w')" and "ok k x"
  shows "get k (w_store w') = Some (Holds x)"
  using assms(1) by (rule write_atomic_cases) (simp_all add: get_put assms(2))

lemma write_all_or_nothing:
  assumes "write_atomic v (put k x) out w = (r, w')" and "ok k x"
  shows "get k (w_store w') = get k (w_store w) \<or> get k (w_store w') = Some (Holds x)"
  using assms(1) by (rule write_atomic_cases) (simp_all add: get_put assms(2))

lemma write_keeps_others:
  assumes "write_atomic v (put k x) out w = (r, w')" and "k' \<noteq> k"
  shows "get k' (w_store w') = get k' (w_store w)"
  using assms(1) by (rule write_atomic_cases) (simp_all add: get_put_other assms(2))

end

text \<open>A directory whose documents are also removed.\<close>

locale removable_table = file_table +
  fixes drop_file :: "'a \<Rightarrow> store \<Rightarrow> store"
    and present :: "'a \<Rightarrow> store \<Rightarrow> bool"
  assumes get_drop: "get k (drop_file k s) = None"
    and get_drop_other: "k' \<noteq> k \<Longrightarrow> get k' (drop_file k s) = get k' s"
    and present_get: "present k s \<longleftrightarrow> get k s \<noteq> None"
begin

lemma removed_absent:
  assumes "removed v path (present k) (drop_file k) w = (Inr b, w')"
  shows "get k (w_store w') = None" and "b \<longleftrightarrow> get k (w_store w) \<noteq> None"
  using assms
  by (auto simp: removed_def get_drop present_get split: if_splits prod.splits write_outcome.splits)

lemma removed_keeps_others:
  assumes "removed v path (present k) (drop_file k) w = (r, w')" and "k' \<noteq> k"
  shows "get k' (w_store w') = get k' (w_store w)"
  using assms
  by (auto simp: removed_def get_drop_other split: if_splits prod.splits write_outcome.splits)

end

interpretation requests: file_table "\<lambda>k s. map_of (s_requests s) k"
    "\<lambda>k x. put_request (x\<lparr>re_request_id := k\<rparr>)" "\<lambda>k x. re_request_id x = k"
  by unfold_locales (simp_all add: put_request_def)

interpretation journal: file_table operation_at "\<lambda>k x. put_operation (x\<lparr>op_change_id := k\<rparr>)"
    "\<lambda>k x. op_change_id x = k \<and> op_status x \<in> set [''running'', ''finished'']"
  by unfold_locales (auto simp: operation_at_def put_operation_def)

interpretation baselines: removable_table "\<lambda>k s. map_of (s_baselines s) k" put_baseline "\<lambda>k x. True"
    "\<lambda>k s. s\<lparr>s_baselines := AList.delete k (s_baselines s)\<rparr>" "\<lambda>k s. map_of (s_baselines s) k \<noteq> None"
  by unfold_locales (simp_all add: put_baseline_def)

interpretation enrollments: removable_table "\<lambda>k s. map_of (s_enrollments s) k" put_enrollment "\<lambda>k x. True"
    "\<lambda>k s. s\<lparr>s_enrollments := AList.delete k (s_enrollments s)\<rparr>" "\<lambda>k s. map_of (s_enrollments s) k \<noteq> None"
  by unfold_locales (simp_all add: put_enrollment_def)

interpretation blocks_table: removable_table block_at "\<lambda>k x. put_block (x\<lparr>bk_device := k\<rparr>)"
    "\<lambda>k x. bk_device x = k \<and> block_valid x"
    "\<lambda>k s. s\<lparr>s_blocks := AList.delete k (s_blocks s)\<rparr>" "\<lambda>k s. map_of (s_blocks s) k \<noteq> None"
  by unfold_locales (auto simp: block_at_def put_block_def split: option.splits jfile.splits)

section \<open>Properties of the journal\<close>

lemma put_operation_self: "put_operation (x\<lparr>op_change_id := op_change_id x\<rparr>) = put_operation x"
  by simp

lemma load_operation_eq:
  "load_operation stem w = (case operation_at stem (w_store w) of
     None \<Rightarrow> (Inr None, w)
   | Some Damaged \<Rightarrow> (Inl (unreadable (json_path ''operations'' stem)), w)
   | Some (Holds r) \<Rightarrow> (Inr (Some r), w))"
  by (simp add: load_operation_def document_def act_defs split: option.splits jfile.splits)

lemma load_operation_Inr:
  "load_operation stem w = (Inr (Some r), w') \<longleftrightarrow> w' = w \<and> operation_at stem (w_store w) = Some (Holds r)"
  by (auto simp: load_operation_eq split: option.splits jfile.splits)







section \<open>Properties of blocks, refusals and the budget clock\<close>

lemma blocked_eq:
  "blocked dev w = (case block_at dev (w_store w) of
     None \<Rightarrow> (Inr None, w)
   | Some Damaged \<Rightarrow> (Inl (unreadable (json_path ''blocked'' dev)), w)
   | Some (Holds b) \<Rightarrow> (Inr (Some b), w))"
  by (simp add: blocked_def document_def act_defs split: option.splits jfile.splits)

text \<open>(C22) Lifting a block removes only the block the person saw: when \<open>unblock\<close> reports that it
  removed one, the file held exactly the expected block and holds none now; when it held another
  one (a new block, or a damaged file), nothing is removed; and no other device is affected.\<close>

theorem unblock_device_only_expected:
  assumes "unblock_device v dev expected w = (res, w')"
  shows "(res = Inr True \<longrightarrow> block_at dev (w_store w) = Some (Holds expected) \<and> block_at dev (w_store w') = None) \<and>
         (block_at dev (w_store w) \<noteq> Some (Holds expected) \<longrightarrow> res \<noteq> Inr True \<and> w_store w' = w_store w) \<and>
         (\<forall>other. other \<noteq> dev \<longrightarrow> block_at other (w_store w') = block_at other (w_store w))"
proof (cases "block_at dev (w_store w) = Some (Holds expected)")
  case True
  then have "removed v (json_path ''blocked'' dev) (\<lambda>s. map_of (s_blocks s) dev \<noteq> None)
      (\<lambda>s. s\<lparr>s_blocks := AList.delete dev (s_blocks s)\<rparr>) w = (res, w')"
    using assms by (simp add: unblock_device_def blocked_eq bind_def)
  with True show ?thesis
    using blocks_table.removed_absent blocks_table.removed_keeps_others by blast
next
  case False
  with assms have "res \<noteq> Inr True \<and> w_store w' = w_store w"
    by (auto simp: unblock_device_def blocked_eq act_defs simp del: append.simps
        split: option.splits jfile.splits if_splits)
  with False show ?thesis by simp
qed

theorem unblock_device_only_expected_witness:
  "block_at ''sw1'' (w_store (snd (unblock_device quiet_services ''sw1'' sample_block
     (quiet_world\<lparr>w_store := put_block sample_block empty_store\<rparr>)))) = None"
proof -
  let ?w = "quiet_world\<lparr>w_store := put_block sample_block empty_store\<rparr>"
  have "unblock_device quiet_services ''sw1'' sample_block ?w
      = (Inr True, snd (unblock_device quiet_services ''sw1'' sample_block ?w))"
    using sample_block_valid
    by (simp add: unblock_device_def blocked_eq block_at_def put_block_def sample_block_def quiet_defs removed_def
        bind_def)
  from unblock_device_only_expected [OF this] show ?thesis by simp
qed

lemma rejections_since_eq:
  "s_rejections (w_store w) \<noteq> Some Damaged \<Longrightarrow> rejections_since since w = (Inr (refused_since since (w_store w)), w)"
  by (auto simp: rejections_since_def refused_def refused_since_def act_defs split: option.splits jfile.splits)

lemma length_last_entries [simp]: "length (last_entries n xs) = min n (length xs)"
  by (simp add: last_entries_def)

lemma set_last_entries: "set (last_entries n xs) \<subseteq> set xs"
  by (auto simp: last_entries_def dest: in_set_dropD)

lemma filter_last_entries: "list_all P xs \<Longrightarrow> filter P (last_entries n xs) = last_entries n xs"
  using set_last_entries [of n xs] by (auto simp: list_all_iff filter_id_conv)

text \<open>(C25) The count of refused requests is exact and bounded: noting a refusal that was written raises
  the number of refusals of the last hour by one, up to the cap of 10000 entries, and the file
  never holds more entries than the cap.\<close>

theorem note_rejection_counts:
  assumes "note_rejection v now w = (Inr (), w')"
  shows "refused_since (now - REJECTION_WINDOW) (w_store w') =
           min (int MAX_REJECTION_ENTRIES) (refused_since (now - REJECTION_WINDOW) (w_store w) + 1) \<and>
         (\<exists>ms. s_rejections (w_store w') = Some (Holds ms) \<and> length ms \<le> MAX_REJECTION_ENTRIES)"
proof -
  define since where "since = now - REJECTION_WINDOW"
  obtain w1 w2 ms where "ext (v_lock_file v ''.rejections.lock'') w = (Inr (), w1)"
    and old: "refused w1 = (Inr ms, w2)"
    and stored: "write_atomic v (put_rejections (last_entries MAX_REJECTION_ENTRIES
      (filter (\<lambda>m. m \<ge> since) ms @ [now]))) [] w2 = (Inr (), w')"
    using assms unfolding note_rejection_def since_def by (elim seq_Inr_cases bind_Inr_cases) auto
  then have same: "w_store w1 = w_store w" by (simp add: ext_frame)
  have "w2 = w1" and count: "refused_since since (w_store w) = int (length (filter (\<lambda>m. m \<ge> since) ms))"
    using old by (auto simp: refused_def refused_since_def act_defs same split: option.splits jfile.splits)
  have "list_all (\<lambda>m. m \<ge> since) (filter (\<lambda>m. m \<ge> since) ms @ [now])"
    by (simp add: list_all_iff since_def REJECTION_WINDOW_def)
  note kept = filter_last_entries [OF this, of MAX_REJECTION_ENTRIES]
  have "w_store w' = put_rejections (last_entries MAX_REJECTION_ENTRIES (filter (\<lambda>m. m \<ge> since) ms @ [now])) (w_store w)"
    using stored same \<open>w2 = w1\<close> by (auto elim!: write_atomic_cases)
  then have "s_rejections (w_store w') = Some (Holds (last_entries MAX_REJECTION_ENTRIES
      (filter (\<lambda>m. m \<ge> since) ms @ [now])))"
    by (simp add: put_rejections_def)
  with kept count show ?thesis
    by (auto simp: refused_since_def since_def [symmetric])
qed

theorem note_rejection_counts_witness:
  "refused_since (5 - REJECTION_WINDOW) (w_store (snd (note_rejection quiet_services 5 quiet_world))) = 1"
proof -
  have "note_rejection quiet_services 5 quiet_world = (Inr (), snd (note_rejection quiet_services 5 quiet_world))"
    by (simp add: note_rejection_def refused_def write_atomic_def ext_def quiet_defs act_defs)
  from note_rejection_counts [OF this] show ?thesis
    by (simp add: refused_since_def MAX_REJECTION_ENTRIES_def quiet_defs)
qed

lemma new_anchor_Inr:
  assumes "new_anchor v boot now w = (Inr a, w')"
  shows "an_boot a = boot \<and> an_monotonic a = now \<and> s_clock (w_store w') = Some (Holds (Some a))"
  using assms
  by (auto simp: new_anchor_def Let_def ret_def put_clock_def ext_fun_def
      elim!: bind_Inr_cases seq_Inr_cases write_atomic_cases)

lemma budget_now_Inr:
  assumes "budget_now v w = (Inr t, w')"
  obtains a where "fst (v_boot v (w_ext w)) = Inr (an_boot a)" and "s_clock (w_store w') = Some (Holds (Some a))"
    and "t = an_epoch a + clock_reading v w - an_monotonic a" and "an_monotonic a \<le> clock_reading v w"
    and "\<forall>b. s_clock (w_store w) = Some (Holds (Some b)) \<longrightarrow> an_boot b = an_boot a \<longrightarrow> b = a"
proof -
  have "budget_now_raw v w = (Inr t, w')"
    using assms by (auto simp: budget_now_def handle_def throw_def split: prod.splits sum.splits if_splits)
  then obtain boot w1 where boot: "ext (v_boot v) w = (Inr boot, w1)" and
    after_boot: "seq (ext (v_lock_file v ''.budget-clock.lock'')) (bind read_clock (\<lambda>anchor.
      bind (ext_fun (v_monotonic v)) (\<lambda>now. bind (current_anchor v boot now anchor) (\<lambda>a. elapsed a now)))) w1 = (Inr t, w')"
    unfolding budget_now_raw_def by (rule bind_Inr_cases) (auto simp: throw_def split: if_splits)
  from after_boot obtain w2 anchor w3 now w4 a w5 where
    lock: "ext (v_lock_file v ''.budget-clock.lock'') w1 = (Inr (), w2)"
    and clock: "read_clock w2 = (Inr anchor, w3)" and mono: "ext_fun (v_monotonic v) w3 = (Inr now, w4)"
    and choice: "current_anchor v boot now anchor w4 = (Inr a, w5)" and reads: "elapsed a now w5 = (Inr t, w')"
    by (elim bind_Inr_cases seq_Inr_cases) auto
  have "w3 = w2" and anchor: "\<And>b. s_clock (w_store w2) = Some (Holds (Some b)) \<Longrightarrow> anchor = Some (Some b)"
    "\<And>b. anchor = Some (Some b) \<Longrightarrow> s_clock (w_store w2) = Some (Holds (Some b))"
    using clock by (auto simp: read_clock_def act_defs split: option.splits jfile.splits)
  have stores: "w_store w4 = w_store w"
    using boot lock mono \<open>w3 = w2\<close> by (simp add: ext_frame ext_fun_frame)
  have stores2: "w_store w2 = w_store w" using boot lock by (simp add: ext_frame)
  have reading: "now = clock_reading v w" and boots: "fst (v_boot v (w_ext w)) = Inr boot"
    using boot lock mono \<open>w3 = w2\<close>
    by (auto simp: clock_reading_def ext_def ext_fun_def split: prod.splits)
  have a: "an_boot a = boot \<and> s_clock (w_store w5) = Some (Holds (Some a))"
    using choice anchor(2) stores stores2
    by (auto simp: current_anchor_def throw_def ret_def dest: new_anchor_Inr split: option.splits if_splits)
  have same: "b = a" if "s_clock (w_store w) = Some (Holds (Some b))" and "an_boot b = an_boot a" for b
    using choice anchor(1) [of b] stores2 that a
    by (auto simp: current_anchor_def throw_def ret_def split: if_splits)
  from reads have "t = an_epoch a + now - an_monotonic a" and "an_monotonic a \<le> now" and "w' = w5"
    by (auto simp: elapsed_def throw_def ret_def split: if_splits)
  with a boots reading same show thesis by (intro that [of a]) auto
qed

text \<open>(C24) The clock of the change budgets follows the monotonic clock of the host: as long as the host
  was not rebooted and the anchor file is the one the first call left, the time between two
  readings is exactly the time that passed on the monotonic clock, whatever happened to the wall
  clock in between, and it never runs backwards past the anchor.\<close>

theorem budget_clock_follows_monotonic:
  assumes "budget_now v w1 = (Inr t1, w1')" and "budget_now v w2 = (Inr t2, w2')"
    and "s_clock (w_store w2) = s_clock (w_store w1')"
    and "fst (v_boot v (w_ext w2)) = fst (v_boot v (w_ext w1))"
  shows "t2 - t1 = clock_reading v w2 - clock_reading v w1 \<and> s_clock (w_store w2') = s_clock (w_store w1')"
proof -
  obtain a where a: "fst (v_boot v (w_ext w1)) = Inr (an_boot a)" "s_clock (w_store w1') = Some (Holds (Some a))"
    "t1 = an_epoch a + clock_reading v w1 - an_monotonic a"
    using assms(1) by (rule budget_now_Inr)
  obtain b where b: "fst (v_boot v (w_ext w2)) = Inr (an_boot b)" "s_clock (w_store w2') = Some (Holds (Some b))"
    "t2 = an_epoch b + clock_reading v w2 - an_monotonic b" "an_monotonic b \<le> clock_reading v w2"
    "\<forall>c. s_clock (w_store w2) = Some (Holds (Some c)) \<longrightarrow> an_boot c = an_boot b \<longrightarrow> c = b"
    using assms(2) by (rule budget_now_Inr)
  have "a = b" using a b(1) b(5) assms(3,4) by simp
  with a b show ?thesis by simp
qed

theorem budget_clock_follows_monotonic_witness:
  "budget_now quiet_services (snd (budget_now quiet_services quiet_world))
     = (Inr 1001, snd (budget_now quiet_services (snd (budget_now quiet_services quiet_world))))"
proof -
  let ?w = "snd (budget_now quiet_services quiet_world)"
  note run = budget_now_def budget_now_raw_def read_clock_def current_anchor_def new_anchor_def elapsed_def
    put_clock_def world_defs act_defs quiet_boot quiet_defs Let_def
  have first: "budget_now quiet_services quiet_world = (Inr 1000, ?w)" by (simp add: run)
  obtain t where second: "budget_now quiet_services ?w = (Inr t, snd (budget_now quiet_services ?w))"
    by (simp add: run)
  have "t - 1000 = clock_reading quiet_services ?w - clock_reading quiet_services quiet_world"
    using budget_clock_follows_monotonic [OF first second] by (simp add: quiet_services_def ret_def)
  moreover have "w_ext ?w = 6" by (simp add: run)
  ultimately have "t = 1001" by (simp add: clock_reading_def quiet_defs ret_def)
  with second show ?thesis by simp
qed

end
