(* ===== verification/Netops_Net.thy ===== *)
theory Netops_Net
  imports Netops_Base "HOL-Library.Word"
begin

text \<open>
  Decimal numerals read back, and the IPv4 part of Python's \<open>ipaddress\<close>: addresses and networks are
  32-bit words, read from dotted quads without leading zeros, with a prefix length, a netmask or a
  host mask after the slash. Every error of the module is a \<open>ValueError\<close>, here \<open>None\<close>.
\<close>

unbundle bit_operations_syntax

section \<open>Texts, integers and lists in messages\<close>

definition show_int :: "int \<Rightarrow> string" where
  "show_int i = (if i < 0 then ''-'' @ show_nat (nat (- i)) else show_nat (nat i))"

text \<open>\<open>str\<close> of a list of strings\<close>

definition py_list :: "string list \<Rightarrow> string" where
  "py_list xs = ''['' @ join '', '' (map py_repr xs) @ '']''"

definition all_digits :: "string \<Rightarrow> bool" where
  "all_digits s \<longleftrightarrow> s \<noteq> [] \<and> list_all is_digit s"

text \<open>\<open>str.splitlines()\<close> on ASCII: a carriage return and a line feed are one break, and the text after
  the last break is a line only when it is not empty.\<close>

definition line_break :: "char \<Rightarrow> bool" where
  "line_break c \<longleftrightarrow> c \<in> set [CHR 0x0A, CHR 0x0B, CHR 0x0C, CHR 0x0D, CHR 0x1C, CHR 0x1D, CHR 0x1E]"

fun line_parts :: "string \<Rightarrow> string \<Rightarrow> string list" where
  "line_parts [] cur = (if cur = [] then [] else [cur])"
| "line_parts (c # cs) cur =
     (if line_break c then cur # (case cs of [] \<Rightarrow> [] | d # ds \<Rightarrow> if c = creturn \<and> d = newline then line_parts ds [] else line_parts cs [])
      else line_parts cs (cur @ [c]))"

definition splitlines :: "string \<Rightarrow> string list" where
  "splitlines s = line_parts s []"

text \<open>The text from the first occurrence of \<open>p\<close> on: \<open>s[s.find(p):]\<close>\<close>

fun suffix_from :: "string \<Rightarrow> string \<Rightarrow> string option" where
  "suffix_from p [] = (if p = [] then Some [] else None)"
| "suffix_from p (c # cs) = (if starts_with p (c # cs) then Some (c # cs) else suffix_from p cs)"

text \<open>Pieces of a regular expression without backtracking: a fixed text, and a longest run\<close>

definition eat :: "string \<Rightarrow> string \<Rightarrow> string option" where
  "eat lit s = (if starts_with lit s then Some (drop (length lit) s) else None)"

definition eat_run :: "(char \<Rightarrow> bool) \<Rightarrow> string \<Rightarrow> (string \<times> string) option" where
  "eat_run P s = (if takeWhile P s = [] then None else Some (takeWhile P s, dropWhile P s))"

text \<open>\<open>dict.update\<close>\<close>

fun update_all :: "('k \<times> 'v) list \<Rightarrow> ('k, 'v) dict \<Rightarrow> ('k, 'v) dict" where
  "update_all [] d = d"
| "update_all ((k, v) # kvs) d = update_all kvs (AList.update k v d)"

section \<open>Addresses\<close>

type_synonym ip = "32 word"

definition parse_octet :: "string \<Rightarrow> nat option" where
  "parse_octet s = (if \<not> all_digits s \<or> length s > 3 \<or> (s \<noteq> ''0'' \<and> hd s = CHR ''0'') \<or> int_of s > 255
     then None else Some (int_of s))"

definition quad :: "nat \<Rightarrow> nat \<Rightarrow> nat \<Rightarrow> nat \<Rightarrow> nat" where
  "quad a b c d = ((a * 256 + b) * 256 + c) * 256 + d"

definition parse_ip :: "string \<Rightarrow> ip option" where
  "parse_ip s = (case map parse_octet (split_on CHR ''.'' s) of
     [Some a, Some b, Some c, Some d] \<Rightarrow> Some (of_nat (quad a b c d))
   | _ \<Rightarrow> None)"

definition show_ip :: "ip \<Rightarrow> string" where
  "show_ip w = (let n = unat w in
     join ''.'' (map show_nat [n div 16777216, n div 65536 mod 256, n div 256 mod 256, n mod 256]))"

section \<open>Networks\<close>

definition prefix_mask :: "nat \<Rightarrow> ip" where
  "prefix_mask n = push_bit (32 - n) (- 1)"

definition mask_prefix :: "ip \<Rightarrow> nat option" where
  "mask_prefix m = find (\<lambda>n. prefix_mask n = m) [0..<33]"

definition parse_mask :: "string \<Rightarrow> ip option" where
  "parse_mask s =
     (if all_digits s \<and> int_of s \<le> 32 then Some (prefix_mask (int_of s))
      else case parse_ip s of
        None \<Rightarrow> None
      | Some m \<Rightarrow> (case mask_prefix m of
          Some n \<Rightarrow> Some (prefix_mask n)
        | None \<Rightarrow> map_option prefix_mask (mask_prefix (NOT m))))"

text \<open>\<open>IPv4Network(s, strict)\<close> as its network address and netmask; \<open>strict\<close> refuses host bits.\<close>

definition parse_network :: "bool \<Rightarrow> string \<Rightarrow> (ip \<times> ip) option" where
  "parse_network strict s = (case split_on CHR ''/'' s of
     [a] \<Rightarrow> map_option (\<lambda>ip. (ip, prefix_mask 32)) (parse_ip a)
   | [a, m] \<Rightarrow> (case (parse_ip a, parse_mask m) of
        (Some ip, Some msk) \<Rightarrow> if ip AND msk = ip then Some (ip, msk)
          else if strict then None else Some (ip AND msk, msk)
      | _ \<Rightarrow> None)
   | _ \<Rightarrow> None)"

definition in_network :: "ip \<Rightarrow> ip \<times> ip \<Rightarrow> bool" where
  "in_network a net \<longleftrightarrow> a AND snd net = fst net"

definition broadcast_address :: "ip \<times> ip \<Rightarrow> ip" where
  "broadcast_address net = fst net OR NOT (snd net)"

section \<open>Numerals read back\<close>

lemma code_digit_char [simp]: "d < 10 \<Longrightarrow> code (digit_char d) = 48 + d"
  by (simp add: code_def digit_char_def)

lemma is_digit_char [simp]: "d < 10 \<Longrightarrow> is_digit (digit_char d)"
  by (simp add: is_digit_def)

lemma nat_value_append: "nat_value (xs @ ys) acc = nat_value ys (nat_value xs acc)"
  by (induction xs arbitrary: acc) auto

lemma nat_value_show: "nat_value (show_nat n) 0 = n"
proof (induction n rule: show_nat.induct)
  case (1 n)
  show ?case
  proof (cases "n < 10")
    case True
    then show ?thesis by (simp add: show_nat.simps)
  next
    case False
    then have "nat_value (show_nat n) 0 = 10 * (n div 10) + n mod 10"
      using 1 [OF False] by (subst show_nat.simps) (simp add: nat_value_append)
    then show ?thesis by simp
  qed
qed

lemma int_of_show_nat [simp]: "int_of (show_nat n) = n"
  by (simp add: int_of_def nat_value_show)

lemma show_nat_nonempty [simp]: "show_nat n \<noteq> []"
  by (subst show_nat.simps) simp

lemma show_nat_digits [simp]: "list_all is_digit (show_nat n)"
proof (induction n rule: show_nat.induct)
  case (1 n)
  then show ?case by (subst show_nat.simps) simp
qed

lemma all_digits_show_nat [simp]: "all_digits (show_nat n)"
  by (simp add: all_digits_def)

lemma show_nat_hd: "n \<noteq> 0 \<Longrightarrow> hd (show_nat n) \<noteq> CHR ''0''"
proof (induction n rule: show_nat.induct)
  case (1 n)
  show ?case
  proof (cases "n < 10")
    case True
    have "code (digit_char n) \<noteq> code (CHR ''0'')" using True 1 by (simp add: code_def digit_char_def)
    then have "digit_char n \<noteq> CHR ''0''" by metis
    then show ?thesis using True by (simp add: show_nat.simps [of n])
  next
    case False
    then have "n div 10 \<noteq> 0" by auto
    then show ?thesis using 1(1) [OF False] False by (subst show_nat.simps) simp
  qed
qed

lemma show_nat_length: "n < 1000 \<Longrightarrow> length (show_nat n) \<le> 3"
  by (simp add: show_nat.simps)

lemma show_nat_0 [simp]: "show_nat 0 = ''0''"
proof -
  have "(of_char (digit_char 0) :: nat) = of_char (CHR ''0'')" unfolding digit_char_def by simp
  then have "digit_char 0 = CHR ''0''" by (simp only: of_char_eq_iff)
  then show ?thesis by (simp add: show_nat.simps [of 0])
qed

lemma parse_octet_show [simp]: "n < 256 \<Longrightarrow> parse_octet (show_nat n) = Some n"
  using show_nat_hd [of n] show_nat_length [of n]
  by (cases "n = 0") (simp_all add: parse_octet_def del: show_nat_0, simp)

section \<open>Addresses read back\<close>

lemma digits_no_dot: "list_all is_digit s \<Longrightarrow> CHR ''.'' \<notin> set s"
  by (auto simp: list_all_iff is_digit_def code_def)

lemma split_on_free: "d \<notin> set s \<Longrightarrow> split_on d s = [s]"
  by (induction s) auto

lemma split_on_join: "xs \<noteq> [] \<Longrightarrow> \<forall>x \<in> set xs. d \<notin> set x \<Longrightarrow> split_on d (join [d] xs) = xs"
proof (induction xs)
  case (Cons x xs)
  then show ?case using split_on_append [of d x] by (cases xs) (simp_all add: split_on_free)
qed simp

lemma split_show_ip:
  "split_on CHR ''.'' (show_ip w) = (let n = unat w in
     map show_nat [n div 16777216, n div 65536 mod 256, n div 256 mod 256, n mod 256])"
  unfolding show_ip_def Let_def
  using digits_no_dot [OF show_nat_digits] by (intro split_on_join) auto

lemma unat_quad: "quad (n div 16777216) (n div 65536 mod 256) (n div 256 mod 256) (n mod 256) = n"
proof -
  have "n div 65536 = n div 256 div 256" "n div 16777216 = n div 256 div 256 div 256"
    by (simp_all add: div_mult2_eq [symmetric])
  then show ?thesis unfolding quad_def by (simp only: div_mult_mod_eq)
qed

lemma parse_show_ip [simp]: "parse_ip (show_ip w) = Some w"
proof -
  have "unat w < 4294967296" using unsigned_less [of w] by simp
  then have "unat w div 16777216 < 256" by simp
  then show ?thesis by (simp add: parse_ip_def split_show_ip Let_def unat_quad)
qed

lemma show_ip_chars: "set (show_ip w) \<subseteq> {c. is_digit c} \<union> {CHR ''.''}"
proof -
  have digits: "set (show_nat n) \<subseteq> {c. is_digit c}" for n
    using show_nat_digits [of n] by (auto simp: list_all_iff)
  show ?thesis unfolding show_ip_def Let_def using digits by auto
qed

lemma show_ip_nonempty [simp]: "show_ip w \<noteq> []"
  by (simp add: show_ip_def Let_def)

lemma mask_prefix_mask: "\<exists>n'. mask_prefix (prefix_mask n) = Some n' \<and> prefix_mask n' = prefix_mask n"
proof -
  have "\<exists>m < 33. prefix_mask m = prefix_mask n"
  proof (cases "n < 33")
    case False
    then have "32 - n = 32 - 32" by simp
    then have "prefix_mask 32 = prefix_mask n" unfolding prefix_mask_def by metis
    then show ?thesis by (intro exI [of _ 32]) simp
  qed auto
  then have "mask_prefix (prefix_mask n) \<noteq> None"
    by (auto simp: mask_prefix_def find_None_iff)
  then obtain m where m: "mask_prefix (prefix_mask n) = Some m" by auto
  then have "prefix_mask m = prefix_mask n" unfolding mask_prefix_def by (auto simp: find_Some_iff)
  with m show ?thesis by blast
qed

lemma parse_mask_prefix: "parse_mask s = Some m \<Longrightarrow> \<exists>n. m = prefix_mask n"
  by (auto simp: parse_mask_def split: if_splits option.splits)

lemma dotted_not_digits: "\<not> all_digits (show_ip w)"
  by (auto simp: show_ip_def Let_def all_digits_def list_all_iff is_digit_def code_def)

lemma parse_mask_show: "parse_mask (show_ip (prefix_mask n)) = Some (prefix_mask n)"
  using mask_prefix_mask [of n] by (auto simp: parse_mask_def dotted_not_digits)

lemma no_slash_show_ip: "CHR ''/'' \<notin> set (show_ip w)"
  using show_ip_chars [of w] by (auto simp: is_digit_def code_def)

lemma prefix_mask_32: "prefix_mask 32 = - 1"
  by (simp add: prefix_mask_def)

lemma parse_network_mask: "parse_network strict s = Some (a, m) \<Longrightarrow> (\<exists>n. m = prefix_mask n) \<and> a AND m = a"
proof -
  have "a AND prefix_mask 32 = a" by (simp add: prefix_mask_32)
  then show "parse_network strict s = Some (a, m) \<Longrightarrow> (\<exists>n. m = prefix_mask n) \<and> a AND m = a"
    by (auto simp: parse_network_def and.assoc dest!: parse_mask_prefix
        split: list.splits option.splits if_splits)
qed

lemma parse_network_show:
  "a AND prefix_mask n = a \<Longrightarrow>
   parse_network strict (show_ip a @ ''/'' @ show_ip (prefix_mask n)) = Some (a, prefix_mask n)"
  using split_on_append [of "CHR ''/''" "show_ip a" "show_ip (prefix_mask n)"]
  by (simp add: parse_network_def split_on_free no_slash_show_ip parse_mask_show)

end
