(* ===== verification/Netops_Time.thy ===== *)
theory Netops_Time
  imports Netops_Net
begin

text \<open>
  The naive \<open>datetime\<close> values of the clocks of devices. A date and time is the number of seconds since
  the start of the year 1, so that differences in seconds are differences of numbers; the proleptic
  Gregorian calendar, \<open>strftime\<close> and \<open>strptime\<close> are those of the Python library for the two formats
  the sources use, \<open>%Y-%m-%d %H:%M:%S\<close> and \<open>%a %b %d %H:%M:%S %Y\<close>. The sources look at the class of
  an exception raised here and not at its message.
\<close>

section \<open>The calendar\<close>

definition is_leap :: "nat \<Rightarrow> bool" where
  "is_leap y \<longleftrightarrow> y mod 4 = 0 \<and> (y mod 100 \<noteq> 0 \<or> y mod 400 = 0)"

definition MONTH_STARTS :: "nat list" where
  "MONTH_STARTS = [0, 31, 59, 90, 120, 151, 181, 212, 243, 273, 304, 334]"

definition MONTH_LENGTHS :: "nat list" where
  "MONTH_LENGTHS = [31, 28, 31, 30, 31, 30, 31, 31, 30, 31, 30, 31]"

definition days_in_month :: "nat \<Rightarrow> nat \<Rightarrow> nat" where
  "days_in_month y m = MONTH_LENGTHS ! (m - 1) + (if m = 2 \<and> is_leap y then 1 else 0)"

definition days_before_month :: "bool \<Rightarrow> nat \<Rightarrow> nat" where
  "days_before_month leap m = MONTH_STARTS ! (m - 1) + (if m > 2 \<and> leap then 1 else 0)"

definition days_before_year :: "nat \<Rightarrow> nat" where
  "days_before_year y = (let p = y - 1 in p * 365 + p div 4 - p div 100 + p div 400)"

text \<open>\<open>_ymd2ord\<close> and \<open>_ord2ymd\<close>\<close>

definition ymd2ord :: "nat \<Rightarrow> nat \<Rightarrow> nat \<Rightarrow> nat" where
  "ymd2ord y m d = days_before_year y + days_before_month (is_leap y) m + d"

definition month_day :: "bool \<Rightarrow> nat \<Rightarrow> nat \<times> nat" where
  "month_day leap n =
     (let m = (n + 50) div 32; m' = (if days_before_month leap m > n then m - 1 else m)
      in (m', n - days_before_month leap m' + 1))"

definition ord2ymd :: "nat \<Rightarrow> nat \<times> nat \<times> nat" where
  "ord2ymd n0 =
     (let n = n0 - 1; n400 = n div 146097; n = n mod 146097; n100 = n div 36524; n = n mod 36524;
          n4 = n div 1461; n = n mod 1461; n1 = n div 365; n = n mod 365;
          year = n400 * 400 + 1 + n100 * 100 + n4 * 4 + n1
      in if n1 = 4 \<or> n100 = 4 then (year - 1, 12, 31)
         else (year, month_day (n1 = 3 \<and> (n4 \<noteq> 24 \<or> n100 = 3)) n))"

section \<open>Texts of dates\<close>

definition DAY_SECONDS :: nat where "DAY_SECONDS = 86400"

definition two_digits :: "nat \<Rightarrow> string" where
  "two_digits n = [digit_char (n div 10), digit_char (n mod 10)]"

text \<open>\<open>strftime("%Y-%m-%d %H:%M:%S")\<close>; like the C library, \<open>%Y\<close> does not pad years before 1000.\<close>

definition stamp_text :: "nat \<Rightarrow> string" where
  "stamp_text t =
     (let (y, m, d) = ord2ymd (t div DAY_SECONDS); s = t mod DAY_SECONDS
      in show_nat y @ ''-'' @ two_digits m @ ''-'' @ two_digits d @ '' ''
         @ two_digits (s div 3600) @ '':'' @ two_digits (s div 60 mod 60) @ '':'' @ two_digits (s mod 60))"

definition time_error :: exn where
  "time_error = OtherError ''ValueError'' ''time data does not match format''"

text \<open>The constructor \<open>datetime(year, month, day, hour, minute, second)\<close>\<close>

definition datetime :: "nat \<Rightarrow> nat \<Rightarrow> nat \<Rightarrow> nat \<Rightarrow> nat \<Rightarrow> nat \<Rightarrow> exn + nat" where
  "datetime y m d h mi s =
     (if y < 1 \<or> m < 1 \<or> m > 12 \<or> d < 1 \<or> d > days_in_month y m \<or> h > 23 \<or> mi > 59 \<or> s > 59 then Inl time_error
      else Inr (ymd2ord y m d * DAY_SECONDS + h * 3600 + mi * 60 + s))"

text \<open>A numeric directive: one or two digits in the range of the field. The texts that follow a directive
  in the two formats start with no digit, so that the longest run of digits is the one that matches.
  \<open>%d\<close> also takes a blank and a digit.\<close>

definition num_field :: "nat \<Rightarrow> nat \<Rightarrow> string \<Rightarrow> (nat \<times> string) option" where
  "num_field lo hi s =
     (let d = takeWhile is_digit s in
      if d \<noteq> [] \<and> length d \<le> 2 \<and> lo \<le> int_of d \<and> int_of d \<le> hi then Some (int_of d, dropWhile is_digit s) else None)"

definition day_field :: "string \<Rightarrow> (nat \<times> string) option" where
  "day_field s = (case s of
     c # cs \<Rightarrow> if c = blank then (if length (takeWhile is_digit cs) = 1 then num_field 1 9 cs else None) else num_field 1 31 s
   | [] \<Rightarrow> None)"

definition year_field :: "string \<Rightarrow> (nat \<times> string) option" where
  "year_field s = (let d = takeWhile is_digit s in if length d = 4 then Some (int_of d, dropWhile is_digit s) else None)"

definition char_then :: "char \<Rightarrow> string \<Rightarrow> string option" where
  "char_then c s = (case s of d # ds \<Rightarrow> if d = c then Some ds else None | [] \<Rightarrow> None)"

definition spaces_then :: "string \<Rightarrow> string option" where
  "spaces_then s = (case s of c # cs \<Rightarrow> if is_space c then Some (dropWhile is_space cs) else None | [] \<Rightarrow> None)"

definition clock_fields :: "string \<Rightarrow> ((nat \<times> nat \<times> nat) \<times> string) option" where
  "clock_fields s = Option.bind (num_field 0 23 s) (\<lambda>(h, s). Option.bind (char_then CHR '':'' s) (\<lambda>s.
     Option.bind (num_field 0 59 s) (\<lambda>(mi, s). Option.bind (char_then CHR '':'' s) (\<lambda>s.
     Option.bind (num_field 0 61 s) (\<lambda>(sec, s). Some ((h, mi, sec), s))))))"

text \<open>\<open>strptime(s, "%Y-%m-%d %H:%M:%S")\<close>\<close>

definition read_stamp :: "string \<Rightarrow> exn + nat" where
  "read_stamp s =
     (case Option.bind (year_field s) (\<lambda>(y, s). Option.bind (char_then CHR ''-'' s) (\<lambda>s.
        Option.bind (num_field 1 12 s) (\<lambda>(m, s). Option.bind (char_then CHR ''-'' s) (\<lambda>s.
        Option.bind (day_field s) (\<lambda>(d, s). Option.bind (spaces_then s) (\<lambda>s.
        Option.bind (clock_fields s) (\<lambda>((h, mi, sec), s). if s = [] then Some (y, m, d, h, mi, sec) else None))))))) of
        None \<Rightarrow> Inl time_error
      | Some (y, m, d, h, mi, sec) \<Rightarrow> datetime y m d h mi sec)"

definition DAY_NAMES :: "string list" where
  "DAY_NAMES = [''mon'', ''tue'', ''wed'', ''thu'', ''fri'', ''sat'', ''sun'']"

definition MONTH_NAMES :: "string list" where
  "MONTH_NAMES = [''jan'', ''feb'', ''mar'', ''apr'', ''may'', ''jun'', ''jul'', ''aug'', ''sep'', ''oct'', ''nov'', ''dec'']"

fun position_of :: "'a \<Rightarrow> 'a list \<Rightarrow> nat option" where
  "position_of x [] = None"
| "position_of x (y # ys) = (if x = y then Some 0 else map_option Suc (position_of x ys))"

text \<open>\<open>%a\<close> and \<open>%b\<close>: a name of three letters in any case\<close>

definition name_field :: "string list \<Rightarrow> string \<Rightarrow> (nat \<times> string) option" where
  "name_field names s = map_option (\<lambda>i. (i, drop 3 s)) (position_of (casefold (take 3 s)) names)"

text \<open>\<open>strptime(s, "%a %b %d %H:%M:%S %Y")\<close>; the name of the day is read and not compared with the date.\<close>

definition read_clock_text :: "string \<Rightarrow> exn + nat" where
  "read_clock_text s =
     (case Option.bind (name_field DAY_NAMES s) (\<lambda>(_, s). Option.bind (spaces_then s) (\<lambda>s.
        Option.bind (name_field MONTH_NAMES s) (\<lambda>(m, s). Option.bind (spaces_then s) (\<lambda>s.
        Option.bind (num_field 1 31 s) (\<lambda>(d, s). Option.bind (spaces_then s) (\<lambda>s.
        Option.bind (clock_fields s) (\<lambda>((h, mi, sec), s). Option.bind (spaces_then s) (\<lambda>s.
        Option.bind (year_field s) (\<lambda>(y, s). if s = [] then Some (y, m + 1, d, h, mi, sec) else None))))))))) of
        None \<Rightarrow> Inl time_error
      | Some (y, m, d, h, mi, sec) \<Rightarrow> datetime y m d h mi sec)"

section \<open>Dates and ordinals\<close>

lemma days_before_year_split:
  assumes "b < 4" and "c < 25" and "e < 4"
  shows "days_before_year (a * 400 + 1 + b * 100 + c * 4 + e) = 146097 * a + 36524 * b + 1461 * c + 365 * e"
proof -
  define p where "p = a * 400 + b * 100 + c * 4 + e"
  have "p div 4 = 100 * a + 25 * b + c" and "p div 100 = 4 * a + b" and "p div 400 = a"
    unfolding p_def using assms by (simp_all add: div_nat_eqI)
  then show ?thesis unfolding days_before_year_def Let_def using p_def by simp
qed

lemma is_leap_split:
  assumes "b < 4" and "c < 25" and "e < 4"
  shows "is_leap (a * 400 + 1 + b * 100 + c * 4 + e) \<longleftrightarrow> e = 3 \<and> (c \<noteq> 24 \<or> b = 3)"
proof -
  define y where "y = a * 400 + 1 + b * 100 + c * 4 + e"
  have "y = (1 + e) + 4 * (100 * a + 25 * b + c)" "y = (1 + c * 4 + e) + 100 * (4 * a + b)" "y = (1 + b * 100 + c * 4 + e) + 400 * a"
    by (simp_all add: y_def)
  then have "y mod 4 = (1 + e) mod 4" "y mod 100 = (1 + c * 4 + e) mod 100" "y mod 400 = (1 + b * 100 + c * 4 + e) mod 400"
    by (metis mod_mult_self2)+
  moreover have "1 + e \<le> 4" "1 + c * 4 + e \<le> 100" "1 + b * 100 + c * 4 + e \<le> 400"
    using assms by simp_all
  then have "(1 + e) mod 4 = 0 \<longleftrightarrow> 1 + e = 4" "(1 + c * 4 + e) mod 100 = 0 \<longleftrightarrow> 1 + c * 4 + e = 100"
    "(1 + b * 100 + c * 4 + e) mod 400 = 0 \<longleftrightarrow> 1 + b * 100 + c * 4 + e = 400"
    by (simp_all add: mod_if)
  ultimately have "is_leap y \<longleftrightarrow> 1 + e = 4 \<and> (1 + c * 4 + e \<noteq> 100 \<or> 1 + b * 100 + c * 4 + e = 400)"
    by (simp only: is_leap_def)
  also have "\<dots> \<longleftrightarrow> e = 3 \<and> (c \<noteq> 24 \<or> b = 3)"
    using assms by auto
  finally show ?thesis by (simp only: y_def)
qed

lemma less_12_cases: "(m::nat) \<ge> 1 \<Longrightarrow> m \<le> 12 \<Longrightarrow>
  m = 1 \<or> m = 2 \<or> m = 3 \<or> m = 4 \<or> m = 5 \<or> m = 6 \<or> m = 7 \<or> m = 8 \<or> m = 9 \<or> m = 10 \<or> m = 11 \<or> m = 12"
  by arith

lemma days_before_month_simps:
  "days_before_month l (Suc 0) = 0" "days_before_month l 2 = 31" "days_before_month l 3 = 59 + of_bool l"
  "days_before_month l 4 = 90 + of_bool l" "days_before_month l 5 = 120 + of_bool l" "days_before_month l 6 = 151 + of_bool l"
  "days_before_month l 7 = 181 + of_bool l" "days_before_month l 8 = 212 + of_bool l" "days_before_month l 9 = 243 + of_bool l"
  "days_before_month l 10 = 273 + of_bool l" "days_before_month l 11 = 304 + of_bool l" "days_before_month l 12 = 334 + of_bool l"
  by (simp_all add: days_before_month_def MONTH_STARTS_def)

text \<open>The month and day of the \<open>n\<close>-th day of a year\<close>

definition month_length :: "bool \<Rightarrow> nat \<Rightarrow> nat" where
  "month_length leap m = MONTH_LENGTHS ! (m - 1) + (if m = 2 \<and> leap then 1 else 0)"

lemma month_length_simps:
  "month_length l (Suc 0) = 31" "month_length l 2 = 28 + of_bool l" "month_length l 3 = 31" "month_length l 4 = 30" "month_length l 5 = 31"
  "month_length l 6 = 30" "month_length l 7 = 31" "month_length l 8 = 31" "month_length l 9 = 30" "month_length l 10 = 31"
  "month_length l 11 = 30" "month_length l 12 = 31"
  by (simp_all add: month_length_def MONTH_LENGTHS_def)

lemma month_day_exact:
  assumes "n < 365" and "month_day leap n = (m, d)"
  shows "1 \<le> m \<and> m \<le> 12 \<and> 1 \<le> d \<and> d \<le> month_length leap m \<and> days_before_month leap m + d = n + 1"
proof -
  define k where "k = (n + 50) div 32"
  have bounds: "32 * k \<le> n + 50" "n + 50 < 32 * k + 32"
    unfolding k_def using dividend_less_times_div [of 32 "n + 50"] by simp_all
  with assms(1) have k: "1 \<le> k" "k \<le> 12" by linarith+
  have md: "m = (if days_before_month leap k > n then k - 1 else k)" "d = n - days_before_month leap m + 1"
    using assms(2) unfolding month_day_def Let_def k_def prod.inject by blast+
  show ?thesis
    using less_12_cases [OF k] bounds assms(1) unfolding md
    by (elim disjE; cases leap; simp add: days_before_month_simps month_length_simps; arith)
qed


lemma days_in_month_length: "days_in_month y m = month_length (is_leap y) m"
  by (simp add: days_in_month_def month_length_def)

lemma new_years_eve:
  assumes "b < 4" and "c < 25" and "c \<noteq> 24 \<or> b = 3" and "y = a * 400 + 1 + b * 100 + c * 4 + 3"
  shows "ymd2ord y 12 31 = 146097 * a + 36524 * b + 1461 * c + 1461 \<and> 1 \<le> y \<and> (31::nat) \<le> days_in_month y 12"
proof -
  have "is_leap y" and "days_before_year y = 146097 * a + 36524 * b + 1461 * c + 365 * 3"
    unfolding assms(4) using is_leap_split [OF assms(1,2), of 3 a] days_before_year_split [OF assms(1,2), of 3 a] assms(3) by simp_all
  then show ?thesis
    by (simp add: ymd2ord_def days_before_month_simps days_in_month_length month_length_simps assms(4))
qed

lemma ord2ymd_exact:
  assumes "1 \<le> n" and "ord2ymd n = (y, m, d)"
  shows "ymd2ord y m d = n \<and> 1 \<le> y \<and> 1 \<le> m \<and> m \<le> 12 \<and> 1 \<le> d \<and> d \<le> days_in_month y m"
proof -
  define r1 where "r1 = (n - 1) mod 146097"
  define r2 where "r2 = r1 mod 36524"
  define r3 where "r3 = r2 mod 1461"
  define a where "a = (n - 1) div 146097"
  define b where "b = r1 div 36524"
  define c where "c = r2 div 1461"
  define e where "e = r3 div 365"
  define k where "k = r3 mod 365"
  have sum: "n = 146097 * a + 36524 * b + 1461 * c + 365 * e + k + 1"
    using assms(1) mult_div_mod_eq [of 146097 "n - 1"] mult_div_mod_eq [of 36524 r1] mult_div_mod_eq [of 1461 r2] mult_div_mod_eq [of 365 r3]
    unfolding a_def b_def c_def e_def k_def r1_def [symmetric] r2_def [symmetric] r3_def [symmetric] by linarith
  have less: "r1 < 146097" "r2 < 36524" "r3 < 1461" "k < 365"
    by (simp_all add: r1_def r2_def r3_def k_def)
  have b: "b \<le> 4" and c: "c < 25" and e: "e \<le> 4"
    unfolding b_def c_def e_def using less by (simp_all add: less_mult_imp_div_less div_le_mono less_Suc_eq_le [symmetric])
  have run: "(y, m, d) = (if e = 4 \<or> b = 4 then (a * 400 + 1 + b * 100 + c * 4 + e - 1, 12, 31)
      else (a * 400 + 1 + b * 100 + c * 4 + e, month_day (e = 3 \<and> (c \<noteq> 24 \<or> b = 3)) k))"
    using assms(2) unfolding ord2ymd_def Let_def a_def b_def c_def e_def k_def r1_def r2_def r3_def by simp
  consider "b = 4" | "b < 4" "e = 4" | "b < 4" "e < 4" using b e by linarith
  then show ?thesis
  proof cases
    case 1
    then have "r1 = 146096" using less(1) mult_div_mod_eq [of 36524 r1] unfolding b_def by linarith
    then have "c = 0" "e = 0" "k = 0" by (simp_all add: c_def e_def k_def r3_def r2_def)
    then show ?thesis using sum run 1 new_years_eve [of 3 24 y a] by simp
  next
    case 2
    then have "k = 0" "r3 = 1460" using less(3) mult_div_mod_eq [of 365 r3] unfolding e_def k_def by linarith+
    moreover from this have "c \<noteq> 24" using less(2) mult_div_mod_eq [of 1461 r2] unfolding c_def r3_def by linarith
    ultimately show ?thesis using sum run 2 c new_years_eve [of b c y a] by simp
  next
    case 3
    then have y: "y = a * 400 + 1 + b * 100 + c * 4 + e" and md: "month_day (e = 3 \<and> (c \<noteq> 24 \<or> b = 3)) k = (m, d)"
      using run by simp_all
    then show ?thesis
      using month_day_exact [OF less(4) md] is_leap_split [OF 3(1) c 3(2), of a] days_before_year_split [OF 3(1) c 3(2), of a] sum
      by (simp add: ymd2ord_def days_in_month_length)
  qed
qed

section \<open>Reading back\<close>

lemma two_digits_digits: "n < 100 \<Longrightarrow> list_all is_digit (two_digits n)"
  by (simp add: two_digits_def)

lemma int_of_two_digits: "n < 100 \<Longrightarrow> int_of (two_digits n) = n"
  by (simp add: two_digits_def int_of_def)

lemma takeWhile_digits:
  assumes "list_all is_digit d" and "rest = [] \<or> \<not> is_digit (hd rest)"
  shows "takeWhile is_digit (d @ rest) = d" and "dropWhile is_digit (d @ rest) = rest"
  using assms by (cases rest; simp add: list_all_iff takeWhile_append dropWhile_append)+

lemma num_field_two:
  assumes "n < 100" and "lo \<le> n" and "n \<le> hi" and "rest = [] \<or> \<not> is_digit (hd rest)"
  shows "num_field lo hi (two_digits n @ rest) = Some (n, rest)"
  using takeWhile_digits [OF two_digits_digits [OF assms(1)] assms(4)] assms
  by (simp add: num_field_def Let_def int_of_two_digits) (simp add: two_digits_def)

lemma day_field_two:
  assumes "1 \<le> n" and "n \<le> 31" and "rest = [] \<or> \<not> is_digit (hd rest)"
  shows "day_field (two_digits n @ rest) = Some (n, rest)"
proof -
  have "is_digit (digit_char (n div 10))" using assms(2) by simp
  then have "digit_char (n div 10) \<noteq> blank" by (auto simp: is_digit_def code_def)
  then show ?thesis using num_field_two [of n 1 31 rest] assms by (simp add: day_field_def two_digits_def)
qed

lemma year_field_show:
  assumes "1000 \<le> y" and "y \<le> 9999" and "rest = [] \<or> \<not> is_digit (hd rest)"
  shows "year_field (show_nat y @ rest) = Some (y, rest)"
proof -
  have "y div 1000 < 10" "10 \<le> y div 100" "10 \<le> y div 10"
    using assms(1,2) div_le_mono [of 1000 y 100] div_le_mono [of 1000 y 10] by (simp_all add: less_mult_imp_div_less)
  then have "length (show_nat y) = 4"
    using assms by (simp add: show_nat.simps [of y] show_nat.simps [of "y div 10"] show_nat.simps [of "y div 100"] show_nat.simps [of "y div 1000"]
        div_mult2_eq [symmetric])
  then show ?thesis using takeWhile_digits [OF show_nat_digits assms(3), of y] by (simp add: year_field_def)
qed

lemma separators_no_digit [simp]: "\<not> is_digit (CHR '':'')" "\<not> is_digit (CHR ''-'')" "\<not> is_digit blank"
  by (simp_all add: is_digit_def code_def)

lemma clock_fields_two:
  assumes "h \<le> 23" and "mi \<le> 59" and "sec \<le> 59"
  shows "clock_fields (two_digits h @ '':'' @ two_digits mi @ '':'' @ two_digits sec) = Some ((h, mi, sec), [])"
  using assms by (simp add: clock_fields_def num_field_two char_then_def) (simp add: num_field_two [where rest = "[]", simplified])



end
