(* ===== verification/Admin_Execute.thy ===== *)
theory Admin_Execute
  imports Admin_Store Netops_Time
begin

text \<open>
  The safeguarded execution of a change, \<open>netops_admin/execute.py\<close> with \<open>blocking.py\<close> and the
  certificates of \<open>enrollment.py\<close>: admission, the journal, the device-side safeguard, the checks
  after the change, confirmation, settlement after expiry, recovery, undo and unblocking.

  The platform adapters, the SSH access, the plan engine, the audit gate, the notifier and the
  export state are fields of the runtime, as the source reaches them through a runtime object, an
  adapter table and module functions. Schema transactions are not modelled: every request is a
  request for one object. The record of the running operation is the object \<open>w_record\<close> of the world.
\<close>

section \<open>Interfaces\<close>

record prompt_spec =
  ps_anchor :: string
  ps_ends :: "string list"
  ps_continuation :: "string option"
  ps_error :: "string \<Rightarrow> string option"
  ps_typed :: "(string \<Rightarrow> string) option"

text \<open>A credential of the vault: its login, its kind and the secret that \<open>use\<close> returns\<close>

record credential =
  cr_login :: string
  cr_kind :: string
  cr_use :: string

record 'd access =
  ac_snapshot :: "('d, string) act"
  ac_query :: "string \<Rightarrow> ('d, string) act"
  ac_check_query :: "string \<Rightarrow> ('d, string) act"
  ac_login_prefix :: "prompt_spec \<Rightarrow> ('d, string) act"
  ac_apply :: "line list \<Rightarrow> prompt_spec \<Rightarrow> ('d, nat) act"
  ac_generate_api_key :: "string \<Rightarrow> prompt_spec \<Rightarrow> ('d, string) act"
  ac_credential :: credential
  ac_check_credential :: credential
  ac_read_seconds :: "'d \<Rightarrow> real option"
  ac_set_read_seconds :: "real option \<Rightarrow> 'd \<Rightarrow> 'd"

record 'd adapter =
  ad_prompt_spec :: "string \<Rightarrow> prompt_spec"
  ad_safeguard_label :: "string \<Rightarrow> string"
  ad_hostname :: "'d access \<Rightarrow> string \<Rightarrow> ('d, string) act"
  ad_clock :: "'d access \<Rightarrow> ('d, int) act"
  ad_accounts_check :: "'d access \<Rightarrow> device \<Rightarrow> string \<Rightarrow> ('d, string) act"
  ad_prechecks :: "'d access \<Rightarrow> device \<Rightarrow> string \<Rightarrow> prompt_spec \<Rightarrow> ('d, string list) act"
  ad_plan_prechecks :: "'d access \<Rightarrow> device \<Rightarrow> plan \<Rightarrow> string \<Rightarrow> ('d, string list) act"
  ad_ports :: "'d access \<Rightarrow> string \<Rightarrow> ('d, string list option) act"
  ad_leftovers :: "'d access \<Rightarrow> ('d, string list) act"
  ad_install_safeguard :: "'d access \<Rightarrow> operation \<Rightarrow> plan \<Rightarrow> device \<Rightarrow> prompt_spec \<Rightarrow> ('d, string list \<times> safeguard) act"
  ad_remove_safeguard :: "'d access \<Rightarrow> operation \<Rightarrow> prompt_spec \<Rightarrow> ('d, bool) act"
  ad_remove_remaining :: "'d access \<Rightarrow> operation \<Rightarrow> prompt_spec \<Rightarrow> ('d, bool) act"
  ad_safeguard_absent :: "'d access \<Rightarrow> operation \<Rightarrow> ('d, bool) act"
  ad_safeguard_disarmed :: "'d access \<Rightarrow> operation \<Rightarrow> ('d, bool) act"
  ad_FIRING_OBSERVED :: bool
  ad_safeguard_fired :: "'d access \<Rightarrow> operation \<Rightarrow> ('d, bool) act"
  ad_revoke_token :: "('d access \<Rightarrow> operation \<Rightarrow> prompt_spec \<Rightarrow> ('d, bool option) act) option"
  ad_persist :: "'d access \<Rightarrow> prompt_spec \<Rightarrow> ('d, bool) act"
  ad_observe :: "'d access \<Rightarrow> plan \<Rightarrow> ('d, attributes option) act"
  ad_foreign_sessions :: "'d access \<Rightarrow> device \<Rightarrow> ('d, nat) act"

text \<open>\<open>Runtime\<close> and the module functions the execution calls. \<open>rt_new_blocking\<close> takes the name prefix
  of the safeguard of the running change, if there is one, whose own findings do not count.\<close>

record 'd runtime = "'d services" +
  rt_config :: config
  rt_require_export :: bool
  rt_adapters :: "(string, 'd adapter) dict"
  rt_access_factory :: "device \<Rightarrow> ('d, 'd access) act"
  rt_notifier :: "(operation \<Rightarrow> ('d, string) act) option"
  rt_sleep :: "real \<Rightarrow> ('d, unit) act"
  rt_target_lock :: "string \<Rightarrow> ('d, unit) act"
  rt_audit_writable :: "('d, unit) act"
  rt_export_state :: "('d, string \<times> string) act"
  rt_export_updated_at :: "('d, real option) act"
  rt_token_hex :: "nat \<Rightarrow> 'd \<Rightarrow> string \<times> 'd"
  rt_fingerprint :: "request \<Rightarrow> string"
  rt_build_plan :: "string \<Rightarrow> string \<Rightarrow> request \<Rightarrow> device \<Rightarrow> bool \<Rightarrow> string list option \<Rightarrow> bool \<Rightarrow> exn + plan"
  rt_read_plan :: "plan \<Rightarrow> exn + plan"
  rt_verify :: "plan \<Rightarrow> string \<Rightarrow> string \<Rightarrow> exn + verdict"
  rt_observed_state :: "plan \<Rightarrow> attributes option \<Rightarrow> exn + attributes option"
  rt_snapshot_after :: "string \<Rightarrow> plan \<Rightarrow> exn + string"
  rt_audited :: "string \<Rightarrow> plan \<Rightarrow> exn + string"
  rt_baseline :: "device \<Rightarrow> string \<Rightarrow> exn + findings"
  rt_evaluate :: "device \<Rightarrow> string \<Rightarrow> string \<Rightarrow> findings \<Rightarrow> exn + unit"
  rt_check_policy :: "device \<Rightarrow> plan \<Rightarrow> string \<Rightarrow> findings \<Rightarrow> exn + unit"
  rt_new_blocking :: "device \<Rightarrow> findings \<Rightarrow> string \<Rightarrow> string option \<Rightarrow> exn + string list"
  rt_audit_note :: "device \<Rightarrow> findings \<Rightarrow> string"
  rt_find_profile :: "string \<Rightarrow> string \<Rightarrow> string \<Rightarrow> exn + profile"
  rt_parse_request :: "request \<Rightarrow> exn + request"
  rt_binding :: "device \<Rightarrow> string \<Rightarrow> string option \<Rightarrow> string"

definition SAFEGUARD_MAX_SECONDS :: real where "SAFEGUARD_MAX_SECONDS = 900"
definition EXPIRY_GRACE_SECONDS :: int where "EXPIRY_GRACE_SECONDS = 20"
definition EXPIRY_POLL_SECONDS :: real where "EXPIRY_POLL_SECONDS = 10"
definition EXPIRY_WAIT_SLACK_SECONDS :: real where "EXPIRY_WAIT_SLACK_SECONDS = 60"
definition READ_FLOOR_SECONDS :: real where "READ_FLOOR_SECONDS = 1"
definition HOUR :: real where "HOUR = 3600"
definition DAY :: real where "DAY = 86400"

definition EXPIRY_WAIT_LIMIT_SECONDS :: real where
  "EXPIRY_WAIT_LIMIT_SECONDS = SAFEGUARD_MAX_SECONDS + of_int EXPIRY_GRACE_SECONDS + EXPIRY_WAIT_SLACK_SECONDS"

definition UNDELIVERED :: "string list" where
  "UNDELIVERED = [''pending'', ''failed'', ''sending'']"

definition REUSED_REQUEST :: string where
  "REUSED_REQUEST = ''request_id was already used for a different request''"

definition UNDO_DONE :: string where
  "UNDO_DONE = ''undo of this change has already been performed; after a reverted change remove the object with regular administration''"

section \<open>Blocking results\<close>

definition SNAPSHOT_CATEGORIES :: "string list" where
  "SNAPSHOT_CATEGORIES = [''snapshot incomplete'', ''snapshot scope unsupported'', ''snapshot unreadable'', ''snapshot firmware mismatch'']"

definition BLOCKING_RESULTS :: "string list" where
  "BLOCKING_RESULTS = [''unknown'', ''revert-failed'']"

definition BLOCKING_REASONS :: "string list" where
  "BLOCKING_REASONS = [''administrator table'', ''foreign change'', ''not persisted'', ''foreign change during save'',
     ''saved configuration unverified'', ''postcheck rejected''] @ SNAPSHOT_CATEGORIES"

definition blocks :: "string \<Rightarrow> string option \<Rightarrow> bool" where
  "blocks result reason \<longleftrightarrow> result \<in> set BLOCKING_RESULTS
     \<or> (case reason of None \<Rightarrow> False | Some r \<Rightarrow> r \<in> set BLOCKING_REASONS)"

section \<open>The record of the running operation\<close>

definition the_record :: "('d world, operation) act" where
  "the_record = fetch w_record"

definition edit :: "(operation \<Rightarrow> operation) \<Rightarrow> ('d world, unit) act" where
  "edit f = modify (\<lambda>w. w\<lparr>w_record := f (w_record w)\<rparr>)"

definition save_record :: "('d, 'z) services_scheme \<Rightarrow> ('d world, unit) act" where
  "save_record v = bind the_record (save v)"

definition no_adapter :: "string \<Rightarrow> exn" where
  "no_adapter platform = Rejected [''platform '' @ shown platform @ '' has no plan and apply adapter'']"

definition adapter_of :: "('d, 'z) runtime_scheme \<Rightarrow> string \<Rightarrow> ('d world, 'd adapter) act" where
  "adapter_of rt platform = (case map_of (rt_adapters rt) platform of
     None \<Rightarrow> throw (no_adapter platform)
   | Some ad \<Rightarrow> ret ad)"

text \<open>\<open>_spec(record)\<close>\<close>

definition spec_of :: "('d, 'z) runtime_scheme \<Rightarrow> ('d world, prompt_spec) act" where
  "spec_of rt = bind the_record (\<lambda>r. bind (adapter_of rt (pl_platform (op_plan r)))
     (\<lambda>ad. ret (ad_prompt_spec ad (op_hostname r))))"

definition step :: "('d, 'z) runtime_scheme \<Rightarrow> string \<Rightarrow> string option \<Rightarrow> ('d world, unit) act" where
  "step rt name detail =
     seq (edit (\<lambda>r. r\<lparr>op_steps := op_steps r @ [\<lparr>sp_step = name, sp_detail = detail\<rparr>]\<rparr>))
     (seq (save_record rt)
     (bind the_record (\<lambda>r. audit_record rt (EvStep (op_change_id r) (op_device r) name detail))))"

section \<open>Delivery\<close>

definition note_notification :: "('d, 'z) runtime_scheme \<Rightarrow> string \<Rightarrow> ('d world, unit) act" where
  "note_notification rt val = bind the_record (\<lambda>r.
     seq (update rt (op_change_id r) (\<lambda>current. Some (current\<lparr>op_notification := Some val\<rparr>)))
     (edit (\<lambda>r. r\<lparr>op_notification := Some val\<rparr>)))"

definition undelivered_state :: "string option \<Rightarrow> bool" where
  "undelivered_state n \<longleftrightarrow> (case n of None \<Rightarrow> False | Some s \<Rightarrow> s \<in> set UNDELIVERED)"

text \<open>\<open>runtime.notifier(record)\<close> guarded by \<open>except Exception\<close>\<close>

definition notify :: "(operation \<Rightarrow> ('d, string) act) \<Rightarrow> operation \<Rightarrow> ('d world, string) act" where
  "notify send r = handle (ext (send r)) (\<lambda>_. ret ''failed'')"

definition deliver_notification ::
  "('d, 'z) runtime_scheme \<Rightarrow> (operation \<Rightarrow> ('d, string) act) \<Rightarrow> ('d world, unit) act" where
  "deliver_notification rt send = bind the_record (\<lambda>r0.
     let previous = op_notification r0 in
     seq (if undelivered_state previous then note_notification rt ''sending'' else ret ())
     (bind the_record (\<lambda>r1. bind (notify send r1) (\<lambda>result.
      let outcome = (if result \<in> {''sent'', ''failed''} then result else ''failed'') in
      seq (note_notification rt (if outcome = ''failed'' \<and> previous = Some ''waived'' then ''waived'' else outcome))
      (bind the_record (\<lambda>r. audit_record rt
         (EvDelivery (op_change_id r) (op_device r) (Some outcome) (op_audit_delivery r))))))))"

text \<open>\<open>_finish\<close>: the fields of the closed record, then the block, the journal, the audit log and the
  notification, in this order.\<close>

definition close_record ::
  "('d, 'z) runtime_scheme \<Rightarrow> string \<Rightarrow> string option \<Rightarrow> string list \<Rightarrow> ('d world, unit) act" where
  "close_record rt result reason differences =
     bind (ext_fun (v_time rt)) (\<lambda>now.
     seq (edit (\<lambda>r. r\<lparr>op_status := ''finished'', op_finished_at := Some now, op_result := Some result,
       op_reason := reason, op_differences := differences\<rparr>))
     (bind (ext (rt_export_state rt)) (\<lambda>(state, _).
     edit (\<lambda>r. r\<lparr>
       op_audit_delivery := Some (if state \<in> {''acknowledged'', ''pending''} then ''pending'' else state),
       op_notification := Some (if rt_notifier rt \<noteq> None then ''pending'' else ''not-configured'')\<rparr>))))"

definition block_reason :: "string \<Rightarrow> string option \<Rightarrow> string" where
  "block_reason result reason = (case reason of None \<Rightarrow> result | Some why \<Rightarrow> if why = [] then result else why)"

definition publish :: "('d, 'z) runtime_scheme \<Rightarrow> string \<Rightarrow> string option \<Rightarrow> ('d world, operation) act" where
  "publish rt result reason =
     seq (if blocks result reason
          then bind the_record (\<lambda>r. block_device rt (op_device r) (Some (op_change_id r)) (block_reason result reason))
          else ret ())
     (seq (save_record rt)
     (seq (bind the_record (\<lambda>r. audit_record rt (EvResult (op_change_id r) (op_request_id r) (op_device r) result reason
        (length (op_differences r)) (the (op_notification r)) (the (op_audit_delivery r))
        (map_option sg_fire_at (op_safeguard r)))))
     (seq (case rt_notifier rt of None \<Rightarrow> ret () | Some send \<Rightarrow> deliver_notification rt send)
     the_record)))"

definition finish ::
  "('d, 'z) runtime_scheme \<Rightarrow> string \<Rightarrow> string option \<Rightarrow> string list \<Rightarrow> ('d world, operation) act" where
  "finish rt result reason differences =
     seq (close_record rt result reason differences) (publish rt result reason)"

definition notify_retry :: "('d, 'z) runtime_scheme \<Rightarrow> string \<Rightarrow> ('d world, operation) act" where
  "notify_retry rt change_id =
     seq (ext (rt_audit_writable rt))
     (bind (store_operation change_id) (\<lambda>found. case found of
        None \<Rightarrow> throw (Rejected [''no finished operation matches''])
      | Some r \<Rightarrow>
          if op_status r \<noteq> ''finished'' then throw (Rejected [''no finished operation matches''])
          else (case rt_notifier rt of
             None \<Rightarrow> throw (Rejected [''notification is not configured''])
           | Some send \<Rightarrow> with_lock rt (op_device r)
               (bind (store_operation change_id) (\<lambda>again. case again of
                  None \<Rightarrow> throw (OtherError ''AttributeError'' '''')
                | Some r' \<Rightarrow> seq (edit (\<lambda>_. r'))
                    (seq (if op_notification r' \<noteq> Some ''sent'' then deliver_notification rt send else ret ())
                     the_record))))))"

text \<open>\<open>acknowledge\<close> of \<open>refresh_delivery\<close>\<close>

definition acknowledge :: "real \<Rightarrow> operation \<Rightarrow> operation option" where
  "acknowledge finished_at current =
     (if op_status current \<noteq> ''finished'' \<or> op_audit_delivery current \<noteq> Some ''pending''
         \<or> op_finished_at current \<noteq> Some finished_at
      then None else Some (current\<lparr>op_audit_delivery := Some ''acknowledged''\<rparr>))"

definition refresh_delivery :: "('d, 'z) runtime_scheme \<Rightarrow> operation \<Rightarrow> ('d world, operation option) act" where
  "refresh_delivery rt r =
     (if op_status r \<noteq> ''finished'' \<or> op_audit_delivery r \<noteq> Some ''pending'' then ret (Some r)
      else bind (ext (rt_export_state rt)) (\<lambda>(state, _).
      bind (ext (rt_export_updated_at rt)) (\<lambda>status_time.
      case (status_time, op_finished_at r) of
        (Some t, Some f) \<Rightarrow>
          if state = ''acknowledged'' \<and> t > f
          then attempt (update rt (op_change_id r) (acknowledge f))
            (\<lambda>x. case x of StateUnreadable _ \<Rightarrow> throw x | _ \<Rightarrow> if is_rejected x then ret (Some r) else throw x)
            (\<lambda>saved. case saved of
               None \<Rightarrow> ret None
             | Some (s, acknowledged) \<Rightarrow>
                 seq (if acknowledged
                      then audit_record rt (EvDelivery (op_change_id s) (op_device s) (op_notification s) (Some ''acknowledged''))
                      else ret ())
                 (ret (Some s)))
          else ret (Some r)
      | _ \<Rightarrow> ret (Some r))))"

section \<open>Waiting for the safeguard\<close>

text \<open>\<open>_fire_at(record)\<close>, and the text of \<open>adapter.clock(access) + timedelta(seconds)\<close>, which overflows
  outside the years 1 to 9999\<close>

definition fire_at_of :: "operation \<Rightarrow> exn + int" where
  "fire_at_of r = (case op_safeguard r of
     None \<Rightarrow> Inl (OtherError ''KeyError'' ''safeguard'')
   | Some g \<Rightarrow> (case read_stamp (sg_fire_at g) of Inl x \<Rightarrow> Inl x | Inr t \<Rightarrow> Inr (int t)))"

definition LAST_DAY :: nat where "LAST_DAY = 3652059"

definition firing_time :: "int \<Rightarrow> int \<Rightarrow> exn + string" where
  "firing_time now seconds =
     (if now + seconds < int DAY_SECONDS \<or> now + seconds \<ge> int ((LAST_DAY + 1) * DAY_SECONDS)
      then Inl (OtherError ''OverflowError'' ''date value out of range'')
      else Inr (stamp_text (nat (now + seconds))))"

text \<open>\<open>_Deadline\<close>; its fields change in place, so its operations return the new object.\<close>

record deadline =
  dl_end :: real
  dl_unslept :: real
  dl_expired :: string

definition new_deadline :: "('d, 'z) runtime_scheme \<Rightarrow> real \<Rightarrow> string \<Rightarrow> ('d world, deadline) act" where
  "new_deadline rt seconds expired = bind (ext_fun (v_monotonic rt)) (\<lambda>m.
     ret \<lparr>dl_end = m + seconds, dl_unslept = seconds, dl_expired = expired\<rparr>)"

definition left :: "('d, 'z) runtime_scheme \<Rightarrow> deadline \<Rightarrow> ('d world, real) act" where
  "left rt dl = bind (ext_fun (v_monotonic rt)) (\<lambda>m. ret (min (dl_end dl - m) (dl_unslept dl)))"

definition tighten :: "deadline \<Rightarrow> real \<Rightarrow> string \<Rightarrow> deadline" where
  "tighten dl moment expired = dl\<lparr>dl_end := min (dl_end dl) moment, dl_expired := expired\<rparr>"

definition set_read_seconds :: "'d access \<Rightarrow> real option \<Rightarrow> ('d world, unit) act" where
  "set_read_seconds acc seconds = modify (\<lambda>w. w\<lparr>w_ext := ac_set_read_seconds acc seconds (w_ext w)\<rparr>)"

definition not_expired :: "('d, 'z) runtime_scheme \<Rightarrow> deadline \<Rightarrow> ('d world, unit) act" where
  "not_expired rt dl = bind (left rt dl) (\<lambda>l. if l < 0 then throw (Rejected [dl_expired dl]) else ret ())"

definition deadline_read ::
  "('d, 'z) runtime_scheme \<Rightarrow> deadline \<Rightarrow> 'd access \<Rightarrow> ('d, 'a) act \<Rightarrow> ('d world, 'a) act" where
  "deadline_read rt dl acc query =
     seq (not_expired rt dl)
     (bind (fetch (\<lambda>w. ac_read_seconds acc (w_ext w))) (\<lambda>previous.
      bind (left rt dl) (\<lambda>l.
      seq (set_read_seconds acc (Some (max l READ_FLOOR_SECONDS)))
      (bind (attempt (ext query)
               (\<lambda>x. seq (set_read_seconds acc previous) (throw x))
               (\<lambda>answer. seq (set_read_seconds acc previous) (ret answer))) (\<lambda>answer.
      seq (not_expired rt dl) (ret answer))))))"

definition pause :: "('d, 'z) runtime_scheme \<Rightarrow> deadline \<Rightarrow> real \<Rightarrow> ('d world, deadline) act" where
  "pause rt dl wanted = bind (left rt dl) (\<lambda>l.
     if l \<le> 0 then throw (Rejected [dl_expired dl])
     else let seconds = min (max (min wanted l) 1) EXPIRY_POLL_SECONDS in
       seq (ext (rt_sleep rt seconds)) (ret (dl\<lparr>dl_unslept := dl_unslept dl - seconds\<rparr>)))"

text \<open>The two loops are bounded by a number of rounds; \<open>None\<close> means that the bound was reached before
  the loop ended.\<close>

fun wait_for_proof ::
  "nat \<Rightarrow> ('d, 'z) runtime_scheme \<Rightarrow> 'd adapter \<Rightarrow> 'd access \<Rightarrow> operation \<Rightarrow> deadline \<Rightarrow> bool \<Rightarrow> ('d world, unit option) act" where
  "wait_for_proof 0 rt ad acc r dl pending = ret None"
| "wait_for_proof (Suc n) rt ad acc r dl pending =
     bind (deadline_read rt dl acc (ad_safeguard_fired ad acc r)) (\<lambda>fired.
     if fired
     then seq (if pending then ext (rt_sleep rt (of_int EXPIRY_GRACE_SECONDS)) else ret ()) (ret (Some ()))
     else bind (left rt dl) (\<lambda>l. bind (pause rt dl l) (\<lambda>dl'. wait_for_proof n rt ad acc r dl' True)))"

fun wait_loop ::
  "nat \<Rightarrow> ('d, 'z) runtime_scheme \<Rightarrow> 'd adapter \<Rightarrow> 'd access \<Rightarrow> operation \<Rightarrow> int \<Rightarrow> real \<Rightarrow> deadline \<Rightarrow> ('d world, unit option) act" where
  "wait_loop 0 rt ad acc r fire_at due dl = ret None"
| "wait_loop (Suc n) rt ad acc r fire_at due dl =
     bind (deadline_read rt dl acc (ad_clock ad acc)) (\<lambda>now.
     let remaining = fire_at - now + EXPIRY_GRACE_SECONDS in
     if remaining \<le> 0
     then bind (ext_fun (v_monotonic rt)) (\<lambda>m.
       wait_for_proof (Suc n) rt ad acc r
         (tighten dl (max m (due + of_int EXPIRY_GRACE_SECONDS) + EXPIRY_WAIT_SLACK_SECONDS)
           ''the safeguard was not seen fired within the wait limit'') False)
     else bind (pause rt dl (of_int remaining)) (\<lambda>dl'. wait_loop n rt ad acc r fire_at due dl'))"

definition WAIT_ROUNDS :: nat where
  "WAIT_ROUNDS = nat \<lceil>EXPIRY_WAIT_LIMIT_SECONDS\<rceil> + 2"

definition wait_for_expiry ::
  "('d, 'z) runtime_scheme \<Rightarrow> 'd adapter \<Rightarrow> 'd access \<Rightarrow> real \<Rightarrow> ('d world, unit option) act" where
  "wait_for_expiry rt ad acc due = bind the_record (\<lambda>r. bind (lift_res (fire_at_of r)) (\<lambda>fire_at.
     bind (new_deadline rt EXPIRY_WAIT_LIMIT_SECONDS ''the safeguard did not expire within the wait limit'')
       (wait_loop WAIT_ROUNDS rt ad acc r fire_at due)))"

text \<open>The state an unbounded loop would be in: \<open>wait_for_expiry_ends\<close> below shows it is never reached.\<close>

definition waited :: "unit option \<Rightarrow> ('d world, unit) act" where
  "waited ended = (case ended of Some u \<Rightarrow> ret u | None \<Rightarrow> throw (OtherError ''NotTerminated'' ''''))"

section \<open>Settlement\<close>

text \<open>A fresh snapshot compared with one side of the plan.\<close>

definition snapshot :: "'d access \<Rightarrow> ('d world, string) act" where
  "snapshot acc = ext (ac_snapshot acc)"

definition verify :: "('d, 'z) runtime_scheme \<Rightarrow> plan \<Rightarrow> string \<Rightarrow> string \<Rightarrow> ('d world, verdict) act" where
  "verify rt plan snap side = bind (lift_res (rt_verify rt plan snap side)) (\<lambda>vd.
     seq (trace (Verified side (vd_match vd))) (ret vd))"

definition remove_safeguard ::
  "('d, 'z) runtime_scheme \<Rightarrow> 'd adapter \<Rightarrow> 'd access \<Rightarrow> ('d world, bool) act" where
  "remove_safeguard rt ad acc = bind the_record (\<lambda>r. bind (spec_of rt) (\<lambda>spec.
     bind (ext (ad_remove_safeguard ad acc r spec)) (\<lambda>b. seq (trace (Removed b)) (ret b))))"

definition remove_remaining ::
  "('d, 'z) runtime_scheme \<Rightarrow> 'd adapter \<Rightarrow> 'd access \<Rightarrow> ('d world, bool) act" where
  "remove_remaining rt ad acc = bind the_record (\<lambda>r. bind (spec_of rt) (\<lambda>spec.
     bind (ext (ad_remove_remaining ad acc r spec)) (\<lambda>b. seq (trace (Removed b)) (ret b))))"

definition persist :: "('d, 'z) runtime_scheme \<Rightarrow> 'd adapter \<Rightarrow> 'd access \<Rightarrow> ('d world, bool) act" where
  "persist rt ad acc =
     attempt (bind (spec_of rt) (\<lambda>spec. ext (ad_persist ad acc spec)))
       (\<lambda>x. seq (step rt ''persist_failed'' (Some (class_name x))) (ret False))
       (\<lambda>saved. seq (if saved then step rt ''configuration_saved'' None else ret ()) (ret True))"

definition revoke_token :: "('d, 'z) runtime_scheme \<Rightarrow> 'd adapter \<Rightarrow> 'd access \<Rightarrow> ('d world, bool option) act" where
  "revoke_token rt ad acc = (case ad_revoke_token ad of
     None \<Rightarrow> ret None
   | Some revoke \<Rightarrow> bind the_record (\<lambda>r. bind (spec_of rt) (\<lambda>spec. ext (revoke acc r spec))))"

text \<open>\<open>not observed and not disarmed\<close>, evaluated only as far as Python's \<open>and\<close> does\<close>

definition firing_unproven :: "'d adapter \<Rightarrow> 'd access \<Rightarrow> verdict \<Rightarrow> ('d world, bool) act" where
  "firing_unproven ad acc vd =
     (if \<not> vd_match vd \<and> \<not> vd_object_matches vd \<and> \<not> ad_FIRING_OBSERVED ad
      then bind the_record (\<lambda>r. bind (ext (ad_safeguard_disarmed ad acc r)) (\<lambda>d. ret (\<not> d)))
      else ret False)"

definition settle_after_expiry ::
  "('d, 'z) runtime_scheme \<Rightarrow> 'd access \<Rightarrow> plan \<Rightarrow> string \<Rightarrow> real \<Rightarrow> ('d world, operation) act" where
  "settle_after_expiry rt acc plan reason due =
     bind (adapter_of rt (pl_platform plan)) (\<lambda>ad.
     attempt (bind (wait_for_expiry rt ad acc due) (\<lambda>ended. seq (waited ended)
               (bind (snapshot acc) (\<lambda>snap. verify rt plan snap ''before''))))
       (\<lambda>x. seq (step rt ''revert_unverified'' (Some (class_name x))) (finish rt ''unknown'' (Some reason) []))
       (\<lambda>vd. bind (firing_unproven ad acc vd) (\<lambda>unproven.
         if unproven
         then seq (step rt ''safeguard_kept'' (Some ''firing not proven''))
           (bind (revoke_token rt ad acc) (\<lambda>revoked.
            seq (case revoked of None \<Rightarrow> ret ()
                 | Some b \<Rightarrow> step rt (if b then ''safeguard_token_revoked'' else ''safeguard_token_revoke_unverified'') None)
            (finish rt ''unknown'' (Some reason) (vd_differences vd))))
         else bind (remove_safeguard rt ad acc) (\<lambda>cleaned.
           seq (step rt (if cleaned then ''safeguard_removed'' else ''safeguard_removal_unverified'') None)
           (if vd_match vd
            then (if \<not> cleaned then finish rt ''unknown'' (Some ''safeguard cleanup unverified'') []
                  else bind (persist rt ad acc) (\<lambda>ok.
                    if \<not> ok then finish rt ''reverted'' (Some ''not persisted'') []
                    else finish rt ''reverted'' (Some reason) []))
            else if vd_object_matches vd
            then finish rt ''reverted'' (Some (if reason \<in> set BLOCKING_REASONS then reason else ''foreign change''))
                   (vd_differences vd)
            else finish rt ''revert-failed'' (Some reason) (vd_differences vd)))))) "

section \<open>Admission\<close>

definition undelivered :: "string \<Rightarrow> ('d world, string list) act" where
  "undelivered dev = bind records (\<lambda>rs. ret (sort (map op_change_id (filter (\<lambda>r. op_device r = dev
     \<and> op_status r = ''finished'' \<and> undelivered_state (op_notification r)) rs))))"

definition block_accounts :: "('d, 'z) runtime_scheme \<Rightarrow> device \<Rightarrow> ('d world, unit) act" where
  "block_accounts rt dev = seq (block_device rt (dv_name dev) None ''administrator table'')
     (audit_record rt (EvAdministrative (dv_name dev) ''blocked: administrator table'' 0 None))"

text \<open>The moment and the weight a journal record counts with.\<close>

definition budget_moment :: "operation \<Rightarrow> real" where
  "budget_moment r = (case (case op_budget_at r of Some stored \<Rightarrow> stored | None \<Rightarrow> op_created_at r) of
     None \<Rightarrow> 0 | Some t \<Rightarrow> t)"

definition budget_weight :: "operation \<Rightarrow> int" where
  "budget_weight r = (case op_budget_changes r of None \<Rightarrow> 1 | Some n \<Rightarrow> n)"

definition counted :: "operation \<Rightarrow> bool" where
  "counted r \<longleftrightarrow> op_safeguard r \<noteq> None \<or> op_status r = ''running''"

definition spent :: "real \<Rightarrow> operation list \<Rightarrow> int" where
  "spent since rs = sum_list (map budget_weight (filter (\<lambda>r. counted r \<and> budget_moment r \<ge> since) rs))"

definition budgets :: "('d, 'z) runtime_scheme \<Rightarrow> device \<Rightarrow> int \<Rightarrow> ('d world, unit) act" where
  "budgets rt dev changes =
     (if \<not> (1 \<le> changes \<and> changes \<le> 32) then throw (Rejected [''the transaction change count must be in 1..32''])
      else bind (budget_now rt) (\<lambda>now.
      let limits = cg_limits (rt_config rt) in
      bind (rejections_since (now - HOUR)) (\<lambda>refusals.
      if refusals \<ge> lm_rejections_per_hour limits
      then throw (BudgetExhausted [''the budget of rejected requests for this hour is exhausted''])
      else bind records (\<lambda>rs.
      if int (length rs) \<ge> lm_journal_records limits
      then throw (BudgetExhausted [''the journal holds its maximum number of operations; archive it before new changes''])
      else if spent (now - HOUR) (filter (\<lambda>r. op_device r = dv_name dev) rs) + changes > lm_changes_per_device_per_hour limits
      then throw (BudgetExhausted [''the budget of changes on this device for this hour is exhausted''])
      else if spent (now - DAY) rs + changes > lm_changes_per_day limits
      then throw (BudgetExhausted [''the budget of changes for this day is exhausted''])
      else ret ()))))"

definition count_rejection :: "('d, 'z) runtime_scheme \<Rightarrow> ('d world, unit) act" where
  "count_rejection rt = handle (bind (budget_now rt) (note_rejection rt))
     (\<lambda>x. if is_os_error x \<or> is_rejected x then ret () else throw x)"

definition is_budget_exhausted :: "exn \<Rightarrow> bool" where
  "is_budget_exhausted x \<longleftrightarrow> (case x of BudgetExhausted _ \<Rightarrow> True | _ \<Rightarrow> False)"

definition is_snapshot_rejected :: "exn \<Rightarrow> bool" where
  "is_snapshot_rejected x \<longleftrightarrow> (case x of SnapshotRejected _ _ \<Rightarrow> True | _ \<Rightarrow> False)"

text \<open>The handlers of \<open>_apply_counted\<close> and \<open>preview\<close>: a refusal is counted unless a budget refused.\<close>

definition counting :: "('d, 'z) runtime_scheme \<Rightarrow> ('d world, 'a) act \<Rightarrow> ('d world, 'a) act" where
  "counting rt m = handle m (\<lambda>x.
     if is_budget_exhausted x then throw x
     else if is_rejected x then seq (count_rejection rt) (throw x)
     else throw x)"

definition OPT_IN_TABLES :: "string list" where
  "OPT_IN_TABLES = [''firewall policy'']"

definition opt_in :: "device \<Rightarrow> request \<Rightarrow> bool \<Rightarrow> ('d world, unit) act" where
  "opt_in dev req undoing =
     (if undoing then ret ()
      else if rq_table req \<in> set OPT_IN_TABLES \<and> rq_table req \<notin> set (dv_opt_in dev)
      then throw (Rejected [''table '' @ py_repr (rq_table req) @ '' is not enabled for device '' @ dv_name dev @ '' (opt_in)''])
      else ret ())"

definition not_configured :: "string \<Rightarrow> exn" where
  "not_configured name = Rejected [''device '' @ shown name @ '' is not configured'']"

definition target :: "('d, 'z) runtime_scheme \<Rightarrow> string \<Rightarrow> request \<Rightarrow> ('d world, device) act" where
  "target rt name req = (case map_of (cg_devices (rt_config rt)) name of
     None \<Rightarrow> throw (not_configured name)
   | Some dev \<Rightarrow>
       (case rq_device req of
          None \<Rightarrow> ret dev
        | Some named \<Rightarrow>
            if named \<noteq> dv_name dev
            then throw (Rejected [''the request names device '' @ py_repr named @ '', but it was sent to device ''
              @ py_repr (dv_name dev)])
            else ret dev))"

definition journaled :: "('d, 'z) runtime_scheme \<Rightarrow> device \<Rightarrow> request \<Rightarrow> ('d world, operation option) act" where
  "journaled rt dev req = bind records (\<lambda>rs.
     let found = filter (\<lambda>r. op_request_id r = rq_request_id req) rs in
     if list_ex (\<lambda>r. op_request_sha256 r \<noteq> Some (rt_fingerprint rt req) \<or> op_device r \<noteq> dv_name dev) found
     then throw (Rejected [REUSED_REQUEST])
     else ret (case found of [] \<Rightarrow> None | r # _ \<Rightarrow> Some r))"

definition known :: "('d, 'z) runtime_scheme \<Rightarrow> device \<Rightarrow> request \<Rightarrow> ('d world, operation option) act" where
  "known rt dev req = bind (store_request (rq_request_id req)) (\<lambda>entry. case entry of
     None \<Rightarrow> journaled rt dev req
   | Some e \<Rightarrow>
       if re_request_sha256 e \<noteq> rt_fingerprint rt req \<or> re_device e \<noteq> dv_name dev
       then throw (Rejected [REUSED_REQUEST])
       else bind (store_operation (re_change_id e)) (\<lambda>found. case found of
          None \<Rightarrow> throw (unreadable (json_path ''operations'' (re_change_id e)))
        | Some r \<Rightarrow> ret (Some r)))"

text \<open>\<open>_target_lock\<close>: busy and broken locks of the target become refusals.\<close>

definition with_target_lock :: "('d, 'z) runtime_scheme \<Rightarrow> device \<Rightarrow> ('d world, 'a) act \<Rightarrow> ('d world, 'a) act" where
  "with_target_lock rt dev m = handle (seq (ext (rt_target_lock rt (dv_host_key_fingerprint dev))) m)
     (\<lambda>x. if class_name x \<in> {''TargetBusy'', ''TargetLockError''} then throw (Rejected [message x]) else throw x)"

section \<open>Preparation\<close>

definition state_eq :: "attributes option \<Rightarrow> attributes option \<Rightarrow> bool" where
  "state_eq a b = (case (a, b) of (None, None) \<Rightarrow> True | (Some x, Some y) \<Rightarrow> dict_eq x y | _ \<Rightarrow> False)"

definition PROTOCOL :: string where "PROTOCOL = ''netops-enrollment/1''"

text \<open>\<open>enrollment.require\<close>\<close>

definition require :: "('d, 'z) runtime_scheme \<Rightarrow> device \<Rightarrow> string \<Rightarrow> string option \<Rightarrow> ('d world, unit) act" where
  "require rt dev accounts firmware = bind (store_enrollment (dv_name dev)) (\<lambda>cert. case cert of
     Some c \<Rightarrow>
       if ce_protocol c = PROTOCOL \<and> ce_binding c = rt_binding rt dev accounts firmware then ret ()
       else throw (Rejected [''a successful enroll self-test is required for this device, build and configuration''])
   | None \<Rightarrow> throw (Rejected [''a successful enroll self-test is required for this device, build and configuration'']))"

definition refuse_if :: "string list \<Rightarrow> ('d world, unit) act" where
  "refuse_if reasons = (if reasons \<noteq> [] then throw (Rejected reasons) else ret ())"

text \<open>\<open>except Rejected: raise / except Exception\<close>\<close>

definition unreadable_device :: "('d world, 'a) act \<Rightarrow> ('d world, 'a) act" where
  "unreadable_device m = handle m (\<lambda>x. if is_rejected x then throw x
     else throw (Rejected [''the device could not be read before any change: '' @ message x]))"

definition accounts_before ::
  "('d, 'z) runtime_scheme \<Rightarrow> device \<Rightarrow> 'd adapter \<Rightarrow> 'd access \<Rightarrow> string \<Rightarrow> string option \<Rightarrow> bool \<Rightarrow> ('d world, string) act" where
  "accounts_before rt dev ad acc before_text baseline previewing =
     handle (bind (ext (ad_accounts_check ad acc dev before_text)) (\<lambda>accounts.
       if baseline \<noteq> None \<and> baseline \<noteq> Some accounts
       then throw (Rejected [''the administrator accounts changed since the last operation''])
       else ret accounts))
     (\<lambda>x. if is_rejected x \<and> \<not> previewing \<and> \<not> is_snapshot_rejected x
          then seq (block_accounts rt dev) (throw x) else throw x)"

record 'd reading =
  rd_access :: "'d access"
  rd_text :: string
  rd_accounts :: string
  rd_hostname :: string
  rd_ports :: "string list option"

definition read_device ::
  "('d, 'z) runtime_scheme \<Rightarrow> device \<Rightarrow> 'd adapter \<Rightarrow> request \<Rightarrow> string option \<Rightarrow> bool \<Rightarrow> ('d world, 'd reading) act" where
  "read_device rt dev ad req baseline previewing = unreadable_device (
     bind (ext (rt_access_factory rt dev)) (\<lambda>acc.
     bind (snapshot acc) (\<lambda>before_text.
     bind (accounts_before rt dev ad acc before_text baseline previewing) (\<lambda>accounts.
     bind (ext (ad_leftovers ad acc)) (\<lambda>leftovers.
     seq (refuse_if (if leftovers = [] then [] else [''a safeguard of an earlier operation is still installed: ''
            @ join '', '' leftovers]))
     (bind (ext (ad_hostname ad acc before_text)) (\<lambda>hostname.
     bind (ext (ad_prechecks ad acc dev before_text (ad_prompt_spec ad hostname))) (\<lambda>reasons.
     seq (refuse_if reasons)
     (bind (ext (ad_ports ad acc (rq_table req))) (\<lambda>ports.
     ret \<lparr>rd_access = acc, rd_text = before_text, rd_accounts = accounts, rd_hostname = hostname, rd_ports = ports\<rparr>))))))))))"

text \<open>What refuses a request before the device is read.\<close>

definition admissible :: "('d, 'z) runtime_scheme \<Rightarrow> device \<Rightarrow> ('d world, string) act" where
  "admissible rt dev =
     seq (budgets rt dev 1)
     (bind (blocked (dv_name dev)) (\<lambda>blk.
     seq (case blk of None \<Rightarrow> ret ()
          | Some b \<Rightarrow> throw (Rejected [''the device is blocked ('' @ bk_reason b @ '', operation ''
              @ (case bk_change_id b of None \<Rightarrow> ''none'' | Some c \<Rightarrow> c)
              @ ''); a person must investigate and unblock it'']))
     (bind (undelivered (dv_name dev)) (\<lambda>missing.
     seq (case missing of [] \<Rightarrow> ret ()
          | c # _ \<Rightarrow> throw (Rejected [''the notification of operation '' @ c
              @ '' was not delivered; run notify-retry, or a person unblocks the device after checking the notification channel'']))
     (bind (running (dv_name dev)) (\<lambda>unfinished.
     seq (refuse_if (if unfinished = [] then [] else [''an unfinished operation exists on this device; run recover first'']))
     (seq (check_writable rt)
     (seq (ext (rt_audit_writable rt))
     (bind (ext (rt_export_state rt)) (\<lambda>(export, why).
     seq (refuse_if (if export = ''blocked'' then [''audit export is blocked: '' @ why] else []))
     (ret export)))))))))))"

text \<open>The certificate of the self-test: a preview collects what is missing, a change needs it, and an
  enrollment needs a working notification and audit export instead.\<close>

definition certified ::
  "('d, 'z) runtime_scheme \<Rightarrow> device \<Rightarrow> string \<Rightarrow> plan \<Rightarrow> string \<Rightarrow> bool \<Rightarrow> bool \<Rightarrow> ('d world, string list) act" where
  "certified rt dev accounts plan export enrolling previewing =
     (if previewing
      then handle (seq (require rt dev accounts (pl_firmware plan)) (ret []))
        (\<lambda>x. if is_rejected x then ret (reasons_of x) else throw x)
      else if \<not> enrolling then seq (require rt dev accounts (pl_firmware plan)) (ret [])
      else if rt_notifier rt = None
        \<or> (export \<notin> {''acknowledged'', ''pending''} \<and> (rt_require_export rt \<or> export \<noteq> ''not-configured''))
      then throw (Rejected [''enrollment requires notification and '' @
        (if rt_require_export rt then ''a healthy configured audit export'' else ''an available operation audit'')])
      else ret [])"

definition unaudited :: "('d world, 'a) act \<Rightarrow> ('d world, 'a) act" where
  "unaudited m = handle m (\<lambda>x. if is_rejected x then throw x
     else throw (Rejected [''the auditor could not evaluate the snapshot before the change ('' @ class_name x @ '')'']))"

definition predicted_audit ::
  "('d, 'z) runtime_scheme \<Rightarrow> device \<Rightarrow> plan \<Rightarrow> string \<Rightarrow> ('d world, findings) act" where
  "predicted_audit rt dev plan before_text = unaudited (
     bind (lift_res (rt_snapshot_after rt before_text plan)) (\<lambda>after.
     bind (lift_res (rt_audited rt after plan)) (\<lambda>predicted_text.
     bind (lift_res (rt_audited rt before_text plan)) (\<lambda>current_text.
     bind (lift_res (rt_baseline rt dev current_text)) (\<lambda>audit_before.
     seq (lift_res (rt_evaluate rt dev predicted_text (pl_table plan) audit_before))
     (seq (lift_res (rt_check_policy rt dev plan predicted_text audit_before))
     (bind (lift_res (rt_new_blocking rt dev audit_before predicted_text None)) (\<lambda>found.
     seq (refuse_if (if found = [] then [] else [''predicted audit findings: '' @ join '', '' found]))
     (ret audit_before)))))))))"

definition observed ::
  "('d, 'z) runtime_scheme \<Rightarrow> 'd adapter \<Rightarrow> 'd access \<Rightarrow> plan \<Rightarrow> ('d world, attributes option) act" where
  "observed rt ad acc plan = bind (ext (ad_observe ad acc plan)) (\<lambda>seen. lift_res (rt_observed_state rt plan seen))"

definition observed_before ::
  "('d, 'z) runtime_scheme \<Rightarrow> 'd adapter \<Rightarrow> 'd access \<Rightarrow> plan \<Rightarrow> ('d world, unit) act" where
  "observed_before rt ad acc plan = bind (handle (observed rt ad acc plan) (\<lambda>x.
       if is_rejected x
       then throw (Rejected [''the check account answer about the object before the change was refused: '' @ join ''; '' (reasons_of x)])
       else throw (Rejected [''the check account could not read the object before the change ('' @ class_name x @ '')''])))
     (\<lambda>seen. refuse_if (if state_eq seen (pl_before plan) then []
        else [''the check account sees the object in another state than the snapshot'']))"

record 'd prepared = "'d reading" +
  pr_plan :: plan
  pr_audit_before :: findings
  pr_missing :: "string list"

text \<open>\<open>_prepared\<close>; \<open>expected = None\<close> is \<open>ANY_STATE\<close>.\<close>

definition prepared ::
  "('d, 'z) runtime_scheme \<Rightarrow> device \<Rightarrow> 'd adapter \<Rightarrow> request \<Rightarrow> attributes option option \<Rightarrow> bool \<Rightarrow> bool \<Rightarrow> bool
   \<Rightarrow> ('d world, 'd prepared) act" where
  "prepared rt dev ad req expected enrolling previewing undoing =
     bind (admissible rt dev) (\<lambda>export.
     bind (store_baseline (dv_name dev)) (\<lambda>baseline.
     bind (read_device rt dev ad req baseline previewing) (\<lambda>rd.
     bind (lift_res (rt_build_plan rt (dv_platform dev) (rd_text rd) req dev enrolling (rd_ports rd) undoing)) (\<lambda>plan.
     bind (unreadable_device (ext (ad_plan_prechecks ad (rd_access rd) dev plan (rd_text rd)))) (\<lambda>reasons.
     seq (refuse_if reasons)
     (bind (certified rt dev (rd_accounts rd) plan export enrolling previewing) (\<lambda>missing.
     let most = lm_plan_commands (cg_limits (rt_config rt)) in
     seq (refuse_if (if int (length (pl_commands plan)) > most \<or> int (length (pl_inverse plan)) > most
            then [''the plan holds more than '' @ show_nat (nat most) @ '' commands''] else []))
     (seq (case expected of None \<Rightarrow> ret ()
           | Some side \<Rightarrow> refuse_if (if state_eq (pl_before plan) side then []
               else [''the object differs from the state the undo was planned against'']))
     (let plan = plan\<lparr>pl_device := Some (dv_name dev)\<rparr> in
      bind (predicted_audit rt dev plan (rd_text rd)) (\<lambda>audit_before.
      seq (observed_before rt ad (rd_access rd) plan)
      (ret \<lparr>rd_access = rd_access rd, rd_text = rd_text rd, rd_accounts = rd_accounts rd, rd_hostname = rd_hostname rd,
         rd_ports = rd_ports rd, pr_plan = plan, pr_audit_before = audit_before, pr_missing = missing\<rparr>))))))))))) "

section \<open>Execution\<close>

definition SAFEGUARD_PREFIX :: string where "SAFEGUARD_PREFIX = ''netops-sg-''"

definition differ :: "verdict \<Rightarrow> string option" where
  "differ vd = Some (show_nat (length (vd_differences vd)) @ '' differences'')"

text \<open>\<open>_returned\<close>\<close>

definition returned :: "('d, 'z) runtime_scheme \<Rightarrow> plan \<Rightarrow> string \<Rightarrow> bool" where
  "returned rt plan snap = (case rt_verify rt plan snap ''before'' of Inl _ \<Rightarrow> False | Inr vd \<Rightarrow> vd_match vd)"

text \<open>\<open>_execute\<close> in the order of its stages, the last one first. Removal of the safeguard and what
  follows:\<close>

definition confirm_saved ::
  "('d, 'z) runtime_scheme \<Rightarrow> 'd access \<Rightarrow> plan \<Rightarrow> ('d world, operation) act" where
  "confirm_saved rt acc plan = bind the_record (\<lambda>r.
     if op_steps r \<noteq> [] \<and> sp_step (last (op_steps r)) = ''configuration_saved''
     then attempt (bind (snapshot acc) (\<lambda>snap. verify rt plan snap ''after''))
       (\<lambda>x. seq (step rt ''saved_check_failed'' (Some (class_name x)))
              (finish rt ''confirmed'' (Some ''saved configuration unverified'') []))
       (\<lambda>saved. if \<not> vd_match saved
          then seq (step rt ''saved_check_failed'' (differ saved))
                 (finish rt ''confirmed'' (Some ''foreign change during save'') (vd_differences saved))
          else finish rt ''confirmed'' None [])
     else finish rt ''confirmed'' None [])"

definition confirm ::
  "('d, 'z) runtime_scheme \<Rightarrow> 'd adapter \<Rightarrow> 'd access \<Rightarrow> plan \<Rightarrow> real \<Rightarrow> ('d world, operation) act" where
  "confirm rt ad acc plan due =
     seq (step rt ''confirm_start'' None)
     (bind (remove_safeguard rt ad acc) (\<lambda>removed.
      if \<not> removed
      then seq (step rt ''confirm_unverified'' None) (settle_after_expiry rt acc plan ''confirmation unverified'' due)
      else attempt (bind (snapshot acc) (\<lambda>snap. bind (verify rt plan snap ''after'') (\<lambda>vd. ret (snap, vd))))
        (\<lambda>x. seq (step rt ''removal_check_failed'' (Some (class_name x)))
               (finish rt ''unknown'' (Some ''final check unavailable'') []))
        (\<lambda>(snap, vd).
          if \<not> vd_match vd
          then seq (step rt ''removal_check_failed'' (differ vd))
            (if returned rt plan snap
             then finish rt ''reverted'' (Some ''safeguard fired during confirmation'') []
             else finish rt ''unknown'' (Some ''foreign change after the safeguard was removed'') (vd_differences vd))
          else bind (persist rt ad acc) (\<lambda>ok.
            if \<not> ok then finish rt ''confirmed'' (Some ''not persisted'') []
            else confirm_saved rt acc plan))))"

definition final_check ::
  "('d, 'z) runtime_scheme \<Rightarrow> 'd adapter \<Rightarrow> 'd access \<Rightarrow> plan \<Rightarrow> real \<Rightarrow> ('d world, operation) act" where
  "final_check rt ad acc plan due =
     attempt (bind (snapshot acc) (\<lambda>snap. bind (verify rt plan snap ''after'') (\<lambda>vd. ret (snap, vd))))
       (\<lambda>x. seq (step rt ''final_check_failed'' (Some (class_name x)))
              (settle_after_expiry rt acc plan ''final check unavailable'' due))
       (\<lambda>(snap, vd).
         if \<not> vd_match vd
         then seq (step rt ''final_check_failed'' (differ vd))
           (seq (edit (\<lambda>r. r\<lparr>op_final_check_differences := vd_differences vd\<rparr>))
           (settle_after_expiry rt acc plan
             (if returned rt plan snap then ''safeguard fired during confirmation'' else ''foreign change'') due))
         else confirm rt ad acc plan due)"

text \<open>\<open>_fire_at(record) - adapter.clock(access)\<close>, or -1 when one of them cannot be read\<close>

definition remaining_time :: "'d adapter \<Rightarrow> 'd access \<Rightarrow> ('d world, int) act" where
  "remaining_time ad acc = handle (bind the_record (\<lambda>r. bind (lift_res (fire_at_of r)) (\<lambda>fire_at.
       bind (ext (ad_clock ad acc)) (\<lambda>now. ret (fire_at - now)))))
     (\<lambda>_. ret (-1))"

definition confirm_margin ::
  "('d, 'z) runtime_scheme \<Rightarrow> 'd adapter \<Rightarrow> 'd access \<Rightarrow> plan \<Rightarrow> device \<Rightarrow> real \<Rightarrow> ('d world, operation) act" where
  "confirm_margin rt ad acc plan dev due = bind the_record (\<lambda>r.
     if op_kind r = ''enrollment'' then settle_after_expiry rt acc plan ''enrollment self-test'' due
     else bind (remaining_time ad acc) (\<lambda>remaining.
       if remaining < dv_confirm_margin_seconds dev
       then seq (step rt ''confirm_skipped'' (Some ''too close to the safeguard''))
              (settle_after_expiry rt acc plan ''no time left to confirm'' due)
       else final_check rt ad acc plan due))"

definition check_identity ::
  "('d, 'z) runtime_scheme \<Rightarrow> 'd adapter \<Rightarrow> 'd access \<Rightarrow> plan \<Rightarrow> device \<Rightarrow> real \<Rightarrow> ('d world, operation) act" where
  "check_identity rt ad acc plan dev due =
     attempt (observed rt ad acc plan)
       (\<lambda>x. seq (step rt ''check_identity_failed'' (Some (class_name x)))
              (settle_after_expiry rt acc plan ''check identity unavailable'' due))
       (\<lambda>seen. if \<not> state_eq seen (pl_after plan)
          then seq (step rt ''check_identity_failed'' (Some ''state differs''))
                 (settle_after_expiry rt acc plan ''check identity mismatch'' due)
          else seq (step rt ''check_identity_passed'' None) (confirm_margin rt ad acc plan dev due))"

definition audit_after ::
  "('d, 'z) runtime_scheme \<Rightarrow> plan \<Rightarrow> device \<Rightarrow> string \<Rightarrow> ('d world, string list) act" where
  "audit_after rt plan dev after_text = bind the_record (\<lambda>r.
     bind (lift_res (rt_audited rt after_text plan)) (\<lambda>snap.
     seq (lift_res (rt_evaluate rt dev snap (pl_table plan) (op_audit_before r)))
     (seq (lift_res (rt_check_policy rt dev plan snap (op_audit_before r)))
     (lift_res (rt_new_blocking rt dev (op_audit_before r) snap
       (Some (SAFEGUARD_PREFIX @ take 12 (op_change_id r) @ ''-'')))))))"

definition audit_gate ::
  "('d, 'z) runtime_scheme \<Rightarrow> 'd adapter \<Rightarrow> 'd access \<Rightarrow> plan \<Rightarrow> device \<Rightarrow> real \<Rightarrow> string \<Rightarrow> ('d world, operation) act" where
  "audit_gate rt ad acc plan dev due after_text =
     attempt (audit_after rt plan dev after_text)
       (\<lambda>x. case x of
          Incomplete _ summary \<Rightarrow> seq (step rt ''audit_incomplete'' (Some summary))
            (settle_after_expiry rt acc plan ''audit incomplete'' due)
        | _ \<Rightarrow> seq (step rt ''audit_failed'' (Some (class_name x)))
            (settle_after_expiry rt acc plan ''audit unavailable'' due))
       (\<lambda>found. if found \<noteq> []
          then seq (edit (\<lambda>r. r\<lparr>op_audit_findings := found\<rparr>))
            (seq (step rt ''audit_failed'' (Some (show_nat (length found) @ '' new findings'')))
            (settle_after_expiry rt acc plan ''audit finding'' due))
          else seq (bind the_record (\<lambda>r. step rt ''audit_passed'' (Some (rt_audit_note rt dev (op_audit_before r)))))
            (check_identity rt ad acc plan dev due))"

text \<open>The handlers of the postcheck; \<open>cause\<close> is the one reached when the exception was raised.\<close>

definition postcheck_failed ::
  "('d, 'z) runtime_scheme \<Rightarrow> 'd access \<Rightarrow> plan \<Rightarrow> real \<Rightarrow> string \<Rightarrow> exn \<Rightarrow> ('d world, operation) act" where
  "postcheck_failed rt acc plan due cause x =
     (if is_rejected x
      then let why = (case x of SnapshotRejected _ category \<Rightarrow> category | _ \<Rightarrow> cause) in
        seq (step rt ''postcheck_failed'' (Some why)) (settle_after_expiry rt acc plan why due)
      else seq (step rt ''postcheck_failed'' (Some (class_name x)))
        (settle_after_expiry rt acc plan ''postcheck unavailable'' due))"

definition accounts_after ::
  "'d adapter \<Rightarrow> 'd access \<Rightarrow> device \<Rightarrow> ('d world, string) act" where
  "accounts_after ad acc dev = bind (snapshot acc) (\<lambda>after_text.
     bind (ext (ad_accounts_check ad acc dev after_text)) (\<lambda>accounts. bind the_record (\<lambda>r.
     if accounts \<noteq> op_accounts r
     then throw (Rejected [''the administrator accounts changed during the operation''])
     else ret after_text)))"

definition postcheck ::
  "('d, 'z) runtime_scheme \<Rightarrow> 'd adapter \<Rightarrow> 'd access \<Rightarrow> plan \<Rightarrow> device \<Rightarrow> real \<Rightarrow> ('d world, operation) act" where
  "postcheck rt ad acc plan dev due =
     attempt (accounts_after ad acc dev) (postcheck_failed rt acc plan due ''administrator table'') (\<lambda>after_text.
     attempt (verify rt plan after_text ''after'') (postcheck_failed rt acc plan due ''postcheck rejected'') (\<lambda>vd.
     if \<not> vd_match vd
     then seq (step rt ''postcheck_failed'' (differ vd))
       (seq (edit (\<lambda>r. r\<lparr>op_postcheck_differences := vd_differences vd\<rparr>))
       (settle_after_expiry rt acc plan ''prediction mismatch'' due))
     else seq (step rt ''postcheck_passed'' None) (audit_gate rt ad acc plan dev due after_text)))"

definition accepted_lines :: "exn \<Rightarrow> nat" where
  "accepted_lines x = (case x of AccessError _ n \<Rightarrow> n | _ \<Rightarrow> 0)"

definition apply_change ::
  "('d, 'z) runtime_scheme \<Rightarrow> 'd adapter \<Rightarrow> 'd access \<Rightarrow> plan \<Rightarrow> device \<Rightarrow> real \<Rightarrow> prompt_spec \<Rightarrow> ('d world, operation) act" where
  "apply_change rt ad acc plan dev due spec =
     attempt (seq (trace (Applied (pl_commands plan)))
               (seq (ext (ac_apply acc (map Command (pl_commands plan)) spec)) (step rt ''change_applied'' None)))
       (\<lambda>x. seq (step rt ''change_failed'' (Some (class_name x @ '' after '' @ show_nat (accepted_lines x) @ '' lines'')))
              (settle_after_expiry rt acc plan ''change failed'' due))
       (\<lambda>_. postcheck rt ad acc plan dev due)"

definition install_problem :: "exn \<Rightarrow> string" where
  "install_problem x = ''safeguard installation failed ('' @
     (case x of AccessError m _ \<Rightarrow> ''AccessError: '' @ m | _ \<Rightarrow> class_name x) @ '')''"

definition install_safeguard ::
  "('d, 'z) runtime_scheme \<Rightarrow> 'd adapter \<Rightarrow> 'd access \<Rightarrow> plan \<Rightarrow> device \<Rightarrow> prompt_spec \<Rightarrow> ('d world, string list) act" where
  "install_safeguard rt ad acc plan dev spec = bind the_record (\<lambda>r.
     bind (attempt (ext (ad_install_safeguard ad acc r plan dev spec))
             (\<lambda>x. ret [install_problem x])
             (\<lambda>(problems, g). seq (edit (\<lambda>r. r\<lparr>op_safeguard := Some g\<rparr>)) (ret problems))) (\<lambda>problems.
     seq (trace (Installed (problems = []))) (ret problems)))"

text \<open>The rest of \<open>_execute\<close> once the installation of the safeguard returned.\<close>

definition after_install ::
  "('d, 'z) runtime_scheme \<Rightarrow> 'd adapter \<Rightarrow> 'd access \<Rightarrow> plan \<Rightarrow> device \<Rightarrow> prompt_spec \<Rightarrow> string list \<Rightarrow> ('d world, operation) act" where
  "after_install rt ad acc plan dev spec problems =
     bind (ext_fun (v_monotonic rt)) (\<lambda>m.
          let due = m + of_int (dv_safeguard_seconds dev) in
          if problems \<noteq> []
          then seq (step rt ''safeguard_not_verified'' (Some (hd problems)))
            (bind (remove_safeguard rt ad acc) (\<lambda>cleaned.
             bind (if cleaned then persist rt ad acc else ret True) (\<lambda>ok.
             if cleaned \<and> \<not> ok then finish rt ''reverted'' (Some ''not persisted'') []
             else finish rt (if cleaned then ''reverted'' else ''unknown'') (Some ''safeguard not verified'') [])))
          else seq (save_record rt)
            (seq (step rt ''safeguard_verified'' None)
            (seq (step rt ''change_start'' None)
            (apply_change rt ad acc plan dev due spec))))"

definition execute ::
  "('d, 'z) runtime_scheme \<Rightarrow> 'd adapter \<Rightarrow> 'd access \<Rightarrow> plan \<Rightarrow> device \<Rightarrow> ('d world, operation) act" where
  "execute rt ad acc plan dev = bind (spec_of rt) (\<lambda>spec.
     attempt (ext (bind (ad_clock ad acc) (\<lambda>now. lift_res (firing_time now (dv_safeguard_seconds dev)))))
       (\<lambda>x. seq (step rt ''clock_unreadable'' (Some (class_name x))) (finish rt ''rejected'' (Some ''device clock'') []))
       (\<lambda>fire_at.
         seq (edit (\<lambda>r. r\<lparr>op_safeguard := Some \<lparr>sg_fire_at = fire_at,
                sg_name = ad_safeguard_label ad (op_change_id r)\<rparr>\<rparr>))
         (seq (step rt ''safeguard_install'' None)
         (bind (install_safeguard rt ad acc plan dev spec) (after_install rt ad acc plan dev spec)))))"

section \<open>Applying a request\<close>

text \<open>\<open>enrollment.complete\<close>: the certificate is written only after the device was read back.\<close>

definition enrollment_verified ::
  "('d, 'z) runtime_scheme \<Rightarrow> 'd adapter \<Rightarrow> 'd access \<Rightarrow> device \<Rightarrow> plan \<Rightarrow> ('d world, string) act" where
  "enrollment_verified rt ad acc dev plan =
     bind (snapshot acc) (\<lambda>snap.
     bind (verify rt plan snap ''before'') (\<lambda>vd.
     if \<not> vd_match vd then throw (Rejected [''enrollment cleanup did not restore the initial configuration''])
     else bind (observed rt ad acc plan) (\<lambda>seen.
     if seen \<noteq> None then throw (Rejected [''the check account still sees the enrollment probe''])
     else bind (ext (ad_accounts_check ad acc dev snap)) (\<lambda>accounts.
     bind the_record (\<lambda>r.
     if accounts \<noteq> op_accounts r then throw (Rejected [''enrollment identities or safeguard cleanup changed''])
     else bind (ext (ad_safeguard_absent ad acc r)) (\<lambda>absent.
     if \<not> absent then throw (Rejected [''enrollment identities or safeguard cleanup changed''])
     else ret accounts))))))"

definition complete ::
  "('d, 'z) runtime_scheme \<Rightarrow> device \<Rightarrow> 'd access \<Rightarrow> operation \<Rightarrow> ('d world, operation) act" where
  "complete rt dev acc r =
     (if op_result r \<noteq> Some ''reverted'' \<or> op_reason r \<noteq> Some ''enrollment self-test'' then ret r
      else if op_notification r \<noteq> Some ''sent'' then ret r
      else bind (adapter_of rt (dv_platform dev)) (\<lambda>ad.
      attempt (enrollment_verified rt ad acc dev (op_plan r))
        (\<lambda>x. seq (block_device rt (dv_name dev) (Some (op_change_id r)) ''enrollment verification'')
               (throw (Rejected [''the enrollment result could not be verified; the device is blocked''])))
        (\<lambda>accounts.
          seq (save_enrollment rt (dv_name dev) \<lparr>ce_protocol = PROTOCOL,
                 ce_binding = rt_binding rt dev accounts (pl_firmware (op_plan r)),
                 ce_firmware = pl_firmware (op_plan r), ce_change_id = op_change_id r\<rparr>)
          (seq (edit (\<lambda>r. r\<lparr>op_enrollment := Some ''valid''\<rparr>))
          (seq (save_record rt)
          (seq (audit_record rt (EvAdministrative (dv_name dev) ''enrolled'' 0 (Some (op_change_id r))))
          the_record))))))"

definition new_record ::
  "('d, 'z) runtime_scheme \<Rightarrow> device \<Rightarrow> request \<Rightarrow> bool \<Rightarrow> 'd prepared \<Rightarrow> string \<Rightarrow> real \<Rightarrow> real \<Rightarrow> operation" where
  "new_record rt dev req enrolling p change_id created budget_at =
     \<lparr>op_change_id = change_id, op_request_id = rq_request_id req, op_request_sha256 = Some (rt_fingerprint rt req),
      op_device = dv_name dev, op_status = ''running'', op_result = None, op_reason = None, op_hostname = rd_hostname p,
      op_plan = (pr_plan p)\<lparr>pl_safeguard_id := Some change_id\<rparr>, op_steps = [], op_created_at = Some created,
      op_budget_at = Some (Some budget_at), op_finished_at = None,
      op_kind = (if enrolling then ''enrollment'' else ''change''), op_budget_changes = Some 1,
      op_audit_before = pr_audit_before p, op_accounts = rd_accounts p, op_safeguard = None, op_foreign_sessions = None,
      op_differences = [], op_postcheck_differences = [], op_final_check_differences = [], op_audit_findings = [],
      op_notification = None, op_audit_delivery = None, op_enrollment = None\<rparr>"

text \<open>The admission of a new operation to the journal, under the admission lock; \<open>Some r\<close> is the record
  of a request that was started in the meantime.\<close>

definition admit :: "('d, 'z) runtime_scheme \<Rightarrow> device \<Rightarrow> request \<Rightarrow> ('d world, operation option) act" where
  "admit rt dev req = with_admission rt (bind (known rt dev req) (\<lambda>found. case found of
     Some r \<Rightarrow> ret (Some r)
   | None \<Rightarrow> bind the_record (\<lambda>r.
       seq (budgets rt dev (budget_weight r))
       (seq (save rt r)
       (seq (save_baseline rt (dv_name dev) (op_accounts r))
       (seq (remember_request rt (rq_request_id req) (op_change_id r) (rt_fingerprint rt req) (dv_name dev))
       (ret None)))))))"

definition note_foreign_sessions ::
  "('d, 'z) runtime_scheme \<Rightarrow> 'd adapter \<Rightarrow> 'd access \<Rightarrow> device \<Rightarrow> ('d world, unit) act" where
  "note_foreign_sessions rt ad acc dev =
     attempt (ext (ad_foreign_sessions ad acc dev))
       (\<lambda>x. seq (edit (\<lambda>r. r\<lparr>op_foreign_sessions := None\<rparr>))
              (step rt ''foreign_sessions_unreadable'' (Some (class_name x))))
       (\<lambda>n. seq (edit (\<lambda>r. r\<lparr>op_foreign_sessions := Some (int n)\<rparr>))
              (step rt ''foreign_sessions'' (Some (show_nat n @ '' other sessions''))))"

text \<open>The enrollment self-test needs a delivered notification before it touches the device.\<close>

definition execute_enrollment ::
  "('d, 'z) runtime_scheme \<Rightarrow> 'd adapter \<Rightarrow> 'd access \<Rightarrow> device \<Rightarrow> plan \<Rightarrow> ('d world, operation) act" where
  "execute_enrollment rt ad acc dev plan = bind the_record (\<lambda>r.
     bind (case rt_notifier rt of
             None \<Rightarrow> ret ''failed''
           | Some send \<Rightarrow> notify send (r\<lparr>op_result := Some ''enrollment-preflight''\<rparr>)) (\<lambda>delivered.
     if delivered \<noteq> ''sent'' then finish rt ''rejected'' (Some ''enrollment notification unavailable'') []
     else seq (step rt ''enrollment_notification_verified'' None)
       (seq (clear_enrollment rt (dv_name dev))
       (bind (execute rt ad acc plan dev) (complete rt dev acc)))))"

definition start_operation ::
  "('d, 'z) runtime_scheme \<Rightarrow> 'd adapter \<Rightarrow> 'd access \<Rightarrow> device \<Rightarrow> bool \<Rightarrow> ('d world, operation) act" where
  "start_operation rt ad acc dev enrolling = bind the_record (\<lambda>r.
     seq (audit_record rt (EvStart (op_change_id r) (op_request_id r) (dv_name dev) (pl_plan_sha256 (op_plan r))
            (length (pl_commands (op_plan r))) (length (pl_inverse (op_plan r))) (ad_safeguard_label ad (op_change_id r))))
     (seq (note_foreign_sessions rt ad acc dev)
     (if \<not> enrolling then execute rt ad acc (op_plan r) dev
      else execute_enrollment rt ad acc dev (op_plan r))))"

definition apply_request ::
  "('d, 'z) runtime_scheme \<Rightarrow> string \<Rightarrow> request \<Rightarrow> attributes option option \<Rightarrow> bool \<Rightarrow> bool \<Rightarrow> ('d world, operation) act" where
  "apply_request rt name req expected enrolling undoing =
     bind (target rt name req) (\<lambda>dev.
     seq (opt_in dev req undoing)
     (bind (adapter_of rt (dv_platform dev)) (\<lambda>ad.
     with_lock rt (dv_name dev) (with_target_lock rt dev (
       bind (known rt dev req) (\<lambda>found. case found of
         Some r \<Rightarrow> ret r
       | None \<Rightarrow>
           bind (prepared rt dev ad req expected enrolling False undoing) (\<lambda>p.
           bind (ext_fun (rt_token_hex rt 16)) (\<lambda>change_id.
           bind (ext_fun (v_time rt)) (\<lambda>created.
           bind (budget_now rt) (\<lambda>budget_at.
           seq (edit (\<lambda>_. new_record rt dev req enrolling p change_id created budget_at))
           (bind (admit rt dev req) (\<lambda>again. case again of
              Some r \<Rightarrow> ret r
            | None \<Rightarrow> start_operation rt ad (rd_access p) dev enrolling))))))))))))"

definition apply_counted ::
  "('d, 'z) runtime_scheme \<Rightarrow> string \<Rightarrow> request \<Rightarrow> attributes option option \<Rightarrow> bool \<Rightarrow> ('d world, operation) act" where
  "apply_counted rt name req expected undoing = counting rt (apply_request rt name req expected False undoing)"

definition apply_plain :: "('d, 'z) runtime_scheme \<Rightarrow> string \<Rightarrow> request \<Rightarrow> ('d world, operation) act" where
  "apply_plain rt name req = apply_counted rt name req None False"

section \<open>Preview\<close>

datatype preview_result =
    KnownRequest string string
  | PreviewRejected string "string list"
  | PreviewPlan string "string list" plan findings int

definition preview_body ::
  "('d, 'z) runtime_scheme \<Rightarrow> device \<Rightarrow> 'd adapter \<Rightarrow> request \<Rightarrow> ('d world, preview_result \<times> bool) act" where
  "preview_body rt dev ad req =
     attempt (bind (known rt dev req) (\<lambda>found. case found of
         Some r \<Rightarrow> ret (Inl r)
       | None \<Rightarrow> bind (prepared rt dev ad req None False True False) (\<lambda>p. ret (Inr p))))
       (\<lambda>x. if is_rejected x
            then ret (PreviewRejected (dv_name dev) (reasons_of x), \<not> is_budget_exhausted x) else throw x)
       (\<lambda>got. case got of
          Inl r \<Rightarrow> ret (KnownRequest (dv_name dev) (op_change_id r), False)
        | Inr p \<Rightarrow> ret (PreviewPlan (dv_name dev) (pr_missing p) (pr_plan p) (pr_audit_before p) (dv_safeguard_seconds dev),
            pr_missing p \<noteq> []))"

definition preview :: "('d, 'z) runtime_scheme \<Rightarrow> string \<Rightarrow> request \<Rightarrow> ('d world, preview_result) act" where
  "preview rt name req =
     bind (counting rt (bind (target rt name req) (\<lambda>dev.
       seq (opt_in dev req False)
       (bind (adapter_of rt (dv_platform dev)) (\<lambda>ad.
       with_lock rt (dv_name dev) (with_target_lock rt dev (preview_body rt dev ad req))))))) (\<lambda>(result, refused).
     seq (if refused then count_rejection rt else ret ()) (ret result))"

section \<open>Undo\<close>

definition undo_value :: "attributes \<Rightarrow> string \<Rightarrow> change_value" where
  "undo_value before name = (case map_of before name of None \<Rightarrow> VNull | Some v \<Rightarrow> VStr v)"

definition undo_changes :: "plan \<Rightarrow> exn + string \<times> (string, change_value) dict" where
  "undo_changes plan =
     (if pl_op plan = ''create'' then Inr (''delete'', [])
      else if pl_op plan = ''delete'' then
        (case pl_before plan of None \<Rightarrow> Inl (OtherError ''TypeError'' '''')
         | Some before \<Rightarrow> Inr (''create'', map (\<lambda>(n, v). (n, VStr v)) before))
      else (case (pl_before plan, pl_after plan) of
          (Some before, Some after) \<Rightarrow> Inr (''update'',
            map (\<lambda>n. (n, undo_value before n))
              (filter (\<lambda>n. map_of before n \<noteq> map_of after n) (sort (remdups (keys before @ keys after)))))
        | _ \<Rightarrow> Inl (OtherError ''TypeError'' '''')))"

text \<open>\<open>changes.setdefault\<close>\<close>

definition setdefault :: "(string, 'v) dict \<Rightarrow> string \<Rightarrow> 'v \<Rightarrow> (string, 'v) dict" where
  "setdefault d k v = (if k \<in> set (keys d) then d else d @ [(k, v)])"

definition required_with ::
  "profile \<Rightarrow> attributes \<Rightarrow> string \<times> (string, string list) dict \<Rightarrow> (string, change_value) dict \<Rightarrow> exn + (string, change_value) dict" where
  "required_with prof before rule changes =
     (let name = fst rule; vals = snd rule; add = foldl (\<lambda>d other. setdefault d other (undo_value before other)) changes in
      case map_of changes name of
        None \<Rightarrow> Inr changes
      | Some (VStr v) \<Rightarrow> Inr (add (case map_of vals v of None \<Rightarrow> [] | Some needed \<Rightarrow> needed))
      | Some _ \<Rightarrow>
          (case map_of (pf_attributes prof) name of
             None \<Rightarrow> Inl (OtherError ''KeyError'' name)
           | Some a \<Rightarrow> Inr (add (case at_default a of None \<Rightarrow> []
               | Some v \<Rightarrow> (case map_of vals v of None \<Rightarrow> [] | Some needed \<Rightarrow> needed)))))"

fun required_all ::
  "profile \<Rightarrow> attributes \<Rightarrow> (string \<times> (string, string list) dict) list \<Rightarrow> (string, change_value) dict \<Rightarrow> exn + (string, change_value) dict" where
  "required_all prof before [] changes = Inr changes"
| "required_all prof before (rule # rules) changes = (case required_with prof before rule changes of
     Inl x \<Rightarrow> Inl x | Inr changes' \<Rightarrow> required_all prof before rules changes')"

definition undo_attribute :: "profile \<Rightarrow> string \<Rightarrow> change_value \<Rightarrow> exn + change_value" where
  "undo_attribute prof name v = (case map_of (pf_attributes prof) name of
     None \<Rightarrow> Inl (Rejected [''the plan of the operation holds attribute '' @ shown name @ '' outside the profile''])
   | Some a \<Rightarrow>
       let v1 = (if v = VNull \<and> \<not> at_unset a \<and> at_undo_to_default a
                 then (case at_default a of None \<Rightarrow> VNull | Some d \<Rightarrow> VStr d) else v) in
       Inr (if at_type a = NameList then VList (map JStr (case v1 of VStr t \<Rightarrow> split_ws t | _ \<Rightarrow> [])) else v1))"

fun undo_attributes :: "profile \<Rightarrow> (string, change_value) dict \<Rightarrow> exn + (string, change_value) dict" where
  "undo_attributes prof [] = Inr []"
| "undo_attributes prof ((name, v) # rest) = (case undo_attribute prof name v of
     Inl x \<Rightarrow> Inl x
   | Inr v' \<Rightarrow> (case undo_attributes prof rest of Inl x \<Rightarrow> Inl x | Inr rest' \<Rightarrow> Inr ((name, v') # rest')))"

definition not_undoable :: exn where
  "not_undoable = Rejected [''only a confirmed operation can be undone'']"

definition undo_request ::
  "('d, 'z) runtime_scheme \<Rightarrow> operation option \<Rightarrow> string \<Rightarrow> ('d world, request \<times> attributes option) act" where
  "undo_request rt found reason = (case found of
     None \<Rightarrow> throw not_undoable
   | Some r \<Rightarrow>
       if op_status r \<noteq> ''finished'' \<or> op_result r \<noteq> Some ''confirmed'' then throw not_undoable
       else bind (lift_res (rt_read_plan rt (op_plan r))) (\<lambda>plan.
       case pl_firmware plan of
         None \<Rightarrow> throw (Rejected [''the plan of the operation names no firmware''])
       | Some firmware \<Rightarrow>
           bind (lift_res (undo_changes plan)) (\<lambda>(op, changes).
           bind (lift_res (rt_find_profile rt (pl_platform plan) (pl_table plan) firmware)) (\<lambda>prof.
           bind (lift_res (if op = ''update'' then required_all prof (the (pl_before plan)) (pf_value_requires prof) changes
                           else Inr changes)) (\<lambda>changes.
           bind (lift_res (undo_attributes prof changes)) (\<lambda>changes.
           bind (lift_res (rt_parse_request rt \<lparr>rq_device = Some (op_device r), rq_table = pl_table plan, rq_op = op,
             rq_key = pl_key plan, rq_changes = changes, rq_reason = reason,
             rq_user_request = ''undo of operation '' @ op_change_id r, rq_request_id = ''undo-'' @ op_change_id r\<rparr>)) (\<lambda>req.
           ret (req, pl_after plan))))))))"

definition stored_plan :: "('d, 'z) runtime_scheme \<Rightarrow> operation \<Rightarrow> ('d world, plan) act" where
  "stored_plan rt r = handle (lift_res (rt_read_plan rt (op_plan r)))
     (\<lambda>x. if is_rejected x then throw (unreadable (json_path ''operations'' (op_change_id r))) else throw x)"

definition undo :: "('d, 'z) runtime_scheme \<Rightarrow> string \<Rightarrow> string \<Rightarrow> ('d world, operation) act" where
  "undo rt change_id reason =
     bind (store_operation change_id) (\<lambda>original.
     seq (case original of
            Some r \<Rightarrow> if op_status r = ''finished'' \<and> op_result r = Some ''confirmed''
              then seq (stored_plan rt r) (ret ()) else ret ()
          | None \<Rightarrow> ret ())
     (bind (undo_request rt original reason) (\<lambda>(req, expected).
      handle (apply_counted rt (op_device (the original)) req (Some expected) True)
        (\<lambda>x. if is_rejected x \<and> reasons_of x = [REUSED_REQUEST] then throw (Rejected [UNDO_DONE]) else throw x))))"

section \<open>Recovery\<close>

definition has_step :: "string \<Rightarrow> operation \<Rightarrow> bool" where
  "has_step name r \<longleftrightarrow> name \<in> set (map sp_step (op_steps r))"

text \<open>The outcome of an interrupted operation whose safeguard is gone, from what the device holds.\<close>

definition both_sides :: "('d, 'z) runtime_scheme \<Rightarrow> 'd access \<Rightarrow> plan \<Rightarrow> ('d world, bool \<times> bool) act" where
  "both_sides rt acc plan = bind (snapshot acc) (\<lambda>snap. bind (verify rt plan snap ''after'') (\<lambda>after.
     bind (verify rt plan snap ''before'') (\<lambda>before. ret (vd_match after, vd_match before))))"

definition recover_verdict ::
  "('d, 'z) runtime_scheme \<Rightarrow> 'd adapter \<Rightarrow> 'd access \<Rightarrow> bool \<Rightarrow> bool \<Rightarrow> ('d world, operation) act" where
  "recover_verdict rt ad acc is_after is_before = bind the_record (\<lambda>r.
     if is_after \<and> has_step ''confirm_start'' r
     then bind (persist rt ad acc) (\<lambda>saved. finish rt ''confirmed''
       (Some (if saved then ''confirmed before the interruption'' else ''not persisted'')) [])
     else if is_before
     then bind (persist rt ad acc) (\<lambda>saved. finish rt ''reverted''
       (Some (if saved then ''interrupted'' else ''not persisted'')) [])
     else if is_after
     then finish rt ''unknown'' (Some ''interrupted; device state matches the after side but confirm_start is missing'') []
     else finish rt ''unknown'' (Some ''interrupted; state matches neither side'') [])"

definition recover_state ::
  "('d, 'z) runtime_scheme \<Rightarrow> 'd adapter \<Rightarrow> 'd access \<Rightarrow> plan \<Rightarrow> ('d world, operation) act" where
  "recover_state rt ad acc plan =
     attempt (both_sides rt acc plan)
       (\<lambda>_. finish rt ''unknown'' (Some ''interrupted; state unreadable'') [])
       (\<lambda>(is_after, is_before). recover_verdict rt ad acc is_after is_before)"

definition safeguard_presence ::
  "'d adapter \<Rightarrow> 'd access \<Rightarrow> ('d world, bool \<times> bool) act" where
  "safeguard_presence ad acc = bind the_record (\<lambda>r.
     bind (ext (ad_safeguard_absent ad acc r)) (\<lambda>absent.
     if absent then ret (False, False)
     else bind (ext (ad_safeguard_disarmed ad acc r)) (\<lambda>disarmed. ret (True, disarmed))))"

definition recover_device ::
  "('d, 'z) runtime_scheme \<Rightarrow> device \<Rightarrow> 'd adapter \<Rightarrow> 'd access \<Rightarrow> plan \<Rightarrow> ('d world, operation) act" where
  "recover_device rt dev ad acc plan =
     attempt (safeguard_presence ad acc)
       (\<lambda>_. finish rt ''unknown'' (Some ''interrupted; safeguard state unreadable'') [])
       (\<lambda>(present, disarmed).
          if disarmed
          then bind (remove_remaining rt ad acc) (\<lambda>removed.
            if \<not> removed
            then seq (step rt ''safeguard_removal_unverified'' None)
                   (finish rt ''unknown'' (Some ''safeguard cleanup unverified'') [])
            else seq (step rt ''safeguard_removed'' None) (recover_state rt ad acc plan))
          else if present
          then bind (ext_fun (v_monotonic rt)) (\<lambda>m.
            settle_after_expiry rt acc plan ''interrupted'' (m + of_int (dv_safeguard_seconds dev)))
          else recover_state rt ad acc plan)"

definition recover_one :: "('d, 'z) runtime_scheme \<Rightarrow> device \<Rightarrow> operation \<Rightarrow> ('d world, operation) act" where
  "recover_one rt dev r = seq (edit (\<lambda>_. r))
     (if op_safeguard r = None
      then seq (step rt ''recovery_start'' None) (finish rt ''rejected'' (Some ''interrupted before any mutation'') [])
      else bind (stored_plan rt r) (\<lambda>plan.
        bind (adapter_of rt (pl_platform plan)) (\<lambda>ad.
        seq (step rt ''recovery_start'' None)
        (attempt (ext (rt_access_factory rt dev))
           (\<lambda>x. seq (step rt ''recovery_access_failed'' (Some (class_name x)))
                  (finish rt ''unknown'' (Some ''interrupted; device unreachable'') []))
           (\<lambda>acc. recover_device rt dev ad acc plan)))))"

text \<open>An operation that finished without a verified safeguard, whose remains may still be on the device.\<close>

definition safeguard_left :: "operation \<Rightarrow> bool" where
  "safeguard_left r \<longleftrightarrow>
     op_status r = ''finished'' \<and> op_result r = Some ''unknown'' \<and> op_reason r = Some ''safeguard not verified''
     \<and> has_step ''safeguard_not_verified'' r \<and> \<not> has_step ''change_start'' r
     \<and> sp_step (last (op_steps r)) \<noteq> ''safeguard_removed''"

definition unverified_safeguard :: "string \<Rightarrow> ('d world, operation option) act" where
  "unverified_safeguard name = bind (blocked name) (\<lambda>blk. case blk of
     None \<Rightarrow> ret None
   | Some b \<Rightarrow> bind (case bk_change_id b of None \<Rightarrow> ret None | Some c \<Rightarrow> store_operation c) (\<lambda>found.
       ret (case found of None \<Rightarrow> None | Some r \<Rightarrow> if safeguard_left r then Some r else None)))"

definition remove_unverified_safeguard ::
  "('d, 'z) runtime_scheme \<Rightarrow> device \<Rightarrow> operation \<Rightarrow> ('d world, operation) act" where
  "remove_unverified_safeguard rt dev r = seq (edit (\<lambda>_. r))
     (bind (stored_plan rt r) (\<lambda>plan.
      bind (adapter_of rt (pl_platform plan)) (\<lambda>ad.
      seq (step rt ''recovery_start'' None)
      (attempt (bind (ext (rt_access_factory rt dev)) (\<lambda>acc. remove_remaining rt ad acc))
         (\<lambda>x. seq (step rt ''recovery_access_failed'' (Some (class_name x))) the_record)
         (\<lambda>removed. seq (step rt (if removed then ''safeguard_removed'' else ''safeguard_removal_unverified'') None)
                the_record)))))"

definition recover :: "('d, 'z) runtime_scheme \<Rightarrow> string \<Rightarrow> ('d world, operation list) act" where
  "recover rt name = (case map_of (cg_devices (rt_config rt)) name of
     None \<Rightarrow> throw (not_configured name)
   | Some dev \<Rightarrow> with_lock rt (dv_name dev) (with_target_lock rt dev (
       bind (running (dv_name dev)) (\<lambda>rs.
       bind (each (recover_one rt dev) rs) (\<lambda>settled.
       bind (unverified_safeguard (dv_name dev)) (\<lambda>leftover. case leftover of
         None \<Rightarrow> ret settled
       | Some r \<Rightarrow> bind (remove_unverified_safeguard rt dev r) (\<lambda>r'. ret (settled @ [r']))))))))"

section \<open>Unblocking and enrollment\<close>

definition waive :: "operation \<Rightarrow> operation option" where
  "waive current = (if \<not> undelivered_state (op_notification current) then None
     else Some (current\<lparr>op_notification := Some ''waived''\<rparr>))"

definition waived_one :: "('d, 'z) runtime_scheme \<Rightarrow> string \<Rightarrow> ('d world, bool) act" where
  "waived_one rt change_id = bind (update rt change_id waive) (\<lambda>res.
     ret (case res of None \<Rightarrow> False | Some (_, changed) \<Rightarrow> changed))"

definition unblock :: "('d, 'z) runtime_scheme \<Rightarrow> string \<Rightarrow> string \<Rightarrow> ('d world, bool) act" where
  "unblock rt name reason =
     (if map_of (cg_devices (rt_config rt)) name = None then throw (not_configured name)
      else seq (ext (rt_audit_writable rt)) (with_lock rt name (
        bind (blocked name) (\<lambda>blk.
        bind (case blk of
            None \<Rightarrow> ret False
          | Some b \<Rightarrow> bind (unblock_device rt name b) (\<lambda>removed.
              if removed
              then seq (clear_baseline rt name)
                (seq (audit_record rt (EvAdministrative name ''unblock'' (length reason) (bk_change_id b))) (ret True))
              else ret False)) (\<lambda>removed.
        bind (undelivered name) (\<lambda>ids.
        bind (each (\<lambda>c. bind (waived_one rt c) (\<lambda>done_one.
                seq (if done_one then audit_record rt (EvAdministrative name ''notification waived'' (length reason) (Some c))
                     else ret ()) (ret done_one))) ids) (\<lambda>waived_ones.
        ret (removed \<or> True \<in> set waived_ones))))))))"

definition PROBE_PREFIX :: string where "PROBE_PREFIX = ''netops-enroll-''"

text \<open>\<open>enrollment.run\<close> for a device without a schema.\<close>

definition enroll :: "('d, 'z) runtime_scheme \<Rightarrow> string \<Rightarrow> change_value \<Rightarrow> ('d world, operation) act" where
  "enroll rt name probe = (case map_of (cg_devices (rt_config rt)) name of
     None \<Rightarrow> throw (Rejected [''device is not configured''])
   | Some dev \<Rightarrow>
       bind (ext_fun (rt_token_hex rt 6)) (\<lambda>token. bind (ext_fun (rt_token_hex rt 12)) (\<lambda>rid.
       let fortios = (dv_platform dev = ''fortios'') in
       bind (lift_res (rt_parse_request rt \<lparr>rq_device = Some name,
         rq_table = (if fortios then ''firewall address'' else ''vlan''), rq_op = ''create'', rq_key = PROBE_PREFIX @ token,
         rq_changes = [(if fortios then ''subnet'' else ''tag'', probe)],
         rq_reason = ''operator enrollment self-test'', rq_user_request = ''operator enrollment self-test'',
         rq_request_id = ''enroll-'' @ rid\<rparr>)) (\<lambda>req.
       apply_request rt name req None True False))))"

end
