(* ===== verification/Admin_Safety.thy ===== *)
theory Admin_Safety
  imports Admin_Execute
begin

text \<open>
  Properties of the execution of changes, over the model of \<open>execute.py\<close>: what the trace of a run
  holds and in which order, what the journal and the blocks hold at its end, that the waits end, and
  what recovery, preview and budgets guarantee.
\<close>

section \<open>What a run emits\<close>

definition emits :: "(io \<Rightarrow> bool) \<Rightarrow> 'd world \<Rightarrow> 'd world \<Rightarrow> bool" where
  "emits P w w' \<longleftrightarrow> (\<exists>new. w_io w' = w_io w @ new \<and> list_all P new)"

text \<open>Events other than a change sent to the device, and other than the device protocol.\<close>

fun no_change :: "io \<Rightarrow> bool" where
  "no_change (Applied _) = False"
| "no_change _ = True"

fun bookkeeping :: "io \<Rightarrow> bool" where
  "bookkeeping (Installed _) = False"
| "bookkeeping (Applied _) = False"
| "bookkeeping (Removed _) = False"
| "bookkeeping (Verified _ _) = False"
| "bookkeeping _ = True"

definition protocol :: "'d world \<Rightarrow> io list" where
  "protocol w = filter (\<lambda>e. \<not> bookkeeping e) (w_io w)"

interpretation emits: run_order "emits P" for P
proof unfold_locales
  show "emits P s s" for s :: "'a world" by (simp add: emits_def)
  show "emits P s u" if steps: "emits P s t" "emits P t u" for s t u :: "'a world"
  proof -
    obtain new1 new2 where "w_io t = w_io s @ new1" "w_io u = w_io t @ new2" "list_all P new1" "list_all P new2"
      using steps by (auto simp: emits_def)
    then show ?thesis by (auto simp: emits_def intro: exI [of _ "new1 @ new2"])
  qed
qed

lemma emits_ext: "pres (emits P) (ext m)" "pres (emits P) (ext_fun f)"
  by (auto simp: pres_def emits_def ext_def ext_fun_def split: prod.splits)

lemma emits_modify: "(\<And>w. w_io (f w) = w_io w) \<Longrightarrow> pres (emits P) (modify f)"
  by (simp add: pres_def emits_def modify_def)

lemma emits_silent: "pres (emits P) (edit g)" "pres (emits P) (on_store h)" "pres (emits P) (others v)"
  "pres (emits P) (set_read_seconds acc t)" "pres (emits P) the_record"
  by (simp_all add: edit_def on_store_def others_def set_read_seconds_def the_record_def emits_modify emits.pres_fetch)

lemma emits_trace: "P e \<Longrightarrow> pres (emits P) (trace e)"
  by (simp add: pres_def emits_def trace_def modify_def)

lemma emits_write: "list_all P out \<Longrightarrow> pres (emits P) (write_atomic v put out)"
  by (rule presI, erule write_atomic_cases) (auto simp: emits_def)

lemma emits_removed: "pres (emits P) (removed v path present remove)"
  by (auto simp: pres_def emits_def removed_def split: prod.splits write_outcome.splits)

lemmas emits_intros = emits.pres_basic emits_ext emits_silent emits_trace emits_write emits_removed

lemma emits_document: "pres (emits P) (document path f)"
  by (auto simp: document_def intro!: emits.pres_basic split: option.splits jfile.splits)

lemma emits_read:
  "pres (emits P) (load_operation stem)" "pres (emits P) (store_operation c)" "pres (emits P) (store_request q)"
  "pres (emits P) (blocked dev)" "pres (emits P) (store_baseline dev)" "pres (emits P) (store_enrollment dev)"
  unfolding load_operation_def store_operation_def store_request_def blocked_def store_baseline_def store_enrollment_def
  by (intro emits_intros emits_document pres_splits)+

lemma emits_load_all: "pres (emits P) (load_all names)"
  by (induction names) (simp_all, (intro emits_intros emits_read pres_splits | simp)+)

lemma emits_records: "pres (emits P) records" "pres (emits P) (running dev)" "pres (emits P) (undelivered dev)"
  unfolding records_def running_def undelivered_def by (intro emits_intros emits_load_all)+

lemma emits_refused: "pres (emits P) refused" "pres (emits P) (rejections_since since)"
  by (auto simp: refused_def rejections_since_def intro!: emits.pres_basic split: option.splits jfile.splits)

lemma emits_clock: "pres (emits P) (budget_now v)"
  unfolding budget_now_def budget_now_raw_def read_clock_def current_anchor_def new_anchor_def elapsed_def
  by (intro emits_intros pres_splits | simp split: option.splits jfile.splits | rule conjI impI allI)+

definition books :: "(io \<Rightarrow> bool) \<Rightarrow> bool" where
  "books P \<longleftrightarrow> (\<forall>e. bookkeeping e \<longrightarrow> P e)"

definition logs :: "(io \<Rightarrow> bool) \<Rightarrow> bool" where
  "logs P \<longleftrightarrow> (\<forall>r. P (Saved r)) \<and> (\<forall>e. P (Audited e))"

lemma books_simps:
  "logs P \<Longrightarrow> P (Saved r)" "logs P \<Longrightarrow> P (Audited e)" "books P \<Longrightarrow> P (Blocked d c y)"
  by (simp_all add: books_def logs_def)

lemma books_logs: "books P \<Longrightarrow> logs P"
  by (simp add: books_def logs_def)

lemma books_instances [simp]: "books bookkeeping" "books no_change"
proof -
  show "books no_change" unfolding books_def
  proof (intro allI impI)
    show "no_change e" if "bookkeeping e" for e using that by (cases e) simp_all
  qed
qed (simp add: books_def)

lemma emits_lock: "pres (emits P) m \<Longrightarrow> pres (emits P) (with_lock v name m)"
  unfolding with_lock_def by (intro emits_intros pres_splits)

lemma emits_update: "logs P \<Longrightarrow> pres (emits P) (update v c f)"
  unfolding update_def updated_def
  by (intro emits_intros emits_read emits_lock pres_splits) (simp_all add: books_simps)

lemma emits_write_ops:
  assumes "logs P"
  shows "pres (emits P) (audit_record v e)" "pres (emits P) (save v r)"
    "pres (emits P) (save_baseline v dev x)" "pres (emits P) (clear_baseline v dev)" "pres (emits P) (save_enrollment v dev ce)"
    "pres (emits P) (clear_enrollment v dev)" "pres (emits P) (remember_request v q cid x dev)"
    "pres (emits P) (note_rejection v now)" "pres (emits P) (check_writable v)"
  unfolding audit_record_def save_def save_baseline_def clear_baseline_def save_enrollment_def
    clear_enrollment_def remember_request_def note_rejection_def check_writable_def
  by (intro emits_intros emits_refused pres_splits; simp add: books_simps assms)+

lemma emits_block: "books P \<Longrightarrow> pres (emits P) (block_device v dev c y)"
  unfolding block_device_def by (intro emits_intros) (simp add: books_simps)

lemma emits_spec: "pres (emits P) (spec_of rt)" "pres (emits P) (adapter_of rt platform)"
  unfolding spec_of_def adapter_of_def by (intro emits_intros pres_splits)+

lemma emits_step:
  assumes "logs P"
  shows "pres (emits P) (save_record rt)" "pres (emits P) (step rt name detail)"
  unfolding step_def save_record_def by (intro emits_intros emits_write_ops assms)+

lemma emits_notify: "pres (emits P) (notify send r)"
  unfolding notify_def by (intro emits_intros)

lemma emits_deliver:
  assumes "logs P"
  shows "pres (emits P) (note_notification rt val)" "pres (emits P) (deliver_notification rt send)"
  unfolding deliver_notification_def note_notification_def
  by (intro emits_intros emits_update emits_write_ops emits_notify pres_splits assms)+

lemma emits_finish: "books P \<Longrightarrow> pres (emits P) (finish rt result reason ds)"
  unfolding finish_def close_record_def publish_def
  by (intro emits_intros emits_block emits_step books_logs emits_write_ops books_logs emits_deliver books_logs pres_splits)

lemma emits_persist: "books P \<Longrightarrow> pres (emits P) (persist rt ad acc)"
  unfolding persist_def by (intro emits_intros emits_step books_logs emits_spec pres_splits)

lemma emits_deadline:
  "pres (emits P) (left rt dl)" "pres (emits P) (not_expired rt dl)" "pres (emits P) (pause rt dl t)"
  "pres (emits P) (deadline_read rt dl acc q)" "pres (emits P) (new_deadline rt t y)"
  unfolding deadline_read_def not_expired_def pause_def left_def new_deadline_def
  by (intro emits_intros pres_splits)+

lemma emits_wait_for_proof: "pres (emits P) (wait_for_proof n rt ad acc r dl pending)"
proof (induction n arbitrary: dl pending)
  case (Suc n)
  show ?case unfolding wait_for_proof.simps by (intro emits_intros emits_deadline pres_splits Suc.IH)
qed (simp add: emits.pres_ret)

lemma emits_wait_loop: "pres (emits P) (wait_loop n rt ad acc r fire due dl)"
proof (induction n arbitrary: dl)
  case (Suc n)
  show ?case unfolding wait_loop.simps
    by (intro emits_intros emits_deadline emits_wait_for_proof pres_splits Suc.IH)
qed (simp add: emits.pres_ret)

lemma emits_wait: "pres (emits P) (wait_for_expiry rt ad acc due)" "pres (emits P) (waited x)"
  unfolding wait_for_expiry_def waited_def
  by (intro emits_intros emits_deadline emits_wait_loop pres_splits)+

lemma emits_removal:
  "pres (emits no_change) (remove_safeguard rt ad acc)" "pres (emits no_change) (remove_remaining rt ad acc)"
  "pres (emits no_change) (verify rt plan snap side)"
  unfolding remove_safeguard_def remove_remaining_def verify_def
  by (intro emits_intros emits_spec; simp)+

lemma emits_snapshot: "pres (emits P) (snapshot acc)"
  unfolding snapshot_def by (intro emits_intros)

lemma emits_settle: "pres (emits no_change) (settle_after_expiry rt acc plan reason due)"
  unfolding settle_after_expiry_def firing_unproven_def revoke_token_def
  by (intro emits_intros emits_spec emits_wait emits_snapshot emits_removal emits_step books_logs emits_finish emits_persist
      pres_splits books_instances)

lemma pres_incomplete:
  "(\<And>a b. pres R (f a b)) \<Longrightarrow> pres R g \<Longrightarrow> pres R (case x of Incomplete a b \<Rightarrow> f a b | _ \<Rightarrow> g)"
  by (cases x) auto

lemma emits_checks:
  "pres (emits P) (remaining_time ad acc)" "pres (emits P) (observed rt ad acc plan)"
  "pres (emits P) (audit_after rt plan dev snap)" "pres (emits P) (accounts_after ad acc dev)"
  unfolding remaining_time_def observed_def audit_after_def accounts_after_def snapshot_def
  by (intro emits_intros pres_splits)+

lemmas emits_no_change = emits_checks emits_snapshot emits_removal emits_settle emits_finish emits_persist emits_step books_logs

lemma emits_confirm:
  "pres (emits no_change) (confirm_saved rt acc plan)" "pres (emits no_change) (confirm rt ad acc plan due)"
  "pres (emits no_change) (final_check rt ad acc plan due)" "pres (emits no_change) (confirm_margin rt ad acc plan dev due)"
  unfolding confirm_margin_def final_check_def confirm_def confirm_saved_def
  by (intro emits_intros emits_no_change pres_splits books_instances)+

lemma emits_postcheck:
  "pres (emits no_change) (check_identity rt ad acc plan dev due)"
  "pres (emits no_change) (audit_gate rt ad acc plan dev due snap)"
  "pres (emits no_change) (postcheck_failed rt acc plan due cause x)"
  "pres (emits no_change) (postcheck rt ad acc plan dev due)"
  unfolding postcheck_def postcheck_failed_def audit_gate_def check_identity_def
  by (intro emits_intros emits_no_change emits_confirm pres_incomplete pres_splits books_instances)+

section \<open>A change is sent only under a verified, journaled safeguard\<close>

definition add_step :: "string \<Rightarrow> string option \<Rightarrow> operation \<Rightarrow> operation" where
  "add_step name detail r = r\<lparr>op_steps := op_steps r @ [\<lparr>sp_step = name, sp_detail = detail\<rparr>]\<rparr>"

lemma add_step_simps [simp]:
  "op_change_id (add_step n d r) = op_change_id r" "op_device (add_step n d r) = op_device r"
  "op_safeguard (add_step n d r) = op_safeguard r" "op_status (add_step n d r) = op_status r"
  "map sp_step (op_steps (add_step n d r)) = map sp_step (op_steps r) @ [n]"
  "op_kind (add_step n d r) = op_kind r" "op_plan (add_step n d r) = op_plan r"
  by (simp_all add: add_step_def)

lemma save_record_Inr:
  assumes "save_record v w = (Inr u, w')"
  shows "w_io w' = w_io w @ [Saved (w_record w)] \<and> w_record w' = w_record w \<and> w_store w' = put_operation (w_record w) (w_store w)"
  using assms
  by (auto simp: save_record_def the_record_def save_def bind_def fetch_def write_atomic_def
      split: prod.splits write_outcome.splits)

lemma step_Inr:
  assumes "step rt name detail w = (Inr u, w')"
  defines "r \<equiv> add_step name detail (w_record w)"
  shows "w_record w' = r \<and> w_store w' = put_operation r (w_store w) \<and>
    w_io w' = w_io w @ [Saved r, Audited (EvStep (op_change_id r) (op_device r) name detail)]"
proof -
  let ?w1 = "w\<lparr>w_record := r\<rparr>"
  obtain w2 where "save_record rt ?w1 = (Inr (), w2)"
    and "audit_record rt (EvStep (op_change_id (w_record w2)) (op_device (w_record w2)) name detail) w2 = (Inr (), w')"
    using assms(1)
    by (auto simp: step_def edit_def modify_def the_record_def fetch_def add_step_def r_def seq_def bind_def
        split: prod.splits sum.splits)
  then show ?thesis
    using save_record_Inr [of rt ?w1 "()" w2]
    by (auto simp: audit_record_def trace_def modify_def seq_def bind_def ext_def split: prod.splits sum.splits)
qed

lemma install_safeguard_run:
  assumes "install_safeguard rt ad acc plan dev spec w = (res, w')"
  shows "\<exists>problems g. res = Inr problems \<and> w_io w' = w_io w @ [Installed (problems = [])] \<and>
    (w_record w' = w_record w \<or> w_record w' = (w_record w)\<lparr>op_safeguard := Some g\<rparr>)"
proof (cases "ad_install_safeguard ad acc (w_record w) plan dev spec (w_ext w)")
  case (Pair q d)
  then show ?thesis
    using assms by (cases q)
      (force simp: install_safeguard_def the_record_def edit_def trace_def ext_def act_defs)+
qed

lemma apply_change_run:
  assumes "apply_change rt ad acc plan dev due spec w = (res, w')"
  shows "\<exists>c. w_io w' = w_io w @ [Applied (pl_commands plan)] @ c \<and> list_all no_change c"
proof -
  let ?w1 = "w\<lparr>w_io := w_io w @ [Applied (pl_commands plan)]\<rparr>"
  let ?m = "attempt (seq (ext (ac_apply acc (map Command (pl_commands plan)) spec)) (step rt ''change_applied'' None))
      (\<lambda>x. seq (step rt ''change_failed'' (Some (class_name x @ '' after '' @ show_nat (accepted_lines x) @ '' lines'')))
              (settle_after_expiry rt acc plan ''change failed'' due))
      (\<lambda>_. postcheck rt ad acc plan dev due)"
  have "?m ?w1 = (res, w')"
    using assms by (simp add: apply_change_def attempt_def seq_def bind_def trace_def modify_def)
  moreover have "pres (emits no_change) ?m"
    by (intro emits_intros emits_no_change emits_postcheck books_instances)
  ultimately have "emits no_change ?w1 w'" by (rule presD [rotated])
  then show ?thesis by (auto simp: emits_def)
qed

text \<open>What identifies an operation: its change identifier and its plan.\<close>

definition ident :: "operation \<Rightarrow> string \<times> plan" where
  "ident r = (op_change_id r, op_plan r)"

definition change_record :: "string \<times> plan \<Rightarrow> operation \<Rightarrow> bool" where
  "change_record who r \<longleftrightarrow> ident r = who \<and> op_safeguard r \<noteq> None
     \<and> op_steps r \<noteq> [] \<and> sp_step (last (op_steps r)) = ''change_start''"

text \<open>\<open>sent_armed\<close>: either no change is sent, or it is sent once, right after the journal record that
  announces it was made durable. \<open>sent_safely\<close>: and after an installed safeguard was verified.\<close>

definition sent_armed :: "plan \<Rightarrow> string \<times> plan \<Rightarrow> io list \<Rightarrow> bool" where
  "sent_armed plan who new \<longleftrightarrow> list_all no_change new \<or>
     (\<exists>b c r e. new = b @ [Saved r, Audited e, Applied (pl_commands plan)] @ c
        \<and> list_all no_change (b @ c) \<and> change_record who r)"

definition sent_safely :: "plan \<Rightarrow> string \<times> plan \<Rightarrow> io list \<Rightarrow> bool" where
  "sent_safely plan who new \<longleftrightarrow> list_all no_change new \<or>
     (\<exists>a b c r e. new = a @ [Installed True] @ b @ [Saved r, Audited e, Applied (pl_commands plan)] @ c
        \<and> list_all no_change (a @ b @ c) \<and> change_record who r)"

lemma ident_add_step [simp]: "ident (add_step n d r) = ident r"
  by (simp add: ident_def)

lemma sent_armed_prefix: "list_all no_change a \<Longrightarrow> sent_armed plan c new \<Longrightarrow> sent_armed plan c (a @ new)"
  unfolding sent_armed_def by (metis append.assoc list_all_append)

lemma sent_safely_prefix: "list_all no_change a \<Longrightarrow> sent_safely plan c new \<Longrightarrow> sent_safely plan c (a @ new)"
  unfolding sent_safely_def by (metis append.assoc list_all_append)

lemma sent_safely_installed: "sent_armed plan c new \<Longrightarrow> sent_safely plan c (Installed True # new)"
proof -
  assume "sent_armed plan c new"
  then consider "list_all no_change new" | b d r e where "new = b @ [Saved r, Audited e, Applied (pl_commands plan)] @ d"
      "list_all no_change (b @ d)" "change_record c r"
    by (auto simp: sent_armed_def)
  then show ?thesis
  proof cases
    case 2
    then have "Installed True # new = [] @ [Installed True] @ b @ [Saved r, Audited e, Applied (pl_commands plan)] @ d"
      and "list_all no_change ([] @ b @ d)"
      by simp_all
    with 2(3) show ?thesis unfolding sent_safely_def by blast
  qed (simp add: sent_safely_def)
qed

lemma sent_armedI:
  assumes "list_all no_change c" and "change_record who r"
  shows "sent_armed plan who (Saved r # Audited e # Applied (pl_commands plan) # c)"
proof -
  have "Saved r # Audited e # Applied (pl_commands plan) # c = [] @ [Saved r, Audited e, Applied (pl_commands plan)] @ c"
    and "list_all no_change ([] @ c)"
    using assms(1) by simp_all
  with assms(2) show ?thesis unfolding sent_armed_def by blast
qed

lemma emitsD: "emits P w w' \<Longrightarrow> \<exists>new. w_io w' = w_io w @ new \<and> list_all P new"
  by (simp add: emits_def)

lemma no_change_sent: "list_all no_change new \<Longrightarrow> sent_armed plan c new" "list_all no_change new \<Longrightarrow> sent_safely plan c new"
  by (simp_all add: sent_armed_def sent_safely_def)

lemma start_change_run:
  assumes "seq (step rt ''change_start'' None) (apply_change rt ad acc plan dev due spec) w = (res, w')"
    and "op_safeguard (w_record w) \<noteq> None"
  shows "\<exists>new. w_io w' = w_io w @ new \<and> sent_armed plan (ident (w_record w)) new"
  using assms(1)
proof (cases rule: seq_cases)
  case raised
  then show ?thesis
    using presD [OF emits_step(2) [OF books_logs [OF books_instances(2)]]] by (metis emitsD no_change_sent(1))
next
  case (passed u w1)
  let ?r = "add_step ''change_start'' None (w_record w)"
  obtain c where "w_io w' = w_io w1 @ [Applied (pl_commands plan)] @ c" "list_all no_change c"
    using apply_change_run [OF passed(2)] by blast
  moreover have "w_io w1 = w_io w @ [Saved ?r, Audited (EvStep (op_change_id ?r) (op_device ?r) ''change_start'' None)]"
    using step_Inr [OF passed(1)] by simp
  moreover have "change_record (ident (w_record w)) ?r"
    using assms(2) by (simp add: change_record_def) (simp add: add_step_def)
  ultimately show ?thesis
    by (auto intro!: sent_armedI)
qed

lemma armed_run:
  assumes "seq (save_record rt) (seq (step rt ''safeguard_verified'' None)
      (seq (step rt ''change_start'' None) (apply_change rt ad acc plan dev due spec))) w = (res, w')"
    and "op_safeguard (w_record w) \<noteq> None"
  shows "\<exists>new. w_io w' = w_io w @ new \<and> sent_armed plan (ident (w_record w)) new"
  using assms(1)
proof (cases rule: seq_cases)
  case raised
  then show ?thesis
    using presD [OF emits_step(1) [OF books_logs [OF books_instances(2)]]] by (metis emitsD no_change_sent(1))
next
  case (passed u w1)
  note saved = save_record_Inr [OF passed(1)]
  from passed(2) show ?thesis
  proof (cases rule: seq_cases)
    case raised
    then obtain new where "w_io w' = w_io w1 @ new" "list_all no_change new"
      using presD [OF emits_step(2) [OF books_logs [OF books_instances(2)]]] by (metis emitsD)
    with saved show ?thesis by (auto intro!: no_change_sent(1))
  next
    case (passed u w2)
    note verified = step_Inr [OF passed(1)]
    then obtain new where "w_io w' = w_io w2 @ new" "sent_armed plan (ident (w_record w)) new"
      using start_change_run [OF passed(2)] assms(2) saved by auto
    with saved verified show ?thesis
      using sent_armed_prefix [of "[Saved (w_record w), Saved (w_record w2),
        Audited (EvStep (op_change_id (w_record w2)) (op_device (w_record w2)) ''safeguard_verified'' None)]"]
      by auto
  qed
qed

lemma after_install_run:
  assumes "after_install rt ad acc plan dev spec problems w = (res, w')"
    and "op_safeguard (w_record w) \<noteq> None"
  shows "\<exists>new. w_io w' = w_io w @ new \<and> (if problems = [] then sent_armed plan (ident (w_record w)) new
    else list_all no_change new)"
proof -
  obtain m w1 where mono: "ext_fun (v_monotonic rt) w = (Inr m, w1)"
    by (cases "v_monotonic rt (w_ext w)") (simp add: ext_fun_def)
  note same = ext_fun_frame [OF mono]
  show ?thesis
  proof (cases "problems = []")
    case True
    then have "seq (save_record rt) (seq (step rt ''safeguard_verified'' None) (seq (step rt ''change_start'' None)
        (apply_change rt ad acc plan dev (m + of_int (dv_safeguard_seconds dev)) spec))) w1 = (res, w')"
      using assms(1) mono by (simp add: after_install_def bind_def)
    from armed_run [OF this] True assms(2) same show ?thesis by simp
  next
    case False
    have "pres (emits no_change) (seq (step rt ''safeguard_not_verified'' (Some (hd problems)))
        (bind (remove_safeguard rt ad acc) (\<lambda>cleaned.
         bind (if cleaned then persist rt ad acc else ret True) (\<lambda>ok.
         if cleaned \<and> \<not> ok then finish rt ''reverted'' (Some ''not persisted'') []
         else finish rt (if cleaned then ''reverted'' else ''unknown'') (Some ''safeguard not verified'') []))))"
      by (intro emits_intros emits_no_change pres_splits books_instances)
    moreover have "seq (step rt ''safeguard_not_verified'' (Some (hd problems)))
        (bind (remove_safeguard rt ad acc) (\<lambda>cleaned.
         bind (if cleaned then persist rt ad acc else ret True) (\<lambda>ok.
         if cleaned \<and> \<not> ok then finish rt ''reverted'' (Some ''not persisted'') []
         else finish rt (if cleaned then ''reverted'' else ''unknown'') (Some ''safeguard not verified'') []))) w1 = (res, w')"
      using assms(1) mono False by (simp add: after_install_def bind_def)
    ultimately have "emits no_change w1 w'" by (rule presD)
    with False same show ?thesis by (auto simp: emits_def)
  qed
qed

lemma install_run:
  assumes "bind (install_safeguard rt ad acc plan dev spec) (after_install rt ad acc plan dev spec) w = (res, w')"
    and "op_safeguard (w_record w) \<noteq> None"
  shows "\<exists>new. w_io w' = w_io w @ new \<and> sent_safely plan (ident (w_record w)) new"
proof -
  obtain problems g w1 where run: "install_safeguard rt ad acc plan dev spec w = (Inr problems, w1)"
    and io: "w_io w1 = w_io w @ [Installed (problems = [])]"
    and rec: "w_record w1 = w_record w \<or> w_record w1 = (w_record w)\<lparr>op_safeguard := Some g\<rparr>"
    using install_safeguard_run [of rt ad acc plan dev spec w] by (metis prod.exhaust_sel)
  then have "after_install rt ad acc plan dev spec problems w1 = (res, w')"
    using assms(1) by (simp add: bind_def)
  moreover have ids: "ident (w_record w1) = ident (w_record w)" "op_safeguard (w_record w1) \<noteq> None"
    using rec assms(2) by (auto simp: ident_def)
  ultimately obtain new where new: "w_io w' = w_io w1 @ new"
    "if problems = [] then sent_armed plan (ident (w_record w)) new else list_all no_change new"
    using after_install_run [of rt ad acc plan dev spec problems w1 res w'] by (auto split: if_splits)
  show ?thesis
  proof (cases "problems = []")
    case True
    then show ?thesis using new io sent_safely_installed [of plan _ new] by auto
  next
    case False
    then have "list_all no_change (Installed False # new)" using new by simp
    from no_change_sent(2) [OF this] False new io show ?thesis by auto
  qed
qed

lemma spec_of_frame: "spec_of rt w = (res, w') \<Longrightarrow> w' = w"
  by (auto simp: spec_of_def the_record_def adapter_of_def act_defs split: option.splits)

lemma execute_sent_safely:
  assumes "execute rt ad acc plan dev w = (res, w')"
  shows "\<exists>new. w_io w' = w_io w @ new \<and> sent_safely plan (ident (w_record w)) new"
  using assms unfolding execute_def
proof (cases rule: bind_cases)
  case raised
  then show ?thesis by (auto dest!: spec_of_frame simp: sent_safely_def)
next
  case (passed spec w1)
  then have "w1 = w" by (simp add: spec_of_frame)
  from passed(2) show ?thesis
  proof (cases rule: attempt_cases)
    case (handled x w2)
    have "pres (emits no_change) (seq (step rt ''clock_unreadable'' (Some (class_name x)))
        (finish rt ''rejected'' (Some ''device clock'') []))"
      by (intro emits_intros emits_no_change books_instances)
    then have "emits no_change w2 w'" using handled(2) by (rule presD)
    then show ?thesis
      using ext_frame(2) [OF handled(1)] \<open>w1 = w\<close> by (auto simp: emits_def sent_safely_def)
  next
    case (passed fire_at w2)
    define w3 where "w3 = w2\<lparr>w_record := (w_record w2)\<lparr>op_safeguard := Some \<lparr>sg_fire_at = fire_at,
      sg_name = ad_safeguard_label ad (op_change_id (w_record w2))\<rparr>\<rparr>\<rparr>"
    have w3: "w_io w3 = w_io w" "ident (w_record w3) = ident (w_record w)" "op_safeguard (w_record w3) \<noteq> None"
      using ext_frame [OF passed(1)] \<open>w1 = w\<close> by (simp_all add: w3_def ident_def)
    have "seq (step rt ''safeguard_install'' None)
        (bind (install_safeguard rt ad acc plan dev spec) (after_install rt ad acc plan dev spec)) w3 = (res, w')"
      using passed(2) by (simp add: seq_def bind_def edit_def modify_def w3_def)
    then show ?thesis
    proof (cases rule: seq_cases)
      case raised
      then have "emits no_change w3 w'" using presD [OF emits_step(2) [OF books_logs [OF books_instances(2)]]] by blast
      with w3 show ?thesis by (auto simp: emits_def sent_safely_def)
    next
      case (passed u w4)
      note step = step_Inr [OF passed(1)]
      have "op_safeguard (w_record w4) \<noteq> None" using step w3 by simp
      from install_run [OF passed(2) this] step w3 show ?thesis
        using sent_safely_prefix [of "[Saved (w_record w4), Audited (EvStep (op_change_id (w_record w4))
          (op_device (w_record w4)) ''safeguard_install'' None)]" plan "ident (w_record w)"]
        by auto
    qed
  qed
qed

text \<open>(C1) No change reaches a device without a working way back: in every run of \<open>_execute\<close>, however it
  ends, either no change command is sent, or the commands of the plan are sent exactly once, after a
  safeguard was installed and verified on the device, and right after the journal record of this
  operation with the safeguard and the step \<open>change_start\<close> became durable.\<close>

theorem change_only_under_safeguard:
  "\<exists>new. w_io (snd (execute rt ad acc plan dev w)) = w_io w @ new \<and>
     sent_safely plan (ident (w_record w)) new"
  by (rule execute_sent_safely) (rule prod.collapse [symmetric])

section \<open>What happens to the record of the operation\<close>

definition same_field :: "(operation \<Rightarrow> 'x) \<Rightarrow> 'd world \<Rightarrow> 'd world \<Rightarrow> bool" where
  "same_field f w w' \<longleftrightarrow> f (w_record w') = f (w_record w)"

interpretation same_field: run_order "same_field f" for f
  by unfold_locales (simp_all add: same_field_def)

lemma same_field_basic:
  "pres (same_field f) (ext m)" "pres (same_field f) (ext_fun g)" "pres (same_field f) (trace e)"
  "pres (same_field f) (on_store h)" "pres (same_field f) (others v)" "pres (same_field f) the_record"
  "pres (same_field f) (write_atomic v put out)" "pres (same_field f) (removed v path present remove)"
  "pres (same_field f) (set_read_seconds acc t)"
  by (auto simp: pres_def same_field_def ext_def ext_fun_def trace_def on_store_def others_def the_record_def
      modify_def fetch_def write_atomic_def removed_def set_read_seconds_def
      split: prod.splits write_outcome.splits)

lemma same_field_edit: "(\<And>r. f (g r) = f r) \<Longrightarrow> pres (same_field f) (edit g)"
  by (simp add: pres_def same_field_def edit_def modify_def)

lemma same_field_document: "pres (same_field f) (document path x)"
  by (auto simp: document_def intro!: same_field.pres_basic split: option.splits jfile.splits)

lemma same_field_read:
  "pres (same_field f) (load_operation stem)" "pres (same_field f) (store_operation c)"
  unfolding load_operation_def store_operation_def
  by (intro same_field.pres_basic same_field_basic same_field_document pres_splits)+

lemma same_field_update: "pres (same_field f) (update v c g)"
  unfolding update_def updated_def with_lock_def
  by (intro same_field.pres_basic same_field_basic same_field_read pres_splits)

lemma same_field_write:
  "pres (same_field f) (audit_record v e)" "pres (same_field f) (save v r)" "pres (same_field f) (save_record v)"
  "pres (same_field f) (block_device v dev c y)"
  unfolding audit_record_def save_def save_record_def block_device_def
  by (intro same_field.pres_basic same_field_basic)+

lemmas same_field_intros = same_field.pres_basic same_field_basic same_field_read same_field_update same_field_write

lemma same_field_deliver:
  assumes "\<And>r x. f (r\<lparr>op_notification := x\<rparr>) = f r"
  shows "pres (same_field f) (note_notification rt val)" "pres (same_field f) (deliver_notification rt send)"
  unfolding deliver_notification_def note_notification_def notify_def
  by (intro same_field_intros same_field_edit pres_splits assms)+

text \<open>The record \<open>finish\<close> returns, up to the state of the notification.\<close>

definition finished :: "operation \<Rightarrow> string \<Rightarrow> string option \<Rightarrow> string list \<Rightarrow> operation \<Rightarrow> bool" where
  "finished old result reason ds r \<longleftrightarrow> (\<exists>now delivery. r\<lparr>op_notification := None\<rparr> =
     old\<lparr>op_status := ''finished'', op_finished_at := Some now, op_result := Some result, op_reason := reason,
       op_differences := ds, op_audit_delivery := Some delivery, op_notification := None\<rparr>)"

lemma finishedI:
  "finished old result reason ds (old\<lparr>op_status := ''finished'', op_finished_at := Some now, op_result := Some result,
     op_reason := reason, op_differences := ds, op_audit_delivery := Some delivery, op_notification := n\<rparr>)"
  unfolding finished_def by (rule exI [of _ now], rule exI [of _ delivery]) simp

lemma close_record_Inr:
  assumes "close_record rt result reason ds w = (Inr u, w')"
  shows "w_io w' = w_io w \<and> w_store w' = w_store w \<and> finished (w_record w) result reason ds (w_record w')"
  using assms
  by (auto simp: close_record_def edit_def modify_def ext_def ext_fun_def seq_def bind_def
      intro!: finishedI split: prod.splits sum.splits)

lemma same_field_publish:
  assumes "\<And>r x. f (r\<lparr>op_notification := x\<rparr>) = f r"
  shows "pres (same_field f) (publish rt result reason)"
  unfolding publish_def by (intro same_field_intros same_field_deliver pres_splits assms)

lemma publish_Inr: "publish rt result reason w = (Inr r, w') \<Longrightarrow> w_record w' = r"
  by (auto simp: publish_def the_record_def fetch_def elim!: seq_Inr_cases)

lemma finish_Inr:
  assumes "finish rt result reason ds w = (Inr r, w')"
  shows "finished (w_record w) result reason ds r \<and> w_record w' = r"
proof -
  let ?f = "\<lambda>r. r\<lparr>op_notification := None\<rparr>"
  obtain w1 u where run: "close_record rt result reason ds w = (Inr u, w1)" "publish rt result reason w1 = (Inr r, w')"
    using assms unfolding finish_def by (rule seq_Inr_cases)
  have "same_field ?f w1 w'" by (rule presD [OF same_field_publish run(2)]) simp
  then have "?f (w_record w') = ?f (w_record w1)" by (simp add: same_field_def)
  with close_record_Inr [OF run(1)] publish_Inr [OF run(2)] show ?thesis by (simp add: finished_def)
qed

section \<open>Results\<close>

lemma finished_fields:
  assumes "finished old result reason ds r"
  shows "op_status r = ''finished''" "op_result r = Some result" "op_reason r = reason" "op_differences r = ds"
    "op_change_id r = op_change_id old" "op_device r = op_device old" "op_steps r = op_steps old"
    "op_safeguard r = op_safeguard old" "op_plan r = op_plan old"
proof -
  obtain now delivery where eq: "r\<lparr>op_notification := None\<rparr> = old\<lparr>op_status := ''finished'', op_finished_at := Some now,
      op_result := Some result, op_reason := reason, op_differences := ds, op_audit_delivery := Some delivery,
      op_notification := None\<rparr>"
    using assms by (auto simp: finished_def)
  show "op_status r = ''finished''" "op_result r = Some result" "op_reason r = reason" "op_differences r = ds"
    "op_change_id r = op_change_id old" "op_device r = op_device old" "op_steps r = op_steps old"
    "op_safeguard r = op_safeguard old" "op_plan r = op_plan old"
    using arg_cong [OF eq, of op_status] arg_cong [OF eq, of op_result] arg_cong [OF eq, of op_reason]
      arg_cong [OF eq, of op_differences] arg_cong [OF eq, of op_change_id] arg_cong [OF eq, of op_device]
      arg_cong [OF eq, of op_steps] arg_cong [OF eq, of op_safeguard] arg_cong [OF eq, of op_plan]
    by simp_all
qed

definition outcome :: "string list \<Rightarrow> operation \<Rightarrow> bool" where
  "outcome results r \<longleftrightarrow> op_status r = ''finished'' \<and> op_result r \<in> Some ` set results"

lemma finish_outcome: "result \<in> set results \<Longrightarrow> returns (finish rt result reason ds) (outcome results)"
  by (auto simp: returns_def outcome_def finished_fields(1,2) dest!: finish_Inr)

lemma settle_outcome:
  "{''unknown'', ''reverted'', ''revert-failed''} \<subseteq> set results \<Longrightarrow>
   returns (settle_after_expiry rt acc plan reason due) (outcome results)"
  unfolding settle_after_expiry_def by (intro returns_basic finish_outcome) auto

lemma returns_incomplete:
  "(\<And>a b. returns (f a b) P) \<Longrightarrow> returns g P \<Longrightarrow> returns (case x of Incomplete a b \<Rightarrow> f a b | _ \<Rightarrow> g) P"
  by (cases x) auto

definition RESULTS :: "string list" where
  "RESULTS = [''confirmed'', ''reverted'', ''revert-failed'', ''unknown'', ''rejected'']"

lemma confirm_outcome:
  "returns (confirm_saved rt acc plan) (outcome RESULTS)" "returns (confirm rt ad acc plan due) (outcome RESULTS)"
  "returns (final_check rt ad acc plan due) (outcome RESULTS)" "returns (confirm_margin rt ad acc plan dev due) (outcome RESULTS)"
  unfolding confirm_margin_def final_check_def confirm_def confirm_saved_def
  by (intro returns_basic finish_outcome settle_outcome; simp add: RESULTS_def)+

lemma postcheck_outcome:
  "returns (postcheck rt ad acc plan dev due) (outcome RESULTS)"
  unfolding postcheck_def postcheck_failed_def audit_gate_def check_identity_def
  by (intro returns_basic returns_incomplete finish_outcome settle_outcome confirm_outcome; simp add: RESULTS_def)

text \<open>(C5) Every operation that ends is closed with one of five results: whenever \<open>_execute\<close> returns, the
  record it returns is finished, and its result is confirmed, reverted, revert-failed, unknown or
  rejected.\<close>

theorem execute_results:
  assumes "execute rt ad acc plan dev w = (Inr r, w')"
  shows "op_status r = ''finished'' \<and> op_result r \<in> Some ` set RESULTS"
proof -
  have "returns (execute rt ad acc plan dev) (outcome RESULTS)"
    unfolding execute_def after_install_def apply_change_def
    by (intro returns_basic finish_outcome settle_outcome postcheck_outcome; simp add: RESULTS_def)
  then show ?thesis using assms by (auto simp: outcome_def dest: returnsD)
qed

section \<open>What a confirmed change went through\<close>

definition names :: "operation \<Rightarrow> string list" where
  "names r = map sp_step (op_steps r)"

text \<open>\<open>moves m F\<close>: when the action returns \<open>a\<close>, it added \<open>fst (F a)\<close> to the protocol with the device and
  \<open>snd (F a)\<close> to the steps of the record.\<close>

definition moves :: "('d world, 'a) act \<Rightarrow> ('a \<Rightarrow> io list \<times> string list) \<Rightarrow> bool" where
  "moves m F \<longleftrightarrow> (\<forall>w a w'. m w = (Inr a, w') \<longrightarrow>
     protocol w' = protocol w @ fst (F a) \<and> names (w_record w') = names (w_record w) @ snd (F a))"

text \<open>\<open>leads p n m P N\<close>: after the protocol \<open>p\<close> and the steps \<open>n\<close>, a run of \<open>m\<close> that returns a confirmed
  record completes them to the protocol \<open>P\<close>, at most followed by a comparison with the saved
  configuration, and to steps that begin with \<open>N\<close>.\<close>

definition saved_check :: "io list \<Rightarrow> bool" where
  "saved_check p \<longleftrightarrow> p = [] \<or> (\<exists>b. p = [Verified ''after'' b])"

definition leads :: "io list \<Rightarrow> string list \<Rightarrow> ('d world, operation) act \<Rightarrow> io list \<Rightarrow> string list \<Rightarrow> bool" where
  "leads p n m P N \<longleftrightarrow> (\<forall>w r w'. m w = (Inr r, w') \<longrightarrow> op_result r = Some ''confirmed'' \<longrightarrow>
     (\<exists>q k q' k'. protocol w' = protocol w @ q \<and> names r = names (w_record w) @ k
        \<and> p @ q = P @ q' \<and> saved_check q' \<and> n @ k = N @ k'))"

definition unconfirmed :: "('d world, operation) act \<Rightarrow> bool" where
  "unconfirmed m \<longleftrightarrow> returns m (\<lambda>r. op_result r \<noteq> Some ''confirmed'')"

lemma leads_unconfirmed: "unconfirmed m \<Longrightarrow> leads p n m P N"
  by (auto simp: unconfirmed_def leads_def dest: returnsD)

lemma unconfirmed_finish: "result \<noteq> ''confirmed'' \<Longrightarrow> unconfirmed (finish rt result reason ds)"
  by (auto simp: unconfirmed_def returns_def finished_fields(2) dest!: finish_Inr)

lemma unconfirmed_settle: "unconfirmed (settle_after_expiry rt acc plan reason due)"
  using settle_outcome [of "[''unknown'', ''reverted'', ''revert-failed'']" rt acc plan reason due]
  by (fastforce simp: unconfirmed_def returns_def outcome_def)

lemma unconfirmed_seq: "unconfirmed m \<Longrightarrow> unconfirmed (seq k m)"
  by (simp add: unconfirmed_def returns_seq)

lemma unconfirmed_bind: "(\<And>a. unconfirmed (m a)) \<Longrightarrow> unconfirmed (bind k m)"
  by (simp add: unconfirmed_def returns_bind)

lemma unconfirmed_if: "(b \<Longrightarrow> unconfirmed m) \<Longrightarrow> (\<not> b \<Longrightarrow> unconfirmed k) \<Longrightarrow> unconfirmed (if b then m else k)"
  by simp

lemma unconfirmed_Let: "(\<And>x. unconfirmed (f x)) \<Longrightarrow> unconfirmed (let x = e in f x)"
  by simp

lemma unconfirmed_incomplete:
  "(\<And>a b. unconfirmed (f a b)) \<Longrightarrow> unconfirmed g \<Longrightarrow> unconfirmed (case x of Incomplete a b \<Rightarrow> f a b | _ \<Rightarrow> g)"
  by (cases x) auto

lemmas unconfirmed_intros = unconfirmed_finish unconfirmed_settle unconfirmed_seq unconfirmed_bind unconfirmed_if
  unconfirmed_Let unconfirmed_incomplete

lemma leads_bind:
  assumes "moves m F" and "\<And>a. leads (p @ fst (F a)) (n @ snd (F a)) (f a) P N"
  shows "leads p n (bind m f) P N"
  unfolding leads_def
proof (intro allI impI, elim bind_Inr_cases)
  fix w r w' a w1
  assume confirmed: "op_result r = Some ''confirmed''" and run: "m w = (Inr a, w1)" "f a w1 = (Inr r, w')"
  have "protocol w1 = protocol w @ fst (F a)" "names (w_record w1) = names (w_record w) @ snd (F a)"
    using assms(1) run(1) by (auto simp: moves_def)
  moreover obtain q k q' k' where "protocol w' = protocol w1 @ q" "names r = names (w_record w1) @ k"
    "(p @ fst (F a)) @ q = P @ q'" "saved_check q'" "(n @ snd (F a)) @ k = N @ k'"
    using assms(2) [of a] run(2) confirmed unfolding leads_def by blast
  ultimately show "\<exists>q k q' k'. protocol w' = protocol w @ q \<and> names r = names (w_record w) @ k
      \<and> p @ q = P @ q' \<and> saved_check q' \<and> n @ k = N @ k'"
    by (intro exI [of _ "fst (F a) @ q"] exI [of _ "snd (F a) @ k"] exI [of _ q'] exI [of _ k']) simp
qed

lemma leads_seq:
  assumes "moves m F" and "\<And>a. leads (p @ fst (F a)) (n @ snd (F a)) f P N"
  shows "leads p n (seq m f) P N"
  unfolding seq_def using assms by (rule leads_bind)

lemma leads_attempt:
  assumes "moves m F" and "\<And>x. unconfirmed (h x)" and "\<And>a. leads (p @ fst (F a)) (n @ snd (F a)) (f a) P N"
  shows "leads p n (attempt m h f) P N"
  unfolding leads_def
proof (intro allI impI, elim attempt_Inr_cases)
  fix w r w' x w1
  assume "op_result r = Some ''confirmed''" "h x w1 = (Inr r, w')"
  with assms(2) [of x] show "\<exists>q k q' k'. protocol w' = protocol w @ q \<and> names r = names (w_record w) @ k
      \<and> p @ q = P @ q' \<and> saved_check q' \<and> n @ k = N @ k'"
    by (auto simp: unconfirmed_def dest: returnsD)
next
  fix w r w' a w1
  assume "op_result r = Some ''confirmed''" "m w = (Inr a, w1)" "f a w1 = (Inr r, w')"
  then have "bind m f w = (Inr r, w')" and "op_result r = Some ''confirmed''" by (simp_all add: bind_def)
  then show "\<exists>q k q' k'. protocol w' = protocol w @ q \<and> names r = names (w_record w) @ k
      \<and> p @ q = P @ q' \<and> saved_check q' \<and> n @ k = N @ k'"
    using leads_bind [OF assms(1,3)] unfolding leads_def by blast
qed

lemma leads_if: "(b \<Longrightarrow> leads p n m P N) \<Longrightarrow> (\<not> b \<Longrightarrow> leads p n k P N) \<Longrightarrow> leads p n (if b then m else k) P N"
  by simp

lemma leads_prod: "(\<And>a b. x = (a, b) \<Longrightarrow> leads p n (f a b) P N) \<Longrightarrow> leads p n (case x of (a, b) \<Rightarrow> f a b) P N"
  by (cases x) auto

lemma leads_finish:
  assumes "\<exists>q'. p = P @ q' \<and> saved_check q'" and "\<exists>k'. n = N @ k'"
  shows "leads p n (finish rt ''confirmed'' reason ds) P N"
  unfolding leads_def
proof (intro allI impI)
  fix w r w'
  assume run: "finish rt ''confirmed'' reason ds w = (Inr r, w')"
  then have "emits bookkeeping w w'" by (rule presD [OF emits_finish [OF books_instances(1)]])
  then have "protocol w' = protocol w"
    by (auto simp: emits_def protocol_def list_all_iff filter_empty_conv)
  moreover have "names r = names (w_record w)"
    using finish_Inr [OF run] by (auto simp: names_def dest: finished_fields(7))
  ultimately show "\<exists>q k q' k'. protocol w' = protocol w @ q \<and> names r = names (w_record w) @ k
      \<and> p @ q = P @ q' \<and> saved_check q' \<and> n @ k = N @ k'"
    using assms by (metis append_Nil2)
qed

lemma moves_silent:
  assumes "pres (emits bookkeeping) m" and "pres (same_field op_steps) m"
  shows "moves m (\<lambda>_. ([], []))"
  unfolding moves_def
proof (intro allI impI)
  fix w a w'
  assume run: "m w = (Inr a, w')"
  have "emits bookkeeping w w'" using presD [OF assms(1) run] .
  moreover have "same_field op_steps w w'" using presD [OF assms(2) run] .
  ultimately show "protocol w' = protocol w @ fst ([], []) \<and>
      names (w_record w') = names (w_record w) @ snd ([] :: io list, [])"
    by (auto simp: emits_def protocol_def same_field_def names_def list_all_iff filter_empty_conv)
qed

lemma moves_step: "moves (step rt name detail) (\<lambda>_. ([], [name]))"
  by (auto simp: moves_def protocol_def names_def dest!: step_Inr)

lemma moves_verify: "moves (verify rt plan snap side) (\<lambda>vd. ([Verified side (vd_match vd)], []))"
  by (auto simp: moves_def verify_def protocol_def trace_def act_defs split: sum.splits)

lemma moves_remove: "moves (remove_safeguard rt ad acc) (\<lambda>b. ([Removed b], []))"
  unfolding moves_def remove_safeguard_def
  by (auto simp: protocol_def trace_def modify_def ret_def the_record_def fetch_def ext_def
      elim!: bind_Inr_cases seq_Inr_cases dest!: spec_of_frame split: prod.splits)

lemma moves_bind:
  assumes "moves m (\<lambda>_. ([], []))" and "\<And>a. moves (f a) F"
  shows "moves (bind m f) F"
  using assms by (fastforce simp: moves_def elim!: bind_Inr_cases)

lemma moves_ext: "moves (ext m) (\<lambda>_. ([], []))" "moves (ext_fun g) (\<lambda>_. ([], []))" "moves the_record (\<lambda>_. ([], []))"
  "moves (snapshot acc) (\<lambda>_. ([], []))"
  unfolding snapshot_def by (intro moves_silent emits_intros same_field_intros)+

lemma moves_edit: "(\<And>r. op_steps (g r) = op_steps r) \<Longrightarrow> moves (edit g) (\<lambda>_. ([], []))"
  by (intro moves_silent emits_intros same_field_edit)

lemma moves_checks:
  "moves (remaining_time ad acc) (\<lambda>_. ([], []))" "moves (observed rt ad acc plan) (\<lambda>_. ([], []))"
  "moves (audit_after rt plan dev snap) (\<lambda>_. ([], []))" "moves (accounts_after ad acc dev) (\<lambda>_. ([], []))"
  "moves (spec_of rt) (\<lambda>_. ([], []))" "moves (save_record rt) (\<lambda>_. ([], []))"
  unfolding remaining_time_def observed_def audit_after_def accounts_after_def snapshot_def spec_of_def adapter_of_def
  by (intro moves_silent emits_intros emits_step books_logs same_field_intros pres_splits books_instances)+

lemma moves_snapshot_verify:
  "moves (bind (snapshot acc) (\<lambda>snap. verify rt plan snap side)) (\<lambda>vd. ([Verified side (vd_match vd)], []))"
  by (intro moves_bind moves_ext moves_verify)

lemma moves_snapshot_verify_pair:
  "moves (bind (snapshot acc) (\<lambda>snap. bind (verify rt plan snap side) (\<lambda>vd. ret (snap, vd))))
     (\<lambda>(snap, vd). ([Verified side (vd_match vd)], []))"
proof (rule moves_bind [OF moves_ext(4)])
  show "moves (bind (verify rt plan snap side) (\<lambda>vd. ret (snap, vd))) (\<lambda>(snap, vd). ([Verified side (vd_match vd)], []))" for snap
    using moves_verify [of rt plan snap side] by (auto simp: moves_def ret_def elim!: bind_Inr_cases)
qed

definition steps_grow :: "'d world \<Rightarrow> 'd world \<Rightarrow> bool" where
  "steps_grow w w' \<longleftrightarrow> (\<exists>k. op_steps (w_record w') = op_steps (w_record w) @ k)"

interpretation steps_grow: run_order steps_grow
proof unfold_locales
  show "steps_grow s u" if "steps_grow s t" and "steps_grow t u" for s t u :: "'a world"
    using that by (auto simp: steps_grow_def)
qed (simp add: steps_grow_def)

lemma steps_grow_same: "pres (same_field op_steps) m \<Longrightarrow> pres steps_grow m"
  by (simp add: pres_def same_field_def steps_grow_def)

lemma steps_grow_edit: "(\<And>r. \<exists>k. op_steps (g r) = op_steps r @ k) \<Longrightarrow> pres steps_grow (edit g)"
  by (simp add: pres_def steps_grow_def edit_def modify_def)

lemma steps_grow_ext: "pres steps_grow (ext m)" "pres steps_grow (ext_fun f)" "pres steps_grow the_record"
  "pres steps_grow (audit_record v e)" "pres steps_grow (save_record v)" "pres steps_grow (trace ev)"
  "pres steps_grow (block_device v dev c y)" "pres steps_grow (save v r)"
  by (intro steps_grow_same same_field_intros)+

lemma steps_grow_step: "pres steps_grow (step rt name detail)"
  unfolding step_def by (intro steps_grow.pres_basic steps_grow_ext steps_grow_edit) simp

lemma steps_grow_spec: "pres steps_grow (spec_of rt)" "pres steps_grow (adapter_of rt platform)"
  unfolding spec_of_def adapter_of_def by (intro steps_grow.pres_basic steps_grow_ext pres_splits)+

lemma steps_grow_persist: "pres steps_grow (persist rt ad acc)"
  unfolding persist_def
  by (intro steps_grow.pres_basic steps_grow_ext steps_grow_step steps_grow_spec pres_splits)

lemma leads_persist:
  assumes "\<And>a k. leads p (n @ k) (f a) P N"
  shows "leads p n (bind (persist rt ad acc) f) P N"
  unfolding leads_def
proof (intro allI impI, elim bind_Inr_cases)
  fix w r w' a w1
  assume confirmed: "op_result r = Some ''confirmed''" and run: "persist rt ad acc w = (Inr a, w1)" "f a w1 = (Inr r, w')"
  have "emits bookkeeping w w1" using presD [OF emits_persist [OF books_instances(1)] run(1)] .
  then have same: "protocol w1 = protocol w"
    by (auto simp: emits_def protocol_def list_all_iff filter_empty_conv)
  obtain k where k: "names (w_record w1) = names (w_record w) @ k"
    using presD [OF steps_grow_persist run(1)] by (auto simp: steps_grow_def names_def)
  obtain q k1 q' k' where "protocol w' = protocol w1 @ q" "names r = names (w_record w1) @ k1"
    "p @ q = P @ q'" "saved_check q'" "(n @ k) @ k1 = N @ k'"
    using assms [of k a] run(2) confirmed unfolding leads_def by blast
  with same k show "\<exists>q k q' k'. protocol w' = protocol w @ q \<and> names r = names (w_record w) @ k
      \<and> p @ q = P @ q' \<and> saved_check q' \<and> n @ k = N @ k'"
    by (intro exI [of _ q] exI [of _ "k @ k1"] exI [of _ q'] exI [of _ k']) simp
qed

lemmas moves_intros = moves_ext moves_checks moves_step moves_verify moves_remove moves_snapshot_verify
  moves_snapshot_verify_pair

abbreviation confirmed_protocol :: "plan \<Rightarrow> io list" where
  "confirmed_protocol plan \<equiv> [Installed True, Applied (pl_commands plan), Verified ''after'' True, Verified ''after'' True,
     Removed True, Verified ''after'' True]"

abbreviation confirmed_steps :: "string list" where
  "confirmed_steps \<equiv> [''safeguard_install'', ''safeguard_verified'', ''change_start'', ''change_applied'', ''postcheck_passed'',
     ''audit_passed'', ''check_identity_passed'', ''confirm_start'']"

lemma leads_attempt_both:
  assumes "moves m F" and "\<And>w x w'. m w = (Inl x, w') \<Longrightarrow> protocol w' = protocol w \<and> w_record w' = w_record w"
    and "\<And>x. leads p n (h x) P N" and "\<And>a. leads (p @ fst (F a)) (n @ snd (F a)) (f a) P N"
  shows "leads p n (attempt m h f) P N"
  unfolding leads_def
proof (intro allI impI, elim attempt_Inr_cases)
  fix w r w' x w1
  assume confirmed: "op_result r = Some ''confirmed''" and run: "m w = (Inl x, w1)" "h x w1 = (Inr r, w')"
  show "\<exists>q k q' k'. protocol w' = protocol w @ q \<and> names r = names (w_record w) @ k
      \<and> p @ q = P @ q' \<and> saved_check q' \<and> n @ k = N @ k'"
    using assms(2) [OF run(1)] assms(3) [of x] run(2) confirmed unfolding leads_def by metis
next
  fix w r w' a w1
  assume "op_result r = Some ''confirmed''" "m w = (Inr a, w1)" "f a w1 = (Inr r, w')"
  then have "bind m f w = (Inr r, w')" and "op_result r = Some ''confirmed''" by (simp_all add: bind_def)
  then show "\<exists>q k q' k'. protocol w' = protocol w @ q \<and> names r = names (w_record w) @ k
      \<and> p @ q = P @ q' \<and> saved_check q' \<and> n @ k = N @ k'"
    using leads_bind [OF assms(1,4)] unfolding leads_def by blast
qed

lemma snapshot_verify_raised:
  "bind (snapshot acc) (\<lambda>snap. verify rt plan snap side) w = (Inl x, w') \<Longrightarrow>
   protocol w' = protocol w \<and> w_record w' = w_record w"
  by (auto simp: snapshot_def verify_def ext_def trace_def protocol_def act_defs split: prod.splits sum.splits)

lemma leads_step: "leads p (n @ [name]) m P N \<Longrightarrow> leads p n (seq (step rt name detail) m) P N"
  by (rule leads_seq [OF moves_step]) simp

lemma leads_silent:
  "moves m (\<lambda>_. ([], [])) \<Longrightarrow> (\<And>a. leads p n (f a) P N) \<Longrightarrow> leads p n (bind m f) P N"
  "moves m (\<lambda>_. ([], [])) \<Longrightarrow> leads p n k P N \<Longrightarrow> leads p n (seq m k) P N"
  "moves m (\<lambda>_. ([], [])) \<Longrightarrow> (\<And>x. unconfirmed (h x)) \<Longrightarrow> (\<And>a. leads p n (f a) P N) \<Longrightarrow> leads p n (attempt m h f) P N"
  by (auto intro: leads_bind leads_seq leads_attempt)

lemma leads_remove:
  "(\<And>b. leads (p @ [Removed b]) n (f b) P N) \<Longrightarrow> leads p n (bind (remove_safeguard rt ad acc) f) P N"
  by (rule leads_bind [OF moves_remove]) simp

lemma leads_verify:
  "(\<And>x. unconfirmed (h x)) \<Longrightarrow> (\<And>vd. leads (p @ [Verified side (vd_match vd)]) n (f vd) P N) \<Longrightarrow>
   leads p n (attempt (verify rt plan snap side) h f) P N"
  by (rule leads_attempt [OF moves_verify]) simp_all

lemma leads_check:
  "(\<And>x. unconfirmed (h x)) \<Longrightarrow> (\<And>snap vd. leads (p @ [Verified side (vd_match vd)]) n (f snap vd) P N) \<Longrightarrow>
   leads p n (attempt (bind (snapshot acc) (\<lambda>snap. bind (verify rt plan snap side) (\<lambda>vd. ret (snap, vd)))) h
     (\<lambda>(snap, vd). f snap vd)) P N"
  by (rule leads_attempt [OF moves_snapshot_verify_pair]) (simp_all split: prod.splits)

lemma leads_saved_check:
  "(\<And>x. leads p n (h x) P N) \<Longrightarrow> (\<And>vd. leads (p @ [Verified side (vd_match vd)]) n (f vd) P N) \<Longrightarrow>
   leads p n (attempt (bind (snapshot acc) (\<lambda>snap. verify rt plan snap side)) h f) P N"
  by (rule leads_attempt_both [OF moves_snapshot_verify snapshot_verify_raised]) simp_all

lemma leads_confirm_saved:
  assumes "\<exists>k'. n = N @ k'"
  shows "leads P n (confirm_saved rt acc plan) P N"
  unfolding confirm_saved_def
  by (intro leads_silent(1) moves_ext leads_if leads_saved_check leads_step leads_finish)
    (use assms in \<open>auto simp: saved_check_def\<close>)

lemma leads_confirm:
  assumes "P = p @ [Removed True, Verified ''after'' True]" and "N = n @ [''confirm_start'']"
  shows "leads p n (confirm rt ad acc plan due) P N"
proof -
  have ends: "leads P (N @ k) (finish rt ''confirmed'' (Some ''not persisted'') []) P N"
    "leads P (N @ k) (confirm_saved rt acc plan) P N" for k
    by (auto intro!: leads_finish leads_confirm_saved simp: saved_check_def)
  have matched: "leads ((p @ [Removed b]) @ [Verified ''after'' (vd_match vd)]) (n @ [''confirm_start''])
      (bind (persist rt ad acc) (\<lambda>ok. if \<not> ok then finish rt ''confirmed'' (Some ''not persisted'') []
        else confirm_saved rt acc plan)) P N" if "b" and "vd_match vd" for b vd
    using that ends by (auto simp: assms intro!: leads_persist leads_if)
  show ?thesis
    unfolding confirm_def
    by (rule leads_step, rule leads_remove, rule leads_if, intro leads_unconfirmed unconfirmed_intros,
        rule leads_check, (intro unconfirmed_intros; simp), rule leads_if,
        (intro leads_unconfirmed unconfirmed_intros; simp), rule matched) simp_all
qed

lemma leads_final_check:
  assumes "P = p @ [Verified ''after'' True, Removed True, Verified ''after'' True]" and "N = n @ [''confirm_start'']"
  shows "leads p n (final_check rt ad acc plan due) P N"
  unfolding final_check_def
  by (rule leads_check, (intro unconfirmed_intros; simp), rule leads_if,
      intro leads_unconfirmed unconfirmed_intros, rule leads_confirm) (simp_all add: assms)

lemma leads_confirm_margin:
  assumes "P = p @ [Verified ''after'' True, Removed True, Verified ''after'' True]" and "N = n @ [''confirm_start'']"
  shows "leads p n (confirm_margin rt ad acc plan dev due) P N"
  unfolding confirm_margin_def
  by (rule leads_silent(1) [OF moves_ext(3)], rule leads_if, intro leads_unconfirmed unconfirmed_intros,
      rule leads_silent(1) [OF moves_checks(1)], rule leads_if, intro leads_unconfirmed unconfirmed_intros,
      rule leads_final_check [OF assms])

lemma leads_check_identity:
  assumes "P = p @ [Verified ''after'' True, Removed True, Verified ''after'' True]"
    and "N = n @ [''check_identity_passed'', ''confirm_start'']"
  shows "leads p n (check_identity rt ad acc plan dev due) P N"
  unfolding check_identity_def
  by (rule leads_silent(3) [OF moves_checks(2)], intro unconfirmed_intros, rule leads_if,
      intro leads_unconfirmed unconfirmed_intros, rule leads_step, rule leads_confirm_margin) (simp_all add: assms)

lemma leads_audit_gate:
  assumes "P = p @ [Verified ''after'' True, Removed True, Verified ''after'' True]"
    and "N = n @ [''audit_passed'', ''check_identity_passed'', ''confirm_start'']"
  shows "leads p n (audit_gate rt ad acc plan dev due snap) P N"
proof -
  have passed: "moves (bind the_record (\<lambda>r. step rt ''audit_passed'' (Some (rt_audit_note rt dev (op_audit_before r)))))
      (\<lambda>_. ([], [''audit_passed'']))"
    by (rule moves_bind [OF moves_ext(3) moves_step])
  show ?thesis
    unfolding audit_gate_def
    by (rule leads_silent(3) [OF moves_checks(3)], intro unconfirmed_intros, rule leads_if,
        intro leads_unconfirmed unconfirmed_intros, rule leads_seq [OF passed], rule leads_check_identity)
      (simp_all add: assms)
qed

lemma leads_postcheck:
  assumes "P = p @ [Verified ''after'' True, Verified ''after'' True, Removed True, Verified ''after'' True]"
    and "N = n @ [''postcheck_passed'', ''audit_passed'', ''check_identity_passed'', ''confirm_start'']"
  shows "leads p n (postcheck rt ad acc plan dev due) P N"
proof -
  have failed: "unconfirmed (postcheck_failed rt acc plan due cause x)" for cause x
    unfolding postcheck_failed_def by (intro unconfirmed_intros)
  show ?thesis
    unfolding postcheck_def
    by (rule leads_silent(3) [OF moves_checks(4)], rule failed, rule leads_verify, rule failed, rule leads_if,
        intro leads_unconfirmed unconfirmed_intros, rule leads_step, rule leads_audit_gate) (simp_all add: assms)
qed

lemma moves_seq:
  assumes "moves m F" and "moves k G" and "\<And>a b. H b = (fst (F a) @ fst (G b), snd (F a) @ snd (G b))"
  shows "moves (seq m k) H"
  unfolding moves_def
proof (intro allI impI, elim seq_Inr_cases)
  fix w b w' a w1
  assume run: "m w = (Inr a, w1)" "k w1 = (Inr b, w')"
  then show "protocol w' = protocol w @ fst (H b) \<and> names (w_record w') = names (w_record w) @ snd (H b)"
    using assms(1,2) assms(3) [of b a] by (simp add: moves_def)
qed

lemma moves_apply:
  "moves (seq (trace (Applied cmds)) (seq (ext m) (step rt name detail))) (\<lambda>_. ([Applied cmds], [name]))"
proof (rule moves_seq [of _ "\<lambda>_. ([Applied cmds], [])" _ "\<lambda>_. ([], [name])"])
  show "moves (trace (Applied cmds)) (\<lambda>_. ([Applied cmds], []))"
    by (simp add: moves_def trace_def modify_def protocol_def)
  show "moves (seq (ext m) (step rt name detail)) (\<lambda>_. ([], [name]))"
    by (rule moves_seq [OF moves_ext(1) moves_step]) simp
qed simp

lemma leads_apply_change:
  assumes "P = p @ [Applied (pl_commands plan), Verified ''after'' True, Verified ''after'' True, Removed True, Verified ''after'' True]"
    and "N = n @ [''change_applied'', ''postcheck_passed'', ''audit_passed'', ''check_identity_passed'', ''confirm_start'']"
  shows "leads p n (apply_change rt ad acc plan dev due spec) P N"
  unfolding apply_change_def
  by (rule leads_attempt [OF moves_apply], intro unconfirmed_intros, rule leads_postcheck) (simp_all add: assms)

lemma moves_install:
  "moves (install_safeguard rt ad acc plan dev spec) (\<lambda>problems. ([Installed (problems = [])], []))"
  by (auto simp: moves_def protocol_def names_def dest!: install_safeguard_run)

lemma leads_after_install:
  assumes "P = p @ [Applied (pl_commands plan), Verified ''after'' True, Verified ''after'' True, Removed True, Verified ''after'' True]"
    and "N = n @ [''safeguard_verified'', ''change_start'', ''change_applied'', ''postcheck_passed'', ''audit_passed'',
      ''check_identity_passed'', ''confirm_start'']"
  shows "leads p n (after_install rt ad acc plan dev spec []) P N"
  unfolding after_install_def Let_def
  by (rule leads_silent(1) [OF moves_ext(2)], simp, rule leads_silent(2) [OF moves_checks(6)], rule leads_step,
      rule leads_step, rule leads_apply_change) (simp_all add: assms)

lemma unconfirmed_problems: "problems \<noteq> [] \<Longrightarrow> unconfirmed (after_install rt ad acc plan dev spec problems)"
  unfolding after_install_def by (intro unconfirmed_intros; simp; intro unconfirmed_intros; simp)

lemma leads_execute: "leads [] [] (execute rt ad acc plan dev) (confirmed_protocol plan) confirmed_steps"
proof -
  have installed: "leads [Installed (problems = [])] [''safeguard_install''] (after_install rt ad acc plan dev spec problems)
      (confirmed_protocol plan) confirmed_steps" for spec problems
    by (cases "problems = []") (auto intro: leads_after_install leads_unconfirmed unconfirmed_problems)
  show ?thesis
    unfolding execute_def
    by (rule leads_silent(1) [OF moves_checks(5)], rule leads_silent(3) [OF moves_ext(1)],
        (intro unconfirmed_intros; simp), rule leads_silent(2) [OF moves_edit], simp, rule leads_step,
        rule leads_bind [OF moves_install]) (use installed in simp)
qed

text \<open>(C2) A change is reported as confirmed only after the whole protocol: when \<open>_execute\<close> returns a
  confirmed record, the dialogue with the device was exactly this: the safeguard was installed and
  verified, the commands of the plan were sent once, three fresh snapshots matched the state after
  the change, the last one after the safeguard was seen removed, and at most one more snapshot
  followed to check the saved configuration. The steps of the record show the same order and that
  the audit and the second identity had passed.\<close>

theorem confirmed_only_after_protocol:
  assumes "execute rt ad acc plan dev w = (Inr r, w')" and "op_result r = Some ''confirmed''"
  shows "(\<exists>checks. protocol w' = protocol w @ [Installed True, Applied (pl_commands plan), Verified ''after'' True,
             Verified ''after'' True, Removed True, Verified ''after'' True] @ checks \<and> saved_check checks) \<and>
         (\<exists>more. names r = names (w_record w) @ [''safeguard_install'', ''safeguard_verified'', ''change_start'',
             ''change_applied'', ''postcheck_passed'', ''audit_passed'', ''check_identity_passed'', ''confirm_start''] @ more)"
proof -
  obtain q k q' k' where "protocol w' = protocol w @ q" "names r = names (w_record w) @ k"
    "[] @ q = confirmed_protocol plan @ q'" "saved_check q'" "[] @ k = confirmed_steps @ k'"
    using leads_execute [of rt ad acc plan dev] assms unfolding leads_def by blast
  then show ?thesis by auto
qed

section \<open>Waiting ends\<close>

lemma bind_the_record: "bind the_record g w = g (w_record w) w"
  by (simp add: the_record_def bind_def fetch_def)

lemma left_Inr: "left rt dl w = (Inr l, w') \<Longrightarrow> l \<le> dl_unslept dl"
  by (auto simp: left_def ret_def elim!: bind_Inr_cases)

lemma deadline_read_Inr: "deadline_read rt dl acc q w = (Inr a, w') \<Longrightarrow> 0 \<le> dl_unslept dl"
  unfolding deadline_read_def not_expired_def
  by (elim seq_Inr_cases bind_Inr_cases) (auto simp: throw_def split: if_splits dest!: left_Inr)

lemma pause_Inr: "pause rt dl t w = (Inr dl', w') \<Longrightarrow> dl_unslept dl' \<le> dl_unslept dl - 1"
  unfolding pause_def
  by (elim bind_Inr_cases)
    (auto simp: throw_def ret_def Let_def EXPIRY_POLL_SECONDS_def elim!: seq_Inr_cases split: if_splits)

lemma wait_for_proof_ends:
  assumes "dl_unslept dl + 1 < real n" and "0 < n"
  shows "returns (wait_for_proof n rt ad acc r dl pending) (\<lambda>x. x \<noteq> None)"
  using assms
proof (induction n arbitrary: dl pending)
  case (Suc n)
  show ?case unfolding returns_def
  proof (intro allI impI)
    fix w x w'
    assume run: "wait_for_proof (Suc n) rt ad acc r dl pending w = (Inr x, w')"
    then obtain fired w1 where read: "deadline_read rt dl acc (ad_safeguard_fired ad acc r) w = (Inr fired, w1)"
      and rest: "(if fired then seq (if pending then ext (rt_sleep rt (of_int EXPIRY_GRACE_SECONDS)) else ret ()) (ret (Some ()))
         else bind (left rt dl) (\<lambda>l. bind (pause rt dl l) (\<lambda>dl'. wait_for_proof n rt ad acc r dl' True))) w1 = (Inr x, w')"
      unfolding wait_for_proof.simps by (rule bind_Inr_cases)
    have "0 \<le> dl_unslept dl" using deadline_read_Inr [OF read] .
    show "x \<noteq> None"
    proof (cases fired)
      case True
      with rest show ?thesis by (auto simp: ret_def elim!: seq_Inr_cases)
    next
      case False
      with rest obtain l w2 dl' w3 where paused: "pause rt dl l w2 = (Inr dl', w3)"
        and again: "wait_for_proof n rt ad acc r dl' True w3 = (Inr x, w')"
        by (auto elim!: bind_Inr_cases)
      have "dl_unslept dl' + 1 < real n" "0 < n"
        using pause_Inr [OF paused] Suc.prems \<open>0 \<le> dl_unslept dl\<close> by auto
      from Suc.IH [OF this] again show ?thesis by (rule returnsD)
    qed
  qed
qed simp

lemma wait_loop_ends:
  assumes "dl_unslept dl + 1 < real n" and "0 < n"
  shows "returns (wait_loop n rt ad acc r fire_at due dl) (\<lambda>x. x \<noteq> None)"
  using assms
proof (induction n arbitrary: dl)
  case (Suc n)
  have proof_ends: "returns (wait_for_proof (Suc n) rt ad acc r (tighten dl t y) False) (\<lambda>x. x \<noteq> None)" for t y
    using Suc.prems by (intro wait_for_proof_ends) (simp_all add: tighten_def)
  show ?case unfolding returns_def
  proof (intro allI impI)
    fix w x w'
    assume "wait_loop (Suc n) rt ad acc r fire_at due dl w = (Inr x, w')"
    then obtain now w1 where read: "deadline_read rt dl acc (ad_clock ad acc) w = (Inr now, w1)"
      and rest: "(let remaining = fire_at - now + EXPIRY_GRACE_SECONDS in
         if remaining \<le> 0
         then bind (ext_fun (v_monotonic rt)) (\<lambda>m. wait_for_proof (Suc n) rt ad acc r
           (tighten dl (max m (due + of_int EXPIRY_GRACE_SECONDS) + EXPIRY_WAIT_SLACK_SECONDS)
             ''the safeguard was not seen fired within the wait limit'') False)
         else bind (pause rt dl (of_int remaining)) (\<lambda>dl'. wait_loop n rt ad acc r fire_at due dl')) w1 = (Inr x, w')"
      unfolding wait_loop.simps by (rule bind_Inr_cases)
    have unslept: "0 \<le> dl_unslept dl" using deadline_read_Inr [OF read] .
    show "x \<noteq> None"
    proof (cases "fire_at - now + EXPIRY_GRACE_SECONDS \<le> 0")
      case True
      with rest show ?thesis using proof_ends
        by (auto simp: Let_def simp del: wait_for_proof.simps elim!: bind_Inr_cases dest: returnsD)
    next
      case False
      with rest obtain dl' w2 where paused: "pause rt dl (of_int (fire_at - now + EXPIRY_GRACE_SECONDS)) w1 = (Inr dl', w2)"
        and again: "wait_loop n rt ad acc r fire_at due dl' w2 = (Inr x, w')"
        by (auto simp: Let_def elim!: bind_Inr_cases)
      have "dl_unslept dl' + 1 < real n" "0 < n"
        using pause_Inr [OF paused] Suc.prems unslept by auto
      from Suc.IH [OF this] again show ?thesis by (rule returnsD)
    qed
  qed
qed simp

text \<open>(C7) The wait for the safeguard ends: whatever the device clock and the safeguard status answer,
  the two polling loops of \<open>_wait_for_expiry\<close> never run out of the \<open>WAIT_ROUNDS\<close> rounds the model gives
  them; each pause takes at least one second from the wait limit, so the loops of the source stop
  by a return or by an exception.\<close>

theorem wait_for_expiry_ends: "fst (wait_for_expiry rt ad acc due w) \<noteq> Inr None"
proof -
  have rounds: "EXPIRY_WAIT_LIMIT_SECONDS + 1 < real WAIT_ROUNDS" "0 < WAIT_ROUNDS"
    unfolding WAIT_ROUNDS_def by linarith+
  have "returns (wait_for_expiry rt ad acc due) (\<lambda>x. x \<noteq> None)"
    unfolding returns_def
  proof (intro allI impI)
    fix w x w'
    assume "wait_for_expiry rt ad acc due w = (Inr x, w')"
    then have "bind (lift_res (fire_at_of (w_record w))) (\<lambda>fire_at.
      bind (new_deadline rt EXPIRY_WAIT_LIMIT_SECONDS ''the safeguard did not expire within the wait limit'')
         (wait_loop WAIT_ROUNDS rt ad acc (w_record w) fire_at due)) w = (Inr x, w')"
      by (simp add: wait_for_expiry_def bind_the_record)
    then obtain fire_at where "bind (new_deadline rt EXPIRY_WAIT_LIMIT_SECONDS ''the safeguard did not expire within the wait limit'')
      (wait_loop WAIT_ROUNDS rt ad acc (w_record w) fire_at due) w = (Inr x, w')"
      by (rule bind_Inr_cases) (simp add: lift_res_def)
    then obtain dl w1 where
      "new_deadline rt EXPIRY_WAIT_LIMIT_SECONDS ''the safeguard did not expire within the wait limit'' w = (Inr dl, w1)"
      and "wait_loop WAIT_ROUNDS rt ad acc (w_record w) fire_at due dl w1 = (Inr x, w')"
      by (rule bind_Inr_cases)
    note ended = this
    from ended(1) have "dl_unslept dl = EXPIRY_WAIT_LIMIT_SECONDS"
      unfolding new_deadline_def by (rule bind_Inr_cases) (auto simp: ret_def)
    with rounds have "returns (wait_loop WAIT_ROUNDS rt ad acc (w_record w) fire_at due dl) (\<lambda>x. x \<noteq> None)"
      by (intro wait_loop_ends) simp_all
    then show "x \<noteq> None" using ended(2) by (rule returnsD)
  qed
  then show ?thesis by (cases "wait_for_expiry rt ad acc due w") (auto dest: returnsD)
qed

end
