(* ===== verification/Admin_Recovery.thy ===== *)
theory Admin_Recovery
  imports Admin_Safety
begin

text \<open>
  Properties around the execution: blocks are written before the results they belong to, only
  \<open>apply\<close> sends changes, recovery closes what it finds and confirms only what was being confirmed,
  a preview changes no document, a known request runs nothing, and admission respects the budgets.
\<close>

section \<open>Only an application sends a change\<close>

lemma emits_known:
  "pres (emits P) (journaled rt dev req)" "pres (emits P) (known rt dev req)"
  "pres (emits P) (target rt name req)" "pres (emits P) (opt_in dev req undoing)"
  unfolding known_def journaled_def target_def opt_in_def
  by (intro emits_intros emits_read emits_records pres_splits)+

lemma emits_budgets: "pres (emits P) (budgets rt dev changes)"
  unfolding budgets_def by (intro emits_intros emits_clock emits_refused emits_records pres_splits)

lemma emits_refuse: "pres (emits P) (refuse_if reasons)"
  unfolding refuse_if_def by (intro emits_intros pres_splits)

lemma emits_require: "pres (emits P) (require rt dev accounts firmware)"
  unfolding require_def by (intro emits_intros emits_read pres_splits)

lemma emits_certified: "pres (emits P) (certified rt dev accounts plan export enrolling previewing)"
  unfolding certified_def by (intro emits_intros emits_require pres_splits)

lemma emits_observed:
  "pres (emits P) (observed rt ad acc plan)" "pres (emits P) (observed_before rt ad acc plan)"
  "pres (emits P) (predicted_audit rt dev plan snap)"
  unfolding observed_before_def observed_def predicted_audit_def unaudited_def
  by (intro emits_intros emits_refuse pres_splits)+

lemma emits_writable: "pres (emits P) (check_writable v)"
  unfolding check_writable_def by (intro emits_intros pres_splits; simp)

lemma emits_admissible: "pres (emits P) (admissible rt dev)"
  unfolding admissible_def
  by (intro emits_intros emits_budgets emits_read emits_records emits_refuse emits_writable pres_splits)

lemma emits_accounts_before:
  "books P \<or> previewing \<Longrightarrow> pres (emits P) (accounts_before rt dev ad acc snap baseline previewing)"
  unfolding accounts_before_def block_accounts_def
  by (intro emits_intros emits_block emits_write_ops books_logs pres_splits) auto

lemma emits_read_device:
  "books P \<or> previewing \<Longrightarrow> pres (emits P) (read_device rt dev ad req baseline previewing)"
  unfolding read_device_def unreadable_device_def snapshot_def
  by (intro emits_intros emits_accounts_before emits_refuse pres_splits)

lemma emits_prepared:
  "books P \<or> previewing \<Longrightarrow> pres (emits P) (prepared rt dev ad req expected enrolling previewing undoing)"
  unfolding prepared_def unreadable_device_def
  by (intro emits_intros emits_admissible emits_read emits_read_device emits_refuse emits_certified emits_observed pres_splits)

lemma emits_count: "pres (emits P) (count_rejection rt)" "pres (emits P) m \<Longrightarrow> pres (emits P) (counting rt m)"
proof -
  show count: "pres (emits P) (count_rejection rt)"
    unfolding count_rejection_def note_rejection_def
    by (intro emits_intros emits_clock emits_refused pres_splits; simp)
  show "pres (emits P) (counting rt m)" if "pres (emits P) m"
    unfolding counting_def by (intro emits_intros pres_splits count that)
qed

lemma emits_target_lock: "pres (emits P) m \<Longrightarrow> pres (emits P) (with_target_lock rt dev m)"
  unfolding with_target_lock_def by (intro emits_intros pres_splits)

lemma emits_preview: "pres (emits P) (preview rt name req)"
  unfolding preview_def preview_body_def
  by (intro emits_intros emits_count emits_known emits_spec emits_lock emits_target_lock emits_prepared pres_splits) simp

lemma emits_recover_parts:
  "pres (emits no_change) (recover_state rt ad acc plan)" "pres (emits no_change) (recover_device rt dev ad acc plan)"
  "pres (emits no_change) (recover_one rt dev r)" "pres (emits no_change) (remove_unverified_safeguard rt dev r)"
  unfolding remove_unverified_safeguard_def recover_one_def stored_plan_def recover_device_def safeguard_presence_def recover_state_def
    recover_verdict_def both_sides_def
  by (intro emits_intros emits_no_change emits_spec pres_splits books_instances)+

lemma emits_unverified: "pres (emits P) (unverified_safeguard name)"
  unfolding unverified_safeguard_def by (intro emits_intros emits_read pres_splits)

lemma emits_recover: "pres (emits no_change) (recover rt name)"
  unfolding recover_def
  by (intro emits_intros emits_lock emits_target_lock emits_records emits_recover_parts emits_unverified pres_splits)

lemma emits_unblock: "books P \<Longrightarrow> pres (emits P) (unblock rt name reason)"
  unfolding unblock_def unblock_device_def waived_one_def
  by (intro emits_intros emits_lock emits_read emits_records emits_update books_logs emits_write_ops books_logs pres_splits)

lemma emits_delivery:
  assumes "books P"
  shows "pres (emits P) (notify_retry rt c)" "pres (emits P) (refresh_delivery rt r)"
proof -
  show "pres (emits P) (notify_retry rt c)"
    unfolding notify_retry_def by (intro emits_intros emits_lock emits_read emits_deliver books_logs pres_splits assms)
  have handler: "pres (emits P) (case x of StateUnreadable _ \<Rightarrow> throw x
      | _ \<Rightarrow> if is_rejected x then ret (Some r) else throw x)" for x
    by (cases x) (simp_all add: emits.pres_ret emits.pres_throw)
  show "pres (emits P) (refresh_delivery rt r)"
    unfolding refresh_delivery_def
    by (intro emits_intros emits_update books_logs emits_write_ops books_logs handler pres_splits assms)
qed

text \<open>(C8) Only the application of a request, its undo and the enrollment self-test send changes: whatever
  they do and however they end, recovery, preview, unblocking, the retry of a notification and the
  refresh of its state never send change commands to a device.\<close>

theorem only_apply_sends_changes:
  "(\<exists>new. w_io (snd (recover rt name w)) = w_io w @ new \<and> list_all no_change new) \<and>
   w_io (snd (preview rt name req w)) = w_io w \<and>
   (\<exists>new. w_io (snd (unblock rt name reason w)) = w_io w @ new \<and> list_all no_change new) \<and>
   (\<exists>new. w_io (snd (notify_retry rt c w)) = w_io w @ new \<and> list_all no_change new) \<and>
   (\<exists>new. w_io (snd (refresh_delivery rt r w)) = w_io w @ new \<and> list_all no_change new)"
proof (intro conjI)
  have "emits (\<lambda>_. False) w (snd (preview rt name req w))"
    using emits_preview [of "\<lambda>_. False" rt name req] by (simp add: pres_def)
  then show "w_io (snd (preview rt name req w)) = w_io w"
    by (auto simp: emits_def list_all_iff)
qed (use emits_recover [of rt name] emits_unblock [OF books_instances(2), of rt name reason]
      emits_delivery [OF books_instances(2), of rt] in \<open>simp_all add: pres_def emits_def\<close>)

section \<open>An application sends what the journal announces\<close>

definition sent_journaled :: "io list \<Rightarrow> bool" where
  "sent_journaled new \<longleftrightarrow> list_all no_change new \<or>
     (\<exists>a b c r e. new = a @ [Installed True] @ b @ [Saved r, Audited e, Applied (pl_commands (op_plan r))] @ c
        \<and> list_all no_change (a @ b @ c) \<and> change_record (ident r) r)"

definition sends :: "plan \<Rightarrow> ('d world, 'a) act \<Rightarrow> bool" where
  "sends pl m \<longleftrightarrow> (\<forall>w. op_plan (w_record w) = pl \<longrightarrow>
     (\<exists>new. w_io (snd (m w)) = w_io w @ new \<and> sent_journaled new))"

lemma sent_journaled_around:
  "list_all no_change a \<Longrightarrow> sent_journaled new \<Longrightarrow> list_all no_change c \<Longrightarrow> sent_journaled (a @ new @ c)"
  unfolding sent_journaled_def
proof (elim disjE exE conjE)
  fix a1 b d r e
  assume "list_all no_change a" and "list_all no_change c" and "list_all no_change (a1 @ b @ d)"
    and "new = a1 @ [Installed True] @ b @ [Saved r, Audited e, Applied (pl_commands (op_plan r))] @ d"
    and rec: "change_record (ident r) r"
  then have "a @ new @ c = (a @ a1) @ [Installed True] @ b @ [Saved r, Audited e, Applied (pl_commands (op_plan r))] @ (d @ c)"
    and "list_all no_change ((a @ a1) @ b @ (d @ c))" by simp_all
  with rec show "list_all no_change (a @ new @ c) \<or> (\<exists>a' b c' r e. a @ new @ c = a' @ [Installed True] @ b
      @ [Saved r, Audited e, Applied (pl_commands (op_plan r))] @ c' \<and> list_all no_change (a' @ b @ c') \<and> change_record (ident r) r)"
    by blast
qed simp

lemma sends_quiet: "pres (emits no_change) m \<Longrightarrow> sends pl m"
  by (auto simp: sends_def pres_def emits_def sent_journaled_def)

lemma sends_run:
  assumes "emits no_change w w1" and "\<exists>new. w_io w2 = w_io w1 @ new \<and> sent_journaled new" and "emits no_change w2 w'"
  shows "\<exists>new. w_io w' = w_io w @ new \<and> sent_journaled new"
proof -
  obtain a new c where "w_io w1 = w_io w @ a" "w_io w2 = w_io w1 @ new" "w_io w' = w_io w2 @ c"
    "list_all no_change a" "sent_journaled new" "list_all no_change c"
    using assms by (auto simp: emits_def)
  then show ?thesis using sent_journaled_around by auto
qed

lemma sends_after:
  assumes "pres (emits no_change) m" and "pres (same_field op_plan) m" and "\<And>a. sends pl (f a)"
  shows "sends pl (bind m f)"
  unfolding sends_def
proof (intro allI impI)
  fix w :: "'a world"
  assume pl: "op_plan (w_record w) = pl"
  obtain q w1 where run: "m w = (q, w1)" by fastforce
  have first: "emits no_change w w1" "op_plan (w_record w1) = pl"
    using presD [OF assms(1) run] presD [OF assms(2) run] pl by (simp_all add: same_field_def)
  show "\<exists>new. w_io (snd (bind m f w)) = w_io w @ new \<and> sent_journaled new"
  proof (cases q)
    case (Inl x)
    with run first(1) show ?thesis by (auto simp: bind_def emits_def sent_journaled_def)
  next
    case (Inr a)
    then have "bind m f w = f a w1" using run by (simp add: bind_def)
    moreover have "\<exists>new. w_io (snd (f a w1)) = w_io w1 @ new \<and> sent_journaled new"
      using assms(3) [of a] first(2) by (simp add: sends_def)
    ultimately show ?thesis using sends_run [OF first(1) _ emits.refl] by simp
  qed
qed

lemma sends_before: "sends pl m \<Longrightarrow> (\<And>x. pres (emits no_change) (h x)) \<Longrightarrow> (\<And>a. pres (emits no_change) (f a)) \<Longrightarrow> sends pl (attempt m h f)"
  unfolding sends_def
proof (intro allI impI)
  fix w :: "'a world"
  assume sent: "\<forall>w. op_plan (w_record w) = pl \<longrightarrow> (\<exists>new. w_io (snd (m w)) = w_io w @ new \<and> sent_journaled new)"
    and quiet: "\<And>x. pres (emits no_change) (h x)" "\<And>a. pres (emits no_change) (f a)" and pl: "op_plan (w_record w) = pl"
  obtain q w1 where run: "m w = (q, w1)" by fastforce
  then have "\<exists>new. w_io w1 = w_io w @ new \<and> sent_journaled new" using sent pl by fastforce
  moreover have "emits no_change w1 (snd (attempt m h f w))"
    using run quiet by (cases q) (simp_all add: attempt_def pres_def)
  ultimately show "\<exists>new. w_io (snd (attempt m h f w)) = w_io w @ new \<and> sent_journaled new"
    using sends_run [OF emits.refl] by blast
qed

lemma sends_handle: "sends pl m \<Longrightarrow> (\<And>x. pres (emits no_change) (h x)) \<Longrightarrow> sends pl (handle m h)"
  unfolding handle_attempt by (rule sends_before) (simp_all add: emits.pres_ret)

lemma sends_bind: "sends pl m \<Longrightarrow> (\<And>a. pres (emits no_change) (f a)) \<Longrightarrow> sends pl (bind m f)"
  unfolding bind_attempt by (rule sends_before) (simp_all add: emits.pres_throw)

lemma sends_seq: "pres (emits no_change) m \<Longrightarrow> pres (same_field op_plan) m \<Longrightarrow> sends pl n \<Longrightarrow> sends pl (seq m n)"
  unfolding seq_def by (rule sends_after)

lemma sends_execute: "sends pl (execute rt ad acc pl dev)"
  unfolding sends_def
proof (intro allI impI)
  fix w :: "'a world"
  assume pl: "op_plan (w_record w) = pl"
  obtain new where new: "w_io (snd (execute rt ad acc pl dev w)) = w_io w @ new" "sent_safely pl (ident (w_record w)) new"
    using execute_sent_safely [OF prod.collapse [symmetric]] by blast
  then have "sent_journaled new"
    using pl by (fastforce simp: sent_safely_def sent_journaled_def change_record_def ident_def)
  with new show "\<exists>new. w_io (snd (execute rt ad acc pl dev w)) = w_io w @ new \<and> sent_journaled new" by blast
qed

lemma emits_complete: "books P \<Longrightarrow> \<forall>side b. P (Verified side b) \<Longrightarrow> pres (emits P) (complete rt dev acc r)"
  unfolding complete_def enrollment_verified_def verify_def
  by (intro emits_intros emits_block emits_spec emits_snapshot emits_observed emits_write_ops books_logs emits_step books_logs pres_splits) auto

lemma quiet_parts:
  "pres (emits no_change) (note_foreign_sessions rt ad acc dev)" "pres (emits no_change) (admit rt dev req)"
  unfolding note_foreign_sessions_def admit_def with_admission_def
  by (intro emits_intros emits_step books_logs emits_known emits_budgets emits_write_ops books_logs pres_splits books_instances)+

lemma same_plan_step: "pres (same_field op_plan) (step rt name detail)"
  unfolding step_def by (intro same_field_intros same_field_edit) simp

lemma same_plan_parts:
  "pres (same_field op_plan) (note_foreign_sessions rt ad acc dev)" "pres (same_field op_plan) (notify send r)"
  "pres (same_field op_plan) (clear_enrollment rt name)"
  unfolding note_foreign_sessions_def notify_def clear_enrollment_def
  by (intro same_field_intros same_field_edit same_plan_step pres_splits; simp)+

lemma sends_if: "(b \<Longrightarrow> sends pl m) \<Longrightarrow> (\<not> b \<Longrightarrow> sends pl n) \<Longrightarrow> sends pl (if b then m else n)"
  by simp

lemma sends_option: "sends pl m \<Longrightarrow> (\<And>y. sends pl (f y)) \<Longrightarrow> sends pl (case x of None \<Rightarrow> m | Some y \<Rightarrow> f y)"
  by (cases x) auto

lemma sends_enrollment: "sends pl (execute_enrollment rt ad acc dev pl)"
proof -
  have "sends pl (bind (execute rt ad acc pl dev) (complete rt dev acc))"
    by (intro sends_bind sends_execute emits_complete) simp_all
  then have "sends pl (seq (step rt ''enrollment_notification_verified'' None)
      (seq (clear_enrollment rt (dv_name dev)) (bind (execute rt ad acc pl dev) (complete rt dev acc))))"
    by (intro sends_seq emits_step books_logs same_plan_step emits_write_ops books_logs same_plan_parts books_instances)
  moreover have "sends pl (finish rt result reason ds)" for result reason ds
    by (intro sends_quiet emits_finish books_instances)
  ultimately show ?thesis
    unfolding execute_enrollment_def
    by (intro sends_after sends_if emits_intros same_field_intros emits_notify same_plan_parts pres_splits)
qed

lemma sends_start: "sends pl (start_operation rt ad acc dev enrolling)"
  unfolding sends_def
proof (intro allI impI)
  fix w :: "'a world"
  assume pl: "op_plan (w_record w) = pl"
  have "sends pl (seq (audit_record rt ev) (seq (note_foreign_sessions rt ad acc dev)
      (if \<not> enrolling then execute rt ad acc pl dev else execute_enrollment rt ad acc dev pl)))" for ev
    by (intro sends_seq sends_if sends_execute sends_enrollment emits_write_ops books_logs same_field_intros quiet_parts same_plan_parts
        books_instances)
  note run = this [unfolded sends_def, rule_format, OF pl]
  show "\<exists>new. w_io (snd (start_operation rt ad acc dev enrolling w)) = w_io w @ new \<and> sent_journaled new"
    unfolding start_operation_def bind_the_record pl by (rule run)
qed

text \<open>Actions after which any plan may be in the record.\<close>

lemma sends_any_bind:
  assumes "pres (emits no_change) m" and "\<And>a pl. sends pl (f a)"
  shows "sends pl (bind m f)"
  unfolding sends_def
proof (intro allI impI)
  fix w :: "'a world"
  obtain q w1 where run: "m w = (q, w1)" by fastforce
  have first: "emits no_change w w1" using presD [OF assms(1) run] .
  show "\<exists>new. w_io (snd (bind m f w)) = w_io w @ new \<and> sent_journaled new"
  proof (cases q)
    case (Inl x)
    with run first show ?thesis by (auto simp: bind_def emits_def sent_journaled_def)
  next
    case (Inr a)
    then have "bind m f w = f a w1" using run by (simp add: bind_def)
    moreover have "\<exists>new. w_io (snd (f a w1)) = w_io w1 @ new \<and> sent_journaled new"
      using assms(2) [of _ a] by (simp add: sends_def)
    ultimately show ?thesis using sends_run [OF first _ emits.refl] by simp
  qed
qed

lemma sends_any_seq: "pres (emits no_change) m \<Longrightarrow> (\<And>pl. sends pl n) \<Longrightarrow> sends pl (seq m n)"
  unfolding seq_def by (rule sends_any_bind)

lemma sends_apply: "sends pl (apply_request rt name req expected enrolling undoing)"
proof -
  have body: "sends pl (bind (known rt dev req) (\<lambda>found. case found of
         Some r \<Rightarrow> ret r
       | None \<Rightarrow>
           bind (prepared rt dev ad req expected enrolling False undoing) (\<lambda>p.
           bind (ext_fun (rt_token_hex rt 16)) (\<lambda>change_id.
           bind (ext_fun (v_time rt)) (\<lambda>created.
           bind (budget_now rt) (\<lambda>budget_at.
           seq (edit (\<lambda>_. new_record rt dev req enrolling p change_id created budget_at))
           (bind (admit rt dev req) (\<lambda>again. case again of
              Some r \<Rightarrow> ret r
            | None \<Rightarrow> start_operation rt ad (rd_access p) dev enrolling))))))))" for pl dev ad
    by (intro sends_any_bind sends_any_seq sends_option sends_start emits_known emits_prepared quiet_parts emits_clock
        emits_ext emits_silent) (auto intro: sends_quiet emits.pres_ret)
  have locked: "sends pl (with_lock rt (dv_name dev) (with_target_lock rt dev m))" if "\<And>pl. sends pl m"
    for pl dev and m :: "('a world, operation) act"
    unfolding with_lock_def with_target_lock_def
    by (intro sends_if sends_any_seq sends_before sends_handle that emits_intros pres_splits)
      (auto intro: sends_quiet emits.pres_throw)
  show ?thesis
    unfolding apply_request_def
    by (intro sends_any_bind sends_any_seq locked body emits_known emits_spec)
qed

text \<open>(C3) Whatever an application of a request does, and however it ends, it sends to the device either
  nothing or, once, exactly the commands of the plan in the journal record that was made durable
  right before with the step \<open>change_start\<close>, after the safeguard of that record was verified. This
  holds for changes, for undo and for the enrollment self-test.\<close>

theorem apply_sends_journaled_plan:
  "\<exists>new. w_io (snd (apply_request rt name req expected enrolling undoing w)) = w_io w @ new \<and> sent_journaled new"
  using sends_apply [of "op_plan (w_record w)" rt name req expected enrolling undoing] by (simp add: sends_def)

section \<open>Blocks come before the results they belong to\<close>

fun no_block :: "io \<Rightarrow> bool" where
  "no_block (Blocked _ _ _) = False"
| "no_block _ = True"

lemma logs_no_block: "logs no_block"
  by (simp add: logs_def)

lemma emits_close: "pres (emits P) (close_record rt result reason ds)"
  unfolding close_record_def by (intro emits_intros pres_splits)

lemma same_field_close:
  assumes "\<And>r a b c d e. f (r\<lparr>op_status := a, op_finished_at := b, op_result := c, op_reason := d, op_differences := e\<rparr>) = f r"
    and "\<And>r a b. f (r\<lparr>op_audit_delivery := a, op_notification := b\<rparr>) = f r"
  shows "pres (same_field f) (close_record rt result reason ds)"
  unfolding close_record_def
  by (intro same_field_intros same_field_edit pres_splits assms)

lemma publish_blocks_first:
  assumes "publish rt result reason w = (res, w')" and "blocks result reason"
  shows "w_io w' = w_io w \<or> (\<exists>rest. w_io w' = w_io w @
    Blocked (op_device (w_record w)) (Some (op_change_id (w_record w))) (block_reason result reason) # rest)"
proof -
  let ?b = "Blocked (op_device (w_record w)) (Some (op_change_id (w_record w))) (block_reason result reason)"
  let ?block = "bind the_record (\<lambda>r. block_device rt (op_device r) (Some (op_change_id r)) (block_reason result reason))"
  let ?rest = "seq (save_record rt) (seq (bind the_record (\<lambda>r. audit_record rt (EvResult (op_change_id r) (op_request_id r)
      (op_device r) result reason (length (op_differences r)) (the (op_notification r)) (the (op_audit_delivery r))
      (map_option sg_fire_at (op_safeguard r)))))
      (seq (case rt_notifier rt of None \<Rightarrow> ret () | Some send \<Rightarrow> deliver_notification rt send) the_record))"
  have quiet: "pres (emits bookkeeping) ?rest"
    by (intro emits_intros emits_step emits_write_ops emits_deliver books_logs books_instances pres_splits)
  have "seq ?block ?rest w = (res, w')" using assms by (simp add: publish_def)
  then show ?thesis
  proof (cases rule: seq_cases)
    case raised
    then show ?thesis
      by (auto simp: bind_the_record block_device_def elim!: write_atomic_cases)
  next
    case (passed u w1)
    then have "w_io w1 = w_io w @ [?b]"
      by (auto simp: bind_the_record block_device_def elim!: write_atomic_cases)
    moreover obtain new where "w_io w' = w_io w1 @ new"
      using presD [OF quiet passed(2)] by (auto simp: emits_def)
    ultimately show ?thesis by auto
  qed
qed

lemma publish_no_block: "\<not> blocks result reason \<Longrightarrow> pres (emits no_block) (publish rt result reason)"
  unfolding publish_def
  by (simp, intro emits_intros emits_step emits_write_ops emits_deliver logs_no_block pres_splits)

text \<open>(C6) A result that blocks the device blocks it before the result is recorded: whenever an operation
  is closed with a blocking result or reason, the first durable effect of \<open>_finish\<close> is the block of its
  device, with the change and the reason, so that no interruption leaves a finished record without
  it; with any other result and reason \<open>_finish\<close> blocks nothing.\<close>

theorem finish_blocks_first:
  "\<exists>new. w_io (snd (finish rt result reason ds w)) = w_io w @ new \<and>
     (if blocks result reason
      then new = [] \<or> hd new = Blocked (op_device (w_record w)) (Some (op_change_id (w_record w))) (block_reason result reason)
      else list_all no_block new)"
proof -
  obtain res w' where run: "finish rt result reason ds w = (res, w')" by fastforce
  have "\<exists>new. w_io w' = w_io w @ new \<and> (if blocks result reason
      then new = [] \<or> hd new = Blocked (op_device (w_record w)) (Some (op_change_id (w_record w))) (block_reason result reason)
      else list_all no_block new)"
    using run unfolding finish_def
  proof (cases rule: seq_cases)
    case raised
    then have "emits (\<lambda>_. False) w w'" by (blast intro: presD [OF emits_close])
    then show ?thesis by (auto simp: emits_def list_all_iff)
  next
    case (passed u w1)
    have "emits (\<lambda>_. False) w w1" using presD [OF emits_close passed(1)] .
    then have io: "w_io w1 = w_io w" by (auto simp: emits_def list_all_iff)
    have "same_field (\<lambda>r. (op_device r, op_change_id r)) w w1"
      by (rule presD [OF same_field_close passed(1)]) simp_all
    then have ids: "op_device (w_record w1) = op_device (w_record w)" "op_change_id (w_record w1) = op_change_id (w_record w)"
      by (simp_all add: same_field_def)
    show ?thesis
    proof (cases "blocks result reason")
      case True
      then show ?thesis using publish_blocks_first [OF passed(2) True] io ids by auto
    next
      case False
      then show ?thesis using presD [OF publish_no_block [OF False] passed(2)] io by (auto simp: emits_def)
    qed
  qed
  with run show ?thesis by simp
qed

section \<open>Recovery\<close>

lemma seq_edit: "seq (edit g) m w = m (w\<lparr>w_record := g (w_record w)\<rparr>)"
  by (simp add: seq_def bind_def edit_def modify_def)

lemma recover_state_outcome: "returns (recover_state rt ad acc plan) (outcome RESULTS)"
  unfolding recover_state_def recover_verdict_def by (intro returns_basic finish_outcome; simp add: RESULTS_def)

lemma recover_one_outcome: "returns (recover_one rt dev r) (outcome RESULTS)"
  unfolding recover_one_def recover_device_def
  by (intro returns_basic finish_outcome settle_outcome recover_state_outcome; simp add: RESULTS_def)

text \<open>A confirmed end of an action: the record had the step \<open>confirm_start\<close> when the action began, and
  a snapshot matched the state after the change during it.\<close>

definition confirm_seen :: "('d world, operation) act \<Rightarrow> bool" where
  "confirm_seen m \<longleftrightarrow> (\<forall>w r w'. m w = (Inr r, w') \<longrightarrow> op_result r = Some ''confirmed'' \<longrightarrow>
     has_step ''confirm_start'' (w_record w) \<and> (\<exists>new. w_io w' = w_io w @ new \<and> Verified ''after'' True \<in> set new))"

lemma confirm_seen_unconfirmed: "unconfirmed m \<Longrightarrow> confirm_seen m"
  by (auto simp: confirm_seen_def unconfirmed_def dest: returnsD)

lemma confirm_seen_after:
  assumes "pres (emits no_change) m" and "\<And>w a w'. m w = (Inr a, w') \<Longrightarrow> has_step ''confirm_start'' (w_record w') \<Longrightarrow> has_step ''confirm_start'' (w_record w)"
    and "\<And>a. confirm_seen (f a)"
  shows "confirm_seen (bind m f)"
  unfolding confirm_seen_def
proof (intro allI impI, elim bind_Inr_cases)
  fix w r w' a w1
  assume confirmed: "op_result r = Some ''confirmed''" and run: "m w = (Inr a, w1)" "f a w1 = (Inr r, w')"
  have "has_step ''confirm_start'' (w_record w1) \<and> (\<exists>new. w_io w' = w_io w1 @ new \<and> Verified ''after'' True \<in> set new)"
    using assms(3) [of a] run(2) confirmed unfolding confirm_seen_def by blast
  moreover obtain old where "w_io w1 = w_io w @ old" using presD [OF assms(1) run(1)] by (auto simp: emits_def)
  ultimately show "has_step ''confirm_start'' (w_record w) \<and> (\<exists>new. w_io w' = w_io w @ new \<and> Verified ''after'' True \<in> set new)"
    using assms(2) [OF run(1)] by auto
qed

lemma confirm_seen_silent:
  assumes "pres (emits no_change) m" and "pres (same_field op_steps) m"
  shows "(\<And>a. confirm_seen (f a)) \<Longrightarrow> confirm_seen (bind m f)"
    and "(\<And>x. unconfirmed (h x)) \<Longrightarrow> (\<And>a. confirm_seen (f a)) \<Longrightarrow> confirm_seen (attempt m h f)"
proof -
  have same: "m w = (q, w') \<Longrightarrow> op_steps (w_record w') = op_steps (w_record w)" for w q w'
    using presD [OF assms(2)] by (simp add: same_field_def)
  then show bound: "confirm_seen (bind m f)" if "\<And>a. confirm_seen (f a)"
    by (intro confirm_seen_after assms(1) that) (auto simp: has_step_def)
  assume "\<And>x. unconfirmed (h x)" and "\<And>a. confirm_seen (f a)"
  note h = this(1) and f = bound [OF this(2)]
  show "confirm_seen (attempt m h f)"
    unfolding confirm_seen_def
  proof (intro allI impI)
    fix w r w'
    assume run: "attempt m h f w = (Inr r, w')" and confirmed: "op_result r = Some ''confirmed''"
    from run show "has_step ''confirm_start'' (w_record w) \<and> (\<exists>new. w_io w' = w_io w @ new \<and> Verified ''after'' True \<in> set new)"
    proof (cases rule: attempt_Inr_cases)
      case (handled x w1)
      with h [of x] confirmed show ?thesis unfolding unconfirmed_def by (blast dest: returnsD)
    next
      case (passed a w1)
      then have "bind m f w = (Inr r, w')" by (simp add: bind_def)
      with f confirmed show ?thesis unfolding confirm_seen_def by blast
    qed
  qed
qed

lemma confirm_seen_step:
  assumes "name \<noteq> ''confirm_start''" and "confirm_seen m"
  shows "confirm_seen (seq (step rt name detail) m)"
  unfolding seq_def
proof (rule confirm_seen_after [OF _ _ assms(2)])
  show "pres (emits no_change) (step rt name detail)" by (intro emits_step books_logs books_instances)
  show "has_step ''confirm_start'' (w_record w)" if "step rt name detail w = (Inr u, w')"
    and "has_step ''confirm_start'' (w_record w')" for w w' u
    using that assms(1) by (auto simp: has_step_def add_step_def dest!: step_Inr)
qed

lemma confirm_seen_if: "(b \<Longrightarrow> confirm_seen m) \<Longrightarrow> (\<not> b \<Longrightarrow> confirm_seen n) \<Longrightarrow> confirm_seen (if b then m else n)"
  by simp

lemma confirm_seen_prod: "(\<And>a b. confirm_seen (f a b)) \<Longrightarrow> confirm_seen (case x of (a, b) \<Rightarrow> f a b)"
  by (cases x) auto

lemma both_sides_Inr:
  assumes "both_sides rt acc plan w = (Inr (is_after, is_before), w')"
  shows "w_io w' = w_io w @ [Verified ''after'' is_after, Verified ''before'' is_before] \<and> w_record w' = w_record w"
  using assms unfolding both_sides_def snapshot_def verify_def
  by (auto simp: ext_def trace_def act_defs split: prod.splits sum.splits)

lemma recover_verdict_confirmed:
  assumes "recover_verdict rt ad acc is_after is_before w = (Inr r, w')" and "op_result r = Some ''confirmed''"
  shows "is_after \<and> has_step ''confirm_start'' (w_record w)"
proof (rule ccontr)
  assume other: "\<not> (is_after \<and> has_step ''confirm_start'' (w_record w))"
  have "unconfirmed (if is_before then bind (persist rt ad acc) (\<lambda>saved. finish rt ''reverted''
       (Some (if saved then ''interrupted'' else ''not persisted'')) [])
     else if is_after
     then finish rt ''unknown'' (Some ''interrupted; device state matches the after side but confirm_start is missing'') []
     else finish rt ''unknown'' (Some ''interrupted; state matches neither side'') [])"
    by (intro unconfirmed_intros; simp)
  then show False
    using assms other unfolding recover_verdict_def bind_the_record unconfirmed_def returns_def if_not_P [OF other] by blast
qed

lemma confirm_seen_recover_state: "confirm_seen (recover_state rt ad acc plan)"
  unfolding confirm_seen_def
proof (intro allI impI)
  fix w r w'
  assume run: "recover_state rt ad acc plan w = (Inr r, w')" and confirmed: "op_result r = Some ''confirmed''"
  from run show "has_step ''confirm_start'' (w_record w) \<and> (\<exists>new. w_io w' = w_io w @ new \<and> Verified ''after'' True \<in> set new)"
    unfolding recover_state_def
  proof (cases rule: attempt_Inr_cases)
    case handled
    then show ?thesis using confirmed by (auto simp: finished_fields(2) dest!: finish_Inr)
  next
    case (passed ab w1)
    obtain is_after is_before where ab: "ab = (is_after, is_before)" by fastforce
    note read = both_sides_Inr [OF passed(1) [unfolded ab]]
    have verdict: "recover_verdict rt ad acc is_after is_before w1 = (Inr r, w')" using passed(2) ab by simp
    have quiet: "pres (emits no_change) (recover_verdict rt ad acc is_after is_before)"
      unfolding recover_verdict_def
      by (intro emits_intros emits_persist emits_finish books_instances pres_splits)
    obtain new where "w_io w' = w_io w1 @ new" using presD [OF quiet verdict] by (auto simp: emits_def)
    then show ?thesis using read recover_verdict_confirmed [OF verdict confirmed] by auto
  qed
qed

lemma same_steps_parts:
  "pres (same_field f) (safeguard_presence ad acc)" "pres (same_field f) (remove_remaining rt ad acc)"
  "pres (same_field f) (stored_plan rt r)" "pres (same_field f) (adapter_of rt platform)"
  unfolding safeguard_presence_def remove_remaining_def spec_of_def stored_plan_def adapter_of_def
  by (intro same_field_intros pres_splits)+

lemma quiet_recover_parts:
  "pres (emits no_change) (safeguard_presence ad acc)" "pres (emits no_change) (stored_plan rt r)"
  unfolding safeguard_presence_def stored_plan_def by (intro emits_intros pres_splits)+

lemma confirm_seen_recover_device: "confirm_seen (recover_device rt dev ad acc plan)"
proof -
  have removed: "confirm_seen (if \<not> removed
      then seq (step rt ''safeguard_removal_unverified'' None) (finish rt ''unknown'' (Some ''safeguard cleanup unverified'') [])
      else seq (step rt ''safeguard_removed'' None) (recover_state rt ad acc plan))" for removed
    by (intro confirm_seen_if confirm_seen_unconfirmed unconfirmed_seq unconfirmed_finish confirm_seen_step
        confirm_seen_recover_state) simp_all
  show ?thesis
    unfolding recover_device_def
    by (intro confirm_seen_silent(2) quiet_recover_parts same_steps_parts unconfirmed_finish confirm_seen_prod confirm_seen_if
        confirm_seen_silent(1) emits_removal removed confirm_seen_unconfirmed unconfirmed_bind unconfirmed_settle
        confirm_seen_recover_state) simp_all
qed

text \<open>(C4) Recovery closes every interrupted operation it returns with one of the five results, and it
  reports one as confirmed only when the journal shows that confirmation had begun
  (\<open>confirm_start\<close>) and a fresh snapshot matched the state after the change.\<close>

theorem recover_confirms_only_started:
  assumes "recover_one rt dev r w = (Inr r', w')"
  shows "op_status r' = ''finished'' \<and> op_result r' \<in> Some ` set RESULTS \<and>
    (op_result r' = Some ''confirmed'' \<longrightarrow> has_step ''confirm_start'' r \<and>
      (\<exists>new. w_io w' = w_io w @ new \<and> Verified ''after'' True \<in> set new))"
proof -
  let ?m = "if op_safeguard r = None
      then seq (step rt ''recovery_start'' None) (finish rt ''rejected'' (Some ''interrupted before any mutation'') [])
      else bind (stored_plan rt r) (\<lambda>plan.
        bind (adapter_of rt (pl_platform plan)) (\<lambda>ad.
        seq (step rt ''recovery_start'' None)
        (attempt (ext (rt_access_factory rt dev))
           (\<lambda>x. seq (step rt ''recovery_access_failed'' (Some (class_name x)))
                  (finish rt ''unknown'' (Some ''interrupted; device unreachable'') []))
           (\<lambda>acc. recover_device rt dev ad acc plan))))"
  have "confirm_seen ?m"
  proof (intro confirm_seen_if)
    show "confirm_seen (seq (step rt ''recovery_start'' None) (finish rt ''rejected'' (Some ''interrupted before any mutation'') []))"
      by (intro confirm_seen_unconfirmed unconfirmed_seq unconfirmed_finish) simp
  qed (intro confirm_seen_silent confirm_seen_step confirm_seen_recover_device quiet_recover_parts same_steps_parts
      emits_intros emits_spec same_field_intros unconfirmed_seq unconfirmed_finish; simp)
  moreover have "?m (w\<lparr>w_record := r\<rparr>) = (Inr r', w')"
    using assms unfolding recover_one_def seq_edit .
  ultimately have "op_result r' = Some ''confirmed'' \<longrightarrow> has_step ''confirm_start'' (w_record (w\<lparr>w_record := r\<rparr>)) \<and>
      (\<exists>new. w_io w' = w_io (w\<lparr>w_record := r\<rparr>) @ new \<and> Verified ''after'' True \<in> set new)"
    unfolding confirm_seen_def by blast
  moreover have "outcome RESULTS r'" using returnsD [OF recover_one_outcome assms] .
  ultimately show ?thesis by (simp add: outcome_def)
qed

end
