(* ===== verification/Admin_Run.thy ===== *)
theory Admin_Run
  imports Admin_Recovery
begin

text \<open>
  A concrete run: an adapter, an access and a runtime on which everything works, and an execution of
  the sample plan there that is confirmed. It shows that the hypotheses of the properties of the
  execution hold together.
\<close>

section \<open>The sample runtime\<close>

definition sample_access :: "real access" where
  "sample_access = \<lparr>ac_snapshot = ret ''config'', ac_query = (\<lambda>_. ret []), ac_check_query = (\<lambda>_. ret []),
     ac_login_prefix = (\<lambda>_. ret []), ac_apply = (\<lambda>_ _. ret 0), ac_generate_api_key = (\<lambda>_ _. ret []),
     ac_credential = \<lparr>cr_login = ''admin'', cr_kind = ''password'', cr_use = ''x''\<rparr>,
     ac_check_credential = \<lparr>cr_login = ''check'', cr_kind = ''password'', cr_use = ''y''\<rparr>, ac_read_seconds = (\<lambda>_. None),
     ac_set_read_seconds = (\<lambda>_ d. d)\<rparr>"

definition sample_adapter :: "real adapter" where
  "sample_adapter = \<lparr>ad_prompt_spec = (\<lambda>h. \<lparr>ps_anchor = h @ ''.'', ps_ends = [''# '', ''> ''], ps_continuation = None,
       ps_error = (\<lambda>_. None), ps_typed = None\<rparr>),
     ad_safeguard_label = (\<lambda>c. ''netops-sg-'' @ take 12 c), ad_hostname = (\<lambda>_ _. ret ''sw1''), ad_clock = (\<lambda>_. ret 63900000000),
     ad_accounts_check = (\<lambda>_ _ _. ret ''a''), ad_prechecks = (\<lambda>_ _ _ _. ret []), ad_plan_prechecks = (\<lambda>_ _ _ _. ret []),
     ad_ports = (\<lambda>_ _. ret None), ad_leftovers = (\<lambda>_. ret []),
     ad_install_safeguard = (\<lambda>_ r _ _ _. ret ([], \<lparr>sg_fire_at = ''2025-11-28 08:10:00'', sg_name = ''netops-sg''\<rparr>)),
     ad_remove_safeguard = (\<lambda>_ _ _. ret True), ad_remove_remaining = (\<lambda>_ _ _. ret True),
     ad_safeguard_absent = (\<lambda>_ _. ret True), ad_safeguard_disarmed = (\<lambda>_ _. ret True), ad_FIRING_OBSERVED = True,
     ad_safeguard_fired = (\<lambda>_ _. ret True), ad_revoke_token = None, ad_persist = (\<lambda>_ _. ret True),
     ad_observe = (\<lambda>_ _. ret (Some [(''tag'', ''7'')])), ad_foreign_sessions = (\<lambda>_ _. ret 0)\<rparr>"

definition sample_device :: device where
  "sample_device = \<lparr>dv_name = ''sw1'', dv_platform = ''exos'', dv_firmware = Some ''32.7.2.19'', dv_safeguard_seconds = 600,
     dv_confirm_margin_seconds = 60, dv_protected = [], dv_opt_in = [], dv_host_key_fingerprint = ''SHA256:x'',
     dv_address = ''192.0.2.1'', dv_accounts = [''admin'']\<rparr>"

definition sample_limits :: limits where
  "sample_limits = \<lparr>lm_changes_per_device_per_hour = 6, lm_changes_per_day = 40, lm_rejections_per_hour = 30,
     lm_plan_commands = 32, lm_journal_records = 20000\<rparr>"

definition sample_runtime :: "real runtime" where
  "sample_runtime = services.extend quiet_services
     \<lparr>rt_config = \<lparr>cg_limits = sample_limits, cg_devices = [(''sw1'', sample_device)]\<rparr>, rt_require_export = True,
      rt_adapters = [(''exos'', sample_adapter)], rt_access_factory = (\<lambda>_. ret sample_access),
      rt_notifier = None, rt_sleep = (\<lambda>_. ret ()), rt_target_lock = (\<lambda>_. ret ()), rt_audit_writable = ret (),
      rt_export_state = ret (''acknowledged'', []), rt_export_updated_at = ret None,
      rt_token_hex = (\<lambda>_. Pair (op_change_id sample_operation)), rt_fingerprint = (\<lambda>_. ''r''),
      rt_build_plan = (\<lambda>_ _ _ _ _ _ _. Inr sample_plan), rt_read_plan = Inr,
      rt_verify = (\<lambda>_ _ _. Inr \<lparr>vd_match = True, vd_object_matches = True, vd_rest_matches = True, vd_differences = []\<rparr>),
      rt_observed_state = (\<lambda>_. Inr), rt_snapshot_after = (\<lambda>t _. Inr t), rt_audited = (\<lambda>t _. Inr t), rt_baseline = (\<lambda>_ _. Inr []),
      rt_evaluate = (\<lambda>_ _ _ _. Inr ()), rt_check_policy = (\<lambda>_ _ _ _. Inr ()), rt_new_blocking = (\<lambda>_ _ _ _. Inr []),
      rt_audit_note = (\<lambda>_ _. []), rt_find_profile = (\<lambda>_ _ _. Inl (Rejected [])), rt_parse_request = Inr,
      rt_binding = (\<lambda>_ _ _. ''b'')\<rparr>"


definition stepped :: "string \<Rightarrow> string option \<Rightarrow> 'd world \<Rightarrow> 'd world" where
  "stepped name detail w = (let r = add_step name detail (w_record w) in
     w\<lparr>w_record := r, w_store := put_operation r (w_store w),
       w_io := w_io w @ [Saved r, Audited (EvStep (op_change_id r) (op_device r) name detail)]\<rparr>)"

section \<open>A confirmed run\<close>

lemma ext_ret [simp]: "ext (ret x) w = (Inr x, w)"
  by (simp add: ext_def ret_def)

lemma sample_fields [simp]:
  "v_disk sample_runtime = Pair Written" "v_time sample_runtime = Pair 1000" "v_monotonic sample_runtime = (\<lambda>t. (t, t + 1))"
  "v_audit sample_runtime = (\<lambda>_. ret ())" "rt_adapters sample_runtime = [(''exos'', sample_adapter)]"
  "rt_export_state sample_runtime = ret (''acknowledged'', [])" "rt_notifier sample_runtime = None"
  "rt_verify sample_runtime = (\<lambda>_ _ _. Inr \<lparr>vd_match = True, vd_object_matches = True, vd_rest_matches = True, vd_differences = []\<rparr>)"
  "rt_audited sample_runtime = (\<lambda>t _. Inr t)" "rt_evaluate sample_runtime = (\<lambda>_ _ _ _. Inr ())"
  "rt_check_policy sample_runtime = (\<lambda>_ _ _ _. Inr ())" "rt_new_blocking sample_runtime = (\<lambda>_ _ _ _. Inr [])"
  "rt_observed_state sample_runtime = (\<lambda>_. Inr)" "rt_read_plan sample_runtime = Inr"
  "rt_access_factory sample_runtime = (\<lambda>_. ret sample_access)"
  by (simp_all add: sample_runtime_def services.defs quiet_services_def)

lemma sample_save: "save_record sample_runtime w =
   (Inr (), w\<lparr>w_store := put_operation (w_record w) (w_store w), w_io := w_io w @ [Saved (w_record w)]\<rparr>)"
  by (simp add: save_record_def bind_the_record save_def write_atomic_def)

lemma sample_step: "step sample_runtime name detail w = (Inr (), stepped name detail w)"
  by (simp add: step_def sample_save edit_def audit_record_def trace_def stepped_def add_step_def seq_def
      the_record_def fetch_def bind_def modify_def Let_def)

lemma sample_finish: "\<not> blocks result reason \<Longrightarrow> finish sample_runtime result reason ds w =
   (let r = (w_record w)\<lparr>op_status := ''finished'', op_finished_at := Some 1000, op_result := Some result, op_reason := reason,
      op_differences := ds, op_audit_delivery := Some ''pending'', op_notification := Some ''not-configured''\<rparr>
    in (Inr r, w\<lparr>w_record := r, w_store := put_operation r (w_store w), w_io := w_io w @ [Saved r,
      Audited (EvResult (op_change_id r) (op_request_id r) (op_device r) result reason (length ds) ''not-configured'' ''pending''
        (map_option sg_fire_at (op_safeguard r)))]\<rparr>))"
  by (simp add: finish_def close_record_def publish_def seq_def bind_def edit_def modify_def ext_fun_def sample_save
      audit_record_def trace_def the_record_def fetch_def ret_def Let_def ext_def)

lemma stepped_fields [simp]:
  "op_safeguard (w_record (stepped n d w)) = op_safeguard (w_record w)" "op_plan (w_record (stepped n d w)) = op_plan (w_record w)"
  "op_accounts (w_record (stepped n d w)) = op_accounts (w_record w)" "op_kind (w_record (stepped n d w)) = op_kind (w_record w)"
  "op_change_id (w_record (stepped n d w)) = op_change_id (w_record w)"
  "op_steps (w_record (stepped n d w)) = op_steps (w_record w) @ [\<lparr>sp_step = n, sp_detail = d\<rparr>]"
  "w_ext (stepped n d w) = w_ext w"
  by (simp_all add: stepped_def add_step_def Let_def)

lemma sample_parts [simp]:
  "ad_clock sample_adapter = (\<lambda>_. ret 63900000000)" "ad_accounts_check sample_adapter = (\<lambda>_ _ _. ret ''a'')"
  "ad_install_safeguard sample_adapter = (\<lambda>_ r _ _ _. ret ([], \<lparr>sg_fire_at = ''2025-11-28 08:10:00'', sg_name = ''netops-sg''\<rparr>))"
  "ad_remove_safeguard sample_adapter = (\<lambda>_ _ _. ret True)" "ad_persist sample_adapter = (\<lambda>_ _. ret True)"
  "ad_safeguard_absent sample_adapter = (\<lambda>_ _. ret True)"
  "ad_observe sample_adapter = (\<lambda>_ _. ret (Some [(''tag'', ''7'')]))"
  "ac_apply sample_access = (\<lambda>_ _. ret 0)" "ac_snapshot sample_access = ret ''config''"
  "dv_confirm_margin_seconds sample_device = 60" "pl_after sample_plan = Some [(''tag'', ''7'')]" "pl_platform sample_plan = ''exos''"
  by (simp_all add: sample_adapter_def sample_access_def sample_device_def sample_plan_def)

lemma sample_fire_at [simp]: "read_stamp ''2025-11-28 08:10:00'' = Inr 63900000600"
  by (simp add: read_stamp_def year_field_def num_field_def day_field_def clock_fields_def char_then_def spaces_then_def
      is_digit_bits is_space_def int_of_def code_def datetime_def days_in_month_def is_leap_def MONTH_LENGTHS_def MONTH_STARTS_def
      ymd2ord_def days_before_year_def days_before_month_def DAY_SECONDS_def)

lemma sample_firing_time [simp]:
  "ext (bind (ret 63900000000) (\<lambda>now. lift_res (firing_time now (dv_safeguard_seconds sample_device)))) w =
     (Inr (stamp_text 63900000600), w)"
  by (simp add: bind_def ret_def lift_res_def firing_time_def sample_device_def DAY_SECONDS_def LAST_DAY_def ext_def)

abbreviation confirms :: "(real world, operation) act \<Rightarrow> real world \<Rightarrow> bool" where
  "confirms m w \<equiv> \<exists>r w'. m w = (Inr r, w') \<and> op_result r = Some ''confirmed''"

lemma sample_spec: "op_plan (w_record w) = sample_plan \<Longrightarrow>
    spec_of sample_runtime w = (Inr (ad_prompt_spec sample_adapter (op_hostname (w_record w))), w)"
  by (simp add: spec_of_def the_record_def fetch_def adapter_of_def bind_def ret_def)

lemma sample_verify: "verify sample_runtime plan snap side w =
    (Inr \<lparr>vd_match = True, vd_object_matches = True, vd_rest_matches = True, vd_differences = []\<rparr>,
     w\<lparr>w_io := w_io w @ [Verified side True]\<rparr>)"
  by (simp add: verify_def trace_def act_defs)

lemma sample_saved: "confirms (confirm_saved sample_runtime sample_access plan) w"
  by (simp add: confirm_saved_def the_record_def fetch_def attempt_def bind_def snapshot_def sample_verify sample_finish
      blocks_def BLOCKING_RESULTS_def Let_def)

lemma sample_confirm: "op_plan (w_record w) = sample_plan \<Longrightarrow> confirms (confirm sample_runtime sample_adapter sample_access plan due) w"
  using sample_saved
  by (simp add: confirm_def sample_step remove_safeguard_def the_record_def fetch_def sample_spec trace_def modify_def snapshot_def
      sample_verify persist_def seq_def bind_def attempt_def ret_def)

lemma sample_margin:
  "op_plan (w_record w) = sample_plan \<Longrightarrow> op_kind (w_record w) = ''change'' \<Longrightarrow>
   op_safeguard (w_record w) = Some \<lparr>sg_fire_at = ''2025-11-28 08:10:00'', sg_name = y\<rparr> \<Longrightarrow>
   confirms (confirm_margin sample_runtime sample_adapter sample_access plan sample_device due) w"
  using sample_confirm [of "w\<lparr>w_io := w_io w @ [Verified ''after'' True]\<rparr>"]
  by (simp add: confirm_margin_def remaining_time_def fire_at_of_def lift_res_def the_record_def fetch_def handle_def final_check_def snapshot_def
      sample_verify bind_def attempt_def ret_def)

lemma sample_postcheck:
  assumes "op_plan (w_record w) = sample_plan" and "op_kind (w_record w) = ''change''"
    and "op_safeguard (w_record w) = Some \<lparr>sg_fire_at = ''2025-11-28 08:10:00'', sg_name = y\<rparr>" and "op_accounts (w_record w) = ''a''"
  shows "confirms (postcheck sample_runtime sample_adapter sample_access sample_plan sample_device due) w"
proof -
  have identity: "confirms (check_identity sample_runtime sample_adapter sample_access sample_plan sample_device due) u"
    if "op_plan (w_record u) = sample_plan" and "op_kind (w_record u) = ''change''"
      and "op_safeguard (w_record u) = Some \<lparr>sg_fire_at = ''2025-11-28 08:10:00'', sg_name = y\<rparr>" for u
    using that sample_margin [of "stepped ''check_identity_passed'' None u"]
    by (simp add: check_identity_def observed_def attempt_def bind_def lift_res_def state_eq_def seq_def sample_step)
  have gate: "confirms (audit_gate sample_runtime sample_adapter sample_access sample_plan sample_device due snap) u"
    if "op_plan (w_record u) = sample_plan" and "op_kind (w_record u) = ''change''"
      and "op_safeguard (w_record u) = Some \<lparr>sg_fire_at = ''2025-11-28 08:10:00'', sg_name = y\<rparr>" for u snap
    using that identity
    by (simp add: audit_gate_def audit_after_def the_record_def fetch_def attempt_def bind_def lift_res_def seq_def sample_step)
  show ?thesis
    using assms gate
    by (simp add: postcheck_def accounts_after_def snapshot_def attempt_def bind_def the_record_def fetch_def ret_def
        sample_verify seq_def sample_step)
qed

lemma sample_confirmed:
  "confirms (execute sample_runtime sample_adapter sample_access sample_plan sample_device) quiet_world"
proof -
  have start: "op_plan (w_record quiet_world) = sample_plan" "op_accounts (w_record quiet_world) = ''a''"
    "op_kind (w_record quiet_world) = ''change''"
    by (simp_all add: quiet_world_def sample_operation_def)
  then show ?thesis
    using sample_postcheck
    by (simp add: execute_def sample_spec attempt_def bind_def edit_def seq_def modify_def sample_step after_install_def
        install_safeguard_def the_record_def fetch_def ret_def trace_def ext_fun_def Let_def sample_save apply_change_def)
qed

text \<open>An operation that was interrupted after its confirmation had begun is found changed and without a
  safeguard, and is recovered as confirmed.\<close>

definition interrupted_operation :: operation where
  "interrupted_operation = sample_operation\<lparr>op_safeguard := Some \<lparr>sg_fire_at = ''2025-11-28 08:10:00'', sg_name = ''netops-sg''\<rparr>,
     op_steps := [\<lparr>sp_step = ''confirm_start'', sp_detail = None\<rparr>]\<rparr>"

lemma interrupted_fields [simp]:
  "op_safeguard interrupted_operation = Some \<lparr>sg_fire_at = ''2025-11-28 08:10:00'', sg_name = ''netops-sg''\<rparr>"
  "op_plan interrupted_operation = sample_plan" "has_step ''confirm_start'' interrupted_operation"
  "op_steps interrupted_operation = [\<lparr>sp_step = ''confirm_start'', sp_detail = None\<rparr>]"
  by (simp_all add: interrupted_operation_def sample_operation_def has_step_def)

lemma sample_recovered: "confirms (recover_one sample_runtime sample_device interrupted_operation) quiet_world"
  by (simp add: recover_one_def recover_device_def recover_state_def recover_verdict_def safeguard_presence_def both_sides_def
      stored_plan_def adapter_of_def persist_def has_step_def sample_step sample_spec sample_verify snapshot_def edit_def
      modify_def the_record_def fetch_def seq_def bind_def attempt_def handle_def lift_res_def ret_def sample_finish
      blocks_def BLOCKING_RESULTS_def BLOCKING_REASONS_def SNAPSHOT_CATEGORIES_def Let_def)

section \<open>Witnesses\<close>

theorem execute_results_witness:
  "\<exists>r w'. execute sample_runtime sample_adapter sample_access sample_plan sample_device quiet_world = (Inr r, w')
     \<and> op_status r = ''finished'' \<and> op_result r \<in> Some ` set RESULTS"
proof -
  obtain r w' where run: "execute sample_runtime sample_adapter sample_access sample_plan sample_device quiet_world = (Inr r, w')"
    using sample_confirmed by blast
  from execute_results [OF run] run show ?thesis by blast
qed

theorem confirmed_only_after_protocol_witness:
  "\<exists>r w' checks. execute sample_runtime sample_adapter sample_access sample_plan sample_device quiet_world = (Inr r, w')
     \<and> protocol w' = [Installed True, Applied [''create vlan Lab tag 7''], Verified ''after'' True,
         Verified ''after'' True, Removed True, Verified ''after'' True] @ checks"
proof -
  obtain r w' where run: "execute sample_runtime sample_adapter sample_access sample_plan sample_device quiet_world = (Inr r, w')"
    and confirmed: "op_result r = Some ''confirmed''"
    using sample_confirmed by blast
  have "protocol quiet_world = []" by (simp add: protocol_def quiet_world_def)
  moreover have "pl_commands sample_plan = [''create vlan Lab tag 7'']" by (simp add: sample_plan_def)
  ultimately show ?thesis using confirmed_only_after_protocol [OF run confirmed] run by auto
qed

theorem recover_confirms_only_started_witness:
  "\<exists>r w' new. recover_one sample_runtime sample_device interrupted_operation quiet_world = (Inr r, w')
     \<and> op_result r = Some ''confirmed'' \<and> has_step ''confirm_start'' interrupted_operation
     \<and> w_io w' = w_io quiet_world @ new \<and> Verified ''after'' True \<in> set new"
proof -
  obtain r w' where run: "recover_one sample_runtime sample_device interrupted_operation quiet_world = (Inr r, w')"
    and confirmed: "op_result r = Some ''confirmed''"
    using sample_recovered by blast
  from recover_confirms_only_started [OF run] run confirmed show ?thesis by blast
qed

end
