(* ===== verification/Fortios_Config.thy ===== *)
theory Fortios_Config
  imports Netops_Base
begin

text \<open>
  The FortiOS configuration reader \<open>netops_core/fortios.py\<close> (tokens, quoted values over several
  lines, the block structure of \<open>config\<close>, \<open>edit\<close>, \<open>next\<close>, \<open>end\<close>) and the writer
  \<open>fortios_text\<close> of \<open>netops_admin/prediction.py\<close>.
\<close>

section \<open>Data\<close>

definition MAX_DEPTH :: nat where "MAX_DEPTH = 64"
definition VDOM_SECTION :: string where "VDOM_SECTION = ''vdom''"

datatype parse_error = ParseError string | TruncatedError string nat

record attr =
  a_values :: "string list"
  a_line :: nat
  a_unset :: bool

datatype node = Node
  (n_path: "string list") (n_line: nat) (n_attrs: "(string \<times> attr) list")
  (n_sub: "(string \<times> node) list") (n_entries: "(string \<times> node) list")
  (n_config_tokens: "string list")

definition attr_value :: "attr \<Rightarrow> string" where
  "attr_value a = join '' '' (a_values a)"

definition node_value :: "node \<Rightarrow> string \<Rightarrow> string option \<Rightarrow> string option" where
  "node_value n name dflt =
     (case map_of (n_attrs n) name of
        None \<Rightarrow> dflt
      | Some a \<Rightarrow> if a_unset a then dflt else Some (attr_value a))"

definition node_values :: "node \<Rightarrow> string \<Rightarrow> string list" where
  "node_values n name =
     (case map_of (n_attrs n) name of
        None \<Rightarrow> []
      | Some a \<Rightarrow> if a_unset a then [] else a_values a)"

definition line_of :: "node \<Rightarrow> string \<Rightarrow> nat option" where
  "line_of n name = map_option a_line (map_of (n_attrs n) name)"

definition node_section :: "node \<Rightarrow> string \<Rightarrow> node option" where
  "node_section n name = map_of (n_sub n) name"

section \<open>Tokens and lines\<close>

definition blank_char :: "char \<Rightarrow> bool" where
  "blank_char c \<longleftrightarrow> c = blank \<or> c = tab"

text \<open>The test of \<open>''\<close> as a word of its own: the second apostrophe follows, and then the end
  of the text or a blank.\<close>

fun empty_word :: "string \<Rightarrow> bool" where
  "empty_word [c] = (c = squote)"
| "empty_word (c # d # _) = (c = squote \<and> blank_char d)"
| "empty_word [] = False"

text \<open>The loop of \<open>tokenize\<close>: tokens so far, current word, \<open>in_quotes\<close>, \<open>escaped\<close>,
  \<open>quoted\<close>, \<open>skip\<close>.\<close>

fun tok_loop :: "string \<Rightarrow> string list \<Rightarrow> string \<Rightarrow> bool \<Rightarrow> bool \<Rightarrow> bool \<Rightarrow> bool \<Rightarrow> string list" where
  "tok_loop [] toks cur inq esc quoted skip =
     (if cur \<noteq> [] \<or> quoted then toks @ [cur] else toks)"
| "tok_loop (c # cs) toks cur inq esc quoted skip =
     (if skip then tok_loop cs toks cur inq esc quoted False
      else if esc then tok_loop cs toks (cur @ [c]) inq False quoted False
      else if c = backslash \<and> inq then tok_loop cs toks cur inq True quoted False
      else if \<not> inq \<and> cur = [] \<and> \<not> quoted \<and> c = squote \<and> empty_word cs
        then tok_loop cs toks cur inq esc True True
      else if c = dquote then tok_loop cs toks cur (\<not> inq) esc True False
      else if blank_char c \<and> \<not> inq then
        (if cur \<noteq> [] \<or> quoted then tok_loop cs (toks @ [cur]) [] inq esc False False
         else tok_loop cs toks cur inq esc quoted False)
      else tok_loop cs toks (cur @ [c]) inq esc quoted False)"

definition tokenize :: "string \<Rightarrow> string list" where
  "tokenize s = tok_loop s [] [] False False False False"

fun quote_state :: "string \<Rightarrow> bool \<times> bool \<Rightarrow> bool \<times> bool" where
  "quote_state [] st = st"
| "quote_state (c # cs) (inq, esc) =
     (if esc then quote_state cs (inq, False)
      else if c = backslash \<and> inq then quote_state cs (inq, True)
      else if c = dquote then quote_state cs (\<not> inq, esc)
      else quote_state cs (inq, esc))"

definition physical_lines :: "string \<Rightarrow> string list" where
  "physical_lines s =
     (let lines = split_on newline s;
          kept = (if last lines = [] then butlast lines else lines)
      in map (\<lambda>l. if l \<noteq> [] \<and> last l = creturn then butlast l else l) kept)"

text \<open>The generator \<open>logical_lines\<close>: the lines it yields, and the line number carried by the
  \<open>TruncatedError\<close> it raises at the end, if any. The buffer holds the start line, the text and
  the quote state.\<close>

fun logical_loop ::
  "nat \<Rightarrow> string list \<Rightarrow> (nat \<times> string \<times> (bool \<times> bool)) option \<Rightarrow> (nat \<times> string) list \<times> nat option"
where
  "logical_loop number [] None = ([], None)"
| "logical_loop number [] (Some (start, _, _)) = ([], Some start)"
| "logical_loop number (l # ls) buf =
     (let (start, buffer, state) =
        (case buf of
           None \<Rightarrow> (number, l, quote_state l (False, False))
         | Some (start, buffer, state) \<Rightarrow> (start, buffer @ newline # l, quote_state (newline # l) state))
      in if \<not> fst state
         then (let (out, e) = logical_loop (Suc number) ls None in ((start, buffer) # out, e))
         else logical_loop (Suc number) ls (Some (start, buffer, state)))"

definition logical_lines :: "string \<Rightarrow> (nat \<times> string) list \<times> nat option" where
  "logical_lines s = logical_loop 1 (physical_lines s) None"

section \<open>The block parser\<close>

text \<open>
  The stack of \<open>parse\<close> holds references to nodes of one tree. The model keeps each open node
  with the way it hangs on the node below it and writes it back when it is closed; a node is
  entered into its parent when it is opened, as in the source, so the order of the dictionaries
  is the same.
\<close>

datatype hook = AtRoot | AsSub string | AsEntry string

type_synonym frame = "node \<times> hook"

fun attach :: "hook \<Rightarrow> node \<Rightarrow> node \<Rightarrow> node" where
  "attach AtRoot child parent = parent"
| "attach (AsSub name) child (Node p l as ss es ct) = Node p l as (AList.update name child ss) es ct"
| "attach (AsEntry key) child (Node p l as ss es ct) = Node p l as ss (AList.update key child es) ct"

fun set_attr :: "string \<Rightarrow> attr \<Rightarrow> node \<Rightarrow> node" where
  "set_attr name a (Node p l as ss es ct) = Node p l (AList.update name a as) ss es ct"

definition pop :: "frame list \<Rightarrow> frame list" where
  "pop st = (case st of
     (child, h) # (parent, g) # rest \<Rightarrow> (attach h child parent, g) # rest
   | _ \<Rightarrow> st)"

definition open_config :: "nat \<Rightarrow> string list \<Rightarrow> frame list \<Rightarrow> frame list" where
  "open_config number args st = (case st of
     [] \<Rightarrow> []
   | (cur, h) # rest \<Rightarrow>
       (let name = join '' '' args in
        case map_of (n_sub cur) name of
          Some child \<Rightarrow> (child, AsSub name) # st
        | None \<Rightarrow>
            (let child = Node (n_path cur @ [name]) number [] [] [] args
             in (child, AsSub name) # (attach (AsSub name) child cur, h) # rest)))"

definition open_edit :: "nat \<Rightarrow> string list \<Rightarrow> frame list \<Rightarrow> frame list" where
  "open_edit number args st = (case st of
     [] \<Rightarrow> []
   | (cur, h) # rest \<Rightarrow>
       (let key = (case args of [] \<Rightarrow> [] | k # _ \<Rightarrow> k) in
        case map_of (n_entries cur) key of
          Some child \<Rightarrow> (child, AsEntry key) # st
        | None \<Rightarrow>
            (let child = Node (n_path cur @ [key]) number [] [] [] []
             in (child, AsEntry key) # (attach (AsEntry key) child cur, h) # rest)))"

definition assign_attr :: "string \<Rightarrow> attr \<Rightarrow> frame list \<Rightarrow> frame list" where
  "assign_attr name a st = (case st of [] \<Rightarrow> [] | (cur, h) # rest \<Rightarrow> (set_attr name a cur, h) # rest)"

text \<open>\<open>stack[1].path == ("vdom",)\<close> with a stack of three\<close>

definition closes_vdom_entry :: "frame list \<Rightarrow> bool" where
  "closes_vdom_entry st \<longleftrightarrow> length st = 3 \<and> n_path (fst (st ! 1)) = [VDOM_SECTION]"

definition line_message :: "nat \<Rightarrow> string \<Rightarrow> string" where
  "line_message number what = ''line '' @ show_nat number @ '': '' @ what"

definition parse_tokens :: "nat \<Rightarrow> string list \<Rightarrow> frame list \<Rightarrow> parse_error + frame list" where
  "parse_tokens number tokens st = (case tokens of
     [] \<Rightarrow> Inr st
   | command # args \<Rightarrow>
      (if (command = ''config'' \<or> command = ''edit'') \<and> length st > MAX_DEPTH
        then Inl (ParseError (line_message number (''blocks nest deeper than '' @ show_nat MAX_DEPTH @ '' levels'')))
       else if command = ''config'' then Inr (open_config number args st)
       else if command = ''edit'' then Inr (open_edit number args st)
       else if command = ''set'' then
        (case args of
           [] \<Rightarrow> Inl (ParseError (line_message number ''set without an attribute''))
         | name # vals \<Rightarrow> Inr (assign_attr name \<lparr>a_values = vals, a_line = number, a_unset = False\<rparr> st))
       else if command = ''unset'' then
        (case args of
           [] \<Rightarrow> Inl (ParseError (line_message number ''unset without an attribute''))
         | name # _ \<Rightarrow> Inr (assign_attr name \<lparr>a_values = [], a_line = number, a_unset = True\<rparr> st))
       else if command = ''next'' \<or> command = ''end'' then
        (if length st = 1 then Inl (ParseError (line_message number (command @ '' outside of a block'')))
         else if command = ''end'' \<and> closes_vdom_entry st then Inr (pop (pop st))
         else Inr (pop st))
       else Inr st))"

definition parse_line :: "nat \<Rightarrow> string \<Rightarrow> frame list \<Rightarrow> parse_error + frame list" where
  "parse_line number raw st =
     (let line = strip raw in
      if line = [] \<or> starts_with ''#'' line then Inr st
      else parse_tokens number (tokenize line) st)"

fun parse_loop :: "(nat \<times> string) list \<Rightarrow> frame list \<Rightarrow> parse_error + frame list" where
  "parse_loop [] st = Inr st"
| "parse_loop ((number, raw) # ls) st =
     (case parse_line number raw st of Inl e \<Rightarrow> Inl e | Inr st' \<Rightarrow> parse_loop ls st')"

definition root_frame :: frame where
  "root_frame = (Node [] 0 [] [] [] [], AtRoot)"

definition truncated :: "string \<Rightarrow> nat \<Rightarrow> parse_error" where
  "truncated what line = TruncatedError (what @ show_nat line) line"

definition parse :: "string \<Rightarrow> parse_error + node" where
  "parse s =
     (let (lines, cut) = logical_lines s in
      case parse_loop lines [root_frame] of
        Inl e \<Rightarrow> Inl e
      | Inr st \<Rightarrow>
          (case cut of
             Some start \<Rightarrow> Inl (truncated ''unterminated quoted value opened at line '' start)
           | None \<Rightarrow>
               (if length st \<noteq> 1
                then Inl (truncated ''unterminated block opened at line '' (n_line (fst (hd st))))
                else Inr (fst (hd st)))))"

section \<open>The writer\<close>

definition escape :: "string \<Rightarrow> string" where
  "escape s = replace_char dquote [backslash, dquote] (replace_char backslash [backslash, backslash] s)"

definition quote :: "string \<Rightarrow> string" where
  "quote s = [dquote] @ escape s @ [dquote]"

definition attr_line :: "string \<Rightarrow> attr \<Rightarrow> string" where
  "attr_line name a =
     (if a_unset a then ''unset '' @ name
      else (let vals = join '' '' (map quote (a_values a))
            in ''set '' @ name @ (if vals \<noteq> [] then '' '' @ vals else [])))"

definition attr_lines :: "string \<Rightarrow> (string \<times> attr) list \<Rightarrow> string list" where
  "attr_lines indent as = map (\<lambda>(name, a). indent @ attr_line name a) as"

fun fortios_text :: "string \<Rightarrow> node \<Rightarrow> string list"
and sub_text :: "string \<Rightarrow> (string \<times> node) list \<Rightarrow> string list"
and entry_text :: "string \<Rightarrow> (string \<times> node) list \<Rightarrow> string list"
where
  "fortios_text indent (Node p l as ss es ct) =
     attr_lines indent as @ sub_text indent ss @ entry_text indent es"
| "sub_text indent [] = []"
| "sub_text indent ((name, section) # ss) =
     [indent @ ''config '' @ name] @ fortios_text (indent @ ''    '') section @ [indent @ ''end'']
     @ sub_text indent ss"
| "entry_text indent [] = []"
| "entry_text indent ((name, entry) # es) =
     [indent @ ''edit '' @ quote name] @ fortios_text (indent @ ''    '') entry @ [indent @ ''next'']
     @ entry_text indent es"

section \<open>Texts and trees the writer and the reader agree on\<close>

text \<open>Words that stand for themselves outside quotes, and section names made of them.\<close>

definition plain_char :: "char \<Rightarrow> bool" where
  "plain_char c \<longleftrightarrow> \<not> is_space c \<and> c \<noteq> dquote \<and> c \<noteq> squote"

definition plain_word :: "string \<Rightarrow> bool" where
  "plain_word w \<longleftrightarrow> w \<noteq> [] \<and> list_all plain_char w"

definition section_name :: "string \<Rightarrow> bool" where
  "section_name name \<longleftrightarrow> list_all plain_word (split_on blank name)"

text \<open>A text that is one logical line: every line break in it is inside quotes, the quotes are
  closed at its end, and it holds no carriage return.\<close>

fun quoted_newlines :: "string \<Rightarrow> bool \<times> bool \<Rightarrow> bool" where
  "quoted_newlines [] st = True"
| "quoted_newlines (c # cs) st = ((c = newline \<longrightarrow> fst st) \<and> quoted_newlines cs (quote_state [c] st))"

definition closed_line :: "string \<Rightarrow> bool" where
  "closed_line l \<longleftrightarrow> quoted_newlines l (False, False) \<and> quote_state l (False, False) = (False, False)
     \<and> creturn \<notin> set l"

text \<open>Logical lines with the number of the physical line each starts at.\<close>

fun numbered :: "nat \<Rightarrow> string list \<Rightarrow> (nat \<times> string) list" where
  "numbered n [] = []"
| "numbered n (l # ls) = (n, l) # numbered (n + length (split_on newline l)) ls"

definition lines_text :: "string list \<Rightarrow> string" where
  "lines_text ls = concat (map (\<lambda>l. l @ [newline]) ls)"

text \<open>The trees the writer can write: plain attribute and section names, distinct keys, paths that
  say where a node hangs, no carriage return in a value, and no section directly under a top-level
  section \<open>vdom\<close> (there the reader closes two blocks with one \<open>end\<close>).\<close>

definition wf_attr :: "attr \<Rightarrow> bool" where
  "wf_attr a \<longleftrightarrow> (\<forall>v \<in> set (a_values a). creturn \<notin> set v) \<and> (a_unset a \<longrightarrow> a_values a = [])"

definition wf_attrs :: "(string \<times> attr) list \<Rightarrow> bool" where
  "wf_attrs as \<longleftrightarrow> wf_dict as \<and> (\<forall>(name, a) \<in> set as. plain_word name \<and> wf_attr a)"

fun wf_node :: "node \<Rightarrow> bool"
and wf_subs :: "string list \<Rightarrow> (string \<times> node) list \<Rightarrow> bool"
and wf_entries :: "string list \<Rightarrow> (string \<times> node) list \<Rightarrow> bool"
where
  "wf_node (Node p l as ss es ct) \<longleftrightarrow>
     wf_attrs as \<and> wf_dict ss \<and> wf_dict es \<and> wf_subs p ss \<and> wf_entries p es
     \<and> (p = [VDOM_SECTION] \<longrightarrow> ss = [])"
| "wf_subs p [] = True"
| "wf_subs p ((name, n) # ss) \<longleftrightarrow> section_name name \<and> n_path n = p @ [name] \<and> wf_node n \<and> wf_subs p ss"
| "wf_entries p [] = True"
| "wf_entries p ((key, n) # es) \<longleftrightarrow> creturn \<notin> set key \<and> n_path n = p @ [key] \<and> wf_node n \<and> wf_entries p es"

text \<open>Nesting depth, and a tree without line numbers and recorded \<open>config\<close> words.\<close>

fun height :: "node \<Rightarrow> nat" and heights :: "(string \<times> node) list \<Rightarrow> nat" where
  "height (Node p l as ss es ct) = max (heights ss) (heights es)"
| "heights [] = 0"
| "heights ((k, n) # ns) = max (Suc (height n)) (heights ns)"

fun erase :: "node \<Rightarrow> node" and erase_all :: "(string \<times> node) list \<Rightarrow> (string \<times> node) list" where
  "erase (Node p l as ss es ct) =
     Node p 0 (map (\<lambda>(name, a). (name, a\<lparr>a_line := 0\<rparr>)) as) (erase_all ss) (erase_all es) []"
| "erase_all [] = []"
| "erase_all ((k, n) # ns) = (k, erase n) # erase_all ns"

text \<open>The text of a whole configuration as \<open>snapshot_after\<close> writes it: a header line, then the lines
  of the tree.\<close>

definition config_text :: "string \<Rightarrow> node \<Rightarrow> string" where
  "config_text header t = header @ [newline] @ join [newline] (fortios_text [] t) @ [newline]"

definition sample_address :: node where
  "sample_address = Node [] 0 [] [(''firewall address'', Node [''firewall address''] 0 [] []
     [(''web \"1\"'', Node [''firewall address'', ''web \"1\"''] 0
        [(''subnet'', \<lparr>a_values = [''10.0.0.0'', ''255.255.255.0''], a_line = 0, a_unset = False\<rparr>),
         (''comment'', \<lparr>a_values = [''end next''], a_line = 0, a_unset = False\<rparr>)] [] [] [])] [])] [] []"

section \<open>Tokens of written lines\<close>

lemma plain_char_not_blank: "plain_char c \<Longrightarrow> \<not> blank_char c \<and> c \<noteq> dquote \<and> c \<noteq> squote \<and> c \<noteq> newline \<and> c \<noteq> creturn"
  by (auto simp: plain_char_def blank_char_def is_space_def)

lemma tok_plain:
  "list_all plain_char w \<Longrightarrow>
   tok_loop (w @ rest) toks cur False False q False = tok_loop rest toks (cur @ w) False False q False"
proof (induction w arbitrary: cur)
  case (Cons c w)
  then have "plain_char c" and IH: "\<And>cur. tok_loop (w @ rest) toks cur False False q False = tok_loop rest toks (cur @ w) False False q False"
    by auto
  then show ?case using plain_char_not_blank [of c] by simp
qed simp

lemma escape_simps [simp]:
  "escape [] = []"
  "escape (c # s) = (if c = backslash then [backslash, backslash] else if c = dquote then [backslash, dquote] else [c]) @ escape s"
  by (auto simp: escape_def replace_char_def)

lemma tok_escape:
  "tok_loop (escape v @ rest) toks cur True False q False = tok_loop rest toks (cur @ v) True False q False"
  by (induction v arbitrary: cur) auto

lemma tok_quote:
  "tok_loop (quote v @ rest) toks [] False False False False = tok_loop rest toks v False False True False"
  by (simp add: quote_def tok_escape)

lemma tok_quotes:
  "tok_loop (join '' '' (map quote vs)) toks [] False False False False = toks @ vs"
proof (induction vs arbitrary: toks)
  case (Cons v vs)
  show ?case
  proof (cases "vs = []")
    case True
    then show ?thesis using tok_quote [of v "[]" toks] by simp
  next
    case False
    then show ?thesis using Cons.IH [of "toks @ [v]"]
      by (simp add: join_Cons tok_quote blank_char_def)
  qed
qed simp

lemma tok_word_blank:
  "plain_word w \<Longrightarrow>
   tok_loop (w @ blank # rest) toks [] False False False False = tok_loop rest (toks @ [w]) [] False False False False"
  by (simp add: plain_word_def tok_plain blank_char_def)

lemma tok_word_end:
  "plain_word w \<Longrightarrow> tok_loop w toks [] False False False False = toks @ [w]"
  using tok_plain [of w "[]" toks "[]" False] by (simp add: plain_word_def)

lemma tok_words:
  "ws \<noteq> [] \<Longrightarrow> list_all plain_word ws \<Longrightarrow>
   tok_loop (join '' '' ws) toks [] False False False False = toks @ ws"
proof (induction ws arbitrary: toks)
  case (Cons w ws)
  show ?case
  proof (cases "ws = []")
    case True
    with Cons.prems show ?thesis by (simp add: tok_word_end)
  next
    case False
    with Cons.prems Cons.IH [of "toks @ [w]"] show ?thesis
      by (simp add: join_Cons tok_word_blank)
  qed
qed simp

lemma tokenize_word:
  "plain_word w \<Longrightarrow> tokenize (w @ blank # rest) = tok_loop rest [w] [] False False False False"
  by (simp add: tokenize_def tok_word_blank)

lemma keyword_plain:
  "plain_word ''set''" "plain_word ''unset''" "plain_word ''config''" "plain_word ''edit''"
  "plain_word ''next''" "plain_word ''end''" "plain_word ''delete''"
  by (simp_all add: plain_word_def plain_char_def is_space_def)

lemma quotes_Nil: "join '' '' (map quote vs) = [] \<longleftrightarrow> vs = []"
  by (cases vs) (auto simp: join_Cons quote_def)

lemma tokenize_attr_line:
  assumes "plain_word name"
  shows "tokenize (attr_line name a) =
    (if a_unset a then [''unset'', name] else ''set'' # name # a_values a)"
proof -
  have u: "tokenize (''unset'' @ blank # name) = [''unset'', name]"
    using assms by (simp only: tokenize_word keyword_plain tok_word_end) simp
  have s0: "tokenize (''set'' @ blank # name) = [''set'', name]"
    using assms by (simp only: tokenize_word keyword_plain tok_word_end) simp
  have s: "tokenize (''set'' @ blank # (name @ blank # join '' '' (map quote vs))) = ''set'' # name # vs" for vs
    using assms by (simp only: tokenize_word keyword_plain tok_word_blank tok_quotes) simp
  show ?thesis
    using u s0 s [of "a_values a"] by (auto simp: attr_line_def Let_def quotes_Nil)
qed

lemma tokenize_config_line:
  "section_name name \<Longrightarrow> tokenize (''config '' @ name) = ''config'' # split_on blank name"
  using tok_words [of "split_on blank name" "[''config'']"] tokenize_word [OF keyword_plain(3), of name]
  by (simp add: section_name_def)

lemma tokenize_edit_line: "tokenize (''edit '' @ quote name) = [''edit'', name]"
  using tok_quotes [of "[name]" "[''edit'']"] tokenize_word [OF keyword_plain(4), of "quote name"]
  by simp

lemma tokenize_close [simp]: "tokenize ''next'' = [''next'']" "tokenize ''end'' = [''end'']"
  by (simp_all add: tokenize_def blank_char_def)

section \<open>Lines of written text\<close>

lemma quote_state_append: "quote_state (xs @ ys) st = quote_state ys (quote_state xs st)"
  by (induction xs st rule: quote_state.induct) auto

lemma quote_state_Cons: "quote_state (c # cs) st = quote_state cs (quote_state [c] st)"
  using quote_state_append [of "[c]" cs st] by simp

lemma quoted_newlines_append:
  "quoted_newlines (xs @ ys) st \<longleftrightarrow> quoted_newlines xs st \<and> quoted_newlines ys (quote_state xs st)"
proof (induction xs arbitrary: st)
  case (Cons c xs)
  then show ?case by (simp add: quote_state_Cons [of c xs])
qed simp

lemma logical_loop_rest:
  assumes "ps \<noteq> []" and "quoted_newlines (newline # join [newline] ps) st"
    and "\<not> fst (quote_state (newline # join [newline] ps) st)"
  shows "logical_loop n (ps @ rest) (Some (start, b, st)) =
    (let (out, e) = logical_loop (n + length ps) rest None
     in ((start, b @ newline # join [newline] ps) # out, e))"
  using assms
proof (induction ps arbitrary: n b st)
  case (Cons p ps)
  show ?case
  proof (cases "ps = []")
    case True
    with Cons.prems show ?thesis by (simp add: Let_def)
  next
    case False
    let ?st = "quote_state (newline # p) st"
    have split: "newline # join [newline] (p # ps) = (newline # p) @ (newline # join [newline] ps)"
      using False by (simp add: join_Cons)
    have q: "quoted_newlines (newline # join [newline] ps) ?st"
      and e: "\<not> fst (quote_state (newline # join [newline] ps) ?st)"
      using Cons.prems unfolding split quoted_newlines_append quote_state_append by blast+
    from q have "fst ?st" by simp
    then show ?thesis
      using Cons.IH [OF False q e, of "Suc n" "b @ newline # p"] False
      by (simp add: join_Cons)
  qed
qed simp

lemma logical_loop_line:
  assumes "closed_line l"
  shows "logical_loop n (split_on newline l @ rest) None =
    (let (out, e) = logical_loop (n + length (split_on newline l)) rest None in ((n, l) # out, e))"
proof (cases "split_on newline l")
  case (Cons p ps)
  have l: "l = join [newline] (p # ps)" using join_split_on [of newline l] Cons by simp
  show ?thesis
  proof (cases "ps = []")
    case True
    with l assms Cons show ?thesis by (simp add: closed_line_def)
  next
    case False
    let ?st = "quote_state p (False, False)"
    have "l = p @ (newline # join [newline] ps)" using l False by (simp add: join_Cons)
    with assms have q: "quoted_newlines (newline # join [newline] ps) ?st"
      and e: "\<not> fst (quote_state (newline # join [newline] ps) ?st)"
      by (auto simp: closed_line_def quoted_newlines_append quote_state_append)
    from q have "fst ?st" by simp
    then show ?thesis
      using logical_loop_rest [OF False q e, of "Suc n" rest n p] False l Cons
      by (simp add: join_Cons)
  qed
qed simp

lemma snd_numbered [simp]: "map snd (numbered n ls) = ls"
  by (induction ls arbitrary: n) auto

lemma split_on_lines_text:
  "split_on newline (lines_text ls) = concat (map (split_on newline) ls) @ [[]]"
  by (induction ls) (simp_all add: lines_text_def split_on_append)

lemma physical_lines_text:
  assumes "\<forall>l \<in> set ls. creturn \<notin> set l"
  shows "physical_lines (lines_text ls) = concat (map (split_on newline) ls)"
proof -
  have "\<not> (p \<noteq> [] \<and> last p = creturn)" if "p \<in> set (concat (map (split_on newline) ls))" for p
  proof -
    from that obtain l where "l \<in> set ls" and "p \<in> set (split_on newline l)" by auto
    then have "creturn \<notin> set p" using assms split_on_set by blast
    then show ?thesis using last_in_set by metis
  qed
  then have "map (\<lambda>l. if l \<noteq> [] \<and> last l = creturn then butlast l else l)
      (concat (map (split_on newline) ls)) = concat (map (split_on newline) ls)"
    by (intro map_idI) metis
  then show ?thesis
    by (simp add: physical_lines_def split_on_lines_text Let_def)
qed

lemma logical_lines_text:
  assumes "\<forall>l \<in> set ls. closed_line l"
  shows "logical_lines (lines_text ls) = (numbered 1 ls, None)"
proof -
  have "logical_loop n (concat (map (split_on newline) ls)) None = (numbered n ls, None)" for n
    using assms
  proof (induction ls arbitrary: n)
    case (Cons l ls)
    then show ?case using logical_loop_line [of l n "concat (map (split_on newline) ls)"] by simp
  qed simp
  then show ?thesis
    using assms by (simp add: logical_lines_def physical_lines_text closed_line_def)
qed

lemma closed_parts:
  "quoted_newlines (escape v) (True, False)" "quote_state (escape v) (True, False) = (True, False)"
  by (induction v) auto

lemma closed_quote:
  "creturn \<notin> set v \<Longrightarrow> closed_line (quote v)"
proof -
  assume "creturn \<notin> set v"
  then have "creturn \<notin> set (escape v)" by (induction v) auto
  then show ?thesis
    by (simp add: closed_line_def quote_def quoted_newlines_append quote_state_append closed_parts)
qed

lemma closed_append: "closed_line xs \<Longrightarrow> closed_line ys \<Longrightarrow> closed_line (xs @ ys)"
  by (simp add: closed_line_def quoted_newlines_append quote_state_append)

lemma closed_free:
  "newline \<notin> set w \<Longrightarrow> dquote \<notin> set w \<Longrightarrow> creturn \<notin> set w \<Longrightarrow> closed_line w"
  by (induction w) (auto simp: closed_line_def)

lemma closed_plain: "plain_word w \<Longrightarrow> closed_line w"
  by (rule closed_free) (auto simp: plain_word_def list_all_iff dest: plain_char_not_blank)

lemma closed_blanks: "set indent \<subseteq> {blank} \<Longrightarrow> closed_line indent"
  by (rule closed_free) auto

lemma closed_section: "section_name name \<Longrightarrow> closed_line name"
proof -
  assume sn: "section_name name"
  have "closed_line (join [blank] ws)" if "list_all plain_word ws" for ws
    using that
  proof (induction ws)
    case (Cons w ws)
    then show ?case using closed_plain [of w] closed_blanks [of "[blank]"]
      by (auto simp: join_Cons intro!: closed_append) (metis closed_append append_Cons append_Nil)
  qed (simp add: closed_line_def)
  from this [of "split_on blank name"] sn show ?thesis by (simp add: section_name_def)
qed

lemma closed_quotes: "\<forall>v \<in> set vs. creturn \<notin> set v \<Longrightarrow> closed_line (join '' '' (map quote vs))"
proof (induction vs)
  case (Cons v vs)
  then show ?case using closed_append [OF closed_blanks [of "'' ''"], of "join '' '' (map quote vs)"]
    by (auto simp: join_Cons intro!: closed_append closed_quote)
qed (simp add: closed_line_def)

section \<open>Reading back written trees\<close>

lemma erase_all_append [simp]: "erase_all (xs @ ys) = erase_all xs @ erase_all ys"
  by (induction xs) auto

lemma erase_path [simp]: "n_path (erase n) = n_path n"
  by (cases n) simp

lemma keys_erase_all: "keys (erase_all ns) = keys ns"
proof (induction ns)
  case (Cons kn ns)
  then show ?case by (cases kn) (simp add: keys_def)
qed simp

lemma parse_loop_append:
  "parse_loop (xs @ ys) st = (case parse_loop xs st of Inl e \<Rightarrow> Inl e | Inr st' \<Rightarrow> parse_loop ys st')"
  by (induction xs st rule: parse_loop.induct) (auto split: sum.splits)

lemma parse_line_indent:
  assumes "set indent \<subseteq> {blank}" and "l \<noteq> []" and "\<not> is_space (hd l)" and "hd l \<noteq> CHR ''#''" and "\<not> is_space (last l)"
  shows "parse_line number (indent @ l) st = parse_tokens number (tokenize l) st"
proof -
  have "strip (indent @ l) = l"
    using assms by (intro strip_indent) auto
  with assms show ?thesis
    by (cases l) (simp_all add: parse_line_def starts_with_def)
qed

lemma space_chars [simp]: "\<not> is_space CHR ''s''" "\<not> is_space CHR ''u''" "\<not> is_space CHR ''c''" "\<not> is_space CHR ''e''"
   "\<not> is_space CHR ''n''" "\<not> is_space CHR ''t''" "\<not> is_space CHR ''d''" "\<not> is_space dquote"
  by (simp_all add: is_space_def)

lemma quote_ends [simp]: "last (quote v) = dquote" "hd (quote v) = dquote" "quote v \<noteq> []"
  by (simp_all add: quote_def)

lemma last_quotes: "vs \<noteq> [] \<Longrightarrow> last (join '' '' (map quote vs)) = dquote"
proof (induction vs)
  case (Cons v vs)
  then show ?case using quotes_Nil [of vs]
    by (cases "vs = []") (simp_all add: join_Cons)
qed simp

lemma plain_word_last: "plain_word w \<Longrightarrow> w \<noteq> [] \<and> \<not> is_space (last w)"
  by (auto simp: plain_word_def plain_char_def list_all_iff)

lemma last_attr_line: "plain_word name \<Longrightarrow> \<not> is_space (last (attr_line name a))"
  using plain_word_last [of name] last_quotes [of "a_values a"]
  by (auto simp: attr_line_def Let_def quotes_Nil)

lemma hd_attr_line: "attr_line name a \<noteq> []" "hd (attr_line name a) \<in> {CHR ''s'', CHR ''u''}"
  by (auto simp: attr_line_def Let_def)

lemma parse_attr_line:
  assumes "set indent \<subseteq> {blank}" and "plain_word name" and "wf_attr a"
  shows "parse_line number (indent @ attr_line name a) st =
    Inr (assign_attr name (a\<lparr>a_line := number\<rparr>) st)"
proof -
  have "parse_line number (indent @ attr_line name a) st = parse_tokens number (tokenize (attr_line name a)) st"
    using assms hd_attr_line [of name a] last_attr_line [of name a] by (intro parse_line_indent) auto
  then show ?thesis
    using assms by (cases a) (auto simp: tokenize_attr_line parse_tokens_def wf_attr_def)
qed

text \<open>Lines that each assign one attribute, read into an open node that has none of them.\<close>

lemma parse_assigns:
  assumes "list_all2 (\<lambda>l (name, a). \<forall>k st. parse_line k l st = Inr (assign_attr name (a\<lparr>a_line := k\<rparr>) st)) (map snd nls) as"
    and "wf_dict as" and "set (keys as0) \<inter> set (keys as) = {}"
  shows "\<exists>as'. parse_loop nls ((Node p l as0 ss es ct, h) # rest) = Inr ((Node p l (as0 @ as') ss es ct, h) # rest)
     \<and> map (\<lambda>(name, a). (name, a\<lparr>a_line := 0\<rparr>)) as' = map (\<lambda>(name, a). (name, a\<lparr>a_line := 0\<rparr>)) as"
  using assms
proof (induction as arbitrary: nls as0 rule: list.induct)
  case Nil
  then have "nls = []" by simp
  then show ?case by simp
next
  case (Cons kv as)
  obtain name a where kv: "kv = (name, a)" by fastforce
  from Cons.prems(1) kv obtain number line nls' where nls: "nls = (number, line) # nls'"
    and line: "\<And>k st. parse_line k line st = Inr (assign_attr name (a\<lparr>a_line := k\<rparr>) st)"
    and nls': "list_all2 (\<lambda>l (name, a). \<forall>k st. parse_line k l st = Inr (assign_attr name (a\<lparr>a_line := k\<rparr>) st)) (map snd nls') as"
    by (auto simp: list_all2_Cons2)
  have wf: "wf_dict as" and fresh: "name \<notin> set (keys as0)" "name \<notin> set (keys as)"
    using Cons.prems kv by (auto simp: wf_dict_def)
  let ?a = "a\<lparr>a_line := number\<rparr>"
  have dis: "set (keys (as0 @ [(name, ?a)])) \<inter> set (keys as) = {}"
    using Cons.prems(3) kv fresh by auto
  from Cons.IH [OF nls' wf dis] obtain as' where
    IH: "parse_loop nls' ((Node p l ((as0 @ [(name, ?a)])) ss es ct, h) # rest) =
        Inr ((Node p l ((as0 @ [(name, ?a)]) @ as') ss es ct, h) # rest)"
      "map (\<lambda>(name, a). (name, a\<lparr>a_line := 0\<rparr>)) as' = map (\<lambda>(name, a). (name, a\<lparr>a_line := 0\<rparr>)) as"
    by blast
  have "parse_loop nls ((Node p l as0 ss es ct, h) # rest) =
      Inr ((Node p l (as0 @ ((name, ?a) # as')) ss es ct, h) # rest)"
    using IH(1) line fresh by (simp add: nls assign_attr_def update_fresh)
  with IH(2) kv show ?case by (intro exI [of _ "(name, ?a) # as'"]) simp
qed

lemma parse_attr_lines:
  assumes "set indent \<subseteq> {blank}" and "wf_attrs as" and "map snd nls = attr_lines indent as"
    and "set (keys as0) \<inter> set (keys as) = {}"
  shows "\<exists>as'. parse_loop nls ((Node p l as0 ss es ct, h) # rest) = Inr ((Node p l (as0 @ as') ss es ct, h) # rest)
     \<and> map (\<lambda>(name, a). (name, a\<lparr>a_line := 0\<rparr>)) as' = map (\<lambda>(name, a). (name, a\<lparr>a_line := 0\<rparr>)) as"
proof (rule parse_assigns)
  show "list_all2 (\<lambda>l (name, a). \<forall>k st. parse_line k l st = Inr (assign_attr name (a\<lparr>a_line := k\<rparr>) st)) (map snd nls) as"
    using assms(2) parse_attr_line [OF assms(1)]
    by (auto simp: assms(3) attr_lines_def list_all2_map1 list_all2_same wf_attrs_def)
  show "wf_dict as" using assms(2) by (simp add: wf_attrs_def)
qed (rule assms(4))

lemma section_last:
  assumes "section_name name"
  shows "name \<noteq> []" and "\<not> is_space (last name)"
proof -
  have "split_on blank name \<noteq> []" by simp
  then obtain ws w where ws: "split_on blank name = ws @ [w]" by (meson rev_exhaust)
  with assms have "plain_word w" by (simp add: section_name_def)
  moreover have "name = join [blank] (ws @ [w])" using join_split_on [of blank name] ws by simp
  then have "\<exists>pre. name = pre @ w" by (induction ws arbitrary: name) (auto simp: join_Cons)
  ultimately show "name \<noteq> []" and "\<not> is_space (last name)"
    using plain_word_last [of w] by (auto simp: plain_word_def)
qed

lemma parse_config_line:
  assumes "set indent \<subseteq> {blank}" and "section_name name" and "length st \<le> MAX_DEPTH"
  shows "parse_line number (indent @ ''config '' @ name) st = Inr (open_config number (split_on blank name) st)"
proof -
  have "parse_line number (indent @ ''config '' @ name) st = parse_tokens number (tokenize (''config '' @ name)) st"
    using assms(1) section_last [OF assms(2)] by (intro parse_line_indent) auto
  with assms show ?thesis
    by (simp only: tokenize_config_line) (simp add: parse_tokens_def)
qed

lemma parse_edit_line:
  assumes "set indent \<subseteq> {blank}" and "length st \<le> MAX_DEPTH"
  shows "parse_line number (indent @ ''edit '' @ quote name) st = Inr (open_edit number [name] st)"
proof -
  have "parse_line number (indent @ ''edit '' @ quote name) st = parse_tokens number (tokenize (''edit '' @ quote name)) st"
    using assms(1) by (intro parse_line_indent) auto
  with assms show ?thesis
    by (simp only: tokenize_edit_line) (simp add: parse_tokens_def)
qed

lemma parse_next_line:
  assumes "set indent \<subseteq> {blank}" and "length st \<noteq> 1"
  shows "parse_line number (indent @ ''next'') st = Inr (pop st)"
proof -
  have "parse_line number (indent @ ''next'') st = parse_tokens number (tokenize ''next'') st"
    using assms(1) by (intro parse_line_indent) auto
  with assms show ?thesis by (simp add: parse_tokens_def)
qed

lemma parse_end_line:
  assumes "set indent \<subseteq> {blank}" and "length st \<noteq> 1" and "\<not> closes_vdom_entry st"
  shows "parse_line number (indent @ ''end'') st = Inr (pop st)"
proof -
  have "parse_line number (indent @ ''end'') st = parse_tokens number (tokenize ''end'') st"
    using assms(1) by (intro parse_line_indent) auto
  with assms show ?thesis by (simp add: parse_tokens_def)
qed

lemma blanks_indent: "set indent \<subseteq> {blank} \<Longrightarrow> set (indent @ ''    '') \<subseteq> {blank}"
  by auto

text \<open>One section: the opening line, the body read into the new node, the closing line.\<close>

lemma read_section:
  assumes indent: "set indent \<subseteq> {blank}" and name: "section_name name" and path: "n_path sect = p @ [name]"
    and depth: "Suc (length rest) \<le> MAX_DEPTH" and fresh: "name \<notin> set (keys ss0)" and vdom: "p \<noteq> [VDOM_SECTION]"
    and nls: "map snd nls = [indent @ ''config '' @ name] @ body @ [indent @ ''end'']"
    and body: "\<And>n2 k st. map snd n2 = body \<Longrightarrow> length st = Suc (length rest) \<Longrightarrow>
      \<exists>n'. parse_loop n2 ((Node (n_path sect) k [] [] [] (split_on blank name), AsSub name) # st) = Inr ((n', AsSub name) # st)
        \<and> erase n' = erase sect"
  shows "\<exists>n'. parse_loop nls ((Node p l as ss0 es ct, h) # rest) =
      Inr ((Node p l as (ss0 @ [(name, n')]) es ct, h) # rest) \<and> erase n' = erase sect"
proof -
  from nls obtain k1 n2 k4 where eq: "nls = (k1, indent @ ''config '' @ name) # n2 @ [(k4, indent @ ''end'')]"
    and n2: "map snd n2 = body"
    by (auto simp: map_eq_append_conv map_eq_Cons_conv)
  let ?new = "Node (n_path sect) k1 [] [] [] (split_on blank name)"
  let ?below = "(Node p l as (ss0 @ [(name, ?new)]) es ct, h) # rest"
  have o: "parse_line k1 (indent @ ''config '' @ name) ((Node p l as ss0 es ct, h) # rest) = Inr ((?new, AsSub name) # ?below)"
    using parse_config_line [OF indent name] depth fresh path
    by (simp add: open_config_def map_of_fresh update_fresh Let_def)
  obtain n' where r: "parse_loop n2 ((?new, AsSub name) # ?below) = Inr ((n', AsSub name) # ?below)" "erase n' = erase sect"
    using body [OF n2, of ?below k1] by auto
  have "\<not> closes_vdom_entry ((n', AsSub name) # ?below)"
    using vdom by (auto simp: closes_vdom_entry_def)
  then have "parse_line k4 (indent @ ''end'') ((n', AsSub name) # ?below) =
      Inr ((Node p l as (ss0 @ [(name, n')]) es ct, h) # rest)"
    using parse_end_line [OF indent] fresh by (simp add: pop_def update_last)
  with o r show ?thesis by (auto simp: eq parse_loop_append)
qed

lemma read_entry_by:
  assumes start: "\<And>k st. length st \<le> MAX_DEPTH \<Longrightarrow> parse_line k first st = Inr (open_edit k [key] st)"
    and indent: "set indent \<subseteq> {blank}" and path: "n_path ent = p @ [key]"
    and depth: "Suc (length rest) \<le> MAX_DEPTH" and fresh: "key \<notin> set (keys es0)"
    and nls: "map snd nls = [first] @ body @ [indent @ ''next'']"
    and body: "\<And>n2 k st. map snd n2 = body \<Longrightarrow> length st = Suc (length rest) \<Longrightarrow>
      \<exists>n'. parse_loop n2 ((Node (n_path ent) k [] [] [] [], AsEntry key) # st) = Inr ((n', AsEntry key) # st)
        \<and> erase n' = erase ent"
  shows "\<exists>n'. parse_loop nls ((Node p l as ss es0 ct, h) # rest) =
      Inr ((Node p l as ss (es0 @ [(key, n')]) ct, h) # rest) \<and> erase n' = erase ent"
proof -
  from nls obtain k1 n2 k4 where eq: "nls = (k1, first) # n2 @ [(k4, indent @ ''next'')]"
    and n2: "map snd n2 = body"
    by (auto simp: map_eq_append_conv map_eq_Cons_conv)
  let ?new = "Node (n_path ent) k1 [] [] [] []"
  let ?below = "(Node p l as ss (es0 @ [(key, ?new)]) ct, h) # rest"
  have o: "parse_line k1 first ((Node p l as ss es0 ct, h) # rest) = Inr ((?new, AsEntry key) # ?below)"
    using start depth fresh path
    by (simp add: open_edit_def map_of_fresh update_fresh Let_def)
  obtain n' where r: "parse_loop n2 ((?new, AsEntry key) # ?below) = Inr ((n', AsEntry key) # ?below)" "erase n' = erase ent"
    using body [OF n2, of ?below k1] by auto
  have "parse_line k4 (indent @ ''next'') ((n', AsEntry key) # ?below) =
      Inr ((Node p l as ss (es0 @ [(key, n')]) ct, h) # rest)"
    using parse_next_line [OF indent] fresh by (simp add: pop_def update_last)
  with o r show ?thesis by (auto simp: eq parse_loop_append)
qed

lemmas read_entry = read_entry_by [OF parse_edit_line]

text \<open>Reading the text of a node into an empty open node gives the node, up to line numbers; reading
  the text of a list of sections or entries appends them to the open node.\<close>

lemma read_written:
  shows "\<lbrakk>wf_node n; set indent \<subseteq> {blank}; map snd nls = fortios_text indent n;
      Suc (length rest) + height n \<le> Suc MAX_DEPTH\<rbrakk>
    \<Longrightarrow> \<exists>n'. parse_loop nls ((Node (n_path n) l [] [] [] ct, h) # rest) = Inr ((n', h) # rest) \<and> erase n' = erase n"
    and "\<lbrakk>wf_subs p ss; wf_dict ss; set indent \<subseteq> {blank}; map snd nls = sub_text indent ss;
      Suc (length rest) + heights ss \<le> Suc MAX_DEPTH; p = [VDOM_SECTION] \<longrightarrow> ss = [];
      set (keys ss0) \<inter> set (keys ss) = {}\<rbrakk>
    \<Longrightarrow> \<exists>ss'. parse_loop nls ((Node p l as ss0 es ct, h) # rest) = Inr ((Node p l as (ss0 @ ss') es ct, h) # rest)
          \<and> erase_all ss' = erase_all ss"
    and "\<lbrakk>wf_entries p es; wf_dict es; set indent \<subseteq> {blank}; map snd nls = entry_text indent es;
      Suc (length rest) + heights es \<le> Suc MAX_DEPTH; set (keys es0) \<inter> set (keys es) = {}\<rbrakk>
    \<Longrightarrow> \<exists>es'. parse_loop nls ((Node p l as ss0 es0 ct, h) # rest) = Inr ((Node p l as ss0 (es0 @ es') ct, h) # rest)
          \<and> erase_all es' = erase_all es"
proof (induction indent n and indent ss and indent es
    arbitrary: nls rest l ct h and nls rest p l as ss0 es ct h and nls rest p l as ss0 es0 ct h
    rule: fortios_text_sub_text_entry_text.induct)
  case (1 indent p l0 as ss es ct0)
  obtain n1 n2 n3 where nls: "nls = n1 @ n2 @ n3" and n: "map snd n1 = attr_lines indent as"
      "map snd n2 = sub_text indent ss" "map snd n3 = entry_text indent es"
    using 1(5) map_eq_append2 [of snd nls] map_eq_append2 [of snd] by (metis fortios_text.simps)
  from 1(3) have wf: "wf_attrs as" "wf_dict ss" "wf_dict es" "wf_subs p ss" "wf_entries p es"
    "p = [VDOM_SECTION] \<longrightarrow> ss = []" by auto
  have d: "Suc (length rest) + heights ss \<le> Suc MAX_DEPTH" "Suc (length rest) + heights es \<le> Suc MAX_DEPTH"
    using 1(6) by auto
  obtain as' where a: "parse_loop n1 ((Node p l [] [] [] ct, h) # rest) = Inr ((Node p l as' [] [] ct, h) # rest)"
      "map (\<lambda>(name, a). (name, a\<lparr>a_line := 0\<rparr>)) as' = map (\<lambda>(name, a). (name, a\<lparr>a_line := 0\<rparr>)) as"
    using parse_attr_lines [OF 1(4) wf(1) n(1), of "[]" p l "[]" "[]" ct h rest] by auto
  obtain ss' where s: "parse_loop n2 ((Node p l as' [] [] ct, h) # rest) = Inr ((Node p l as' ss' [] ct, h) # rest)"
      "erase_all ss' = erase_all ss"
    using 1(1) [OF wf(4,2) 1(4) n(2) d(1) wf(6), of "[]" l as' "[]" ct h] by auto
  obtain es' where e: "parse_loop n3 ((Node p l as' ss' [] ct, h) # rest) = Inr ((Node p l as' ss' es' ct, h) # rest)"
      "erase_all es' = erase_all es"
    using 1(2) [OF wf(5,3) 1(4) n(3) d(2), of "[]" l as' ss' ct h] by auto
  show ?case using a s e by (auto simp: nls parse_loop_append)
next
  case (3 indent name sect ss)
  have "map snd nls = ([indent @ ''config '' @ name] @ fortios_text (indent @ ''    '') sect @ [indent @ ''end'']) @ sub_text indent ss"
    using 3(6) by simp
  then obtain n1 n2 where nls: "nls = n1 @ n2" and n1: "map snd n1 = [indent @ ''config '' @ name]
      @ fortios_text (indent @ ''    '') sect @ [indent @ ''end'']" and n2: "map snd n2 = sub_text indent ss"
    using map_eq_append2 by blast
  have fresh: "name \<notin> set (keys ss0)" and wf: "wf_dict ss" using 3(4,9) by (auto simp: wf_dict_def)
  have depth: "Suc (length rest) \<le> MAX_DEPTH" using 3(7) by simp
  have "\<exists>n'. parse_loop n1 ((Node p l as ss0 es ct, h) # rest) =
      Inr ((Node p l as (ss0 @ [(name, n')]) es ct, h) # rest) \<and> erase n' = erase sect"
    using read_section [OF 3(5) _ _ depth fresh _ n1, where p = p and sect = sect] 3(1) [OF _ blanks_indent [OF 3(5)]] 3(3,7,8)
    by auto
  then obtain n' where r: "parse_loop n1 ((Node p l as ss0 es ct, h) # rest) =
      Inr ((Node p l as (ss0 @ [(name, n')]) es ct, h) # rest)" "erase n' = erase sect" by blast
  have dis: "set (keys (ss0 @ [(name, n')])) \<inter> set (keys ss) = {}" using 3(4,9) by (auto simp: wf_dict_def)
  have wf': "wf_subs p ss" "Suc (length rest) + heights ss \<le> Suc MAX_DEPTH" "p = [VDOM_SECTION] \<longrightarrow> ss = []" using 3(3,7,8) by auto
  obtain ss' where "parse_loop n2 ((Node p l as (ss0 @ [(name, n')]) es ct, h) # rest) =
      Inr ((Node p l as ((ss0 @ [(name, n')]) @ ss') es ct, h) # rest)" "erase_all ss' = erase_all ss"
    using 3(2) [OF wf'(1) wf 3(5) n2 wf'(2,3) dis] by blast
  with r show ?case by (intro exI [of _ "(name, n') # ss'"]) (simp add: nls parse_loop_append)
next
  case (5 indent name ent es)
  have "map snd nls = ([indent @ ''edit '' @ quote name] @ fortios_text (indent @ ''    '') ent @ [indent @ ''next'']) @ entry_text indent es"
    using 5(6) by simp
  then obtain n1 n2 where nls: "nls = n1 @ n2" and n1: "map snd n1 = [indent @ ''edit '' @ quote name]
      @ fortios_text (indent @ ''    '') ent @ [indent @ ''next'']" and n2: "map snd n2 = entry_text indent es"
    using map_eq_append2 by blast
  have fresh: "name \<notin> set (keys es0)" and wf: "wf_dict es" using 5(4,8) by (auto simp: wf_dict_def)
  have depth: "Suc (length rest) \<le> MAX_DEPTH" using 5(7) by simp
  have "\<exists>n'. parse_loop n1 ((Node p l as ss0 es0 ct, h) # rest) =
      Inr ((Node p l as ss0 (es0 @ [(name, n')]) ct, h) # rest) \<and> erase n' = erase ent"
    using read_entry [OF 5(5) _ 5(5) _ depth fresh n1, where p = p and ent = ent] 5(1) [OF _ blanks_indent [OF 5(5)]] 5(3,7)
    by auto
  then obtain n' where r: "parse_loop n1 ((Node p l as ss0 es0 ct, h) # rest) =
      Inr ((Node p l as ss0 (es0 @ [(name, n')]) ct, h) # rest)" "erase n' = erase ent" by blast
  have dis: "set (keys (es0 @ [(name, n')])) \<inter> set (keys es) = {}" using 5(4,8) by (auto simp: wf_dict_def)
  have wf': "wf_entries p es" "Suc (length rest) + heights es \<le> Suc MAX_DEPTH" using 5(3,7) by auto
  obtain es' where "parse_loop n2 ((Node p l as ss0 (es0 @ [(name, n')]) ct, h) # rest) =
      Inr ((Node p l as ss0 ((es0 @ [(name, n')]) @ es') ct, h) # rest)" "erase_all es' = erase_all es"
    using 5(2) [OF wf'(1) wf 5(5) n2 wf'(2) dis] by blast
  with r show ?case by (intro exI [of _ "(name, n') # es'"]) (simp add: nls parse_loop_append)
qed auto

lemma closed_keywords: "closed_line ''config ''" "closed_line ''edit ''" "closed_line ''end''" "closed_line ''next''"
  by (simp_all add: closed_line_def)

lemma written_closed:
  shows "wf_node n \<Longrightarrow> set indent \<subseteq> {blank} \<Longrightarrow> \<forall>l \<in> set (fortios_text indent n). closed_line l"
    and "wf_subs p ss \<Longrightarrow> set indent \<subseteq> {blank} \<Longrightarrow> \<forall>l \<in> set (sub_text indent ss). closed_line l"
    and "wf_entries p es \<Longrightarrow> set indent \<subseteq> {blank} \<Longrightarrow> \<forall>l \<in> set (entry_text indent es). closed_line l"
proof (induction indent n and indent ss and indent es arbitrary: and p and p rule: fortios_text_sub_text_entry_text.induct)
  case (1 indent p l as ss es ct)
  have "closed_line (attr_line name a)" if "(name, a) \<in> set as" for name a
    using that 1(3) closed_plain [of name] closed_quotes [of "a_values a"]
      closed_append [OF closed_free [of "''unset ''"]] closed_append [OF closed_free [of "''set ''"]]
      closed_append [OF closed_plain [of name]] closed_append [OF closed_free [of "'' ''"]]
    by (auto simp: wf_attrs_def wf_attr_def attr_line_def Let_def)
  with 1 closed_blanks [of indent] show ?case
    by (auto simp: attr_lines_def intro!: closed_append)
next
  case (3 indent name sect ss)
  then have "closed_line (indent @ ''config '' @ name)" and "closed_line (indent @ ''end'')"
    by (intro closed_append closed_blanks closed_keywords closed_section; simp)+
  with 3 show ?case by auto
next
  case (5 indent name ent es)
  then have "closed_line (indent @ ''edit '' @ quote name)" and "closed_line (indent @ ''next'')"
    by (intro closed_append closed_blanks closed_keywords closed_quote; simp)+
  with 5 show ?case by auto
qed auto

lemma lines_text_join: "ls \<noteq> [] \<Longrightarrow> lines_text ls = join [newline] ls @ [newline]"
proof (induction ls)
  case (Cons l ls)
  then show ?case by (cases "ls = []") (simp_all add: lines_text_def join_Cons)
qed simp

lemma config_text_lines:
  "config_text header t = lines_text (header # (if fortios_text [] t = [] then [[]] else fortios_text [] t))"
  by (auto simp: config_text_def lines_text_join [symmetric]) (simp_all add: lines_text_def)

lemma parse_header: "starts_with ''#'' header \<Longrightarrow> parse_line n header st = Inr st"
proof -
  assume "starts_with ''#'' header"
  then obtain r where "header = CHR ''#'' # r" by (cases header) (auto simp: starts_with_def)
  moreover have "\<not> is_space CHR ''#''" by (simp add: is_space_def)
  moreover have "\<exists>r'. rstrip (CHR ''#'' # r) = CHR ''#'' # r'" if "\<not> is_space CHR ''#''"
  proof -
    have "dropWhile is_space (rev r @ [CHR ''#'']) = dropWhile is_space (rev r) @ [CHR ''#'']"
      using that by (rule dropWhile_append3)
    then show ?thesis by (simp add: rstrip_def)
  qed
  ultimately show ?thesis
    by (auto simp: parse_line_def strip_def lstrip_def starts_with_def)
qed

lemma parse_blank_line: "parse_line n [] st = Inr st"
  by (simp add: parse_line_def strip_def lstrip_def rstrip_def)

text \<open>(C16) Round trip of the FortiOS writer and reader: the text written for a configuration tree parses
  again, and to the same tree up to line numbers, whatever quotes, backslashes, blanks, key words or
  line breaks the values hold. The tree has plain names and at most the depth the reader accepts,
  and the header is a comment line.\<close>

theorem parse_config_text:
  assumes "wf_node t" and "n_path t = []" and "height t \<le> MAX_DEPTH"
    and "starts_with ''#'' header" and "closed_line header"
  shows "\<exists>t'. parse (config_text header t) = Inr t' \<and> erase t' = erase t"
proof -
  let ?ls = "fortios_text [] t"
  let ?body = "if ?ls = [] then [[]] else ?ls"
  have closed: "\<forall>l \<in> set (header # ?body). closed_line l"
    using assms written_closed(1) [OF assms(1), of "[]"] by (auto simp: closed_line_def)
  have lines: "logical_lines (config_text header t) = (numbered 1 (header # ?body), None)"
    using logical_lines_text [OF closed] by (simp only: config_text_lines)
  define k where "k = 1 + length (split_on newline header)"
  have "\<exists>t'. parse_loop (numbered k ?ls) [root_frame] = Inr [(t', AtRoot)] \<and> erase t' = erase t"
    using read_written(1) [OF assms(1), of "[]" "numbered k ?ls" "[]"] assms(2,3) by (simp add: root_frame_def)
  then obtain t' where t': "parse_loop (numbered k ?ls) [root_frame] = Inr [(t', AtRoot)]" "erase t' = erase t"
    by blast
  have "parse_loop (numbered k ?body) [root_frame] = Inr [(t', AtRoot)]"
    using t' by (auto simp: parse_blank_line)
  then have "parse_loop (numbered 1 (header # ?body)) [root_frame] = Inr [(t', AtRoot)]"
    using parse_header [OF assms(4)] by (simp add: k_def)
  with lines t'(2) show ?thesis by (simp add: parse_def)
qed

theorem parse_config_text_witness:
  "\<exists>t. parse (config_text ''#config-version'' sample_address) = Inr t \<and> erase t = erase sample_address"
  by (rule parse_config_text; code_simp)

end
