(* ===== verification/Admin_Request.thy ===== *)
theory Admin_Request
  imports Admin_Types Netops_Net
begin

text \<open>
  Requests and profiles: \<open>netops_admin/request.py\<close> and \<open>netops_admin/profiles.py\<close>. A request or a
  profile document is given as decoded JSON; the regular expressions of profile files are compiled
  by the parameter \<open>rx\<close>, which returns the set of strings an expression matches in full, or \<open>None\<close>
  when it does not compile, with the message of the error given by \<open>rx_error\<close>. The cryptographic
  digest is the parameter \<open>sha256\<close>.
\<close>

section \<open>JSON texts\<close>

definition hex4 :: "nat \<Rightarrow> string" where
  "hex4 n = [CHR ''0'', CHR ''0'', hex_digit (n div 16), hex_digit (n mod 16)]"

definition json_char :: "char \<Rightarrow> string" where
  "json_char c =
     (if c = dquote \<or> c = backslash then [backslash, c]
      else if c = newline then [backslash, CHR ''n'']
      else if c = creturn then [backslash, CHR ''r'']
      else if c = tab then [backslash, CHR ''t'']
      else if code c = 8 then [backslash, CHR ''b'']
      else if code c = 12 then [backslash, CHR ''f'']
      else if code c < 32 \<or> code c > 126 then [backslash, CHR ''u''] @ hex4 (code c)
      else [c])"

definition json_string :: "string \<Rightarrow> string" where
  "json_string s = [dquote] @ concat (map json_char s) @ [dquote]"

text \<open>\<open>json.dumps(value, sort_keys=True, separators=(comma, colon))\<close>\<close>

fun json_dumps :: "string \<Rightarrow> string \<Rightarrow> json \<Rightarrow> string" where
  "json_dumps comma colon JNull = ''null''"
| "json_dumps comma colon (JBool b) = (if b then ''true'' else ''false'')"
| "json_dumps comma colon (JInt i) = show_int i"
| "json_dumps comma colon (JFloat s) = s"
| "json_dumps comma colon (JStr s) = json_string s"
| "json_dumps comma colon (JArr xs) = ''['' @ join comma (map (json_dumps comma colon) xs) @ '']''"
| "json_dumps comma colon (JObj kvs) = ''{'' @ join comma (map (\<lambda>(k, t). json_string k @ colon @ t)
     (sort_key fst (map (\<lambda>(k, v). (k, json_dumps comma colon v)) kvs))) @ ''}''"

definition json_compact :: "json \<Rightarrow> string" where
  "json_compact = json_dumps '','' '':''"

text \<open>\<open>set(a) - set(b)\<close>, sorted\<close>

definition sorted_diff :: "string list \<Rightarrow> string list \<Rightarrow> string list" where
  "sorted_diff a b = sort (remdups (filter (\<lambda>x. x \<notin> set b) a))"

section \<open>Requests\<close>

definition MAX_KEY_LENGTH :: nat where "MAX_KEY_LENGTH = 128"
definition MAX_CHANGES :: nat where "MAX_CHANGES = 16"
definition MAX_REASON :: nat where "MAX_REASON = 500"
definition MAX_USER_REQUEST :: nat where "MAX_USER_REQUEST = 4000"

definition OPS :: "string list" where "OPS = [''create'', ''update'', ''delete'']"

definition REQUEST_FIELDS :: "string list" where
  "REQUEST_FIELDS = [''device'', ''table'', ''op'', ''key'', ''changes'', ''reason'', ''user_request'', ''request_id'']"

definition REQUIRED_FIELDS :: "string list" where
  "REQUIRED_FIELDS = filter (\<lambda>n. n \<noteq> ''device'') REQUEST_FIELDS"

definition word_char :: "string \<Rightarrow> char \<Rightarrow> bool" where
  "word_char extra c \<longleftrightarrow> is_alpha c \<or> is_digit c \<or> c \<in> set extra"

definition REQUEST_ID :: "string \<Rightarrow> bool" where
  "REQUEST_ID s \<longleftrightarrow> 8 \<le> length s \<and> length s \<le> 64 \<and> list_all (word_char ''._:-'') s"

definition DEVICE :: "string \<Rightarrow> bool" where
  "DEVICE s \<longleftrightarrow> s \<noteq> [] \<and> word_char [] (hd s) \<and> length s \<le> 64 \<and> list_all (word_char ''._-'') (tl s)"

definition is_lower :: "char \<Rightarrow> bool" where
  "is_lower c \<longleftrightarrow> 97 \<le> code c \<and> code c \<le> 122"

lemma is_lower_bits [code]:
  "is_lower (Char b0 b1 b2 b3 b4 b5 b6 b7) \<longleftrightarrow>
     \<not> b7 \<and> b6 \<and> b5 \<and> (b0 \<or> b1 \<or> b2 \<or> b3 \<or> b4) \<and> \<not> (b4 \<and> b3 \<and> (b2 \<or> b1 \<and> b0))"
  unfolding is_lower_def code_def by (cases b0; cases b1; cases b2; cases b3; cases b4; cases b5; cases b6; cases b7) simp_all

definition ATTRIBUTE_NAME :: "string \<Rightarrow> bool" where
  "ATTRIBUTE_NAME s \<longleftrightarrow> s \<noteq> [] \<and> is_lower (hd s) \<and> length s \<le> 64
     \<and> list_all (\<lambda>c. is_lower c \<or> is_digit c \<or> c = CHR ''-'') (tl s)"

definition printable :: "char \<Rightarrow> bool" where
  "printable c \<longleftrightarrow> 32 \<le> code c \<and> code c \<le> 126"

definition TEXT_VALUE :: "string \<Rightarrow> bool" where
  "TEXT_VALUE s \<longleftrightarrow> list_all (\<lambda>c. printable c \<and> c \<noteq> dquote \<and> c \<noteq> backslash) s"

definition QUOTED_TEXT_VALUE :: "string \<Rightarrow> bool" where
  "QUOTED_TEXT_VALUE s \<longleftrightarrow> list_all printable s"

definition reject :: "string \<Rightarrow> exn + 'a" where
  "reject reason = Inl (Rejected [reason])"

definition then_check :: "exn + 'a \<Rightarrow> ('a \<Rightarrow> exn + 'b) \<Rightarrow> exn + 'b" where
  "then_check r f = (case r of Inl x \<Rightarrow> Inl x | Inr a \<Rightarrow> f a)"

lemma then_check_Inr [simp]: "then_check m f = Inr r \<longleftrightarrow> (\<exists>a. m = Inr a \<and> f a = Inr r)"
  by (cases m) (auto simp: then_check_def)

text \<open>\<open>_text\<close>\<close>

definition text_field :: "json option \<Rightarrow> string \<Rightarrow> nat \<Rightarrow> exn + string" where
  "text_field v label limit = (case v of
     Some (JStr s) \<Rightarrow>
       if strip s = [] then reject (label @ '' must be a non-empty string'')
       else if length s > limit then reject (label @ '' is longer than '' @ show_nat limit @ '' characters'')
       else Inr s
   | _ \<Rightarrow> reject (label @ '' must be a non-empty string''))"

text \<open>The value of one change: \<open>null\<close>, a string, an integer (not a boolean) or a list.\<close>

fun change_of :: "string \<Rightarrow> json \<Rightarrow> exn + change_value" where
  "change_of name JNull = Inr VNull"
| "change_of name (JStr s) = Inr (VStr s)"
| "change_of name (JInt i) = Inr (VInt i)"
| "change_of name (JArr xs) = Inr (VList xs)"
| "change_of name _ = reject (''attribute '' @ name @ '': value must be a string, an integer or null'')"

fun changes_of :: "(string, json) dict \<Rightarrow> exn + (string, change_value) dict" where
  "changes_of [] = Inr []"
| "changes_of ((name, v) # rest) =
     (if \<not> ATTRIBUTE_NAME name then reject (''attribute name '' @ py_repr (take 64 name) @ '' is not a CLI attribute name'')
      else then_check (change_of name v) (\<lambda>c. then_check (changes_of rest) (\<lambda>cs. Inr ((name, c) # cs))))"

text \<open>\<open>parse_request\<close> on the decoded document of a request that is not a schema transaction.\<close>

definition parse_request :: "json \<Rightarrow> exn + request" where
  "parse_request data = (case data of
     JObj fs \<Rightarrow>
       let unknown = sorted_diff (keys fs) REQUEST_FIELDS; missing = sorted_diff REQUIRED_FIELDS (keys fs) in
       if unknown \<noteq> [] \<or> missing \<noteq> []
       then reject (''request fields differ: missing '' @ py_list missing @ '', unknown '' @ py_list unknown)
       else then_check (case map_of fs ''device'' of
           None \<Rightarrow> Inr None
         | Some JNull \<Rightarrow> Inr None
         | Some (JStr d) \<Rightarrow> if DEVICE d then Inr (Some d) else reject ''device must be an inventory alias''
         | Some _ \<Rightarrow> reject ''device must be an inventory alias'') (\<lambda>dev.
       then_check (text_field (map_of fs ''table'') ''table'' 64) (\<lambda>table.
       then_check (case map_of fs ''op'' of
           Some (JStr op) \<Rightarrow> if op \<in> set OPS then Inr op else reject (''op must be one of '' @ join '', '' OPS)
         | _ \<Rightarrow> reject (''op must be one of '' @ join '', '' OPS)) (\<lambda>op.
       then_check (text_field (map_of fs ''key'') ''key'' MAX_KEY_LENGTH) (\<lambda>key.
       then_check (case map_of fs ''changes'' of
           Some (JObj cs) \<Rightarrow>
             if length cs > MAX_CHANGES then reject (''changes name more than '' @ show_nat MAX_CHANGES @ '' attributes'')
             else changes_of cs
         | _ \<Rightarrow> reject ''changes must be an object'') (\<lambda>changes.
       then_check (case map_of fs ''request_id'' of
           Some (JStr i) \<Rightarrow> if REQUEST_ID i then Inr i else reject ''request_id must match ^[A-Za-z0-9._:-]{8,64}$''
         | _ \<Rightarrow> reject ''request_id must match ^[A-Za-z0-9._:-]{8,64}$'') (\<lambda>request_id.
       then_check (text_field (map_of fs ''reason'') ''reason'' MAX_REASON) (\<lambda>reason.
       then_check (text_field (map_of fs ''user_request'') ''user_request'' MAX_USER_REQUEST) (\<lambda>user_request.
       Inr \<lparr>rq_device = dev, rq_table = table, rq_op = op, rq_key = key, rq_changes = changes, rq_reason = reason,
         rq_user_request = user_request, rq_request_id = request_id\<rparr>))))))))
   | _ \<Rightarrow> reject ''request must be a JSON object'')"

text \<open>\<open>Request.fingerprint\<close>\<close>

fun change_json :: "change_value \<Rightarrow> json" where
  "change_json VNull = JNull"
| "change_json (VStr s) = JStr s"
| "change_json (VInt i) = JInt i"
| "change_json (VList xs) = JArr xs"

definition optional_json :: "string option \<Rightarrow> json" where
  "optional_json v = (case v of None \<Rightarrow> JNull | Some s \<Rightarrow> JStr s)"

definition fingerprint :: "(string \<Rightarrow> string) \<Rightarrow> request \<Rightarrow> string" where
  "fingerprint sha256 r = sha256 (json_compact (JObj [
     (''device'', optional_json (rq_device r)), (''table'', JStr (rq_table r)), (''op'', JStr (rq_op r)),
     (''key'', JStr (rq_key r)), (''changes'', JObj (map (\<lambda>(n, v). (n, change_json v)) (rq_changes r))),
     (''reason'', JStr (rq_reason r)), (''user_request'', JStr (rq_user_request r))]))"

section \<open>Canonical values\<close>

text \<open>\<open>[A-Za-z0-9][A-Za-z0-9_.-]{0,78}\<close>\<close>

definition object_name :: "string \<Rightarrow> bool" where
  "object_name s \<longleftrightarrow> s \<noteq> [] \<and> word_char [] (hd s) \<and> length s \<le> 79 \<and> list_all (word_char ''_.-'') (tl s)"

fun name_item :: "json \<Rightarrow> string option" where
  "name_item (JStr s) = (if object_name s then Some s else None)"
| "name_item _ = None"

fun name_items :: "json list \<Rightarrow> string list option" where
  "name_items [] = Some []"
| "name_items (x # xs) = (case (name_item x, name_items xs) of (Some s, Some ss) \<Rightarrow> Some (s # ss) | _ \<Rightarrow> None)"

definition canonical_names :: "string \<Rightarrow> change_value \<Rightarrow> exn + string" where
  "canonical_names name v =
     (let refused = reject (''attribute '' @ name @ '' must be a list of distinct object names'') in
      case v of
        VList xs \<Rightarrow> if length xs > 128 then refused
          else (case name_items xs of
              None \<Rightarrow> refused
            | Some ss \<Rightarrow> if \<not> distinct ss then refused else Inr (join '' '' (sort ss)))
      | _ \<Rightarrow> refused)"

definition is_hex :: "char \<Rightarrow> bool" where
  "is_hex c \<longleftrightarrow> is_lower_hex (fold_char c)"

definition hex_val :: "char \<Rightarrow> nat" where
  "hex_val c = (let n = code (fold_char c) in if n \<le> 57 then n - 48 else n - 87)"

text \<open>\<open>(?:[0-9A-Fa-f]{2}:){5}[0-9A-Fa-f]{2}\<close>\<close>

definition mac_address :: "string \<Rightarrow> bool" where
  "mac_address s \<longleftrightarrow> (let ps = split_on CHR '':'' s in length ps = 6 \<and> list_all (\<lambda>p. length p = 2 \<and> list_all is_hex p) ps)"

definition canonical_mac :: "string \<Rightarrow> change_value \<Rightarrow> exn + string" where
  "canonical_mac name v = (case v of
     VStr s \<Rightarrow>
       if \<not> mac_address s then reject (''attribute '' @ name @ '' must be a MAC address'')
       else if odd (hex_val (s ! 1)) \<or> list_all (\<lambda>c. c = CHR ''0'' \<or> c = CHR '':'') s
       then reject (''attribute '' @ name @ '' must be a nonzero unicast MAC address'')
       else Inr (casefold s)
   | _ \<Rightarrow> reject (''attribute '' @ name @ '' must be a MAC address''))"

definition canonical_integer :: "attribute \<Rightarrow> change_value \<Rightarrow> exn + string" where
  "canonical_integer a v =
     (let refused = reject (''attribute '' @ at_name a @ '' must be an integer'') in
      then_check (case v of
          VStr s \<Rightarrow> if all_digits s \<and> length s \<le> 10 then Inr (int (int_of s)) else refused
        | VInt i \<Rightarrow> Inr i
        | _ \<Rightarrow> refused) (\<lambda>i.
      case (at_minimum a, at_maximum a) of
        (Some low, Some high) \<Rightarrow>
          if \<not> (low \<le> i \<and> i \<le> high)
          then reject (''attribute '' @ at_name a @ '' must lie in '' @ show_int low @ ''..'' @ show_int high)
          else Inr (show_int i)
      | _ \<Rightarrow> Inl (OtherError ''TypeError'' '''')))"

definition canonical_network :: "string \<Rightarrow> string \<Rightarrow> exn + string" where
  "canonical_network name v =
     (let s = strip v;
          net = (if CHR ''/'' \<in> set s then parse_network True s
                 else case split_ws s of [a, m] \<Rightarrow> parse_network True (a @ ''/'' @ m) | _ \<Rightarrow> None) in
      case net of
        None \<Rightarrow> reject (''attribute '' @ name @ '' must be an IPv4 network without host bits'')
      | Some (a, m) \<Rightarrow> Inr (show_ip a @ '' '' @ show_ip m))"

definition canonical_text :: "attribute \<Rightarrow> string \<Rightarrow> string \<Rightarrow> exn + string" where
  "canonical_text a v platform =
     (let name = at_name a in
      if v = [] then reject (''attribute '' @ name @ '': use null to remove the value, not an empty string'')
      else case at_max_length a of
        None \<Rightarrow> Inl (OtherError ''TypeError'' '''')
      | Some longest \<Rightarrow>
          if int (length v) > longest then reject (''attribute '' @ name @ '' is longer than '' @ show_int longest @ '' characters'')
          else if platform = ''fortios'' \<and> \<not> QUOTED_TEXT_VALUE v
          then reject (''attribute '' @ name @ '' may hold printable ASCII only'')
          else if platform \<noteq> ''fortios'' \<and> \<not> TEXT_VALUE v
          then reject (''attribute '' @ name @ '' may hold printable ASCII only, without quotes or backslashes'')
          else if (case at_pattern a of None \<Rightarrow> False | Some p \<Rightarrow> \<not> re_fullmatch p v)
          then reject (''attribute '' @ name @ '' must match '' @ re_source (the (at_pattern a)))
          else if casefold v \<in> set (at_forbidden_values a)
          then reject (''attribute '' @ name @ '': the value '' @ py_repr v @ '' is a CLI keyword'')
          else Inr v)"

definition canonical_value :: "attribute \<Rightarrow> change_value \<Rightarrow> string \<Rightarrow> exn + string" where
  "canonical_value a v platform = (case at_type a of
     NameList \<Rightarrow> canonical_names (at_name a) v
   | Ipv4Address \<Rightarrow> (case v of
        VStr s \<Rightarrow> (case parse_ip s of
            None \<Rightarrow> reject (''attribute '' @ at_name a @ '' must be an IPv4 address'')
          | Some ip \<Rightarrow> Inr (show_ip ip))
      | _ \<Rightarrow> reject (''attribute '' @ at_name a @ '' must be an IPv4 address''))
   | MacAddress \<Rightarrow> canonical_mac (at_name a) v
   | IntegerType \<Rightarrow> canonical_integer a v
   | Ipv4Network \<Rightarrow> (case v of
        VStr s \<Rightarrow> canonical_network (at_name a) s
      | _ \<Rightarrow> reject (''attribute '' @ at_name a @ '' must be a string''))
   | TextType \<Rightarrow> (case v of
        VStr s \<Rightarrow> canonical_text a s platform
      | _ \<Rightarrow> reject (''attribute '' @ at_name a @ '' must be a string'')))"

end
