(* ===== verification/Admin_Profile.thy ===== *)
theory Admin_Profile
  imports Admin_Request
begin

text \<open>
  Profiles of the tables a change may touch, \<open>netops_admin/profiles.py\<close>: the checks of a profile
  document, the collection of the documents of the package, and the choice of a profile for a
  firmware. Regular expressions are compiled by a parameter: \<open>rx s\<close> gives the strings \<open>s\<close> matches in
  full, or the message of the error.
\<close>

section \<open>Reading a profile document\<close>

type_synonym regex = "string \<Rightarrow> string + (string \<Rightarrow> bool)"

definition PLATFORMS :: "string list" where "PLATFORMS = [''fortios'', ''exos'']"

definition PROFILE_FIELDS :: "string list" where
  "PROFILE_FIELDS = [''platform'', ''table'', ''versions'', ''ops'', ''key_pattern'', ''protected_keys'', ''attributes'',
     ''fixed'', ''volatile'', ''reserved_values'', ''inverse_identity_changes'', ''rollback_evidence'']"

definition ATTRIBUTE_FIELDS :: "string list" where
  "ATTRIBUTE_FIELDS = [''type'', ''default'', ''required_on_create'', ''update'', ''unset'', ''referenced_update'',
     ''max_length'', ''minimum'', ''maximum'', ''forbidden_values'', ''pattern'', ''undo_to_default'']"

definition OPTIONAL_PROFILE_FIELDS :: "string list" where
  "OPTIONAL_PROFILE_FIELDS = [''implicit_keys'', ''undo_ops'', ''exact_versions'', ''table_scoped_key'', ''create_values'',
     ''create_position'', ''isolated_update'', ''provisional'', ''value_requires'']"

definition profile_error :: "string \<Rightarrow> exn + 'a" where
  "profile_error why = Inl (OtherError ''ProfileError'' why)"

text \<open>\<open>_require\<close>\<close>

definition need :: "bool \<Rightarrow> string \<Rightarrow> (unit \<Rightarrow> exn + 'a) \<Rightarrow> exn + 'a" where
  "need ok why k = (if ok then k () else profile_error why)"

definition field :: "(string, json) dict \<Rightarrow> string \<Rightarrow> json" where
  "field d name = (case map_of d name of None \<Rightarrow> JNull | Some v \<Rightarrow> v)"

definition field_or :: "(string, json) dict \<Rightarrow> string \<Rightarrow> json \<Rightarrow> json" where
  "field_or d name dflt = (case map_of d name of None \<Rightarrow> dflt | Some v \<Rightarrow> v)"

fun string_items :: "json list \<Rightarrow> string list option" where
  "string_items [] = Some []"
| "string_items (JStr s # xs) = (if s = [] then None else map_option (Cons s) (string_items xs))"
| "string_items (_ # xs) = None"

text \<open>\<open>_strings\<close>\<close>

definition strings :: "json \<Rightarrow> string \<Rightarrow> exn + string list" where
  "strings v label = (case v of
     JArr xs \<Rightarrow> (case string_items xs of
         None \<Rightarrow> profile_error (label @ '' must be a list of non-empty strings'')
       | Some ss \<Rightarrow> need (distinct ss) (label @ '' holds duplicates'') (\<lambda>_. Inr ss))
   | _ \<Rightarrow> profile_error (label @ '' must be a list of non-empty strings''))"

fun kind_of :: "json \<Rightarrow> attribute_type option" where
  "kind_of (JStr s) = map_of [(''ipv4-network'', Ipv4Network), (''ipv4-address'', Ipv4Address), (''mac-address'', MacAddress),
     (''name-list'', NameList), (''text'', TextType), (''integer'', IntegerType)] s"
| "kind_of _ = None"

fun is_bool :: "json \<Rightarrow> bool" where
  "is_bool (JBool _) = True"
| "is_bool _ = False"

fun truth :: "json \<Rightarrow> bool" where
  "truth (JBool b) = b"
| "truth _ = False"

fun int_field :: "json \<Rightarrow> int option" where
  "int_field (JInt i) = Some i"
| "int_field _ = None"

fun optional_string :: "json \<Rightarrow> string option option" where
  "optional_string JNull = Some None"
| "optional_string (JStr s) = Some (Some s)"
| "optional_string _ = None"

definition anchored :: "string \<Rightarrow> bool" where
  "anchored s \<longleftrightarrow> starts_with ''^'' s \<and> ends_with ''$'' s"

text \<open>The pattern of a text attribute\<close>

definition attribute_pattern :: "regex \<Rightarrow> string \<Rightarrow> attribute_type \<Rightarrow> json \<Rightarrow> exn + pattern option" where
  "attribute_pattern rx name kind v =
     (let refused = profile_error (''attribute '' @ name @ '': pattern must be an anchored expression of a text attribute'') in
      case v of
        JNull \<Rightarrow> Inr None
      | JStr s \<Rightarrow>
          if kind \<noteq> TextType \<or> \<not> anchored s then refused
          else (case rx s of
              Inl why \<Rightarrow> profile_error (''attribute '' @ name @ '': pattern does not compile: '' @ why)
            | Inr m \<Rightarrow> Inr (Some \<lparr>re_source = s, re_fullmatch = m\<rparr>))
      | _ \<Rightarrow> refused)"

definition ATTRIBUTE_FLAGS :: "string list" where
  "ATTRIBUTE_FLAGS = [''required_on_create'', ''update'', ''unset'', ''referenced_update'']"

definition attribute_bounds :: "string \<Rightarrow> attribute_type \<Rightarrow> (string, json) dict \<Rightarrow> (unit \<Rightarrow> exn + 'a) \<Rightarrow> exn + 'a" where
  "attribute_bounds name kind d k =
     need (if kind = TextType then (case int_field (field d ''max_length'') of None \<Rightarrow> False | Some n \<Rightarrow> n > 0)
           else field d ''max_length'' = JNull)
       (if kind = TextType then ''text attribute '' @ name @ '' needs max_length''
        else ''attribute '' @ name @ '': max_length is only for text'') (\<lambda>_.
     need (if kind = IntegerType
           then (case (int_field (field d ''minimum''), int_field (field d ''maximum'')) of
                   (Some low, Some high) \<Rightarrow> low \<le> high | _ \<Rightarrow> False)
           else field d ''minimum'' = JNull \<and> field d ''maximum'' = JNull)
       (if kind = IntegerType then ''integer attribute '' @ name @ '' needs minimum <= maximum''
        else ''attribute '' @ name @ '': bounds are only for integers'') k)"

text \<open>\<open>_attribute\<close>\<close>

definition parse_attribute :: "regex \<Rightarrow> string \<Rightarrow> json \<Rightarrow> exn + attribute" where
  "parse_attribute rx name data = (case data of
     JObj d \<Rightarrow>
       let unknown = sorted_diff (keys d) ATTRIBUTE_FIELDS in
       need (unknown = []) (''attribute '' @ name @ '' has unknown fields: '' @ py_list unknown) (\<lambda>_.
       case kind_of (field d ''type'') of
         None \<Rightarrow> profile_error (''attribute '' @ name @ '' has an unknown type'')
       | Some kind \<Rightarrow>
         (case filter (\<lambda>flag. \<not> is_bool (field d flag)) ATTRIBUTE_FLAGS of
            flag # _ \<Rightarrow> profile_error (''attribute '' @ name @ '' needs boolean '' @ flag)
          | [] \<Rightarrow>
            (case optional_string (field d ''default'') of
               None \<Rightarrow> profile_error (''attribute '' @ name @ '' default must be a string'')
             | Some dflt \<Rightarrow>
               attribute_bounds name kind d (\<lambda>_.
               then_check (strings (field_or d ''forbidden_values'' (JArr [])) (''attribute '' @ name @ '' forbidden_values'')) (\<lambda>forbidden.
               then_check (attribute_pattern rx name kind (field d ''pattern'')) (\<lambda>pat.
               need (\<not> (truth (field d ''required_on_create'') \<and> truth (field d ''unset'')))
                 (''attribute '' @ name @ '' cannot be both required and unsettable'') (\<lambda>_.
               let undo = field_or d ''undo_to_default'' (JBool False) in
               need (is_bool undo) (''attribute '' @ name @ '': undo_to_default must be true or false'') (\<lambda>_.
               need (\<not> truth undo \<or> dflt \<noteq> None \<and> \<not> truth (field d ''unset''))
                 (''attribute '' @ name @ '': undo_to_default needs a default and excludes unset'') (\<lambda>_.
               Inr \<lparr>at_name = name, at_type = kind, at_default = dflt,
                 at_required_on_create = truth (field d ''required_on_create''), at_update = truth (field d ''update''),
                 at_unset = truth (field d ''unset''), at_referenced_update = truth (field d ''referenced_update''),
                 at_max_length = int_field (field d ''max_length''), at_minimum = int_field (field d ''minimum''),
                 at_maximum = int_field (field d ''maximum''), at_forbidden_values = map casefold forbidden,
                 at_pattern = pat, at_undo_to_default = truth undo\<rparr>)))))))))
   | _ \<Rightarrow> profile_error (''attribute '' @ name @ '' must be an object''))"

fun parse_attributes :: "regex \<Rightarrow> (string, json) dict \<Rightarrow> exn + (string, attribute) dict" where
  "parse_attributes rx [] = Inr []"
| "parse_attributes rx ((name, v) # rest) = then_check (parse_attribute rx name v) (\<lambda>a.
     then_check (parse_attributes rx rest) (\<lambda>as. Inr ((name, a) # as)))"

section \<open>The parts of a profile\<close>

text \<open>\<open>tuple(v)\<close>\<close>

fun tuple_of :: "json \<Rightarrow> exn + json list" where
  "tuple_of (JArr xs) = Inr xs"
| "tuple_of (JStr s) = Inr (map (\<lambda>c. JStr [c]) s)"
| "tuple_of (JObj d) = Inr (map JStr (keys d))"
| "tuple_of _ = Inl (OtherError ''TypeError'' '''')"

definition implicit_keys_of :: "(string, json) dict \<Rightarrow> exn + bool" where
  "implicit_keys_of d =
     (let implicit = field_or d ''implicit_keys'' (JBool False) in
      need (is_bool implicit) ''implicit_keys must be true or false'' (\<lambda>_.
      if \<not> truth implicit then Inr False
      else then_check (tuple_of (field d ''ops'')) (\<lambda>ops.
        need (ops = [JStr ''update'']) ''a table whose objects always exist allows update only'' (\<lambda>_. Inr True))))"

definition OPS_TUPLE :: string where "OPS_TUPLE = ''('' @ join '', '' (map py_repr OPS) @ '')''"

definition compiled_key :: "regex \<Rightarrow> json \<Rightarrow> exn + pattern" where
  "compiled_key rx v = (case v of
     JStr s \<Rightarrow> (case rx s of
         Inl why \<Rightarrow> profile_error (''key_pattern does not compile: '' @ why)
       | Inr m \<Rightarrow> need (anchored s) ''key_pattern must be anchored'' (\<lambda>_. Inr \<lparr>re_source = s, re_fullmatch = m\<rparr>))
   | _ \<Rightarrow> profile_error ''key_pattern must be a string'')"

fun string_values :: "(string, json) dict \<Rightarrow> (string, string) dict option" where
  "string_values [] = Some []"
| "string_values ((k, JStr s) # rest) = map_option (Cons (k, s)) (string_values rest)"
| "string_values ((k, _) # rest) = None"

definition fixed_of :: "json \<Rightarrow> exn + (string, string) dict" where
  "fixed_of v = (case v of
     JObj d \<Rightarrow> (case string_values d of None \<Rightarrow> profile_error ''fixed must map attribute names to strings'' | Some f \<Rightarrow> Inr f)
   | _ \<Rightarrow> profile_error ''fixed must map attribute names to strings'')"

definition overlap :: "string list \<Rightarrow> string list \<Rightarrow> string list \<Rightarrow> string list" where
  "overlap a f v = sort (remdups (filter (\<lambda>n. n \<in> set f \<or> n \<in> set v) a @ filter (\<lambda>n. n \<in> set v) f))"

fun reserved_items :: "string list \<Rightarrow> (string, json) dict \<Rightarrow> exn + (string, string list) dict" where
  "reserved_items names [] = Inr []"
| "reserved_items names ((n, v) # rest) =
     need (n \<in> set names) (''reserved_values names an unknown attribute: '' @ n) (\<lambda>_.
     then_check (strings v (''reserved_values '' @ n)) (\<lambda>ss.
     then_check (reserved_items names rest) (\<lambda>r. Inr ((n, ss) # r))))"

definition reserved_of :: "string list \<Rightarrow> json \<Rightarrow> exn + (string, string list) dict" where
  "reserved_of names v = (case v of JObj d \<Rightarrow> reserved_items names d | _ \<Rightarrow> profile_error ''reserved_values must be an object'')"

fun identity_items :: "string list \<Rightarrow> (string, json) dict \<Rightarrow> exn + (string, string list) dict" where
  "identity_items volatile [] = Inr []"
| "identity_items volatile ((op, v) # rest) =
     then_check (strings v (''inverse_identity_changes '' @ op)) (\<lambda>ss.
     need (set ss \<subseteq> set volatile) ''an identity change must be a volatile attribute'' (\<lambda>_.
     then_check (identity_items volatile rest) (\<lambda>r. Inr ((op, ss) # r))))"

definition identity_of :: "string list \<Rightarrow> json \<Rightarrow> exn + (string, string list) dict" where
  "identity_of volatile v = (case v of
     JObj d \<Rightarrow> need (set (keys d) \<subseteq> set OPS) ''inverse_identity_changes is invalid'' (\<lambda>_. identity_items volatile d)
   | _ \<Rightarrow> profile_error ''inverse_identity_changes is invalid'')"

definition create_values_of :: "string list \<Rightarrow> string list \<Rightarrow> json \<Rightarrow> exn + (string, string) dict" where
  "create_values_of ops names v =
     (let refused = profile_error ''create_values must give strings for profile attributes of a creatable table'' in
      case v of
        JNull \<Rightarrow> Inr []
      | JObj d \<Rightarrow> (case string_values d of
            None \<Rightarrow> refused
          | Some f \<Rightarrow> if ''create'' \<in> set ops \<and> f \<noteq> [] \<and> list_all (\<lambda>(n, s). n \<in> set names \<and> s \<noteq> []) f then Inr f else refused)
      | _ \<Rightarrow> refused)"

definition position_of :: "string list \<Rightarrow> json \<Rightarrow> exn + string option" where
  "position_of ops v =
     need (v = JNull \<or> v = JStr ''last'') ''create_position must be last'' (\<lambda>_.
     need (v = JNull \<or> ''create'' \<in> set ops) ''create_position needs the create operation'' (\<lambda>_.
     Inr (if v = JNull then None else Some ''last'')))"

definition isolated_of :: "(string, attribute) dict \<Rightarrow> json \<Rightarrow> exn + string list" where
  "isolated_of attrs v = then_check (strings v ''isolated_update'') (\<lambda>isolated.
     need (list_all (\<lambda>n. case map_of attrs n of None \<Rightarrow> False | Some a \<Rightarrow> at_update a) isolated)
       ''isolated_update names an attribute that cannot be updated'' (\<lambda>_.
     need (list_all (\<lambda>n. case map_of attrs n of None \<Rightarrow> False | Some a \<Rightarrow> at_undo_to_default a \<or> at_default a \<noteq> None) isolated)
       ''an isolated attribute needs a default to return to'' (\<lambda>_. Inr isolated)))"

fun later_names :: "string list \<Rightarrow> string \<Rightarrow> json list \<Rightarrow> string list option" where
  "later_names names name [] = Some []"
| "later_names names name (JStr s # xs) =
     (if s \<in> set names \<and> name < s then map_option (Cons s) (later_names names name xs) else None)"
| "later_names names name (_ # xs) = None"

fun required_values :: "string list \<Rightarrow> string \<Rightarrow> (string, json) dict \<Rightarrow> (string, string list) dict option" where
  "required_values names name [] = Some []"
| "required_values names name ((v, JArr xs) # rest) =
     (if xs = [] then None else case (later_names names name xs, required_values names name rest) of
        (Some ss, Some r) \<Rightarrow> Some ((v, ss) # r) | _ \<Rightarrow> None)"
| "required_values names name ((v, _) # rest) = None"

fun requires_items :: "string list \<Rightarrow> (string, json) dict \<Rightarrow> (string, (string, string list) dict) dict option" where
  "requires_items names [] = Some []"
| "requires_items names ((n, JObj d) # rest) =
     (if n \<notin> set names \<or> d = [] then None else case (required_values names n d, requires_items names rest) of
        (Some vs, Some r) \<Rightarrow> Some ((n, vs) # r) | _ \<Rightarrow> None)"
| "requires_items names ((n, _) # rest) = None"

definition requires_of :: "string list \<Rightarrow> json \<Rightarrow> exn + (string, (string, string list) dict) dict" where
  "requires_of names v =
     (let refused = profile_error ''value_requires must map a profile attribute and value to later profile attributes'' in
      case v of JObj d \<Rightarrow> (case requires_items names d of None \<Rightarrow> refused | Some r \<Rightarrow> Inr r) | _ \<Rightarrow> refused)"

section \<open>Profiles\<close>

record profile_head =
  ph_implicit :: bool
  ph_versions :: "string list"
  ph_ops :: "string list"
  ph_key_pattern :: pattern
  ph_attributes :: "(string, attribute) dict"

text \<open>The first half of \<open>parse_profile\<close>: up to the attributes.\<close>

definition parse_head :: "regex \<Rightarrow> (string, json) dict \<Rightarrow> exn + profile_head" where
  "parse_head rx d =
     (let missing = sorted_diff PROFILE_FIELDS (keys d);
          unknown = sorted_diff (keys d) (PROFILE_FIELDS @ OPTIONAL_PROFILE_FIELDS) in
      need (missing = [] \<and> unknown = [])
        (''profile fields differ: missing '' @ py_list missing @ '', unknown '' @ py_list unknown) (\<lambda>_.
      then_check (implicit_keys_of d) (\<lambda>implicit.
      need (field d ''platform'' \<in> JStr ` set PLATFORMS) ''unknown platform'' (\<lambda>_.
      need (case field d ''table'' of JStr s \<Rightarrow> s \<noteq> [] | _ \<Rightarrow> False) ''table must be a non-empty string'' (\<lambda>_.
      then_check (strings (field d ''versions'') ''versions'') (\<lambda>versions.
      need (versions \<noteq> []) ''a profile needs at least one measured version'' (\<lambda>_.
      then_check (strings (field d ''ops'') ''ops'') (\<lambda>ops.
      need (set ops \<subseteq> set OPS \<and> ops \<noteq> []) (''ops must be a subset of '' @ OPS_TUPLE) (\<lambda>_.
      then_check (compiled_key rx (field d ''key_pattern'')) (\<lambda>key_pattern.
      then_check (case field d ''attributes'' of
          JObj ad \<Rightarrow> need (ad \<noteq> []) ''attributes must be a non-empty object'' (\<lambda>_. parse_attributes rx ad)
        | _ \<Rightarrow> profile_error ''attributes must be a non-empty object'') (\<lambda>attrs.
      Inr \<lparr>ph_implicit = implicit, ph_versions = versions, ph_ops = ops, ph_key_pattern = key_pattern,
        ph_attributes = attrs\<rparr>)))))))))))"

fun string_of :: "json \<Rightarrow> string" where
  "string_of (JStr s) = s"
| "string_of _ = []"

text \<open>The second half, with the result\<close>

definition parse_rest :: "(string, json) dict \<Rightarrow> profile_head \<Rightarrow> exn + profile" where
  "parse_rest d h =
     (let attrs = ph_attributes h; ops = ph_ops h in
      then_check (fixed_of (field d ''fixed'')) (\<lambda>fixed.
      then_check (strings (field d ''volatile'') ''volatile'') (\<lambda>volatile.
      let twice = overlap (keys attrs) (keys fixed) volatile in
      need (twice = []) (''an attribute is listed twice: '' @ py_list twice) (\<lambda>_.
      then_check (reserved_of (keys attrs) (field d ''reserved_values'')) (\<lambda>reserved.
      then_check (identity_of volatile (field d ''inverse_identity_changes'')) (\<lambda>identity.
      need (case field d ''rollback_evidence'' of JStr s \<Rightarrow> s \<noteq> [] | _ \<Rightarrow> False)
        ''rollback_evidence must describe the measured rollback'' (\<lambda>_.
      then_check (strings (field_or d ''undo_ops'' (JArr [])) ''undo_ops'') (\<lambda>undo_ops.
      need (set undo_ops \<subseteq> set OPS) (''undo_ops must be a subset of '' @ OPS_TUPLE) (\<lambda>_.
      let exact = field_or d ''exact_versions'' (JBool False); scoped = field_or d ''table_scoped_key'' (JBool False);
          provisional = field_or d ''provisional'' (JBool False) in
      need (is_bool exact \<and> is_bool scoped \<and> is_bool provisional)
        ''exact_versions, table_scoped_key and provisional must be true or false'' (\<lambda>_.
      then_check (create_values_of ops (keys attrs) (field d ''create_values'')) (\<lambda>create_values.
      then_check (position_of ops (field d ''create_position'')) (\<lambda>position.
      then_check (isolated_of attrs (field_or d ''isolated_update'' (JArr []))) (\<lambda>isolated.
      then_check (requires_of (keys attrs) (field_or d ''value_requires'' (JObj []))) (\<lambda>requires.
      then_check (strings (field d ''protected_keys'') ''protected_keys'') (\<lambda>protected.
      Inr \<lparr>pf_platform = string_of (field d ''platform''), pf_table = string_of (field d ''table''),
        pf_versions = ph_versions h, pf_ops = ops, pf_key_pattern = ph_key_pattern h, pf_protected_keys = protected,
        pf_attributes = attrs, pf_fixed = fixed, pf_volatile = volatile, pf_reserved_values = reserved,
        pf_inverse_identity_changes = identity, pf_rollback_evidence = string_of (field d ''rollback_evidence''),
        pf_implicit_keys = ph_implicit h, pf_undo_ops = undo_ops, pf_exact_versions = truth exact,
        pf_table_scoped_key = truth scoped, pf_create_values = create_values, pf_create_position = position,
        pf_isolated_update = isolated, pf_provisional = truth provisional, pf_value_requires = requires\<rparr>)))))))))))))))"

definition parse_profile :: "regex \<Rightarrow> json \<Rightarrow> exn + profile" where
  "parse_profile rx data = (case data of
     JObj d \<Rightarrow> then_check (parse_head rx d) (parse_rest d)
   | _ \<Rightarrow> profile_error ''profile must be an object'')"

type_synonym profiles = "(string \<times> string, profile) dict"

text \<open>\<open>load_profiles\<close> on the files of the package, sorted by name, each with the document it holds; a
  file whose text is not JSON has no document.\<close>

fun load_files :: "regex \<Rightarrow> (string \<times> json option) list \<Rightarrow> profiles \<Rightarrow> exn + profiles" where
  "load_files rx [] found = Inr found"
| "load_files rx ((name, doc) # rest) found =
     (if \<not> ends_with ''.json'' name then load_files rx rest found
      else case doc of
        None \<Rightarrow> profile_error (name @ '': not JSON'')
      | Some data \<Rightarrow>
          (case parse_profile rx data of
             Inl (OtherError c why) \<Rightarrow> if c = ''ProfileError'' then profile_error (name @ '': '' @ why) else Inl (OtherError c why)
           | Inl x \<Rightarrow> Inl x
           | Inr p \<Rightarrow>
               if (pf_platform p, pf_table p) \<in> set (keys found)
               then profile_error (''two profiles for '' @ pf_platform p @ '' '' @ pf_table p)
               else load_files rx rest (found @ [((pf_platform p, pf_table p), p)])))"

definition load_profiles :: "regex \<Rightarrow> (string \<times> json option) list \<Rightarrow> exn + profiles" where
  "load_profiles rx files = load_files rx (sort_key fst files) []"

section \<open>The profile for a firmware\<close>

definition FORTIOS_80_AUTO_SCRIPT :: string where
  "FORTIOS_80_AUTO_SCRIPT =
     ''; FortiOS 8.0 changed auto-script, which the cli-script safeguard runs: a Fortinet Technical Tip states that''
   @ '' from 8.0.1 build0185 it allows only information-gathering commands (get, diagnose), and on 8.0.2 build0251''
   @ '' it refused configuration commands with '' @ [squote] @ ''Unknown action or command is unavailable in auto-script'' @ [squote]
   @ ''. From 8.0.1''
   @ '' Admin therefore uses the webhook safeguard (an automation stitch that calls the REST API of the device),''
   @ '' on 8.0.0 the cli-script safeguard; a build is listed only after that safeguard has been measured on it''
   @ '' (docs/verified-support.md)''"

text \<open>\<open>X.Y.[0-9]+ build[0-9]+\<close> for a fixed \<open>X.Y.\<close>\<close>

definition fortios_release :: "string \<Rightarrow> string \<Rightarrow> bool" where
  "fortios_release family s \<longleftrightarrow> starts_with family s \<and>
     (let rest = drop (length family) s; build = dropWhile is_digit rest in
      takeWhile is_digit rest \<noteq> [] \<and> starts_with '' build'' build \<and> all_digits (drop 6 build))"

text \<open>\<open>33.7.[0-9]+.[0-9]+\<close>\<close>

definition exos_release :: "string \<Rightarrow> bool" where
  "exos_release s \<longleftrightarrow> starts_with ''33.7.'' s \<and>
     (case split_on CHR ''.'' (drop 5 s) of [a, b] \<Rightarrow> all_digits a \<and> all_digits b | _ \<Rightarrow> False)"

definition family_supported :: "string \<Rightarrow> profile \<Rightarrow> string \<Rightarrow> bool" where
  "family_supported platform p firmware \<longleftrightarrow> \<not> pf_exact_versions p \<and>
     (platform = ''fortios'' \<and> list_ex (starts_with ''7.6.'') (pf_versions p) \<and> fortios_release ''7.6.'' firmware
      \<or> platform = ''exos'' \<and> exos_release firmware)"

definition find_profile :: "profiles \<Rightarrow> string \<Rightarrow> string \<Rightarrow> string \<Rightarrow> exn + profile" where
  "find_profile loaded platform table firmware = (case map_of loaded (platform, table) of
     None \<Rightarrow> reject (''no profile for '' @ platform @ '' table '' @ py_repr table)
   | Some p \<Rightarrow>
       if firmware \<notin> set (pf_versions p) \<and> \<not> family_supported platform p firmware
       then reject (''profile '' @ platform @ '' '' @ py_repr table @ '' is not measured on firmware '' @ py_repr firmware
         @ '' (measured: '' @ join '', '' (pf_versions p) @ '')''
         @ (if platform = ''fortios'' \<and> fortios_release ''8.0.'' firmware then FORTIOS_80_AUTO_SCRIPT else []))
       else Inr p)"

end
