(* ===== verification/Admin_Fortios.thy ===== *)
theory Admin_Fortios
  imports Fortios_Config Admin_Profile
begin

text \<open>
  The FortiOS side of planning, \<open>netops_admin/fortios.py\<close>: snapshots and what they say about an
  object, groups and protected interfaces, the commands of a change and of its inverse, and the
  checks before a plan. Sets of names are lists without repetitions. The digest \<open>sha256\<close> is a
  parameter. Snapshots are ASCII texts, so there is no byte order mark to skip.
\<close>

section \<open>Snapshots\<close>

record fortios_snapshot =
  fs_firmware :: string
  fs_root :: node
  fs_text :: string

definition upper_digit :: "char \<Rightarrow> bool" where
  "upper_digit c \<longleftrightarrow> (65 \<le> code c \<and> code c \<le> 90) \<or> is_digit c"

text \<open>\<open>HEADER.match\<close>: the version, the build and the VDOM flag of a \<open>#config-version\<close> line\<close>

definition header_match :: "string \<Rightarrow> (string \<times> string \<times> string) option" where
  "header_match s =
     Option.bind (eat ''#config-version='' s) (\<lambda>s.
     Option.bind (eat_run upper_digit s) (\<lambda>(_, s).
     Option.bind (eat ''-'' s) (\<lambda>s.
     Option.bind (eat_run is_digit s) (\<lambda>(a, s). Option.bind (eat ''.'' s) (\<lambda>s.
     Option.bind (eat_run is_digit s) (\<lambda>(b, s). Option.bind (eat ''.'' s) (\<lambda>s.
     Option.bind (eat_run is_digit s) (\<lambda>(c, s).
     Option.bind (eat ''-FW-build'' s) (\<lambda>s. Option.bind (eat_run is_digit s) (\<lambda>(build, s).
     Option.bind (eat ''-'' s) (\<lambda>s. Option.bind (eat_run is_digit s) (\<lambda>(_, s).
     Option.bind (eat '':opmode='' s) (\<lambda>s. Option.bind (eat_run is_digit s) (\<lambda>(_, s).
     Option.bind (eat '':vdom='' s) (\<lambda>s. Option.bind (eat_run is_digit s) (\<lambda>(vdom, _).
     Some (a @ ''.'' @ b @ ''.'' @ c, build, vdom)))))))))))))))))"

definition first_line :: "string \<Rightarrow> string" where
  "first_line s = strip (hd (split_on newline s))"

definition snapshot_firmware :: "string \<Rightarrow> string option" where
  "snapshot_firmware s = map_option (\<lambda>(version, build, _). version @ '' build'' @ build) (header_match (first_line s))"

definition MULTI_VDOM_SECTIONS :: "string list" where "MULTI_VDOM_SECTIONS = [''vdom'', ''global'']"

text \<open>\<open>parse_snapshot\<close>\<close>

definition parse_snapshot :: "string \<Rightarrow> exn + node" where
  "parse_snapshot s = (case parse s of
     Inr n \<Rightarrow> Inr n
   | Inl (TruncatedError why _) \<Rightarrow> Inl (SnapshotRejected [''snapshot is cut off: '' @ why] ''snapshot incomplete'')
   | Inl (ParseError why) \<Rightarrow> Inl (SnapshotRejected [''snapshot does not parse: '' @ why] ''snapshot unreadable''))"

text \<open>\<open>Snapshot.__init__\<close>\<close>

definition fortios_load :: "string \<Rightarrow> string option \<Rightarrow> exn + fortios_snapshot" where
  "fortios_load s firmware = (case header_match (first_line s) of
     None \<Rightarrow> Inl (SnapshotRejected [''snapshot does not identify its firmware: the #config-version header is missing'']
       ''snapshot incomplete'')
   | Some (version, build, vdom) \<Rightarrow>
       let own = version @ '' build'' @ build in
       if firmware \<noteq> None \<and> firmware \<noteq> Some own
       then Inl (SnapshotRejected [''snapshot firmware '' @ py_repr own @ '' differs from the expected '' @ py_repr (the firmware)]
         ''snapshot firmware mismatch'')
       else if vdom \<noteq> ''0''
       then Inl (SnapshotRejected [''snapshot has VDOMs enabled; only single-VDOM configurations are evaluated'']
         ''snapshot scope unsupported'')
       else then_check (parse_snapshot s) (\<lambda>root.
         let present = filter (\<lambda>n. n \<in> set (keys (n_sub root))) MULTI_VDOM_SECTIONS in
         if present \<noteq> []
         then Inl (SnapshotRejected [''snapshot holds '' @ join '', '' present @ '' sections that this profile does not evaluate'']
           ''snapshot scope unsupported'')
         else Inr \<lparr>fs_firmware = own, fs_root = root, fs_text = s\<rparr>))"

text \<open>\<open>_named_values\<close>: the values that can name objects\<close>

definition UNNAMED_PARTS :: "string list" where
  "UNNAMED_PARTS = [''password'', ''passwd'', ''passphrase'', ''pwd'', ''secret'', ''psk'', ''key'', ''community'', ''token'',
     ''comment'', ''description'']"

definition named_values :: "node \<Rightarrow> (string \<times> string list) list" where
  "named_values n = map (\<lambda>(name, a). (name, a_values a)) (filter (\<lambda>(name, _).
     \<not> (list_ex (\<lambda>part. contains part (casefold name)) UNNAMED_PARTS
        \<or> take 1 (n_path n) = [''system snmp community''] \<and> name = ''name'')) (n_attrs n))"

text \<open>\<open>_walk\<close>: the nodes of a tree, in the order the stack yields them\<close>

fun walk :: "node \<Rightarrow> node list" and walk_all :: "(string \<times> node) list \<Rightarrow> node list" where
  "walk (Node p l as ss es ct) = Node p l as ss es ct # walk_all es @ walk_all ss"
| "walk_all [] = []"
| "walk_all ((k, n) # ns) = walk_all ns @ walk n"

definition DHCP_TABLE :: string where "DHCP_TABLE = ''system dhcp server/reserved-address''"

definition reservations :: "(string \<times> node) list \<Rightarrow> (string, node) dict" where
  "reservations servers = update_all (concat (map (\<lambda>(sid, server).
     case node_section server ''reserved-address'' of
       None \<Rightarrow> []
     | Some section \<Rightarrow> map (\<lambda>(rid, n). (sid @ '':'' @ rid, n)) (n_entries section)) servers)) []"

definition fortios_entries :: "fortios_snapshot \<Rightarrow> string \<Rightarrow> (string, node) dict option" where
  "fortios_entries snap table =
     (if table = DHCP_TABLE
      then map_option (\<lambda>servers. reservations (n_entries servers)) (node_section (fs_root snap) ''system dhcp server'')
      else map_option n_entries (map_of (n_sub (fs_root snap)) table))"

text \<open>\<open>_repetitions\<close>: what the dictionaries of the tree cannot show, entries and attributes given twice\<close>

record repetitions =
  rp_found :: "(string list, string list) dict"
  rp_stack :: "string list list"
  rp_entries :: "string list list"
  rp_attributes :: "(string list \<times> string) list"

definition note_repetition :: "string list \<Rightarrow> string \<Rightarrow> repetitions \<Rightarrow> repetitions" where
  "note_repetition path what r = r\<lparr>rp_found := AList.update path
     ((case map_of (rp_found r) path of None \<Rightarrow> [] | Some whats \<Rightarrow> whats) @ [what]) (rp_found r)\<rparr>"

definition repetition_step :: "nat \<times> string \<Rightarrow> repetitions \<Rightarrow> repetitions" where
  "repetition_step numbered_line r =
     (let number = fst numbered_line; line = strip (snd numbered_line) in
      if line = [] \<or> starts_with ''#'' line then r
      else case tokenize line of
        [] \<Rightarrow> r
      | command # words \<Rightarrow>
          let here = hd (rp_stack r) in
          if command = ''config'' then r\<lparr>rp_stack := (here @ [join '' '' words]) # rp_stack r\<rparr>
          else if command = ''edit''
          then (let path = here @ [case words of [] \<Rightarrow> [] | w # _ \<Rightarrow> w];
                    r = (if path \<in> set (rp_entries r) then note_repetition path (''line '' @ show_nat number @ '': repeated edit'') r else r)
                in r\<lparr>rp_entries := path # rp_entries r, rp_stack := path # rp_stack r\<rparr>)
          else if command \<in> {''set'', ''unset''} \<and> words \<noteq> []
          then (let name = hd words;
                    r = (if (here, name) \<in> set (rp_attributes r)
                         then note_repetition here (''line '' @ show_nat number @ '': repeated '' @ name) r else r)
                in r\<lparr>rp_attributes := (here, name) # rp_attributes r\<rparr>)
          else if command \<in> {''next'', ''end''} \<and> length (rp_stack r) > 1 then r\<lparr>rp_stack := tl (rp_stack r)\<rparr>
          else r)"

definition repeated :: "string \<Rightarrow> (string list, string list) dict" where
  "repeated s = rp_found (foldl (\<lambda>r l. repetition_step l r)
     \<lparr>rp_found = [], rp_stack = [[]], rp_entries = [], rp_attributes = []\<rparr> (fst (logical_lines s)))"

definition fortios_entry_state ::
  "fortios_snapshot \<Rightarrow> node \<Rightarrow> string list \<Rightarrow> attributes \<times> string list" where
  "fortios_entry_state snap entry list_names =
     (map (\<lambda>(name, a). (name, attr_value a)) (filter (\<lambda>(_, a). \<not> a_unset a) (n_attrs entry)),
      map (\<lambda>name. name @ '': a list item holds whitespace'') (filter (\<lambda>name.
         case map_of (n_attrs entry) name of None \<Rightarrow> False | Some a \<Rightarrow> list_ex (list_ex is_space) (a_values a)) list_names)
      @ (if n_sub entry \<noteq> [] \<or> n_entries entry \<noteq> [] then [''nested configuration''] else [])
      @ map (\<lambda>(name, _). ''unset '' @ name) (filter (\<lambda>(_, a). a_unset a) (n_attrs entry))
      @ (case map_of (repeated (fs_text snap)) (n_path entry) of None \<Rightarrow> [] | Some whats \<Rightarrow> whats))"

definition fortios_references :: "fortios_snapshot \<Rightarrow> string \<Rightarrow> string \<Rightarrow> string list" where
  "fortios_references snap table key =
     (if table = DHCP_TABLE then []
      else sort (concat (map (\<lambda>n.
        if take 2 (n_path n) = [table, key] then []
        else map (\<lambda>(name, _). (if n_path n = [] then ''(top)'' else join '' / '' (n_path n)) @ '': '' @ name)
          (filter (\<lambda>(_, vals). list_ex (\<lambda>v. casefold v = casefold key) vals) (named_values n))) (walk (fs_root snap)))))"

definition fortios_in_use :: "fortios_snapshot \<Rightarrow> string \<Rightarrow> bool" where
  "fortios_in_use snap key \<longleftrightarrow> list_ex (\<lambda>n.
     list_ex (\<lambda>e. casefold e = casefold key) (keys (n_entries n))
     \<or> list_ex (\<lambda>(_, vals). list_ex (\<lambda>v. casefold v = casefold key) vals) (named_values n)) (walk (fs_root snap))"

section \<open>The digest of the rest of the configuration\<close>

definition fortios_safeguard_names :: "string \<Rightarrow> (string, string) dict" where
  "fortios_safeguard_names change_id = (let base = ''netops-sg-'' @ take 12 change_id in
     [(''action'', base @ ''-a''), (''trigger'', base @ ''-t''), (''stitch'', base @ ''-s'')])"

definition webhook_names :: "string \<Rightarrow> (string, string) dict" where
  "webhook_names change_id = (let base = ''netops-sg-'' @ take 12 change_id in
     [(''api-user'', base @ ''-u''), (''accprofile'', base @ ''-p'')])"

definition opaque :: "string list \<Rightarrow> string \<Rightarrow> string list \<Rightarrow> string list" where
  "opaque path name vals =
     (if (take 1 path = [''vpn certificate local''] \<and> name \<in> {''password'', ''private-key''}
          \<or> take 1 path = [''wireless-controller vap''] \<and> name = ''sae-password'')
         \<and> length vals = 2 \<and> hd vals = ''ENC''
      then [''ENC'', ''<opaque-ciphertext>''] else vals)"

definition canonical_attrs :: "string list \<Rightarrow> (string \<times> attr) list \<Rightarrow> (string \<times> json) list" where
  "canonical_attrs path as = map (\<lambda>(name, a).
     (name, JArr [JArr (map JStr (opaque path name (a_values a))), JBool (a_unset a)])) as"

definition json_fields :: "json \<Rightarrow> (string \<times> json) list" where
  "json_fields v = (case v of JObj fs \<Rightarrow> fs | _ \<Rightarrow> [])"

text \<open>\<open>any(body.values())\<close> for the body of a node\<close>

definition body_empty :: "json \<Rightarrow> bool" where
  "body_empty v \<longleftrightarrow> list_all (\<lambda>(_, part). part = JObj [] \<or> part = JArr []) (json_fields v)"

definition omitted_section :: "string \<Rightarrow> json \<Rightarrow> bool" where
  "omitted_section name body \<longleftrightarrow>
     (starts_with ''system automation-'' name \<or> name \<in> {''reserved-address'', ''system api-user''}) \<and> body_empty body"

definition unordered_table :: "string list \<Rightarrow> bool" where
  "unordered_table path \<longleftrightarrow> path = [''firewall address''] \<or> path = [''firewall addrgrp''] \<or>
     path \<noteq> [] \<and> last path = ''reserved-address''"

fun canonical :: "string list \<Rightarrow> (string \<times> string) list \<Rightarrow> node \<Rightarrow> json"
and canonical_subs :: "string list \<Rightarrow> (string \<times> string) list \<Rightarrow> (string \<times> node) list \<Rightarrow> (string \<times> json) list"
and canonical_entries ::
  "string list \<Rightarrow> (string \<times> string) list \<Rightarrow> string list \<Rightarrow> (string \<times> node) list \<Rightarrow> (string \<times> json) list"
where
  "canonical target ignored (Node p l as ss es ct) = JObj [
     (''attributes'', JObj (canonical_attrs p as)),
     (''sections'', JObj (canonical_subs target ignored ss)),
     (''entries'', JArr (map (\<lambda>(name, body). JArr [JStr name, body])
        (let items = canonical_entries target ignored p es in if unordered_table p then sort_key fst items else items)))]"
| "canonical_subs target ignored [] = []"
| "canonical_subs target ignored ((name, n) # ss) =
     (let body = canonical target ignored n in
      if omitted_section name body then canonical_subs target ignored ss
      else (name, body) # canonical_subs target ignored ss)"
| "canonical_entries target ignored p [] = []"
| "canonical_entries target ignored p ((name, n) # es) =
     (if n_path n = target \<or> length p = 1 \<and> (hd p, name) \<in> set ignored then canonical_entries target ignored p es
      else (name, canonical target ignored n) # canonical_entries target ignored p es)"

definition two_parts :: "string \<Rightarrow> exn + string \<times> string" where
  "two_parts key = (case split_on CHR '':'' key of [a, b] \<Rightarrow> Inr (a, b) | _ \<Rightarrow> Inl (OtherError ''ValueError'' ''''))"

definition target_path :: "string \<Rightarrow> string \<Rightarrow> exn + string list" where
  "target_path table key =
     (if table = DHCP_TABLE
      then then_check (two_parts key) (\<lambda>(sid, rid). Inr [''system dhcp server'', sid, ''reserved-address'', rid])
      else Inr [table, key])"

definition own_safeguards :: "string option \<Rightarrow> (string \<times> string) list" where
  "own_safeguards safeguard_id = (case safeguard_id of
     None \<Rightarrow> []
   | Some c \<Rightarrow> if c = [] then []
       else map (\<lambda>(kind, name). (''system automation-'' @ kind, name)) (fortios_safeguard_names c)
         @ map (\<lambda>(kind, name). (''system '' @ kind, name)) (webhook_names c))"

definition fortios_rest_digest ::
  "(string \<Rightarrow> string) \<Rightarrow> fortios_snapshot \<Rightarrow> string \<Rightarrow> string \<Rightarrow> string option \<Rightarrow> exn + string" where
  "fortios_rest_digest sha256 snap table key safeguard_id = then_check (target_path table key) (\<lambda>target.
     Inr (sha256 (json_compact (canonical target (own_safeguards safeguard_id) (fs_root snap)))))"

section \<open>Address groups\<close>

definition GROUP_MEMBERS :: "string list" where "GROUP_MEMBERS = [''member'', ''exclude-member'']"

definition fortios_absent :: "string \<Rightarrow> string list" where
  "fortios_absent key = [''object '' @ py_repr key @ '' does not exist'']"

text \<open>\<open>_group_members\<close>\<close>

definition group_members :: "(string, node) dict \<Rightarrow> (string, string list) dict" where
  "group_members entries = map (\<lambda>(name, entry). (name, remdups (concat (map (\<lambda>attribute.
     case map_of (n_attrs entry) attribute of None \<Rightarrow> [] | Some a \<Rightarrow> map casefold (a_values a)) GROUP_MEMBERS)))) entries"

definition members_of :: "(string, string list) dict \<Rightarrow> string \<Rightarrow> string list" where
  "members_of groups name = (case map_of groups name of None \<Rightarrow> [] | Some ms \<Rightarrow> ms)"

text \<open>The loop of \<open>member_closure\<close>; the stack of pending names has its top first.\<close>

function member_loop :: "(string, string list) dict \<Rightarrow> string list \<Rightarrow> string list \<Rightarrow> string list" where
  "member_loop groups found [] = found"
| "member_loop groups found (name # pending) =
     (let new = filter (\<lambda>item. item \<notin> set found) (remdups (members_of groups name))
      in member_loop groups (found @ new) (rev new @ pending))"
  by pat_completeness auto

definition all_members :: "(string, string list) dict \<Rightarrow> string set" where
  "all_members groups = set (concat (map snd groups))"

lemma members_of_all: "set (members_of groups name) \<subseteq> all_members groups"
  by (cases "map_of groups name") (force simp: members_of_def all_members_def dest: map_of_SomeD)+

lemma finite_all_members [simp]: "finite (all_members groups)"
  by (simp add: all_members_def)

lemma fewer_left:
  assumes "x \<in> A" and "x \<in> set new" and "x \<notin> set found" and "finite A"
  shows "card (A - (set found \<union> set new)) < card (A - set found)"
  using assms by (intro psubset_card_mono) auto

termination member_loop
proof (relation "measures [\<lambda>(groups, found, pending). card (all_members groups - set found), \<lambda>(groups, found, pending). length pending]")
  fix groups found name pending new
  assume new: "new = filter (\<lambda>item. item \<notin> set found) (remdups (members_of groups name))"
  show "((groups, found @ new, rev new @ pending), groups, found, name # pending)
    \<in> measures [\<lambda>(groups, found, pending). card (all_members groups - set found), \<lambda>(groups, found, pending). length pending]"
  proof (cases new)
    case (Cons x xs)
    then have "x \<in> set new" by simp
    moreover have "x \<notin> set found" "x \<in> all_members groups"
      using new \<open>x \<in> set new\<close> members_of_all [of groups name] by auto
    ultimately show ?thesis using fewer_left [of x "all_members groups" new found] by simp
  qed simp
qed simp

definition member_closure :: "(string, node) dict option \<Rightarrow> string list \<Rightarrow> string list" where
  "member_closure entries names =
     (let groups = rev (map (\<lambda>(name, ms). (casefold name, ms)) (group_members (case entries of None \<Rightarrow> [] | Some es \<Rightarrow> es)))
      in member_loop groups [] (rev (map casefold names)))"

text \<open>The loop of \<open>containing_groups\<close>\<close>

function containing_loop :: "(string, string list) dict \<Rightarrow> string list \<Rightarrow> string list \<Rightarrow> string list" where
  "containing_loop groups found [] = found"
| "containing_loop groups found (inner # pending) =
     (let new = filter (\<lambda>name. name \<notin> set found) (remdups (map fst (filter (\<lambda>(_, ms). inner \<in> set ms) groups)))
      in containing_loop groups (found @ new) (rev (map casefold new) @ pending))"
  by pat_completeness auto

termination containing_loop
proof (relation "measures [\<lambda>(groups, found, pending). card (fst ` set groups - set found), \<lambda>(groups, found, pending). length pending]")
  fix groups :: "(string, string list) dict" and found inner pending new
  assume new: "new = filter (\<lambda>name. name \<notin> set found) (remdups (map fst (filter (\<lambda>(_, ms). inner \<in> set ms) groups)))"
  show "((groups, found @ new, rev (map casefold new) @ pending), groups, found, inner # pending)
    \<in> measures [\<lambda>(groups, found, pending). card (fst ` set groups - set found), \<lambda>(groups, found, pending). length pending]"
  proof (cases new)
    case (Cons x xs)
    then have "x \<in> set new" by simp
    moreover have "x \<notin> set found" "x \<in> fst ` set groups" using new \<open>x \<in> set new\<close> by auto
    ultimately show ?thesis using fewer_left [of x "fst ` set groups" new found] by simp
  qed simp
qed simp

definition containing_groups :: "(string, node) dict option \<Rightarrow> string \<Rightarrow> string list" where
  "containing_groups entries key = (case entries of
     None \<Rightarrow> containing_loop [] [] [casefold key]
   | Some es \<Rightarrow> containing_loop (group_members es) [] [casefold key])"

section \<open>Commands\<close>

definition is_control :: "char \<Rightarrow> bool" where
  "is_control c \<longleftrightarrow> code c < 32 \<or> code c = 127"

text \<open>\<open>typed\<close>: a question mark is entered after Ctrl-V\<close>

definition typed :: "string \<Rightarrow> string" where
  "typed line = replace_char CHR ''?'' [CHR 0x16, CHR ''?''] line"

text \<open>\<open>_quoted\<close>\<close>

definition quoted :: "string \<Rightarrow> exn + string" where
  "quoted v = (if list_ex is_control v
     then reject ''a value holds a control character and cannot be written safely'' else Inr (quote v))"

fun quoted_all :: "string list \<Rightarrow> exn + string list" where
  "quoted_all [] = Inr []"
| "quoted_all (v # vs) = then_check (quoted v) (\<lambda>q. then_check (quoted_all vs) (\<lambda>qs. Inr (q # qs)))"

text \<open>\<open>_value\<close>\<close>

definition rendered_value :: "profile \<Rightarrow> string \<Rightarrow> string \<Rightarrow> exn + string" where
  "rendered_value prof name v = (case map_of (pf_attributes prof) name of
     None \<Rightarrow> Inl (OtherError ''KeyError'' name)
   | Some a \<Rightarrow>
       if at_type a = NameList then then_check (quoted_all (split_ws v)) (\<lambda>qs. Inr (join '' '' qs))
       else if at_type a = TextType then quoted v
       else Inr v)"

text \<open>\<open>_context\<close>\<close>

definition edit_context :: "profile \<Rightarrow> string \<Rightarrow> exn + string list \<times> string \<times> string list" where
  "edit_context prof key =
     (if pf_table prof = DHCP_TABLE
      then then_check (two_parts key) (\<lambda>(sid, rid).
        Inr ([''config system dhcp server'', ''edit '' @ sid, ''config reserved-address''], rid, [''end'', ''next'', ''end'']))
      else then_check (quoted key) (\<lambda>q. Inr ([''config '' @ pf_table prof], q, [''end''])))"

fun set_lines :: "profile \<Rightarrow> (string \<times> string) list \<Rightarrow> exn + string list" where
  "set_lines prof [] = Inr []"
| "set_lines prof ((name, v) # rest) = then_check (rendered_value prof name v) (\<lambda>r.
     then_check (set_lines prof rest) (\<lambda>ls. Inr ((''        set '' @ name @ '' '' @ r) # ls)))"

definition fortios_render_create :: "profile \<Rightarrow> string \<Rightarrow> attributes \<Rightarrow> exn + string list" where
  "fortios_render_create prof key assign = then_check (edit_context prof key) (\<lambda>(before, local_key, after).
     then_check (set_lines prof (sort_key fst assign)) (\<lambda>sets.
     Inr (before @ [''    edit '' @ local_key] @ sets @ [''    next''] @ after)))"

definition fortios_render_update :: "profile \<Rightarrow> string \<Rightarrow> attributes \<Rightarrow> string list \<Rightarrow> exn + string list" where
  "fortios_render_update prof key assign remove = then_check (edit_context prof key) (\<lambda>(before, local_key, after).
     then_check (set_lines prof (sort_key fst assign)) (\<lambda>sets.
     Inr (before @ [''    edit '' @ local_key] @ sets @ map (\<lambda>name. ''        unset '' @ name) (sort remove)
       @ [''    next''] @ after)))"

definition fortios_render_delete :: "profile \<Rightarrow> string \<Rightarrow> exn + string list" where
  "fortios_render_delete prof key = then_check (edit_context prof key) (\<lambda>(before, local_key, after).
     Inr (before @ [''    delete '' @ local_key] @ after))"

section \<open>Checks before a plan\<close>

definition names_in :: "fortios_snapshot \<Rightarrow> string \<Rightarrow> string list" where
  "names_in snap table = (case fortios_entries snap table of None \<Rightarrow> [] | Some es \<Rightarrow> keys es)"

definition state_words :: "attributes option \<Rightarrow> string \<Rightarrow> string list" where
  "state_words side name = (case side of None \<Rightarrow> []
     | Some d \<Rightarrow> (case map_of d name of None \<Rightarrow> [] | Some v \<Rightarrow> split_ws v))"

definition group_prechecks :: "fortios_snapshot \<Rightarrow> attributes option \<Rightarrow> string list" where
  "group_prechecks snap after =
     (if state_words after ''member'' = [] then [''a static address group must retain at least one member'']
      else if set (state_words after ''member'') - (set (names_in snap ''firewall address'') \<union> set (names_in snap ''firewall addrgrp'')) \<noteq> {}
      then [''the group names a member missing from the visible snapshot''] else [])"

text \<open>The subnet of the server and the address of the reservation; errors of \<open>ipaddress\<close> and a missing
  address have one answer.\<close>

definition reservation_check :: "node \<Rightarrow> attributes \<Rightarrow> string list" where
  "reservation_check server after =
     (let refused = [''the DHCP reservation subnet cannot be evaluated''] in
      case parse_ip (the (node_value server ''default-gateway'' (Some []))) of
        None \<Rightarrow> refused
      | Some gateway \<Rightarrow>
        (case parse_network False (show_ip gateway @ ''/'' @ the (node_value server ''netmask'' (Some []))) of
           None \<Rightarrow> refused
         | Some net \<Rightarrow>
           (case Option.bind (map_of after ''ip'') parse_ip of
              None \<Rightarrow> refused
            | Some address \<Rightarrow>
                if \<not> in_network address net \<or> address \<in> {fst net, broadcast_address net, gateway}
                then [''the reservation must be a usable address in the DHCP subnet''] else [])))"

text \<open>\<open>int(v)\<close> on a text of digits; another text raises\<close>

definition int_text :: "string \<Rightarrow> exn + nat" where
  "int_text s = (if all_digits s then Inr (int_of s) else Inl (OtherError ''ValueError'' s))"

definition dhcp_prechecks :: "fortios_snapshot \<Rightarrow> string \<Rightarrow> attributes option \<Rightarrow> exn + string list" where
  "dhcp_prechecks snap key after = then_check (two_parts key) (\<lambda>(sid, rid).
     then_check (int_text sid) (\<lambda>s. then_check (if s > 4294967295 then Inr 0 else int_text rid) (\<lambda>r.
     if s > 4294967295 \<or> r > 4294967295 then Inr [''DHCP IDs exceed the supported range'']
     else case Option.bind (node_section (fs_root snap) ''system dhcp server'') (\<lambda>servers. map_of (n_entries servers) sid) of
       None \<Rightarrow> Inr [''the DHCP server must exist, be enabled and have regular type'']
     | Some server \<Rightarrow>
         if node_value server ''status'' (Some ''enable'') \<noteq> Some ''enable''
            \<or> node_value server ''server-type'' (Some ''regular'') \<noteq> Some ''regular''
         then Inr [''the DHCP server must exist, be enabled and have regular type'']
         else Inr (case after of None \<Rightarrow> [] | Some state \<Rightarrow> if state = [] then [] else reservation_check server state))))"

definition fortios_prechecks :: "fortios_snapshot \<Rightarrow> profile \<Rightarrow> string \<Rightarrow> attributes option \<Rightarrow> exn + string list" where
  "fortios_prechecks snap prof key after =
     (if pf_table prof = ''firewall addrgrp'' then Inr (group_prechecks snap after)
      else if pf_table prof = DHCP_TABLE then dhcp_prechecks snap key after
      else Inr [])"

section \<open>Firewall policies and protected interfaces\<close>

definition POLICYID_MAX :: nat where "POLICYID_MAX = 4294967294"
definition SAFEGUARD_SCRIPT_LIMIT :: nat where "SAFEGUARD_SCRIPT_LIMIT = 1023"
definition MISSING_OBJECT :: string where "MISSING_OBJECT = ''the policy names an object missing from the visible snapshot''"
definition SDWAN_DEFAULT_ZONE :: string where "SDWAN_DEFAULT_ZONE = ''virtual-wan-link''"

definition POLICY_REFERENCES :: "(string \<times> string list \<times> string list) list" where
  "POLICY_REFERENCES = [
     (''srcaddr'', [''firewall address'', ''firewall addrgrp''], [''all'']),
     (''dstaddr'', [''firewall address'', ''firewall addrgrp''], [''all'']),
     (''service'', [''firewall service custom'', ''firewall service group''], []),
     (''schedule'', [''firewall schedule onetime'', ''firewall schedule recurring'', ''firewall schedule group''], [''always''])]"

definition sdwan_zone_names :: "fortios_snapshot \<Rightarrow> string list" where
  "sdwan_zone_names snap = (case Option.bind (node_section (fs_root snap) ''system sdwan'') (\<lambda>n. node_section n ''zone'') of
     None \<Rightarrow> [] | Some zones \<Rightarrow> keys (n_entries zones))"

definition sdwan_members :: "fortios_snapshot \<Rightarrow> (string, string) dict" where
  "sdwan_members snap = (case Option.bind (node_section (fs_root snap) ''system sdwan'') (\<lambda>n. node_section n ''members'') of
     None \<Rightarrow> []
   | Some ms \<Rightarrow> foldl (\<lambda>d (_, entry). case node_value entry ''interface'' None of
        None \<Rightarrow> d
      | Some interface \<Rightarrow> if interface = [] then d
          else AList.update interface (the (node_value entry ''zone'' (Some SDWAN_DEFAULT_ZONE))) d) [] (n_entries ms))"

definition related_names :: "node \<Rightarrow> string list" where
  "related_names entry = (case node_value entry ''interface'' None of
       None \<Rightarrow> [] | Some parent \<Rightarrow> if parent = [] then [] else [parent]) @ node_values entry ''member''"

text \<open>One pass over the interfaces, as the inner loop of \<open>protected_closure\<close> makes it: a name found
  earlier in the pass counts for the later ones.\<close>

fun closure_pass :: "(string \<times> node) list \<Rightarrow> string list \<Rightarrow> string list" where
  "closure_pass [] folded = folded"
| "closure_pass ((name, entry) # rest) folded =
     closure_pass rest (if casefold name \<notin> set folded \<and> list_ex (\<lambda>item. casefold item \<in> set folded) (related_names entry)
       then folded @ [casefold name] else folded)"

definition interface_names :: "(string \<times> node) list \<Rightarrow> string set" where
  "interface_names interfaces = (\<lambda>(name, _). casefold name) ` set interfaces"

lemma closure_pass_grows:
  "\<exists>new. closure_pass interfaces folded = folded @ new \<and> set new \<subseteq> interface_names interfaces \<and> set new \<inter> set folded = {}"
proof (induction interfaces arbitrary: folded)
  case (Cons i rest)
  obtain name entry where i: "i = (name, entry)" by fastforce
  show ?case
  proof (cases "casefold name \<notin> set folded \<and> list_ex (\<lambda>item. casefold item \<in> set folded) (related_names entry)")
    case True
    then show ?thesis using Cons.IH [of "folded @ [casefold name]"] by (auto simp: i interface_names_def)
  next
    case False
    then have "closure_pass (i # rest) folded = closure_pass rest folded" by (auto simp: i)
    then show ?thesis using Cons.IH [of folded] by (auto simp: interface_names_def)
  qed
qed simp

text \<open>\<open>while changed\<close>: passes are repeated until one finds nothing.\<close>

function closure_loop :: "(string \<times> node) list \<Rightarrow> string list \<Rightarrow> string list" where
  "closure_loop interfaces folded =
     (let next_names = closure_pass interfaces folded
      in if length next_names = length folded then folded else closure_loop interfaces next_names)"
  by pat_completeness auto

termination closure_loop
proof (relation "measure (\<lambda>(interfaces, folded). card (interface_names interfaces - set folded))")
  fix interfaces :: "(string \<times> node) list" and folded :: "string list" and next_names
  assume "next_names = closure_pass interfaces folded" and "length next_names \<noteq> length folded"
  then obtain x new where new: "next_names = folded @ x # new" "x \<in> interface_names interfaces" "x \<notin> set folded"
    using closure_pass_grows [of interfaces folded] by (cases "drop (length folded) next_names") auto
  have "finite (interface_names interfaces)" by (simp add: interface_names_def)
  then show "((interfaces, next_names), interfaces, folded) \<in> measure (\<lambda>(interfaces, folded). card (interface_names interfaces - set folded))"
    using fewer_left [of x "interface_names interfaces" "x # new" folded] new by simp
qed simp

declare closure_loop.simps [simp del]

definition table_items :: "fortios_snapshot \<Rightarrow> string \<Rightarrow> (string \<times> node) list" where
  "table_items snap table = (case fortios_entries snap table of None \<Rightarrow> [] | Some es \<Rightarrow> es)"

definition protected_closure :: "fortios_snapshot \<Rightarrow> string list \<Rightarrow> string list" where
  "protected_closure snap protected =
     closure_loop (table_items snap ''system interface'' @ table_items snap ''system switch-interface'') (remdups (map casefold protected))"

definition blocked_interfaces :: "fortios_snapshot \<Rightarrow> string list \<Rightarrow> string list" where
  "blocked_interfaces snap protected = (let closure = protected_closure snap protected in
     closure @ [''any'']
     @ map (\<lambda>(name, _). casefold name) (filter (\<lambda>(_, entry). list_ex (\<lambda>item. casefold item \<in> set closure) (node_values entry ''interface''))
         (table_items snap ''system zone''))
     @ map (\<lambda>(_, zone). casefold zone) (filter (\<lambda>(interface, _). casefold interface \<in> set closure) (sdwan_members snap)))"

definition protected_exposure :: "fortios_snapshot \<Rightarrow> string list \<Rightarrow> string list \<Rightarrow> string list" where
  "protected_exposure snap protected names = sort (filter (\<lambda>name. casefold name \<in> set (blocked_interfaces snap protected)) names)"

text \<open>\<open>_script_lines\<close>, \<open>_escaped\<close> and the length of the script of a safeguard\<close>

definition PLACEHOLDERS :: string where
  "PLACEHOLDERS = ''automation placeholders cannot be restored as literal values by the timed safeguard''"

definition script_lines :: "string list \<Rightarrow> exn + string list" where
  "script_lines undoing = (if list_ex (contains ''%%'') undoing then reject PLACEHOLDERS else Inr (map strip undoing))"

definition safeguard_script_length :: "string list \<Rightarrow> exn + nat" where
  "safeguard_script_length undoing = then_check (script_lines undoing) (\<lambda>ls. Inr (length (join [newline] (map escape ls))))"

definition missing_reference :: "fortios_snapshot \<Rightarrow> attributes \<Rightarrow> bool" where
  "missing_reference snap after = list_ex (\<lambda>(attribute, tables, extra).
     list_ex (\<lambda>name. name \<notin> set extra \<and> list_all (\<lambda>table. name \<notin> set (names_in snap table)) tables)
       (state_words (Some after) attribute)) POLICY_REFERENCES"

definition missing_interface :: "fortios_snapshot \<Rightarrow> attributes \<Rightarrow> bool" where
  "missing_interface snap after = list_ex (\<lambda>attribute. list_ex (\<lambda>name.
     name \<notin> set (names_in snap ''system interface'' @ names_in snap ''system zone'' @ sdwan_zone_names snap) \<and> name \<noteq> ''any'')
       (state_words (Some after) attribute)) [''srcintf'', ''dstintf'']"

definition policy_missing :: "fortios_snapshot \<Rightarrow> attributes option \<Rightarrow> string list" where
  "policy_missing snap after = (case after of
     None \<Rightarrow> []
   | Some state \<Rightarrow> if state \<noteq> [] \<and> (missing_reference snap state \<or> missing_interface snap state) then [MISSING_OBJECT] else [])"

definition policy_touched :: "fortios_snapshot \<Rightarrow> string list \<Rightarrow> attributes option \<Rightarrow> attributes option \<Rightarrow> string list" where
  "policy_touched snap guarded before after = protected_exposure snap guarded
     (concat (map (\<lambda>side. state_words side ''srcintf'' @ state_words side ''dstintf'') [before, after]))"

definition policy_prechecks ::
  "fortios_snapshot \<Rightarrow> string \<Rightarrow> string \<Rightarrow> attributes option \<Rightarrow> attributes option \<Rightarrow> string list
   \<Rightarrow> (string, string list) dict \<Rightarrow> exn + string list" where
  "policy_prechecks snap op key before after undoing protected =
     then_check (if op = ''create'' then int_text key else Inr 0) (\<lambda>number.
     let guarded = (case map_of protected ''system interface'' of None \<Rightarrow> [] | Some names \<Rightarrow> names);
         reasons = (if op = ''create'' \<and> number > POLICYID_MAX then [''the policy id exceeds '' @ show_nat POLICYID_MAX] else [])
           @ map (\<lambda>name. ''protected interface '' @ name @ '' is missing from the snapshot'')
               (filter (\<lambda>name. name \<notin> set (names_in snap ''system interface'')) guarded)
           @ policy_missing snap after;
         touched = (if guarded \<noteq> [] \<and> reasons = [] then policy_touched snap guarded before after else []) in
     then_check (safeguard_script_length undoing) (\<lambda>len.
     Inr (reasons
       @ (if touched \<noteq> [] then [''the policy touches the management path of the protected interfaces: ''
            @ join '', '' (map py_repr (sort (remdups touched)))] else [])
       @ (if op = ''delete'' \<and> (names_in snap ''firewall policy'' = [] \<or> last (names_in snap ''firewall policy'') \<noteq> key)
          then [''the policy is no longer the last policy; recreating it would change the policy order''] else [])
       @ (if len > SAFEGUARD_SCRIPT_LIMIT then [''the inverse exceeds the safeguard script limit''] else []))))"

end
