(* ===== verification/Admin_Fortios_Guard.thy ===== *)
theory Admin_Fortios_Guard
  imports Admin_Fortios
begin

text \<open>
  The safeguards of FortiOS, \<open>netops_admin/fortios.py\<close> from line 409: the automation stitch that
  restores the state before a change at a set time, as a CLI script or as a call of the REST API,
  its rendering, the reading of what the device shows of it, and its removal; and the answers about
  the clock, the administrators, the sessions and an object.
\<close>

section \<open>The cli-script safeguard\<close>

definition name_of :: "(string, string) dict \<Rightarrow> string \<Rightarrow> string" where
  "name_of names part = (case map_of names part of None \<Rightarrow> [] | Some n \<Rightarrow> n)"

definition in_quotes :: "string \<Rightarrow> string" where
  "in_quotes name = [dquote] @ name @ [dquote]"

definition trigger_lines :: "(string, string) dict \<Rightarrow> string \<Rightarrow> string list" where
  "trigger_lines names fire_at = [
     ''config system automation-trigger'', ''edit '' @ in_quotes (name_of names ''trigger''), ''set trigger-type scheduled'',
     ''set trigger-frequency once'', ''set trigger-datetime '' @ fire_at, ''next'', ''end'',
     ''config system automation-stitch'', ''edit '' @ in_quotes (name_of names ''stitch''), ''set status enable'',
     ''set trigger '' @ in_quotes (name_of names ''trigger''), ''config actions'', ''edit 1'',
     ''set action '' @ in_quotes (name_of names ''action''), ''next'', ''end'', ''next'', ''end'']"

definition fortios_render_safeguard :: "string \<Rightarrow> string list \<Rightarrow> string \<Rightarrow> exn + string list" where
  "fortios_render_safeguard change_id undoing fire_at =
     (let names = fortios_safeguard_names change_id in
      then_check (script_lines undoing) (\<lambda>script.
      case map escape script of
        [] \<Rightarrow> Inl (OtherError ''IndexError'' ''list index out of range'')
      | first # rest \<Rightarrow> Inr (
          [''config system automation-action'', ''edit '' @ in_quotes (name_of names ''action''), ''set action-type cli-script'',
           ''set script '' @ [dquote] @ first]
          @ butlast rest @ [last (first # rest) @ [dquote]] @ [''next'', ''end''] @ trigger_lines names fire_at)))"

definition SAFEGUARD_PARTS :: "string list" where "SAFEGUARD_PARTS = [''stitch'', ''trigger'', ''action'']"

definition fortios_safeguard_removal :: "string \<Rightarrow> string list \<Rightarrow> string list" where
  "fortios_safeguard_removal change_id parts = concat (map (\<lambda>part.
     [''config system automation-'' @ part, ''delete '' @ in_quotes (name_of (fortios_safeguard_names change_id) part), ''end'']) parts)"

definition safeguard_queries :: "string \<Rightarrow> (string, string) dict" where
  "safeguard_queries change_id = map (\<lambda>(kind, name). (kind, ''show system automation-'' @ kind @ '' '' @ name))
     (fortios_safeguard_names change_id)"

text \<open>\<open>_single_entry\<close>\<close>

definition single_entry :: "string \<Rightarrow> string \<Rightarrow> string \<Rightarrow> node option" where
  "single_entry answer section name = (case parse answer of
     Inl _ \<Rightarrow> None
   | Inr tree \<Rightarrow> Option.bind (map_of (n_sub tree) section) (\<lambda>n. map_of (n_entries n) name))"

definition scheduled_once :: "node option \<Rightarrow> string \<Rightarrow> bool" where
  "scheduled_once trigger fire_at = (case trigger of
     None \<Rightarrow> False
   | Some n \<Rightarrow> node_value n ''trigger-type'' (Some ''event-based'') = Some ''scheduled''
       \<and> node_value n ''trigger-frequency'' None = Some ''once'' \<and> node_value n ''trigger-datetime'' None = Some fire_at)"

definition answer_of :: "(string, string) dict \<Rightarrow> string \<Rightarrow> string" where
  "answer_of answers kind = (case map_of answers kind of None \<Rightarrow> [] | Some t \<Rightarrow> t)"

definition action_problems :: "node option \<Rightarrow> string list \<Rightarrow> string list" where
  "action_problems action script =
     (let missing = [''safeguard action is missing or not a cli-script''] in
      case action of
        None \<Rightarrow> missing
      | Some n \<Rightarrow> if node_value n ''action-type'' None \<noteq> Some ''cli-script'' then missing
          else if node_value n ''script'' None \<noteq> Some (join [newline] script)
          then [''safeguard script differs from the planned inverse''] else [])"

definition bound_stitch :: "node option \<Rightarrow> string \<Rightarrow> bool" where
  "bound_stitch stitch trigger = (case stitch of
     None \<Rightarrow> False
   | Some n \<Rightarrow> node_value n ''trigger'' None = Some trigger \<and> node_value n ''status'' (Some ''enable'') = Some ''enable'')"

definition stitch_actions :: "node option \<Rightarrow> string option list option" where
  "stitch_actions stitch = map_option (\<lambda>section. map (\<lambda>(_, e). node_value e ''action'' None) (n_entries section))
     (Option.bind stitch (\<lambda>n. node_section n ''actions''))"

text \<open>\<open>_script_lines(inverse)\<close> is evaluated only when the action is a script; the refusal of a
  placeholder passes to the caller.\<close>

definition safeguard_state :: "string \<Rightarrow> (string, string) dict \<Rightarrow> string list \<Rightarrow> string \<Rightarrow> exn + string list" where
  "safeguard_state change_id answers undoing fire_at =
     (let names = fortios_safeguard_names change_id;
          entry = (\<lambda>kind. single_entry (answer_of answers kind) (''system automation-'' @ kind) (name_of names kind));
          action = entry ''action''; stitch = entry ''stitch'' in
      then_check (case action of
          None \<Rightarrow> Inr []
        | Some n \<Rightarrow> if node_value n ''action-type'' None \<noteq> Some ''cli-script'' then Inr [] else script_lines undoing) (\<lambda>script.
      Inr (action_problems action script
        @ (if scheduled_once (entry ''trigger'') fire_at then []
           else [''safeguard trigger is missing or not set to fire once at the planned time''])
        @ (if \<not> bound_stitch stitch (name_of names ''trigger'')
           then [''safeguard stitch is missing, disabled or bound to another trigger'']
           else case stitch_actions stitch of
             None \<Rightarrow> [''safeguard stitch does not run the planned action'']
           | Some acts \<Rightarrow> if Some (name_of names ''action'') \<in> set acts then []
               else [''safeguard stitch does not run the planned action'']))))"

definition NOT_FOUND :: string where "NOT_FOUND = ''entry is not found in table''"

text \<open>\<open>_answers_not_found\<close>: the lines are read only as far as the one that says so, so a cut-off quoted
  value matters only without it.\<close>

definition answers_not_found :: "string \<Rightarrow> bool" where
  "answers_not_found answer = list_ex (\<lambda>(_, line). strip line = NOT_FOUND) (fst (logical_lines answer))"

definition entry_absent :: "string \<Rightarrow> string \<Rightarrow> string \<Rightarrow> bool" where
  "entry_absent answer section name =
     (answers_not_found answer \<or>
      (case parse answer of
         Inl _ \<Rightarrow> False
       | Inr tree \<Rightarrow> (case map_of (n_sub tree) section of None \<Rightarrow> False | Some n \<Rightarrow> name \<notin> set (keys (n_entries n)))))"

definition fortios_safeguard_absent :: "string \<Rightarrow> (string, string) dict \<Rightarrow> bool" where
  "fortios_safeguard_absent change_id answers = list_all (\<lambda>kind.
     entry_absent (answer_of answers kind) (''system automation-'' @ kind) (name_of (fortios_safeguard_names change_id) kind))
     [''action'', ''trigger'', ''stitch'']"

fun error_text :: "parse_error \<Rightarrow> string" where
  "error_text (ParseError why) = why"
| "error_text (TruncatedError why _) = why"

definition leftover_safeguards :: "string \<Rightarrow> exn + string list" where
  "leftover_safeguards answer = (case parse answer of
     Inl e \<Rightarrow> reject (''automation stitches cannot be read: '' @ error_text e)
   | Inr tree \<Rightarrow> Inr (case map_of (n_sub tree) ''system automation-stitch'' of
       None \<Rightarrow> []
     | Some n \<Rightarrow> sort (filter (starts_with ''netops-sg-'') (keys (n_entries n)))))"

section \<open>The webhook safeguard\<close>

definition WEBHOOK_PARTS :: "string list" where
  "WEBHOOK_PARTS = [''stitch'', ''trigger'', ''action'', ''user'', ''profile'']"

definition WEBHOOK_SECTIONS :: "(string, string) dict" where
  "WEBHOOK_SECTIONS = [(''stitch'', ''system automation-stitch''), (''trigger'', ''system automation-trigger''),
     (''action'', ''system automation-action''), (''user'', ''system api-user''), (''profile'', ''system accprofile'')]"

definition REST_KEYS :: "(string, string) dict" where
  "REST_KEYS = [(''firewall policy'', ''policyid''), (''firewall address'', ''name''), (''firewall addrgrp'', ''name'')]"

definition ACCPROFILE_NONE :: "string list" where
  "ACCPROFILE_NONE = [''secfabgrp'', ''ftviewgrp'', ''authgrp'', ''sysgrp'', ''netgrp'', ''loggrp'', ''vpngrp'', ''utmgrp'', ''wifi'']"

definition hex_upper :: "nat \<Rightarrow> char" where
  "hex_upper d = (if d < 10 then char_of (48 + d) else char_of (55 + d))"

text \<open>\<open>_percent\<close>\<close>

definition percent :: "string \<Rightarrow> string" where
  "percent s = concat (map (\<lambda>c. if word_char ''-._~'' c then [c] else [CHR ''%'', hex_upper (code c div 16), hex_upper (code c mod 16)]) s)"

text \<open>\<open>([0-9]+).([0-9]+).([0-9]+) build[0-9]+\<close> with the numbers of the release\<close>

definition release_numbers :: "string \<Rightarrow> (nat \<times> nat \<times> nat) option" where
  "release_numbers s =
     Option.bind (eat_run is_digit s) (\<lambda>(a, s). Option.bind (eat ''.'' s) (\<lambda>s.
     Option.bind (eat_run is_digit s) (\<lambda>(b, s). Option.bind (eat ''.'' s) (\<lambda>s.
     Option.bind (eat_run is_digit s) (\<lambda>(c, s). Option.bind (eat '' build'' s) (\<lambda>s.
     if all_digits s then Some (int_of a, int_of b, int_of c) else None))))))"

definition webhook_firmware :: "string option \<Rightarrow> bool" where
  "webhook_firmware firmware = (case Option.bind firmware release_numbers of
     None \<Rightarrow> False
   | Some (a, b, c) \<Rightarrow> a > 8 \<or> a = 8 \<and> (b > 0 \<or> c \<ge> 1))"

definition webhook_part_names :: "string \<Rightarrow> (string, string) dict" where
  "webhook_part_names change_id = fortios_safeguard_names change_id
     @ [(''user'', name_of (webhook_names change_id) ''api-user''), (''profile'', name_of (webhook_names change_id) ''accprofile'')]"

definition webhook_prechecks :: "fortios_snapshot \<Rightarrow> string \<Rightarrow> string option \<Rightarrow> string list" where
  "webhook_prechecks snap address credential_kind =
     (if parse_ip address = None
      then [''the webhook safeguard needs the device address as an IPv4 address, not a host name'']
      else case filter (\<lambda>(_, entry). take 1 (node_values entry ''ip'') = [address]) (table_items snap ''system interface'') of
          [] \<Rightarrow> [''the webhook safeguard calls the device at '' @ address @ '', but no interface holds that address'']
        | (name, entry) # _ \<Rightarrow> if ''https'' \<notin> set (node_values entry ''allowaccess'')
            then [''the webhook safeguard needs https in allowaccess of interface '' @ name] else [])
     @ (if credential_kind \<noteq> Some ''password''
        then [''the webhook safeguard needs a password write credential: FortiOS asks for the administrator''
              @ '' password when it generates the API key''] else [])
     @ concat (map (\<lambda>section. map (\<lambda>name. ''a safeguard of an earlier operation is still installed: '' @ name)
         (filter (starts_with ''netops-sg-'') (sort (names_in snap section)))) [''system api-user'', ''system accprofile''])"

definition write_account_profile :: "fortios_snapshot \<Rightarrow> string \<Rightarrow> string option" where
  "write_account_profile snap login = Option.bind (map_of (table_items snap ''system admin'') login)
     (\<lambda>entry. node_value entry ''accprofile'' None)"

definition write_permission :: "string \<Rightarrow> string option \<Rightarrow> string list" where
  "write_permission login prof = (case prof of
     None \<Rightarrow> [''the webhook safeguard cannot find the write account '' @ login @ '' in system admin; on FortiOS 8.0.1 and later''
       @ '' it needs access profile super_admin'']
   | Some p \<Rightarrow> if p \<noteq> ''super_admin''
       then [''the webhook safeguard needs the write account '' @ login @ '' with access profile super_admin on FortiOS 8.0.1''
         @ '' and later (only super_admin may create the API user of the safeguard); '' @ login @ '' has access profile '' @ p]
       else [])"

definition rest_value :: "profile \<Rightarrow> string \<Rightarrow> string list \<Rightarrow> json" where
  "rest_value prof name vals = (case map_of (pf_attributes prof) name of
     Some a \<Rightarrow> if at_type a = NameList then JArr (map (\<lambda>item. JObj [(''name'', JStr item)]) vals) else JStr (join '' '' vals)
   | None \<Rightarrow> JStr (join '' '' vals))"

record rest_request =
  rr_method :: string
  rr_uri :: string
  rr_body :: string

text \<open>What the lines of an inverse assign and remove\<close>

fun rest_assign :: "profile \<Rightarrow> string list \<Rightarrow> (string, json) dict \<Rightarrow> string list \<Rightarrow> (string, json) dict \<times> string list" where
  "rest_assign prof [] assign removed_names = (assign, removed_names)"
| "rest_assign prof (line # rest) assign removed_names =
     (case tokenize (strip line) of
        cmd # name # vals \<Rightarrow>
          if cmd = ''set'' \<and> vals \<noteq> [] then rest_assign prof rest (AList.update name (rest_value prof name vals) assign) removed_names
          else if cmd = ''unset'' then rest_assign prof rest assign (removed_names @ [name])
          else rest_assign prof rest assign removed_names
      | _ \<Rightarrow> rest_assign prof rest assign removed_names)"

definition default_json :: "profile \<Rightarrow> string \<Rightarrow> json" where
  "default_json prof name = JStr (case Option.bind (map_of (pf_attributes prof) name) at_default of None \<Rightarrow> [] | Some d \<Rightarrow> d)"

definition rest_body :: "profile \<Rightarrow> string \<Rightarrow> string \<Rightarrow> string \<Rightarrow> string list \<Rightarrow> exn + string \<times> bool \<times> json option" where
  "rest_body prof keyfield op key undoing =
     (let (assign, removed_names) = rest_assign prof undoing [] [] in
      if op = ''create'' then Inr (''delete'', True, None)
      else if op = ''update''
      then Inr (''put'', True, Some (JObj (foldl (\<lambda>d name. AList.update name (default_json prof name) d) assign removed_names)))
      else then_check (if keyfield = ''policyid'' then then_check (int_text key) (\<lambda>n. Inr (JInt (int n))) else Inr (JStr key)) (\<lambda>k.
        Inr (''post'', False, Some (JObj (AList.update keyfield k assign)))))"

definition rest_inverse :: "profile \<Rightarrow> string \<Rightarrow> string \<Rightarrow> string list \<Rightarrow> string \<Rightarrow> exn + rest_request" where
  "rest_inverse prof op key undoing address = (case map_of REST_KEYS (pf_table prof) of
     None \<Rightarrow> reject (''the webhook safeguard has no REST inverse for table '' @ pf_table prof)
   | Some keyfield \<Rightarrow> then_check (rest_body prof keyfield op key undoing) (\<lambda>(http_method, on_item, body).
       let path = ''api/v2/cmdb/'' @ replace_char blank ''/'' (pf_table prof);
           doc = (case body of None \<Rightarrow> [] | Some v \<Rightarrow> json_compact v) in
       if length doc > SAFEGUARD_SCRIPT_LIMIT then reject ''the inverse exceeds the safeguard request body limit''
       else if contains ''%%'' doc then reject PLACEHOLDERS
       else Inr \<lparr>rr_method = http_method, rr_uri = address @ ''/'' @ path @ (if on_item then ''/'' @ percent key else []), rr_body = doc\<rparr>))"

definition render_webhook_identity :: "string \<Rightarrow> string \<Rightarrow> line list" where
  "render_webhook_identity change_id address = (let names = webhook_names change_id in
     map Command ([''config system accprofile'', ''edit '' @ in_quotes (name_of names ''accprofile''), ''set fwgrp read-write'']
       @ map (\<lambda>group. ''set '' @ group @ '' none'') ACCPROFILE_NONE
       @ [''next'', ''end'', ''config system api-user'', ''edit '' @ in_quotes (name_of names ''api-user''),
          ''set accprofile '' @ in_quotes (name_of names ''accprofile''), ''config trusthost'', ''edit 1'',
          ''set type ipv4-trusthost'', ''set ipv4-trusthost '' @ address @ '' 255.255.255.255'', ''next'', ''end''])
     @ [Password ''next'', Command ''end''])"

definition render_key_request :: "string \<Rightarrow> string" where
  "render_key_request change_id = ''execute api-user generate-key '' @ in_quotes (name_of (webhook_names change_id) ''api-user'')"

definition alnum :: "char \<Rightarrow> bool" where "alnum c \<longleftrightarrow> is_alpha c \<or> is_digit c"

text \<open>\<open>API_KEY\<close> on one line\<close>

definition key_line :: "string \<Rightarrow> string option" where
  "key_line s = Option.bind (eat ''New API key:'' s) (\<lambda>s.
     Option.bind (eat_run alnum (dropWhile (\<lambda>c. c = blank \<or> c = tab) s)) (\<lambda>(k, rest).
     if list_all (\<lambda>c. c = blank \<or> c = tab \<or> c = creturn) rest then Some k else None))"

definition NO_KEY :: string where "NO_KEY = ''the device did not return one API key for the safeguard''"

definition api_key :: "string \<Rightarrow> exn + string" where
  "api_key answer = (case List.map_filter key_line (split_on newline answer) of [k] \<Rightarrow> Inr k | _ \<Rightarrow> reject NO_KEY)"

definition admin_sport :: "string \<Rightarrow> exn + string" where
  "admin_sport answer =
     (let refused = reject ''the HTTPS administration port cannot be read'' in
      case parse answer of
        Inl _ \<Rightarrow> refused
      | Inr tree \<Rightarrow> (case map_of (n_sub tree) ''system global'' of
          None \<Rightarrow> refused
        | Some n \<Rightarrow> (let port = the (node_value n ''admin-sport'' (Some ''443'')) in
            if all_digits port \<and> hd port \<noteq> CHR ''0'' \<and> length port \<le> 5 \<and> int_of port \<le> 65535 then Inr port else refused)))"

definition render_webhook_safeguard :: "string \<Rightarrow> rest_request \<Rightarrow> string \<Rightarrow> string \<Rightarrow> string \<Rightarrow> exn + string list" where
  "render_webhook_safeguard change_id request port token fire_at =
     (let names = fortios_safeguard_names change_id in
      if token = [] \<or> \<not> list_all alnum token then reject NO_KEY
      else then_check (quoted (rr_uri request)) (\<lambda>uri.
      then_check (if rr_body request = [] then Inr [] else then_check (quoted (rr_body request)) (\<lambda>b. Inr [''set http-body '' @ b])) (\<lambda>body.
      Inr ([''config system automation-action'', ''edit '' @ in_quotes (name_of names ''action''), ''set action-type webhook'',
            ''set protocol https'', ''set method '' @ rr_method request, ''set uri '' @ uri, ''set port '' @ port,
            ''set verify-host-cert disable''] @ body
         @ [''config http-headers'', ''edit 1'', ''set key '' @ in_quotes ''Authorization'', ''set value '' @ in_quotes (''Bearer '' @ token),
            ''next'', ''end'', ''next'', ''end''] @ trigger_lines names fire_at))))"

definition section_of :: "string \<Rightarrow> string" where
  "section_of part = name_of WEBHOOK_SECTIONS part"

definition render_webhook_removal :: "string \<Rightarrow> string list \<Rightarrow> line list" where
  "render_webhook_removal change_id parts = concat (map (\<lambda>part.
     let delete = ''delete '' @ in_quotes (name_of (webhook_part_names change_id) part) in
     [Command (''config '' @ section_of part), if part = ''user'' then Password delete else Command delete, Command ''end'']) parts)"

definition webhook_queries :: "string \<Rightarrow> (string, string) dict" where
  "webhook_queries change_id = (let names = webhook_part_names change_id in
     AList.update ''action'' (''show full-configuration system automation-action '' @ name_of names ''action'') (safeguard_queries change_id)
     @ [(''user'', ''show system api-user '' @ name_of names ''user''), (''profile'', ''show system accprofile '' @ name_of names ''profile'')])"

definition webhook_action_problems :: "node option \<Rightarrow> rest_request \<Rightarrow> string \<Rightarrow> string \<Rightarrow> string list" where
  "webhook_action_problems action request port token =
     (let differs = [''safeguard action is missing or differs from the planned request''] in
      case action of
        None \<Rightarrow> differs
      | Some n \<Rightarrow>
          if list_ex (\<lambda>(name, v). node_value n name (Some []) \<noteq> Some v)
            [(''action-type'', ''webhook''), (''protocol'', ''https''), (''method'', rr_method request), (''uri'', rr_uri request),
             (''port'', port), (''verify-host-cert'', ''disable''), (''http-body'', rr_body request)]
          then differs
          else (case map snd (case node_section n ''http-headers'' of None \<Rightarrow> [] | Some h \<Rightarrow> n_entries h) of
              [row] \<Rightarrow> if node_value row ''key'' None = Some ''Authorization'' \<and> node_value row ''value'' None = Some (''Bearer '' @ token)
                then [] else [''safeguard action does not carry exactly the planned authorization header'']
            | _ \<Rightarrow> [''safeguard action does not carry exactly the planned authorization header'']))"

definition trusted_hosts :: "node option \<Rightarrow> string list list" where
  "trusted_hosts user = (case Option.bind user (\<lambda>u. node_section u ''trusthost'') of
     None \<Rightarrow> [] | Some hosts \<Rightarrow> map (\<lambda>(_, e). node_values e ''ipv4-trusthost'') (n_entries hosts))"

definition limited_user :: "node option \<Rightarrow> string \<Rightarrow> string \<Rightarrow> bool" where
  "limited_user user prof address = (case user of
     None \<Rightarrow> False
   | Some u \<Rightarrow> node_value u ''accprofile'' None = Some prof \<and> trusted_hosts user = [[address, ''255.255.255.255'']])"

definition limited_profile :: "node option \<Rightarrow> bool" where
  "limited_profile prof = (case prof of
     None \<Rightarrow> False
   | Some p \<Rightarrow> node_value p ''fwgrp'' None = Some ''read-write''
       \<and> list_all (\<lambda>group. node_value p group (Some ''none'') = Some ''none'') ACCPROFILE_NONE)"

definition webhook_state ::
  "string \<Rightarrow> (string, string) dict \<Rightarrow> rest_request \<Rightarrow> string \<Rightarrow> string \<Rightarrow> string \<Rightarrow> string \<Rightarrow> string list" where
  "webhook_state change_id answers request port token fire_at address =
     (let names = webhook_part_names change_id;
          entry = (\<lambda>part. single_entry (answer_of answers part) (section_of part) (name_of names part));
          stitch = entry ''stitch'' in
      webhook_action_problems (entry ''action'') request port token
      @ (if scheduled_once (entry ''trigger'') fire_at then []
         else [''safeguard trigger is missing or not set to fire once at the planned time''])
      @ (if \<not> bound_stitch stitch (name_of names ''trigger'')
         then [''safeguard stitch is missing, disabled or bound to another trigger'']
         else if stitch_actions stitch \<noteq> Some [Some (name_of names ''action'')]
         then [''safeguard stitch does not run the planned action alone''] else [])
      @ (if limited_user (entry ''user'') (name_of names ''profile'') address then []
         else [''safeguard API user is missing or not limited to the device address''])
      @ (if limited_profile (entry ''profile'') then []
         else [''safeguard access profile is missing or grants more than fwgrp read-write'']))"

definition webhook_absent :: "string \<Rightarrow> (string, string) dict \<Rightarrow> string list \<Rightarrow> bool" where
  "webhook_absent change_id answers parts = list_all (\<lambda>part.
     entry_absent (answer_of answers part) (section_of part) (name_of (webhook_part_names change_id) part)) parts"

section \<open>Answers of the device\<close>

text \<open>\<open>\w{3} \w{3} +\d{1,2} \d{2}:\d{2}:\d{2} \d{4}\<close> at the start of a text, with what follows\<close>

definition word3 :: "string \<Rightarrow> (string \<times> string) option" where
  "word3 s = (if length s \<ge> 3 \<and> list_all (word_char ''_'') (take 3 s) then Some (take 3 s, drop 3 s) else None)"

definition digits_n :: "nat \<Rightarrow> string \<Rightarrow> (string \<times> string) option" where
  "digits_n n s = (if length s \<ge> n \<and> list_all is_digit (take n s) then Some (take n s, drop n s) else None)"

definition time_stamp :: "string \<Rightarrow> (string \<times> string) option" where
  "time_stamp s =
     Option.bind (word3 s) (\<lambda>(wd, s). Option.bind (eat '' '' s) (\<lambda>s.
     Option.bind (word3 s) (\<lambda>(mon, s). Option.bind (eat_run (\<lambda>c. c = blank) s) (\<lambda>(gap, s).
     Option.bind (eat_run is_digit s) (\<lambda>(day, s). if length day > 2 then None else
     Option.bind (eat '' '' s) (\<lambda>s.
     Option.bind (digits_n 2 s) (\<lambda>(h, s). Option.bind (eat '':'' s) (\<lambda>s.
     Option.bind (digits_n 2 s) (\<lambda>(m, s). Option.bind (eat '':'' s) (\<lambda>s.
     Option.bind (digits_n 2 s) (\<lambda>(sec, s). Option.bind (eat '' '' s) (\<lambda>s.
     Option.bind (digits_n 4 s) (\<lambda>(year, s).
     Some (wd @ '' '' @ mon @ gap @ day @ '' '' @ h @ '':'' @ m @ '':'' @ sec @ '' '' @ year, s))))))))))))))"

text \<open>A line that holds \<open>label\<close>, the time and only white space after it\<close>

definition stamp_line :: "string \<Rightarrow> string option" where
  "stamp_line s = Option.bind (time_stamp s) (\<lambda>(stamp, rest). if list_all is_space rest then Some stamp else None)"

definition clock_text :: "string \<Rightarrow> exn + string" where
  "clock_text answer = (case List.map_filter (\<lambda>line. Option.bind (eat ''System time: '' line) stamp_line) (split_on newline answer) of
     [] \<Rightarrow> reject ''the device clock cannot be read from the system status''
   | stamp # _ \<Rightarrow> Inr (join '' '' (split_ws stamp)))"

text \<open>\<open>_admin_table\<close>\<close>

definition admin_table :: "string \<Rightarrow> exn + node" where
  "admin_table answer = (case parse answer of
     Inl e \<Rightarrow> reject (''the administrator table cannot be read: '' @ error_text e)
   | Inr tree \<Rightarrow> (case map_of (n_sub tree) ''system admin'' of
       None \<Rightarrow> reject ''the administrator table is not visible to the write account''
     | Some n \<Rightarrow> Inr n))"

definition visible_admins :: "string \<Rightarrow> exn + string list" where
  "visible_admins answer = then_check (admin_table answer) (\<lambda>n. Inr (sort (keys (n_entries n))))"

definition attr_json :: "attr \<Rightarrow> json" where
  "attr_json a = JArr [JArr (map JStr (a_values a)), JBool (a_unset a)]"

fun profile_state :: "node \<Rightarrow> json" and profile_states :: "(string \<times> node) list \<Rightarrow> (string \<times> json) list" where
  "profile_state (Node p l as ss es ct) = JObj [
     (''attrs'', JObj (map (\<lambda>(k, a). (k, attr_json a)) as)), (''sub'', JObj (profile_states ss)), (''entries'', JObj (profile_states es))]"
| "profile_states [] = []"
| "profile_states ((k, n) # ns) = (k, profile_state n) # profile_states ns"

definition used_profiles :: "node \<Rightarrow> string list" where
  "used_profiles admins = remdups (filter (\<lambda>n. n \<noteq> []) (List.map_filter (\<lambda>(_, e). node_value e ''accprofile'' None) (n_entries admins)))"

definition json_spaced :: "json \<Rightarrow> string" where
  "json_spaced = json_dumps '', '' '': ''"

text \<open>\<open>admin_fingerprint\<close> of the administrators and their access profiles in the snapshot; the roles in
  \<open>immutable\<close> need not be exported.\<close>

definition admin_fingerprint :: "(string \<Rightarrow> string) \<Rightarrow> string \<Rightarrow> string \<Rightarrow> string list \<Rightarrow> exn + string" where
  "admin_fingerprint sha256 answer snapshot_text immutable =
     (if immutable \<noteq> [] \<and> immutable \<noteq> [''super_admin'']
      then reject ''only the documented immutable super_admin role may be omitted from a schema profile export''
      else then_check (admin_table answer) (\<lambda>admins.
      then_check (parse_snapshot snapshot_text) (\<lambda>tree.
      let body = JObj (map (\<lambda>(name, e). (name, JObj (map (\<lambda>(k, a). (k, attr_json a)) (n_attrs e)))) (n_entries admins));
          names = used_profiles admins; mutable = filter (\<lambda>n. n \<notin> set immutable) names;
          visible = (case node_section tree ''system accprofile'' of None \<Rightarrow> [] | Some section \<Rightarrow> n_entries section);
          missing = filter (\<lambda>n. n \<notin> set (keys visible)) mutable in
      if missing \<noteq> []
      then reject (''an administrator access profile is not visible in the snapshot: '' @ join '', '' (sort missing))
      else Inr (sha256 (json_spaced (JObj (
        [(''accounts'', body), (''profiles'', JObj (map (\<lambda>n. (n, profile_state (the (map_of visible n)))) mutable))]
        @ (if list_ex (\<lambda>n. n \<in> set immutable) names
           then [(''immutable_profiles'', JArr (map JStr (sort (filter (\<lambda>n. n \<in> set immutable) names))))] else []))))))))"

definition ERROR_MARKERS :: "string list" where
  "ERROR_MARKERS = [''Command fail'', ''command parse error'', ''Unknown action'', ''entry is not found'',
     ''object set operator error'', ''discard the setting'', ''value parse error'']"

definition fortios_cli_error :: "string \<Rightarrow> string option" where
  "fortios_cli_error answer = (case split_on newline answer of
     [_] \<Rightarrow> None
   | _ # rest \<Rightarrow> find (\<lambda>marker. contains marker (join [newline] rest)) ERROR_MARKERS
   | [] \<Rightarrow> None)"

definition set_attributes :: "node \<Rightarrow> attributes" where
  "set_attributes entry = map (\<lambda>(name, a). (name, attr_value a)) (filter (\<lambda>(_, a). \<not> a_unset a) (n_attrs entry))"

fun parse_exn :: "parse_error \<Rightarrow> exn" where
  "parse_exn (ParseError why) = OtherError ''ParseError'' why"
| "parse_exn (TruncatedError why _) = OtherError ''TruncatedError'' why"

definition shown_reservation :: "string \<Rightarrow> string \<Rightarrow> string \<Rightarrow> exn + attributes option" where
  "shown_reservation answer sid rid = (case suffix_from ''config system dhcp server'' answer of
     None \<Rightarrow> reject ''the check account cannot read the DHCP server''
   | Some rest \<Rightarrow> (case parse rest of
       Inl e \<Rightarrow> Inl (parse_exn e)
     | Inr tree \<Rightarrow>
         (case Option.bind (node_section tree ''system dhcp server'') (\<lambda>servers. map_of (n_entries servers) sid) of
            None \<Rightarrow> reject ''the check account cannot see the DHCP server''
          | Some server \<Rightarrow> Inr (map_option set_attributes
              (Option.bind (node_section server ''reserved-address'') (\<lambda>section. map_of (n_entries section) rid))))))"

definition shown_object :: "string \<Rightarrow> string \<Rightarrow> string \<Rightarrow> exn + attributes option" where
  "shown_object answer table key =
     (if table = DHCP_TABLE then then_check (two_parts key) (\<lambda>(sid, rid). shown_reservation answer sid rid)
      else if answers_not_found answer then Inr None
      else case suffix_from (''config '' @ table) answer of
        None \<Rightarrow> reject (''the check account answer holds no '' @ table @ '' section'')
      | Some rest \<Rightarrow> (case parse rest of
          Inl e \<Rightarrow> reject (''the check account answer does not parse: '' @ error_text e)
        | Inr tree \<Rightarrow> (case Option.bind (map_of (n_sub tree) table) (\<lambda>section. map_of (n_entries section) key) of
            None \<Rightarrow> reject (''the check account answer names no object '' @ key)
          | Some entry \<Rightarrow> Inr (Some (set_attributes entry)))))"

definition SYSTEM_SESSIONS :: "string list" where "SYSTEM_SESSIONS = [''Fortimanager_Access'']"

definition session_header :: "string \<Rightarrow> bool" where
  "session_header line \<longleftrightarrow> ''username'' \<in> set (split_ws line) \<and> ''profile'' \<in> set (split_ws line)"

definition foreign_session :: "string list \<Rightarrow> string \<Rightarrow> bool" where
  "foreign_session own line = (case split_ws line of
     [] \<Rightarrow> False
   | w # ws \<Rightarrow> \<not> (ws \<noteq> [] \<and> hd ws \<in> {''$'', ''#''} \<or> ends_with ''$'' w \<or> ends_with ''#'' w)
       \<and> w \<notin> set own \<and> w \<notin> set SYSTEM_SESSIONS)"

definition fortios_foreign_sessions :: "string \<Rightarrow> string list \<Rightarrow> exn + nat" where
  "fortios_foreign_sessions answer own = (case dropWhile (\<lambda>l. \<not> session_header l) (splitlines answer) of
     [] \<Rightarrow> reject ''the administrator session list is not readable''
   | _ # rest \<Rightarrow> Inr (length (filter (foreign_session own) rest)))"

end
