(* ===== verification/Admin_Fortios_Facts.thy ===== *)
theory Admin_Fortios_Facts
  imports Admin_Fortios_Guard
begin

text \<open>
  Properties of the FortiOS side of planning: the work list loops over address groups and
  interfaces end and compute exactly what can be reached.
\<close>

section \<open>Reachable group members\<close>

definition member_rel :: "(string, string list) dict \<Rightarrow> (string \<times> string) set" where
  "member_rel groups = {(x, y). y \<in> set (members_of groups x)}"

lemma member_loop_sound:
  "set found \<subseteq> (member_rel groups)\<^sup>+ `` I \<Longrightarrow> set pending \<subseteq> I \<union> (member_rel groups)\<^sup>+ `` I \<Longrightarrow>
   set (member_loop groups found pending) \<subseteq> (member_rel groups)\<^sup>+ `` I"
proof (induction groups found pending rule: member_loop.induct)
  case (2 groups found name pending)
  let ?new = "filter (\<lambda>item. item \<notin> set found) (remdups (members_of groups name))"
  have "set ?new \<subseteq> (member_rel groups)\<^sup>+ `` I"
  proof
    fix y assume "y \<in> set ?new"
    then have step: "(name, y) \<in> member_rel groups" by (simp add: member_rel_def)
    have "name \<in> I \<or> name \<in> (member_rel groups)\<^sup>+ `` I" using 2(3) by simp
    with step show "y \<in> (member_rel groups)\<^sup>+ `` I" by (blast intro: trancl_into_trancl)
  qed
  then show ?case using 2 by (simp add: Let_def) blast
qed simp

lemma member_loop_closed:
  assumes "\<forall>x \<in> I \<union> set found. x \<notin> set pending \<longrightarrow> set (members_of groups x) \<subseteq> set found"
  shows "set found \<subseteq> set (member_loop groups found pending) \<and>
    (\<forall>x \<in> I \<union> set (member_loop groups found pending). set (members_of groups x) \<subseteq> set (member_loop groups found pending))"
  using assms
proof (induction groups found pending rule: member_loop.induct)
  case (2 groups found name pending)
  let ?new = "filter (\<lambda>item. item \<notin> set found) (remdups (members_of groups name))"
  have "\<forall>x \<in> I \<union> set (found @ ?new). x \<notin> set (rev ?new @ pending) \<longrightarrow> set (members_of groups x) \<subseteq> set (found @ ?new)"
    using 2(2) by (auto split: if_splits)
  from 2(1) [OF refl this] show ?case by (auto simp: Let_def)
qed auto

lemma member_loop_reachable: "set (member_loop groups [] pending) = (member_rel groups)\<^sup>+ `` set pending"
proof
  show "set (member_loop groups [] pending) \<subseteq> (member_rel groups)\<^sup>+ `` set pending"
    by (rule member_loop_sound) auto
  have closed: "\<forall>x \<in> set pending \<union> set (member_loop groups [] pending).
      set (members_of groups x) \<subseteq> set (member_loop groups [] pending)"
    using member_loop_closed [of "set pending" "[]" pending groups] by simp
  show "(member_rel groups)\<^sup>+ `` set pending \<subseteq> set (member_loop groups [] pending)"
  proof (intro subsetI, elim ImageE)
    fix x y assume "(x, y) \<in> (member_rel groups)\<^sup>+" and "x \<in> set pending"
    then show "y \<in> set (member_loop groups [] pending)"
      by (induction rule: trancl_induct) (use closed in \<open>auto simp: member_rel_def\<close>)
  qed
qed

text \<open>The membership a snapshot describes, with names compared without their case\<close>

definition folded_groups :: "(string, node) dict option \<Rightarrow> (string, string list) dict" where
  "folded_groups entries = rev (map (\<lambda>(name, ms). (casefold name, ms)) (group_members (case entries of None \<Rightarrow> [] | Some es \<Rightarrow> es)))"

text \<open>(C32) The closure of address group members is exact: \<open>member_closure\<close> ends and returns all objects that
  the given names contain directly or through nested groups, in any case and also through cycles of
  groups, and nothing else. The protection of objects behind groups rests on it.\<close>

theorem member_closure_reachable:
  "set (member_closure entries names) = (member_rel (folded_groups entries))\<^sup>+ `` (casefold ` set names)"
  by (simp add: member_closure_def member_loop_reachable folded_groups_def Let_def)

section \<open>Groups that contain an object\<close>

inductive contains_object :: "(string, string list) dict \<Rightarrow> string \<Rightarrow> string \<Rightarrow> bool" for groups key where
  direct: "(name, ms) \<in> set groups \<Longrightarrow> casefold key \<in> set ms \<Longrightarrow> contains_object groups key name"
| nested: "contains_object groups key inner \<Longrightarrow> (name, ms) \<in> set groups \<Longrightarrow> casefold inner \<in> set ms \<Longrightarrow> contains_object groups key name"

lemma containing_loop_sound:
  "\<forall>x \<in> set found. contains_object groups key x \<Longrightarrow>
   \<forall>p \<in> set pending. p = casefold key \<or> (\<exists>x. contains_object groups key x \<and> p = casefold x) \<Longrightarrow>
   \<forall>x \<in> set (containing_loop groups found pending). contains_object groups key x"
proof (induction groups found pending rule: containing_loop.induct)
  case (2 groups found inner pending)
  let ?new = "filter (\<lambda>name. name \<notin> set found) (remdups (map fst (filter (\<lambda>(_, ms). inner \<in> set ms) groups)))"
  have new: "\<forall>x \<in> set ?new. contains_object groups key x"
    using 2(3) by (auto intro: contains_object.intros)
  show ?case
    using 2(1) [OF refl] 2(2,3) new by (simp add: Let_def) blast
qed simp

lemma containing_loop_closed:
  assumes "\<forall>x \<in> I \<union> casefold ` set found. x \<notin> set pending \<longrightarrow> (\<forall>(name, ms) \<in> set groups. x \<in> set ms \<longrightarrow> name \<in> set found)"
  shows "set found \<subseteq> set (containing_loop groups found pending) \<and>
    (\<forall>x \<in> I \<union> casefold ` set (containing_loop groups found pending).
       \<forall>(name, ms) \<in> set groups. x \<in> set ms \<longrightarrow> name \<in> set (containing_loop groups found pending))"
  using assms
proof (induction groups found pending rule: containing_loop.induct)
  case (2 groups found inner pending)
  let ?new = "filter (\<lambda>name. name \<notin> set found) (remdups (map fst (filter (\<lambda>(_, ms). inner \<in> set ms) groups)))"
  have "\<forall>x \<in> I \<union> casefold ` set (found @ ?new). x \<notin> set (rev (map casefold ?new) @ pending) \<longrightarrow>
      (\<forall>(name, ms) \<in> set groups. x \<in> set ms \<longrightarrow> name \<in> set (found @ ?new))"
  proof (intro ballI impI)
    fix x g assume x: "x \<in> I \<union> casefold ` set (found @ ?new)" "x \<notin> set (rev (map casefold ?new) @ pending)" and g: "g \<in> set groups"
    have old: "x \<in> I \<union> casefold ` set found" using x by auto
    show "case g of (name, ms) \<Rightarrow> x \<in> set ms \<longrightarrow> name \<in> set (found @ ?new)"
    proof (cases "x = inner")
      case True
      then show ?thesis using g by force
    next
      case False
      then show ?thesis using 2(2) old x g by auto
    qed
  qed
  from 2(1) [OF refl this] show ?case by (simp add: Let_def)
qed auto

text \<open>(C33) The groups that contain an object are found exactly: \<open>containing_groups\<close> ends and returns a group
  if and only if it contains the object directly or through other groups, however groups are nested.\<close>

theorem containing_groups_exact:
  "name \<in> set (containing_groups (Some entries) key) \<longleftrightarrow> contains_object (group_members entries) key name"
proof
  assume "name \<in> set (containing_groups (Some entries) key)"
  then show "contains_object (group_members entries) key name"
    using containing_loop_sound [of "[]" "group_members entries" key "[casefold key]"] by (auto simp: containing_groups_def)
next
  let ?found = "containing_loop (group_members entries) [] [casefold key]"
  have closed: "\<forall>x \<in> {casefold key} \<union> casefold ` set ?found. \<forall>(name, ms) \<in> set (group_members entries). x \<in> set ms \<longrightarrow> name \<in> set ?found"
    using containing_loop_closed [of "{casefold key}" "[]" "[casefold key]" "group_members entries"] by simp
  assume "contains_object (group_members entries) key name"
  then show "name \<in> set (containing_groups (Some entries) key)"
    by (induction rule: contains_object.induct) (use closed in \<open>auto simp: containing_groups_def\<close>)
qed

section \<open>Interfaces that depend on protected ones\<close>

inductive depends :: "(string \<times> node) list \<Rightarrow> string list \<Rightarrow> string \<Rightarrow> bool" for interfaces protected where
  given: "name \<in> set protected \<Longrightarrow> depends interfaces protected name"
| related: "(name, entry) \<in> set interfaces \<Longrightarrow> item \<in> set (related_names entry) \<Longrightarrow> depends interfaces protected (casefold item)
    \<Longrightarrow> depends interfaces protected (casefold name)"

lemma closure_pass_sound:
  "set sub \<subseteq> set interfaces \<Longrightarrow> \<forall>x \<in> set folded. depends interfaces protected x \<Longrightarrow>
   \<forall>x \<in> set (closure_pass sub folded). depends interfaces protected x"
proof (induction sub folded rule: closure_pass.induct)
  case (2 name entry rest folded)
  let ?more = "casefold name \<notin> set folded \<and> list_ex (\<lambda>item. casefold item \<in> set folded) (related_names entry)"
  have "depends interfaces protected (casefold name)" if ?more
    using that 2(2,3) depends.related [of name entry interfaces _ protected] by (auto simp: list_ex_iff)
  then have "\<forall>x \<in> set (if ?more then folded @ [casefold name] else folded). depends interfaces protected x"
    using 2(3) by simp
  then show ?case using 2(1) 2(2) by simp
qed simp

lemma closure_loop_sound:
  "\<forall>x \<in> set folded. depends interfaces protected x \<Longrightarrow> \<forall>x \<in> set (closure_loop interfaces folded). depends interfaces protected x"
proof (induction interfaces folded rule: closure_loop.induct)
  case (1 interfaces folded)
  show ?case
    using 1(1) [OF refl] 1(2) closure_pass_sound [OF subset_refl 1(2)] by (subst closure_loop.simps) (simp add: Let_def)
qed

lemma closure_pass_idle:
  "closure_pass interfaces folded = folded \<Longrightarrow> (name, entry) \<in> set interfaces \<Longrightarrow> item \<in> set (related_names entry) \<Longrightarrow>
   casefold item \<in> set folded \<Longrightarrow> casefold name \<in> set folded"
proof (induction interfaces arbitrary: folded)
  case (Cons i rest)
  obtain n e where i: "i = (n, e)" by fastforce
  show ?case
  proof (cases "casefold n \<notin> set folded \<and> list_ex (\<lambda>item. casefold item \<in> set folded) (related_names e)")
    case True
    obtain new where "closure_pass rest (folded @ [casefold n]) = (folded @ [casefold n]) @ new"
      using closure_pass_grows by blast
    then show ?thesis using Cons.prems(1) True by (simp add: i)
  next
    case False
    then have "closure_pass rest folded = folded" using Cons.prems(1) by (simp add: i split: if_splits)
    then show ?thesis using Cons.IH Cons.prems False by (auto simp: i list_ex_iff)
  qed
qed simp

lemma closure_loop_closed:
  "set folded \<subseteq> set (closure_loop interfaces folded) \<and>
   (\<forall>(name, entry) \<in> set interfaces. \<forall>item \<in> set (related_names entry).
      casefold item \<in> set (closure_loop interfaces folded) \<longrightarrow> casefold name \<in> set (closure_loop interfaces folded))"
proof (induction interfaces folded rule: closure_loop.induct)
  case (1 interfaces folded)
  obtain new where new: "closure_pass interfaces folded = folded @ new" using closure_pass_grows by blast
  show ?case
  proof (cases "new = []")
    case True
    then have "closure_loop interfaces folded = folded" using new by (subst closure_loop.simps) simp
    then show ?thesis using closure_pass_idle [of interfaces folded] new True by auto
  next
    case False
    then have "closure_loop interfaces folded = closure_loop interfaces (folded @ new)"
      using new by (subst closure_loop.simps) simp
    then show ?thesis using 1 [OF refl] new False by auto
  qed
qed

text \<open>(C34) The interfaces that count as protected are found exactly: \<open>protected_closure\<close> ends and returns the
  protected names with every interface and switch that is built on one of them, directly or through
  others, and no other name.\<close>

theorem protected_closure_exact:
  "x \<in> set (protected_closure snap protected) \<longleftrightarrow>
   depends (table_items snap ''system interface'' @ table_items snap ''system switch-interface'') (map casefold protected) x"
proof -
  let ?is = "table_items snap ''system interface'' @ table_items snap ''system switch-interface''"
  let ?c = "closure_loop ?is (remdups (map casefold protected))"
  have "\<forall>y \<in> set (remdups (map casefold protected)). depends ?is (map casefold protected) y"
    using depends.given [of _ "map casefold protected" ?is] by simp
  from closure_loop_sound [OF this]
  have "depends ?is (map casefold protected) x" if "x \<in> set ?c" using that by blast
  moreover have "x \<in> set ?c" if "depends ?is (map casefold protected) x"
    using that
  proof (induction rule: depends.induct)
    case (given name)
    then show ?case using closure_loop_closed [of "remdups (map casefold protected)" ?is] by auto
  next
    case (related name entry item)
    then show ?case using closure_loop_closed [of "remdups (map casefold protected)" ?is] by blast
  qed
  ultimately show ?thesis by (auto simp: protected_closure_def)
qed

end
