(* ===== verification/Exos_Config.thy ===== *)
theory Exos_Config
  imports Netops_Base
begin

text \<open>
  The ExtremeXOS configuration reader \<open>netops_auditor/l1_exos.py\<close>: physical lines kept byte for
  byte, modules, tokenized commands, and the bodies of UPM profiles, whose commands are not part of
  the active configuration.
\<close>

section \<open>Data\<close>

definition NO_MODULE :: string where "NO_MODULE = []"
definition UPM_PROFILE :: "string list" where "UPM_PROFILE = [''create'', ''upm'', ''profile'']"
definition UPM_END :: string where "UPM_END = ''.''"
definition UPM_UNNAMED :: string where "UPM_UNNAMED = ''-''"

record command =
  c_line :: nat
  c_module :: string
  c_tokens :: "string list"
  c_text :: string
  c_upm_profile :: string

record configuration =
  f_raw :: "string list"
  f_commands :: "command list"
  f_modules :: "string list"
  f_active :: "command list"
  f_upm_bodies :: "(nat \<times> nat) list"
  f_unterminated_upm :: bool

definition cmd_starts_with :: "command \<Rightarrow> string list \<Rightarrow> bool" where
  "cmd_starts_with c words \<longleftrightarrow> take (length words) (c_tokens c) = words"

definition cmd_argument :: "command \<Rightarrow> int \<Rightarrow> string option \<Rightarrow> string option" where
  "cmd_argument c position dflt =
     (if position < 0 \<or> position \<ge> int (length (c_tokens c)) then dflt
      else Some (c_tokens c ! nat position))"

definition serialize :: "configuration \<Rightarrow> string" where
  "serialize f = concat (f_raw f)"

definition matching :: "configuration \<Rightarrow> string list \<Rightarrow> command list" where
  "matching f words = filter (\<lambda>c. cmd_starts_with c words) (f_active f)"

definition first_command :: "configuration \<Rightarrow> string list \<Rightarrow> command option" where
  "first_command f words = find (\<lambda>c. cmd_starts_with c words) (f_active f)"

section \<open>Lines and tokens\<close>

definition split_lines :: "string \<Rightarrow> string list" where
  "split_lines s =
     (let parts = split_on newline s;
          lines = map (\<lambda>p. p @ [newline]) (butlast parts)
      in if last parts \<noteq> [] then lines @ [last parts] else lines)"

fun exos_tok_loop :: "string \<Rightarrow> string list \<Rightarrow> string \<Rightarrow> bool \<Rightarrow> bool \<Rightarrow> bool \<times> string list" where
  "exos_tok_loop [] toks cur inq quoted =
     (inq, if cur \<noteq> [] \<or> quoted then toks @ [cur] else toks)"
| "exos_tok_loop (c # cs) toks cur inq quoted =
     (if c = dquote then exos_tok_loop cs toks cur (\<not> inq) True
      else if (c = blank \<or> c = tab) \<and> \<not> inq then
        (if cur \<noteq> [] \<or> quoted then exos_tok_loop cs (toks @ [cur]) [] inq False
         else exos_tok_loop cs toks cur inq quoted)
      else exos_tok_loop cs toks (cur @ [c]) inq quoted)"

definition exos_tokenize :: "string \<Rightarrow> nat \<Rightarrow> string + string list" where
  "exos_tokenize s line =
     (let (inq, toks) = exos_tok_loop s [] [] False False
      in if inq then Inl (''line '' @ show_nat line @ '': unterminated quoted value'') else Inr toks)"

text \<open>The expression \<open>^#\s*Module\s+(\S+)\s+configuration\.$\<close> on a stripped line that starts with
  \<open>#\<close>: three words, of which the middle one is the module.\<close>

definition module_header :: "string \<Rightarrow> string option" where
  "module_header content =
     (case split_ws (drop 1 content) of
        [a, m, b] \<Rightarrow> if a = ''Module'' \<and> b = ''configuration.'' then Some m else None
      | _ \<Rightarrow> None)"

section \<open>The reader\<close>

record exos_reader =
  r_commands :: "command list"
  r_modules :: "string list"
  r_module :: string
  r_bodies :: "(nat \<times> nat) list"
  r_profile :: string
  r_opened :: nat

definition reader_start :: exos_reader where
  "reader_start = \<lparr>r_commands = [], r_modules = [], r_module = NO_MODULE, r_bodies = [],
     r_profile = [], r_opened = 0\<rparr>"

definition emit :: "nat \<Rightarrow> string list \<Rightarrow> string \<Rightarrow> exos_reader \<Rightarrow> exos_reader" where
  "emit number tokens content s = s\<lparr>r_commands := r_commands s @
     [\<lparr>c_line = number, c_module = r_module s, c_tokens = tokens, c_text = content,
       c_upm_profile = r_profile s\<rparr>]\<rparr>"

definition read_line :: "nat \<Rightarrow> string \<Rightarrow> exos_reader \<Rightarrow> string + exos_reader" where
  "read_line number line s =
     (let content = strip line in
      if content = [] then Inr s
      else if r_profile s \<noteq> [] \<and> content = UPM_END then
        Inr ((emit number [UPM_END] content s)\<lparr>r_bodies := r_bodies s @ [(r_opened s, number)], r_profile := []\<rparr>)
      else if starts_with ''#'' content then
        (case (if r_profile s \<noteq> [] then None else module_header content) of
           None \<Rightarrow> Inr s
         | Some m \<Rightarrow> Inr (s\<lparr>r_module := m,
             r_modules := (if m \<in> set (r_modules s) then r_modules s else r_modules s @ [m])\<rparr>))
      else
        (case exos_tokenize content number of
           Inl e \<Rightarrow> Inl e
         | Inr tokens \<Rightarrow>
             (if tokens = [] then Inr s
              else (let s' = emit number tokens content s in
                if r_profile s = [] \<and> take 3 tokens = UPM_PROFILE
                then Inr (s'\<lparr>r_profile := (if length tokens > 3 \<and> tokens ! 3 \<noteq> [] then tokens ! 3 else UPM_UNNAMED),
                             r_opened := number + 1\<rparr>)
                else Inr s'))))"

fun read_lines :: "nat \<Rightarrow> string list \<Rightarrow> exos_reader \<Rightarrow> string + exos_reader" where
  "read_lines number [] s = Inr s"
| "read_lines number (l # ls) s =
     (case read_line number l s of Inl e \<Rightarrow> Inl e | Inr s' \<Rightarrow> read_lines (Suc number) ls s')"

definition exos_parse :: "string \<Rightarrow> string + configuration" where
  "exos_parse s =
     (let raw = split_lines s in
      case read_lines 1 raw reader_start of
        Inl e \<Rightarrow> Inl e
      | Inr r \<Rightarrow> Inr
          \<lparr>f_raw = raw, f_commands = r_commands r, f_modules = r_modules r,
           f_active = filter (\<lambda>c. c_upm_profile c = []) (r_commands r),
           f_upm_bodies = (if r_profile r \<noteq> [] then r_bodies r @ [(r_opened r, length raw)] else r_bodies r),
           f_unterminated_upm = (r_profile r \<noteq> [])\<rparr>)"

section \<open>Bodies of UPM profiles\<close>

definition inside :: "(nat \<times> nat) list \<Rightarrow> nat \<Rightarrow> bool" where
  "inside bodies n \<longleftrightarrow> (\<exists>(a, b) \<in> set bodies. a \<le> n \<and> n \<le> b)"

text \<open>What holds before line \<open>n\<close> is read: commands and closed bodies lie above it, an open body
  starts at most here, and the commands of the closed or the open body are exactly those that carry
  a profile name.\<close>

definition reader_inv :: "nat \<Rightarrow> exos_reader \<Rightarrow> bool" where
  "reader_inv n s \<longleftrightarrow>
     (\<forall>c \<in> set (r_commands s). c_line c < n) \<and> (\<forall>(a, b) \<in> set (r_bodies s). b < n)
     \<and> (r_profile s \<noteq> [] \<longrightarrow> r_opened s \<le> n)
     \<and> (\<forall>c \<in> set (r_commands s). (c_upm_profile c \<noteq> []) =
          (inside (r_bodies s) (c_line c) \<or> (r_profile s \<noteq> [] \<and> r_opened s \<le> c_line c)))"

definition sample_config :: string where
  "sample_config = ''create vlan Lab'' @ [newline] @ ''create upm profile p'' @ [newline] @ ''delete vlan Lab'' @ [newline]
     @ ''.'' @ [newline]"

section \<open>The reader keeps the text\<close>

lemma concat_split_lines [simp]: "concat (split_lines s) = s"
proof -
  have "concat (map (\<lambda>p. p @ [newline]) (butlast ps)) @ last ps = join [newline] ps" if "ps \<noteq> []" for ps
    using that
  proof (induction ps)
    case (Cons p ps)
    then show ?case by (cases "ps = []") (simp_all add: join_Cons)
  qed simp
  from this [of "split_on newline s"] show ?thesis
    by (auto simp: split_lines_def Let_def)
qed

lemma inside_append: "inside (xs @ ys) n \<longleftrightarrow> inside xs n \<or> inside ys n"
  by (auto simp: inside_def)

lemma inside_single: "inside [(a, b)] n \<longleftrightarrow> a \<le> n \<and> n \<le> b"
  by (simp add: inside_def)

lemma inside_beyond: "\<forall>(a, b) \<in> set bodies. b < n \<Longrightarrow> \<not> inside bodies n"
  by (auto simp: inside_def)

lemma reader_inv_start: "reader_inv 1 reader_start"
  by (simp add: reader_inv_def reader_start_def)

lemma reader_inv_mono: "reader_inv n s \<Longrightarrow> reader_inv (Suc n) s"
  by (auto simp: reader_inv_def)

lemma reader_inv_emit:
  assumes "reader_inv n s"
  shows "reader_inv (Suc n) (emit n tokens content s)"
  using assms inside_beyond [of "r_bodies s" n] by (fastforce simp: reader_inv_def emit_def)

lemma reader_inv_close:
  assumes "reader_inv n s" and "r_profile s \<noteq> []"
  shows "reader_inv (Suc n)
    ((emit n tokens content s)\<lparr>r_bodies := r_bodies s @ [(r_opened s, n)], r_profile := []\<rparr>)"
  using assms inside_beyond [of "r_bodies s" n]
  by (fastforce simp: reader_inv_def emit_def inside_append inside_single)

lemma reader_inv_open:
  assumes "reader_inv n s" and "r_profile s = []"
  shows "reader_inv (Suc n) ((emit n tokens content s)\<lparr>r_profile := name, r_opened := n + 1\<rparr>)"
  using assms inside_beyond [of "r_bodies s" n] by (fastforce simp: reader_inv_def emit_def)

lemma reader_inv_line: "reader_inv n s \<Longrightarrow> read_line n line s = Inr s' \<Longrightarrow> reader_inv (Suc n) s'"
proof -
  assume inv: "reader_inv n s" and step: "read_line n line s = Inr s'"
  have same: "reader_inv (Suc n) (s\<lparr>r_module := m, r_modules := ms\<rparr>)" "reader_inv (Suc n) (s\<lparr>r_module := m\<rparr>)" for m ms
    using reader_inv_mono [OF inv] by (simp_all add: reader_inv_def)
  show ?thesis
    using step inv same reader_inv_mono [OF inv] reader_inv_emit [OF inv] reader_inv_close [OF inv] reader_inv_open [OF inv]
    by (auto simp: read_line_def Let_def split: if_splits option.splits sum.splits)
qed

lemma reader_inv_lines:
  "reader_inv n s \<Longrightarrow> read_lines n ls s = Inr s' \<Longrightarrow> reader_inv (n + length ls) s'"
proof (induction ls arbitrary: n s)
  case (Cons l ls)
  then show ?case by (fastforce split: sum.splits dest: reader_inv_line)
qed simp

lemma sample_config_parsed:
  "case exos_parse sample_config of Inl _ \<Rightarrow> False
   | Inr f \<Rightarrow> f_upm_bodies f = [(3, 4)] \<and> map c_line (f_commands f) = [1, 2, 3, 4]"
  by code_simp



text \<open>(C28) Parsing an EXOS configuration loses nothing: the parsed configuration writes back the text it
  was read from, byte for byte.\<close>

theorem serialize_parse: "exos_parse s = Inr f \<Longrightarrow> serialize f = s"
  by (auto simp: exos_parse_def serialize_def Let_def split: sum.splits)

theorem serialize_parse_witness:
  "\<exists>f. exos_parse sample_config = Inr f \<and> serialize f = sample_config"
proof -
  obtain f where f: "exos_parse sample_config = Inr f"
    using sample_config_parsed by (auto split: sum.splits)
  with serialize_parse [OF f] show ?thesis by blast
qed

end
