(* ===== verification/Exos_Model.thy ===== *)
theory Exos_Model
  imports Exos_Config Netops_Net "HOL-Library.Product_Lexorder"
begin

text \<open>
  What an ExtremeXOS configuration says about its VLANs and ports, \<open>netops_auditor/management.py\<close>:
  port lists and ranges, the port inventory, and the membership of ports in VLANs. Sets of ports and
  names are lists without repetitions; a \<open>PolicyError\<close> is its message.
\<close>

section \<open>Port lists\<close>

text \<open>\<open>PORT\<close>: a port number, or a slot and a port number\<close>

definition port_part :: "string \<Rightarrow> bool" where
  "port_part s \<longleftrightarrow> all_digits s \<and> length s \<le> 4 \<and> hd s \<noteq> CHR ''0''"

definition port_name :: "string \<Rightarrow> bool" where
  "port_name s = (case split_on CHR '':'' s of
     [n] \<Rightarrow> port_part n
   | [slot, n] \<Rightarrow> port_part slot \<and> port_part n
   | _ \<Rightarrow> False)"

definition ALL_PORTS :: string where "ALL_PORTS = ''all''"

text \<open>\<open>(?:([0-9]+):)?([0-9]+)-(?:([0-9]+):)?([0-9]+)\<close> in full: the two slots and the two numbers\<close>

definition range_end :: "string \<Rightarrow> (string option \<times> string) option" where
  "range_end s = (case split_on CHR '':'' s of
     [n] \<Rightarrow> if all_digits n then Some (None, n) else None
   | [slot, n] \<Rightarrow> if all_digits slot \<and> all_digits n then Some (Some slot, n) else None
   | _ \<Rightarrow> None)"

record port_range =
  pr_slot :: "string option"
  pr_start :: string
  pr_end_slot :: "string option"
  pr_end :: string

definition range_match :: "string \<Rightarrow> port_range option" where
  "range_match item = (case split_on CHR ''-'' item of
     [l, r] \<Rightarrow> (case (range_end l, range_end r) of
        (Some (slot, n), Some (slot', n')) \<Rightarrow> Some \<lparr>pr_slot = slot, pr_start = n, pr_end_slot = slot', pr_end = n'\<rparr>
      | _ \<Rightarrow> None)
   | _ \<Rightarrow> None)"

text \<open>\<open>_port_order\<close>; port names have at most one colon\<close>

definition port_order :: "string \<Rightarrow> nat \<times> nat" where
  "port_order port = (case rev (split_on CHR '':'' port) of
     [n] \<Rightarrow> (0, int_of n)
   | n # slots \<Rightarrow> (int_of (join '':'' (rev slots)), int_of n)
   | [] \<Rightarrow> (0, 0))"

text \<open>\<open>bisect.bisect_left\<close> and \<open>bisect.bisect_right\<close> with a key: the interval that is left is halved by a test
  on its middle.\<close>

function bisect :: "('a \<Rightarrow> bool) \<Rightarrow> 'a list \<Rightarrow> nat \<Rightarrow> nat \<Rightarrow> nat" where
  "bisect below xs lo hi =
     (if lo < hi
      then (let mid = (lo + hi) div 2 in
            if below (xs ! mid) then bisect below xs (mid + 1) hi else bisect below xs lo mid)
      else lo)"
  by pat_completeness auto

termination bisect
  by (relation "measure (\<lambda>(below, xs, lo, hi). hi - lo)") auto

declare bisect.simps [simp del]

definition bisect_left :: "('k :: linorder \<times> 'a) list \<Rightarrow> 'k \<Rightarrow> nat" where
  "bisect_left xs k = bisect (\<lambda>item. fst item < k) xs 0 (length xs)"

definition bisect_right :: "('k :: linorder \<times> 'a) list \<Rightarrow> 'k \<Rightarrow> nat" where
  "bisect_right xs k = bisect (\<lambda>item. fst item \<le> k) xs 0 (length xs)"

definition ordered_ports :: "string list \<Rightarrow> ((nat \<times> nat) \<times> string) list" where
  "ordered_ports inventory = sort (map (\<lambda>port. (port_order port, port)) inventory)"

definition slot_range :: "port_range \<Rightarrow> string list option \<Rightarrow> string + string list" where
  "slot_range m inventory = (case (inventory, pr_slot m, pr_end_slot m) of
     (Some (p # ps), Some slot, Some end_slot) \<Rightarrow>
       let first = slot @ '':'' @ pr_start m; final = end_slot @ '':'' @ pr_end m in
       if first \<notin> set (p # ps) \<or> final \<notin> set (p # ps) \<or> port_order first > port_order final
       then Inl ''port range outside the port inventory''
       else let ordered = ordered_ports (p # ps);
                start = bisect_left ordered (port_order first);
                stop = bisect_right ordered (port_order final)
            in Inr (map snd (drop start (take stop ordered)))
   | _ \<Rightarrow> Inl ''unsupported port list'')"

text \<open>One item of a list\<close>

definition port_item :: "string \<Rightarrow> string list option \<Rightarrow> string + string list" where
  "port_item item inventory =
     (if port_name item then Inr [item]
      else if item = ALL_PORTS \<and> inventory \<noteq> None \<and> inventory \<noteq> Some [] then Inr (the inventory)
      else case range_match item of
        None \<Rightarrow> Inl ''unsupported port list''
      | Some m \<Rightarrow>
          if pr_end_slot m \<noteq> None \<and> pr_end_slot m \<noteq> pr_slot m then slot_range m inventory
          else let start = int_of (pr_start m); stop = int_of (pr_end m) in
            if \<not> (1 \<le> start \<and> start \<le> stop \<and> stop \<le> 4096) then Inl ''invalid port range''
            else Inr (map (\<lambda>n. (case pr_slot m of None \<Rightarrow> [] | Some slot \<Rightarrow> slot @ '':'') @ show_nat n) [start ..< stop + 1]))"

definition add_new :: "'a list \<Rightarrow> 'a list \<Rightarrow> 'a list" where
  "add_new found new = found @ filter (\<lambda>x. x \<notin> set found) (remdups new)"

fun ports_loop :: "string list \<Rightarrow> string list option \<Rightarrow> string list \<Rightarrow> string + string list" where
  "ports_loop [] inventory result = (if length result > 4096 then Inl ''port list is too large'' else Inr result)"
| "ports_loop (item # items) inventory result = (case port_item item inventory of
     Inl e \<Rightarrow> Inl e
   | Inr new \<Rightarrow> ports_loop items inventory (add_new result new))"

definition ports :: "string \<Rightarrow> string list option \<Rightarrow> string + string list" where
  "ports v inventory = ports_loop (split_on CHR '','' v) inventory []"

section \<open>The inventory\<close>

definition inventory_value :: "command \<Rightarrow> string option" where
  "inventory_value c = (case c_tokens c of
     [t0, t1, t2, t3, t4, t5] \<Rightarrow>
       if t0 = ''configure'' \<and> casefold t1 = ''vr'' \<and> t3 \<in> {''add'', ''delete''} \<and> t4 = ''ports'' then Some t5 else None
   | _ \<Rightarrow> None)"

fun inventory_loop :: "command list \<Rightarrow> string list \<Rightarrow> string list option" where
  "inventory_loop [] found = (if found = [] then None else Some found)"
| "inventory_loop (c # cs) found = (case inventory_value c of
     None \<Rightarrow> inventory_loop cs found
   | Some v \<Rightarrow> (case ports v None of Inl _ \<Rightarrow> None | Inr new \<Rightarrow> inventory_loop cs (add_new found new)))"

definition port_inventory :: "configuration \<Rightarrow> string list option" where
  "port_inventory tree = inventory_loop (f_active tree) []"

section \<open>VLANs and members\<close>

record modes =
  md_tagged :: "string list"
  md_untagged :: "string list"

text \<open>The tag of a VLAN is the only thing its dictionary can hold.\<close>

record vlan_view =
  vw_vlans :: "(string, string option) dict"
  vw_members :: "(string, modes) dict"
  vw_descriptions :: "(string, string) dict"
  vw_populated :: "string list"
  vw_unresolved :: "string list"

definition MEMBERSHIP_LIST :: string where "MEMBERSHIP_LIST = ''membership-list''"
definition MEMBERSHIP_FORM :: string where "MEMBERSHIP_FORM = ''membership-form''"
definition DESCRIPTION_LIST :: string where "DESCRIPTION_LIST = ''description-list''"

definition set_default :: "'k \<Rightarrow> 'v \<Rightarrow> ('k, 'v) dict \<Rightarrow> ('k, 'v) dict" where
  "set_default k v d = (if k \<in> set (keys d) then d else AList.update k v d)"

definition add_member :: "string \<Rightarrow> string \<Rightarrow> string \<Rightarrow> (string, modes) dict \<Rightarrow> (string, modes) dict" where
  "add_member mode name port members =
     (let m = (case map_of members port of None \<Rightarrow> \<lparr>md_tagged = [], md_untagged = []\<rparr> | Some m \<Rightarrow> m) in
      AList.update port (if mode = ''tagged'' then m\<lparr>md_tagged := add_new (md_tagged m) [name]\<rparr>
                         else m\<lparr>md_untagged := add_new (md_untagged m) [name]\<rparr>) members)"

text \<open>\<open>expand\<close>: the ports of a list; a list that cannot be resolved is an error or a note\<close>

definition expand :: "string list option \<Rightarrow> bool \<Rightarrow> string \<Rightarrow> string \<Rightarrow> vlan_view \<Rightarrow> string + (string list \<times> vlan_view)" where
  "expand inventory strict v kind w = (case ports v inventory of
     Inr ps \<Rightarrow> Inr (ps, w)
   | Inl e \<Rightarrow> if strict then Inl e else Inr ([], w\<lparr>vw_unresolved := add_new (vw_unresolved w) [kind]\<rparr>))"

definition set_tag :: "string \<Rightarrow> string \<Rightarrow> vlan_view \<Rightarrow> vlan_view" where
  "set_tag name tag w = w\<lparr>vw_vlans := AList.update name (Some tag) (vw_vlans w)\<rparr>"

definition know_vlan :: "string \<Rightarrow> vlan_view \<Rightarrow> vlan_view" where
  "know_vlan name w = w\<lparr>vw_vlans := set_default name None (vw_vlans w)\<rparr>"

definition add_ports :: "string list option \<Rightarrow> bool \<Rightarrow> string list \<Rightarrow> vlan_view \<Rightarrow> string + vlan_view" where
  "add_ports inventory strict t w =
     (let w = w\<lparr>vw_populated := add_new (vw_populated w) [t ! 2]\<rparr> in
      if length t = 7 \<and> t ! 6 \<in> {''tagged'', ''untagged''}
      then (case expand inventory strict (t ! 5) MEMBERSHIP_LIST w of
          Inl e \<Rightarrow> Inl e
        | Inr (ps, w) \<Rightarrow> Inr (w\<lparr>vw_members := fold (add_member (t ! 6) (t ! 2)) ps (vw_members w)\<rparr>))
      else if strict then Inl ''unsupported VLAN membership form''
      else Inr (w\<lparr>vw_unresolved := add_new (vw_unresolved w) [MEMBERSHIP_FORM]\<rparr>))"

definition view_step :: "string list option \<Rightarrow> bool \<Rightarrow> command \<Rightarrow> vlan_view \<Rightarrow> string + vlan_view" where
  "view_step inventory strict c w =
     (let t = c_tokens c in
      if take 2 t = [''create'', ''vlan''] \<and> length t \<ge> 3
      then let w = know_vlan (t ! 2) w in
        Inr (if length t = 5 \<and> t ! 3 = ''tag'' then set_tag (t ! 2) (t ! 4) w else w)
      else if take 2 t = [''configure'', ''vlan''] \<and> length t \<ge> 5
      then let w = know_vlan (t ! 2) w in
        if t ! 3 = ''tag'' \<and> length t = 5 then Inr (set_tag (t ! 2) (t ! 4) w)
        else if t ! 3 = ''add'' \<and> t ! 4 = ''ports'' then add_ports inventory strict t w
        else Inr w
      else if take 2 t = [''configure'', ''ports''] \<and> length t = 5 \<and> t ! 3 = ''display-string''
      then (case expand inventory strict (t ! 2) DESCRIPTION_LIST w of
          Inl e \<Rightarrow> Inl e
        | Inr (ps, w) \<Rightarrow> Inr (w\<lparr>vw_descriptions := fold (\<lambda>port. AList.update port (t ! 4)) ps (vw_descriptions w)\<rparr>))
      else Inr w)"

fun view_loop :: "string list option \<Rightarrow> bool \<Rightarrow> command list \<Rightarrow> vlan_view \<Rightarrow> string + vlan_view" where
  "view_loop inventory strict [] w = Inr w"
| "view_loop inventory strict (c # cs) w = (case view_step inventory strict c w of
     Inl e \<Rightarrow> Inl e
   | Inr w' \<Rightarrow> view_loop inventory strict cs w')"

definition empty_view :: vlan_view where
  "empty_view = \<lparr>vw_vlans = [], vw_members = [], vw_descriptions = [], vw_populated = [], vw_unresolved = []\<rparr>"

definition exos_view :: "configuration \<Rightarrow> string list option \<Rightarrow> bool \<Rightarrow> string + vlan_view" where
  "exos_view tree inventory strict = (case view_loop inventory strict (f_active tree) empty_view of
     Inl e \<Rightarrow> Inl e
   | Inr w \<Rightarrow> if strict \<and> f_unterminated_upm tree then Inl ''unterminated UPM profile'' else Inr w)"

definition exos_model :: "configuration \<Rightarrow> string list option \<Rightarrow> string + vlan_view" where
  "exos_model tree inventory = exos_view tree inventory True"

end
