(* ===== verification/Admin_Exos.thy ===== *)
theory Admin_Exos
  imports Exos_Model Admin_Profile
begin

text \<open>
  The ExtremeXOS side of planning, \<open>netops_admin/exos.py\<close> and \<open>netops_admin/membership.py\<close>: snapshots
  and what they say about VLANs, ports and the membership of ports, the commands of a change, and
  the predicted configuration. Sets of names are lists without repetitions; where the code iterates
  over a set, the order is that of the list.
\<close>

section \<open>Snapshots\<close>

definition OWN_ATTRIBUTES :: "string list" where "OWN_ATTRIBUTES = [''tag'', ''description'']"
definition DEFAULT_RECOVERY :: "string list" where
  "DEFAULT_RECOVERY = [''configure'', ''sys-recovery-level'', ''switch'', ''reset'']"
definition SECRET_SUBJECTS :: "string list" where "SECRET_SUBJECTS = [''snmp'', ''snmpv3'']"
definition SECRET_WORDS :: "string list" where
  "SECRET_WORDS = [''community'', ''encrypted'', ''password'', ''shared-secret'']"
definition FREE_TEXT :: "string list" where
  "FREE_TEXT = [''description'', ''description-string'', ''display-string'', ''syscontact'', ''syslocation'', ''sysname'']"
definition KEYWORDS :: "string list" where "KEYWORDS = SECRET_SUBJECTS @ SECRET_WORDS @ FREE_TEXT"

record exos_entry =
  xe_name :: string
  xe_attributes :: attributes
  xe_unsupported :: "string list"

definition new_entry :: "string \<Rightarrow> exos_entry" where
  "new_entry name = \<lparr>xe_name = name, xe_attributes = [], xe_unsupported = []\<rparr>"

record exos_snapshot =
  xs_firmware :: string
  xs_inventory :: "string list option"
  xs_configuration :: configuration
  xs_commands :: "command list"
  xs_vlans :: "(string, exos_entry) dict"
  xs_ports :: "(string, exos_entry) dict"
  xs_port_lists :: "string list"

text \<open>\<open>safeguard_names\<close> and \<open>SAFEGUARD_NAME\<close>\<close>

definition exos_safeguard_names :: "string \<Rightarrow> (string, string) dict" where
  "exos_safeguard_names change_id =
     (let base = ''netops'' @ take 6 change_id in [(''profile'', base @ ''p''), (''timer'', base @ ''t'')])"

definition SAFEGUARD_NAME :: "string \<Rightarrow> bool" where
  "SAFEGUARD_NAME s \<longleftrightarrow> length s = 13 \<and> take 6 s = ''netops'' \<and> list_all is_lower_hex (take 6 (drop 6 s)) \<and> last s \<in> {CHR ''p'', CHR ''t''}"

text \<open>\<open>_without_safeguards\<close>: the commands outside the profiles and timers whose names \<open>own\<close> accepts. The
  caller passes \<open>SAFEGUARD_NAME\<close> for any safeguard, and \<open>own_names\<close> for those of one change.\<close>

definition own_names :: "string option \<Rightarrow> string \<Rightarrow> bool" where
  "own_names safeguard_id name = (case safeguard_id of
     None \<Rightarrow> False
   | Some change_id \<Rightarrow> name \<in> snd ` set (exos_safeguard_names change_id))"

fun without_safeguards :: "(string \<Rightarrow> bool) \<Rightarrow> bool \<Rightarrow> command list \<Rightarrow> command list" where
  "without_safeguards own skip [] = []"
| "without_safeguards own skip (c # cs) =
     (let t = c_tokens c in
      if skip then without_safeguards own (strip (c_text c) \<noteq> ''.'') cs
      else if c_module c = ''upm'' \<and> take 3 t = [''create'', ''upm'', ''profile''] \<and> length t = 4 \<and> own (t ! 3)
      then without_safeguards own True cs
      else if c_module c = ''upm'' \<and> length t \<ge> 4 \<and> take 2 (drop 1 t) = [''upm'', ''timer''] \<and> own (t ! 3)
      then without_safeguards own False cs
      else c # without_safeguards own False cs)"

definition is_display_string :: "command \<Rightarrow> bool" where
  "is_display_string c \<longleftrightarrow> (let t = c_tokens c in
     length t \<ge> 5 \<and> take 2 t = [''configure'', ''ports''] \<and> t ! 3 = ''display-string'')"

definition default_recovery :: "command \<Rightarrow> bool" where
  "default_recovery c \<longleftrightarrow> map casefold (c_tokens c) = DEFAULT_RECOVERY"

definition at_line :: "command \<Rightarrow> string" where
  "at_line c = ''line '' @ show_nat (c_line c)"

definition unsupported_note :: "string \<Rightarrow> exos_entry \<Rightarrow> exos_entry" where
  "unsupported_note note e = e\<lparr>xe_unsupported := xe_unsupported e @ [note]\<rparr>"

definition set_attribute :: "string \<Rightarrow> string \<Rightarrow> exos_entry \<Rightarrow> exos_entry" where
  "set_attribute name v e = e\<lparr>xe_attributes := AList.update name v (xe_attributes e)\<rparr>"

text \<open>\<open>entries.setdefault(name, Entry(name))\<close>, and a change of the entry\<close>

definition on_entry :: "string \<Rightarrow> (exos_entry \<Rightarrow> exos_entry) \<Rightarrow> (string, exos_entry) dict \<Rightarrow> (string, exos_entry) dict" where
  "on_entry name f d = AList.update name (f (case map_of d name of None \<Rightarrow> new_entry name | Some e \<Rightarrow> e)) d"

definition read_vlan :: "command \<Rightarrow> (string, exos_entry) dict \<Rightarrow> (string, exos_entry) dict" where
  "read_vlan c vlans =
     (if cmd_starts_with c [''create'', ''vlan''] \<and> length (c_tokens c) \<ge> 3
      then on_entry (c_tokens c ! 2) (if length (c_tokens c) \<noteq> 3 then unsupported_note (at_line c @ '': create options'') else id) vlans
      else vlans)"

definition read_port :: "command \<Rightarrow> (string, exos_entry) dict \<times> string list \<Rightarrow> (string, exos_entry) dict \<times> string list" where
  "read_port c state =
     (if \<not> is_display_string c then state
      else let port = c_tokens c ! 2 in
        if \<not> all_digits port then (fst state, snd state @ [at_line c])
        else (on_entry port (\<lambda>e. set_attribute ''display-string'' (join '' '' (drop 4 (c_tokens c)))
          (if ''display-string'' \<in> set (keys (xe_attributes e)) then unsupported_note (at_line c @ '': repeated display-string'') e else e)) (fst state),
          snd state))"

text \<open>\<open>_entry\<close> and \<open>_owner\<close>: the VLAN a \<open>configure vlan\<close> command is about, the attribute and its value\<close>

definition vlan_named :: "(string, exos_entry) dict \<Rightarrow> string \<Rightarrow> string option" where
  "vlan_named vlans name = find (\<lambda>key. casefold key = casefold name) (keys vlans)"

definition owner :: "(string, exos_entry) dict \<Rightarrow> command \<Rightarrow> (string \<times> string \<times> string) option" where
  "owner vlans c = (case c_tokens c of
     [t0, t1, t2, t3, t4] \<Rightarrow>
       if t0 = ''configure'' \<and> t1 = ''vlan'' \<and> t3 \<in> set OWN_ATTRIBUTES
       then map_option (\<lambda>key. (key, t3, t4)) (vlan_named vlans t2) else None
   | _ \<Rightarrow> None)"

definition read_owner :: "command \<Rightarrow> (string, exos_entry) dict \<Rightarrow> (string, exos_entry) dict" where
  "read_owner c vlans = (case owner vlans c of
     None \<Rightarrow> vlans
   | Some (key, name, v) \<Rightarrow> on_entry key (\<lambda>e. set_attribute name v
       (if name \<in> set (keys (xe_attributes e)) then unsupported_note (at_line c @ '': repeated '' @ name) e else e)) vlans)"

text \<open>\<open>Snapshot.__init__\<close>\<close>

definition exos_load :: "string \<Rightarrow> string option \<Rightarrow> exn + exos_snapshot" where
  "exos_load s firmware =
     (if firmware = None \<or> firmware = Some []
      then reject ''an ExtremeXOS configuration does not name its firmware; the caller must state it''
      else case exos_parse s of
        Inl why \<Rightarrow> Inl (SnapshotRejected [''snapshot does not parse: '' @ why] ''snapshot unreadable'')
      | Inr tree \<Rightarrow>
          if ''vlan'' \<notin> set (f_modules tree)
          then Inl (SnapshotRejected [''snapshot holds no vlan module; it is not a complete configuration''] ''snapshot incomplete'')
          else let commands = without_safeguards SAFEGUARD_NAME False (f_commands tree);
                   vlans = fold read_vlan commands [];
                   (ports, port_lists) = fold read_port commands ([], [])
               in Inr \<lparr>xs_firmware = the firmware, xs_inventory = None, xs_configuration = tree, xs_commands = commands,
                    xs_vlans = fold read_owner commands vlans, xs_ports = ports, xs_port_lists = port_lists\<rparr>)"

definition is_own :: "exos_snapshot \<Rightarrow> command \<Rightarrow> string \<Rightarrow> bool" where
  "is_own snap c key \<longleftrightarrow>
     cmd_starts_with c [''create'', ''vlan''] \<and> length (c_tokens c) \<ge> 3 \<and> casefold (c_tokens c ! 2) = casefold key
     \<or> (case owner (xs_vlans snap) c of None \<Rightarrow> False | Some (name, _, _) \<Rightarrow> casefold name = casefold key)"

text \<open>\<open>_named_tokens\<close>: the words of a command that can name an object, not secrets and free texts\<close>

fun named_words :: "string option \<Rightarrow> string list \<Rightarrow> string list" where
  "named_words prev [] = []"
| "named_words prev (t # ts) =
     (if casefold t \<in> set FREE_TEXT then []
      else (case prev of Some p \<Rightarrow> if p \<in> set SECRET_WORDS then [] else [t] | None \<Rightarrow> [t]) @ named_words (Some (casefold t)) ts)"

definition named_tokens :: "command \<Rightarrow> string list" where
  "named_tokens c = (case c_tokens c of
     a # b # _ \<Rightarrow> if casefold b \<in> set SECRET_SUBJECTS then [] else named_words None (c_tokens c)
   | ts \<Rightarrow> named_words None ts)"

definition mentions :: "command \<Rightarrow> string \<Rightarrow> bool" where
  "mentions c key \<longleftrightarrow> (let folded = casefold key in
     list_ex (\<lambda>token. casefold token = folded) (if folded \<in> set KEYWORDS then c_tokens c else named_tokens c))"

definition exos_references :: "exos_snapshot \<Rightarrow> string \<Rightarrow> string \<Rightarrow> string list" where
  "exos_references snap table key =
     (if table \<in> {''ports'', ''vlan-membership''} then []
      else sort (map (\<lambda>c. at_line c @ '' (module '' @ (if c_module c = [] then ''-'' else c_module c) @ '')'')
        (filter (\<lambda>c. mentions c key \<and> \<not> is_own snap c key) (xs_commands snap))))"

definition exos_in_use :: "exos_snapshot \<Rightarrow> string \<Rightarrow> bool" where
  "exos_in_use snap key = list_ex (\<lambda>c. mentions c key) (xs_commands snap)"

definition tags :: "exos_snapshot \<Rightarrow> string list" where
  "tags snap = remdups (concat (map (\<lambda>(_, e). case map_of (xe_attributes e) ''tag'' of None \<Rightarrow> [] | Some t \<Rightarrow> [t]) (xs_vlans snap)))"

section \<open>Membership of ports\<close>

definition DEFAULT_VLAN :: string where "DEFAULT_VLAN = ''Default''"
definition EXPLICIT_DEFAULT :: "string list" where
  "EXPLICIT_DEFAULT = [''configure'', ''vlan'', ''default'', ''delete'', ''ports'', ''all'']"
definition DEFAULT_ROUTER :: "string list" where "DEFAULT_ROUTER = [''configure'', ''vr'', ''vr-default'']"
definition LAG_REFUSAL :: string where "LAG_REFUSAL = ''VLAN membership changes on link aggregation ports are unsupported''"
definition NATIVE_REFUSAL :: string where
  "NATIVE_REFUSAL = ''the port must have exactly one known native VLAN before and after the change''"

definition explicit_default :: "command \<Rightarrow> bool" where
  "explicit_default c \<longleftrightarrow> map casefold (c_tokens c) = EXPLICIT_DEFAULT"

definition default_rendering :: "exos_snapshot \<Rightarrow> command \<Rightarrow> bool" where
  "default_rendering snap c = (case xs_inventory snap of
     None \<Rightarrow> False
   | Some inventory \<Rightarrow> explicit_default c \<or>
       (let t = map casefold (c_tokens c) in
        length t = 6 \<and> take 3 t = DEFAULT_ROUTER \<and> t ! 3 \<in> {''add'', ''delete''} \<and> t ! 4 = ''ports'' \<and>
        (case ports (c_tokens c ! 5) None of Inl _ \<Rightarrow> False | Inr ps \<Rightarrow> set ps = set inventory)))"

text \<open>\<open>_implicit\<close>\<close>

definition implicit :: "exos_snapshot \<Rightarrow> bool" where
  "implicit snap \<longleftrightarrow> xs_inventory snap \<noteq> None \<and> \<not> list_ex explicit_default (xs_commands snap)"

text \<open>\<open>_expanded\<close>\<close>

definition expanded :: "exos_snapshot \<Rightarrow> exn + vlan_view" where
  "expanded snap = (case exos_model (xs_configuration snap) (port_inventory (xs_configuration snap)) of
     Inl _ \<Rightarrow> reject ''VLAN membership cannot be evaluated from this snapshot''
   | Inr w \<Rightarrow> Inr w)"

definition untagged_of :: "vlan_view \<Rightarrow> string \<Rightarrow> string list" where
  "untagged_of w port = (case map_of (vw_members w) port of None \<Rightarrow> [] | Some m \<Rightarrow> md_untagged m)"

definition implicit_default :: "exos_snapshot \<Rightarrow> exn + string list" where
  "implicit_default snap =
     (if \<not> implicit snap then Inr []
      else then_check (expanded snap) (\<lambda>w. Inr (filter (\<lambda>port. untagged_of w port = []) (the (xs_inventory snap)))))"

definition default_member :: "string \<Rightarrow> (string, modes) dict \<Rightarrow> (string, modes) dict" where
  "default_member port members =
     (let members = set_default port \<lparr>md_tagged = [], md_untagged = []\<rparr> members;
          m = the (map_of members port)
      in if md_untagged m = [] then AList.update port (m\<lparr>md_untagged := [DEFAULT_VLAN]\<rparr>) members else members)"

definition member_model :: "exos_snapshot \<Rightarrow> exn + vlan_view" where
  "member_model snap = then_check (expanded snap) (\<lambda>w.
     if implicit snap
     then Inr (w\<lparr>vw_vlans := set_default DEFAULT_VLAN None (vw_vlans w),
                 vw_members := fold default_member (the (xs_inventory snap)) (vw_members w)\<rparr>)
     else Inr w)"

definition member_state :: "modes \<Rightarrow> attributes" where
  "member_state m = [(''untagged'', hd (md_untagged m)), (''tagged'', join '' '' (sort (md_tagged m)))]"

definition member_states :: "exos_snapshot \<Rightarrow> exn + (string, attributes) dict" where
  "member_states snap = then_check (member_model snap) (\<lambda>w.
     Inr (map (\<lambda>(port, m). (port, member_state m)) (filter (\<lambda>(_, m). length (md_untagged m) = 1) (vw_members w))))"

text \<open>\<open>lag_ports\<close>: the word after \<open>grouping\<close>, or else after \<open>group\<close>\<close>

definition word_after :: "string \<Rightarrow> string list \<Rightarrow> string option" where
  "word_after word ts = (case dropWhile (\<lambda>t. t \<noteq> word) ts of _ # v # _ \<Rightarrow> Some v | _ \<Rightarrow> None)"

definition sharing_ports :: "string list \<Rightarrow> exn + string list" where
  "sharing_ports t =
     (let refusal = reject ''link aggregation cannot be evaluated'' in
      case (t, word_after (if ''grouping'' \<in> set t then ''grouping'' else ''group'') t) of
        (_ # _ # v # _, Some v') \<Rightarrow> (case (ports v None, ports v' None) of
          (Inr ps, Inr ps') \<Rightarrow> Inr (ps @ ps')
        | _ \<Rightarrow> refusal)
      | _ \<Rightarrow> refusal)"

fun lag_loop :: "command list \<Rightarrow> string list \<Rightarrow> exn + string list" where
  "lag_loop [] affected = Inr affected"
| "lag_loop (c # cs) affected =
     (if take 2 (c_tokens c) = [''enable'', ''sharing'']
      then then_check (sharing_ports (c_tokens c)) (\<lambda>ps. lag_loop cs (add_new affected ps))
      else lag_loop cs affected)"

definition lag_ports :: "exos_snapshot \<Rightarrow> exn + string list" where
  "lag_ports snap = lag_loop (xs_commands snap) []"

definition words_in :: "attributes \<Rightarrow> string \<Rightarrow> string list" where
  "words_in state name = (case map_of state name of None \<Rightarrow> [] | Some v \<Rightarrow> split_ws v)"

definition member_prechecks :: "exos_snapshot \<Rightarrow> string \<Rightarrow> attributes \<Rightarrow> attributes option \<Rightarrow> exn + string list" where
  "member_prechecks snap key before after = then_check (member_model snap) (\<lambda>w.
     case map_of (vw_members w) key of
       None \<Rightarrow> Inr [NATIVE_REFUSAL]
     | Some m \<Rightarrow>
         if length (md_untagged m) \<noteq> 1 then Inr [NATIVE_REFUSAL]
         else case after of
           None \<Rightarrow> Inl (OtherError ''AttributeError'' ''no state'')
         | Some st \<Rightarrow> (case map_of st ''untagged'' of
             None \<Rightarrow> Inr [NATIVE_REFUSAL]
           | Some native \<Rightarrow>
               if native = [] then Inr [NATIVE_REFUSAL]
               else if \<exists>name \<in> set (native # words_in st ''tagged''). name \<notin> set (keys (vw_vlans w))
               then Inr [''a requested VLAN does not exist'']
               else if native \<in> set (words_in st ''tagged'') then Inr [''the native VLAN cannot also be tagged on this port'']
               else case lag_ports snap of
                 Inl x \<Rightarrow> if is_rejected x then Inr (reasons_of x) else Inl x
               | Inr lag \<Rightarrow>
                   if key \<in> set lag then Inr [LAG_REFUSAL]
                   else if list_ex (\<lambda>c. c_tokens c = [''configure'', ''vlan'', ''untagged-ports'', ''auto-move'', ''off'']) (xs_commands snap)
                     \<and> map_of before ''untagged'' \<noteq> Some native
                   then Inr [''native VLAN movement is disabled on this switch'']
                   else Inr []))"

text \<open>\<open>membership.render\<close>: the commands that take a port from one membership to another\<close>

definition native_of :: "attributes option \<Rightarrow> exn + string" where
  "native_of state = (case state of
     None \<Rightarrow> Inl (OtherError ''AttributeError'' ''no state'')
   | Some st \<Rightarrow> (case map_of st ''untagged'' of None \<Rightarrow> Inl (OtherError ''KeyError'' ''untagged'') | Some v \<Rightarrow> Inr v))"

definition tagged_of :: "attributes option \<Rightarrow> string list" where
  "tagged_of state = (case state of None \<Rightarrow> [] | Some st \<Rightarrow> remdups (words_in st ''tagged''))"

definition delete_ports :: "string \<Rightarrow> string \<Rightarrow> string" where
  "delete_ports port name = ''configure vlan '' @ name @ '' delete ports '' @ port"

definition add_port :: "string \<Rightarrow> string \<Rightarrow> string \<Rightarrow> string" where
  "add_port port mode name = ''configure vlan '' @ name @ '' add ports '' @ port @ '' '' @ mode"

definition member_render :: "string \<Rightarrow> attributes option \<Rightarrow> attributes option \<Rightarrow> exn + string list" where
  "member_render port before after =
     then_check (native_of before) (\<lambda>old_native. then_check (native_of after) (\<lambda>new_native.
     let old_tagged = tagged_of before; new_tagged = tagged_of after in
     Inr (map (delete_ports port) (filter (\<lambda>name. name \<noteq> new_native) (sorted_diff old_tagged new_tagged))
       @ (if old_native \<noteq> new_native
          then (if new_native \<in> set old_tagged then [delete_ports port new_native] else []) @ [add_port port ''untagged'' new_native]
          else [])
       @ map (add_port port ''tagged'') (sorted_diff new_tagged old_tagged))))"

section \<open>Digests of the rest\<close>

definition modes_json :: "modes \<Rightarrow> json" where
  "modes_json m = JObj [(''tagged'', JArr (map JStr (sort (md_tagged m)))), (''untagged'', JArr (map JStr (sort (md_untagged m))))]"

definition adds_ports :: "command \<Rightarrow> bool" where
  "adds_ports c \<longleftrightarrow> take 2 (c_tokens c) = [''configure'', ''vlan''] \<and> take 2 (drop 3 (c_tokens c)) = [''add'', ''ports'']"

definition member_rest_digest :: "(string \<Rightarrow> string) \<Rightarrow> exos_snapshot \<Rightarrow> string option \<Rightarrow> command list \<Rightarrow> exn + string" where
  "member_rest_digest sha256 snap port commands = then_check (member_model snap) (\<lambda>w.
     let other = map (\<lambda>(key, m). (key, modes_json m)) (filter (\<lambda>(key, _). Some key \<noteq> port) (vw_members w));
         lines = map c_text (filter (\<lambda>c. \<not> adds_ports c \<and> \<not> default_rendering snap c) commands)
     in Inr (sha256 (json_compact (JObj [(''other_memberships'', JObj other), (''configuration'', JArr (map JStr lines))]))))"

definition exos_rest_digest :: "(string \<Rightarrow> string) \<Rightarrow> exos_snapshot \<Rightarrow> string \<Rightarrow> string \<Rightarrow> string option \<Rightarrow> exn + string" where
  "exos_rest_digest sha256 snap table key safeguard_id =
     (let commands = filter (\<lambda>c. \<not> default_recovery c)
            (without_safeguards (own_names safeguard_id) False (f_commands (xs_configuration snap)));
          others = filter (\<lambda>c. \<not> (is_display_string c \<and> c_tokens c ! 2 = key)) commands
      in if table = ''vlan-membership'' then member_rest_digest sha256 snap (Some key) commands
         else if table = ''ports'' then
           (if xs_inventory snap \<noteq> None then member_rest_digest sha256 snap None others
            else Inr (sha256 (join [newline] (map c_text others))))
         else Inr (sha256 (join [newline] (map c_text (filter (\<lambda>c. \<not> is_own snap c key) commands)))))"

section \<open>Entries, commands and checks\<close>

definition exos_entries :: "exos_snapshot \<Rightarrow> string \<Rightarrow> exn + (string, exos_entry) dict option" where
  "exos_entries snap table =
     (if table = ''vlan-membership''
      then then_check (member_states snap) (\<lambda>states.
        Inr (Some (map (\<lambda>(port, st). (port, (new_entry port)\<lparr>xe_attributes := st\<rparr>)) states)))
      else if table = ''ports''
      then (if xs_port_lists snap \<noteq> []
            then reject (''display strings are set on port lists ('' @ join '', '' (xs_port_lists snap)
              @ ''); they cannot be evaluated per port'')
            else Inr (Some (xs_ports snap)))
      else if table \<noteq> ''vlan'' then Inr None
      else Inr (Some (xs_vlans snap)))"

definition exos_entry_state :: "exos_snapshot \<Rightarrow> exos_entry \<Rightarrow> string list \<Rightarrow> attributes \<times> string list" where
  "exos_entry_state snap e list_names = (xe_attributes e, xe_unsupported e)"

text \<open>\<open>port_order\<close>\<close>

definition exos_port_order :: "string \<Rightarrow> nat list" where
  "exos_port_order port = map int_of (split_on CHR '':'' port)"

definition exos_absent :: "exos_snapshot \<Rightarrow> string \<Rightarrow> string \<Rightarrow> exn + string list" where
  "exos_absent snap table key =
     (let missing = [''object '' @ py_repr key @ '' does not exist''] in
      if table = ''vlan-membership''
      then then_check (lag_ports snap) (\<lambda>lag.
        if key \<in> set lag then Inr [LAG_REFUSAL]
        else case xs_inventory snap of
          None \<Rightarrow> Inr missing
        | Some inventory \<Rightarrow> Inr [if key \<notin> set inventory then ''port '' @ key @ '' is not reported by the switch'' else NATIVE_REFUSAL])
      else Inr missing)"

text \<open>\<open>_text\<close>\<close>

definition exos_control :: "char \<Rightarrow> bool" where
  "exos_control c \<longleftrightarrow> code c < 32 \<or> code c = 127"

definition safe_text :: "string \<Rightarrow> bool \<Rightarrow> exn + string" where
  "safe_text v spaces =
     (if dquote \<in> set v \<or> backslash \<in> set v \<or> list_ex exos_control v \<or> \<not> spaces \<and> list_ex is_space v
      then reject (''the value '' @ py_repr v @ '' cannot be written safely: quotes, backslashes and control characters are not supported'')
      else Inr v)"

definition description_line :: "string \<Rightarrow> string \<Rightarrow> string" where
  "description_line key v = ''configure vlan '' @ key @ '' description '' @ [dquote] @ v @ [dquote]"

definition exos_render_create :: "profile \<Rightarrow> string \<Rightarrow> attributes \<Rightarrow> exn + string list" where
  "exos_render_create profile key attrs = (case map_of attrs ''tag'' of
     None \<Rightarrow> Inl (OtherError ''KeyError'' ''tag'')
   | Some tag \<Rightarrow>
       let create = ''create vlan '' @ key @ '' tag '' @ tag in
       case map_of attrs ''description'' of
         None \<Rightarrow> Inr [create]
       | Some d \<Rightarrow> then_check (safe_text d True) (\<lambda>d. Inr [create, description_line key d]))"

fun display_lines :: "string \<Rightarrow> string list \<Rightarrow> exn + string list" where
  "display_lines key [] = Inr []"
| "display_lines key (v # vs) = then_check (safe_text v False) (\<lambda>v. then_check (display_lines key vs) (\<lambda>lines.
     Inr ((''configure ports '' @ key @ '' display-string '' @ v) # lines)))"

definition exos_render_update :: "profile \<Rightarrow> string \<Rightarrow> attributes \<Rightarrow> string list \<Rightarrow> exn + string list" where
  "exos_render_update profile key assign remove =
     (if pf_table profile = ''vlan-membership'' then Inr []
      else if pf_table profile = ''ports''
      then then_check (display_lines key (map snd assign)) (\<lambda>lines.
        Inr (lines @ map (\<lambda>_. ''unconfigure ports '' @ key @ '' display-string'') remove))
      else then_check (case map_of assign ''description'' of
            None \<Rightarrow> Inr []
          | Some d \<Rightarrow> then_check (safe_text d True) (\<lambda>d. Inr [description_line key d])) (\<lambda>lines.
        Inr (lines @ (if ''description'' \<in> set remove then [''unconfigure vlan '' @ key @ '' description''] else []))))"

definition exos_render_delete :: "profile \<Rightarrow> string \<Rightarrow> string list" where
  "exos_render_delete profile key = [''delete vlan '' @ key]"

definition exos_prechecks :: "exos_snapshot \<Rightarrow> profile \<Rightarrow> string \<Rightarrow> string \<Rightarrow> attributes option \<Rightarrow> exn + string list" where
  "exos_prechecks snap profile op key after =
     (if pf_table profile = ''ports'' \<and> (case xs_inventory snap of None \<Rightarrow> False | Some inventory \<Rightarrow> key \<notin> set inventory)
      then Inr [''port '' @ key @ '' is not reported by the switch'']
      else if pf_table profile = ''vlan-membership''
      then then_check (member_states snap) (\<lambda>states.
        member_prechecks snap key (case map_of states key of None \<Rightarrow> [] | Some st \<Rightarrow> st) after)
      else case (op = ''create'', after) of
        (True, Some st) \<Rightarrow> (case map_of st ''tag'' of
          Some tag \<Rightarrow> Inr (if tag \<in> set (tags snap) then [''tag '' @ tag @ '' is already used by another VLAN''] else [])
        | None \<Rightarrow> Inr [])
      | _ \<Rightarrow> Inr [])"

definition EXPANDED :: string where "EXPANDED = ''$(''"
definition EXPANDED_REFUSAL :: string where
  "EXPANDED_REFUSAL = ''text with $( cannot be restored as a literal value by the timed safeguard''"

section \<open>The predicted configuration\<close>

text \<open>\<open>membership.modular\<close>: the commands under the headers of their modules, with new commands in module \<open>vlan\<close>\<close>

definition modular :: "exos_snapshot \<Rightarrow> command list \<Rightarrow> string list \<Rightarrow> string list" where
  "modular snap commands added =
     (let modules = f_modules (xs_configuration snap) in
      map c_text (filter (\<lambda>c. c_module c \<notin> set modules) commands)
      @ concat (map (\<lambda>module. (''# Module '' @ module @ '' configuration.'')
          # map c_text (filter (\<lambda>c. c_module c = module) commands)
          @ (if module = ''vlan'' then added else [])) modules))"

definition member_lines :: "string \<times> modes \<Rightarrow> string list" where
  "member_lines pm = map (add_port (fst pm) ''tagged'') (sort (md_tagged (snd pm)))
     @ map (add_port (fst pm) ''untagged'') (sort (md_untagged (snd pm)))"

definition member_prediction :: "exos_snapshot \<Rightarrow> string \<Rightarrow> attributes option \<Rightarrow> exn + string" where
  "member_prediction snap port state = then_check (member_model snap) (\<lambda>w.
     then_check (native_of state) (\<lambda>native.
     let members = AList.update port \<lparr>md_tagged = tagged_of state, md_untagged = [native]\<rparr> (vw_members w);
         others = filter (\<lambda>c. \<not> adds_ports c) (xs_commands snap);
         added = concat (map member_lines (sort_key fst members))
     in Inr (join [newline] (modular snap others added) @ [newline])))"

end
