(* ===== verification/Admin_Engine.thy ===== *)
theory Admin_Engine
  imports Admin_Fortios Admin_Exos
begin

text \<open>
  Planning and verification, \<open>netops_admin/engine.py\<close>. A platform module (\<open>ADAPTERS\<close>) is a record of its
  operations, over its own types of snapshots and entries; what the engine does for one platform only
  (links between objects, texts the safeguard cannot restore, the checks of policies) is part of that
  record. The loaded profiles, the digest and the version of the package are parameters.
  A missing table of protected names is the empty one, as \<open>protected or {}\<close> makes it. Schema
  transactions are not modelled.
\<close>

section \<open>Platforms\<close>

record ('s, 'e) platform =
  pa_name :: string
  pa_load :: "string \<Rightarrow> string option \<Rightarrow> exn + 's"
  pa_firmware :: "'s \<Rightarrow> string"
  pa_with_ports :: "string list \<Rightarrow> 's \<Rightarrow> exn + 's"
  pa_entries :: "'s \<Rightarrow> string \<Rightarrow> exn + (string, 'e) dict option"
  pa_entry_state :: "'s \<Rightarrow> 'e \<Rightarrow> string list \<Rightarrow> attributes \<times> string list"
  pa_references :: "'s \<Rightarrow> string \<Rightarrow> string \<Rightarrow> string list"
  pa_in_use :: "'s \<Rightarrow> string \<Rightarrow> bool"
  pa_rest_digest :: "'s \<Rightarrow> string \<Rightarrow> string \<Rightarrow> string option \<Rightarrow> exn + string"
  pa_absent :: "'s \<Rightarrow> string \<Rightarrow> string \<Rightarrow> exn + string list"
  pa_render_create :: "profile \<Rightarrow> string \<Rightarrow> attributes \<Rightarrow> exn + string list"
  pa_render_update :: "profile \<Rightarrow> string \<Rightarrow> attributes \<Rightarrow> string list \<Rightarrow> exn + string list"
  pa_render_delete :: "profile \<Rightarrow> string \<Rightarrow> exn + string list"
  pa_prechecks :: "'s \<Rightarrow> profile \<Rightarrow> string \<Rightarrow> string \<Rightarrow> attributes option \<Rightarrow> exn + string list"
  pa_linked :: "'s \<Rightarrow> profile \<Rightarrow> string \<Rightarrow> exn + string list"
  pa_closure :: "'s \<Rightarrow> profile \<Rightarrow> string list \<Rightarrow> string list"
  pa_literal :: "string list \<Rightarrow> string list \<Rightarrow> exn + unit"
  pa_policy :: "'s \<Rightarrow> profile \<Rightarrow> string \<Rightarrow> string \<Rightarrow> attributes option \<Rightarrow> attributes option \<Rightarrow> string list
    \<Rightarrow> (string, string list) dict \<Rightarrow> exn + string list"

text \<open>\<open>_linked\<close> for FortiOS, and the literal texts and policy checks of \<open>build_plan\<close>\<close>

definition fortios_linked :: "fortios_snapshot \<Rightarrow> profile \<Rightarrow> string \<Rightarrow> exn + string list" where
  "fortios_linked snap prof key = Inr (if pf_table prof = ''firewall addrgrp''
     then containing_groups (fortios_entries snap ''firewall addrgrp'') key else [])"

definition fortios_closure :: "fortios_snapshot \<Rightarrow> profile \<Rightarrow> string list \<Rightarrow> string list" where
  "fortios_closure snap prof names =
     (if pf_table prof \<in> {''firewall addrgrp'', ''firewall policy''}
      then add_new names (member_closure (fortios_entries snap ''firewall addrgrp'') names) else names)"

definition fortios_literal :: "string list \<Rightarrow> string list \<Rightarrow> exn + unit" where
  "fortios_literal commands undoing =
     (if list_ex (contains ''%%'') (commands @ undoing)
      then reject ''automation placeholders cannot be restored as literal values by the timed safeguard'' else Inr ())"

definition fortios_platform :: "(string \<Rightarrow> string) \<Rightarrow> (fortios_snapshot, node) platform" where
  "fortios_platform sha256 =
     \<lparr>pa_name = ''fortios'', pa_load = fortios_load, pa_firmware = fs_firmware,
      pa_with_ports = (\<lambda>_ _. reject ''a port list applies only to ExtremeXOS''),
      pa_entries = (\<lambda>snap table. Inr (fortios_entries snap table)), pa_entry_state = fortios_entry_state,
      pa_references = fortios_references, pa_in_use = fortios_in_use, pa_rest_digest = fortios_rest_digest sha256,
      pa_absent = (\<lambda>_ _ key. Inr (fortios_absent key)),
      pa_render_create = fortios_render_create, pa_render_update = fortios_render_update,
      pa_render_delete = fortios_render_delete, pa_prechecks = (\<lambda>snap prof op. fortios_prechecks snap prof),
      pa_linked = fortios_linked, pa_closure = fortios_closure, pa_literal = fortios_literal,
      pa_policy = (\<lambda>snap prof op key before after undoing protected.
        if pf_table prof = ''firewall policy'' then policy_prechecks snap op key before after undoing protected else Inr [])\<rparr>"

text \<open>\<open>_linked\<close> for ExtremeXOS: the VLANs of a port, or the ports of a VLAN\<close>

definition exos_linked :: "exos_snapshot \<Rightarrow> profile \<Rightarrow> string \<Rightarrow> exn + string list" where
  "exos_linked snap prof key =
     (if pf_table prof \<notin> {''ports'', ''vlan''} then Inr []
      else then_check (member_model snap) (\<lambda>w.
        if pf_table prof = ''ports''
        then Inr (case map_of (vw_members w) key of None \<Rightarrow> [] | Some m \<Rightarrow> add_new (md_tagged m) (md_untagged m))
        else Inr (map fst (filter (\<lambda>(_, m). list_ex (\<lambda>name. casefold name = casefold key) (md_tagged m @ md_untagged m))
          (vw_members w)))))"

definition exos_literal :: "string list \<Rightarrow> string list \<Rightarrow> exn + unit" where
  "exos_literal commands undoing = (if list_ex (contains EXPANDED) undoing then reject EXPANDED_REFUSAL else Inr ())"

definition exos_platform :: "(string \<Rightarrow> string) \<Rightarrow> (exos_snapshot, exos_entry) platform" where
  "exos_platform sha256 =
     \<lparr>pa_name = ''exos'', pa_load = exos_load, pa_firmware = xs_firmware,
      pa_with_ports = (\<lambda>ps snap. Inr (snap\<lparr>xs_inventory := Some (remdups ps)\<rparr>)),
      pa_entries = exos_entries, pa_entry_state = exos_entry_state,
      pa_references = exos_references, pa_in_use = exos_in_use, pa_rest_digest = exos_rest_digest sha256,
      pa_absent = exos_absent, pa_render_create = exos_render_create, pa_render_update = exos_render_update,
      pa_render_delete = (\<lambda>prof key. Inr (exos_render_delete prof key)), pa_prechecks = exos_prechecks,
      pa_linked = exos_linked, pa_closure = (\<lambda>_ _ names. names), pa_literal = exos_literal,
      pa_policy = (\<lambda>_ _ _ _ _ _ _ _. Inr [])\<rparr>"

section \<open>States\<close>

definition MAX_SNAPSHOT_BYTES :: nat where "MAX_SNAPSHOT_BYTES = 16 * 1024 * 1024"

definition decode_snapshot :: "string \<Rightarrow> exn + string" where
  "decode_snapshot raw =
     (if length raw > MAX_SNAPSHOT_BYTES
      then Inl (SnapshotRejected [''snapshot is larger than '' @ show_nat MAX_SNAPSHOT_BYTES @ '' bytes''] ''snapshot unreadable'')
      else Inr raw)"

lemma fold_count: "fold (\<lambda>_ n. n + 1) xs (m :: int) = m + int (length xs)"
  by (induction xs arbitrary: m) auto

lemma decode_snapshot_code [code]:
  "decode_snapshot raw =
     (if fold (\<lambda>_ n. n + 1) raw (0 :: int) > 16777216
      then Inl (SnapshotRejected [''snapshot is larger than '' @ show_nat MAX_SNAPSHOT_BYTES @ '' bytes''] ''snapshot unreadable'')
      else Inr raw)"
  by (simp add: decode_snapshot_def fold_count MAX_SNAPSHOT_BYTES_def)

definition normal_value :: "attribute \<Rightarrow> string \<Rightarrow> string" where
  "normal_value a v = (case at_type a of
     NameList \<Rightarrow> join '' '' (sort (split_ws v))
   | MacAddress \<Rightarrow> casefold v
   | _ \<Rightarrow> v)"

fun normalize :: "profile \<Rightarrow> attributes \<Rightarrow> attributes \<times> string list" where
  "normalize prof [] = ([], [])"
| "normalize prof ((name, v) # rest) =
     (let (state, unsupported) = normalize prof rest in
      if name \<in> set (pf_volatile prof) then (state, unsupported)
      else case map_of (pf_fixed prof) name of
        Some wanted \<Rightarrow> (state, if v \<noteq> wanted then (name @ '' '' @ v) # unsupported else unsupported)
      | None \<Rightarrow> (case map_of (pf_attributes prof) name of
          None \<Rightarrow> (state, name # unsupported)
        | Some a \<Rightarrow> if at_default a = Some v then (state, unsupported) else ((name, normal_value a v) # state, unsupported)))"

text \<open>\<open>full_state\<close>: a known attribute is normalized alone, and then added to the state\<close>

definition full_state :: "profile \<Rightarrow> attributes \<Rightarrow> attributes" where
  "full_state prof attrs = fold (\<lambda>(name, v) state.
     if name \<in> set (pf_volatile prof) then state
     else if name \<in> set (keys (pf_attributes prof)) \<or> name \<in> set (keys (pf_fixed prof))
     then update_all (fst (normalize prof [(name, v)])) state
     else AList.update name v state) attrs []"

definition outside_profile :: "profile \<Rightarrow> string \<Rightarrow> bool" where
  "outside_profile prof name \<longleftrightarrow>
     name \<notin> set (keys (pf_attributes prof)) \<and> name \<notin> set (pf_volatile prof) \<and> name \<notin> set (keys (pf_fixed prof))"

definition is_isolated_plan :: "profile \<Rightarrow> string \<Rightarrow> string list \<Rightarrow> bool" where
  "is_isolated_plan prof op before_names \<longleftrightarrow>
     pf_isolated_update prof \<noteq> [] \<and> op = ''update'' \<and> list_ex (outside_profile prof) before_names"

definition plan_before_names :: "plan \<Rightarrow> string list" where
  "plan_before_names plan = (case pl_before plan of None \<Rightarrow> [] | Some st \<Rightarrow> keys st)"

text \<open>A plan names the firmware it was made for; matching no firmware is a \<open>TypeError\<close> of \<open>re\<close>.\<close>

definition observed_state :: "profiles \<Rightarrow> plan \<Rightarrow> attributes option \<Rightarrow> exn + attributes option" where
  "observed_state loaded plan attrs = (case attrs of
     None \<Rightarrow> Inr None
   | Some as \<Rightarrow> then_check (case pl_firmware plan of
         None \<Rightarrow> Inl (OtherError ''TypeError'' ''expected string or bytes-like object'')
       | Some firmware \<Rightarrow> find_profile loaded (pl_platform plan) (pl_table plan) firmware) (\<lambda>prof.
       if is_isolated_plan prof (pl_op plan) (plan_before_names plan) then Inr (Some (full_state prof as))
       else let (state, unknown) = normalize prof as in
         if unknown \<noteq> [] then reject (''the check account sees configuration outside the profile: '' @ join '', '' (sort unknown))
         else Inr (Some state)))"

definition find_entry :: "(string, 'e) dict \<Rightarrow> string \<Rightarrow> exn + 'e option" where
  "find_entry entries key = (case map_of entries key of
     Some e \<Rightarrow> Inr (Some e)
   | None \<Rightarrow> if list_ex (\<lambda>name. casefold name = casefold key) (keys entries)
       then reject (''key '' @ py_repr key @ '' differs only in letter case from an existing object'') else Inr None)"

definition list_names :: "profile \<Rightarrow> string list" where
  "list_names prof = map fst (filter (\<lambda>(_, a). at_type a = NameList) (pf_attributes prof))"

definition entry_state :: "('s, 'e) platform \<Rightarrow> 's \<Rightarrow> profile \<Rightarrow> 'e \<Rightarrow> attributes \<times> string list" where
  "entry_state pa snap prof e =
     (let (attrs, unsupported) = pa_entry_state pa snap e (list_names prof);
          (state, unknown) = normalize prof attrs
      in (state, unsupported @ unknown))"

section \<open>Changes\<close>

type_synonym changes = "(string, string option) dict"

definition change_get :: "changes \<Rightarrow> string \<Rightarrow> string option" where
  "change_get changes name = (case map_of changes name of Some v \<Rightarrow> v | None \<Rightarrow> None)"

text \<open>One change: its canonical value or the reasons against it; a reserved value is both\<close>

definition canonical_change :: "profile \<Rightarrow> string \<Rightarrow> change_value \<Rightarrow> exn + (changes \<times> string list)" where
  "canonical_change prof name v = (case map_of (pf_attributes prof) name of
     None \<Rightarrow> Inr ([], [''attribute '' @ name @ '' is not in the profile''])
   | Some a \<Rightarrow>
       if v = VNull
       then (if \<not> at_unset a then Inr ([], [''attribute '' @ name @ '' cannot be removed'']) else Inr ([(name, None)], []))
       else case canonical_value a v (pf_platform prof) of
         Inl x \<Rightarrow> if is_rejected x then Inr ([], reasons_of x) else Inl x
       | Inr c \<Rightarrow> Inr ([(name, Some c)],
           if c \<in> set (case map_of (pf_reserved_values prof) name of None \<Rightarrow> [] | Some cs \<Rightarrow> cs)
           then [''attribute '' @ name @ '': value '' @ c @ '' is reserved on this platform''] else []))"

fun canonical_loop :: "profile \<Rightarrow> (string \<times> change_value) list \<Rightarrow> exn + (changes \<times> string list)" where
  "canonical_loop prof [] = Inr ([], [])"
| "canonical_loop prof ((name, v) # rest) =
     then_check (canonical_change prof name v) (\<lambda>(c, reasons).
     then_check (canonical_loop prof rest) (\<lambda>(cs, more). Inr (c @ cs, reasons @ more)))"

definition canonical_changes :: "profile \<Rightarrow> request \<Rightarrow> exn + changes" where
  "canonical_changes prof r =
     then_check (canonical_loop prof (sort_key fst (rq_changes r))) (\<lambda>(changes, reasons).
     if reasons \<noteq> [] then Inl (Rejected reasons) else Inr changes)"

text \<open>The attribute of a name the profile has\<close>

definition attribute_of :: "profile \<Rightarrow> string \<Rightarrow> attribute" where
  "attribute_of prof name = the (map_of (pf_attributes prof) name)"

definition given :: "changes \<Rightarrow> attributes" where
  "given changes = concat (map (\<lambda>(name, v). case v of None \<Rightarrow> [] | Some s \<Rightarrow> [(name, s)]) changes)"

definition without_defaults :: "profile \<Rightarrow> changes \<Rightarrow> attributes" where
  "without_defaults prof changes = filter (\<lambda>(name, v). at_default (attribute_of prof name) \<noteq> Some v) (given changes)"

section \<open>Protected names\<close>

definition REFERENCE_TEXT_ATTRIBUTES :: "(string, string list) dict" where
  "REFERENCE_TEXT_ATTRIBUTES = [(''vlan-membership'', [''untagged'']), (''firewall policy'', [''schedule''])]"

definition referenced :: "profile \<Rightarrow> attributes option \<Rightarrow> string list" where
  "referenced prof state = (case state of
     None \<Rightarrow> []
   | Some st \<Rightarrow> remdups (concat (map (\<lambda>(name, v). case map_of (pf_attributes prof) name of
       None \<Rightarrow> []
     | Some a \<Rightarrow> if at_type a = NameList
         \<or> name \<in> set (case map_of REFERENCE_TEXT_ATTRIBUTES (pf_table prof) of None \<Rightarrow> [] | Some ns \<Rightarrow> ns)
         then split_ws v else []) st)))"

definition guarded_names :: "(string, string list) dict \<Rightarrow> string list" where
  "guarded_names protected = map casefold (concat (map snd protected))"

definition protected_references ::
  "('s, 'e) platform \<Rightarrow> 's \<Rightarrow> profile \<Rightarrow> (string, string list) dict \<Rightarrow> string \<Rightarrow> attributes option \<Rightarrow> attributes option
   \<Rightarrow> exn + string list" where
  "protected_references pa snap prof protected key before after =
     (if guarded_names protected = [] then Inr []
      else case pa_linked pa snap prof key of
        Inl x \<Rightarrow> if is_rejected x
          then reject (''the references of the object to protected names cannot be evaluated: '' @ join ''; '' (reasons_of x)) else Inl x
      | Inr linked \<Rightarrow>
          let names = pa_closure pa snap prof (add_new (add_new (referenced prof before) (referenced prof after)) linked) in
          Inr (sort (filter (\<lambda>name. casefold name \<in> set (guarded_names protected)) names)))"

definition protected_of :: "(string, string list) dict \<Rightarrow> string \<Rightarrow> string list" where
  "protected_of protected table = (case map_of protected table of None \<Rightarrow> [] | Some names \<Rightarrow> names)"

section \<open>Plans\<close>

text \<open>The part of a plan that depends on the operation: both states, both command lists and the notes of
  the checks that passed.\<close>

record draft =
  dr_before :: "attributes option"
  dr_after :: "attributes option"
  dr_commands :: "string list"
  dr_inverse :: "string list"
  dr_checks :: "string list"

definition space_pair :: "string \<times> string \<Rightarrow> string" where
  "space_pair p = fst p @ '' '' @ snd p"

definition missing_on_create :: "profile \<Rightarrow> changes \<Rightarrow> string list" where
  "missing_on_create prof changes = map fst (filter (\<lambda>(name, a). at_required_on_create a \<and> change_get changes name = None)
     (sort_key fst (pf_attributes prof)))"

definition wrong_on_create :: "profile \<Rightarrow> changes \<Rightarrow> string list" where
  "wrong_on_create prof changes = sort (map fst (filter (\<lambda>(name, wanted). change_get changes name \<noteq> Some wanted) (pf_create_values prof)))"

definition create_checks :: "profile \<Rightarrow> string list" where
  "create_checks prof =
     [if pf_table_scoped_key prof then ''key is unused in the table of the snapshot''
      else ''name is unused among the object names and references of the snapshot'']
     @ (if pf_create_values prof \<noteq> [] then [''new object is created with ''
          @ join '', '' (map space_pair (sort_key fst (pf_create_values prof))) @ ''; change it with a separate update''] else [])
     @ (if pf_create_position prof \<noteq> None then [''new object is placed after all existing objects''] else [])"

definition plan_create :: "('s, 'e) platform \<Rightarrow> 's \<Rightarrow> profile \<Rightarrow> string \<Rightarrow> 'e option \<Rightarrow> changes \<Rightarrow> exn + draft" where
  "plan_create pa snap prof key entry changes =
     (if entry \<noteq> None \<or> \<not> pf_table_scoped_key prof \<and> pa_in_use pa snap key
      then reject (''name '' @ py_repr key @ '' is already used in the configuration'')
      else if missing_on_create prof changes \<noteq> []
      then reject (''create needs '' @ join '', '' (missing_on_create prof changes))
      else if wrong_on_create prof changes \<noteq> []
      then reject (''create needs '' @ join '', '' (map (\<lambda>name. space_pair (name, the (map_of (pf_create_values prof) name)))
        (wrong_on_create prof changes)))
      else then_check (pa_render_create pa prof key (given changes)) (\<lambda>commands.
        then_check (pa_render_delete pa prof key) (\<lambda>undoing.
        Inr \<lparr>dr_before = None, dr_after = Some (without_defaults prof changes), dr_commands = commands, dr_inverse = undoing,
          dr_checks = create_checks prof\<rparr>)))"

text \<open>The state before an update or a deletion, and what of it the profile does not cover\<close>

definition isolated_change :: "profile \<Rightarrow> string \<Rightarrow> changes \<Rightarrow> bool" where
  "isolated_change prof op changes \<longleftrightarrow>
     op = ''update'' \<and> pf_isolated_update prof \<noteq> [] \<and> changes \<noteq> [] \<and> set (keys changes) \<subseteq> set (pf_isolated_update prof)"

definition state_before :: "('s, 'e) platform \<Rightarrow> 's \<Rightarrow> profile \<Rightarrow> string \<Rightarrow> 'e option \<Rightarrow> changes \<Rightarrow> attributes \<times> string list" where
  "state_before pa snap prof op entry changes = (case entry of
     None \<Rightarrow> ([], [])
   | Some e \<Rightarrow>
       if isolated_change prof op changes
       then let (attrs, unsupported) = pa_entry_state pa snap e (list_names prof) in (full_state prof attrs, unsupported)
       else entry_state pa snap prof e)"

definition update_reasons :: "profile \<Rightarrow> string list \<Rightarrow> changes \<Rightarrow> string list" where
  "update_reasons prof references changes =
     concat (map (\<lambda>(name, _).
       if \<not> at_update (attribute_of prof name) then [''attribute '' @ name @ '' cannot be updated'']
       else if references \<noteq> [] \<and> \<not> at_referenced_update (attribute_of prof name)
       then [''attribute '' @ name @ '' cannot change on a referenced object ('' @ show_nat (length references) @ '' references)'']
       else []) changes)
     @ (if changes = [] then [''update names no attribute''] else [])"

definition apply_changes :: "profile \<Rightarrow> changes \<Rightarrow> attributes \<Rightarrow> attributes" where
  "apply_changes prof changes before = fold (\<lambda>(name, v) after. case v of
       None \<Rightarrow> AList.delete name after
     | Some s \<Rightarrow> if at_default (attribute_of prof name) = Some s then AList.delete name after else AList.update name s after) changes before"

definition removed_names :: "changes \<Rightarrow> string list" where
  "removed_names changes = sort (map fst (filter (\<lambda>(_, v). v = None) changes))"

definition restored :: "changes \<Rightarrow> attributes \<Rightarrow> attributes" where
  "restored changes before = concat (map (\<lambda>(name, _). case map_of before name of None \<Rightarrow> [] | Some v \<Rightarrow> [(name, v)]) changes)"

definition cleared :: "changes \<Rightarrow> attributes \<Rightarrow> string list" where
  "cleared changes before = sort (filter (\<lambda>name. name \<notin> set (keys before)) (keys changes))"

definition plan_update :: "('s, 'e) platform \<Rightarrow> profile \<Rightarrow> string \<Rightarrow> attributes \<Rightarrow> string list \<Rightarrow> changes \<Rightarrow> exn + draft" where
  "plan_update pa prof key before references changes =
     (let reasons = update_reasons prof references changes; after = apply_changes prof changes before in
      if reasons \<noteq> [] then Inl (Rejected reasons)
      else if dict_eq after before then reject ''update changes nothing''
      else then_check (pa_render_update pa prof key (given changes) (removed_names changes)) (\<lambda>commands.
        then_check (pa_render_update pa prof key (restored changes before) (cleared changes before)) (\<lambda>undoing.
        Inr \<lparr>dr_before = Some before, dr_after = Some after, dr_commands = commands, dr_inverse = undoing,
          dr_checks = [''object exists and holds only profile attributes'', ''references allow the changed attributes'']\<rparr>)))"

definition missing_on_delete :: "profile \<Rightarrow> attributes \<Rightarrow> string list" where
  "missing_on_delete prof before = map fst (filter (\<lambda>(name, a).
     at_required_on_create a \<and> \<not> at_undo_to_default a \<and> name \<notin> set (keys before)) (sort_key fst (pf_attributes prof)))"

definition plan_delete :: "('s, 'e) platform \<Rightarrow> profile \<Rightarrow> string \<Rightarrow> attributes \<Rightarrow> string list \<Rightarrow> changes \<Rightarrow> exn + draft" where
  "plan_delete pa prof key before references changes =
     (if changes \<noteq> [] then reject ''delete takes no attribute changes''
      else if references \<noteq> [] then reject (''object '' @ py_repr key @ '' is referenced in the configuration'')
      else if missing_on_delete prof before \<noteq> []
      then reject (''object '' @ py_repr key @ '' cannot be recreated by the inverse: it has no '' @ join '', '' (missing_on_delete prof before))
      else then_check (pa_render_delete pa prof key) (\<lambda>commands.
        then_check (pa_render_create pa prof key before) (\<lambda>undoing.
        Inr \<lparr>dr_before = Some before, dr_after = None, dr_commands = commands, dr_inverse = undoing,
          dr_checks = [''object exists and holds only profile attributes'', ''object is not referenced and can be recreated'']\<rparr>)))"

definition plan_change :: "('s, 'e) platform \<Rightarrow> 's \<Rightarrow> profile \<Rightarrow> string \<Rightarrow> string \<Rightarrow> 'e option \<Rightarrow> changes \<Rightarrow> exn + draft" where
  "plan_change pa snap prof op key entry changes =
     (if entry = None \<and> \<not> pf_implicit_keys prof
      then then_check (pa_absent pa snap (pf_table prof) key) (\<lambda>reasons. Inl (Rejected reasons))
      else let (before, unsupported) = state_before pa snap prof op entry changes in
        if unsupported \<noteq> []
        then reject (''object '' @ py_repr key @ '' holds configuration outside the profile: '' @ join '', '' (sort unsupported))
        else let references = (if pf_table_scoped_key prof then [] else pa_references pa snap (pf_table prof) key) in
          if op = ''update'' then plan_update pa prof key before references changes
          else plan_delete pa prof key before references changes)"

text \<open>\<open>value_requires\<close>: the first value, by name, that needs another attribute in the same request\<close>

definition lacking :: "changes \<Rightarrow> string \<times> (string, string list) dict \<Rightarrow> (string \<times> string \<times> string list) option" where
  "lacking changes nv = (case change_get changes (fst nv) of
     None \<Rightarrow> None
   | Some v \<Rightarrow> (case map_of (snd nv) v of
       None \<Rightarrow> None
     | Some needed \<Rightarrow> if list_ex (\<lambda>other. other \<notin> set (keys changes)) needed then Some (fst nv, v, needed) else None))"

definition requirement :: "profile \<Rightarrow> changes \<Rightarrow> (string \<times> string \<times> string list) option" where
  "requirement prof changes = (case List.map_filter (lacking changes) (sort_key fst (pf_value_requires prof)) of
     [] \<Rightarrow> None
   | l # _ \<Rightarrow> Some l)"

definition ENROLLMENT_PREFIX :: string where "ENROLLMENT_PREFIX = ''netops-enroll-''"

text \<open>The checks of the key, the table and the changes, and the draft of the operation\<close>

definition plan_draft ::
  "('s, 'e) platform \<Rightarrow> 's \<Rightarrow> profile \<Rightarrow> request \<Rightarrow> (string, string list) dict \<Rightarrow> bool \<Rightarrow> bool \<Rightarrow> exn + draft" where
  "plan_draft pa snap prof r protected enrollment_probe undo =
     (let key = rq_key r; op = rq_op r in
      if starts_with ENROLLMENT_PREFIX (casefold key) \<and> \<not> enrollment_probe
      then reject ''the enrollment object namespace is reserved''
      else if op \<notin> set (pf_ops prof) \<and> \<not> (undo \<and> op \<in> set (pf_undo_ops prof))
      then reject (''operation '' @ op @ '' is not enabled in the profile'')
      else if \<not> re_fullmatch (pf_key_pattern prof) key
      then reject (''key '' @ py_repr key @ '' does not match '' @ re_source (pf_key_pattern prof))
      else if casefold key \<in> set (map casefold (pf_protected_keys prof @ protected_of protected (pf_table prof)))
      then reject (''object '' @ py_repr key @ '' is protected'')
      else then_check (pa_entries pa snap (pf_table prof)) (\<lambda>found. case found of
        None \<Rightarrow> reject (''snapshot holds no '' @ pf_table prof @ '' section; it cannot be evaluated'')
      | Some entries \<Rightarrow> then_check (find_entry entries key) (\<lambda>entry.
          then_check (canonical_changes prof r) (\<lambda>changes. case requirement prof changes of
            Some (name, v, needed) \<Rightarrow> reject (name @ '' '' @ v @ '' needs '' @ join '', '' needed @ '' in the same request'')
          | None \<Rightarrow>
              if op = ''create'' then plan_create pa snap prof key entry changes
              else plan_change pa snap prof op key entry changes))))"

definition state_json :: "attributes option \<Rightarrow> json" where
  "state_json state = (case state of None \<Rightarrow> JNull | Some st \<Rightarrow> JObj (map (\<lambda>(n, v). (n, JStr v)) st))"

definition texts_json :: "string list \<Rightarrow> json" where "texts_json ts = JArr (map JStr ts)"

text \<open>\<open>_digest\<close> of the commands and the states of a plan\<close>

definition plan_digest :: "(string \<Rightarrow> string) \<Rightarrow> json \<Rightarrow> json \<Rightarrow> json \<Rightarrow> json \<Rightarrow> string" where
  "plan_digest sha256 commands undoing before after = sha256 (json_compact
     (JObj [(''commands'', commands), (''inverse'', undoing), (''before'', before), (''after'', after)]))"

text \<open>What follows the draft: protected references, the commands of a membership, texts that cannot be
  restored, and the checks of the platform\<close>

definition final_commands :: "profile \<Rightarrow> string \<Rightarrow> (string, string list) dict \<Rightarrow> draft \<Rightarrow> exn + draft" where
  "final_commands prof key protected d =
     (if pf_table prof = ''vlan-membership''
      then (if key \<in> set (protected_of protected ''ports'') then reject ''the port is protected''
            else then_check (member_render key (dr_before d) (dr_after d)) (\<lambda>commands.
              then_check (member_render key (dr_after d) (dr_before d)) (\<lambda>undoing.
              Inr (d\<lparr>dr_commands := commands, dr_inverse := undoing\<rparr>))))
      else Inr d)"

definition checked_draft ::
  "('s, 'e) platform \<Rightarrow> 's \<Rightarrow> profile \<Rightarrow> string \<Rightarrow> string \<Rightarrow> (string, string list) dict \<Rightarrow> draft \<Rightarrow> exn + draft" where
  "checked_draft pa snap prof op key protected d0 =
     then_check (protected_references pa snap prof protected key (dr_before d0) (dr_after d0)) (\<lambda>touched.
     if touched \<noteq> []
     then reject (''the object holds a reference to protected object '' @ join '', '' (map py_repr touched) @ '' before or after the change'')
     else then_check (final_commands prof key protected d0) (\<lambda>d.
       then_check (pa_literal pa (dr_commands d) (dr_inverse d)) (\<lambda>_.
       then_check (pa_prechecks pa snap prof op key (dr_after d)) (\<lambda>reasons.
       then_check (pa_policy pa snap prof op key (dr_before d) (dr_after d) (dr_inverse d) protected) (\<lambda>more.
       if reasons @ more \<noteq> [] then Inl (Rejected (reasons @ more)) else Inr d)))))"

text \<open>The document \<open>build_plan\<close> returns\<close>

definition plan_document ::
  "(string \<Rightarrow> string) \<Rightarrow> string \<Rightarrow> string \<Rightarrow> string \<Rightarrow> profile \<Rightarrow> request \<Rightarrow> string \<Rightarrow> draft \<Rightarrow> string \<Rightarrow> string list option \<Rightarrow> plan" where
  "plan_document sha256 version platform firmware prof r raw d rest known_ports =
     \<lparr>pl_safeguard_id = None, pl_admin_version = version, pl_platform = platform, pl_firmware = Some firmware,
       pl_table = pf_table prof, pl_op = rq_op r, pl_key = rq_key r, pl_device = rq_device r, pl_request_id = rq_request_id r,
       pl_request_sha256 = fingerprint sha256 r, pl_reason_characters = length (rq_reason r),
       pl_user_request_characters = length (rq_user_request r), pl_snapshot_sha256 = sha256 raw, pl_rest_sha256 = rest,
       pl_prechecks = [''firmware '' @ firmware @ '' is measured for this profile'', ''key is valid and not protected'']
         @ dr_checks d,
       pl_commands = dr_commands d, pl_inverse = dr_inverse d, pl_before = dr_before d, pl_after = dr_after d,
       pl_ignored_attributes = sort (pf_volatile prof),
       pl_inverse_identity_changes = (case map_of (pf_inverse_identity_changes prof) (rq_op r) of None \<Rightarrow> [] | Some ns \<Rightarrow> ns),
       pl_rollback_evidence = pf_rollback_evidence prof,
       pl_plan_sha256 = plan_digest sha256 (texts_json (dr_commands d)) (texts_json (dr_inverse d))
         (state_json (dr_before d)) (state_json (dr_after d)),
       pl_ports = map_option (\<lambda>ps. sort_key exos_port_order (remdups ps)) known_ports\<rparr>"

text \<open>\<open>build_plan\<close> for one platform\<close>

definition plan_on ::
  "(string \<Rightarrow> string) \<Rightarrow> profiles \<Rightarrow> string \<Rightarrow> ('s, 'e) platform \<Rightarrow> string \<Rightarrow> request \<Rightarrow> string option
   \<Rightarrow> (string, string list) dict \<Rightarrow> bool \<Rightarrow> string list option \<Rightarrow> bool \<Rightarrow> exn + plan" where
  "plan_on sha256 loaded version pa raw r firmware protected enrollment_probe known_ports undo =
     then_check (decode_snapshot raw) (\<lambda>decoded.
     then_check (pa_load pa decoded firmware) (\<lambda>snap0.
     then_check (case known_ports of None \<Rightarrow> Inr snap0 | Some ps \<Rightarrow> pa_with_ports pa ps snap0) (\<lambda>snap.
     then_check (find_profile loaded (pa_name pa) (rq_table r) (pa_firmware pa snap)) (\<lambda>prof.
     then_check (plan_draft pa snap prof r protected enrollment_probe undo) (\<lambda>d0.
     then_check (checked_draft pa snap prof (rq_op r) (rq_key r) protected d0) (\<lambda>d.
     then_check (pa_rest_digest pa snap (pf_table prof) (rq_key r) None) (\<lambda>rest.
     Inr (plan_document sha256 version (pa_name pa) (pa_firmware pa snap) prof r raw d rest known_ports))))))))"

definition build_plan ::
  "(string \<Rightarrow> string) \<Rightarrow> profiles \<Rightarrow> string \<Rightarrow> string \<Rightarrow> string \<Rightarrow> request \<Rightarrow> string option
   \<Rightarrow> (string, string list) dict \<Rightarrow> bool \<Rightarrow> string list option \<Rightarrow> bool \<Rightarrow> exn + plan" where
  "build_plan sha256 loaded version platform raw r firmware protected enrollment_probe known_ports undo =
     (if platform = ''fortios''
      then plan_on sha256 loaded version (fortios_platform sha256) raw r firmware protected enrollment_probe known_ports undo
      else if platform = ''exos''
      then plan_on sha256 loaded version (exos_platform sha256) raw r firmware protected enrollment_probe known_ports undo
      else reject (''unknown platform '' @ py_repr platform))"

section \<open>Plan documents\<close>

definition PLAN_FORMAT :: string where "PLAN_FORMAT = ''netops-admin-plan/1''"

definition PLAN_FIELDS :: "string list" where
  "PLAN_FIELDS = [''format'', ''admin_version'', ''platform'', ''firmware'', ''table'', ''op'', ''key'', ''device'', ''request_id'',
     ''request_sha256'', ''reason_characters'', ''user_request_characters'', ''snapshot_sha256'', ''rest_sha256'',
     ''prechecks'', ''commands'', ''inverse'', ''predicted'', ''ignored_attributes'', ''inverse_identity_changes'',
     ''rollback_evidence'', ''plan_sha256'', ''safeguard_id'']"
definition PLAN_OPS :: "string list" where "PLAN_OPS = [''create'', ''update'', ''delete'']"
definition PLAN_TEXTS :: "string list" where
  "PLAN_TEXTS = [''format'', ''admin_version'', ''table'', ''key'', ''request_sha256'', ''snapshot_sha256'', ''rest_sha256'',
     ''plan_sha256'', ''rollback_evidence'']"
definition PLAN_OPTIONAL_TEXTS :: "string list" where
  "PLAN_OPTIONAL_TEXTS = [''firmware'', ''device'', ''request_id'', ''safeguard_id'']"
definition PLAN_COUNTS :: "string list" where "PLAN_COUNTS = [''reason_characters'', ''user_request_characters'']"
definition PLAN_TEXT_LISTS :: "string list" where
  "PLAN_TEXT_LISTS = [''prechecks'', ''commands'', ''inverse'', ''ignored_attributes'', ''inverse_identity_changes'']"

text \<open>The document of a plan\<close>

definition plan_json :: "plan \<Rightarrow> (string \<times> json) list" where
  "plan_json p = [
     (''format'', JStr PLAN_FORMAT), (''safeguard_id'', optional_json (pl_safeguard_id p)), (''admin_version'', JStr (pl_admin_version p)),
     (''platform'', JStr (pl_platform p)), (''firmware'', optional_json (pl_firmware p)), (''table'', JStr (pl_table p)),
     (''op'', JStr (pl_op p)), (''key'', JStr (pl_key p)), (''device'', optional_json (pl_device p)),
     (''request_id'', JStr (pl_request_id p)), (''request_sha256'', JStr (pl_request_sha256 p)),
     (''reason_characters'', JInt (int (pl_reason_characters p))), (''user_request_characters'', JInt (int (pl_user_request_characters p))),
     (''snapshot_sha256'', JStr (pl_snapshot_sha256 p)), (''rest_sha256'', JStr (pl_rest_sha256 p)),
     (''prechecks'', texts_json (pl_prechecks p)), (''commands'', texts_json (pl_commands p)), (''inverse'', texts_json (pl_inverse p)),
     (''predicted'', JObj [(''before'', state_json (pl_before p)), (''after'', state_json (pl_after p))]),
     (''ignored_attributes'', texts_json (pl_ignored_attributes p)),
     (''inverse_identity_changes'', texts_json (pl_inverse_identity_changes p)),
     (''rollback_evidence'', JStr (pl_rollback_evidence p)), (''plan_sha256'', JStr (pl_plan_sha256 p))]
     @ (case pl_ports p of None \<Rightarrow> [] | Some ps \<Rightarrow> [(''ports'', texts_json ps)])"

definition doc_get :: "(string \<times> json) list \<Rightarrow> string \<Rightarrow> json" where
  "doc_get d name = (case map_of d name of None \<Rightarrow> JNull | Some v \<Rightarrow> v)"

fun is_text :: "json \<Rightarrow> bool" where
  "is_text (JStr _) = True"
| "is_text _ = False"

fun is_count :: "json \<Rightarrow> bool" where
  "is_count (JInt i) = (0 \<le> i)"
| "is_count _ = False"

text \<open>\<open>_texts\<close>\<close>

fun is_texts :: "json \<Rightarrow> bool" where
  "is_texts (JArr xs) = list_all is_text xs"
| "is_texts _ = False"

fun is_side :: "json \<Rightarrow> bool" where
  "is_side JNull = True"
| "is_side (JObj _) = True"
| "is_side _ = False"

definition plan_typed :: "(string \<times> json) list \<Rightarrow> (string \<times> json) list \<Rightarrow> bool" where
  "plan_typed d predicted \<longleftrightarrow>
     doc_get d ''platform'' \<in> {JStr ''fortios'', JStr ''exos''} \<and> doc_get d ''op'' \<in> JStr ` set PLAN_OPS
     \<and> list_all (\<lambda>name. is_text (doc_get d name)) PLAN_TEXTS
     \<and> list_all (\<lambda>name. doc_get d name = JNull \<or> is_text (doc_get d name)) PLAN_OPTIONAL_TEXTS
     \<and> list_all (\<lambda>name. is_count (doc_get d name)) PLAN_COUNTS
     \<and> list_all (\<lambda>name. is_texts (doc_get d name)) PLAN_TEXT_LISTS
     \<and> list_all (\<lambda>(_, side). is_side side) predicted"

definition same_names :: "string list \<Rightarrow> string list \<Rightarrow> bool" where
  "same_names a b \<longleftrightarrow> set a = set b"

text \<open>\<open>_read_plan\<close>: the fields of the document and its prediction\<close>

definition read_plan :: "(string \<Rightarrow> string) \<Rightarrow> json \<Rightarrow> exn + ((string \<times> json) list \<times> (string \<times> json) list)" where
  "read_plan sha256 doc = (case doc of
     JObj d \<Rightarrow>
       if \<not> same_names (filter (\<lambda>n. n \<noteq> ''ports'') (keys d)) PLAN_FIELDS \<or> doc_get d ''format'' \<noteq> JStr PLAN_FORMAT
       then reject (''plan is not a '' @ PLAN_FORMAT @ '' document'')
       else (case doc_get d ''predicted'' of
         JObj predicted \<Rightarrow>
           if \<not> same_names (keys predicted) [''before'', ''after''] then reject ''plan has no prediction''
           else if \<not> plan_typed d predicted then reject ''plan holds a value of the wrong type''
           else if ''ports'' \<in> set (keys d) \<and> (doc_get d ''platform'' \<noteq> JStr ''exos'' \<or> \<not> is_texts (doc_get d ''ports''))
           then reject ''plan holds an invalid port list''
           else if JStr (plan_digest sha256 (doc_get d ''commands'') (doc_get d ''inverse'')
               (doc_get predicted ''before'') (doc_get predicted ''after'')) \<noteq> doc_get d ''plan_sha256''
           then reject ''plan content does not match its plan_sha256''
           else Inr (d, predicted)
       | _ \<Rightarrow> reject ''plan has no prediction'')
   | _ \<Rightarrow> reject (''plan is not a '' @ PLAN_FORMAT @ '' document''))"

section \<open>Verification\<close>

text \<open>\<open>repr\<close> of a decoded JSON value\<close>

fun json_repr :: "json \<Rightarrow> string" where
  "json_repr JNull = ''None''"
| "json_repr (JBool b) = (if b then ''True'' else ''False'')"
| "json_repr (JInt i) = show_int i"
| "json_repr (JFloat s) = s"
| "json_repr (JStr s) = py_repr s"
| "json_repr (JArr xs) = ''['' @ join '', '' (map json_repr xs) @ '']''"
| "json_repr (JObj kvs) = ''{'' @ join '', '' (map (\<lambda>(k, t). py_repr k @ '': '' @ t) (map (\<lambda>(k, v). (k, json_repr v)) kvs)) @ ''}''"

record verification = verdict +
  vr_expect :: string
  vr_key :: string
  vr_plan_sha256 :: string
  vr_snapshot_sha256 :: string

fun text_of :: "json \<Rightarrow> string" where
  "text_of (JStr s) = s"
| "text_of _ = []"

fun optional_text :: "json \<Rightarrow> string option" where
  "optional_text (JStr s) = Some s"
| "optional_text _ = None"

fun texts_of :: "json \<Rightarrow> string list" where
  "texts_of (JArr xs) = map text_of xs"
| "texts_of _ = []"

fun side_fields :: "json \<Rightarrow> (string \<times> json) list" where
  "side_fields (JObj kvs) = kvs"
| "side_fields _ = []"

text \<open>The state of the object, and the notes on configuration outside the profile\<close>

definition actual_state ::
  "('s, 'e) platform \<Rightarrow> 's \<Rightarrow> profile \<Rightarrow> string \<Rightarrow> string list \<Rightarrow> 'e option \<Rightarrow> attributes option \<times> string list" where
  "actual_state pa snap prof op before_names entry = (case entry of
     None \<Rightarrow> (if pf_implicit_keys prof then Some [] else None, [])
   | Some e \<Rightarrow>
       let (state, unsupported) =
         (if is_isolated_plan prof op before_names
          then let (attrs, unsupported) = pa_entry_state pa snap e (list_names prof) in (full_state prof attrs, unsupported)
          else entry_state pa snap prof e)
       in (Some state, map (\<lambda>item. ''object holds configuration outside the profile: '' @ item) unsupported))"

definition present_text :: "bool \<Rightarrow> string" where
  "present_text present = (if present then ''present'' else ''absent'')"

definition state_differences :: "attributes option \<Rightarrow> json \<Rightarrow> string list" where
  "state_differences actual wanted =
     (if (actual = None) \<noteq> (wanted = JNull)
      then [''object '' @ present_text (actual \<noteq> None) @ '', expected '' @ present_text (wanted \<noteq> JNull)]
      else case actual of
        None \<Rightarrow> []
      | Some st \<Rightarrow>
          let found = map (\<lambda>(n, v). (n, JStr v)) st; expected = side_fields wanted in
          concat (map (\<lambda>name. if doc_get found name \<noteq> doc_get expected name
              then [name @ '': expected '' @ json_repr (doc_get expected name) @ '', found '' @ json_repr (doc_get found name)] else [])
            (sort (remdups (keys found @ keys expected)))))"

text \<open>What differs about the object: configuration outside the profile, its state, and its place when it was
  created last\<close>

definition object_differences ::
  "('s, 'e) platform \<Rightarrow> 's \<Rightarrow> profile \<Rightarrow> string \<Rightarrow> string \<Rightarrow> string list \<Rightarrow> json \<Rightarrow> string \<Rightarrow> (string, 'e) dict \<Rightarrow> 'e option \<Rightarrow> string list" where
  "object_differences pa snap prof op key before_names wanted expect entries entry =
     (let (actual, remarks) = actual_state pa snap prof op before_names entry in
      remarks @ state_differences actual wanted
      @ (if op = ''create'' \<and> pf_create_position prof = Some ''last'' \<and> expect = ''after'' \<and> entry \<noteq> None
           \<and> last (keys entries) \<noteq> key then [''new object is not placed after all existing objects''] else []))"

definition verification_of ::
  "(string \<Rightarrow> string) \<Rightarrow> (string \<times> json) list \<Rightarrow> string \<Rightarrow> string \<Rightarrow> string list \<Rightarrow> string \<Rightarrow> verification" where
  "verification_of sha256 d raw expect differences rest =
     (let rest_matches = (JStr rest = doc_get d ''rest_sha256'');
          all_differences = differences @ (if rest_matches then [] else [''configuration outside the planned object changed''])
      in \<lparr>vd_match = (all_differences = []), vd_object_matches = (differences = []), vd_rest_matches = rest_matches,
          vd_differences = all_differences, vr_expect = expect, vr_key = text_of (doc_get d ''key''),
          vr_plan_sha256 = text_of (doc_get d ''plan_sha256''), vr_snapshot_sha256 = sha256 raw\<rparr>)"

text \<open>\<open>verify\<close> for one platform, after the plan has been read\<close>

definition verify_on ::
  "(string \<Rightarrow> string) \<Rightarrow> profiles \<Rightarrow> ('s, 'e) platform \<Rightarrow> (string \<times> json) list \<Rightarrow> (string \<times> json) list \<Rightarrow> string \<Rightarrow> string
   \<Rightarrow> exn + verification" where
  "verify_on sha256 loaded pa d predicted raw expect =
     (let key = text_of (doc_get d ''key'') in
     then_check (decode_snapshot raw) (\<lambda>decoded.
     then_check (pa_load pa decoded (optional_text (doc_get d ''firmware''))) (\<lambda>snap0.
     then_check (if ''ports'' \<in> set (keys d) then pa_with_ports pa (texts_of (doc_get d ''ports'')) snap0 else Inr snap0) (\<lambda>snap.
     then_check (find_profile loaded (pa_name pa) (text_of (doc_get d ''table'')) (pa_firmware pa snap)) (\<lambda>prof.
     then_check (pa_entries pa snap (pf_table prof)) (\<lambda>found. case found of
       None \<Rightarrow> Inl (SnapshotRejected [''snapshot holds no '' @ pf_table prof @ '' section''] ''snapshot incomplete'')
     | Some entries \<Rightarrow>
         then_check (find_entry entries key) (\<lambda>entry.
         then_check (pa_rest_digest pa snap (pf_table prof) key (optional_text (doc_get d ''safeguard_id''))) (\<lambda>rest.
         Inr (verification_of sha256 d raw expect (object_differences pa snap prof (text_of (doc_get d ''op'')) key
           (keys (side_fields (doc_get predicted ''before''))) (doc_get predicted expect) expect entries entry) rest)))))))))"

definition verify :: "(string \<Rightarrow> string) \<Rightarrow> profiles \<Rightarrow> json \<Rightarrow> string \<Rightarrow> string \<Rightarrow> exn + verification" where
  "verify sha256 loaded doc raw expect =
     then_check (read_plan sha256 doc) (\<lambda>(d, predicted).
     if expect \<notin> {''before'', ''after''} then reject ''expect must be before or after''
     else if doc_get d ''platform'' = JStr ''fortios''
     then verify_on sha256 loaded (fortios_platform sha256) d predicted raw expect
     else verify_on sha256 loaded (exos_platform sha256) d predicted raw expect)"

end
