(* ===== verification/Admin_Request_Facts.thy ===== *)
theory Admin_Request_Facts
  imports Admin_Profile
begin

text \<open>
  What the checks of profiles and requests promise: canonical values are fixed points, so a value
  read back from a plan can be requested again; every accepted profile is well formed, and with its
  attributes a requested value is either accepted or refused with reasons, never an error of
  another kind.
\<close>

section \<open>Words and blanks\<close>

definition plain_name :: "string \<Rightarrow> bool" where
  "plain_name s \<longleftrightarrow> s \<noteq> [] \<and> list_all (\<lambda>c. \<not> is_space c) s"

lemma split_words_word: "list_all (\<lambda>c. \<not> is_space c) s \<Longrightarrow> split_words (s @ rest) cur = split_words rest (cur @ s)"
  by (induction s arbitrary: cur) auto

lemma split_ws_join: "\<forall>s \<in> set ss. plain_name s \<Longrightarrow> split_ws (join '' '' ss) = ss"
proof (induction ss)
  case (Cons s ss)
  have word: "split_words s [] = [s]"
    using split_words_word [of s "[]" "[]"] Cons(2) by (simp add: plain_name_def)
  show ?case
  proof (cases ss)
    case Nil
    then show ?thesis using word by (simp add: split_ws_def)
  next
    case (Cons t ts)
    then show ?thesis
      using split_words_word [of s "blank # join '' '' ss" "[]"] Cons.prems Cons.IH
      by (simp add: split_ws_def plain_name_def)
  qed
qed (simp add: split_ws_def)

lemma space_code: "is_space c \<Longrightarrow> code c \<le> 32"
  by (auto simp: is_space_def code_def)

lemma word_char_space: "word_char extra c \<Longrightarrow> list_all (\<lambda>c. \<not> is_space c) extra \<Longrightarrow> \<not> is_space c"
  using space_code [of c] by (auto simp: word_char_def is_alpha_def is_digit_def list_all_iff)

lemma object_name_plain: "object_name s \<Longrightarrow> plain_name s"
proof -
  have extra: "list_all (\<lambda>c. \<not> is_space c) ''_.-''" by (simp add: is_space_def)
  show "object_name s \<Longrightarrow> plain_name s"
    by (cases s) (auto simp: object_name_def plain_name_def list_all_iff dest: word_char_space [OF _ extra]
        word_char_space [of "[]"])
qed

lemma strip_plain: "plain_name s \<Longrightarrow> plain_name t \<Longrightarrow> strip (s @ blank # t) = s @ blank # t"
  by (cases s; cases t rule: rev_cases) (simp_all add: strip_def lstrip_def rstrip_def plain_name_def)

lemma show_ip_plain: "plain_name (show_ip w)"
  using show_ip_chars [of w]
  by (auto simp: plain_name_def list_all_iff is_space_def is_digit_def code_def)

section \<open>Canonical values are fixed points\<close>

lemma name_items_objects: "name_items xs = Some ss \<Longrightarrow> \<forall>s \<in> set ss. object_name s"
proof (induction xs arbitrary: ss)
  case (Cons x xs)
  then show ?case by (cases x) (auto split: option.splits if_splits)
qed simp

lemma name_items_strings: "\<forall>s \<in> set ss. object_name s \<Longrightarrow> name_items (map JStr ss) = Some ss"
  by (induction ss) auto

lemma name_items_length: "name_items xs = Some ss \<Longrightarrow> length xs = length ss"
  by (induction xs arbitrary: ss) (auto split: option.splits)

lemma canonical_names_stable:
  assumes "canonical_names name v = Inr s"
  shows "canonical_names name (VList (map JStr (split_ws s))) = Inr s"
proof -
  obtain xs ss where v: "v = VList xs" "length xs \<le> 128" "name_items xs = Some ss" "distinct ss" "s = join '' '' (sort ss)"
    using assms by (auto simp: canonical_names_def reject_def Let_def split: change_value.splits if_splits option.splits)
  have objects: "\<forall>t \<in> set (sort ss). object_name t" using name_items_objects [OF v(3)] by simp
  then have "split_ws s = sort ss" unfolding v(5) using object_name_plain by (intro split_ws_join) blast
  then show ?thesis using v objects name_items_length [OF v(3)] by (simp add: canonical_names_def name_items_strings sorted_sort_id)
qed

lemma code_fold: "code (fold_char c) = (if 65 \<le> code c \<and> code c \<le> 90 then code c + 32 else code c)"
  by (auto simp: fold_char_def code_def)

lemma fold_char_idem [simp]: "fold_char (fold_char c) = fold_char c"
  using code_fold [of c] by (auto simp: fold_char_def [of "fold_char c"])

lemma fold_char_eq: "\<not> is_alpha d \<Longrightarrow> fold_char c = d \<longleftrightarrow> c = d"
proof -
  assume d: "\<not> is_alpha d"
  have "fold_char c = d \<Longrightarrow> c = d"
    using code_fold [of c] d by (cases "65 \<le> code c \<and> code c \<le> 90") (auto simp: is_alpha_def fold_char_def)
  moreover have "c = d \<Longrightarrow> fold_char c = d" using d by (auto simp: is_alpha_def fold_char_def)
  ultimately show ?thesis by blast
qed

lemma split_on_casefold: "\<not> is_alpha d \<Longrightarrow> split_on d (casefold s) = map casefold (split_on d s)"
  by (induction s) (auto simp: casefold_def fold_char_eq split: list.splits)

lemma not_alpha [simp]: "\<not> is_alpha (CHR '':'')" "\<not> is_alpha (CHR ''0'')"
  by (simp_all add: is_alpha_def code_def)

lemma mac_casefold: "mac_address (casefold s) = mac_address s"
proof -
  have "(length (casefold p) = 2 \<and> list_all is_hex (casefold p)) = (length p = 2 \<and> list_all is_hex p)" for p
    by (simp add: casefold_def list_all_iff is_hex_def)
  then show ?thesis
    by (simp only: mac_address_def Let_def split_on_casefold [OF not_alpha(1)] length_map list.pred_map comp_def)
qed

lemma mac_length: "mac_address s \<Longrightarrow> length s > 1"
proof -
  assume mac: "mac_address s"
  have "join '':'' (split_on (CHR '':'') s) = s" by simp
  moreover obtain p ps where "split_on (CHR '':'') s = p # ps" "length p = 2"
    using mac by (cases "split_on (CHR '':'') s") (auto simp: mac_address_def Let_def)
  ultimately show ?thesis by (auto simp: join_Cons split: if_splits)
qed

lemma canonical_mac_stable:
  assumes "canonical_mac name v = Inr s"
  shows "canonical_mac name (VStr s) = Inr s"
proof -
  obtain t where t: "mac_address t" "even (hex_val (t ! 1))" "\<not> list_all (\<lambda>c. c = CHR ''0'' \<or> c = CHR '':'') t" "s = casefold t"
    using assms by (auto simp: canonical_mac_def reject_def split: change_value.splits if_splits)
  have "hex_val (casefold t ! 1) = hex_val (t ! 1)"
    using mac_length [OF t(1)] by (simp add: casefold_def hex_val_def)
  moreover have "list_all (\<lambda>c. c = CHR ''0'' \<or> c = CHR '':'') (casefold t) = list_all (\<lambda>c. c = CHR ''0'' \<or> c = CHR '':'') t"
    by (simp add: list_all_iff casefold_def fold_char_eq)
  ultimately show ?thesis using t by (simp add: canonical_mac_def mac_casefold) (simp add: casefold_def)
qed

lemma show_nat_length_10: "n < 10 ^ Suc k \<Longrightarrow> length (show_nat n) \<le> Suc k"
proof (induction k arbitrary: n)
  case 0
  then show ?case by (simp add: show_nat.simps [of n])
next
  case (Suc k)
  then have "n div 10 < 10 ^ Suc k" by auto
  then show ?case using Suc.IH [of "n div 10"] by (simp add: show_nat.simps [of n])
qed

lemma canonical_integer_stable:
  assumes "canonical_integer a v = Inr s" and "at_minimum a = Some low" "0 \<le> low" and "at_maximum a = Some high" "high < 10 ^ 10"
  shows "canonical_integer a (VStr s) = Inr s"
proof -
  obtain i where i: "low \<le> i" "i \<le> high" "s = show_int i"
    using assms by (auto simp: canonical_integer_def then_check_def reject_def Let_def split: sum.splits if_splits)
  then have "s = show_nat (nat i)" "nat i < 10 ^ Suc 9" using assms by (auto simp: show_int_def)
  then show ?thesis using i assms show_nat_length_10 [of "nat i" 9]
    by (simp add: canonical_integer_def then_check_def show_int_def)
qed

lemma canonical_network_stable:
  assumes "canonical_network name v = Inr s"
  shows "canonical_network name s = Inr s"
proof -
  obtain t a m where t: "parse_network True t = Some (a, m)" "s = show_ip a @ '' '' @ show_ip m"
    using assms by (auto simp: canonical_network_def reject_def Let_def split: option.splits if_splits list.splits)
  obtain n where n: "m = prefix_mask n" "a AND prefix_mask n = a" using parse_network_mask [OF t(1)] by blast
  have s: "s = join '' '' [show_ip a, show_ip m]" "strip s = s"
    using t(2) strip_plain [OF show_ip_plain show_ip_plain] by simp_all
  have "split_ws s = [show_ip a, show_ip m]" unfolding s(1) by (rule split_ws_join) (simp add: show_ip_plain)
  moreover have "CHR ''/'' \<notin> set s" using t(2) no_slash_show_ip by simp
  ultimately show ?thesis
    using s(2) t(2) n parse_network_show [of a n True] by (simp add: canonical_network_def Let_def)
qed

lemma canonical_text_stable: "canonical_text a v p = Inr s \<Longrightarrow> canonical_text a s p = Inr s \<and> v = s"
  by (auto simp: canonical_text_def reject_def Let_def split: option.splits if_splits)

text \<open>A canonical value as a request gives it, and as an undo requests it again\<close>

definition as_requested :: "attribute \<Rightarrow> string \<Rightarrow> change_value" where
  "as_requested a s = (if at_type a = NameList then VList (map JStr (split_ws s)) else VStr s)"

text \<open>(C29) Canonical values are fixed points: a value that was accepted for an attribute is accepted again
  in its canonical form and stays the same, so the state a plan predicts can be requested by its undo.
  The bounds of an integer attribute must be those of a number the reader of texts accepts: not
  negative and of at most ten digits.\<close>

theorem canonical_value_stable:
  assumes "canonical_value a v platform = Inr s"
    and "at_type a = IntegerType \<longrightarrow> (\<exists>low high. at_minimum a = Some low \<and> 0 \<le> low \<and> at_maximum a = Some high \<and> high < 10 ^ 10)"
  shows "canonical_value a (as_requested a s) platform = Inr s"
proof (cases "at_type a")
  case Ipv4Address
  then show ?thesis using assms(1)
    by (auto simp: canonical_value_def as_requested_def reject_def split: change_value.splits option.splits)
next
  case NameList
  then show ?thesis using assms(1) canonical_names_stable by (simp add: canonical_value_def as_requested_def)
next
  case MacAddress
  then show ?thesis using assms(1) canonical_mac_stable by (simp add: canonical_value_def as_requested_def)
next
  case IntegerType
  then show ?thesis using assms canonical_integer_stable by (auto simp: canonical_value_def as_requested_def)
next
  case Ipv4Network
  then show ?thesis using assms(1) canonical_network_stable
    by (auto simp: canonical_value_def as_requested_def reject_def split: change_value.splits)
next
  case TextType
  then show ?thesis using assms(1) canonical_text_stable
    by (auto simp: canonical_value_def as_requested_def reject_def split: change_value.splits)
qed

section \<open>Accepted profiles are well formed\<close>

definition wf_attribute :: "string \<Rightarrow> attribute \<Rightarrow> bool" where
  "wf_attribute name a \<longleftrightarrow> at_name a = name \<and>
     (if at_type a = TextType then (\<exists>n. at_max_length a = Some n \<and> 0 < n) else at_max_length a = None \<and> at_pattern a = None) \<and>
     (if at_type a = IntegerType then (\<exists>low high. at_minimum a = Some low \<and> at_maximum a = Some high \<and> low \<le> high)
      else at_minimum a = None \<and> at_maximum a = None) \<and>
     \<not> (at_required_on_create a \<and> at_unset a) \<and>
     (at_undo_to_default a \<longrightarrow> at_default a \<noteq> None \<and> \<not> at_unset a)"

definition wf_profile :: "profile \<Rightarrow> bool" where
  "wf_profile p \<longleftrightarrow>
     (\<forall>(n, a) \<in> set (pf_attributes p). wf_attribute n a) \<and>
     set (keys (pf_attributes p)) \<inter> set (keys (pf_fixed p)) = {} \<and>
     set (keys (pf_attributes p)) \<inter> set (pf_volatile p) = {} \<and> set (keys (pf_fixed p)) \<inter> set (pf_volatile p) = {} \<and>
     pf_versions p \<noteq> [] \<and> pf_ops p \<noteq> [] \<and> set (pf_ops p) \<subseteq> set OPS \<and> set (pf_undo_ops p) \<subseteq> set OPS \<and>
     pf_platform p \<in> set PLATFORMS \<and> pf_table p \<noteq> [] \<and>
     (pf_implicit_keys p \<longrightarrow> pf_ops p = [''update'']) \<and>
     (\<forall>n \<in> set (pf_isolated_update p). \<exists>a. map_of (pf_attributes p) n = Some a \<and> at_update a \<and> at_default a \<noteq> None) \<and>
     (pf_create_values p \<noteq> [] \<longrightarrow> ''create'' \<in> set (pf_ops p)) \<and>
     set (keys (pf_create_values p)) \<subseteq> set (keys (pf_attributes p)) \<and>
     (pf_create_position p \<noteq> None \<longrightarrow> ''create'' \<in> set (pf_ops p))"

lemma need_Inr [simp]: "need ok why k = Inr r \<longleftrightarrow> ok \<and> k () = Inr r"
  by (simp add: need_def profile_error_def)

lemma profile_error_Inr [simp]: "profile_error why \<noteq> Inr r"
  by (simp add: profile_error_def)

lemma attribute_pattern_text: "attribute_pattern rx name kind v = Inr pat \<Longrightarrow> kind \<noteq> TextType \<Longrightarrow> pat = None"
  by (auto simp: attribute_pattern_def Let_def split: json.splits if_splits sum.splits)

lemma int_field_null: "field d n = JNull \<Longrightarrow> int_field (field d n) = None"
  by simp

lemma parse_attribute_cases:
  assumes "parse_attribute rx name data = Inr a"
  obtains d kind dflt where "data = JObj d" "kind_of (field d ''type'') = Some kind"
    "filter (\<lambda>flag. \<not> is_bool (field d flag)) ATTRIBUTE_FLAGS = []" "optional_string (field d ''default'') = Some dflt"
proof -
  obtain d where d: "data = JObj d" using assms by (cases data) (auto simp: parse_attribute_def)
  obtain kind where kind: "kind_of (field d ''type'') = Some kind"
    using assms d by (cases "kind_of (field d ''type'')") (auto simp: parse_attribute_def Let_def)
  have flags: "filter (\<lambda>flag. \<not> is_bool (field d flag)) ATTRIBUTE_FLAGS = []"
    using assms d kind by (auto simp: parse_attribute_def Let_def split: list.splits)
  obtain dflt where "optional_string (field d ''default'') = Some dflt"
    using assms d kind flags
    by (cases "optional_string (field d ''default'')") (auto simp: parse_attribute_def Let_def)
  then show ?thesis using that d kind flags by blast
qed

lemma parse_attribute_wf:
  assumes "parse_attribute rx name data = Inr a"
  shows "wf_attribute name a"
proof -
  obtain d kind dflt where shape: "data = JObj d" "kind_of (field d ''type'') = Some kind"
    "filter (\<lambda>flag. \<not> is_bool (field d flag)) ATTRIBUTE_FLAGS = []" "optional_string (field d ''default'') = Some dflt"
    using assms by (rule parse_attribute_cases)
  have longest: "kind = TextType \<Longrightarrow> \<exists>n. int_field (field d ''max_length'') = Some n \<and> 0 < n"
    "kind \<noteq> TextType \<Longrightarrow> int_field (field d ''max_length'') = None"
    using assms shape by (auto simp: parse_attribute_def attribute_bounds_def Let_def split: option.splits)
  have bounds: "kind = IntegerType \<Longrightarrow> \<exists>low high. int_field (field d ''minimum'') = Some low
      \<and> int_field (field d ''maximum'') = Some high \<and> low \<le> high"
    "kind \<noteq> IntegerType \<Longrightarrow> int_field (field d ''minimum'') = None \<and> int_field (field d ''maximum'') = None"
    using assms shape by (auto simp: parse_attribute_def attribute_bounds_def Let_def split: option.splits)
  obtain pat where "attribute_pattern rx name kind (field d ''pattern'') = Inr pat" "at_pattern a = pat"
    and a: "at_name a = name" "at_type a = kind" "at_default a = dflt" "at_required_on_create a = truth (field d ''required_on_create'')"
      "at_unset a = truth (field d ''unset'')" "at_max_length a = int_field (field d ''max_length'')"
      "at_minimum a = int_field (field d ''minimum'')" "at_maximum a = int_field (field d ''maximum'')"
      "at_undo_to_default a = truth (field_or d ''undo_to_default'' (JBool False))"
      "\<not> (truth (field d ''required_on_create'') \<and> truth (field d ''unset''))"
      "\<not> truth (field_or d ''undo_to_default'' (JBool False)) \<or> dflt \<noteq> None \<and> \<not> truth (field d ''unset'')"
    using assms shape by (auto simp: parse_attribute_def attribute_bounds_def Let_def)
  then have "kind \<noteq> TextType \<Longrightarrow> at_pattern a = None" using attribute_pattern_text by blast
  then show ?thesis
    using longest bounds a(10,11) by (simp add: wf_attribute_def a(1-9))
qed

lemma parse_attributes_wf: "parse_attributes rx d = Inr as \<Longrightarrow> \<forall>(n, a) \<in> set as. wf_attribute n a"
proof (induction rx d arbitrary: as rule: parse_attributes.induct)
  case (2 rx name v rest)
  then show ?case using parse_attribute_wf [of rx name v] by auto
qed simp

lemma overlap_Nil: "overlap a f v = [] \<longleftrightarrow> set a \<inter> set f = {} \<and> set a \<inter> set v = {} \<and> set f \<inter> set v = {}"
proof -
  have "overlap a f v = [] \<longleftrightarrow> filter (\<lambda>n. n \<in> set f \<or> n \<in> set v) a = [] \<and> filter (\<lambda>n. n \<in> set v) f = []"
    by (simp only: overlap_def length_0_conv [symmetric] length_sort length_remdups_eq [symmetric]) auto
  then show ?thesis by (auto simp: filter_empty_conv)
qed

lemma isolated_of_wf:
  assumes "isolated_of attrs v = Inr isolated" and wf: "\<forall>(n, a) \<in> set attrs. wf_attribute n a"
  shows "\<forall>n \<in> set isolated. \<exists>a. map_of attrs n = Some a \<and> at_update a \<and> at_default a \<noteq> None"
proof
  fix n assume "n \<in> set isolated"
  then obtain a where a: "map_of attrs n = Some a" "at_update a" "at_undo_to_default a \<or> at_default a \<noteq> None"
    using assms(1) by (fastforce simp: isolated_of_def list_all_iff split: option.splits)
  have "wf_attribute n a" using wf a(1) by (auto dest: map_of_SomeD)
  then show "\<exists>a. map_of attrs n = Some a \<and> at_update a \<and> at_default a \<noteq> None"
    using a by (auto simp: wf_attribute_def)
qed

lemma string_values_keys: "string_values d = Some f \<Longrightarrow> keys f = keys d"
  by (induction d arbitrary: f rule: string_values.induct) auto

lemma create_values_of_wf:
  assumes "create_values_of ops names v = Inr cs"
  shows "(cs \<noteq> [] \<longrightarrow> ''create'' \<in> set ops) \<and> set (keys cs) \<subseteq> set names"
  using assms by (auto simp: create_values_of_def Let_def keys_def list_all_iff split: json.splits option.splits if_splits)

lemma implicit_keys_ops:
  assumes "implicit_keys_of d = Inr True" and "strings (field d ''ops'') ''ops'' = Inr ops"
  shows "ops = [''update'']"
proof -
  have "tuple_of (field d ''ops'') = Inr [JStr ''update'']"
    using assms(1) by (auto simp: implicit_keys_of_def Let_def split: if_splits)
  then show ?thesis using assms(2) by (auto simp: strings_def split: json.splits option.splits)
qed

lemma parse_head_wf:
  assumes "parse_head rx d = Inr h"
  shows "(\<forall>(n, a) \<in> set (ph_attributes h). wf_attribute n a) \<and> ph_versions h \<noteq> [] \<and> ph_ops h \<noteq> [] \<and>
    set (ph_ops h) \<subseteq> set OPS \<and> string_of (field d ''platform'') \<in> set PLATFORMS \<and> string_of (field d ''table'') \<noteq> [] \<and>
    (ph_implicit h \<longrightarrow> ph_ops h = [''update''])"
proof -
  obtain implicit versions ops k attrs ad where steps: "implicit_keys_of d = Inr implicit"
    "field d ''platform'' \<in> JStr ` set PLATFORMS" "case field d ''table'' of JStr s \<Rightarrow> s \<noteq> [] | _ \<Rightarrow> False"
    "versions \<noteq> []" "strings (field d ''ops'') ''ops'' = Inr ops" "set ops \<subseteq> set OPS" "ops \<noteq> []"
    "parse_attributes rx ad = Inr attrs"
    "h = \<lparr>ph_implicit = implicit, ph_versions = versions, ph_ops = ops, ph_key_pattern = k, ph_attributes = attrs\<rparr>"
    using assms by (auto simp: parse_head_def Let_def split: json.splits)
  then show ?thesis
    using parse_attributes_wf [OF steps(8)] implicit_keys_ops [of d ops] by (auto split: json.splits)
qed

lemma parse_rest_wf:
  assumes "parse_rest d h = Inr p" and head: "\<forall>(n, a) \<in> set (ph_attributes h). wf_attribute n a"
  shows "pf_attributes p = ph_attributes h \<and> pf_versions p = ph_versions h \<and> pf_ops p = ph_ops h \<and>
    pf_platform p = string_of (field d ''platform'') \<and> pf_table p = string_of (field d ''table'') \<and>
    pf_implicit_keys p = ph_implicit h \<and>
    overlap (keys (pf_attributes p)) (keys (pf_fixed p)) (pf_volatile p) = [] \<and> set (pf_undo_ops p) \<subseteq> set OPS \<and>
    (\<forall>n \<in> set (pf_isolated_update p). \<exists>a. map_of (pf_attributes p) n = Some a \<and> at_update a \<and> at_default a \<noteq> None) \<and>
    (pf_create_values p \<noteq> [] \<longrightarrow> ''create'' \<in> set (pf_ops p)) \<and>
    set (keys (pf_create_values p)) \<subseteq> set (keys (pf_attributes p)) \<and>
    (pf_create_position p \<noteq> None \<longrightarrow> ''create'' \<in> set (pf_ops p))"
proof -
  obtain volatile fixed undo cs position isolated reserved identity requires protected where steps:
    "overlap (keys (ph_attributes h)) (keys fixed) volatile = []" "set undo \<subseteq> set OPS"
    "create_values_of (ph_ops h) (keys (ph_attributes h)) (field d ''create_values'') = Inr cs"
    "position_of (ph_ops h) (field d ''create_position'') = Inr position"
    "isolated_of (ph_attributes h) (field_or d ''isolated_update'' (JArr [])) = Inr isolated"
    "p = \<lparr>pf_platform = string_of (field d ''platform''), pf_table = string_of (field d ''table''),
        pf_versions = ph_versions h, pf_ops = ph_ops h, pf_key_pattern = ph_key_pattern h, pf_protected_keys = protected,
        pf_attributes = ph_attributes h, pf_fixed = fixed, pf_volatile = volatile, pf_reserved_values = reserved,
        pf_inverse_identity_changes = identity, pf_rollback_evidence = string_of (field d ''rollback_evidence''),
        pf_implicit_keys = ph_implicit h, pf_undo_ops = undo, pf_exact_versions = truth (field_or d ''exact_versions'' (JBool False)),
        pf_table_scoped_key = truth (field_or d ''table_scoped_key'' (JBool False)), pf_create_values = cs,
        pf_create_position = position, pf_isolated_update = isolated,
        pf_provisional = truth (field_or d ''provisional'' (JBool False)), pf_value_requires = requires\<rparr>"
    using assms(1) unfolding parse_rest_def Let_def by auto
  then show ?thesis
    using isolated_of_wf [OF steps(5) head] create_values_of_wf [OF steps(3)]
    by (auto simp: position_of_def split: if_splits)
qed

lemma parse_profile_well_formed:
  assumes "parse_profile rx data = Inr p"
  shows "wf_profile p"
proof -
  obtain d h where "parse_head rx d = Inr h" "parse_rest d h = Inr p"
    using assms by (auto simp: parse_profile_def split: json.splits)
  then show ?thesis
    using parse_head_wf [of rx d h] parse_rest_wf [of d h p] by (auto simp: wf_profile_def overlap_Nil)
qed

text \<open>(C30) Every accepted profile is well formed: its attributes, fixed and volatile names are disjoint, a
  text attribute has a positive length limit and an integer attribute bounds that are not empty,
  attributes that may be updated in isolation have a default to return to, a table whose objects
  always exist is updated only, and values and positions of new objects are given only where objects
  can be created.\<close>

theorem parse_profile_wf: "parse_profile rx data = Inr p \<Longrightarrow> wf_profile p"
  by (rule parse_profile_well_formed)

section \<open>Refusals\<close>

lemma canonical_value_reject:
  assumes "wf_attribute n a" and "canonical_value a v platform = Inl x"
  shows "\<exists>r. x = Rejected [r]"
proof -
  have "canonical_names m v' = Inl x \<Longrightarrow> \<exists>r. x = Rejected [r]" for m v'
    by (auto simp: canonical_names_def reject_def Let_def split: change_value.splits if_splits option.splits)
  moreover have "canonical_mac m v' = Inl x \<Longrightarrow> \<exists>r. x = Rejected [r]" for m v'
    by (auto simp: canonical_mac_def reject_def split: change_value.splits if_splits)
  moreover have "at_type a = IntegerType \<Longrightarrow> canonical_integer a v' = Inl x \<Longrightarrow> \<exists>r. x = Rejected [r]" for v'
    using assms(1) by (auto simp: canonical_integer_def then_check_def reject_def wf_attribute_def Let_def
        split: change_value.splits sum.splits if_splits)
  moreover have "canonical_network m t = Inl x \<Longrightarrow> \<exists>r. x = Rejected [r]" for m t
    by (auto simp: canonical_network_def reject_def Let_def split: option.splits)
  moreover have "at_type a = TextType \<Longrightarrow> canonical_text a t platform = Inl x \<Longrightarrow> \<exists>r. x = Rejected [r]" for t
    using assms(1) by (auto simp: canonical_text_def reject_def wf_attribute_def Let_def split: option.splits if_splits)
  ultimately show ?thesis
    using assms(2) by (auto simp: canonical_value_def reject_def split: attribute_type.splits change_value.splits option.splits)
qed

text \<open>(C31) A requested value is accepted or refused with a reason: for every attribute of an accepted
  profile and every value of a request, the check of the value never fails in another way.\<close>

theorem canonical_value_total:
  assumes "parse_profile rx data = Inr p" and "(n, a) \<in> set (pf_attributes p)"
  shows "(\<exists>s. canonical_value a v platform = Inr s) \<or> (\<exists>r. canonical_value a v platform = Inl (Rejected [r]))"
proof -
  have "wf_attribute n a" using parse_profile_well_formed [OF assms(1)] assms(2) by (auto simp: wf_profile_def)
  then show ?thesis using canonical_value_reject [of n a v platform] by (cases "canonical_value a v platform") auto
qed

section \<open>A sample profile\<close>

definition any_regex :: regex where "any_regex s = Inr (\<lambda>_. True)"

definition vlan_document :: json where
  "vlan_document = JObj [(''platform'', JStr ''exos''), (''table'', JStr ''vlan''), (''versions'', JArr [JStr ''33.7.1.6'']),
     (''ops'', JArr [JStr ''create'', JStr ''update'', JStr ''delete'']), (''key_pattern'', JStr ''^[A-Za-z][A-Za-z0-9_-]{0,31}$''),
     (''protected_keys'', JArr [JStr ''Default'', JStr ''Mgmt'']),
     (''attributes'', JObj [(''tag'', JObj [(''type'', JStr ''integer''), (''minimum'', JInt 2), (''maximum'', JInt 4095),
        (''required_on_create'', JBool True), (''update'', JBool False), (''unset'', JBool False), (''referenced_update'', JBool False)])]),
     (''fixed'', JObj []), (''volatile'', JArr []), (''reserved_values'', JObj []), (''inverse_identity_changes'', JObj []),
     (''rollback_evidence'', JStr ''measured'')]"

definition tag_attribute :: attribute where
  "tag_attribute = \<lparr>at_name = ''tag'', at_type = IntegerType, at_default = None, at_required_on_create = True, at_update = False,
     at_unset = False, at_referenced_update = False, at_max_length = None, at_minimum = Some 2, at_maximum = Some 4095,
     at_forbidden_values = [], at_pattern = None, at_undo_to_default = False\<rparr>"

lemma tag_parsed: "parse_attribute any_regex ''tag'' (JObj [(''type'', JStr ''integer''), (''minimum'', JInt 2), (''maximum'', JInt 4095),
    (''required_on_create'', JBool True), (''update'', JBool False), (''unset'', JBool False), (''referenced_update'', JBool False)])
    = Inr tag_attribute"
  by (simp add: parse_attribute_def attribute_bounds_def attribute_pattern_def field_def field_or_def need_def then_check_def
      strings_def sorted_diff_def keys_def ATTRIBUTE_FIELDS_def ATTRIBUTE_FLAGS_def tag_attribute_def Let_def)

lemma vlan_parsed: "\<exists>p. parse_profile any_regex vlan_document = Inr p \<and> pf_attributes p = [(''tag'', tag_attribute)]"
  by (simp add: parse_profile_def vlan_document_def parse_head_def parse_rest_def tag_parsed implicit_keys_of_def compiled_key_def
      fixed_of_def reserved_of_def identity_of_def create_values_of_def position_of_def isolated_of_def requires_of_def overlap_def
      field_def field_or_def need_def then_check_def strings_def sorted_diff_def keys_def PROFILE_FIELDS_def
      OPTIONAL_PROFILE_FIELDS_def PLATFORMS_def OPS_def any_regex_def anchored_def starts_with_def ends_with_def Let_def)

theorem canonical_value_stable_witness:
  "canonical_value tag_attribute (VInt 7) ''exos'' = Inr ''7'' \<and>
   canonical_value tag_attribute (as_requested tag_attribute ''7'') ''exos'' = Inr ''7''"
proof -
  have seven: "show_int 7 = ''7''"
    by code_simp
  have run: "canonical_value tag_attribute (VInt 7) ''exos'' = Inr ''7''"
    by (simp add: canonical_value_def canonical_integer_def tag_attribute_def then_check_def seven)
  from canonical_value_stable [OF run] run show ?thesis by (simp add: tag_attribute_def)
qed

theorem parse_profile_wf_witness:
  "\<exists>p. parse_profile any_regex vlan_document = Inr p \<and> wf_profile p"
  using vlan_parsed parse_profile_wf [of any_regex vlan_document] by blast

theorem canonical_value_total_witness:
  "(\<exists>s. canonical_value tag_attribute (VInt 1) ''exos'' = Inr s) \<or>
   (\<exists>r. canonical_value tag_attribute (VInt 1) ''exos'' = Inl (Rejected [r]))"
proof -
  obtain p where "parse_profile any_regex vlan_document = Inr p" "(''tag'', tag_attribute) \<in> set (pf_attributes p)"
    using vlan_parsed by auto
  then show ?thesis by (rule canonical_value_total)
qed

end
