(* ===== verification/Admin_Engine_Facts.thy ===== *)
theory Admin_Engine_Facts
  imports Admin_Engine Admin_Request_Facts
begin

text \<open>
  What planning and verification promise: a plan exists only for an enabled operation on an
  unprotected object, the inverse of an update leads back to the state before it, membership commands
  take a port from one membership to the other, a plan document is read back as it was written, and a
  verification matches exactly when the object and the rest of the configuration are as predicted.
\<close>

lemma reject_Inr [simp]: "reject why \<noteq> Inr r"
  by (simp add: reject_def)

section \<open>Guards of a plan\<close>

lemma plan_on_parts:
  assumes "plan_on sha256 loaded version pa raw r firmware protected probe known_ports undo = Inr plan"
  obtains snap prof d0 d rest where
    "find_profile loaded (pa_name pa) (rq_table r) (pa_firmware pa snap) = Inr prof"
    "plan_draft pa snap prof r protected probe undo = Inr d0"
    "checked_draft pa snap prof (rq_op r) (rq_key r) protected d0 = Inr d"
    "plan = plan_document sha256 version (pa_name pa) (pa_firmware pa snap) prof r raw d rest known_ports"
    "\<forall>ps. known_ports = Some ps \<longrightarrow> (\<exists>s s'. pa_with_ports pa ps s = Inr s')"
proof -
  from assms obtain snap0 snap prof d0 d rest where
    "(case known_ports of None \<Rightarrow> Inr snap0 | Some ps \<Rightarrow> pa_with_ports pa ps snap0) = Inr snap"
    "find_profile loaded (pa_name pa) (rq_table r) (pa_firmware pa snap) = Inr prof"
    "plan_draft pa snap prof r protected probe undo = Inr d0"
    "checked_draft pa snap prof (rq_op r) (rq_key r) protected d0 = Inr d"
    "plan = plan_document sha256 version (pa_name pa) (pa_firmware pa snap) prof r raw d rest known_ports"
    unfolding plan_on_def by auto
  moreover from this(1) have "\<forall>ps. known_ports = Some ps \<longrightarrow> (\<exists>s s'. pa_with_ports pa ps s = Inr s')" by (auto intro: exI [of _ snap0])
  ultimately show thesis by (intro that)
qed

lemma plan_draft_guards:
  assumes "plan_draft pa snap prof r protected probe undo = Inr d"
  shows "rq_op r \<in> set (pf_ops prof) \<or> undo \<and> rq_op r \<in> set (pf_undo_ops prof)"
    and "re_fullmatch (pf_key_pattern prof) (rq_key r)"
    and "casefold (rq_key r) \<notin> set (map casefold (pf_protected_keys prof @ protected_of protected (pf_table prof)))"
    and "starts_with ENROLLMENT_PREFIX (casefold (rq_key r)) \<Longrightarrow> probe"
  using assms by (auto simp: plan_draft_def Let_def split: if_splits)

lemma plan_draft_changes:
  assumes "plan_draft pa snap prof r protected probe undo = Inr d"
  obtains entries entry changes where "pa_entries pa snap (pf_table prof) = Inr (Some entries)" "find_entry entries (rq_key r) = Inr entry"
    "canonical_changes prof r = Inr changes"
    "(if rq_op r = ''create'' then plan_create pa snap prof (rq_key r) entry changes
      else plan_change pa snap prof (rq_op r) (rq_key r) entry changes) = Inr d"
  using assms by (auto simp: plan_draft_def Let_def split: if_splits option.splits)

text \<open>The profile a plan was made with\<close>

definition plan_profile :: "profiles \<Rightarrow> plan \<Rightarrow> exn + profile" where
  "plan_profile loaded plan = find_profile loaded (pl_platform plan) (pl_table plan) (the (pl_firmware plan))"

lemma find_profile_table:
  assumes "\<forall>((platform, table), p) \<in> set loaded. pf_platform p = platform \<and> pf_table p = table"
    and "find_profile loaded platform table firmware = Inr prof"
  shows "pf_platform prof = platform \<and> pf_table prof = table"
  using assms by (fastforce simp: find_profile_def split: option.splits if_splits dest: map_of_SomeD)

lemma plan_document_simps [simp]:
  "pl_firmware (plan_document sha256 version platform firmware prof r raw d rest known_ports) = Some firmware"
  "pl_table (plan_document sha256 version platform firmware prof r raw d rest known_ports) = pf_table prof"
  "pl_platform (plan_document sha256 version platform firmware prof r raw d rest known_ports) = platform"
  "pl_op (plan_document sha256 version platform firmware prof r raw d rest known_ports) = rq_op r"
  "pl_key (plan_document sha256 version platform firmware prof r raw d rest known_ports) = rq_key r"
  "pl_commands (plan_document sha256 version platform firmware prof r raw d rest known_ports) = dr_commands d"
  "pl_inverse (plan_document sha256 version platform firmware prof r raw d rest known_ports) = dr_inverse d"
  "pl_before (plan_document sha256 version platform firmware prof r raw d rest known_ports) = dr_before d"
  "pl_after (plan_document sha256 version platform firmware prof r raw d rest known_ports) = dr_after d"
  by (simp_all add: plan_document_def)

lemma build_plan_cases:
  assumes "build_plan sha256 loaded version platform raw r firmware protected probe known_ports undo = Inr plan"
  obtains "platform = ''fortios''"
      "plan_on sha256 loaded version (fortios_platform sha256) raw r firmware protected probe known_ports undo = Inr plan"
    | "platform = ''exos''"
      "plan_on sha256 loaded version (exos_platform sha256) raw r firmware protected probe known_ports undo = Inr plan"
  using assms by (auto simp: build_plan_def split: if_splits)

lemma platform_names [simp]: "pa_name (fortios_platform sha256) = ''fortios''" "pa_name (exos_platform sha256) = ''exos''"
  by (simp_all add: fortios_platform_def exos_platform_def)

text \<open>What a protected object is: its key is protected by the profile or by the configuration of its table,
  or the state before or after names a protected object in a list of names.\<close>

definition allowed_plan :: "profile \<Rightarrow> request \<Rightarrow> (string, string list) dict \<Rightarrow> bool \<Rightarrow> bool \<Rightarrow> plan \<Rightarrow> bool" where
  "allowed_plan prof r protected probe undo plan \<longleftrightarrow>
     (rq_op r \<in> set (pf_ops prof) \<or> undo \<and> rq_op r \<in> set (pf_undo_ops prof))
     \<and> re_fullmatch (pf_key_pattern prof) (rq_key r)
     \<and> casefold (rq_key r) \<notin> casefold ` set (pf_protected_keys prof @ protected_of protected (pf_table prof))
     \<and> (starts_with ENROLLMENT_PREFIX (casefold (rq_key r)) \<longrightarrow> probe)
     \<and> (\<forall>name \<in> set (referenced prof (pl_before plan) @ referenced prof (pl_after plan)).
          casefold name \<notin> set (guarded_names protected))
     \<and> pl_op plan = rq_op r \<and> pl_key plan = rq_key r"

lemma add_new_members [simp]: "set (add_new found new) = set found \<union> set new"
  by (auto simp: add_new_def)

lemma final_commands_states: "final_commands prof key protected d = Inr d' \<Longrightarrow> dr_before d' = dr_before d \<and> dr_after d' = dr_after d"
  by (auto simp: final_commands_def split: if_splits)

lemma checked_draft_parts:
  assumes "checked_draft pa snap prof op key protected d0 = Inr d"
  shows "protected_references pa snap prof protected key (dr_before d0) (dr_after d0) = Inr []"
    and "final_commands prof key protected d0 = Inr d"
  using assms by (auto simp: checked_draft_def split: if_splits)

lemma sort_Nil [simp]: "sort xs = [] \<longleftrightarrow> xs = []"
  by (metis length_0_conv length_sort)

lemma protected_references_none:
  assumes "protected_references pa snap prof protected key before after = Inr []"
    and closure: "\<And>names. set names \<subseteq> set (pa_closure pa snap prof names)"
  shows "\<forall>name \<in> set (referenced prof before @ referenced prof after). casefold name \<notin> set (guarded_names protected)"
proof (cases "guarded_names protected = []")
  case False
  with assms(1) obtain linked where "filter (\<lambda>name. casefold name \<in> set (guarded_names protected))
      (pa_closure pa snap prof (add_new (add_new (referenced prof before) (referenced prof after)) linked)) = []"
    by (auto simp: protected_references_def Let_def split: sum.splits if_splits)
  then show ?thesis
    using closure [of "add_new (add_new (referenced prof before) (referenced prof after)) linked"]
    by (auto simp: filter_empty_conv)
qed simp

section \<open>The contract of a platform\<close>

text \<open>What the engine relies on: following links never drops a name, and only one platform has port lists.\<close>

locale engine_platform =
  fixes pa :: "('s, 'e) platform"
  assumes closure_keeps: "set names \<subseteq> set (pa_closure pa snap prof names)"
    and ports_platform: "pa_with_ports pa ps s = Inr s' \<Longrightarrow> pa_name pa = ''exos''"
    and known_name: "pa_name pa \<in> {''fortios'', ''exos''}"
begin

lemma plan_allowed:
  assumes "plan_on sha256 loaded version pa raw r firmware protected probe known_ports undo = Inr plan"
  shows "\<exists>prof. find_profile loaded (pa_name pa) (rq_table r) (the (pl_firmware plan)) = Inr prof \<and>
    allowed_plan prof r protected probe undo plan"
proof -
  obtain snap prof d0 d rest where parts:
    "find_profile loaded (pa_name pa) (rq_table r) (pa_firmware pa snap) = Inr prof"
    "plan_draft pa snap prof r protected probe undo = Inr d0"
    "checked_draft pa snap prof (rq_op r) (rq_key r) protected d0 = Inr d"
    "plan = plan_document sha256 version (pa_name pa) (pa_firmware pa snap) prof r raw d rest known_ports"
    using plan_on_parts [OF assms] by metis
  have states: "dr_before d = dr_before d0 \<and> dr_after d = dr_after d0"
    using final_commands_states checked_draft_parts(2) [OF parts(3)] by blast
  have "\<forall>name \<in> set (referenced prof (dr_before d0) @ referenced prof (dr_after d0)). casefold name \<notin> set (guarded_names protected)"
    using protected_references_none [OF checked_draft_parts(1) [OF parts(3)]] closure_keeps by blast
  then have "allowed_plan prof r protected probe undo plan"
    using plan_draft_guards [OF parts(2)] states by (simp add: allowed_plan_def parts(4) image_Un)
  then show ?thesis using parts(1,4) by auto
qed

lemma plan_states:
  assumes "plan_on sha256 loaded version pa raw r firmware protected probe known_ports undo = Inr plan"
  obtains snap prof d0 d where
    "find_profile loaded (pa_name pa) (rq_table r) (the (pl_firmware plan)) = Inr prof"
    "plan_draft pa snap prof r protected probe undo = Inr d0" "final_commands prof (rq_key r) protected d0 = Inr d"
    "pl_before plan = dr_before d" "pl_after plan = dr_after d" "pl_commands plan = dr_commands d" "pl_inverse plan = dr_inverse d"
  using plan_on_parts [OF assms] checked_draft_parts(2) by (metis plan_document_simps option.sel)

end

interpretation fortios: engine_platform "fortios_platform sha256" for sha256
  by unfold_locales (auto simp: fortios_platform_def fortios_closure_def)

interpretation exos: engine_platform "exos_platform sha256" for sha256
  by unfold_locales (auto simp: exos_platform_def)


section \<open>The inverse of an update\<close>

text \<open>The changes that undo an update: every changed attribute returns to its value before, or is removed.\<close>

definition undo_changes :: "changes \<Rightarrow> attributes \<Rightarrow> changes" where
  "undo_changes changes before = map (\<lambda>(name, _). (name, map_of before name)) changes"

definition no_defaults :: "profile \<Rightarrow> attributes \<Rightarrow> bool" where
  "no_defaults prof state \<longleftrightarrow> list_all (\<lambda>(name, v). at_default (attribute_of prof name) \<noteq> Some v) state"

lemma given_undo: "given (undo_changes changes before) = restored changes before"
  by (induction changes) (auto simp: given_def undo_changes_def restored_def split: option.splits)

lemma removed_undo: "removed_names (undo_changes changes before) = cleared changes before"
  by (auto simp: removed_names_def cleared_def undo_changes_def keys_def map_of_eq_None_iff filter_map comp_def case_prod_beta
      intro: arg_cong [where f = sort])

text \<open>The value an attribute has after a change\<close>

definition changed_value :: "profile \<Rightarrow> string \<Rightarrow> string option \<Rightarrow> string option" where
  "changed_value prof name v = (if v = at_default (attribute_of prof name) then None else v)"

lemma apply_changes_other: "name \<notin> set (keys changes) \<Longrightarrow> map_of (apply_changes prof changes state) name = map_of state name"
  by (induction changes arbitrary: state) (auto simp: apply_changes_def split: option.splits)

lemma apply_undo:
  "map_of (apply_changes prof (undo_changes changes before) state) name =
     (if name \<in> set (keys changes) then changed_value prof name (map_of before name) else map_of state name)"
proof (induction changes arbitrary: state)
  case (Cons c changes)
  obtain n v where c: "c = (n, v)" by fastforce
  let ?step = "\<lambda>st. case map_of before n of None \<Rightarrow> AList.delete n st
    | Some s \<Rightarrow> if at_default (attribute_of prof n) = Some s then AList.delete n st else AList.update n s st"
  have "apply_changes prof (undo_changes (c # changes) before) state = apply_changes prof (undo_changes changes before) (?step state)"
    by (simp add: apply_changes_def undo_changes_def c)
  moreover have "map_of (?step state) = (map_of state)(n := changed_value prof n (map_of before n))"
    by (auto simp: changed_value_def split: option.splits)
  ultimately show ?case using Cons.IH [of "?step state"] by (simp add: c)
qed (simp add: apply_changes_def undo_changes_def)

lemma no_defaults_value: "no_defaults prof state \<Longrightarrow> changed_value prof name (map_of state name) = map_of state name"
  by (cases "map_of state name") (fastforce simp: no_defaults_def changed_value_def list_all_iff dest: map_of_SomeD)+

lemma undo_restores:
  assumes "no_defaults prof before"
  shows "map_of (apply_changes prof (undo_changes changes before) (apply_changes prof changes before)) = map_of before"
proof
  fix name
  show "map_of (apply_changes prof (undo_changes changes before) (apply_changes prof changes before)) name = map_of before name"
    using apply_changes_other [of name changes prof before] no_defaults_value [OF assms, of name] by (simp add: apply_undo)
qed

lemma plan_change_update:
  assumes "plan_change pa snap prof ''update'' key entry changes = Inr d"
  obtains before where "dr_before d = Some before" "dr_after d = Some (apply_changes prof changes before)"
    "pa_render_update pa prof key (given changes) (removed_names changes) = Inr (dr_commands d)"
    "pa_render_update pa prof key (given (undo_changes changes before)) (removed_names (undo_changes changes before)) = Inr (dr_inverse d)"
  using assms
  by (auto simp: plan_change_def plan_update_def Let_def given_undo removed_undo split: if_splits prod.splits)

text \<open>How an update and its inverse are related: the predicted state is the state before with the changes
  applied, the inverse consists of the commands of the opposite changes, and these lead back.\<close>

definition inverse_update ::
  "('s, 'e) platform \<Rightarrow> profile \<Rightarrow> string \<Rightarrow> changes \<Rightarrow> attributes \<Rightarrow> plan \<Rightarrow> bool" where
  "inverse_update pa prof key changes before plan \<longleftrightarrow>
     pl_after plan = Some (apply_changes prof changes before)
     \<and> pa_render_update pa prof key (given changes) (removed_names changes) = Inr (pl_commands plan)
     \<and> pa_render_update pa prof key (given (undo_changes changes before)) (removed_names (undo_changes changes before))
         = Inr (pl_inverse plan)
     \<and> map_of (apply_changes prof (undo_changes changes before) (the (pl_after plan))) = map_of before"

context engine_platform
begin

lemma plan_inverse_update:
  assumes "plan_on sha256 loaded version pa raw r firmware protected probe known_ports undo = Inr plan" and "rq_op r = ''update''"
    and "find_profile loaded (pa_name pa) (rq_table r) (the (pl_firmware plan)) = Inr prof" and "pf_table prof \<noteq> ''vlan-membership''"
    and "pl_before plan = Some before" and "no_defaults prof before"
  shows "\<exists>changes. canonical_changes prof r = Inr changes \<and> inverse_update pa prof (rq_key r) changes before plan"
proof -
  obtain snap prof' d0 d where parts:
    "find_profile loaded (pa_name pa) (rq_table r) (the (pl_firmware plan)) = Inr prof'"
    "plan_draft pa snap prof' r protected probe undo = Inr d0" "final_commands prof' (rq_key r) protected d0 = Inr d"
    "pl_before plan = dr_before d" "pl_after plan = dr_after d" "pl_commands plan = dr_commands d" "pl_inverse plan = dr_inverse d"
    using plan_states [OF assms(1)] by metis
  then have same: "prof' = prof" "d0 = d" using assms(3,4) by (auto simp: final_commands_def)
  obtain entry changes where changes: "canonical_changes prof r = Inr changes"
    "plan_change pa snap prof ''update'' (rq_key r) entry changes = Inr d"
    by (rule plan_draft_changes [OF parts(2)]) (simp add: assms(2) same)
  obtain before' where "dr_before d = Some before'" and draft: "dr_after d = Some (apply_changes prof changes before')"
    "pa_render_update pa prof (rq_key r) (given changes) (removed_names changes) = Inr (dr_commands d)"
    "pa_render_update pa prof (rq_key r) (given (undo_changes changes before')) (removed_names (undo_changes changes before')) = Inr (dr_inverse d)"
    using plan_change_update [OF changes(2)] by blast
  moreover have "before' = before" using calculation(1) parts(4) assms(5) by simp
  ultimately have "inverse_update pa prof (rq_key r) changes before plan"
    using parts(5-7) undo_restores [OF assms(6), of changes] by (simp add: inverse_update_def)
  then show ?thesis using changes(1) by blast
qed

end

text \<open>(C36) The inverse of an update restores the object: the plan predicts the state before with the canonical
  changes applied, its inverse is made of the commands of the opposite changes, and these take the
  predicted state back to the state before, provided the state before holds no value that is the
  default of its attribute (the reader leaves such values out). Memberships of ports have commands of
  their own.\<close>

theorem update_inverse_restores:
  assumes "build_plan sha256 loaded version platform raw r firmware protected probe known_ports undo = Inr plan"
    and "rq_op r = ''update''" and "find_profile loaded platform (rq_table r) (the (pl_firmware plan)) = Inr prof"
    and "pf_table prof \<noteq> ''vlan-membership''" and "pl_before plan = Some before" and "no_defaults prof before"
  shows "\<exists>changes. canonical_changes prof r = Inr changes \<and>
    (if platform = ''fortios'' then inverse_update (fortios_platform sha256) prof (rq_key r) changes before plan
     else inverse_update (exos_platform sha256) prof (rq_key r) changes before plan)"
  using assms(1)
proof (cases rule: build_plan_cases)
  case 1
  then show ?thesis using fortios.plan_inverse_update [OF 1(2) assms(2) _ assms(4-6)] assms(3) by simp
next
  case 2
  then show ?thesis using exos.plan_inverse_update [OF 2(2) assms(2) _ assms(4-6)] assms(3) by simp
qed

section \<open>Plan documents\<close>

lemma plan_fields [simp]:
  "doc_get (plan_json p) ''format'' = JStr PLAN_FORMAT"
  "doc_get (plan_json p) ''safeguard_id'' = optional_json (pl_safeguard_id p)"
  "doc_get (plan_json p) ''admin_version'' = JStr (pl_admin_version p)"
  "doc_get (plan_json p) ''platform'' = JStr (pl_platform p)"
  "doc_get (plan_json p) ''firmware'' = optional_json (pl_firmware p)"
  "doc_get (plan_json p) ''table'' = JStr (pl_table p)"
  "doc_get (plan_json p) ''op'' = JStr (pl_op p)"
  "doc_get (plan_json p) ''key'' = JStr (pl_key p)"
  "doc_get (plan_json p) ''device'' = optional_json (pl_device p)"
  "doc_get (plan_json p) ''request_id'' = JStr (pl_request_id p)"
  "doc_get (plan_json p) ''request_sha256'' = JStr (pl_request_sha256 p)"
  "doc_get (plan_json p) ''reason_characters'' = JInt (int (pl_reason_characters p))"
  "doc_get (plan_json p) ''user_request_characters'' = JInt (int (pl_user_request_characters p))"
  "doc_get (plan_json p) ''snapshot_sha256'' = JStr (pl_snapshot_sha256 p)"
  "doc_get (plan_json p) ''rest_sha256'' = JStr (pl_rest_sha256 p)"
  "doc_get (plan_json p) ''prechecks'' = texts_json (pl_prechecks p)"
  "doc_get (plan_json p) ''commands'' = texts_json (pl_commands p)"
  "doc_get (plan_json p) ''inverse'' = texts_json (pl_inverse p)"
  "doc_get (plan_json p) ''predicted'' = JObj [(''before'', state_json (pl_before p)), (''after'', state_json (pl_after p))]"
  "doc_get (plan_json p) ''ignored_attributes'' = texts_json (pl_ignored_attributes p)"
  "doc_get (plan_json p) ''inverse_identity_changes'' = texts_json (pl_inverse_identity_changes p)"
  "doc_get (plan_json p) ''rollback_evidence'' = JStr (pl_rollback_evidence p)"
  "doc_get (plan_json p) ''plan_sha256'' = JStr (pl_plan_sha256 p)"
  by (simp_all add: plan_json_def doc_get_def)

lemma plan_ports_field: "doc_get (plan_json p) ''ports'' = (case pl_ports p of None \<Rightarrow> JNull | Some ps \<Rightarrow> texts_json ps)"
  by (simp add: plan_json_def doc_get_def split: option.split)

lemma plan_keys: "set (keys (plan_json p)) = set PLAN_FIELDS \<union> (if pl_ports p = None then {} else {''ports''})"
  by (auto simp: plan_json_def PLAN_FIELDS_def split: option.split)

lemma json_kinds [simp]: "is_texts (texts_json ts)" "is_side (state_json st)"
    "optional_json t = JNull \<or> is_text (optional_json t)" "is_text (JStr s)" "is_count (JInt (int n))"
  by (auto simp: texts_json_def state_json_def optional_json_def list_all_iff split: option.split)

lemma plan_json_typed:
  "pl_platform p \<in> {''fortios'', ''exos''} \<Longrightarrow> pl_op p \<in> set PLAN_OPS \<Longrightarrow>
   plan_typed (plan_json p) [(''before'', state_json (pl_before p)), (''after'', state_json (pl_after p))]"
  by (auto simp: plan_typed_def PLAN_TEXTS_def PLAN_OPTIONAL_TEXTS_def PLAN_COUNTS_def PLAN_TEXT_LISTS_def)

text \<open>A plan whose digest covers its commands and states, and whose port list is one of an ExtremeXOS switch\<close>

definition sealed_plan :: "(string \<Rightarrow> string) \<Rightarrow> plan \<Rightarrow> bool" where
  "sealed_plan sha256 p \<longleftrightarrow> pl_platform p \<in> {''fortios'', ''exos''} \<and> (pl_ports p \<noteq> None \<longrightarrow> pl_platform p = ''exos'') \<and>
     pl_plan_sha256 p = plan_digest sha256 (texts_json (pl_commands p)) (texts_json (pl_inverse p)) (state_json (pl_before p)) (state_json (pl_after p))"

lemma read_plan_sealed:
  assumes "sealed_plan sha256 p" and "pl_op p \<in> set PLAN_OPS"
  shows "read_plan sha256 (JObj (plan_json p)) = Inr (plan_json p, [(''before'', state_json (pl_before p)), (''after'', state_json (pl_after p))])"
proof -
  have "same_names (filter (\<lambda>n. n \<noteq> ''ports'') (keys (plan_json p))) PLAN_FIELDS"
    using plan_keys [of p] by (auto simp: same_names_def PLAN_FIELDS_def split: if_splits)
  moreover have "''ports'' \<in> set (keys (plan_json p)) \<longleftrightarrow> pl_ports p \<noteq> None"
    by (simp add: plan_keys PLAN_FIELDS_def)
  moreover have "pl_ports p \<noteq> None \<Longrightarrow> pl_platform p = ''exos'' \<and> is_texts (doc_get (plan_json p) ''ports'')"
    using assms(1) by (auto simp: sealed_plan_def plan_ports_field)
  moreover have "same_names (keys [(''before'', state_json (pl_before p)), (''after'', state_json (pl_after p))]) [''before'', ''after'']"
    by (simp add: same_names_def)
  moreover have "doc_get [(''before'', state_json (pl_before p)), (''after'', state_json (pl_after p))] ''before'' = state_json (pl_before p)"
    "doc_get [(''before'', state_json (pl_before p)), (''after'', state_json (pl_after p))] ''after'' = state_json (pl_after p)"
    by (simp_all add: doc_get_def)
  ultimately show ?thesis
    using assms plan_json_typed [of p] unfolding read_plan_def by (auto simp: sealed_plan_def)
qed

context engine_platform
begin

lemma plan_sealed:
  assumes "plan_on sha256 loaded version pa raw r firmware protected probe known_ports undo = Inr plan"
  shows "sealed_plan sha256 plan"
proof (rule plan_on_parts [OF assms])
  fix snap prof d0 d rest
  assume plan: "plan = plan_document sha256 version (pa_name pa) (pa_firmware pa snap) prof r raw d rest known_ports"
    and ports: "\<forall>ps. known_ports = Some ps \<longrightarrow> (\<exists>s s'. pa_with_ports pa ps s = Inr s')"
  show "sealed_plan sha256 plan"
    using known_name ports ports_platform by (cases known_ports) (auto simp: plan plan_document_def sealed_plan_def)
qed

end


section \<open>Verification\<close>

fun same_state :: "attributes option \<Rightarrow> attributes option \<Rightarrow> bool" where
  "same_state None None = True"
| "same_state (Some a) (Some b) = dict_eq a b"
| "same_state _ _ = False"

lemma doc_get_state: "doc_get (map (\<lambda>(n, v). (n, JStr v)) st) name = (case map_of st name of None \<Rightarrow> JNull | Some v \<Rightarrow> JStr v)"
  by (simp add: doc_get_def map_of_map split: option.split)

lemma keys_state [simp]: "keys (map (\<lambda>(n, v). (n, JStr v)) st) = keys st"
  by (induction st) auto

lemma option_json_eq: "(case x of None \<Rightarrow> JNull | Some v \<Rightarrow> JStr v) = (case y of None \<Rightarrow> JNull | Some v \<Rightarrow> JStr v) \<longleftrightarrow> x = y"
  by (cases x; cases y) simp_all

lemma concat_if_Nil: "concat (map (\<lambda>x. if P x then [f x] else []) xs) = [] \<longleftrightarrow> (\<forall>x \<in> set xs. \<not> P x)"
  by (induction xs) auto

lemma state_differences_none: "state_differences actual (state_json wanted) = [] \<longleftrightarrow> same_state actual wanted"
proof (cases actual; cases wanted)
  fix a b assume ab: "actual = Some a" "wanted = Some b"
  have "state_differences actual (state_json wanted) = [] \<longleftrightarrow>
      (\<forall>name \<in> set (keys a) \<union> set (keys b). (case map_of a name of None \<Rightarrow> JNull | Some v \<Rightarrow> JStr v)
        = (case map_of b name of None \<Rightarrow> JNull | Some v \<Rightarrow> JStr v))"
    by (simp add: ab state_differences_def state_json_def Let_def doc_get_state concat_if_Nil del: concat_eq_Nil_conv)
  also have "\<dots> \<longleftrightarrow> dict_eq a b" by (simp add: dict_eq_def option_json_eq)
  finally show ?thesis by (simp add: ab)
qed (auto simp: state_differences_def state_json_def)

lemma optional_text_json [simp]: "optional_text (optional_json t) = t"
  by (cases t) (simp_all add: optional_json_def)

lemma texts_of_json [simp]: "texts_of (texts_json ts) = ts"
  by (simp add: texts_json_def comp_def)

lemma side_fields_state [simp]: "keys (side_fields (state_json st)) = (case st of None \<Rightarrow> [] | Some as \<Rightarrow> keys as)"
  by (simp add: state_json_def split: option.split)

text \<open>A snapshot agrees with a plan: it can be read, the object is in the state the plan expects and, when
  the plan created it last, in its place, and the rest of the configuration has the digest of the plan.\<close>

definition expected_side :: "plan \<Rightarrow> string \<Rightarrow> attributes option" where
  "expected_side p expect = (if expect = ''before'' then pl_before p else pl_after p)"

definition in_place :: "profile \<Rightarrow> plan \<Rightarrow> string \<Rightarrow> 'e option \<Rightarrow> string list \<Rightarrow> bool" where
  "in_place prof p expect entry names \<longleftrightarrow>
     (pl_op p = ''create'' \<and> pf_create_position prof = Some ''last'' \<and> expect = ''after'' \<and> entry \<noteq> None \<longrightarrow> last names = pl_key p)"

definition as_predicted :: "('s, 'e) platform \<Rightarrow> profiles \<Rightarrow> plan \<Rightarrow> string \<Rightarrow> string \<Rightarrow> bool" where
  "as_predicted pa loaded p raw expect \<longleftrightarrow> (\<exists>snap0 snap prof entries entry state.
     pa_load pa raw (pl_firmware p) = Inr snap0
     \<and> (case pl_ports p of None \<Rightarrow> Inr snap0 | Some ps \<Rightarrow> pa_with_ports pa ps snap0) = Inr snap
     \<and> find_profile loaded (pa_name pa) (pl_table p) (pa_firmware pa snap) = Inr prof
     \<and> pa_entries pa snap (pf_table prof) = Inr (Some entries) \<and> find_entry entries (pl_key p) = Inr entry
     \<and> actual_state pa snap prof (pl_op p) (plan_before_names p) entry = (state, [])
     \<and> same_state state (expected_side p expect) \<and> in_place prof p expect entry (keys entries)
     \<and> pa_rest_digest pa snap (pf_table prof) (pl_key p) (pl_safeguard_id p) = Inr (pl_rest_sha256 p))"

lemma object_differences_none:
  "object_differences pa snap prof (pl_op p) (pl_key p) (plan_before_names p) (state_json (expected_side p expect)) expect entries entry = [] \<longleftrightarrow>
   (\<exists>state. actual_state pa snap prof (pl_op p) (plan_before_names p) entry = (state, []) \<and> same_state state (expected_side p expect))
     \<and> in_place prof p expect entry (keys entries)"
  by (cases "actual_state pa snap prof (pl_op p) (plan_before_names p) entry")
    (auto simp: object_differences_def in_place_def state_differences_none)

lemma verify_on_plan:
  assumes "verify_on sha256 loaded pa (plan_json p) [(''before'', state_json (pl_before p)), (''after'', state_json (pl_after p))] raw expect = Inr v"
    and "expect \<in> {''before'', ''after''}"
  shows "vd_match v \<longleftrightarrow> as_predicted pa loaded p raw expect"
proof -
  let ?predicted = "[(''before'', state_json (pl_before p)), (''after'', state_json (pl_after p))]"
  have side: "doc_get ?predicted ''before'' = state_json (pl_before p)" "doc_get ?predicted expect = state_json (expected_side p expect)"
    using assms(2) by (auto simp: doc_get_def expected_side_def)
  have ports: "''ports'' \<in> set (keys (plan_json p)) \<longleftrightarrow> pl_ports p \<noteq> None" by (simp add: plan_keys PLAN_FIELDS_def)
  have with_ports: "(if ''ports'' \<in> set (keys (plan_json p)) then pa_with_ports pa (texts_of (doc_get (plan_json p) ''ports'')) s else Inr s)
      = (case pl_ports p of None \<Rightarrow> Inr s | Some ps \<Rightarrow> pa_with_ports pa ps s)" for s
    by (simp add: ports plan_ports_field split: option.split)
  have before: "keys (side_fields (state_json (pl_before p))) = plan_before_names p" by (simp add: plan_before_names_def)
  let ?diffs = "\<lambda>snap prof entries entry. object_differences pa snap prof (pl_op p) (pl_key p) (plan_before_names p)
    (state_json (expected_side p expect)) expect entries entry"
  obtain snap0 snap prof found where load:
    "pa_load pa raw (pl_firmware p) = Inr snap0"
    "(case pl_ports p of None \<Rightarrow> Inr snap0 | Some ps \<Rightarrow> pa_with_ports pa ps snap0) = Inr snap"
    "find_profile loaded (pa_name pa) (pl_table p) (pa_firmware pa snap) = Inr prof"
    "pa_entries pa snap (pf_table prof) = Inr found"
    and found: "(case found of
        None \<Rightarrow> Inl (SnapshotRejected [''snapshot holds no '' @ pf_table prof @ '' section''] ''snapshot incomplete'')
      | Some entries \<Rightarrow> then_check (find_entry entries (pl_key p)) (\<lambda>entry.
          then_check (pa_rest_digest pa snap (pf_table prof) (pl_key p) (pl_safeguard_id p)) (\<lambda>rest.
          Inr (verification_of sha256 (plan_json p) raw expect (?diffs snap prof entries entry) rest)))) = Inr v"
    using assms(1) unfolding verify_on_def with_ports side before Let_def then_check_Inr
    by (auto simp only: decode_snapshot_def plan_fields text_of.simps optional_text_json sum.inject sum.distinct split: if_splits)
  obtain entries entry rest where run: "found = Some entries" "find_entry entries (pl_key p) = Inr entry"
    "pa_rest_digest pa snap (pf_table prof) (pl_key p) (pl_safeguard_id p) = Inr rest"
    "v = verification_of sha256 (plan_json p) raw expect (?diffs snap prof entries entry) rest"
    using found by (auto split: option.splits)
  have "vd_match v \<longleftrightarrow> ?diffs snap prof entries entry = [] \<and> rest = pl_rest_sha256 p"
    by (simp add: run(4) verification_of_def Let_def)
  then show ?thesis
    unfolding as_predicted_def object_differences_none using load run(1-3) by auto
qed

text \<open>(C37) A verification reports a match exactly when the snapshot is as the plan predicts: the object is in
  the state the plan gives for the chosen side, holds nothing outside the profile and is in its place,
  and the configuration outside the object has the digest recorded in the plan.\<close>

theorem verify_match_iff:
  assumes "sealed_plan sha256 p" and "pl_op p \<in> set PLAN_OPS" and "verify sha256 loaded (JObj (plan_json p)) raw expect = Inr v"
  shows "vd_match v \<longleftrightarrow> (if pl_platform p = ''fortios'' then as_predicted (fortios_platform sha256) loaded p raw expect
    else as_predicted (exos_platform sha256) loaded p raw expect)"
  using assms(3) read_plan_sealed [OF assms(1,2)] verify_on_plan [where pa = "fortios_platform sha256"]
    verify_on_plan [where pa = "exos_platform sha256"]
  by (simp add: verify_def split: if_splits)

section \<open>A sample plan\<close>

definition description_attribute :: attribute where
  "description_attribute = \<lparr>at_name = ''description'', at_type = TextType, at_default = None, at_required_on_create = False,
     at_update = True, at_unset = True, at_referenced_update = True, at_max_length = Some 64, at_minimum = None, at_maximum = None,
     at_forbidden_values = [], at_pattern = None, at_undo_to_default = False\<rparr>"

definition sample_profile :: profile where
  "sample_profile = \<lparr>pf_platform = ''exos'', pf_table = ''vlan'', pf_versions = [''32.7.2.19''], pf_ops = [''create'', ''update'', ''delete''],
     pf_key_pattern = \<lparr>re_source = ''^.+$'', re_fullmatch = (\<lambda>s. s \<noteq> [])\<rparr>, pf_protected_keys = [''Default''],
     pf_attributes = [(''tag'', tag_attribute), (''description'', description_attribute)], pf_fixed = [], pf_volatile = [],
     pf_reserved_values = [], pf_inverse_identity_changes = [], pf_rollback_evidence = ''measured'', pf_implicit_keys = False,
     pf_undo_ops = [], pf_exact_versions = False, pf_table_scoped_key = False, pf_create_values = [], pf_create_position = None,
     pf_isolated_update = [], pf_provisional = False, pf_value_requires = []\<rparr>"

definition sample_profiles :: profiles where "sample_profiles = [((''exos'', ''vlan''), sample_profile)]"

definition sample_request :: request where
  "sample_request = \<lparr>rq_device = Some ''sw1'', rq_table = ''vlan'', rq_op = ''update'', rq_key = ''Lab'',
     rq_changes = [(''description'', VStr ''floor 2'')], rq_reason = ''r'', rq_user_request = ''u'', rq_request_id = ''request-1''\<rparr>"

definition sample_snapshot :: string where
  "sample_snapshot = join [newline] [''# Module vlan configuration.'', ''create vlan Lab'', ''configure vlan Lab tag 7'', '''']"

definition sample_sha :: "string \<Rightarrow> string" where "sample_sha s = (if s = [] then ''e'' else ''d'')"

definition sample_built :: plan where
  "sample_built = \<lparr>pl_safeguard_id = None, pl_admin_version = ''1'', pl_platform = ''exos'', pl_firmware = Some ''32.7.2.19'', pl_table = ''vlan'',
     pl_op = ''update'', pl_key = ''Lab'', pl_device = Some ''sw1'', pl_request_id = ''request-1'', pl_request_sha256 = ''d'',
     pl_reason_characters = 1, pl_user_request_characters = 1, pl_snapshot_sha256 = ''d'', pl_rest_sha256 = ''e'',
     pl_prechecks = [''firmware 32.7.2.19 is measured for this profile'', ''key is valid and not protected'',
       ''object exists and holds only profile attributes'', ''references allow the changed attributes''],
     pl_commands = [''configure vlan Lab description '' @ [dquote] @ ''floor 2'' @ [dquote]], pl_inverse = [''unconfigure vlan Lab description''],
     pl_before = Some [(''tag'', ''7'')], pl_after = Some [(''tag'', ''7''), (''description'', ''floor 2'')], pl_ignored_attributes = [],
     pl_inverse_identity_changes = [], pl_rollback_evidence = ''measured'', pl_plan_sha256 = ''d'', pl_ports = None\<rparr>"

lemma sample_built: "build_plan sample_sha sample_profiles ''1'' ''exos'' sample_snapshot sample_request (Some ''32.7.2.19'') [] False None False = Inr sample_built"
  by code_simp

text \<open>The configuration after the change, as the switch reports it\<close>

definition sample_after :: string where
  "sample_after = join [newline] [''# Module vlan configuration.'', ''create vlan Lab'', ''configure vlan Lab tag 7'',
     ''configure vlan Lab description '' @ [dquote] @ ''floor 2'' @ [dquote], '''']"

definition sample_verify :: "exn + verification" where
  "sample_verify = verify sample_sha sample_profiles (JObj (plan_json sample_built)) sample_after ''after''"

lemma sample_built_fields: "pl_firmware sample_built = Some ''32.7.2.19''" "pl_before sample_built = Some [(''tag'', ''7'')]"
    "pl_op sample_built = ''update''"
  by (simp_all add: sample_built_def)

lemma sample_found: "find_profile sample_profiles ''exos'' (rq_table sample_request) ''32.7.2.19'' = Inr sample_profile"
  by (simp add: find_profile_def sample_profiles_def sample_request_def sample_profile_def)

lemma sample_verified: "\<not> isl sample_verify" "vd_match (projr sample_verify)"
  by code_simp+


theorem update_inverse_restores_witness:
  "\<exists>changes. canonical_changes sample_profile sample_request = Inr changes \<and>
    inverse_update (exos_platform sample_sha) sample_profile (rq_key sample_request) changes [(''tag'', ''7'')] sample_built"
proof -
  have "rq_op sample_request = ''update''" and "pf_table sample_profile \<noteq> ''vlan-membership''" and "no_defaults sample_profile [(''tag'', ''7'')]"
    by code_simp+
  then show ?thesis
    using update_inverse_restores [OF sample_built, of sample_profile "[(''tag'', ''7'')]"] sample_built_fields sample_found by simp
qed


theorem verify_match_iff_witness: "as_predicted (exos_platform sample_sha) sample_profiles sample_built sample_after ''after''"
proof -
  have "sealed_plan sample_sha sample_built" and "pl_op sample_built \<in> set PLAN_OPS" and "pl_platform sample_built = ''exos''" by code_simp+
  moreover have "verify sample_sha sample_profiles (JObj (plan_json sample_built)) sample_after ''after'' = Inr (projr sample_verify)"
    using sample_verified by (cases sample_verify) (auto simp: sample_verify_def)
  ultimately show ?thesis using verify_match_iff sample_verified by fastforce
qed

end
