(* ===== verification/Admin_Membership_Facts.thy ===== *)
theory Admin_Membership_Facts
  imports Admin_Exos
begin

text \<open>
  The commands of a membership change, \<open>membership.render\<close>. The switch is not part of the program: what
  its commands do to one port is a hypothesis, stated for the commands the program sends in the states
  in which it sends them.
\<close>

section \<open>What a switch does with a command\<close>

text \<open>\<open>run command s\<close> is the state of the switch after a command; \<open>native s\<close> and \<open>tagged s\<close> are the memberships
  of the port. Deleting a port from a VLAN that is not its native one ends the tagged membership;
  adding it untagged to a VLAN in which it is not tagged moves it there; adding it tagged to a VLAN that
  is not its native one makes it a tagged member.\<close>

definition switch_laws :: "string \<Rightarrow> (string \<Rightarrow> 's \<Rightarrow> 's) \<Rightarrow> ('s \<Rightarrow> string) \<Rightarrow> ('s \<Rightarrow> string set) \<Rightarrow> bool" where
  "switch_laws port run native tagged \<longleftrightarrow>
     (\<forall>s v. v \<noteq> native s \<longrightarrow> native (run (delete_ports port v) s) = native s \<and> tagged (run (delete_ports port v) s) = tagged s - {v})
     \<and> (\<forall>s v. v \<notin> tagged s \<longrightarrow> native (run (add_port port ''untagged'' v) s) = v \<and> tagged (run (add_port port ''untagged'' v) s) = tagged s)
     \<and> (\<forall>s v. v \<noteq> native s \<longrightarrow> native (run (add_port port ''tagged'' v) s) = native s
          \<and> tagged (run (add_port port ''tagged'' v) s) = insert v (tagged s))"

lemma run_deletes:
  assumes "switch_laws port run native tagged" and "native s \<notin> set vs"
  shows "native (fold run (map (delete_ports port) vs) s) = native s \<and> tagged (fold run (map (delete_ports port) vs) s) = tagged s - set vs"
  using assms
proof (induction vs arbitrary: s)
  case (Cons v vs)
  then have "native (run (delete_ports port v) s) = native s" "tagged (run (delete_ports port v) s) = tagged s - {v}"
    by (auto simp: switch_laws_def)
  then show ?case using Cons by auto
qed simp

lemma run_adds:
  assumes "switch_laws port run native tagged" and "native s \<notin> set vs"
  shows "native (fold run (map (add_port port ''tagged'') vs) s) = native s \<and>
    tagged (fold run (map (add_port port ''tagged'') vs) s) = tagged s \<union> set vs"
  using assms
proof (induction vs arbitrary: s)
  case (Cons v vs)
  then have "native (run (add_port port ''tagged'' v) s) = native s" "tagged (run (add_port port ''tagged'' v) s) = insert v (tagged s)"
    by (auto simp: switch_laws_def)
  then show ?case using Cons by auto
qed simp

lemma sorted_diff_set [simp]: "set (sorted_diff a b) = set a - set b"
  by (auto simp: sorted_diff_def)

section \<open>Reaching the wanted membership\<close>

text \<open>A port is in the state a membership describes.\<close>

definition holds_membership :: "('s \<Rightarrow> string) \<Rightarrow> ('s \<Rightarrow> string set) \<Rightarrow> attributes \<Rightarrow> 's \<Rightarrow> bool" where
  "holds_membership native tagged st s \<longleftrightarrow> map_of st ''untagged'' = Some (native s) \<and> tagged s = set (words_in st ''tagged'')"

text \<open>(C39) The commands of a membership change do what the plan predicts: sent in the order in which the code
  lists them to a switch whose port is in the membership before, they leave it in the membership after,
  whatever tagged VLANs come and go and also when the native VLAN was a tagged one before or becomes one
  afterwards. No command of the list removes the native VLAN of the port or makes it tagged as well.\<close>

theorem member_render_reaches:
  assumes laws: "switch_laws port run native tagged"
    and render: "member_render port (Some before) (Some after) = Inr commands"
    and start: "holds_membership native tagged before s"
    and apart: "native s \<notin> tagged s" "the (map_of after ''untagged'') \<notin> set (words_in after ''tagged'')"
  shows "holds_membership native tagged after (fold run commands s)"
proof -
  obtain new where new: "map_of after ''untagged'' = Some new"
    using render by (auto simp: member_render_def native_of_def then_check_def split: option.splits sum.splits)
  define old_tagged where "old_tagged = tagged_of (Some before)"
  define new_tagged where "new_tagged = tagged_of (Some after)"
  have old: "map_of before ''untagged'' = Some (native s)" "tagged s = set old_tagged" and wanted: "set new_tagged = set (words_in after ''tagged'')"
    using start by (auto simp: holds_membership_def old_tagged_def new_tagged_def tagged_of_def)
  let ?gone = "filter (\<lambda>name. name \<noteq> new) (sorted_diff old_tagged new_tagged)"
  let ?move = "if native s \<noteq> new
    then (if new \<in> set old_tagged then [delete_ports port new] else []) @ [add_port port ''untagged'' new] else []"
  have commands: "commands = map (delete_ports port) ?gone @ ?move @ map (add_port port ''tagged'') (sorted_diff new_tagged old_tagged)"
    using render old new by (simp add: member_render_def native_of_def then_check_def Let_def old_tagged_def new_tagged_def split: if_splits)
  define s1 where "s1 = fold run (map (delete_ports port) ?gone) s"
  define s2 where "s2 = fold run ?move s1"
  have s1: "native s1 = native s" "tagged s1 = set old_tagged - set ?gone"
    using run_deletes [OF laws, of s ?gone] apart old by (auto simp: s1_def)
  have s2: "native s2 = new" "tagged s2 = set old_tagged - set ?gone - {new}"
  proof -
    have moved: "native (run (add_port port ''untagged'' new) t) = new \<and> tagged (run (add_port port ''untagged'' new) t) = tagged t"
      if "new \<notin> tagged t" for t using that laws by (auto simp: switch_laws_def)
    have left: "native (run (delete_ports port new) s1) = native s1 \<and> tagged (run (delete_ports port new) s1) = tagged s1 - {new}"
      if "native s \<noteq> new" using that laws s1 by (auto simp: switch_laws_def)
    show "native s2 = new" "tagged s2 = set old_tagged - set ?gone - {new}"
      using moved left s1 apart old by (auto simp: s2_def)
  qed
  have "new \<notin> set (sorted_diff new_tagged old_tagged)" using apart(2) new wanted by simp
  then have "native (fold run commands s) = new \<and> tagged (fold run commands s) = tagged s2 \<union> set (sorted_diff new_tagged old_tagged)"
    using run_adds [OF laws, of s2 "sorted_diff new_tagged old_tagged"] s2(1) by (simp add: commands s1_def s2_def)
  moreover have "tagged s2 \<union> set (sorted_diff new_tagged old_tagged) = set new_tagged"
    using s2(2) apart(2) new wanted by auto
  ultimately show ?thesis using new wanted by (simp add: holds_membership_def)
qed

section \<open>A switch that obeys the laws\<close>

text \<open>The VLAN of a command with the given ending\<close>

definition sample_name :: "string \<Rightarrow> string \<Rightarrow> string option" where
  "sample_name ending c = (if take (length ending) (rev c) = rev ending then Some (drop 15 (rev (drop (length ending) (rev c)))) else None)"

fun sample_run :: "string \<Rightarrow> string \<times> string list \<Rightarrow> string \<times> string list" where
  "sample_run c (n, ts) = (case sample_name '' delete ports 7'' c of
     Some v \<Rightarrow> (n, removeAll v ts)
   | None \<Rightarrow> (case sample_name '' add ports 7 untagged'' c of
       Some v \<Rightarrow> (v, ts)
     | None \<Rightarrow> (case sample_name '' add ports 7 tagged'' c of Some v \<Rightarrow> (n, List.insert v ts) | None \<Rightarrow> (n, ts))))"

lemma sample_name_hit: "length p = 15 \<Longrightarrow> sample_name ending (p @ v @ ending) = Some v"
  by (simp add: sample_name_def)

lemma sample_name_miss: "take (length ending) (rev ending' @ rev v @ rev p) \<noteq> rev ending \<Longrightarrow> sample_name ending (p @ v @ ending') = None"
  by (simp add: sample_name_def)

lemma sample_laws: "switch_laws ''7'' sample_run fst (\<lambda>s. set (snd s))"
proof -
  have 1: "sample_name '' delete ports 7'' (delete_ports ''7'' v) = Some v" for v
    unfolding delete_ports_def by (subst sample_name_hit [of "''configure vlan ''" "'' delete ports 7''" v, symmetric]) simp_all
  have 2: "sample_name '' add ports 7 untagged'' (add_port ''7'' ''untagged'' v) = Some v" for v
    unfolding add_port_def by (subst sample_name_hit [of "''configure vlan ''" "'' add ports 7 untagged''" v, symmetric]) simp_all
  have 3: "sample_name '' add ports 7 tagged'' (add_port ''7'' ''tagged'' v) = Some v" for v
    unfolding add_port_def by (subst sample_name_hit [of "''configure vlan ''" "'' add ports 7 tagged''" v, symmetric]) simp_all
  have 4: "sample_name '' delete ports 7'' (add_port ''7'' ''untagged'' v) = None" "sample_name '' delete ports 7'' (add_port ''7'' ''tagged'' v) = None"
    "sample_name '' add ports 7 untagged'' (add_port ''7'' ''tagged'' v) = None" for v
    by (simp_all add: sample_name_def add_port_def)
  show ?thesis by (auto simp: switch_laws_def 1 2 3 4)
qed

lemma member_render_reaches_witness:
  "holds_membership fst (\<lambda>s. set (snd s)) [(''untagged'', ''B''), (''tagged'', ''A C'')]
     (fold sample_run [''configure vlan D delete ports 7'', ''configure vlan B delete ports 7'', ''configure vlan B add ports 7 untagged'',
        ''configure vlan A add ports 7 tagged''] (''A'', [''B'', ''C'', ''D'']))"
proof -
  have render: "member_render ''7'' (Some [(''untagged'', ''A''), (''tagged'', ''B C D'')]) (Some [(''untagged'', ''B''), (''tagged'', ''A C'')])
    = Inr [''configure vlan D delete ports 7'', ''configure vlan B delete ports 7'', ''configure vlan B add ports 7 untagged'',
        ''configure vlan A add ports 7 tagged'']" by code_simp
  have start: "holds_membership fst (\<lambda>s. set (snd s)) [(''untagged'', ''A''), (''tagged'', ''B C D'')] (''A'', [''B'', ''C'', ''D''])"
    by code_simp
  have apart: "the (map_of [(''untagged'', ''B''), (''tagged'', ''A C'')] ''untagged'') \<notin> set (words_in [(''untagged'', ''B''), (''tagged'', ''A C'')] ''tagged'')"
    by code_simp
  show ?thesis by (rule member_render_reaches [OF sample_laws render start _ apart]) simp
qed

end
