(* ===== verification/Exos_Model_Facts.thy ===== *)
theory Exos_Model_Facts
  imports Exos_Model
begin

text \<open>
  Facts about port lists: the binary search selects exactly the ports of a range, and every port list
  that is accepted is bounded and free of repetitions.
\<close>

section \<open>Binary search\<close>

lemma bisect_splits:
  assumes mono: "\<And>i j. i \<le> j \<Longrightarrow> j < length xs \<Longrightarrow> below (xs ! j) \<Longrightarrow> below (xs ! i)"
    and "lo \<le> hi" "hi \<le> length xs"
    and "\<And>i. i < lo \<Longrightarrow> below (xs ! i)" and "\<And>i. hi \<le> i \<Longrightarrow> i < length xs \<Longrightarrow> \<not> below (xs ! i)"
  shows "bisect below xs lo hi \<le> length xs \<and> (\<forall>i < length xs. below (xs ! i) \<longleftrightarrow> i < bisect below xs lo hi)"
  using assms(2-5)
proof (induction "hi - lo" arbitrary: lo hi rule: less_induct)
  case less
  define mid where "mid = (lo + hi) div 2"
  show ?case
  proof (cases "lo < hi")
    case True
    then have mid: "lo \<le> mid" "mid < hi" by (auto simp: mid_def)
    show ?thesis
    proof (cases "below (xs ! mid)")
      case below: True
      then have "\<And>i. i < mid + 1 \<Longrightarrow> below (xs ! i)"
        using mono [of _ mid] mid less.prems(2) by (metis Suc_eq_plus1 less_Suc_eq_le order_less_le_trans)
      then have "bisect below xs (mid + 1) hi \<le> length xs \<and>
          (\<forall>i < length xs. below (xs ! i) \<longleftrightarrow> i < bisect below xs (mid + 1) hi)"
        using less.prems mid by (intro less.hyps) auto
      moreover have "bisect below xs lo hi = bisect below xs (mid + 1) hi"
        using True below by (subst bisect.simps) (simp add: Let_def mid_def)
      ultimately show ?thesis by simp
    next
      case above: False
      then have "\<And>i. mid \<le> i \<Longrightarrow> i < length xs \<Longrightarrow> \<not> below (xs ! i)" using mono [of mid] by blast
      then have "bisect below xs lo mid \<le> length xs \<and> (\<forall>i < length xs. below (xs ! i) \<longleftrightarrow> i < bisect below xs lo mid)"
        using less.prems mid by (intro less.hyps) auto
      moreover have "bisect below xs lo hi = bisect below xs lo mid"
        using True above by (subst bisect.simps) (simp add: Let_def mid_def)
      ultimately show ?thesis by simp
    qed
  next
    case False
    then have "bisect below xs lo hi = lo" by (subst bisect.simps) simp
    moreover have "lo = hi" using False less.prems by simp
    ultimately show ?thesis using less.prems by (metis not_le)
  qed
qed

lemma take_prefix:
  assumes "n \<le> length xs" and "\<forall>i < length xs. P (xs ! i) \<longleftrightarrow> i < n"
  shows "take n xs = filter P xs" and "drop n xs = filter (\<lambda>x. \<not> P x) xs"
proof -
  have "\<forall>x \<in> set (take n xs). P x" using assms by (auto simp: in_set_conv_nth)
  moreover have "\<forall>x \<in> set (drop n xs). \<not> P x" using assms by (auto simp: in_set_conv_nth)
  moreover have "filter Q xs = filter Q (take n xs) @ filter Q (drop n xs)" for Q
    by (metis append_take_drop_id filter_append)
  ultimately show "take n xs = filter P xs" and "drop n xs = filter (\<lambda>x. \<not> P x) xs" by simp_all
qed

lemma sorted_fst: "sorted (xs :: ('k :: linorder \<times> 'a :: linorder) list) \<Longrightarrow> i \<le> j \<Longrightarrow> j < length xs \<Longrightarrow> fst (xs ! i) \<le> fst (xs ! j)"
  using sorted_nth_mono [of xs i j] by (auto simp: less_eq_prod_def)

lemma drop_bisect_left:
  fixes xs :: "('k :: linorder \<times> 'a :: linorder) list"
  assumes "sorted xs"
  shows "drop (bisect_left xs k) xs = filter (\<lambda>x. k \<le> fst x) xs"
proof -
  have "bisect_left xs k \<le> length xs \<and> (\<forall>i < length xs. fst (xs ! i) < k \<longleftrightarrow> i < bisect_left xs k)"
    unfolding bisect_left_def using sorted_fst [OF assms] by (intro bisect_splits) (auto intro: le_less_trans)
  then show ?thesis using take_prefix(2) [of "bisect_left xs k" xs "\<lambda>x. fst x < k"] by (simp add: not_less)
qed

lemma take_bisect_right:
  fixes xs :: "('k :: linorder \<times> 'a :: linorder) list"
  assumes "sorted xs"
  shows "take (bisect_right xs k) xs = filter (\<lambda>x. fst x \<le> k) xs"
proof -
  have "bisect_right xs k \<le> length xs \<and> (\<forall>i < length xs. fst (xs ! i) \<le> k \<longleftrightarrow> i < bisect_right xs k)"
    unfolding bisect_right_def using sorted_fst [OF assms] by (intro bisect_splits) (auto intro: order_trans)
  then show ?thesis by (intro take_prefix(1)) auto
qed

lemma slice_bisect:
  fixes xs :: "('k :: linorder \<times> 'a :: linorder) list"
  assumes "sorted xs" and "a \<le> b"
  shows "set (drop (bisect_left xs a) (take (bisect_right xs b) xs)) = {x \<in> set xs. a \<le> fst x \<and> fst x \<le> b}"
proof -
  let ?s = "bisect_left xs a" and ?e = "bisect_right xs b"
  have "drop ?s (take ?e xs) = take (?e - ?s) (drop ?s xs)" by (rule drop_take)
  have below: "x \<in> set (take ?e xs) \<longleftrightarrow> x \<in> set xs \<and> fst x \<le> b" for x
    using take_bisect_right [OF assms(1), of b] by simp
  have least: "bisect_left xs a \<le> length xs \<and> (\<forall>i < length xs. fst (xs ! i) < a \<longleftrightarrow> i < bisect_left xs a)"
    unfolding bisect_left_def using sorted_fst [OF assms(1)] by (intro bisect_splits) (auto intro: le_less_trans)
  have "set (drop ?s (take ?e xs)) = {x \<in> set (take ?e xs). a \<le> fst x}"
  proof (cases "?s \<le> length (take ?e xs)")
    case True
    then have "drop ?s (take ?e xs) = filter (\<lambda>x. \<not> fst x < a) (take ?e xs)"
      using least by (intro take_prefix(2)) auto
    then show ?thesis by (auto simp: not_less)
  next
    case False
    have "fst x < a" if "x \<in> set (take ?e xs)" for x
      using that False least by (auto simp: in_set_conv_nth)
    then have "\<forall>x \<in> set (take ?e xs). \<not> a \<le> fst x" by (simp add: not_le)
    then show ?thesis using False by auto
  qed
  then show ?thesis using below by auto
qed

section \<open>Ranges\<close>

text \<open>(C40) A range of ports over several slots is resolved exactly: the binary searches in the ordered
  inventory select the ports of the inventory that lie between the two ends, and no other port.\<close>

theorem slot_range_exact:
  assumes "slot_range m (Some inventory) = Inr found" and "pr_slot m = Some slot" and "pr_end_slot m = Some end_slot"
  shows "set found = {port \<in> set inventory. port_order (slot @ '':'' @ pr_start m) \<le> port_order port \<and>
    port_order port \<le> port_order (end_slot @ '':'' @ pr_end m)}"
proof -
  let ?a = "port_order (slot @ '':'' @ pr_start m)" and ?b = "port_order (end_slot @ '':'' @ pr_end m)"
  let ?o = "ordered_ports inventory"
  have "?a \<le> ?b" and found: "found = map snd (drop (bisect_left ?o ?a) (take (bisect_right ?o ?b) ?o))"
    using assms by (auto simp: slot_range_def Let_def not_less split: list.splits if_splits)
  then have "set found = snd ` {x \<in> set ?o. ?a \<le> fst x \<and> fst x \<le> ?b}"
    using slice_bisect [of ?o ?a ?b] by (simp add: ordered_ports_def)
  also have "set ?o = (\<lambda>port. (port_order port, port)) ` set inventory" by (simp add: ordered_ports_def)
  finally show ?thesis by (simp only: image_Collect image_iff) auto
qed

definition sample_range :: port_range where
  "sample_range = \<lparr>pr_slot = Some ''1'', pr_start = ''3'', pr_end_slot = Some ''2'', pr_end = ''1''\<rparr>"

lemma slot_range_exact_witness:
  "set [''1:3'', ''1:4'', ''2:1''] = {port \<in> set [''2:2'', ''1:4'', ''2:1'', ''1:3'', ''1:1'']. port_order ''1:3'' \<le> port_order port \<and>
    port_order port \<le> port_order ''2:1''}"
proof -
  have "slot_range sample_range (Some [''2:2'', ''1:4'', ''2:1'', ''1:3'', ''1:1'']) = Inr [''1:3'', ''1:4'', ''2:1'']"
    by code_simp
  from slot_range_exact [OF this, of "''1''" "''2''"] show ?thesis by (simp add: sample_range_def)
qed

section \<open>Bounds\<close>

lemma add_new_distinct [simp]: "distinct found \<Longrightarrow> distinct (add_new found new)"
  by (auto simp: add_new_def)

lemma add_new_set [simp]: "set (add_new found new) = set found \<union> set new"
  by (auto simp: add_new_def)

lemma ports_loop_bounded: "ports_loop items inventory result = Inr found \<Longrightarrow> distinct result \<Longrightarrow> distinct found \<and> length found \<le> 4096"
  by (induction items inventory result rule: ports_loop.induct) (auto split: sum.splits if_splits)

end
