(* ===== verification/Netops_Regex.thy ===== *)
theory Netops_Regex
  imports Netops_Net
begin

text \<open>
  The part of Python's \<open>re\<close> the sources use on device answers: greedy patterns with groups, and the
  anchors \<open>^\<close> and \<open>$\<close> in multi-line mode and \<open>\b\<close>. A pattern denotes the list of its matches at a position in the
  order in which a backtracking engine tries them; \<open>re_search\<close> takes the first match at the first position
  that has one, and \<open>re_findall\<close> goes on after each match. The patterns of the sources match no empty text.
\<close>

section \<open>Patterns\<close>

datatype pat =
    PEps
  | PBol
  | PEol
  | PCls "char \<Rightarrow> bool"
  | PSeq pat pat
  | PAlt pat pat
  | PStar pat
  | PGrp nat pat
  | PWordb

text \<open>A position: the character before it, the text after it, and the groups matched on the way to it.\<close>

record position =
  ps_prev :: "char option"
  ps_rest :: string
  ps_groups :: "(nat, string) dict"

definition consumed :: "position \<Rightarrow> position \<Rightarrow> string" where
  "consumed a b = take (length (ps_rest a) - length (ps_rest b)) (ps_rest a)"

text \<open>A word character, and a position between a word character and something else\<close>

definition ch_word :: "char \<Rightarrow> bool" where "ch_word c \<longleftrightarrow> is_digit c \<or> is_alpha c \<or> c = CHR ''_''"

definition word_edge :: "position \<Rightarrow> bool" where
  "word_edge p \<longleftrightarrow> (case ps_prev p of None \<Rightarrow> False | Some c \<Rightarrow> ch_word c)
     \<noteq> (case ps_rest p of [] \<Rightarrow> False | c # _ \<Rightarrow> ch_word c)"

function matches :: "pat \<Rightarrow> position \<Rightarrow> position list" where
  "matches PEps p = [p]"
| "matches PBol p = (if ps_prev p = None \<or> ps_prev p = Some newline then [p] else [])"
| "matches PEol p = (if ps_rest p = [] \<or> hd (ps_rest p) = newline then [p] else [])"
| "matches (PCls C) p = (case ps_rest p of [] \<Rightarrow> [] | c # cs \<Rightarrow> if C c then [p\<lparr>ps_prev := Some c, ps_rest := cs\<rparr>] else [])"
| "matches (PSeq a b) p = concat (map (\<lambda>q. if length (ps_rest q) \<le> length (ps_rest p) then matches b q else []) (matches a p))"
| "matches (PAlt a b) p = matches a p @ matches b p"
| "matches (PStar a) p = concat (map (\<lambda>q. if length (ps_rest q) < length (ps_rest p) then matches (PStar a) q else []) (matches a p)) @ [p]"
| "matches (PGrp n a) p = map (\<lambda>q. q\<lparr>ps_groups := AList.update n (consumed p q) (ps_groups q)\<rparr>) (matches a p)"
| "matches PWordb p = (if word_edge p then [p] else [])"
  by pat_completeness auto

termination matches
  by (relation "measures [\<lambda>(a, p). length (ps_rest p), \<lambda>(a, p). size a]") auto

section \<open>Derived patterns\<close>

primrec plit :: "string \<Rightarrow> pat" where
  "plit [] = PEps"
| "plit (c # cs) = PSeq (PCls (\<lambda>d. d = c)) (plit cs)"

definition pplus :: "pat \<Rightarrow> pat" where "pplus a = PSeq a (PStar a)"
definition popt :: "pat \<Rightarrow> pat" where "popt a = PAlt a PEps"

primrec ptimes :: "nat \<Rightarrow> pat \<Rightarrow> pat" where
  "ptimes 0 a = PEps"
| "ptimes (Suc n) a = PSeq a (ptimes n a)"

primrec pupto :: "nat \<Rightarrow> pat \<Rightarrow> pat" where
  "pupto 0 a = PEps"
| "pupto (Suc n) a = popt (PSeq a (pupto n a))"

primrec pseq :: "pat list \<Rightarrow> pat" where
  "pseq [] = PEps"
| "pseq (a # as) = PSeq a (pseq as)"

text \<open>\<open>\s\<close>, \<open>\S\<close>, \<open>\d\<close>, \<open>\w\<close>, \<open>.\<close> and \<open>[^\S\n]\<close>\<close>

abbreviation "p_space \<equiv> PCls is_space"
abbreviation "p_nonspace \<equiv> PCls (\<lambda>c. \<not> is_space c)"
abbreviation "p_digit \<equiv> PCls is_digit"
abbreviation "p_word \<equiv> PCls ch_word"
abbreviation "p_any \<equiv> PCls (\<lambda>c. c \<noteq> newline)"
abbreviation "p_inline \<equiv> PCls (\<lambda>c. is_space c \<and> c \<noteq> newline)"

section \<open>Searching\<close>

text \<open>A match: its whole text and its groups; an optional group that took no part is absent.\<close>

record match =
  mt_text :: string
  mt_groups :: "(nat, string) dict"

definition group :: "match \<Rightarrow> nat \<Rightarrow> string option" where
  "group m n = map_of (mt_groups m) n"

definition match_at :: "pat \<Rightarrow> char option \<Rightarrow> string \<Rightarrow> (match \<times> position) option" where
  "match_at a prev s =
     (let p = \<lparr>ps_prev = prev, ps_rest = s, ps_groups = []\<rparr> in
      case matches a p of [] \<Rightarrow> None | q # _ \<Rightarrow> Some (\<lparr>mt_text = consumed p q, mt_groups = ps_groups q\<rparr>, q))"

fun search_from :: "pat \<Rightarrow> char option \<Rightarrow> string \<Rightarrow> match option" where
  "search_from a prev [] = map_option fst (match_at a prev [])"
| "search_from a prev (c # cs) = (case match_at a prev (c # cs) of
     Some (m, _) \<Rightarrow> Some m
   | None \<Rightarrow> search_from a (Some c) cs)"

definition re_search :: "pat \<Rightarrow> string \<Rightarrow> match option" where
  "re_search a s = search_from a None s"

definition re_fullmatch_pat :: "pat \<Rightarrow> string \<Rightarrow> match option" where
  "re_fullmatch_pat a s =
     (let p = \<lparr>ps_prev = None, ps_rest = s, ps_groups = []\<rparr> in
      case filter (\<lambda>q. ps_rest q = []) (matches a p) of
        [] \<Rightarrow> None
      | q # _ \<Rightarrow> Some \<lparr>mt_text = s, mt_groups = ps_groups q\<rparr>)"

function find_from :: "pat \<Rightarrow> char option \<Rightarrow> string \<Rightarrow> match list" where
  "find_from a prev [] = []"
| "find_from a prev (c # cs) = (case match_at a prev (c # cs) of
     None \<Rightarrow> find_from a (Some c) cs
   | Some (m, q) \<Rightarrow> if length (ps_rest q) < length (c # cs) then m # find_from a (ps_prev q) (ps_rest q)
       else find_from a (Some c) cs)"
  by pat_completeness auto

termination find_from
  by (relation "measure (\<lambda>(a, prev, s). length s)") auto

definition re_findall :: "pat \<Rightarrow> string \<Rightarrow> match list" where
  "re_findall a s = find_from a None s"

section \<open>What a match is\<close>

text \<open>The text a pattern consumes, in the usual reading of regular expressions without anchors.\<close>

inductive consumes :: "pat \<Rightarrow> position \<Rightarrow> position \<Rightarrow> bool" where
  eps: "consumes PEps p p"
| bol: "ps_prev p = None \<or> ps_prev p = Some newline \<Longrightarrow> consumes PBol p p"
| eol: "ps_rest p = [] \<or> hd (ps_rest p) = newline \<Longrightarrow> consumes PEol p p"
| cls: "ps_rest p = c # cs \<Longrightarrow> C c \<Longrightarrow> consumes (PCls C) p (p\<lparr>ps_prev := Some c, ps_rest := cs\<rparr>)"
| seq: "consumes a p q \<Longrightarrow> consumes b q r \<Longrightarrow> consumes (PSeq a b) p r"
| left: "consumes a p q \<Longrightarrow> consumes (PAlt a b) p q"
| right: "consumes b p q \<Longrightarrow> consumes (PAlt a b) p q"
| stop: "consumes (PStar a) p p"
| more: "consumes a p q \<Longrightarrow> length (ps_rest q) < length (ps_rest p) \<Longrightarrow> consumes (PStar a) q r \<Longrightarrow> consumes (PStar a) p r"
| grp: "consumes a p q \<Longrightarrow> consumes (PGrp n a) p (q\<lparr>ps_groups := AList.update n (consumed p q) (ps_groups q)\<rparr>)"
| wordb: "word_edge p \<Longrightarrow> consumes PWordb p p"

lemma matches_star:
  "q \<in> set (matches (PStar a) p) \<longleftrightarrow>
     q = p \<or> (\<exists>r \<in> set (matches a p). length (ps_rest r) < length (ps_rest p) \<and> q \<in> set (matches (PStar a) r))"
  by (subst matches.simps(7)) (auto simp del: matches.simps(7))

lemma matches_seq:
  "q \<in> set (matches (PSeq a b) p) \<longleftrightarrow>
     (\<exists>r \<in> set (matches a p). length (ps_rest r) \<le> length (ps_rest p) \<and> q \<in> set (matches b r))"
  by (subst matches.simps(5)) (auto simp del: matches.simps(7))

declare matches.simps(5,7) [simp del]

lemma matches_consumes: "q \<in> set (matches a p) \<Longrightarrow> consumes a p q"
proof (induction a p arbitrary: q rule: matches.induct)
  case (5 a b p)
  then obtain r where "r \<in> set (matches a p)" "length (ps_rest r) \<le> length (ps_rest p)" "q \<in> set (matches b r)"
    by (auto simp: matches_seq)
  then show ?case using 5 by (blast intro: consumes.seq)
next
  case (7 a p)
  then consider "q = p" | r where "r \<in> set (matches a p)" "length (ps_rest r) < length (ps_rest p)" "q \<in> set (matches (PStar a) r)"
    using matches_star [of q a p] by blast
  then show ?case using 7(1,2) by cases (blast intro: consumes.stop consumes.more)+
qed (auto split: if_splits list.splits intro: consumes.intros)

lemma consumes_shrinks: "consumes a p q \<Longrightarrow> \<exists>used. ps_rest p = used @ ps_rest q"
  by (induction rule: consumes.induct) auto

lemma consumes_matches: "consumes a p q \<Longrightarrow> q \<in> set (matches a p)"
proof (induction rule: consumes.induct)
  case (seq a p q b r)
  moreover have "length (ps_rest q) \<le> length (ps_rest p)" using consumes_shrinks [OF seq.hyps(1)] by auto
  ultimately show ?case by (auto simp: matches_seq)
next
  case (stop a p)
  show ?case using matches_star [of p a p] by blast
next
  case (more a p q r)
  then show ?case using matches_star [of r a p] by blast
qed auto

lemma matches_iff: "q \<in> set (matches a p) \<longleftrightarrow> consumes a p q"
  using matches_consumes consumes_matches by blast

lemma consumed_append: "consumes a p q \<Longrightarrow> consumed p q @ ps_rest q = ps_rest p"
  using consumes_shrinks by (fastforce simp: consumed_def)

end
