(* ===== verification/Netops_Ip6.thy ===== *)
theory Netops_Ip6
  imports Netops_Net
begin

text \<open>
  The IPv6 part of Python's \<open>ipaddress\<close> (\<open>_ip_int_from_string\<close>, \<open>_compress_hextets\<close> and \<open>__str__\<close>, as of
  Python 3.13, where an IPv4-mapped address is shown with a dotted quad). Scoped addresses are not
  used. The module refuses texts of more than 45 characters; none of those is the text of an address,
  so a reader that compares with the text of the address sees no difference.
\<close>

section \<open>Hexadecimal numerals\<close>

definition hex_char :: "char \<Rightarrow> bool" where
  "hex_char c \<longleftrightarrow> is_lower_hex (fold_char c)"

definition hex_value :: "char \<Rightarrow> nat" where
  "hex_value c = (let n = code (fold_char c) in if n \<le> 57 then n - 48 else n - 87)"

fun show_hex :: "nat \<Rightarrow> string" where
  "show_hex n = (if n < 16 then [hex_digit n] else show_hex (n div 16) @ [hex_digit (n mod 16)])"

declare show_hex.simps [simp del]

text \<open>\<open>_parse_hextet\<close>\<close>

definition parse_hextet :: "string \<Rightarrow> nat option" where
  "parse_hextet s = (if s \<noteq> [] \<and> list_all hex_char s \<and> length s \<le> 4 then Some (foldl (\<lambda>n c. 16 * n + hex_value c) 0 s) else None)"

section \<open>Addresses\<close>

type_synonym ip6 = "128 word"

fun all_some :: "'a option list \<Rightarrow> 'a list option" where
  "all_some [] = Some []"
| "all_some (x # xs) = (case (x, all_some xs) of (Some y, Some ys) \<Rightarrow> Some (y # ys) | _ \<Rightarrow> None)"

definition hextets_value :: "nat list \<Rightarrow> nat" where
  "hextets_value hs = foldl (\<lambda>n h. 65536 * n + h) 0 hs"

text \<open>An IPv4 suffix becomes two hextets.\<close>

definition ip4_suffix :: "string list \<Rightarrow> string list option" where
  "ip4_suffix parts =
     (if CHR ''.'' \<in> set (last parts)
      then map_option (\<lambda>ip. butlast parts @ [show_hex (unat ip div 65536), show_hex (unat ip mod 65536)]) (parse_ip (last parts))
      else Some parts)"

text \<open>The positions of empty parts other than the first and the last: the \<open>::\<close> of the address\<close>

definition skips :: "string list \<Rightarrow> nat list" where
  "skips parts = filter (\<lambda>i. parts ! i = []) [1..<length parts - 1]"

definition hextets_of :: "string list \<Rightarrow> nat list option" where
  "hextets_of parts = (case skips parts of
     [] \<Rightarrow> if length parts \<noteq> 8 then None else all_some (map parse_hextet parts)
   | [i] \<Rightarrow>
       let front = take i parts; back = drop (Suc i) parts;
           high = (if hd parts = [] then tl front else front);
           low = (if last parts = [] then butlast back else back) in
       if hd parts = [] \<and> high \<noteq> [] \<or> last parts = [] \<and> low \<noteq> [] \<or> length high + length low > 7 then None
       else (case (all_some (map parse_hextet high), all_some (map parse_hextet low)) of
          (Some h, Some l) \<Rightarrow> Some (h @ replicate (8 - (length h + length l)) 0 @ l)
        | _ \<Rightarrow> None)
   | _ \<Rightarrow> None)"

definition parse_ip6 :: "string \<Rightarrow> ip6 option" where
  "parse_ip6 s =
     (let parts = split_on CHR '':'' s in
      if length parts < 3 then None
      else case ip4_suffix parts of
        None \<Rightarrow> None
      | Some ps \<Rightarrow> if length ps > 9 then None else map_option (\<lambda>hs. of_nat (hextets_value hs)) (hextets_of ps))"

section \<open>Texts of addresses\<close>

text \<open>The first longest run of zero hextets: best start and length, current start and length\<close>

fun zero_run :: "nat list \<Rightarrow> nat \<Rightarrow> nat \<times> nat \<Rightarrow> nat \<times> nat \<Rightarrow> nat \<times> nat" where
  "zero_run [] i best cur = best"
| "zero_run (h # hs) i best (start, len) =
     (if h = 0
      then (let s = (if len = 0 then i else start); cur = (s, Suc len)
            in zero_run hs (Suc i) (if Suc len > snd best then cur else best) cur)
      else zero_run hs (Suc i) best (0, 0))"

definition compress_hextets :: "nat list \<Rightarrow> string list" where
  "compress_hextets hs =
     (let (start, len) = zero_run hs 0 (0, 0) (0, 0) in
      if len > 1
      then (if start = 0 then [''''] else []) @ map show_hex (take start hs) @ ['''']
        @ map show_hex (drop (start + len) hs) @ (if start + len = length hs then [''''] else [])
      else map show_hex hs)"

definition hextets_of_nat :: "nat \<Rightarrow> nat list" where
  "hextets_of_nat n = map (\<lambda>k. n div 65536 ^ k mod 65536) (rev [0..<8])"

definition show_ip6 :: "ip6 \<Rightarrow> string" where
  "show_ip6 w =
     (let n = unat w in
      if n div 4294967296 = 65535
      then join '':'' (compress_hextets (hextets_of_nat (n div 4294967296))) @ '':'' @ show_ip (of_nat (n mod 4294967296))
      else join '':'' (compress_hextets (hextets_of_nat n)))"

text \<open>\<open>ipaddress.ip_address\<close>\<close>

datatype address = Ip4 ip | Ip6 ip6

definition ip_address :: "string \<Rightarrow> address option" where
  "ip_address s = (case parse_ip s of Some a \<Rightarrow> Some (Ip4 a) | None \<Rightarrow> map_option Ip6 (parse_ip6 s))"

fun show_address :: "address \<Rightarrow> string" where
  "show_address (Ip4 a) = show_ip a"
| "show_address (Ip6 a) = show_ip6 a"

section \<open>Characters of address texts\<close>

definition address_char :: "char \<Rightarrow> bool" where
  "address_char c \<longleftrightarrow> is_lower_hex c \<or> c = CHR '':'' \<or> c = CHR ''.''"

lemma hex_digit_char: "d < 16 \<Longrightarrow> is_lower_hex (hex_digit d)"
  by (auto simp: hex_digit_def is_lower_hex_def is_digit_def code_def)

lemma show_hex_chars: "list_all is_lower_hex (show_hex n)"
proof (induction n rule: show_hex.induct)
  case (1 n)
  then show ?case by (subst show_hex.simps) (simp add: hex_digit_char)
qed

lemma join_chars: "list_all P sep \<Longrightarrow> \<forall>x \<in> set xs. list_all P x \<Longrightarrow> list_all P (join sep xs)"
  by (induction xs) (auto simp: join_Cons)

lemma compress_chars: "\<forall>x \<in> set (compress_hextets hs). list_all address_char x"
proof -
  have "list_all address_char (show_hex n)" for n
    using show_hex_chars [of n] by (auto simp: list_all_iff address_char_def)
  then show ?thesis by (auto simp: compress_hextets_def Let_def split: prod.splits if_splits)
qed

lemma show_ip_address_char: "list_all address_char (show_ip w)"
  using show_ip_chars [of w] by (auto simp: list_all_iff address_char_def is_lower_hex_def)

lemma show_address_chars: "list_all address_char (show_address a)"
proof -
  have "list_all address_char '':''" by (simp add: address_char_def)
  then have "list_all address_char (join '':'' (compress_hextets hs))" for hs
    using join_chars compress_chars by blast
  then show ?thesis
    by (cases a) (auto simp: show_ip6_def Let_def show_ip_address_char address_char_def)
qed

end
