(* ===== verification/Helper_Policy.thy ===== *)
theory Helper_Policy
  imports Netops_Regex Netops_Ip6 Admin_Request
begin

text \<open>
  The read policy of the Helper (\<open>netops_helper/read_policy.py\<close> and \<open>query_catalog/model.py\<close>): typed slots,
  canonical values per kind of slot, the check of a query catalogue and the rendering of one read query.
  A value that may have any type is a JSON value. Texts are ASCII, so \<open>isdecimal\<close> is the test for
  digits. \<open>ValueError\<close> and \<open>RuntimeError\<close> carry their message.
\<close>

section \<open>Data\<close>

record slot =
  sl_inventory :: string
  sl_kind :: string

record query =
  qu_command :: string
  qu_slots :: "(string, slot) dict"
  qu_description :: string
  qu_high_volume :: bool
  qu_pty :: bool
  qu_empty_allowed :: bool

type_synonym catalog = "(string, query) dict"
type_synonym catalogs = "(string, catalog) dict"

definition value_error :: "string \<Rightarrow> exn + 'a" where "value_error m = Inl (OtherError ''ValueError'' m)"
definition runtime_error :: "string \<Rightarrow> exn + 'a" where "runtime_error m = Inl (OtherError ''RuntimeError'' m)"

definition PLATFORM_MAP :: "(string, string) dict" where
  "PLATFORM_MAP = [
     (''linux'', ''linux''), (''fortinet'', ''fortinet''), (''fortios'', ''fortinet''),
     (''extreme_exos'', ''extreme_exos''), (''extreme_switch_engine'', ''extreme_exos''),
     (''cisco_ios'', ''cisco_ios''), (''cisco_xe'', ''cisco_xe''), (''cisco_nxos'', ''cisco_nxos''),
     (''arista_eos'', ''arista_eos''), (''juniper_junos'', ''juniper_junos''),
     (''juniper_junos_els'', ''juniper_junos_els''), (''ruckus_unleashed'', ''ruckus_unleashed''), (''fortiadc'', ''fortiadc'')]"

section \<open>Patterns\<close>

text \<open>\<open>[A-Za-z0-9\<dots>]\<close>, \<open>[A-Z0-9]\<close>, \<open>[a-z0-9\<dots>]\<close> and repetitions with bounds\<close>

definition an_char :: "string \<Rightarrow> char \<Rightarrow> bool" where
  "an_char extra c \<longleftrightarrow> is_alpha c \<or> is_digit c \<or> c \<in> set extra"

definition upper_char :: "char \<Rightarrow> bool" where "upper_char c \<longleftrightarrow> is_alpha c \<and> \<not> is_lower c"

abbreviation p_an :: "string \<Rightarrow> pat" where "p_an extra \<equiv> PCls (an_char extra)"
abbreviation p_lower :: "string \<Rightarrow> pat" where "p_lower extra \<equiv> PCls (\<lambda>c. is_lower c \<or> is_digit c \<or> c \<in> set extra)"
abbreviation p_one_nine :: pat where "p_one_nine \<equiv> PCls (\<lambda>c. is_digit c \<and> c \<noteq> CHR ''0'')"

definition pbetween :: "nat \<Rightarrow> nat \<Rightarrow> pat \<Rightarrow> pat" where
  "pbetween m n a = PSeq (ptimes m a) (pupto (n - m) a)"

fun palts :: "pat list \<Rightarrow> pat" where
  "palts [] = PCls (\<lambda>_. False)"
| "palts [a] = a"
| "palts (a # b # as) = PAlt a (palts (b # as))"

text \<open>A name: one character of the first class, then at most \<open>n\<close> of the second\<close>

definition p_name :: "pat \<Rightarrow> nat \<Rightarrow> pat \<Rightarrow> pat" where
  "p_name first n rest = PSeq first (pupto n rest)"

definition digits_upto :: "nat \<Rightarrow> pat" where "digits_upto n = pbetween 1 n p_digit"

definition SAFE_INTERFACE :: pat where "SAFE_INTERFACE = p_name (p_an ''_'') 63 (p_an ''_.:/-'')"
definition SAFE_SERVICE :: pat where "SAFE_SERVICE = p_name (p_an []) 127 (p_an ''_.@-'')"
definition SAFE_SWITCH :: pat where "SAFE_SWITCH = p_name (p_an []) 63 (p_an ''_.:-'')"

definition EOS_ETHERNET :: pat where
  "EOS_ETHERNET = pseq [plit ''Ethernet'', digits_upto 5, pupto 2 (PSeq (plit ''/'') (digits_upto 5))]"
definition EOS_PHYSICAL :: pat where
  "EOS_PHYSICAL = PAlt EOS_ETHERNET (pseq [plit ''Management'', digits_upto 5, popt (PSeq (plit ''/'') (digits_upto 5))])"
definition EOS_PC :: pat where "EOS_PC = PSeq (plit ''Port-Channel'') (digits_upto 5)"
definition EOS_LOOP :: pat where "EOS_LOOP = PSeq (plit ''Loopback'') (digits_upto 5)"
definition EOS_VLAN :: pat where "EOS_VLAN = PSeq (plit ''Vlan'') (digits_upto 5)"
definition EOS_INTERFACE :: pat where "EOS_INTERFACE = palts [EOS_PHYSICAL, EOS_PC, EOS_LOOP, EOS_VLAN]"
definition EOS_PHYSICAL_OR_PC :: pat where "EOS_PHYSICAL_OR_PC = PAlt EOS_PHYSICAL EOS_PC"

definition JUNOS_LINE :: pat where
  "JUNOS_LINE = pseq [palts [plit ''et'', plit ''fe'', plit ''ge'', plit ''xe''], plit ''-'', digits_upto 2, plit ''/'',
     digits_upto 2, plit ''/'', digits_upto 2]"
definition JUNOS_BASE :: pat where
  "JUNOS_BASE = palts [JUNOS_LINE, PSeq (plit ''ae'') (digits_upto 4), PSeq (plit ''reth'') (digits_upto 4), plit ''lo0'', plit ''irb'',
     PSeq (plit ''em'') (digits_upto 2), PSeq (plit ''fxp'') (digits_upto 2), PSeq (plit ''me'') (digits_upto 2), plit ''vme'']"
definition JUNOS_INTERFACE :: pat where
  "JUNOS_INTERFACE = PSeq JUNOS_BASE (popt (PSeq (plit ''.'') (digits_upto 5)))"
definition JUNOS_LOGICAL :: pat where
  "JUNOS_LOGICAL = pseq [JUNOS_BASE, plit ''.'', digits_upto 5]"
definition JUNOS_LACP :: pat where
  "JUNOS_LACP = PAlt (PSeq (plit ''ae'') (digits_upto 4)) JUNOS_LINE"

definition FORTIOS_INTERFACE_PATTERN :: pat where
  "FORTIOS_INTERFACE_PATTERN = p_name (p_an ''_'') 14 (p_an ''_.-'')"

definition FORTIOS_INTERFACE_RESERVED :: "string list" where
  "FORTIOS_INTERFACE_RESERVED = [''all'', ''any'', ''none'', ''clear'', ''list'', ''packet-rate'', ''speed-test'',
     ''speed-test-result'', ''speed-test-result-clear'', ''speed-test-shaping-reset'', ''speed-test-tunnel'']"

definition CISCO_IOS_RESERVED :: "string list" where
  "CISCO_IOS_RESERVED = [''all'', ''brief'', ''module'', ''vlan'', ''accounting'', ''capabilities'', ''counters'', ''debounce'',
     ''description'', ''etherchannel'', ''flowcontrol'', ''link'', ''private-vlan'', ''pruning'', ''stats'', ''status'', ''switchport'',
     ''transceiver'', ''trunk'']"

definition CISCO_NXOS_RESERVED :: "string list" where
  "CISCO_NXOS_RESERVED = [''all'', ''module'', ''non-zero'', ''aggregate-counters'', ''bbcredit'', ''brief'',
     ''cable-diagnostics-tdr'', ''capabilities'', ''chassis-info'', ''controller'', ''counters'', ''dampening'', ''debounce'',
     ''description'', ''detail-counters'', ''fcoe'', ''fec'', ''flowcontrol'', ''hardware-mappings'', ''mac-address'',
     ''priority-flow-control'', ''private-vlan'', ''pruning'', ''queuing-drop'', ''quick'', ''snmp-ifindex'', ''status'',
     ''storm-control'', ''switchport'', ''transceiver'', ''trunk'', ''untagged-cos'', ''vlan'']"

section \<open>Canonical values\<close>

definition full :: "pat \<Rightarrow> string \<Rightarrow> bool" where
  "full a s \<longleftrightarrow> re_fullmatch_pat a s \<noteq> None"

text \<open>The text of a group that takes part in every match\<close>

definition group_text :: "match \<Rightarrow> nat \<Rightarrow> string" where
  "group_text m n = (case group m n of None \<Rightarrow> [] | Some t \<Rightarrow> t)"

definition canonical_decimal :: "string \<Rightarrow> nat \<Rightarrow> nat \<Rightarrow> nat option" where
  "canonical_decimal v minimum maximum =
     (if \<not> all_digits v then None
      else let n = int_of v in
        if \<not> (minimum \<le> n \<and> n \<le> maximum) \<or> show_nat n \<noteq> v then None else Some n)"

definition canonical_fortios_interface :: "string \<Rightarrow> string option" where
  "canonical_fortios_interface v =
     (if full FORTIOS_INTERFACE_PATTERN v \<and> casefold v \<notin> set FORTIOS_INTERFACE_RESERVED then Some v else None)"

text \<open>A keyword in one of its spellings, then numbers between slashes: the patterns of the Cisco names\<close>

abbreviation p_num :: "nat \<Rightarrow> pat" where "p_num n \<equiv> PGrp n (pplus p_digit)"

definition number_text :: "string \<Rightarrow> nat option \<Rightarrow> string option" where
  "number_text prefix n = map_option (\<lambda>k. prefix @ show_nat k) n"

definition canonical_cisco_ethernet :: "string \<Rightarrow> string option" where
  "canonical_cisco_ethernet v =
     (case re_fullmatch_pat (pseq [PGrp 1 (PAlt (plit ''Ethernet'') (plit ''Et'')), p_num 2, plit ''/'', p_num 3]) v of
        None \<Rightarrow> None
      | Some m \<Rightarrow> (case (canonical_decimal (group_text m 2) 0 15, canonical_decimal (group_text m 3) 0 15) of
          (Some sl, Some port) \<Rightarrow> Some (''Ethernet'' @ show_nat sl @ ''/'' @ show_nat port)
        | _ \<Rightarrow> None))"

definition ios_gigabit :: "match \<Rightarrow> string option" where
  "ios_gigabit m =
     (let first = canonical_decimal (group_text m 2) 0 8; second = canonical_decimal (group_text m 3) 0 99 in
      case group m 4 of
        None \<Rightarrow> (case (first, second) of
            (Some f, Some s) \<Rightarrow> if f = 0 \<and> s \<ge> 1 then Some (''GigabitEthernet0/'' @ show_nat s) else None
          | _ \<Rightarrow> None)
      | Some t \<Rightarrow> (case (first, second, canonical_decimal t 1 99) of
            (Some f, Some s, Some third) \<Rightarrow>
              if 1 \<le> f \<and> f \<le> 8 \<and> s = 0 then Some (''GigabitEthernet'' @ show_nat f @ ''/0/'' @ show_nat third) else None
          | _ \<Rightarrow> None))"

text \<open>One keyword and one number: \<open>(Port-channel|Po)([0-9]+)\<close> and the like\<close>

definition numbered_name :: "string list \<Rightarrow> string \<Rightarrow> match option" where
  "numbered_name names v = re_fullmatch_pat (PSeq (PGrp 1 (palts (map plit names))) (p_num 2)) v"

definition canonical_cisco_ios_interface :: "string \<Rightarrow> bool \<Rightarrow> string option" where
  "canonical_cisco_ios_interface v physical_only =
     (if casefold v \<in> set CISCO_IOS_RESERVED then None
      else case canonical_cisco_ethernet v of
        Some e \<Rightarrow> Some e
      | None \<Rightarrow>
        (case re_fullmatch_pat (pseq [PGrp 1 (PAlt (plit ''GigabitEthernet'') (plit ''Gi'')), p_num 2, plit ''/'', p_num 3,
              popt (PSeq (plit ''/'') (p_num 4))]) v of
           Some m \<Rightarrow> ios_gigabit m
         | None \<Rightarrow>
             if physical_only then None
             else case numbered_name [''Port-channel'', ''Po''] v of
               Some m \<Rightarrow> number_text ''Port-channel'' (canonical_decimal (group_text m 2) 1 48)
             | None \<Rightarrow>
               (case numbered_name [''Vlan'', ''Vl''] v of
                  Some m \<Rightarrow> number_text ''vlan '' (canonical_decimal (group_text m 2) 1 4094)
                | None \<Rightarrow> None)))"

definition XE_PREFIXES :: "string list" where
  "XE_PREFIXES = [''GigabitEthernet'', ''Gi'', ''TwoGigabitEthernet'', ''Tw'', ''FiveGigabitEthernet'', ''Fi'', ''TenGigabitEthernet'', ''Te'',
     ''TwentyFiveGigE'', ''Twe'', ''FortyGigabitEthernet'', ''Fo'', ''HundredGigE'', ''Hu'']"

definition XE_SHORT :: "(string, string) dict" where
  "XE_SHORT = [(''Gi'', ''GigabitEthernet''), (''Tw'', ''TwoGigabitEthernet''), (''Fi'', ''FiveGigabitEthernet''),
     (''Te'', ''TenGigabitEthernet''), (''Twe'', ''TwentyFiveGigE''), (''Fo'', ''FortyGigabitEthernet''), (''Hu'', ''HundredGigE'')]"

definition xe_allowed :: "string \<Rightarrow> nat \<Rightarrow> nat \<Rightarrow> bool" where
  "xe_allowed prefix sl port =
     (if prefix = ''GigabitEthernet'' then sl \<in> {0, 1}
      else if prefix = ''TwoGigabitEthernet'' then sl = 0 \<and> port \<le> 36
      else if prefix = ''FiveGigabitEthernet'' then sl = 0
      else if prefix = ''TenGigabitEthernet'' then sl \<in> {0, 1} \<and> (port \<le> 24 \<or> port \<ge> 37)
      else if prefix \<in> {''TwentyFiveGigE'', ''FortyGigabitEthernet''} then sl = 1 \<and> port \<le> 2
      else if prefix = ''HundredGigE'' then sl \<in> {0, 1}
      else False)"

definition xe_physical :: "match \<Rightarrow> string option" where
  "xe_physical m =
     (let given = group_text m 1; prefix = (case map_of XE_SHORT given of None \<Rightarrow> given | Some p \<Rightarrow> p);
          member = canonical_decimal (group_text m 2) 0 8; sl = canonical_decimal (group_text m 3) 0 1 in
      case group m 4 of
        None \<Rightarrow> if prefix = ''GigabitEthernet'' \<and> member = Some 0 \<and> sl = Some 0 then Some ''GigabitEthernet0/0'' else None
      | Some t \<Rightarrow> (case (member, sl, canonical_decimal t 1 48) of
            (Some mb, Some s, Some port) \<Rightarrow>
              if \<not> (1 \<le> mb \<and> mb \<le> 8) \<or> \<not> xe_allowed prefix s port then None
              else Some (prefix @ show_nat mb @ ''/'' @ show_nat s @ ''/'' @ show_nat port)
          | _ \<Rightarrow> None))"

definition canonical_cisco_xe_physical :: "string \<Rightarrow> string option" where
  "canonical_cisco_xe_physical v = (case canonical_cisco_ethernet v of
     Some e \<Rightarrow> Some e
   | None \<Rightarrow>
       (case re_fullmatch_pat (pseq [PGrp 1 (palts (map plit XE_PREFIXES)), p_num 2, plit ''/'', p_num 3,
             popt (PSeq (plit ''/'') (p_num 4))]) v of
          None \<Rightarrow> None
        | Some m \<Rightarrow> xe_physical m))"

definition canonical_cisco_xe_interface :: "string \<Rightarrow> bool \<Rightarrow> string option" where
  "canonical_cisco_xe_interface v physical_only =
     (if casefold v \<in> set CISCO_IOS_RESERVED then None
      else let physical = canonical_cisco_xe_physical v in
        if physical \<noteq> None \<or> physical_only then physical
        else case numbered_name [''Port-channel'', ''Po''] v of
          Some m \<Rightarrow> number_text ''Port-channel'' (canonical_decimal (group_text m 2) 1 128)
        | None \<Rightarrow>
          (case numbered_name [''Vlan'', ''Vl''] v of
             Some m \<Rightarrow> number_text ''vlan '' (canonical_decimal (group_text m 2) 1 4094)
           | None \<Rightarrow>
             (case numbered_name [''Loopback'', ''Tunnel''] v of
                Some m \<Rightarrow> number_text (group_text m 1) (canonical_decimal (group_text m 2) 0 2147483647)
              | None \<Rightarrow> None)))"

definition nxos_ethernet :: "match \<Rightarrow> bool \<Rightarrow> string option" where
  "nxos_ethernet m errors_only =
     (let components = [canonical_decimal (group_text m 1) 1 999, canonical_decimal (group_text m 2) 1 999]
            @ (case group m 3 of None \<Rightarrow> [] | Some t \<Rightarrow> [canonical_decimal t 1 999]);
          subinterface = Option.bind (group m 4) (\<lambda>t. canonical_decimal t 1 4094) in
      if None \<in> set components then None
      else if group m 4 \<noteq> None \<and> subinterface = None then None
      else if errors_only \<and> subinterface \<noteq> None then None
      else let rendered = ''Ethernet'' @ join ''/'' (map (\<lambda>c. show_nat (the c)) components) in
        Some (case subinterface of None \<Rightarrow> rendered | Some n \<Rightarrow> rendered @ ''.'' @ show_nat n))"

definition nxos_port_channel :: "match \<Rightarrow> string option" where
  "nxos_port_channel m =
     (let subinterface = Option.bind (group m 2) (\<lambda>t. canonical_decimal t 1 4094) in
      case canonical_decimal (group_text m 1) 1 4096 of
        None \<Rightarrow> None
      | Some n \<Rightarrow> if group m 2 \<noteq> None \<and> subinterface = None then None
          else Some (''Port-channel'' @ show_nat n @ (case subinterface of None \<Rightarrow> [] | Some k \<Rightarrow> ''.'' @ show_nat k)))"

definition canonical_cisco_nxos_interface :: "string \<Rightarrow> bool \<Rightarrow> string option" where
  "canonical_cisco_nxos_interface v errors_only =
     (if casefold v \<in> set CISCO_NXOS_RESERVED then None
      else case re_fullmatch_pat (pseq [plit ''Ethernet'', PGrp 1 (digits_upto 3), plit ''/'', PGrp 2 (digits_upto 3),
            popt (PSeq (plit ''/'') (PGrp 3 (digits_upto 3))), popt (PSeq (plit ''.'') (PGrp 4 (digits_upto 4)))]) v of
        Some m \<Rightarrow> nxos_ethernet m errors_only
      | None \<Rightarrow>
        (case re_fullmatch_pat (PSeq (plit ''Loopback'') (p_num 1)) v of
           Some m \<Rightarrow> number_text ''Loopback'' (canonical_decimal (group_text m 1) 0 1023)
         | None \<Rightarrow>
             if errors_only then None
             else if v = ''mgmt0'' then Some v
             else case re_fullmatch_pat (pseq [plit ''Port-channel'', p_num 1, popt (PSeq (plit ''.'') (p_num 2))]) v of
               Some m \<Rightarrow> nxos_port_channel m
             | None \<Rightarrow>
               (case re_fullmatch_pat (PSeq (plit ''Vlan'') (p_num 1)) v of
                  Some m \<Rightarrow> number_text ''Vlan'' (canonical_decimal (group_text m 1) 1 4094)
                | None \<Rightarrow>
                  (case re_fullmatch_pat (PSeq (plit ''Tunnel'') (p_num 1)) v of
                     Some m \<Rightarrow> number_text ''Tunnel'' (canonical_decimal (group_text m 1) 0 9999)
                   | None \<Rightarrow> None))))"

definition canonical_fortiadc_interface :: "string \<Rightarrow> string option" where
  "canonical_fortiadc_interface v =
     (if v \<noteq> [] \<and> (is_alpha (hd v) \<or> is_digit (hd v)) then canonical_fortios_interface v else None)"

definition VENDOR_INTERFACE_CANONICALIZERS :: "(string, string \<Rightarrow> string option) dict" where
  "VENDOR_INTERFACE_CANONICALIZERS = [
     (''fortios_interface'', canonical_fortios_interface),
     (''fortios_physical_interface'', canonical_fortios_interface),
     (''fortiadc_interface'', canonical_fortiadc_interface),
     (''cisco_ios_interface'', \<lambda>v. canonical_cisco_ios_interface v False),
     (''cisco_ios_physical_interface'', \<lambda>v. canonical_cisco_ios_interface v True),
     (''cisco_xe_interface'', \<lambda>v. canonical_cisco_xe_interface v False),
     (''cisco_xe_physical_interface'', \<lambda>v. canonical_cisco_xe_interface v True),
     (''cisco_nxos_interface'', \<lambda>v. canonical_cisco_nxos_interface v False),
     (''cisco_nxos_errors_interface'', \<lambda>v. canonical_cisco_nxos_interface v True)]"

section \<open>Kinds of slots\<close>

definition SAFE_FORTIADC_OBJECT :: pat where "SAFE_FORTIADC_OBJECT = p_name (p_an []) 34 (p_an ''_.-'')"

abbreviation p_hex :: pat where "p_hex \<equiv> PCls is_hex"

definition p_one_to :: "nat \<Rightarrow> pat" where "p_one_to n = PSeq p_one_nine (pupto n p_digit)"

definition TOKEN_PATTERNS :: "(string, pat) dict" where
  "TOKEN_PATTERNS = [
     (''interface'', SAFE_INTERFACE),
     (''service'', SAFE_SERVICE),
     (''switch'', SAFE_SWITCH),
     (''vlan_name'', p_name (PCls is_alpha) 31 (p_an ''_-'')),
     (''certificate_name'', p_name (PCls is_alpha) 78 (p_an ''_.-'')),
     (''fortios_address_object'', p_name (p_an []) 78 (p_an ''_.-'')),
     (''fortios_station_mac'', pseq [ptimes 2 p_hex, ptimes 5 (PSeq (plit '':'') (ptimes 2 p_hex))]),
     (''flow_port'', PAlt (plit ''0'') (p_one_to 4)),
     (''ip_protocol'', PAlt (plit ''0'') (p_one_to 2)),
     (''fortios_policy_type'', PAlt (plit ''policy'') (plit ''proxy'')),
     (''fortios_nat_pool'', p_name (p_an []) 78 (p_an ''_.-'')),
     (''managed_switch_serial'', PSeq (plit ''S'') (pbetween 11 15 (PCls (\<lambda>c. upper_char c \<or> is_digit c)))),
     (''managed_switch_port'', PSeq (plit ''port'') (p_one_to 2)),
     (''fortiadc_vdom'', SAFE_FORTIADC_OBJECT),
     (''fortiadc_virtual_server'', SAFE_FORTIADC_OBJECT),
     (''managed_switch_trunk'', p_name (p_an ''_'') 34 (p_an ''_-'')),
     (''extreme_physical_port'', PSeq (p_one_to 2)
        (popt (PAlt (pbetween 1 2 (PSeq (plit '':'') (p_one_to 2))) (PSeq (plit ''/'') (p_one_to 2))))),
     (''eos_interface'', EOS_INTERFACE),
     (''eos_physical_interface'', EOS_PHYSICAL),
     (''eos_lldp_interface'', EOS_PHYSICAL),
     (''eos_lacp_interface'', EOS_ETHERNET),
     (''eos_stp_interface'', EOS_PHYSICAL_OR_PC),
     (''eos_ospf_interface'', EOS_INTERFACE),
     (''junos_interface'', JUNOS_INTERFACE),
     (''junos_physical_interface'', JUNOS_LINE),
     (''junos_logical_interface'', JUNOS_LOGICAL),
     (''junos_lacp_interface'', JUNOS_LACP)]"

definition KIND_INVENTORY :: "(string, string) dict" where
  "KIND_INVENTORY = [
     (''interface'', ''interfaces''), (''service'', ''services''), (''switch'', ''switches''), (''vlan_name'', ''vlans''),
     (''managed_switch_serial'', ''managed_switches''), (''managed_switch_port'', ''managed_switch_ports''),
     (''managed_switch_trunk'', ''managed_switch_trunks''), (''certificate_name'', ''certificates''),
     (''fortios_address_object'', ''firewall_addresses''), (''fortios_station_mac'', ''wireless_clients''),
     (''flow_port'', ''flow_ports''), (''ip_protocol'', ''ip_protocols''), (''fortios_policy_type'', ''policy_types''),
     (''fortios_nat_pool'', ''nat_pools''), (''fortios_sdwan_health_check'', ''sdwan_health_checks''),
     (''fortios_link_monitor'', ''link_monitors''), (''fortios_sdwan_member'', ''sdwan_members''),
     (''fortios_sdwan_rule'', ''sdwan_rules''), (''fortiadc_vdom'', ''adc_vdoms''),
     (''fortiadc_virtual_server'', ''adc_virtual_servers''), (''address'', ''addresses''),
     (''ipv4_address'', ''addresses''), (''ipv6_address'', ''addresses'')]
     @ map (\<lambda>kind. (kind, ''interfaces'')) (filter (\<lambda>kind. starts_with ''extreme_'' kind \<or> starts_with ''eos_'' kind \<or> starts_with ''junos_'' kind)
         (keys TOKEN_PATTERNS))
     @ map (\<lambda>kind. (kind, ''interfaces'')) (keys VENDOR_INTERFACE_CANONICALIZERS)"

definition INVENTORY_KINDS :: "(string, string) dict" where
  "INVENTORY_KINDS = [
     (''interfaces'', ''interface''), (''services'', ''service''), (''addresses'', ''address''), (''switches'', ''switch''),
     (''vlans'', ''vlan_name''), (''managed_switches'', ''managed_switch_serial''), (''managed_switch_ports'', ''managed_switch_port''),
     (''managed_switch_trunks'', ''managed_switch_trunk''), (''certificates'', ''certificate_name''),
     (''firewall_addresses'', ''fortios_address_object''), (''wireless_clients'', ''fortios_station_mac''),
     (''flow_ports'', ''flow_port''), (''ip_protocols'', ''ip_protocol''), (''policy_types'', ''fortios_policy_type''),
     (''nat_pools'', ''fortios_nat_pool''), (''sdwan_health_checks'', ''fortios_sdwan_health_check''),
     (''link_monitors'', ''fortios_link_monitor''), (''sdwan_members'', ''fortios_sdwan_member''), (''sdwan_rules'', ''fortios_sdwan_rule''),
     (''schema_paths'', ''fortios_config_path''), (''diagnostic_recipes'', ''fortios_diagnostic_recipe''),
     (''diagnostic_vdoms'', ''fortios_diagnostic_vdom''), (''diagnostic_names'', ''diagnostic_dns_name''),
     (''diagnostic_http_endpoints'', ''diagnostic_http_url''), (''adc_health_checks'', ''fortiadc_health_check''),
     (''diagnostic_virtual_servers'', ''fortiadc_virtual_server''), (''config_access'', ''config_permission''),
     (''adc_vdoms'', ''fortiadc_vdom''), (''adc_virtual_servers'', ''fortiadc_virtual_server'')]"

section \<open>Reviewed commands\<close>

definition EXPECTED_PLATFORMS :: "string list" where
  "EXPECTED_PLATFORMS = [
     ''linux'',
     ''fortinet'',
     ''extreme_exos'',
     ''cisco_ios'',
     ''cisco_xe'',
     ''cisco_nxos'',
     ''arista_eos'',
     ''juniper_junos'',
     ''juniper_junos_els'',
     ''ruckus_unleashed'',
     ''fortiadc'']"

definition LINUX_COMMANDS :: "string list" where
  "LINUX_COMMANDS = [
     ''hostname'',
     ''uname -a'',
     ''uptime'',
     ''df -h'',
     ''free -m'',
     ''ip -brief link'',
     ''ip -brief address'',
     ''ip route show'',
     ''ss -lntup'',
     ''systemctl --no-pager --state=running --type=service'',
     ''ip -brief address show dev {interface}'',
     ''ip -details link show dev {interface}'',
     ''systemctl --no-pager --full status {service}'',
     ''journalctl --no-pager -u {service} --since -1h'',
     ''ip neigh show'',
     ''bridge fdb show'']"

definition FORTINET_COMMANDS :: "string list" where
  "FORTINET_COMMANDS = [
     ''execute ping-options view-settings'',
     ''execute traceroute-options view-settings'',
     ''diagnose debug info'',
     ''diagnose sys session filter'',
     ''get vpn certificate local details {certificate}'',
     ''diagnose firewall fqdn get-ip {name}'',
     ''diagnose firewall iprope lookup {src_ip} {src_port} {dst_ip} {dst_port} {protocol} {device} {pol_type}'',
     ''diagnose firewall iprope6 lookup {src_ip} {src_port} {dst_ip} {dst_port} {protocol} {device} {pol_type}'',
     ''diagnose switch-controller switch-info status {managed_switch}'',
     ''diagnose switch-controller switch-info poe summary {managed_switch}'',
     ''diagnose switch-controller switch-info mac-table {managed_switch}'',
     ''diagnose switch-controller switch-info stacking status {managed_switch}'',
     ''diagnose switch-controller switch-info lldp neighbors-summary {managed_switch}'',
     ''diagnose switch-controller switch-info loop-guard {managed_switch}'',
     ''diagnose switch-controller switch-info bpdu-guard-status {managed_switch}'',
     ''diagnose switch-controller switch-info flapguard status {managed_switch}'',
     ''diagnose switch-controller switch-info dhcp-snooping status {managed_switch}'',
     ''diagnose switch-controller switch-info dhcp-snooping database {managed_switch}'',
     ''diagnose switch-controller switch-info fan {managed_switch}'',
     ''diagnose switch-controller switch-info ip-source-guard violations {managed_switch}'',
     ''diagnose switch-controller switch-info lldp neighbors-detail {managed_switch} {port}'',
     ''diagnose switch-controller switch-info mac-limit-violations interface {managed_switch} {port}'',
     ''diagnose switch-controller switch-info mclag icl {managed_switch}'',
     ''diagnose switch-controller switch-info trunk status {managed_switch} {mclag_trunk}'',
     ''diagnose switch-controller switch-info mclag peer-consistency-check {managed_switch} {mclag_trunk}'',
     ''get system status'',
     ''get system performance status'',
     ''get system ha status'',
     ''diagnose sys session stat'',
     ''diagnose hardware sysinfo conserve'',
     ''diagnose hardware sysinfo cpu'',
     ''diagnose sys service-communication'',
     ''diagnose hardware sysinfo memory'',
     ''diagnose hardware deviceinfo disk'',
     ''get system interface physical'',
     ''diagnose netlink aggregate name {aggregate} show'',
     ''diagnose netlink interface list {interface}'',
     ''diagnose hardware deviceinfo nic {interface}'',
     ''get router info routing-table all'',
     ''get router info routing-table details {address}'',
     ''get router info protocols'',
     ''get router info6 protocols'',
     ''get system arp'',
     ''diagnose ipv6 neighbor-cache list'',
     ''diagnose lldp rx neighbor summary'',
     ''diagnose netlink brctl name host {switch}'',
     ''diagnose sys sdwan health-check'',
     ''diagnose sys sdwan intf-sla-log {interface}'',
     ''diagnose sys sdwan sla-log {health_check} {member}'',
     ''diagnose sys link-monitor status {monitor}'',
     ''diagnose sys sdwan member {member}'',
     ''diagnose sys sdwan service4 {rule}'',
     ''diagnose sys sdwan service6 {rule}'',
     ''diagnose sys sdwan route {member}'',
     ''diagnose sys sdwan route6 {member}'',
     ''diagnose sys ha checksum cluster'',
     ''diagnose sys ha history read'',
     ''get vpn ipsec tunnel summary'',
     ''diagnose vpn ipsec status'',
     ''diagnose vpn tunnel stat'',
     ''execute dhcp lease-list {interface}'',
     ''diagnose wireless-controller wlac -c sta'',
     ''diagnose wireless-controller wlac -d sta {mac}'',
     ''diagnose wireless-controller wlac -c wtp'',
     ''diagnose wireless-controller wlac -d wtp'',
     ''diagnose wireless-controller wlac -c vap'',
     ''get router info bgp neighbors {peer} advertised-routes'',
     ''get router info bgp neighbors {peer} received-routes'',
     ''get router info bgp neighbors {peer} routes'',
     ''get router info6 bgp neighbors {peer6} advertised-routes'',
     ''get router info6 bgp neighbors {peer6} received-routes'',
     ''get router info6 bgp neighbors {peer6} routes'',
     ''get router info ospf interface'',
     ''get router info6 ospf interface'',
     ''diagnose sys ha checksum show-nonsync'',
     ''diagnose sys ha sync-stats'',
     ''diagnose test application dnsproxy 7'',
     ''diagnose firewall ippool stats'',
     ''diagnose firewall ippool list nat-ip {pool}'',
     ''diagnose firewall fqdn list-ip'',
     ''diagnose test application dnsproxy 6'',
     ''diagnose sys sdwan zone'',
     ''diagnose ip rtcache list'',
     ''get router info ospf database brief'',
     ''get router info6 ospf database'',
     ''diagnose firewall proute list'',
     ''diagnose firewall proute6 list'',
     ''diagnose vpn ike counts'',
     ''diagnose vpn ike errors'',
     ''diagnose vpn ike stats'',
     ''get router info bgp summary'',
     ''get router info6 bgp summary'',
     ''get router info ospf status'',
     ''get router info6 ospf status'',
     ''get router info ospf neighbor all'',
     ''get router info6 ospf neighbor all'',
     ''get router info bfd neighbor'',
     ''get router info6 bfd neighbor'',
     ''diagnose sys ntp status'',
     ''diagnose sys top 1 5 1'',
     ''diagnose autoupdate status'',
     ''diagnose autoupdate versions'',
     ''diagnose vpn ssl list'',
     ''diagnose vpn ssl statistics'',
     ''diagnose firewall auth list'',
     ''diagnose ips filter status'',
     ''diagnose ips anomaly status'',
     ''diagnose antivirus outbreak-prevention statistics list'']"

definition FORTIADC_COMMANDS :: "string list" where
  "FORTIADC_COMMANDS = [
     ''get system status'',
     ''get system performance'',
     ''diagnose system vm'',
     ''diagnose netlink interface list {interface}'',
     ''diagnose netlink device'',
     ''get router info routing-table all'',
     ''diagnose netlink neighbor list'',
     ''get firewall global'',
     ''diagnose server-load-balance slb_load'',
     ''get security waf-signature-status'',
     ''diagnose server-load-balance vs_stat vdom {vdom} vs {virtual_server}'',
     ''diagnose hardware get sysinfo cpu'',
     ''diagnose server-load-balance session list'',
     ''diagnose server-load-balance persistence list'',
     ''diagnose hardware get deviceinfo nic-detail {interface}'',
     ''execute ssl-handshake-n-record-statistics show virtual-server {virtual_server}'',
     ''execute ssl-client-side-session-statistics show virtual-server {virtual_server}'',
     ''execute dos get dos-access-limit {virtual_server}'',
     ''execute dos get dos-conn-limit {virtual_server}'',
     ''execute dos get dos-req-limit {virtual_server}'',
     ''execute waf block-ip list'',
     ''execute log list-type tlog'',
     ''execute log list-type alog'',
     ''execute autoupdate contract'',
     ''execute date'',
     ''execute log list-type all'',
     ''diagnose lldprx neighbor summary'',
     ''get router info bgp summary'',
     ''get router info bgp neighbors'',
     ''get router info ospf neighbor'',
     ''get system ha-status'',
     ''get system traffic-group-status brief'',
     ''diagnose llb policy list'']"
definition FORTINET_TOP_PREFIX :: string where "FORTINET_TOP_PREFIX = ''diagnose sys top''"
definition FORTINET_TOP_SNAPSHOT :: string where "FORTINET_TOP_SNAPSHOT = ''diagnose sys top 1 5 1''"

text \<open>The pattern ignores case; its letters are compared with the folded word.\<close>

definition FORBIDDEN_SHOW_SECOND :: pat where
  "FORBIDDEN_SHOW_SECOND = palts [PSeq (plit ''run'') (popt (plit ''ning-config'')), PSeq (plit ''start'') (popt (plit ''up-config'')),
     plit ''full-configuration'', PSeq (plit ''conf'') (popt (PSeq (plit ''ig'') (popt (plit ''uration'')))),
     PSeq (plit ''tech'') (popt (plit ''-support'')), plit ''file'', plit ''key-chain'',
     PSeq (plit ''log'') (popt (PAlt (plit ''ging'') (plit ''s''))), PSeq (plit ''debug'') (popt (plit ''ging'')),
     plit ''support'', plit ''capture'', plit ''bash'', plit ''shell'']"

definition JUNOS_PLATFORMS :: "string list" where "JUNOS_PLATFORMS = [''juniper_junos'', ''juniper_junos_els'']"
definition JUNOS_SUFFIX :: string where "JUNOS_SUFFIX = '' | no-more''"
definition QUERY_NAME :: pat where "QUERY_NAME = p_name (PCls is_lower) 63 (p_lower ''_'')"
definition SLOT_NAME :: pat where "SLOT_NAME = p_name (PCls is_lower) 63 (p_lower ''_'')"

definition SHELL_METACHARACTERS :: string where
  "SHELL_METACHARACTERS = '';&|'' @ [CHR 96] @ ''$><'' @ [CHR 92, CHR 34, CHR 39] @ ''*?[]()!#~''"

section \<open>Platforms and slots\<close>

definition MAX_SHOWN_PLATFORM :: nat where "MAX_SHOWN_PLATFORM = 64"

definition normalize_platform :: "json \<Rightarrow> exn + string" where
  "normalize_platform platform = (case platform of
     JStr s \<Rightarrow> (case map_of PLATFORM_MAP (casefold (strip s)) of
         Some p \<Rightarrow> Inr p
       | None \<Rightarrow> value_error (''unsupported platform: ''
           @ (if length s \<le> MAX_SHOWN_PLATFORM then s else take MAX_SHOWN_PLATFORM s @ ''...'')))
   | _ \<Rightarrow> value_error ''platform must be a string'')"

definition invalid_slot :: "string \<Rightarrow> exn + 'a" where
  "invalid_slot kind = value_error (''invalid typed '' @ kind @ '' value'')"

definition canonical_address :: "string \<Rightarrow> string \<Rightarrow> exn + string" where
  "canonical_address v kind =
     (if CHR ''%'' \<in> set v then invalid_slot kind
      else case ip_address v of
        None \<Rightarrow> invalid_slot kind
      | Some address \<Rightarrow>
          if kind = ''ipv4_address'' \<and> (case address of Ip4 _ \<Rightarrow> False | Ip6 _ \<Rightarrow> True) then value_error ''invalid typed ipv4_address value''
          else if v \<noteq> show_address address then invalid_slot kind
          else if kind = ''ipv6_address'' \<and> (case address of Ip6 _ \<Rightarrow> False | Ip4 _ \<Rightarrow> True) then value_error ''invalid typed ipv6_address value''
          else Inr (show_address address))"

definition accept :: "bool \<Rightarrow> string \<Rightarrow> string \<Rightarrow> exn + string" where
  "accept ok v why = (if ok then Inr v else value_error why)"

definition DIAGNOSTIC_RECIPES :: "string list" where
  "DIAGNOSTIC_RECIPES = [''ping'', ''traceroute'', ''sniffer'', ''sessions'', ''flow'', ''nslookup'', ''http_probe'', ''health_check_verify'',
     ''logs'', ''system_event_logs'', ''waf_attack_logs'', ''session_list'', ''persistence_list'']"

definition HTTP_URL :: pat where
  "HTTP_URL = pseq [plit ''http://'', PGrp 1 (pbetween 7 15 (PCls (\<lambda>c. is_digit c \<or> c = CHR ''.''))),
     popt (PSeq (plit '':'') (PGrp 2 (p_one_to 4))),
     PGrp 3 (PAlt (pplus (pseq [plit ''/'', p_an ''_~-'', pupto 63 (p_an ''._~-'')])) (plit ''/''))]"

text \<open>\<open>is_multicast\<close>: 224.0.0.0/4\<close>

definition usable_host :: "string \<Rightarrow> bool" where
  "usable_host host = (case parse_ip host of
     None \<Rightarrow> False
   | Some ip \<Rightarrow> show_ip ip = host \<and> \<not> (unat ip div 268435456 = 14) \<and> ip \<noteq> 0 \<and> unat ip \<noteq> 4294967295)"

definition http_url :: "string \<Rightarrow> bool" where
  "http_url v = (case re_fullmatch_pat HTTP_URL v of
     None \<Rightarrow> False
   | Some m \<Rightarrow> length v \<le> 128 \<and> usable_host (group_text m 1)
       \<and> (case group m 2 of None \<Rightarrow> True | Some port \<Rightarrow> port \<noteq> ''80'' \<and> int_of port \<le> 65535))"

definition DNS_NAME :: pat where
  "DNS_NAME = pseq [pplus (pseq [p_lower [], popt (PSeq (pupto 61 (p_lower ''-'')) (p_lower [])), plit ''.'']),
     PCls is_lower, popt (PSeq (pupto 61 (p_lower ''-'')) (p_lower []))]"

definition CONFIG_PATH :: pat where
  "CONFIG_PATH = (let word = PSeq (p_an []) (PStar (p_an ''_.+-'')) in PSeq word (pupto 31 (PSeq (plit '' '') word)))"

definition RESERVED_CERTIFICATES :: "string list" where
  "RESERVED_CERTIFICATES = [''all'', ''any'', ''none'', ''detail'', ''details'']"

definition RESERVED_VLANS :: "string list" where
  "RESERVED_VLANS = [''all'', ''any'', ''none'', ''detail'', ''ipv4'', ''ipv6'', ''tag'', ''ports'', ''virtual-router'', ''statistics'']"

text \<open>The kinds with a token pattern of the table, after the reserved words\<close>

definition token_slot :: "string \<Rightarrow> string \<Rightarrow> exn + string" where
  "token_slot v kind =
     (if kind = ''certificate_name'' \<and> casefold v \<in> set RESERVED_CERTIFICATES then value_error ''reserved certificate selector''
      else if kind = ''vlan_name'' \<and> casefold v \<in> set RESERVED_VLANS then value_error ''reserved VLAN selector''
      else if kind = ''eos_lacp_interface'' \<and> full EOS_PC v
      then value_error (''lacp_peer_interface needs a member Ethernet interface; '' @ ''a Port-Channel is not a member of a port channel'')
      else case map_of TOKEN_PATTERNS kind of
        Some pat \<Rightarrow> if full pat v then Inr v else invalid_slot kind
      | None \<Rightarrow> invalid_slot kind)"

definition validate_slot :: "json \<Rightarrow> string \<Rightarrow> exn + string" where
  "validate_slot given kind = (case given of
     JStr v \<Rightarrow>
       if kind \<in> {''fortios_sdwan_health_check'', ''fortios_link_monitor''}
       then if full (p_name (p_an []) 34 (p_an ''_.-'')) v \<and> \<not> (kind = ''fortios_link_monitor'' \<and> casefold v = ''all'') then Inr v
         else invalid_slot kind
       else if kind \<in> {''fortios_sdwan_member'', ''fortios_sdwan_rule''}
       then let maximum = (if kind = ''fortios_sdwan_member'' then 512 else 4000) in
         if length v \<le> length (show_nat maximum) \<and> canonical_decimal v 1 maximum \<noteq> None then Inr v else invalid_slot kind
       else if kind \<in> {''flow_port'', ''ip_protocol''}
       then let maximum = (if kind = ''flow_port'' then 65535 else 255) in
         if canonical_decimal v 0 maximum \<noteq> None then Inr v else invalid_slot kind
       else if kind = ''config_permission'' then accept (v \<in> {''read'', ''compare''}) v ''invalid configuration permission''
       else if kind = ''fortios_diagnostic_vdom'' then accept (full (p_name (p_an []) 30 (p_an ''_.-'')) v) v ''invalid diagnostic VDOM''
       else if kind = ''fortiadc_virtual_server'' then accept (full (p_name (p_an []) 62 (p_an ''_.-'')) v) v ''invalid FortiADC virtual server name''
       else if kind = ''fortios_diagnostic_recipe'' then accept (v \<in> set DIAGNOSTIC_RECIPES) v ''invalid diagnostic recipe''
       else if kind = ''diagnostic_http_url'' then accept (http_url v) v ''invalid diagnostic HTTP endpoint''
       else if kind = ''fortiadc_health_check'' then accept (full SAFE_FORTIADC_OBJECT v) v ''invalid FortiADC health check name''
       else if kind = ''diagnostic_dns_name'' then accept (full DNS_NAME v) v ''invalid diagnostic DNS name''
       else if kind = ''fortios_config_path'' then accept (length v \<le> 128 \<and> full CONFIG_PATH v) v ''invalid measured configuration path''
       else if kind \<in> {''address'', ''ipv4_address'', ''ipv6_address''} then canonical_address v kind
       else (case map_of VENDOR_INTERFACE_CANONICALIZERS kind of
           Some canonicalizer \<Rightarrow> (case canonicalizer v of Some c \<Rightarrow> Inr c | None \<Rightarrow> invalid_slot kind)
         | None \<Rightarrow> token_slot v kind)
   | _ \<Rightarrow> invalid_slot kind)"

definition validate_inventory_item :: "json \<Rightarrow> json \<Rightarrow> exn + string" where
  "validate_inventory_item category v = (case category of
     JStr c \<Rightarrow> (case map_of INVENTORY_KINDS c of
         None \<Rightarrow> value_error ''unknown inventory category''
       | Some kind \<Rightarrow> (case v of JStr _ \<Rightarrow> validate_slot v kind | _ \<Rightarrow> value_error ''inventory value must be a string''))
   | _ \<Rightarrow> value_error ''unknown inventory category'')"

text \<open>The catalogue of a platform and a query of it; a missing key is a \<open>KeyError\<close>.\<close>

definition query_of :: "catalogs \<Rightarrow> string \<Rightarrow> string \<Rightarrow> query option" where
  "query_of catalogs platform name = Option.bind (map_of catalogs platform) (\<lambda>queries. map_of queries name)"

fun interface_kinds :: "catalogs \<Rightarrow> string \<Rightarrow> string list \<Rightarrow> exn + string list" where
  "interface_kinds catalogs platform [] = Inr []"
| "interface_kinds catalogs platform (name # names) = (case query_of catalogs platform name of
     None \<Rightarrow> Inl (OtherError ''KeyError'' name)
   | Some q \<Rightarrow> then_check (interface_kinds catalogs platform names) (\<lambda>kinds.
       Inr (map (\<lambda>(_, s). sl_kind s) (filter (\<lambda>(_, s). sl_inventory s = ''interfaces'') (qu_slots q)) @ kinds)))"

definition RECIPE_ALLOWLISTS :: "(string, string list) dict" where
  "RECIPE_ALLOWLISTS = [
     (''fortinet'', [''ping'', ''traceroute'', ''sniffer'', ''sessions'', ''flow'', ''logs'']),
     (''fortiadc'', [''ping'', ''traceroute'', ''nslookup'', ''http_probe'', ''health_check_verify'', ''system_event_logs'',
        ''waf_attack_logs'', ''session_list'', ''persistence_list''])]"

definition listed :: "(string, string list) dict \<Rightarrow> string \<Rightarrow> string list" where
  "listed d k = (case map_of d k of None \<Rightarrow> [] | Some xs \<Rightarrow> xs)"

definition validate_query_inventory ::
  "catalogs \<Rightarrow> string option \<Rightarrow> string list \<Rightarrow> (string, string list) dict \<Rightarrow> exn + unit" where
  "validate_query_inventory catalogs platform names inventory = (case platform of
     None \<Rightarrow> Inr ()
   | Some p \<Rightarrow> then_check (normalize_platform (JStr p)) (\<lambda>normalized.
       if \<not> set (listed inventory ''diagnostic_recipes'') \<subseteq> set (listed RECIPE_ALLOWLISTS normalized)
       then value_error ''enrolled diagnostic recipe does not exist on this platform''
       else if listed inventory ''diagnostic_names'' \<noteq> [] \<and> normalized \<noteq> ''fortiadc''
       then value_error ''enrolled diagnostic DNS names exist only on FortiADC''
       else if (listed inventory ''diagnostic_http_endpoints'' \<noteq> [] \<or> listed inventory ''adc_health_checks'' \<noteq> []) \<and> normalized \<noteq> ''fortiadc''
       then value_error ''enrolled diagnostic HTTP endpoints and health checks exist only on FortiADC''
       else if listed inventory ''diagnostic_virtual_servers'' \<noteq> [] \<and> normalized \<noteq> ''fortiadc''
       then value_error ''enrolled virtual servers exist only on FortiADC''
       else then_check (interface_kinds catalogs normalized names) (\<lambda>kinds.
         if kinds = [] then Inr ()
         else if list_ex (\<lambda>v. \<not> list_ex (\<lambda>kind. \<not> isl (validate_slot (JStr v) kind)) kinds) (listed inventory ''interfaces'')
         then value_error ''enrolled interface is invalid for every enabled interface query''
         else Inr ())))"

section \<open>The check of a catalogue\<close>

text \<open>\<open>s.count(p)\<close> for a text that is not empty: occurrences that do not overlap\<close>

function count_text :: "string \<Rightarrow> string \<Rightarrow> nat" where
  "count_text p s = (if p = [] \<or> s = [] then 0
     else if starts_with p s then Suc (count_text p (drop (length p) s)) else count_text p (tl s))"
  by pat_completeness auto

termination count_text
  by (relation "measure (\<lambda>(p, s). length s)") auto

declare count_text.simps [simp del]

definition remove_suffix :: "string \<Rightarrow> string \<Rightarrow> string" where
  "remove_suffix p s = (if ends_with p s then take (length s - length p) s else s)"

definition control_char :: "char \<Rightarrow> bool" where "control_char c \<longleftrightarrow> code c < 32 \<or> code c = 127"

lemma control_char_bits [code]:
  "control_char (Char b0 b1 b2 b3 b4 b5 b6 b7) \<longleftrightarrow> \<not> b7 \<and> (\<not> b6 \<and> \<not> b5 \<or> b6 \<and> b5 \<and> b4 \<and> b3 \<and> b2 \<and> b1 \<and> b0)"
  unfolding control_char_def code_def by (cases b0; cases b1; cases b2; cases b3; cases b4; cases b5; cases b6; cases b7) simp_all

text \<open>The last steps of \<open>_validate_query_command\<close>, on the command without the paging suffix\<close>

definition validate_family :: "string \<Rightarrow> string \<Rightarrow> exn + unit" where
  "validate_family platform inspected =
     (if platform = ''linux''
      then if inspected \<notin> set LINUX_COMMANDS then runtime_error ''Linux query is outside the reviewed templates'' else Inr ()
      else if platform = ''fortinet''
      then if starts_with FORTINET_TOP_PREFIX inspected \<and> inspected \<noteq> FORTINET_TOP_SNAPSHOT
        then runtime_error ''FortiOS process snapshot must be the fixed single-iteration form''
        else if inspected \<notin> set FORTINET_COMMANDS then runtime_error ''Fortinet query is outside the reviewed templates'' else Inr ()
      else if platform = ''fortiadc''
      then if inspected \<notin> set FORTIADC_COMMANDS then runtime_error ''FortiADC query is outside the reviewed templates'' else Inr ()
      else let words = split_on blank inspected in
        if length words < 2 \<or> hd words \<noteq> ''show'' then runtime_error ''network query must use the exact show prefix''
        else if full FORBIDDEN_SHOW_SECOND (casefold (words ! 1))
          \<or> length words \<ge> 3 \<and> map casefold (take 2 (tl words)) = [''key'', ''chain'']
        then runtime_error ''network query uses a forbidden show family'' else Inr ())"

definition validate_query_command :: "string \<Rightarrow> string \<Rightarrow> exn + unit" where
  "validate_query_command platform command =
     (if command = [] then runtime_error ''query command must be a non-empty string''
      else if command \<noteq> strip command \<or> contains ''  '' command then runtime_error ''query command whitespace is not canonical''
      else if list_ex control_char command then runtime_error ''query command contains a control character''
      else then_check (if platform \<in> set JUNOS_PLATFORMS
          then if count_text JUNOS_SUFFIX command \<noteq> 1 \<or> \<not> ends_with JUNOS_SUFFIX command
            then runtime_error ''Junos query must have one fixed paging suffix''
            else let inspected = remove_suffix JUNOS_SUFFIX command in
              if CHR ''|'' \<in> set inspected then runtime_error ''Junos query contains an extra pipe'' else Inr inspected
          else Inr command) (\<lambda>inspected.
        if list_ex (\<lambda>c. c \<in> set SHELL_METACHARACTERS) inspected then runtime_error ''query command contains a shell metacharacter''
        else validate_family platform inspected))"

section \<open>Format strings\<close>

text \<open>\<open>string.Formatter().parse\<close>: literal texts, each followed by a replacement field with its format
  specification and conversion, or by nothing (a doubled brace, or the end). The second result says
  whether the iterator ends with a \<open>ValueError\<close>.\<close>

record field =
  fd_name :: string
  fd_spec :: string
  fd_conversion :: "char option"

function field_name :: "string \<Rightarrow> string \<Rightarrow> (string \<times> char \<times> string) option" where
  "field_name acc [] = None"
| "field_name acc (c # cs) =
     (if c = CHR ''{'' then None
      else if c = CHR ''['' then field_name (acc @ c # takeWhile (\<lambda>d. d \<noteq> CHR '']'') cs) (dropWhile (\<lambda>d. d \<noteq> CHR '']'') cs)
      else if c \<in> set ''}:!'' then Some (acc, c, cs)
      else field_name (acc @ [c]) cs)"
  by pat_completeness auto

termination field_name
  by (relation "measure (\<lambda>(acc, s). length s)") (auto simp: le_imp_less_Suc length_dropWhile_le)

fun field_spec :: "nat \<Rightarrow> string \<Rightarrow> string \<Rightarrow> (string \<times> string) option" where
  "field_spec n acc [] = None"
| "field_spec n acc (c # cs) =
     (if c = CHR ''}'' \<and> n = 0 then Some (acc, cs)
      else field_spec (if c = CHR ''{'' then Suc n else if c = CHR ''}'' then n - 1 else n) (acc @ [c]) cs)"

text \<open>\<open>parse_field\<close> of CPython, after the opening brace\<close>

definition parse_field :: "string \<Rightarrow> (field \<times> string) option" where
  "parse_field s = (case field_name [] s of
     None \<Rightarrow> None
   | Some (name, c, rest) \<Rightarrow>
       let spec = (\<lambda>conversion r. map_option (\<lambda>(sp, t). (\<lparr>fd_name = name, fd_spec = sp, fd_conversion = conversion\<rparr>, t)) (field_spec 0 [] r)) in
       if c = CHR ''}'' then Some (\<lparr>fd_name = name, fd_spec = [], fd_conversion = None\<rparr>, rest)
       else if c = CHR '':'' then spec None rest
       else (case rest of
           [] \<Rightarrow> None
         | [_] \<Rightarrow> None
         | conv # d # later \<Rightarrow>
             if d = CHR ''}'' then Some (\<lparr>fd_name = name, fd_spec = [], fd_conversion = Some conv\<rparr>, later)
             else if d = CHR '':'' then spec (Some conv) later
             else None))"

lemma field_name_length: "field_name acc s = Some (n, c, r) \<Longrightarrow> length r < length s"
proof (induction acc s rule: field_name.induct)
  case (2 acc c cs)
  have "length (dropWhile (\<lambda>d. d \<noteq> CHR '']'') cs) \<le> length cs" by (rule length_dropWhile_le)
  with 2 show ?case by (auto split: if_splits)
qed simp

lemma field_spec_length: "field_spec n acc s = Some (sp, r) \<Longrightarrow> length r < length s"
  by (induction n acc s rule: field_spec.induct) (fastforce split: if_splits)+

lemma parse_field_length: "parse_field s = Some (f, r) \<Longrightarrow> length r < length s"
  by (auto simp: parse_field_def Let_def split: option.splits prod.splits if_splits list.splits
      dest!: field_name_length field_spec_length)

definition brace :: "char \<Rightarrow> bool" where "brace c \<longleftrightarrow> c = CHR ''{'' \<or> c = CHR ''}''"

function format_items :: "string \<Rightarrow> (string \<times> field option) list \<times> bool" where
  "format_items s =
     (let literal = takeWhile (\<lambda>c. \<not> brace c) s in
      case dropWhile (\<lambda>c. \<not> brace c) s of
        [] \<Rightarrow> (if s = [] then [] else [(literal, None)], False)
      | [c] \<Rightarrow> ([], True)
      | c # d # rest \<Rightarrow>
          if c = d then (let (items, failed) = format_items rest in ((literal @ [c], None) # items, failed))
          else if c = CHR ''}'' then ([], True)
          else (case parse_field (d # rest) of
              None \<Rightarrow> ([], True)
            | Some (f, later) \<Rightarrow> (let (items, failed) = format_items later in ((literal, Some f) # items, failed))))"
  by pat_completeness auto

lemma dropWhile_Cons_length: "dropWhile P s = x # xs \<Longrightarrow> length xs < length s"
  using length_dropWhile_le [of P s] by simp

termination format_items
proof (relation "measure length")
  fix s :: string and c cs d ds f fm later
  assume a: "dropWhile (\<lambda>c. \<not> brace c) s = c # cs" "cs = d # ds" "parse_field (d # ds) = Some fm" "(f, later) = fm"
  then show "(later, s) \<in> measure length"
    using dropWhile_Cons_length [OF a(1)] parse_field_length [of "d # ds" f later] by simp
qed (auto dest: dropWhile_Cons_length)

declare format_items.simps [simp del]

text \<open>\<open>str.format_map\<close> on a template whose fields are plain names, the only ones \<open>_validate_query_catalogs\<close>
  accepts: each field is replaced by the text found under its name.\<close>

fun fill :: "(string \<times> field option) list \<Rightarrow> (string, string) dict \<Rightarrow> exn + string" where
  "fill [] d = Inr []"
| "fill ((literal, None) # items) d = then_check (fill items d) (\<lambda>s. Inr (literal @ s))"
| "fill ((literal, Some f) # items) d = (case map_of d (fd_name f) of
     None \<Rightarrow> Inl (OtherError ''KeyError'' (fd_name f))
   | Some v \<Rightarrow> then_check (fill items d) (\<lambda>s. Inr (literal @ v @ s)))"

definition format_map :: "string \<Rightarrow> (string, string) dict \<Rightarrow> exn + string" where
  "format_map template d = (let (items, failed) = format_items template in
     then_check (fill items d) (\<lambda>s. if failed then value_error ''format string'' else Inr s))"

section \<open>Catalogues\<close>

text \<open>The fields of a template in their order; a field that is not a plain name is refused, and so is a
  template that cannot be read to its end.\<close>

fun template_fields :: "(string \<times> field option) list \<Rightarrow> bool \<Rightarrow> exn + string list" where
  "template_fields [] failed = (if failed then runtime_error ''query template is invalid'' else Inr [])"
| "template_fields ((_, None) # items) failed = template_fields items failed"
| "template_fields ((_, Some f) # items) failed =
     (if \<not> full SLOT_NAME (fd_name f) \<or> fd_spec f \<noteq> [] \<or> fd_conversion f \<noteq> None
      then runtime_error ''query template field is not canonical''
      else then_check (template_fields items failed) (\<lambda>names. Inr (fd_name f # names)))"

definition slot_declared :: "string \<times> slot \<Rightarrow> bool" where
  "slot_declared = (\<lambda>(name, s). full SLOT_NAME name \<and> map_of KIND_INVENTORY (sl_kind s) = Some (sl_inventory s))"

definition validate_query :: "string \<Rightarrow> string \<Rightarrow> query \<Rightarrow> exn + unit" where
  "validate_query platform name q =
     (if \<not> full QUERY_NAME name then runtime_error ''query name is not canonical''
      else if qu_description q = [] \<or> qu_description q \<noteq> strip (qu_description q)
      then runtime_error ''query description must be non-empty and canonical''
      else if qu_pty q \<and> platform \<notin> {''fortiadc'', ''fortinet''} then runtime_error ''query pty is reserved for FortiADC and FortiOS''
      else if length (qu_slots q) > 16 then runtime_error ''query declares too many parameters''
      else if \<not> list_all slot_declared (qu_slots q) then runtime_error ''query declares an invalid typed parameter''
      else then_check (validate_query_command platform (qu_command q)) (\<lambda>_.
        let (items, failed) = format_items (qu_command q) in
        then_check (template_fields items failed) (\<lambda>names.
          if \<not> distinct names \<or> set names \<noteq> set (keys (qu_slots q))
          then runtime_error ''query template and slot declaration differ'' else Inr ())))"

fun validate_queries :: "string \<Rightarrow> catalog \<Rightarrow> exn + unit" where
  "validate_queries platform [] = Inr ()"
| "validate_queries platform ((name, q) # queries) =
     then_check (validate_query platform name q) (\<lambda>_. validate_queries platform queries)"

fun validate_query_catalogs :: "catalogs \<Rightarrow> exn + unit" where
  "validate_query_catalogs [] = Inr ()"
| "validate_query_catalogs ((platform, queries) # catalogs) =
     (if platform \<notin> set EXPECTED_PLATFORMS then runtime_error ''query catalogue contains an unknown platform''
      else if queries = [] then runtime_error ''query catalogue must be a non-empty mapping''
      else then_check (validate_queries platform queries) (\<lambda>_. validate_query_catalogs catalogs))"

text \<open>What the module does with its catalogue when it is loaded\<close>

definition load_policy :: "catalogs \<Rightarrow> exn + unit" where
  "load_policy catalogs =
     (if set (keys catalogs) \<noteq> set EXPECTED_PLATFORMS then runtime_error ''canonical query platforms do not match the reviewed set''
      else validate_query_catalogs catalogs)"

section \<open>Rendering\<close>

fun string_pairs :: "(string, json) dict \<Rightarrow> (string, string) dict option" where
  "string_pairs [] = Some []"
| "string_pairs ((k, JStr v) # rest) = map_option (\<lambda>d. (k, v) # d) (string_pairs rest)"
| "string_pairs (_ # rest) = None"

definition query_parameters :: "json \<Rightarrow> exn + (string, string) dict" where
  "query_parameters parameters =
     (let refused = value_error ''query parameters must be a bounded string mapping'' in
      case parameters of
        JNull \<Rightarrow> Inr []
      | JObj d \<Rightarrow> if length d > 16 then refused else (case string_pairs d of None \<Rightarrow> refused | Some ps \<Rightarrow> Inr ps)
      | _ \<Rightarrow> refused)"

fun render_slots :: "(string, slot) dict \<Rightarrow> (string, string) dict \<Rightarrow> (string, string list) dict \<Rightarrow> exn + (string, string) dict" where
  "render_slots [] supplied inventory = Inr []"
| "render_slots ((name, s) # slots) supplied inventory =
     (let given = the (map_of supplied name) in
      then_check (validate_slot (JStr given) (sl_kind s)) (\<lambda>v.
      if given \<notin> set (listed inventory (sl_inventory s)) then value_error (name @ '' is not enrolled in target inventory'')
      else then_check (render_slots slots supplied inventory) (\<lambda>d. Inr ((name, v) # d))))"

definition render_read_query ::
  "catalogs \<Rightarrow> json \<Rightarrow> json \<Rightarrow> json \<Rightarrow> (string, string list) dict \<Rightarrow> exn + string \<times> string" where
  "render_read_query catalogs platform query_name parameters inventory =
     then_check (normalize_platform platform) (\<lambda>normalized.
     case query_name of
       JStr name \<Rightarrow> then_check (query_parameters parameters) (\<lambda>supplied.
         case query_of catalogs normalized name of
           None \<Rightarrow> value_error (''unknown read query for platform: '' @ normalized)
         | Some q \<Rightarrow>
             if set (keys supplied) \<noteq> set (keys (qu_slots q))
             then value_error (''query parameters must be exactly: '' @ py_list (sort (keys (qu_slots q))))
             else then_check (render_slots (qu_slots q) supplied inventory) (\<lambda>rendered.
               then_check (format_map (qu_command q) rendered) (\<lambda>command. Inr (normalized, command))))
     | _ \<Rightarrow> value_error ''query name must be a string'')"

section \<open>Public descriptions\<close>

definition public_query_catalog :: "catalogs \<Rightarrow> (string, (string, string list) dict) dict" where
  "public_query_catalog catalogs = map (\<lambda>(platform, queries).
     (platform, map (\<lambda>(name, q). (name, sort (map (\<lambda>(_, s). sl_inventory s) (qu_slots q)))) (sort_key fst queries))) (sort_key fst catalogs)"

definition query_metadata :: "query \<Rightarrow> json" where
  "query_metadata q = JObj [
     (''command_template'', JStr (qu_command q)), (''description'', JStr (qu_description q)), (''high_volume'', JBool (qu_high_volume q)),
     (''parameters'', JObj (map (\<lambda>(name, s). (name, JObj [(''inventory'', JStr (sl_inventory s)), (''kind'', JStr (sl_kind s))]))
        (sort_key fst (qu_slots q))))]"

definition public_query_metadata :: "catalogs \<Rightarrow> (string, (string, json) dict) dict" where
  "public_query_metadata catalogs = map (\<lambda>(platform, queries).
     (platform, map (\<lambda>(name, q). (name, query_metadata q)) (sort_key fst queries))) (sort_key fst catalogs)"

end
