(* ===== verification/Helper_Catalog.thy ===== *)
theory Helper_Catalog
  imports Helper_Policy
begin

text \<open>
  The query catalogue of the Helper (\<open>netops_helper/query_catalog\<close>): every read query of every platform
  with its command template, its typed slots and its flags, in the order of the source.
\<close>

definition mk_slot :: "string \<Rightarrow> string \<Rightarrow> slot" where
  "mk_slot inventory kind = \<lparr>sl_inventory = inventory, sl_kind = kind\<rparr>"

definition mk_query :: "string \<Rightarrow> (string, slot) dict \<Rightarrow> string \<Rightarrow> bool \<Rightarrow> bool \<Rightarrow> bool \<Rightarrow> query" where
  "mk_query command slots description high_volume pty empty_allowed =
     \<lparr>qu_command = command, qu_slots = slots, qu_description = description, qu_high_volume = high_volume, qu_pty = pty,
      qu_empty_allowed = empty_allowed\<rparr>"

section \<open>Slots\<close>

definition NO_SLOTS :: "(string, slot) dict" where
  "NO_SLOTS = []"
definition INTERFACE :: "(string, slot) dict" where
  "INTERFACE = [(''interface'', mk_slot ''interfaces'' ''interface'')]"
definition FORTIOS_INTERFACE :: "(string, slot) dict" where
  "FORTIOS_INTERFACE = [(''interface'', mk_slot ''interfaces'' ''fortios_interface'')]"
definition FORTIOS_PHYSICAL_INTERFACE :: "(string, slot) dict" where
  "FORTIOS_PHYSICAL_INTERFACE = [(''interface'', mk_slot ''interfaces'' ''fortios_physical_interface'')]"
definition FORTIADC_INTERFACE :: "(string, slot) dict" where
  "FORTIADC_INTERFACE = [(''interface'', mk_slot ''interfaces'' ''fortiadc_interface'')]"
definition CISCO_IOS_INTERFACE :: "(string, slot) dict" where
  "CISCO_IOS_INTERFACE = [(''interface'', mk_slot ''interfaces'' ''cisco_ios_interface'')]"
definition CISCO_IOS_PHYSICAL_INTERFACE :: "(string, slot) dict" where
  "CISCO_IOS_PHYSICAL_INTERFACE = [(''interface'', mk_slot ''interfaces'' ''cisco_ios_physical_interface'')]"
definition CISCO_XE_INTERFACE :: "(string, slot) dict" where
  "CISCO_XE_INTERFACE = [(''interface'', mk_slot ''interfaces'' ''cisco_xe_interface'')]"
definition CISCO_XE_PHYSICAL_INTERFACE :: "(string, slot) dict" where
  "CISCO_XE_PHYSICAL_INTERFACE = [(''interface'', mk_slot ''interfaces'' ''cisco_xe_physical_interface'')]"
definition CISCO_NXOS_INTERFACE :: "(string, slot) dict" where
  "CISCO_NXOS_INTERFACE = [(''interface'', mk_slot ''interfaces'' ''cisco_nxos_interface'')]"
definition CISCO_NXOS_ERRORS_INTERFACE :: "(string, slot) dict" where
  "CISCO_NXOS_ERRORS_INTERFACE = [(''interface'', mk_slot ''interfaces'' ''cisco_nxos_errors_interface'')]"
definition SERVICE :: "(string, slot) dict" where
  "SERVICE = [(''service'', mk_slot ''services'' ''service'')]"
definition ADDRESS :: "(string, slot) dict" where
  "ADDRESS = [(''address'', mk_slot ''addresses'' ''address'')]"
definition IPV4_ADDRESS :: "(string, slot) dict" where
  "IPV4_ADDRESS = [(''address'', mk_slot ''addresses'' ''ipv4_address'')]"
definition IPV6_ADDRESS :: "(string, slot) dict" where
  "IPV6_ADDRESS = [(''address'', mk_slot ''addresses'' ''ipv6_address'')]"
definition SWITCH :: "(string, slot) dict" where
  "SWITCH = [(''switch'', mk_slot ''switches'' ''switch'')]"

text \<open>\<open>_interface_slot\<close> of the Arista and Junos catalogues\<close>

definition interface_slot :: "string \<Rightarrow> (string, slot) dict" where
  "interface_slot kind = [(''interface'', mk_slot ''interfaces'' kind)]"

section \<open>Queries\<close>

definition linux_queries_part :: catalog where
  "linux_queries_part = [
     (''hostname'', mk_query ''hostname'' NO_SLOTS ''Show the system hostname.'' False False False),
     (''kernel'', mk_query ''uname -a'' NO_SLOTS ''Show kernel and architecture details.'' False False False),
     (''uptime'', mk_query ''uptime'' NO_SLOTS ''Show uptime and load averages.'' False False False),
     (''filesystems'', mk_query ''df -h'' NO_SLOTS ''Show mounted filesystem usage.'' False False False),
     (''memory'', mk_query ''free -m'' NO_SLOTS ''Show memory usage in MiB.'' False False False),
     (''links'', mk_query ''ip -brief link'' NO_SLOTS ''Summarize network link state.'' True False False),
     (''addresses'', mk_query ''ip -brief address'' NO_SLOTS ''Summarize interface addresses.'' True False False),
     (''routes'', mk_query ''ip route show'' NO_SLOTS ''Show the IPv4 routing table.'' True False False),
     (''sockets'', mk_query ''ss -lntup'' NO_SLOTS ''Show listening TCP and UDP sockets.'' True False False),
     (''running_services'', mk_query ''systemctl --no-pager --state=running --type=service'' NO_SLOTS ''Show running systemd services.'' True False False),
     (''interface_addresses'', mk_query ''ip -brief address show dev {interface}'' INTERFACE ''Show addresses on one enrolled interface.'' False False False),
     (''interface_link'', mk_query ''ip -details link show dev {interface}'' INTERFACE ''Show detailed state for one enrolled interface.'' False False False),
     (''service_status'', mk_query ''systemctl --no-pager --full status {service}'' SERVICE ''Show status for one enrolled systemd service.'' False False False),
     (''service_logs_recent'', mk_query ''journalctl --no-pager -u {service} --since -1h'' SERVICE ''Show the last hour of logs for one enrolled service.'' True False False),
     (''neighbors'', mk_query ''ip neigh show'' NO_SLOTS ''Show the IP neighbor table.'' True False False),
     (''bridge_fdb'', mk_query ''bridge fdb show'' NO_SLOTS ''Show the bridge forwarding database.'' True False False)]"

definition LINUX_QUERIES :: catalog where
  "LINUX_QUERIES = linux_queries_part"

definition fortinet_queries_1 :: catalog where
  "fortinet_queries_1 = [
     (''route_cache'', mk_query ''diagnose ip rtcache list'' NO_SLOTS ''List cached IPv4 routing decisions without clearing the cache; cached entries do not prove packet delivery.'' True False False),
     (''ospf_database_brief_ipv4'', mk_query ''get router info ospf database brief'' NO_SLOTS ''Show the IPv4 OSPF link-state database summary; an LSA entry does not prove a route is installed or forwarding traffic.'' True False False),
     (''ospf_database_ipv6'', mk_query ''get router info6 ospf database'' NO_SLOTS ''Show the IPv6 OSPF link-state database; an LSA entry does not prove a route is installed or forwarding traffic.'' True False False),
     (''nat_pool_assignments'', mk_query ''diagnose firewall ippool list nat-ip {pool}'' [(''pool'', mk_slot ''nat_pools'' ''fortios_nat_pool'')] (''List IP addresses allocated from one enrolled FortiOS NAT pool; pool names use the helper'' @ [squote] @ ''s conservative ASCII name validation.'') True False False),
     (''nat_pool_usage'', mk_query ''diagnose firewall ippool stats'' NO_SLOTS ''Show IP pool statistics to investigate NAT pool usage.'' False False False),
     (''fqdn_resolved_addresses'', mk_query ''diagnose firewall fqdn list-ip'' NO_SLOTS ''List resolved IP addresses for FQDN objects to investigate address matching.'' True False False),
     (''dns_cache'', mk_query ''diagnose test application dnsproxy 7'' NO_SLOTS ''Dump the DNS cache to inspect cached DNS answers during troubleshooting.'' True True False),
     (''fqdn_cache'', mk_query ''diagnose test application dnsproxy 6'' NO_SLOTS ''Show DNS-proxy FQDN entries; this is distinct from the DNS cache and does not establish reachability.'' True True False),
     (''sdwan_zone'', mk_query ''diagnose sys sdwan zone'' NO_SLOTS ''Show kernel SD-WAN zone information.'' True False False),
     (''fqdn_object_detail'', mk_query ''diagnose firewall fqdn get-ip {name}'' [(''name'', mk_slot ''firewall_addresses'' ''fortios_address_object'')] ''Request the current IP FQDN result for one enrolled firewall address object.'' False False False),
     (''lacp_detail'', mk_query ''diagnose netlink aggregate name {aggregate} show'' [(''aggregate'', mk_slot ''interfaces'' ''fortios_interface'')] ''Show LACP details for one enrolled FortiOS interface; argument uses existing Helper interface validation.'' False False False),
     (''ike_object_counts'', mk_query ''diagnose vpn ike counts'' NO_SLOTS ''Show IKE object counts to investigate VPN resource usage.'' False False False),
     (''ike_errors'', mk_query ''diagnose vpn ike errors'' NO_SLOTS ''Read the IKE errors statistics view for VPN troubleshooting.'' False False False),
     (''ike_statistics'', mk_query ''diagnose vpn ike stats'' NO_SLOTS ''Read the IKE stats statistics view for VPN troubleshooting.'' False False False),
     (''ping_options'', mk_query ''execute ping-options view-settings'' NO_SLOTS ''Read current and default IPv4 ping options without changing them.'' False False False),
     (''traceroute_options'', mk_query ''execute traceroute-options view-settings'' NO_SLOTS ''Read current IPv4 traceroute options without changing them.'' False False False)]"

definition fortinet_queries_2 :: catalog where
  "fortinet_queries_2 = [
     (''debug_state'', mk_query ''diagnose debug info'' NO_SLOTS ''Read enabled debug state without starting, stopping, or resetting debug.'' True False False),
     (''session_filter_state'', mk_query ''diagnose sys session filter'' NO_SLOTS ''Read current session filters without replacing or clearing them.'' False False False),
     (''certificate_details'', mk_query ''get vpn certificate local details {certificate}'' [(''certificate'', mk_slot ''certificates'' ''certificate_name'')] ''Show validity and public metadata of one enrolled local certificate.'' False False False),
     (''managed_switch_status'', mk_query ''diagnose switch-controller switch-info status {managed_switch}'' [(''managed_switch'', mk_slot ''managed_switches'' ''managed_switch_serial'')] ''Show a bounded state view of one enrolled managed switch.'' False False False),
     (''managed_switch_poe'', mk_query ''diagnose switch-controller switch-info poe summary {managed_switch}'' [(''managed_switch'', mk_slot ''managed_switches'' ''managed_switch_serial'')] ''Show PoE status of one enrolled PoE-capable managed switch.'' False False False),
     (''managed_switch_mac'', mk_query ''diagnose switch-controller switch-info mac-table {managed_switch}'' [(''managed_switch'', mk_slot ''managed_switches'' ''managed_switch_serial'')] ''Show a bounded state view of one enrolled managed switch.'' True False False),
     (''managed_switch_stacking'', mk_query ''diagnose switch-controller switch-info stacking status {managed_switch}'' [(''managed_switch'', mk_slot ''managed_switches'' ''managed_switch_serial'')] ''Show stacking status of one enrolled stacking-capable switch on FortiOS 8.0; unavailable on FortiOS 7.6.7.'' False False False),
     (''managed_switch_lldp'', mk_query ''diagnose switch-controller switch-info lldp neighbors-summary {managed_switch}'' [(''managed_switch'', mk_slot ''managed_switches'' ''managed_switch_serial'')] ''Show a bounded state view of one enrolled managed switch.'' True False False),
     (''switch_loop_guard'', mk_query ''diagnose switch-controller switch-info loop-guard {managed_switch}'' [(''managed_switch'', mk_slot ''managed_switches'' ''managed_switch_serial'')] ''Show loop-guard status for one enrolled managed switch.'' False False False),
     (''switch_bpdu_guard'', mk_query ''diagnose switch-controller switch-info bpdu-guard-status {managed_switch}'' [(''managed_switch'', mk_slot ''managed_switches'' ''managed_switch_serial'')] ''Show STP BPDU guard status for one enrolled managed switch.'' False False False),
     (''switch_flap_guard'', mk_query ''diagnose switch-controller switch-info flapguard status {managed_switch}'' [(''managed_switch'', mk_slot ''managed_switches'' ''managed_switch_serial'')] ''Show flapguard status for one enrolled managed switch.'' False False False),
     (''switch_dhcp_snooping'', mk_query ''diagnose switch-controller switch-info dhcp-snooping database {managed_switch}'' [(''managed_switch'', mk_slot ''managed_switches'' ''managed_switch_serial'')] ''Show DHCP snooping settings for one enrolled managed switch: snooping-enabled VLANs, trusted and untrusted ports, and client and server database counts and limits; read the bindings themselves with switch_dhcp_bindings.'' False False False),
     (''switch_dhcp_bindings'', mk_query ''diagnose switch-controller switch-info dhcp-snooping status {managed_switch}'' [(''managed_switch'', mk_slot ''managed_switches'' ''managed_switch_serial'')] ''Show the DHCP snooping client bindings of one enrolled managed switch (MAC address, VLAN, client IP, port, lease, expiry, DHCP server IP) and the DHCP servers it has seen; ssh_read adds a parsed dhcp_bindings object for the IPv4 bindings.'' True False False),
     (''switch_fan_health'', mk_query ''diagnose switch-controller switch-info fan {managed_switch}'' [(''managed_switch'', mk_slot ''managed_switches'' ''managed_switch_serial'')] ''Show fan status for one enrolled managed switch.'' False False False),
     (''switch_source_guard'', mk_query ''diagnose switch-controller switch-info ip-source-guard violations {managed_switch}'' [(''managed_switch'', mk_slot ''managed_switches'' ''managed_switch_serial'')] ''Show IP source guard violations recorded for one enrolled managed switch; nothing is recorded while violation logging is disabled or its timer is zero, so an empty result does not show that no traffic was dropped.'' True False False),
     (''switch_lldp_port'', mk_query ''diagnose switch-controller switch-info lldp neighbors-detail {managed_switch} {port}'' [(''managed_switch'', mk_slot ''managed_switches'' ''managed_switch_serial''), (''port'', mk_slot ''managed_switch_ports'' ''managed_switch_port'')] ''Show LLDP neighbors reported on one enrolled managed-switch port.'' False False False),
     (''switch_mac_limit'', mk_query ''diagnose switch-controller switch-info mac-limit-violations interface {managed_switch} {port}'' [(''managed_switch'', mk_slot ''managed_switches'' ''managed_switch_serial''), (''port'', mk_slot ''managed_switch_ports'' ''managed_switch_port'')] ''Show MAC learning-limit violations reported for one enrolled managed-switch port; an empty table is meaningful only when the port sets learning-limit above 0.'' False False False),
     (''switch_mclag_icl'', mk_query ''diagnose switch-controller switch-info mclag icl {managed_switch}'' [(''managed_switch'', mk_slot ''managed_switches'' ''managed_switch_serial'')] ''Show the MCLAG inter-chassis link of one enrolled managed switch; this is only configuration (ICL ports, peer serial), read ICL link health with switch_trunk_status; unsupported switches report not_supported.'' False False False),
     (''switch_trunk_status'', mk_query ''diagnose switch-controller switch-info trunk status {managed_switch} {mclag_trunk}'' [(''managed_switch'', mk_slot ''managed_switches'' ''managed_switch_serial''), (''mclag_trunk'', mk_slot ''managed_switch_trunks'' ''managed_switch_trunk'')] ''Show the trunk status and member port states of one enrolled trunk on one enrolled managed switch; unreadable output reports incomplete.'' False False False),
     (''switch_mclag_consistency'', mk_query ''diagnose switch-controller switch-info mclag peer-consistency-check {managed_switch} {mclag_trunk}'' [(''managed_switch'', mk_slot ''managed_switches'' ''managed_switch_serial''), (''mclag_trunk'', mk_slot ''managed_switch_trunks'' ''managed_switch_trunk'')] ''Compare one enrolled MCLAG trunk with the MCLAG peer (configuration checks, LAG and STP state) and list inactive local or peer members; it does not show link state.'' False False False),
     (''system_status'', mk_query ''get system status'' NO_SLOTS ''Show FortiOS version, system identity, and operating status.'' False False False),
     (''performance'', mk_query ''get system performance status'' NO_SLOTS ''Show system performance and resource utilization.'' False False False),
     (''ha_status'', mk_query ''get system ha status'' NO_SLOTS ''Show high-availability cluster status.'' False False False),
     (''session_stats'', mk_query ''diagnose sys session stat'' NO_SLOTS ''Show aggregate session table statistics.'' False False False)]"

definition fortinet_queries_3 :: catalog where
  "fortinet_queries_3 = [
     (''conserve_state'', mk_query ''diagnose hardware sysinfo conserve'' NO_SLOTS ''Show memory conservation status to investigate resource-related session failures.'' False False False),
     (''cpu_cores'', mk_query ''diagnose hardware sysinfo cpu'' NO_SLOTS ''Show detailed information about installed CPUs; this is not a per-core utilization measurement.'' False False False),
     (''fortiguard_communication'', mk_query ''diagnose sys service-communication'' NO_SLOTS ''Show historical FortiGuard communication statistics, not an active reachability probe.'' True False False),
     (''hardware_memory'', mk_query ''diagnose hardware sysinfo memory'' NO_SLOTS ''Show hardware memory utilization.'' False False False),
     (''disk_status'', mk_query ''diagnose hardware deviceinfo disk'' NO_SLOTS ''Show disk inventory and health information.'' False False False),
     (''physical_interfaces'', mk_query ''get system interface physical'' NO_SLOTS ''Show physical interface status.'' True False False),
     (''interface_details'', mk_query ''diagnose netlink interface list {interface}'' FORTIOS_INTERFACE ''Show detailed state for one enrolled interface.'' False False False),
     (''interface_hardware'', mk_query ''diagnose hardware deviceinfo nic {interface}'' FORTIOS_PHYSICAL_INTERFACE ''Show hardware information for one enrolled interface.'' False False False),
     (''routing_table'', mk_query ''get router info routing-table all'' NO_SLOTS ''Show the IPv4 routing table.'' True False False),
     (''route_lookup'', mk_query ''get router info routing-table details {address}'' IPV4_ADDRESS ''Show the IPv4 route for one enrolled address.'' False False False),
     (''policy_lookup_ipv4'', mk_query ''diagnose firewall iprope lookup {src_ip} {src_port} {dst_ip} {dst_port} {protocol} {device} {pol_type}'' [(''src_ip'', mk_slot ''addresses'' ''ipv4_address''), (''src_port'', mk_slot ''flow_ports'' ''flow_port''), (''dst_ip'', mk_slot ''addresses'' ''ipv4_address''), (''dst_port'', mk_slot ''flow_ports'' ''flow_port''), (''protocol'', mk_slot ''ip_protocols'' ''ip_protocol''), (''device'', mk_slot ''interfaces'' ''fortios_interface''), (''pol_type'', mk_slot ''policy_types'' ''fortios_policy_type'')] ''Look up the IPv4 firewall policy that matches one enrolled flow tuple.'' False False False),
     (''policy_lookup_ipv6'', mk_query ''diagnose firewall iprope6 lookup {src_ip} {src_port} {dst_ip} {dst_port} {protocol} {device} {pol_type}'' [(''src_ip'', mk_slot ''addresses'' ''ipv6_address''), (''src_port'', mk_slot ''flow_ports'' ''flow_port''), (''dst_ip'', mk_slot ''addresses'' ''ipv6_address''), (''dst_port'', mk_slot ''flow_ports'' ''flow_port''), (''protocol'', mk_slot ''ip_protocols'' ''ip_protocol''), (''device'', mk_slot ''interfaces'' ''fortios_interface''), (''pol_type'', mk_slot ''policy_types'' ''fortios_policy_type'')] ''Look up the IPv6 firewall policy that matches one enrolled flow tuple.'' False False False),
     (''policy_routes_ipv4'', mk_query ''diagnose firewall proute list'' NO_SLOTS ''Show SD-WAN rule and policy routes in the data plane for route-selection investigation.'' True False False),
     (''policy_routes_ipv6'', mk_query ''diagnose firewall proute6 list'' NO_SLOTS ''List IPv6 policy routing.'' True False False),
     (''route_protocols'', mk_query ''get router info protocols'' NO_SLOTS ''Show IPv4 routing protocol status.'' False False False)]"

definition fortinet_queries_4 :: catalog where
  "fortinet_queries_4 = [
     (''ipv6_route_protocols'', mk_query ''get router info6 protocols'' NO_SLOTS ''Show IPv6 routing protocol status.'' False False False),
     (''arp_table'', mk_query ''get system arp'' NO_SLOTS ''Show the IPv4 ARP table.'' True False False),
     (''ipv6_neighbors'', mk_query ''diagnose ipv6 neighbor-cache list'' NO_SLOTS ''Show the IPv6 neighbor cache.'' True False False),
     (''lldp_summary'', mk_query ''diagnose lldp rx neighbor summary'' NO_SLOTS ''Summarize received LLDP neighbors.'' True False False),
     (''bridge_mac_table'', mk_query ''diagnose netlink brctl name host {switch}'' SWITCH ''Show the forwarding database for one enrolled software switch.'' True False False),
     (''sdwan_health'', mk_query ''diagnose sys sdwan health-check'' NO_SLOTS ''Show SD-WAN health-check status.'' True False False),
     (''sdwan_member_detail'', mk_query ''diagnose sys sdwan member {member}'' [(''member'', mk_slot ''sdwan_members'' ''fortios_sdwan_member'')] ''Show state of one enrolled SD-WAN member.'' False False False),
     (''sdwan_service_ipv4'', mk_query ''diagnose sys sdwan service4 {rule}'' [(''rule'', mk_slot ''sdwan_rules'' ''fortios_sdwan_rule'')] ''Show IPv4 path selection for one enrolled SD-WAN rule.'' False False False),
     (''sdwan_service_ipv6'', mk_query ''diagnose sys sdwan service6 {rule}'' [(''rule'', mk_slot ''sdwan_rules'' ''fortios_sdwan_rule'')] ''Show IPv6 path selection for one enrolled SD-WAN rule.'' False False False),
     (''sdwan_routes_ipv4'', mk_query ''diagnose sys sdwan route {member}'' [(''member'', mk_slot ''sdwan_members'' ''fortios_sdwan_member'')] ''Show IPv4 SD-WAN routes for one enrolled member.'' True False False),
     (''sdwan_routes_ipv6'', mk_query ''diagnose sys sdwan route6 {member}'' [(''member'', mk_slot ''sdwan_members'' ''fortios_sdwan_member'')] ''Show IPv6 SD-WAN routes for one enrolled member.'' True False False),
     (''sdwan_interface_quality'', mk_query ''diagnose sys sdwan intf-sla-log {interface}'' FORTIOS_INTERFACE ''Show interface quality details for one enrolled interface.'' True False False),
     (''sdwan_sla_history'', mk_query ''diagnose sys sdwan sla-log {health_check} {member}'' [(''health_check'', mk_slot ''sdwan_health_checks'' ''fortios_sdwan_health_check''), (''member'', mk_slot ''sdwan_members'' ''fortios_sdwan_member'')] ''Show the last ten minutes of SLA history for an enrolled health check and member.'' True False False),
     (''link_monitor_status'', mk_query ''diagnose sys link-monitor status {monitor}'' [(''monitor'', mk_slot ''link_monitors'' ''fortios_link_monitor'')] ''Show status of one enrolled link monitor without restarting it.'' False False False),
     (''ha_checksum'', mk_query ''diagnose sys ha checksum cluster'' NO_SLOTS ''Show HA synchronization checksums across the cluster.'' False False False),
     (''ha_nonsync_checksum'', mk_query ''diagnose sys ha checksum show-nonsync'' NO_SLOTS ''Show non-sync HA checksum information; the reference does not specify tables or members.'' True False False),
     (''ha_sync_statistics'', mk_query ''diagnose sys ha sync-stats'' NO_SLOTS ''Show HA synchronization statistics; the reference does not define output size or peer selection.'' True False False)]"

definition fortinet_queries_5 :: catalog where
  "fortinet_queries_5 = [
     (''ha_history'', mk_query ''diagnose sys ha history read'' NO_SLOTS ''Show the high-availability event history.'' True False False),
     (''ipsec_summary'', mk_query ''get vpn ipsec tunnel summary'' NO_SLOTS ''Summarize IPsec tunnel state.'' True False False),
     (''dhcp_leases'', mk_query ''execute dhcp lease-list {interface}'' [(''interface'', mk_slot ''interfaces'' ''fortios_interface'')] ''List DHCP leases on one enrolled interface, retaining IP/MAC/hostname association; a lease does not prove current client connectivity.'' True False False),
     (''ipsec_tunnel_statistics'', mk_query ''diagnose vpn tunnel stat'' NO_SLOTS ''Show aggregate IPsec tunnel/SA and crypto-work statistics; this does not establish per-tunnel traffic bytes.'' False False False),
     (''ipsec_status'', mk_query ''diagnose vpn ipsec status'' NO_SLOTS ''Show aggregate IPsec subsystem status.'' False False False),
     (''bgp_advertised_ipv4'', mk_query ''get router info bgp neighbors {peer} advertised-routes'' [(''peer'', mk_slot ''addresses'' ''ipv4_address'')] ''Show IPV4 routes advertised to one enrolled BGP peer.'' True False False),
     (''bgp_received_ipv4'', mk_query ''get router info bgp neighbors {peer} received-routes'' [(''peer'', mk_slot ''addresses'' ''ipv4_address'')] ''Show IPV4 routes received from one enrolled BGP peer.'' True False False),
     (''bgp_accepted_ipv4'', mk_query ''get router info bgp neighbors {peer} routes'' [(''peer'', mk_slot ''addresses'' ''ipv4_address'')] ''Show IPV4 routes accepted from one enrolled BGP peer.'' True False False),
     (''bgp_advertised_ipv6'', mk_query ''get router info6 bgp neighbors {peer6} advertised-routes'' [(''peer6'', mk_slot ''addresses'' ''ipv6_address'')] ''Show IPV6 routes advertised to one enrolled BGP peer.'' True False False),
     (''bgp_received_ipv6'', mk_query ''get router info6 bgp neighbors {peer6} received-routes'' [(''peer6'', mk_slot ''addresses'' ''ipv6_address'')] ''Show IPV6 routes received from one enrolled BGP peer.'' True False False),
     (''bgp_accepted_ipv6'', mk_query ''get router info6 bgp neighbors {peer6} routes'' [(''peer6'', mk_slot ''addresses'' ''ipv6_address'')] ''Show IPV6 routes accepted from one enrolled BGP peer.'' True False False),
     (''ospf_interfaces_ipv4'', mk_query ''get router info ospf interface'' NO_SLOTS ''Show IPV4 OSPF interface state and parameters.'' True False False),
     (''ospf_interfaces_ipv6'', mk_query ''get router info6 ospf interface'' NO_SLOTS ''Show IPV6 OSPF interface state and parameters.'' True False False),
     (''bgp_summary'', mk_query ''get router info bgp summary'' NO_SLOTS ''Summarize IPv4 BGP peers and routes.'' True False False),
     (''ipv6_bgp_summary'', mk_query ''get router info6 bgp summary'' NO_SLOTS ''Summarize IPv6 BGP peers and routes.'' True False False),
     (''ospf_status'', mk_query ''get router info ospf status'' NO_SLOTS ''Show IPv4 OSPF process status.'' False False False),
     (''ipv6_ospf_status'', mk_query ''get router info6 ospf status'' NO_SLOTS ''Show IPv6 OSPF process status.'' False False False)]"

definition fortinet_queries_6 :: catalog where
  "fortinet_queries_6 = [
     (''ospf_neighbors'', mk_query ''get router info ospf neighbor all'' NO_SLOTS ''Show IPv4 OSPF neighbors.'' True False False),
     (''ipv6_ospf_neighbors'', mk_query ''get router info6 ospf neighbor all'' NO_SLOTS ''Show IPv6 OSPF neighbors.'' True False False),
     (''bfd_neighbors'', mk_query ''get router info bfd neighbor'' NO_SLOTS ''Show IPv4 BFD neighbors.'' True False False),
     (''ipv6_bfd_neighbors'', mk_query ''get router info6 bfd neighbor'' NO_SLOTS ''Show IPv6 BFD neighbors.'' True False False),
     (''ntp_status'', mk_query ''diagnose sys ntp status'' NO_SLOTS ''Show NTP synchronization status and configured servers.'' False False False),
     (''system_top'', mk_query ''diagnose sys top 1 5 1'' NO_SLOTS ''Show one fixed five-line snapshot of the busiest processes.'' False False False),
     (''autoupdate_status'', mk_query ''diagnose autoupdate status'' NO_SLOTS ''Show FortiGuard automatic-update status.'' False False False),
     (''autoupdate_versions'', mk_query ''diagnose autoupdate versions'' NO_SLOTS ''Show the installed FortiGuard package versions.'' True False False),
     (''sslvpn_sessions'', mk_query ''diagnose vpn ssl list'' NO_SLOTS ''List active SSL VPN (Agentless VPN) sessions; absent on models without SSL VPN.'' True False False),
     (''sslvpn_statistics'', mk_query ''diagnose vpn ssl statistics'' NO_SLOTS ''Show aggregate SSL VPN (Agentless VPN) statistics; absent on models without SSL VPN.'' False False False),
     (''firewall_auth_users'', mk_query ''diagnose firewall auth list'' NO_SLOTS ''List authenticated firewall users.'' True False False),
     (''ips_filter_status'', mk_query ''diagnose ips filter status'' NO_SLOTS ''Show the IPS engine filter status.'' False False False),
     (''ips_anomaly_status'', mk_query ''diagnose ips anomaly status'' NO_SLOTS ''Show the IPS anomaly and DoS sensor status.'' False False False),
     (''av_outbreak_stats'', mk_query ''diagnose antivirus outbreak-prevention statistics list'' NO_SLOTS ''Show antivirus outbreak-prevention statistics.'' False False False),
     (''wifi_clients'', mk_query ''diagnose wireless-controller wlac -c sta'' NO_SLOTS ''Show the wireless-controller station list for clients connected to managed FortiAPs.'' True False False),
     (''wifi_client_detail'', mk_query ''diagnose wireless-controller wlac -d sta {mac}'' [(''mac'', mk_slot ''wireless_clients'' ''fortios_station_mac'')] ''Show wireless station detail for one enrolled station MAC address.'' False False False),
     (''wifi_access_points'', mk_query ''diagnose wireless-controller wlac -c wtp'' NO_SLOTS ''Show access-point control records and the status reported by the wireless controller.'' True False False)]"

definition fortinet_queries_7 :: catalog where
  "fortinet_queries_7 = [
     (''wifi_ap_detail'', mk_query ''diagnose wireless-controller wlac -d wtp'' NO_SLOTS ''Show wireless access-point data-plane records without resetting their state.'' True False False),
     (''wifi_ssid_mapping'', mk_query ''diagnose wireless-controller wlac -c vap'' NO_SLOTS ''Show virtual access-point records for mapping wireless service interfaces and SSIDs.'' True False False)]"

definition FORTINET_QUERIES :: catalog where
  "FORTINET_QUERIES = fortinet_queries_1 @ fortinet_queries_2 @ fortinet_queries_3 @ fortinet_queries_4 @ fortinet_queries_5 @ fortinet_queries_6 @ fortinet_queries_7"

definition PHYSICAL_PORT :: "(string, slot) dict" where
  "PHYSICAL_PORT = [(''interface'', mk_slot ''interfaces'' ''extreme_physical_port'')]"

definition extreme_exos_queries_1 :: catalog where
  "extreme_exos_queries_1 = [
     (''vlan_details'', mk_query ''show vlan {vlan}'' [(''vlan'', mk_slot ''vlans'' ''vlan_name'')] ''Show one enrolled VLAN.'' True False False),
     (''dhcp_snooping_entries'', mk_query ''show ip-security dhcp-snooping entries vlan {vlan}'' [(''vlan'', mk_slot ''vlans'' ''vlan_name'')] ''Show DHCP snooping bindings for one enrolled VLAN.'' True False False),
     (''switch'', mk_query ''show switch'' NO_SLOTS ''Show switch identity, role, and operating status.'' False False False),
     (''version'', mk_query ''show version'' NO_SLOTS ''Show hardware and software version information.'' False False False),
     (''memory'', mk_query ''show memory'' NO_SLOTS ''Show system memory utilization.'' False False False),
     (''cpu_monitoring'', mk_query ''show cpu-monitoring'' NO_SLOTS ''Show CPU utilization history.'' True False False),
     (''processes'', mk_query ''show process'' NO_SLOTS ''Show operating status for system processes.'' True False False),
     (''diagnostics'', mk_query ''show diagnostics'' NO_SLOTS ''Show results from the most recent diagnostic test.'' False False False),
     (''temperature'', mk_query ''show temperature'' NO_SLOTS ''Show system temperature and component status.'' False False False),
     (''fans'', mk_query ''show fans'' NO_SLOTS ''Show fan health.'' False False False),
     (''power'', mk_query ''show power'' NO_SLOTS ''Show power-supply health.'' False False False),
     (''ports'', mk_query ''show ports no-refresh'' NO_SLOTS ''Show a one-shot summary of all ports.'' True False False),
     (''ports_configuration'', mk_query ''show ports configuration no-refresh'' NO_SLOTS ''Show a one-shot Layer 1 port snapshot with administrative, link, autonegotiation, speed, duplex, and media state.'' True False False),
     (''interface_details'', mk_query ''show port {interface} information detail'' PHYSICAL_PORT ''Show detailed state for one enrolled port.'' False False False),
     (''interface_statistics'', mk_query ''show ports {interface} statistics no-refresh'' PHYSICAL_PORT ''Show a one-shot statistics snapshot for one enrolled port.'' False False False),
     (''interface_rx_errors'', mk_query ''show ports {interface} rxerrors no-refresh'' PHYSICAL_PORT ''Show a one-shot receive-error snapshot for one enrolled port.'' False False False),
     (''interface_tx_errors'', mk_query ''show ports {interface} txerrors no-refresh'' PHYSICAL_PORT ''Show a one-shot transmit-error snapshot for one enrolled port.'' False False False),
     (''interface_transceiver'', mk_query ''show ports {interface} transceiver information detail'' PHYSICAL_PORT ''Show optical transceiver diagnostics for one enrolled port.'' False False False),
     (''route_summary'', mk_query ''show iproute summary'' NO_SLOTS ''Summarize the IPv4 routing table.'' False False False),
     (''ipv6_route_summary'', mk_query ''show iproute ipv6 summary'' NO_SLOTS ''Summarize the IPv6 routing table.'' False False False),
     (''arp_table'', mk_query ''show iparp'' NO_SLOTS ''Show the IPv4 ARP table.'' True False False),
     (''arp_address'', mk_query ''show iparp {address}'' IPV4_ADDRESS ''Show the ARP entry for one enrolled IPv4 address.'' False False False),
     (''arp_interface'', mk_query ''show iparp port {interface}'' PHYSICAL_PORT ''Show ARP entries learned on one enrolled port.'' True False False),
     (''ipv6_neighbors'', mk_query ''show neighbor-discovery cache ipv6'' NO_SLOTS ''Show the IPv6 neighbor cache.'' True False False)]"

definition extreme_exos_queries_2 :: catalog where
  "extreme_exos_queries_2 = [
     (''ipv6_neighbor_address'', mk_query ''show neighbor-discovery cache ipv6 {address}'' IPV6_ADDRESS ''Show the neighbor entry for one enrolled IPv6 address.'' False False False),
     (''mac_table'', mk_query ''show fdb'' NO_SLOTS ''Show the forwarding database.'' True False False),
     (''mac_interface'', mk_query ''show fdb ports {interface}'' PHYSICAL_PORT ''Show forwarding entries learned on one enrolled port.'' True False False),
     (''lldp_neighbors'', mk_query ''show lldp neighbors'' NO_SLOTS ''Summarize LLDP neighbors on all ports.'' True False False),
     (''lldp_interface'', mk_query ''show lldp port {interface} neighbors'' PHYSICAL_PORT ''Summarize LLDP neighbors on one enrolled port.'' False False False),
     (''lldp_interface_details'', mk_query ''show lldp port {interface} neighbors detailed'' PHYSICAL_PORT ''Show detailed LLDP neighbors on one enrolled port.'' False False False),
     (''vlan_summary'', mk_query ''show vlan'' NO_SLOTS ''Summarize all VLANs.'' True False False),
     (''lacp'', mk_query ''show lacp'' NO_SLOTS ''Show LACP operating state.'' True False False),
     (''stp_summary'', mk_query ''show stpd'' NO_SLOTS ''Summarize spanning-tree domains.'' True False False),
     (''stp_detail'', mk_query ''show stpd detail'' NO_SLOTS ''Show spanning-tree settings for each domain.'' True False False),
     (''stacking'', mk_query ''show stacking'' NO_SLOTS ''Summarize the nodes in the stack topology.'' False False False),
     (''stacking_support'', mk_query ''show stacking-support'' NO_SLOTS ''Show the configured and current stacking-support state of the node.'' False False False),
     (''inline_power'', mk_query ''show inline-power'' NO_SLOTS ''Show the inline-power status of the switch.'' False False False),
     (''inline_power_port'', mk_query ''show inline-power info ports {interface}'' PHYSICAL_PORT ''Show inline-power information for one enrolled port.'' False False False),
     (''access_list_counters'', mk_query ''show access-list counter'' NO_SLOTS ''Show access-list counters.'' True False False),
     (''qos_profiles'', mk_query ''show qosprofile'' NO_SLOTS ''Show QoS profile information.'' False False False),
     (''licenses'', mk_query ''show licenses'' NO_SLOTS ''Show the software license level, port speed licensing, and feature packs.'' False False False),
     (''ntp'', mk_query ''show ntp'' NO_SLOTS ''Show the global NTP status of the switch.'' False False False),
     (''sntp_client'', mk_query ''show sntp-client'' NO_SLOTS ''Show the SNTP client state.'' False False False),
     (''sessions'', mk_query ''show session'' NO_SLOTS ''Show the currently active console and remote sessions.'' False False False),
     (''elrp'', mk_query ''show elrp'' NO_SLOTS ''Show Extreme Loop Recovery Protocol information.'' False False False)]"

definition extreme_exos_queries_3 :: catalog where
  "extreme_exos_queries_3 = [
     (''mcast_cache_summary'', mk_query ''show mcast cache summary'' NO_SLOTS ''Summarize the multicast forwarding cache.'' False False False),
     (''mirror'', mk_query ''show mirror'' NO_SLOTS ''Show the configured mirror instances and their state.'' False False False),
     (''edp_neighbors'', mk_query ''show edp'' NO_SLOTS ''Summarize Extreme Discovery Protocol neighbors.'' True False False)]"

definition EXTREME_EXOS_QUERIES :: catalog where
  "EXTREME_EXOS_QUERIES = extreme_exos_queries_1 @ extreme_exos_queries_2 @ extreme_exos_queries_3"

definition ios_queries_1 :: catalog where
  "ios_queries_1 = [
     (''version'', mk_query ''show version'' NO_SLOTS ''Show software and platform version details.'' False False False),
     (''clock'', mk_query ''show clock'' NO_SLOTS ''Show the device clock.'' False False False),
     (''interfaces'', mk_query ''show interfaces status'' NO_SLOTS ''Summarize interface state and VLAN assignment.'' True False False),
     (''ip_interfaces'', mk_query ''show ip interface brief'' NO_SLOTS ''Summarize IPv4 interface state and addresses.'' True False False),
     (''ipv6_interfaces'', mk_query ''show ipv6 interface brief'' NO_SLOTS ''Summarize IPv6 interface state and addresses.'' True False False),
     (''route_summary'', mk_query ''show ip route summary'' NO_SLOTS ''Summarize the IPv4 routing table.'' False False False),
     (''cpu'', mk_query ''show processes cpu'' NO_SLOTS ''Show CPU utilization by process.'' True False False),
     (''memory'', mk_query ''show processes memory'' NO_SLOTS ''Show memory utilization by process.'' True False False),
     (''interface_details'', mk_query ''show interfaces {interface}'' CISCO_IOS_INTERFACE ''Show operational details for one enrolled interface.'' False False False),
     (''route_lookup'', mk_query ''show ip route {address}'' IPV4_ADDRESS ''Look up one enrolled IPv4 route.'' False False False),
     (''ipv6_route_lookup'', mk_query ''show ipv6 route {address}'' IPV6_ADDRESS ''Look up one enrolled IPv6 route.'' False False False),
     (''inventory'', mk_query ''show inventory'' NO_SLOTS ''Show installed hardware inventory.'' False False False),
     (''environment'', mk_query ''show env all'' NO_SLOTS ''Show environmental sensor status.'' False False False),
     (''interface_errors'', mk_query ''show interfaces {interface} counters errors'' CISCO_IOS_PHYSICAL_INTERFACE ''Show error counters for one enrolled interface.'' False False False),
     (''arp_table'', mk_query ''show ip arp'' NO_SLOTS ''Show the IPv4 ARP table.'' True False False),
     (''ipv6_neighbors'', mk_query ''show ipv6 neighbors'' NO_SLOTS ''Show the IPv6 neighbor table.'' True False False),
     (''mac_table'', mk_query ''show mac address-table'' NO_SLOTS ''Show the MAC address table.'' True False False),
     (''vlans'', mk_query ''show vlan brief'' NO_SLOTS ''Summarize configured VLAN state.'' True False False),
     (''lag_summary'', mk_query ''show etherchannel summary'' NO_SLOTS ''Summarize EtherChannel state and membership.'' True False False),
     (''lacp_neighbors'', mk_query ''show lacp neighbor'' NO_SLOTS ''Show LACP neighbor state.'' True False False),
     (''stp_summary'', mk_query ''show spanning-tree summary'' NO_SLOTS ''Summarize spanning-tree state.'' True False False),
     (''lldp_neighbors'', mk_query ''show lldp neighbors detail'' NO_SLOTS ''Show detailed LLDP neighbor information.'' True False False),
     (''cdp_neighbors'', mk_query ''show cdp neighbors detail'' NO_SLOTS ''Show detailed CDP neighbor information.'' True False False),
     (''bgp_summary'', mk_query ''show ip bgp summary'' NO_SLOTS ''Summarize IPv4 BGP peer state.'' True False False)]"

definition ios_queries_2 :: catalog where
  "ios_queries_2 = [
     (''ospf_neighbors'', mk_query ''show ip ospf neighbor'' NO_SLOTS ''Show OSPF neighbor state.'' True False False),
     (''hsrp_summary'', mk_query ''show standby brief'' NO_SLOTS ''Summarize HSRP state.'' True False False),
     (''vrrp_summary'', mk_query ''show vrrp brief'' NO_SLOTS ''Summarize VRRP state.'' True False False)]"

definition IOS_QUERIES :: catalog where
  "IOS_QUERIES = ios_queries_1 @ ios_queries_2"

definition ios_xe_queries_1 :: catalog where
  "ios_xe_queries_1 = [
     (''version'', mk_query ''show version'' NO_SLOTS ''Show software and platform version details.'' False False False),
     (''clock'', mk_query ''show clock'' NO_SLOTS ''Show the device clock.'' False False False),
     (''interfaces'', mk_query ''show interfaces status'' NO_SLOTS ''Summarize interface state and VLAN assignment.'' True False False),
     (''ip_interfaces'', mk_query ''show ip interface brief'' NO_SLOTS ''Summarize IPv4 interface state and addresses.'' True False False),
     (''ipv6_interfaces'', mk_query ''show ipv6 interface brief'' NO_SLOTS ''Summarize IPv6 interface state and addresses.'' True False False),
     (''route_summary'', mk_query ''show ip route summary'' NO_SLOTS ''Summarize the IPv4 routing table.'' False False False),
     (''cpu'', mk_query ''show processes cpu'' NO_SLOTS ''Show CPU utilization by process.'' True False False),
     (''memory'', mk_query ''show processes memory'' NO_SLOTS ''Show memory utilization by process.'' True False False),
     (''interface_details'', mk_query ''show interfaces {interface}'' CISCO_XE_INTERFACE ''Show operational details for one enrolled interface.'' False False False),
     (''route_lookup'', mk_query ''show ip route {address}'' IPV4_ADDRESS ''Look up one enrolled IPv4 route.'' False False False),
     (''ipv6_route_lookup'', mk_query ''show ipv6 route {address}'' IPV6_ADDRESS ''Look up one enrolled IPv6 route.'' False False False),
     (''inventory'', mk_query ''show inventory'' NO_SLOTS ''Show installed hardware inventory.'' False False False),
     (''environment'', mk_query ''show environment all'' NO_SLOTS ''Show environmental sensor status.'' False False False),
     (''interface_errors'', mk_query ''show interfaces {interface} counters errors'' CISCO_XE_PHYSICAL_INTERFACE ''Show error counters for one enrolled interface.'' False False False),
     (''arp_table'', mk_query ''show ip arp'' NO_SLOTS ''Show the IPv4 ARP table.'' True False False),
     (''ipv6_neighbors'', mk_query ''show ipv6 neighbors'' NO_SLOTS ''Show the IPv6 neighbor table.'' True False False),
     (''mac_table'', mk_query ''show mac address-table'' NO_SLOTS ''Show the MAC address table.'' True False False),
     (''vlans'', mk_query ''show vlan brief'' NO_SLOTS ''Summarize configured VLAN state.'' True False False),
     (''lag_summary'', mk_query ''show etherchannel summary'' NO_SLOTS ''Summarize EtherChannel state and membership.'' True False False),
     (''lacp_neighbors'', mk_query ''show lacp neighbor'' NO_SLOTS ''Show LACP neighbor state.'' True False False),
     (''stp_summary'', mk_query ''show spanning-tree summary'' NO_SLOTS ''Summarize spanning-tree state.'' True False False),
     (''lldp_neighbors'', mk_query ''show lldp neighbors detail'' NO_SLOTS ''Show detailed LLDP neighbor information.'' True False False),
     (''cdp_neighbors'', mk_query ''show cdp neighbors detail'' NO_SLOTS ''Show detailed CDP neighbor information.'' True False False),
     (''bgp_summary'', mk_query ''show ip bgp summary'' NO_SLOTS ''Summarize IPv4 BGP peer state.'' True False False)]"

definition ios_xe_queries_2 :: catalog where
  "ios_xe_queries_2 = [
     (''ospf_neighbors'', mk_query ''show ip ospf neighbor'' NO_SLOTS ''Show OSPF neighbor state.'' True False False),
     (''hsrp_summary'', mk_query ''show standby brief'' NO_SLOTS ''Summarize HSRP state.'' True False False),
     (''vrrp_summary'', mk_query ''show vrrp brief'' NO_SLOTS ''Summarize VRRP state.'' True False False)]"

definition IOS_XE_QUERIES :: catalog where
  "IOS_XE_QUERIES = ios_xe_queries_1 @ ios_xe_queries_2"

definition nxos_queries_1 :: catalog where
  "nxos_queries_1 = [
     (''version'', mk_query ''show version'' NO_SLOTS ''Show software and platform version details.'' False False False),
     (''clock'', mk_query ''show clock'' NO_SLOTS ''Show the device clock.'' False False False),
     (''inventory'', mk_query ''show inventory'' NO_SLOTS ''Show installed hardware inventory.'' False False False),
     (''environment'', mk_query ''show environment'' NO_SLOTS ''Show environmental sensor status.'' False False False),
     (''cpu'', mk_query ''show processes cpu'' NO_SLOTS ''Show CPU utilization by process.'' True False False),
     (''memory'', mk_query ''show processes memory'' NO_SLOTS ''Show memory utilization by process.'' True False False),
     (''interfaces'', mk_query ''show interface status'' NO_SLOTS ''Summarize interface state and VLAN assignment.'' True False False),
     (''ip_interfaces'', mk_query ''show ip interface brief'' NO_SLOTS ''Summarize IPv4 interface state and addresses.'' True False False),
     (''ipv6_interfaces'', mk_query ''show ipv6 interface brief'' NO_SLOTS ''Summarize IPv6 interface state and addresses.'' True False False),
     (''interface_details'', mk_query ''show interface {interface}'' CISCO_NXOS_INTERFACE ''Show operational details for one enrolled interface.'' False False False),
     (''interface_errors'', mk_query ''show interface {interface} counters errors'' CISCO_NXOS_ERRORS_INTERFACE ''Show error counters for one enrolled interface.'' False False False),
     (''vlans'', mk_query ''show vlan'' NO_SLOTS ''Show VLAN state.'' True False False),
     (''mac_table'', mk_query ''show mac address-table'' NO_SLOTS ''Show the MAC address table.'' True False False),
     (''arp_table'', mk_query ''show ip arp'' NO_SLOTS ''Show the IPv4 ARP table.'' True False False),
     (''ipv6_neighbors'', mk_query ''show ipv6 neighbor'' NO_SLOTS ''Show the IPv6 neighbor table.'' True False False),
     (''lag_summary'', mk_query ''show port-channel summary'' NO_SLOTS ''Summarize port-channel state and membership.'' True False False),
     (''lacp_neighbors'', mk_query ''show lacp neighbor'' NO_SLOTS ''Show LACP neighbor state.'' True False False),
     (''stp_summary'', mk_query ''show spanning-tree summary'' NO_SLOTS ''Summarize spanning-tree state.'' True False False),
     (''lldp_neighbors'', mk_query ''show lldp neighbors detail'' NO_SLOTS ''Show detailed LLDP neighbor information.'' True False False),
     (''cdp_neighbors'', mk_query ''show cdp neighbors detail'' NO_SLOTS ''Show detailed CDP neighbor information.'' True False False),
     (''route_summary'', mk_query ''show ip route summary'' NO_SLOTS ''Summarize the IPv4 routing table.'' False False False),
     (''route_lookup'', mk_query ''show ip route {address}'' IPV4_ADDRESS ''Look up one enrolled IPv4 route.'' False False False),
     (''ipv6_route_lookup'', mk_query ''show ipv6 route {address}'' IPV6_ADDRESS ''Look up one enrolled IPv6 route.'' False False False),
     (''bgp_sessions'', mk_query ''show bgp sessions'' NO_SLOTS ''Show BGP session state.'' True False False)]"

definition nxos_queries_2 :: catalog where
  "nxos_queries_2 = [
     (''ospf_neighbors'', mk_query ''show ip ospf neighbors'' NO_SLOTS ''Show OSPF neighbor state.'' True False False),
     (''hsrp_summary'', mk_query ''show hsrp summary'' NO_SLOTS ''Summarize HSRP state.'' True False False),
     (''vrrp_summary'', mk_query ''show vrrp summary'' NO_SLOTS ''Summarize VRRP state.'' True False False),
     (''vpc_status'', mk_query ''show vpc brief'' NO_SLOTS ''Summarize virtual port-channel state.'' True False False),
     (''vpc_peer_keepalive'', mk_query ''show vpc peer-keepalive'' NO_SLOTS ''Show virtual port-channel peer-keepalive status.'' False False False),
     (''vpc_role'', mk_query ''show vpc role'' NO_SLOTS ''Show the virtual port-channel role.'' False False False)]"

definition NXOS_QUERIES :: catalog where
  "NXOS_QUERIES = nxos_queries_1 @ nxos_queries_2"

definition arista_eos_queries_1 :: catalog where
  "arista_eos_queries_1 = [
     (''version'', mk_query ''show version'' NO_SLOTS ''Show software and platform version details.'' False False False),
     (''clock'', mk_query ''show clock'' NO_SLOTS ''Show the device clock.'' False False False),
     (''hostname'', mk_query ''show hostname'' NO_SLOTS ''Show the configured hostname.'' False False False),
     (''inventory'', mk_query ''show inventory'' NO_SLOTS ''Show installed hardware inventory.'' False False False),
     (''environment'', mk_query ''show system environment all'' NO_SLOTS ''Show environmental sensor status.'' False False False),
     (''interfaces'', mk_query ''show interfaces status'' NO_SLOTS ''Summarize interface state and VLAN assignment.'' True False False),
     (''ip_interfaces'', mk_query ''show ip interface brief'' NO_SLOTS ''Summarize IPv4 interface state and addresses.'' True False False),
     (''ipv6_interfaces'', mk_query ''show ipv6 interface brief'' NO_SLOTS ''Summarize IPv6 interface state and addresses.'' True False False),
     (''interface_details'', mk_query ''show interfaces {interface}'' (interface_slot ''eos_interface'') ''Show operational details for one enrolled interface.'' False False False),
     (''interface_errors'', mk_query ''show interfaces {interface} counters errors'' (interface_slot ''eos_interface'') ''Show error counters for one enrolled interface.'' False False False),
     (''interface_optics'', mk_query ''show interfaces {interface} transceiver'' (interface_slot ''eos_physical_interface'') ''Show transceiver diagnostics for one enrolled physical interface.'' False False False),
     (''vlans'', mk_query ''show vlan'' NO_SLOTS ''Show VLAN state and membership.'' True False False),
     (''mac_table'', mk_query ''show mac address-table'' NO_SLOTS ''Show the MAC address table.'' True False False),
     (''arp_table'', mk_query ''show ip arp'' NO_SLOTS ''Show the IPv4 ARP table.'' True False False),
     (''arp_entry'', mk_query ''show ip arp {address}'' IPV4_ADDRESS ''Show the ARP entry for one enrolled IPv4 address.'' False False False),
     (''ipv6_neighbors'', mk_query ''show ipv6 neighbors'' NO_SLOTS ''Show the IPv6 neighbor table.'' True False False),
     (''ipv6_neighbor'', mk_query ''show ipv6 neighbors {address}'' IPV6_ADDRESS ''Show the neighbor entry for one enrolled IPv6 address.'' False False False),
     (''lldp_neighbors'', mk_query ''show lldp neighbors'' NO_SLOTS ''Summarize LLDP neighbors.'' True False False),
     (''lldp_neighbors_interface'', mk_query ''show lldp neighbors {interface}'' (interface_slot ''eos_lldp_interface'') ''Show LLDP neighbors for one enrolled interface.'' False False False),
     (''lag_summary'', mk_query ''show port-channel dense'' NO_SLOTS ''Summarize port-channel state and membership.'' True False False),
     (''lacp_peers'', mk_query ''show lacp peer'' NO_SLOTS ''Show LACP peer state.'' True False False),
     (''lacp_peer_interface'', mk_query ''show lacp interface {interface} peer'' (interface_slot ''eos_lacp_interface'') ''Show LACP peer state for one enrolled member Ethernet interface.'' False False False),
     (''stp_root'', mk_query ''show spanning-tree root'' NO_SLOTS ''Show spanning-tree root state.'' True False False),
     (''stp_interface'', mk_query ''show spanning-tree interface {interface}'' (interface_slot ''eos_stp_interface'') ''Show spanning-tree state for one enrolled interface.'' False False False)]"

definition arista_eos_queries_2 :: catalog where
  "arista_eos_queries_2 = [
     (''route_summary'', mk_query ''show ip route summary'' NO_SLOTS ''Summarize the IPv4 routing table.'' False False False),
     (''ipv6_route_summary'', mk_query ''show ipv6 route summary'' NO_SLOTS ''Summarize the IPv6 routing table.'' False False False),
     (''route_lookup'', mk_query ''show ip route {address}'' IPV4_ADDRESS ''Look up one enrolled IPv4 route.'' False False False),
     (''ipv6_route_lookup'', mk_query ''show ipv6 route {address}'' IPV6_ADDRESS ''Look up one enrolled IPv6 route.'' False False False),
     (''bgp_summary'', mk_query ''show ip bgp summary'' NO_SLOTS ''Summarize IPv4 BGP peer state.'' True False False),
     (''ipv6_bgp_summary'', mk_query ''show ipv6 bgp summary'' NO_SLOTS ''Summarize IPv6 BGP peer state.'' True False False),
     (''ospf_neighbors'', mk_query ''show ip ospf neighbor'' NO_SLOTS ''Show OSPFv2 neighbor state.'' True False False),
     (''ospf_neighbors_interface'', mk_query ''show ip ospf neighbor {interface}'' (interface_slot ''eos_ospf_interface'') ''Show OSPFv2 neighbors for one enrolled interface.'' False False False),
     (''ospfv3_neighbors'', mk_query ''show ipv6 ospf neighbor'' NO_SLOTS ''Show OSPFv3 neighbor state.'' True False False)]"

definition ARISTA_EOS_QUERIES :: catalog where
  "ARISTA_EOS_QUERIES = arista_eos_queries_1 @ arista_eos_queries_2"

definition juniper_junos_queries_1 :: catalog where
  "juniper_junos_queries_1 = [
     (''version'', mk_query ''show version | no-more'' NO_SLOTS ''Show software and platform version details.'' False False False),
     (''uptime'', mk_query ''show system uptime | no-more'' NO_SLOTS ''Show system uptime.'' False False False),
     (''system_alarms'', mk_query ''show system alarms | no-more'' NO_SLOTS ''Show active system alarms.'' False False False),
     (''chassis_alarms'', mk_query ''show chassis alarms | no-more'' NO_SLOTS ''Show active chassis alarms.'' False False False),
     (''hardware'', mk_query ''show chassis hardware | no-more'' NO_SLOTS ''Show installed chassis hardware.'' False False False),
     (''environment'', mk_query ''show chassis environment | no-more'' NO_SLOTS ''Show chassis environmental status.'' False False False),
     (''interfaces'', mk_query ''show interfaces terse | no-more'' NO_SLOTS ''Summarize physical and logical interface state.'' True False False),
     (''interface_details'', mk_query ''show interfaces {interface} extensive | no-more'' (interface_slot ''junos_interface'') ''Show extensive operational details for one enrolled interface.'' False False False),
     (''interface_optics'', mk_query ''show interfaces diagnostics optics {interface} | no-more'' (interface_slot ''junos_physical_interface'') ''Show optical diagnostics for one enrolled physical interface.'' False False False),
     (''route_summary'', mk_query ''show route summary | no-more'' NO_SLOTS ''Summarize the routing tables.'' False False False),
     (''route_lookup'', mk_query ''show route {address} detail | no-more'' IPV4_ADDRESS ''Look up one enrolled IPv4 route.'' False False False),
     (''ipv6_route_lookup'', mk_query ''show route {address} detail | no-more'' IPV6_ADDRESS ''Look up one enrolled IPv6 route.'' False False False),
     (''arp_table'', mk_query ''show arp no-resolve | no-more'' NO_SLOTS ''Show the IPv4 ARP table without name resolution.'' True False False),
     (''arp_interface'', mk_query ''show arp no-resolve interface {interface} | no-more'' (interface_slot ''junos_logical_interface'') ''Show ARP entries for one enrolled logical interface.'' True False False),
     (''ipv6_neighbors'', mk_query ''show ipv6 neighbors | no-more'' NO_SLOTS ''Show the IPv6 neighbor table.'' True False False),
     (''ipv6_neighbors_interface'', mk_query ''show ipv6 neighbors interface {interface} | no-more'' (interface_slot ''junos_logical_interface'') ''Show IPv6 neighbors for one enrolled logical interface.'' True False False),
     (''lldp_neighbors'', mk_query ''show lldp neighbors | no-more'' NO_SLOTS ''Summarize LLDP neighbors.'' True False False),
     (''lldp_neighbors_interface'', mk_query ''show lldp neighbors interface {interface} | no-more'' (interface_slot ''junos_physical_interface'') ''Show LLDP neighbors for one enrolled physical interface.'' False False False),
     (''lacp_interfaces'', mk_query ''show lacp interfaces | no-more'' NO_SLOTS ''Show LACP state for supported interfaces.'' True False False),
     (''lacp_interface'', mk_query ''show lacp interfaces {interface} | no-more'' (interface_slot ''junos_lacp_interface'') ''Show LACP state for one enrolled interface.'' False False False),
     (''bgp_summary'', mk_query ''show bgp summary | no-more'' NO_SLOTS ''Summarize BGP peer state.'' True False False),
     (''ospf_neighbors'', mk_query ''show ospf neighbor | no-more'' NO_SLOTS ''Show OSPFv2 neighbor state.'' True False False),
     (''ospf_neighbors_interface'', mk_query ''show ospf neighbor interface {interface} | no-more'' (interface_slot ''junos_logical_interface'') ''Show OSPFv2 neighbors for one enrolled logical interface.'' False False False),
     (''ospfv3_neighbors'', mk_query ''show ospf3 neighbor | no-more'' NO_SLOTS ''Show OSPFv3 neighbor state.'' True False False)]"

definition juniper_junos_queries_2 :: catalog where
  "juniper_junos_queries_2 = [
     (''ospfv3_neighbors_interface'', mk_query ''show ospf3 neighbor interface {interface} | no-more'' (interface_slot ''junos_logical_interface'') ''Show OSPFv3 neighbors for one enrolled logical interface.'' False False False)]"

definition JUNIPER_JUNOS_QUERIES :: catalog where
  "JUNIPER_JUNOS_QUERIES = juniper_junos_queries_1 @ juniper_junos_queries_2"

definition juniper_junos_els_queries_part :: catalog where
  "juniper_junos_els_queries_part = [
     (''vlans'', mk_query ''show vlans brief | no-more'' NO_SLOTS ''Show ELS VLAN state.'' True False False),
     (''mac_table'', mk_query ''show ethernet-switching table | no-more'' NO_SLOTS ''Show the ELS Ethernet switching table.'' True False False),
     (''stp_bridge'', mk_query ''show spanning-tree bridge | no-more'' NO_SLOTS ''Show ELS spanning-tree bridge state.'' True False False),
     (''virtual_chassis'', mk_query ''show virtual-chassis status | no-more'' NO_SLOTS ''Show virtual chassis status.'' False False False)]"

definition JUNIPER_JUNOS_ELS_QUERIES :: catalog where
  "JUNIPER_JUNOS_ELS_QUERIES = JUNIPER_JUNOS_QUERIES @ juniper_junos_els_queries_part"

definition ruckus_unleashed_queries_part :: catalog where
  "ruckus_unleashed_queries_part = [
     (''system_info'', mk_query ''show sysinfo'' NO_SLOTS ''Show controller identity, model, version, and uptime.'' False False False),
     (''ethernet_info'', mk_query ''show ethinfo'' NO_SLOTS ''Show the Ethernet port state of the access point.'' False False False),
     (''access_points'', mk_query ''show ap all'' NO_SLOTS ''Summarize every access point of the Unleashed network.'' True False False),
     (''wlans'', mk_query ''show wlan all'' NO_SLOTS ''Summarize every configured WLAN service.'' True False False)]"

definition RUCKUS_UNLEASHED_QUERIES :: catalog where
  "RUCKUS_UNLEASHED_QUERIES = ruckus_unleashed_queries_part"

definition fortiadc_queries_1 :: catalog where
  "fortiadc_queries_1 = [
     (''system_status'', mk_query ''get system status'' NO_SLOTS ''Show FortiADC version, system identity, and operating status.'' False False False),
     (''system_performance'', mk_query ''get system performance'' NO_SLOTS ''Show CPU usage, memory usage, system load, and uptime.'' False False False),
     (''vm_license'', mk_query ''diagnose system vm'' NO_SLOTS ''Show VM license validity, registration status, and licensed CPU and memory resources.'' False False False),
     (''interface_state'', mk_query ''diagnose netlink interface list {interface}'' FORTIADC_INTERFACE ''Show state, MTU, and packet, error, and drop counters of one enrolled interface; empty output means no interface state returned.'' False False True),
     (''interface_counters'', mk_query ''diagnose netlink device'' NO_SLOTS ''Show receive and transmit byte, packet, error, and drop counters of all interfaces.'' False False False),
     (''routing_table'', mk_query ''get router info routing-table all'' NO_SLOTS ''Show all routing table entries.'' True True False),
     (''arp_table'', mk_query ''diagnose netlink neighbor list'' NO_SLOTS ''Show the IPv4 neighbor (ARP) table with hardware addresses and interfaces.'' True False False),
     (''firewall_timeouts'', mk_query ''get firewall global'' NO_SLOTS ''Show global firewall session timeouts.'' False False False),
     (''tls_handshake_stats'', mk_query ''execute ssl-handshake-n-record-statistics show virtual-server {virtual_server}'' [(''virtual_server'', mk_slot ''adc_virtual_servers'' ''fortiadc_virtual_server'')] ''Show successful and failed TLS handshake and record counters of one enrolled virtual server.'' False True False),
     (''tls_session_reuse'', mk_query ''execute ssl-client-side-session-statistics show virtual-server {virtual_server}'' [(''virtual_server'', mk_slot ''adc_virtual_servers'' ''fortiadc_virtual_server'')] ''Show TLS session ID and session ticket reuse counters of one enrolled virtual server.'' False True False),
     (''dos_access_limit'', mk_query ''execute dos get dos-access-limit {virtual_server}'' [(''virtual_server'', mk_slot ''adc_virtual_servers'' ''fortiadc_virtual_server'')] ''Show the HTTP access-limit block-period count of one enrolled virtual server; empty output means no counter returned, not zero.'' False True True),
     (''dos_conn_limit'', mk_query ''execute dos get dos-conn-limit {virtual_server}'' [(''virtual_server'', mk_slot ''adc_virtual_servers'' ''fortiadc_virtual_server'')] ''Show the HTTP connection-flood block-period count of one enrolled virtual server; empty output means no counter returned, not zero.'' False True True),
     (''dos_req_limit'', mk_query ''execute dos get dos-req-limit {virtual_server}'' [(''virtual_server'', mk_slot ''adc_virtual_servers'' ''fortiadc_virtual_server'')] ''Show the HTTP request-flood block-period count of one enrolled virtual server; empty output means no counter returned, not zero.'' False True True),
     (''slb_load'', mk_query ''diagnose server-load-balance slb_load'' NO_SLOTS ''Show virtual servers with the status and weight of their real-server pool members.'' True True False),
     (''waf_signature_status'', mk_query ''get security waf-signature-status'' NO_SLOTS ''Show the installed WAF signature version and its update status.'' False False False),
     (''slb_vs_stat'', mk_query ''diagnose server-load-balance vs_stat vdom {vdom} vs {virtual_server}'' [(''vdom'', mk_slot ''adc_vdoms'' ''fortiadc_vdom''), (''virtual_server'', mk_slot ''adc_virtual_servers'' ''fortiadc_virtual_server'')] ''Show availability, connections, requests, RTT and throughput of one enrolled virtual server and the health state of all members of its real-server pool.'' True True False)]"

definition fortiadc_queries_2 :: catalog where
  "fortiadc_queries_2 = [
     (''cpu_info'', mk_query ''diagnose hardware get sysinfo cpu'' NO_SLOTS ''Show the per-processor CPU model, flags, and cache details as listed in the Linux cpuinfo format.'' True False False),
     (''slb_sessions'', mk_query ''diagnose server-load-balance session list'' NO_SLOTS ''Show active load-balancer sessions with client, virtual-server, local, and real-server address and port, protocol, service, state, byte counters, expiry, and virtual-server and real-server names.'' True False False),
     (''persistence_sessions'', mk_query ''diagnose server-load-balance persistence list'' NO_SLOTS ''Show persistence entries with client, virtual-server, local, and real-server address and port, protocol, service, expiry, and virtual-server and real-server names.'' True False False),
     (''nic_detail'', mk_query ''diagnose hardware get deviceinfo nic-detail {interface}'' FORTIADC_INTERFACE ''Show the driver, firmware, bus, link settings and speed, and receive and transmit counters of one enrolled network interface.'' False False False),
     (''waf_block_ip'', mk_query ''execute waf block-ip list'' NO_SLOTS ''Show IP addresses blocked by the WAF with the virtual server name and expiry.'' True False False),
     (''log_list_traffic'', mk_query ''execute log list-type tlog'' NO_SLOTS ''Show the traffic log files by name with their size or count and last-modified time.'' True False False),
     (''log_list_attack'', mk_query ''execute log list-type alog'' NO_SLOTS ''Show the attack log files by name with their size or count and last-modified time.'' True False False),
     (''autoupdate_contract'', mk_query ''execute autoupdate contract'' NO_SLOTS ''Show the licensed update service contracts with serial number, contract expiry per service, support level, and support type descriptions.'' False False False),
     (''system_date'', mk_query ''execute date'' NO_SLOTS ''Read the current system date and time to check the appliance clock against log and certificate timestamps.'' False False False),
     (''log_files'', mk_query ''execute log list-type all'' NO_SLOTS ''List event, traffic, and security log files by type for presence, size, and timestamp review; this does not report remaining disk capacity.'' True False False),
     (''lldp_neighbors'', mk_query ''diagnose lldprx neighbor summary'' NO_SLOTS ''Summarize directly connected LLDP neighbors by port, MAC/chassis, and system identity to diagnose cabling and topology issues.'' True True False),
     (''bgp_summary'', mk_query ''get router info bgp summary'' NO_SLOTS ''Show BGP neighbor state, uptime, and received-prefix counts for routing-session diagnosis.'' False True False),
     (''bgp_neighbors'', mk_query ''get router info bgp neighbors'' NO_SLOTS ''Show detailed BGP neighbor state, timers, capabilities, and message counters for session troubleshooting.'' True True False),
     (''ospf_neighbors'', mk_query ''get router info ospf neighbor'' NO_SLOTS ''Show OSPF neighbor relationships to diagnose adjacency state on deployments using OSPF.'' True True False),
     (''ha_status'', mk_query ''get system ha-status'' NO_SLOTS ''Show HA mode, state, configuration sync, node and peer details, and monitor status.'' False False False)]"

definition fortiadc_queries_3 :: catalog where
  "fortiadc_queries_3 = [
     (''traffic_group_status'', mk_query ''get system traffic-group-status brief'' NO_SLOTS (''Show each traffic group'' @ [squote] @ ''s current and next device node; the brief view omits floating IP addresses. The FortiADC 7.6.7 Administration Guide (p. 246) describes traffic groups for the HA mode active-active-VRRP and names a predefined traffic group default; empty output means the device reports no traffic group. This was measured in active-passive mode (both roles) and in standalone mode, each time with an empty config system traffic-group section in the configuration. In active-active-VRRP empty output was not measured: check it against ha_status and the traffic group configuration.'') False True True),
     (''llb_policy'', mk_query ''diagnose llb policy list'' NO_SLOTS ''Show link-load-balancing policy diagnostics including policy index, route-table ID, ingress interface, destination, and service.'' True True False)]"

definition FORTIADC_QUERIES :: catalog where
  "FORTIADC_QUERIES = fortiadc_queries_1 @ fortiadc_queries_2 @ fortiadc_queries_3"

definition READ_QUERIES :: catalogs where
  "READ_QUERIES = [
     (''linux'', LINUX_QUERIES),
     (''fortinet'', FORTINET_QUERIES),
     (''extreme_exos'', EXTREME_EXOS_QUERIES),
     (''cisco_ios'', IOS_QUERIES),
     (''cisco_xe'', IOS_XE_QUERIES),
     (''cisco_nxos'', NXOS_QUERIES),
     (''arista_eos'', ARISTA_EOS_QUERIES),
     (''juniper_junos'', JUNIPER_JUNOS_QUERIES),
     (''juniper_junos_els'', JUNIPER_JUNOS_ELS_QUERIES),
     (''ruckus_unleashed'', RUCKUS_UNLEASHED_QUERIES),
     (''fortiadc'', FORTIADC_QUERIES)]"

end
