(* ===== verification/Helper_Policy_Facts.thy ===== *)
theory Helper_Policy_Facts
  imports Helper_Catalog
begin

text \<open>
  What the read policy guarantees: a rendered command is a reviewed template with enrolled values in its
  slots, and no value can bring a control character or a character of the shell into it. The shipped
  catalogue passes the check the module makes when it is loaded.
\<close>

section \<open>Texts that match a pattern\<close>

inductive_simps consumes_simps [simp]:
  "consumes PEps p q" "consumes PBol p q" "consumes PEol p q" "consumes (PCls C) p q" "consumes (PSeq a b) p q" "consumes (PAlt a b) p q"
  "consumes (PGrp n a) p q"

definition start_of :: "string \<Rightarrow> position" where
  "start_of s = \<lparr>ps_prev = None, ps_rest = s, ps_groups = []\<rparr>"

lemma fullmatch_consumes:
  "re_fullmatch_pat a s = Some m \<Longrightarrow> \<exists>q. consumes a (start_of s) q \<and> ps_rest q = [] \<and> mt_groups m = ps_groups q"
proof -
  assume m: "re_fullmatch_pat a s = Some m"
  then obtain q qs where "filter (\<lambda>q. ps_rest q = []) (matches a (start_of s)) = q # qs" "mt_groups m = ps_groups q"
    by (auto simp: re_fullmatch_pat_def start_of_def split: list.splits)
  then have "q \<in> set (filter (\<lambda>q. ps_rest q = []) (matches a (start_of s)))" and "mt_groups m = ps_groups q" by simp_all
  then show ?thesis using matches_iff [of q a "start_of s"] by fastforce
qed

lemma full_consumes: "full a s \<longleftrightarrow> (\<exists>q. consumes a (start_of s) q \<and> ps_rest q = [])"
proof
  assume "full a s"
  then obtain m where "re_fullmatch_pat a s = Some m" by (auto simp: full_def)
  then show "\<exists>q. consumes a (start_of s) q \<and> ps_rest q = []" using fullmatch_consumes by blast
next
  assume "\<exists>q. consumes a (start_of s) q \<and> ps_rest q = []"
  then have "filter (\<lambda>q. ps_rest q = []) (matches a (start_of s)) \<noteq> []"
    by (auto simp: filter_empty_conv matches_iff)
  then show "full a s" by (auto simp: full_def re_fullmatch_pat_def start_of_def split: list.splits)
qed

lemma pupto_class:
  "(\<exists>q. consumes (pupto n (PCls B)) p q \<and> ps_rest q = []) \<longleftrightarrow> length (ps_rest p) \<le> n \<and> list_all B (ps_rest p)"
proof (induction n arbitrary: p)
  case (Suc n)
  show ?case
  proof (cases "ps_rest p")
    case Nil
    then show ?thesis by (auto simp: popt_def)
  next
    case (Cons c cs)
    then show ?thesis using Suc [of "p\<lparr>ps_prev := Some c, ps_rest := cs\<rparr>"] by (auto simp: popt_def)
  qed
qed auto

text \<open>A name pattern is a test of its length and its characters.\<close>

lemma full_name:
  "full (p_name (PCls A) n (PCls B)) s \<longleftrightarrow> (case s of [] \<Rightarrow> False | c # cs \<Rightarrow> A c \<and> length cs \<le> n \<and> list_all B cs)"
proof (cases s)
  case (Cons c cs)
  then show ?thesis
    using pupto_class [of n B "(start_of s)\<lparr>ps_prev := Some c, ps_rest := cs\<rparr>"]
    by (auto simp: full_consumes p_name_def start_of_def)
qed (simp add: full_consumes p_name_def start_of_def)

section \<open>Characters a pattern lets through\<close>

fun chars_of_pat :: "pat \<Rightarrow> (char \<Rightarrow> bool) \<Rightarrow> bool" where
  "chars_of_pat (PCls C) P = (\<forall>c. C c \<longrightarrow> P c)"
| "chars_of_pat (PSeq a b) P = (chars_of_pat a P \<and> chars_of_pat b P)"
| "chars_of_pat (PAlt a b) P = (chars_of_pat a P \<and> chars_of_pat b P)"
| "chars_of_pat (PStar a) P = chars_of_pat a P"
| "chars_of_pat (PGrp n a) P = chars_of_pat a P"
| "chars_of_pat _ P = True"

lemma consumed_chars:
  "consumes a p q \<Longrightarrow> chars_of_pat a P \<Longrightarrow> \<forall>t \<in> snd ` set (ps_groups p). list_all P t \<Longrightarrow>
   (\<exists>used. ps_rest p = used @ ps_rest q \<and> list_all P used) \<and> (\<forall>t \<in> snd ` set (ps_groups q). list_all P t)"
proof (induction rule: consumes.induct)
  case (seq a p q b r)
  then show ?case by fastforce
next
  case (more a p q r)
  then show ?case by fastforce
next
  case (grp a p q n)
  then obtain used where used: "ps_rest p = used @ ps_rest q" "list_all P used" by auto
  then have "list_all P (consumed p q)" by (simp add: consumed_def)
  moreover have "snd ` set (AList.update n v d) \<subseteq> insert v (snd ` set d)" for v and d :: "(nat, string) dict"
    by (induction d) auto
  ultimately show ?case using grp used by fastforce
qed auto

lemma fullmatch_chars:
  assumes "re_fullmatch_pat a s = Some m" and "chars_of_pat a P"
  shows "list_all P s" and "list_all P (group_text m n)"
proof -
  obtain q where q: "consumes a (start_of s) q" "ps_rest q = []" "mt_groups m = ps_groups q"
    using fullmatch_consumes [OF assms(1)] by blast
  from consumed_chars [OF q(1) assms(2)] q(2) have "list_all P s" and "\<forall>t \<in> snd ` set (ps_groups q). list_all P t"
    by (auto simp: start_of_def)
  then show "list_all P s" and "list_all P (group_text m n)"
    using q(3) by (auto simp: group_text_def group_def split: option.splits dest!: map_of_SomeD)
qed

lemma full_chars: "full a s \<Longrightarrow> chars_of_pat a P \<Longrightarrow> list_all P s"
  using fullmatch_chars(1) by (auto simp: full_def)

lemma chars_of_lit [simp]: "chars_of_pat (plit s) P \<longleftrightarrow> list_all P s"
  by (induction s) auto

lemma chars_of_times [simp]: "chars_of_pat a P \<Longrightarrow> chars_of_pat (ptimes n a) P"
  by (induction n) auto

lemma chars_of_upto [simp]: "chars_of_pat a P \<Longrightarrow> chars_of_pat (pupto n a) P"
  by (induction n) (auto simp: popt_def)

lemma chars_of_seqs [simp]: "chars_of_pat (pseq as) P \<longleftrightarrow> (\<forall>a \<in> set as. chars_of_pat a P)"
  by (induction as) auto

lemma chars_of_alts [simp]: "(\<forall>a \<in> set as. chars_of_pat a P) \<Longrightarrow> chars_of_pat (palts as) P"
  by (induction as rule: palts.induct) auto

lemma chars_of_derived [simp]:
  "chars_of_pat (popt a) P \<longleftrightarrow> chars_of_pat a P" "chars_of_pat (pplus a) P \<longleftrightarrow> chars_of_pat a P"
  "chars_of_pat a P \<Longrightarrow> chars_of_pat (pbetween m n a) P"
  "chars_of_pat a P \<Longrightarrow> chars_of_pat b P \<Longrightarrow> chars_of_pat (p_name a n b) P"
  by (auto simp: popt_def pplus_def pbetween_def p_name_def)

section \<open>Characters of slot values\<close>

definition slot_char :: "char \<Rightarrow> bool" where
  "slot_char c \<longleftrightarrow> an_char ''_.:/@- '' c"

lemma slot_char_simps [simp]: "is_digit c \<Longrightarrow> slot_char c" "is_alpha c \<Longrightarrow> slot_char c"
  unfolding slot_char_def an_char_def by blast+

lemma hex_slot_char [simp]: "is_hex c \<Longrightarrow> slot_char c"
  by (auto simp: is_hex_def is_lower_hex_def fold_char_def is_digit_def is_alpha_def slot_char_def an_char_def code_def split: if_splits)

lemma an_slot_char [simp]: "chars_of_pat (p_an extra) slot_char \<longleftrightarrow> list_all slot_char extra"
  by (auto simp: an_char_def list_all_iff)

declare chars_of_pat.simps(1) [simp del]

lemma chars_of_char [simp]: "chars_of_pat (PCls (\<lambda>d. d = c)) P \<longleftrightarrow> P c"
  by (simp add: chars_of_pat.simps(1))

lemma class_slot_chars [simp]:
  "chars_of_pat p_digit slot_char" "chars_of_pat (PCls is_alpha) slot_char" "chars_of_pat p_one_nine slot_char" "chars_of_pat p_hex slot_char"
  "chars_of_pat (PCls (\<lambda>c. upper_char c \<or> is_digit c)) slot_char"
  by (auto simp: chars_of_pat.simps(1) upper_char_def)

lemma slot_chars_fixed [simp]: "list_all slot_char (show_nat n)"
  using show_nat_digits [of n] by (auto simp: list_all_iff)

lemma address_slot_char: "address_char c \<Longrightarrow> slot_char c"
  by (auto simp: address_char_def is_lower_hex_def slot_char_def an_char_def is_alpha_def)

lemmas pattern_defs = SAFE_INTERFACE_def SAFE_SERVICE_def SAFE_SWITCH_def EOS_ETHERNET_def EOS_PHYSICAL_def EOS_PC_def EOS_LOOP_def
  EOS_VLAN_def EOS_INTERFACE_def EOS_PHYSICAL_OR_PC_def JUNOS_LINE_def JUNOS_BASE_def JUNOS_INTERFACE_def JUNOS_LOGICAL_def
  JUNOS_LACP_def SAFE_FORTIADC_OBJECT_def digits_upto_def p_one_to_def

lemma slot_char_literal [simp]:
  "slot_char (Char b0 b1 b2 b3 b4 b5 b6 b7) \<longleftrightarrow> is_alpha (Char b0 b1 b2 b3 b4 b5 b6 b7) \<or> is_digit (Char b0 b1 b2 b3 b4 b5 b6 b7)
     \<or> Char b0 b1 b2 b3 b4 b5 b6 b7 \<in> set ''_.:/@- ''"
  by (simp only: slot_char_def an_char_def)

lemma token_patterns_chars: "list_all (\<lambda>(kind, a). chars_of_pat a slot_char) TOKEN_PATTERNS"
  by (simp add: TOKEN_PATTERNS_def pattern_defs is_alpha_bits is_digit_bits)

lemma number_text_chars: "number_text prefix n = Some w \<Longrightarrow> list_all slot_char prefix \<Longrightarrow> list_all slot_char w"
  by (auto simp: number_text_def)

lemmas literal_chars = is_alpha_bits is_digit_bits

lemma ethernet_chars: "canonical_cisco_ethernet v = Some w \<Longrightarrow> list_all slot_char w"
  by (auto simp: canonical_cisco_ethernet_def literal_chars split: option.splits)

lemma ios_chars:
  assumes "canonical_cisco_ios_interface v b = Some w"
  shows "list_all slot_char w"
proof -
  have "ios_gigabit m = Some w \<Longrightarrow> list_all slot_char w" for m
    by (auto simp: ios_gigabit_def Let_def literal_chars split: option.splits if_splits)
  moreover have "list_all slot_char ''Port-channel''" "list_all slot_char ''vlan ''" by (simp_all add: literal_chars)
  ultimately show ?thesis
    using assms ethernet_chars [of v w] number_text_chars [of _ _ w]
    by (auto simp: canonical_cisco_ios_interface_def simp del: plit.simps pseq.simps split: option.splits if_splits)
qed

lemma xe_chars:
  assumes "canonical_cisco_xe_interface v b = Some w"
  shows "list_all slot_char w"
proof -
  have prefixes: "list_all slot_char prefix" if "xe_allowed prefix sl port" for prefix sl port
  proof -
    have "prefix \<in> set [''GigabitEthernet'', ''TwoGigabitEthernet'', ''FiveGigabitEthernet'', ''TenGigabitEthernet'', ''TwentyFiveGigE'',
        ''FortyGigabitEthernet'', ''HundredGigE'']" (is "_ \<in> set ?names")
      using that unfolding xe_allowed_def by (simp only: list.set insert_iff split: if_splits) blast+
    moreover have "\<forall>n \<in> set ?names. list_all slot_char n" by (simp add: literal_chars)
    ultimately show ?thesis by blast
  qed
  have "xe_physical m = Some w \<Longrightarrow> list_all slot_char w" for m
    by (auto simp: xe_physical_def Let_def literal_chars prefixes split: option.splits if_splits)
  then have physical: "canonical_cisco_xe_physical v = Some w \<Longrightarrow> list_all slot_char w"
    using ethernet_chars [of v w] by (auto simp: canonical_cisco_xe_physical_def split: option.splits)
  have names: "chars_of_pat (PSeq (PGrp 1 (palts (map plit [''Loopback'', ''Tunnel'']))) (p_num 2)) slot_char"
    by (simp add: literal_chars)
  have "list_all slot_char (group_text m 1)" if "numbered_name [''Loopback'', ''Tunnel''] v = Some m" for m
    using that fullmatch_chars(2) [OF _ names] by (simp add: numbered_name_def)
  moreover have "list_all slot_char ''Port-channel''" "list_all slot_char ''vlan ''" by (simp_all add: literal_chars)
  ultimately show ?thesis
    using assms physical number_text_chars [of _ _ w]
    by (auto simp: canonical_cisco_xe_interface_def Let_def simp del: plit.simps pseq.simps split: option.splits if_splits)
qed

lemma nxos_chars:
  assumes "canonical_cisco_nxos_interface v b = Some w"
  shows "list_all slot_char w"
proof -
  have "list_all slot_char (join ''/'' (map (\<lambda>c. show_nat (the c)) cs))" for cs
    by (rule join_chars) (auto simp: literal_chars)
  then have "nxos_ethernet m b = Some w \<Longrightarrow> list_all slot_char w" for m
    by (auto simp: nxos_ethernet_def Let_def literal_chars split: option.splits if_splits)
  moreover have "nxos_port_channel m = Some w \<Longrightarrow> list_all slot_char w" for m
    by (auto simp: nxos_port_channel_def Let_def literal_chars split: option.splits if_splits)
  moreover have "list_all slot_char ''Loopback''" "list_all slot_char ''Vlan''" "list_all slot_char ''Tunnel''" "list_all slot_char ''mgmt0''"
    by (simp_all add: literal_chars)
  ultimately show ?thesis
    using assms unfolding canonical_cisco_nxos_interface_def
    by (simp only: option.inject option.distinct split: if_split_asm option.split_asm) (blast intro: number_text_chars)+
qed

lemma fortios_chars: "canonical_fortios_interface v = Some w \<Longrightarrow> list_all slot_char w"
  using full_chars [of FORTIOS_INTERFACE_PATTERN v slot_char]
  by (auto simp: canonical_fortios_interface_def FORTIOS_INTERFACE_PATTERN_def literal_chars split: if_splits)

lemma canonicalizer_chars:
  "map_of VENDOR_INTERFACE_CANONICALIZERS kind = Some f \<Longrightarrow> f v = Some w \<Longrightarrow> list_all slot_char w"
  using fortios_chars [of v w] ios_chars [of v _ w] xe_chars [of v _ w] nxos_chars [of v _ w]
  by (auto simp: VENDOR_INTERFACE_CANONICALIZERS_def canonical_fortiadc_interface_def split: if_splits)

section \<open>Values of declared slots\<close>

text \<open>Kinds that exist for enrollment only and cannot be declared in a catalogue\<close>

definition ENROLLMENT_KINDS :: "string list" where
  "ENROLLMENT_KINDS = [''config_permission'', ''fortios_diagnostic_vdom'', ''fortios_diagnostic_recipe'', ''diagnostic_http_url'',
     ''fortiadc_health_check'', ''diagnostic_dns_name'', ''fortios_config_path'']"

lemma enrollment_kinds_undeclared: "list_all (\<lambda>kind. map_of KIND_INVENTORY kind = None) ENROLLMENT_KINDS"
  by code_simp

lemma declared_kind: "map_of KIND_INVENTORY kind = Some i \<Longrightarrow> kind \<notin> set ENROLLMENT_KINDS"
  using enrollment_kinds_undeclared by (auto simp: list_all_iff)

lemma decimal_chars: "canonical_decimal v low high \<noteq> None \<Longrightarrow> list_all slot_char v"
  by (auto simp: canonical_decimal_def all_digits_def list_all_iff split: if_splits)

lemma name_chars: "full (p_name (p_an []) n (p_an ''_.-'')) v \<Longrightarrow> list_all slot_char v"
  using full_chars [of "p_name (p_an []) n (p_an ''_.-'')" v slot_char] by (simp add: literal_chars)

lemma token_chars: "token_slot v kind = Inr w \<Longrightarrow> list_all slot_char w"
  using token_patterns_chars full_chars [of _ v slot_char]
  by (auto simp: token_slot_def value_error_def invalid_slot_def list_all_iff split: if_splits option.splits dest!: map_of_SomeD)

lemma canonical_address_chars: "canonical_address v kind = Inr w \<Longrightarrow> list_all slot_char w"
  using show_address_chars
  by (auto simp: canonical_address_def value_error_def invalid_slot_def list_all_iff address_slot_char split: if_splits option.splits)

lemma validate_slot_chars:
  assumes "map_of KIND_INVENTORY kind = Some i" and "validate_slot (JStr v) kind = Inr w"
  shows "list_all slot_char w"
proof -
  have kinds: "kind \<noteq> ''config_permission''" "kind \<noteq> ''fortios_diagnostic_vdom''" "kind \<noteq> ''fortios_diagnostic_recipe''"
    "kind \<noteq> ''diagnostic_http_url''" "kind \<noteq> ''fortiadc_health_check''" "kind \<noteq> ''diagnostic_dns_name''" "kind \<noteq> ''fortios_config_path''"
    using declared_kind [OF assms(1)] by (auto simp: ENROLLMENT_KINDS_def)
  have refused: "invalid_slot k = Inr w \<longleftrightarrow> False" for k by (simp add: invalid_slot_def value_error_def)
  have accepted: "accept ok v why = Inr w \<longleftrightarrow> ok \<and> v = w" for ok why by (simp add: accept_def value_error_def)
  show ?thesis
    using assms(2) unfolding validate_slot_def json.case Let_def
    by (simp only: kinds if_False sum.inject refused accepted split: if_split_asm option.split_asm)
      (metis name_chars, metis decimal_chars, metis decimal_chars, metis decimal_chars, metis decimal_chars, metis name_chars,
       metis canonical_address_chars, metis token_chars, metis canonicalizer_chars)
qed

section \<open>Templates\<close>

lemma takeWhile_sub: "set (takeWhile P s) \<subseteq> set s"
  using set_takeWhileD by fastforce

lemma parse_field_rest: "parse_field s = Some (f, r) \<Longrightarrow> set r \<subseteq> set s"
proof -
  have "field_name acc s = Some (n, c, r) \<Longrightarrow> set r \<subseteq> set s" for acc s n c r
  proof (induction acc s rule: field_name.induct)
    case (2 acc c cs)
    have "set (dropWhile (\<lambda>d. d \<noteq> CHR '']'') cs) \<subseteq> set cs" by (simp add: set_dropWhileD subsetI)
    with 2 show ?case by (auto split: if_splits)
  qed simp
  moreover have "field_spec n acc s = Some (sp, r) \<Longrightarrow> set r \<subseteq> set s" for n acc s sp r
    by (induction n acc s rule: field_spec.induct) (fastforce split: if_splits)+
  ultimately show "parse_field s = Some (f, r) \<Longrightarrow> set r \<subseteq> set s"
    by (fastforce simp: parse_field_def Let_def split: option.splits prod.splits if_splits list.splits)
qed

text \<open>One step of the iterator: no brace, a last brace, a doubled brace, a stray brace, a field\<close>

lemma format_plain: "list_all (\<lambda>c. \<not> brace c) s \<Longrightarrow> format_items s = (if s = [] then [] else [(s, None)], False)"
proof -
  assume "list_all (\<lambda>c. \<not> brace c) s"
  then have "takeWhile (\<lambda>c. \<not> brace c) s = s" "dropWhile (\<lambda>c. \<not> brace c) s = []" by (simp_all add: list_all_iff)
  then show ?thesis by (simp add: format_items.simps [of s] del: dropWhile_eq_Nil_conv takeWhile_eq_all_conv)
qed

lemma format_step:
  assumes "list_all (\<lambda>c. \<not> brace c) literal" and "brace c"
  shows "format_items (literal @ [c]) = ([], True)"
    and "format_items (literal @ c # c # rest) = ((literal @ [c], None) # fst (format_items rest), snd (format_items rest))"
    and "c \<noteq> d \<Longrightarrow> c = CHR ''}'' \<or> parse_field (d # rest) = None \<Longrightarrow> format_items (literal @ c # d # rest) = ([], True)"
    and "c \<noteq> d \<Longrightarrow> c \<noteq> CHR ''}'' \<Longrightarrow> parse_field (d # rest) = Some (f, later) \<Longrightarrow>
      format_items (literal @ c # d # rest) = ((literal, Some f) # fst (format_items later), snd (format_items later))"
proof -
  have parts: "takeWhile (\<lambda>c. \<not> brace c) (literal @ b # t) = literal" "dropWhile (\<lambda>c. \<not> brace c) (literal @ b # t) = b # t"
    if "brace b" for b t
    using assms(1) that by (simp_all add: list_all_iff takeWhile_append2 dropWhile_append2)
  have closing: "brace (CHR ''}'')" by (simp add: brace_def)
  show "format_items (literal @ [c]) = ([], True)"
    and "format_items (literal @ c # c # rest) = ((literal @ [c], None) # fst (format_items rest), snd (format_items rest))"
    and "c \<noteq> d \<Longrightarrow> c = CHR ''}'' \<or> parse_field (d # rest) = None \<Longrightarrow> format_items (literal @ c # d # rest) = ([], True)"
    and "c \<noteq> d \<Longrightarrow> c \<noteq> CHR ''}'' \<Longrightarrow> parse_field (d # rest) = Some (f, later) \<Longrightarrow>
      format_items (literal @ c # d # rest) = ((literal, Some f) # fst (format_items later), snd (format_items later))"
    by (subst format_items.simps, use assms(2) closing in \<open>auto simp: parts case_prod_beta\<close>)+
qed

lemma format_shape:
  obtains (plain) "list_all (\<lambda>c. \<not> brace c) s"
  | (last) literal c where "list_all (\<lambda>c. \<not> brace c) literal" "brace c" "s = literal @ [c]"
  | (pair) literal c d rest where "list_all (\<lambda>c. \<not> brace c) literal" "brace c" "s = literal @ c # d # rest"
proof (cases "dropWhile (\<lambda>c. \<not> brace c) s")
  case Nil
  then show ?thesis using plain by (simp add: list_all_iff)
next
  case (Cons c cs)
  have s: "s = takeWhile (\<lambda>c. \<not> brace c) s @ c # cs" using Cons takeWhile_dropWhile_id [of "\<lambda>c. \<not> brace c" s] by simp
  have "brace c" using Cons hd_dropWhile [of "\<lambda>c. \<not> brace c" s] by simp
  moreover have "list_all (\<lambda>c. \<not> brace c) (takeWhile (\<lambda>c. \<not> brace c) s)" by (auto simp: list_all_iff dest: set_takeWhileD)
  ultimately show ?thesis using s last pair by (cases cs) auto
qed

text \<open>The literal texts of a template are made of its characters.\<close>

lemma format_literals: "\<forall>(literal, f) \<in> set (fst (format_items s)). set literal \<subseteq> set s"
proof (induction "length s" arbitrary: s rule: less_induct)
  case less
  show ?case
  proof (cases s rule: format_shape)
    case plain
    then show ?thesis by (simp add: format_plain)
  next
    case (last literal c)
    then show ?thesis by (simp add: format_step)
  next
    case (pair literal c d rest)
    consider "c = d" | "c \<noteq> d" "c = CHR ''}'' \<or> parse_field (d # rest) = None"
      | f later where "c \<noteq> d" "c \<noteq> CHR ''}''" "parse_field (d # rest) = Some (f, later)" by fastforce
    then show ?thesis
    proof cases
      case 1
      then show ?thesis using pair format_step(2) [OF pair(1,2), of rest] less [of rest] by auto
    next
      case 2
      then show ?thesis using pair format_step(3) [OF pair(1,2) 2] by simp
    next
      case 3
      then have "length later < length s" "set later \<subseteq> set s"
        using pair parse_field_length [of "d # rest"] parse_field_rest [of "d # rest"] by auto
      then show ?thesis using less [of later] format_step(4) [OF pair(1,2) 3] pair by fastforce
    qed
  qed
qed

lemma fill_chars:
  assumes "fill items d = Inr r" and "\<forall>(literal, f) \<in> set items. list_all P literal" and "\<forall>(n, v) \<in> set d. list_all P v"
  shows "list_all P r"
  using assms
  by (induction items d arbitrary: r rule: fill.induct) (auto simp: then_check_def split: sum.splits option.splits dest!: map_of_SomeD)

lemma format_map_fill: "format_map t d = Inr r \<Longrightarrow> fill (fst (format_items t)) d = Inr r"
  by (auto simp: format_map_def then_check_def value_error_def split: prod.splits sum.splits if_splits)

text \<open>A text without braces in front of a template or behind it stays where it is.\<close>

definition outside_fields :: "string \<Rightarrow> bool" where
  "outside_fields s \<longleftrightarrow> list_all (\<lambda>c. c \<notin> set ''{}:![]'') s"

lemma outside_no_brace: "outside_fields s \<Longrightarrow> list_all (\<lambda>c. \<not> brace c) s"
  by (auto simp: outside_fields_def list_all_iff brace_def)

lemma field_name_outside: "outside_fields t \<Longrightarrow> field_name acc t = None"
  by (induction acc t rule: field_name.induct) (auto simp: outside_fields_def)

lemma field_name_append:
  assumes "outside_fields t"
  shows "field_name acc (s @ t) = map_option (\<lambda>(n, c, r). (n, c, r @ t)) (field_name acc s)"
proof (induction acc s rule: field_name.induct)
  case (1 acc)
  then show ?case using field_name_outside [OF assms] by simp
next
  case (2 acc c cs)
  have close: "CHR '']'' \<notin> set t" using assms by (auto simp: outside_fields_def list_all_iff)
  show ?case
  proof (cases "c = CHR ''[''")
    case True
    show ?thesis
    proof (cases "CHR '']'' \<in> set cs")
      case True
      then have "takeWhile (\<lambda>d. d \<noteq> CHR '']'') (cs @ t) = takeWhile (\<lambda>d. d \<noteq> CHR '']'') cs"
        "dropWhile (\<lambda>d. d \<noteq> CHR '']'') (cs @ t) = dropWhile (\<lambda>d. d \<noteq> CHR '']'') cs @ t" by auto
      then show ?thesis using 2(1) \<open>c = CHR ''[''\<close> by simp
    next
      case False
      then have "dropWhile (\<lambda>d. d \<noteq> CHR '']'') (cs @ t) = []" "dropWhile (\<lambda>d. d \<noteq> CHR '']'') cs = []" using close by auto
      then show ?thesis using \<open>c = CHR ''[''\<close> by (simp del: dropWhile_eq_Nil_conv)
    qed
  next
    case False
    then show ?thesis using 2(2) by simp
  qed
qed

lemma field_spec_append:
  assumes "outside_fields t"
  shows "field_spec n acc (s @ t) = map_option (\<lambda>(sp, r). (sp, r @ t)) (field_spec n acc s)"
proof -
  have "field_spec n acc t = None" for n acc
    using assms by (induction t arbitrary: n acc) (auto simp: outside_fields_def)
  then show ?thesis by (induction n acc s rule: field_spec.induct) auto
qed

lemma parse_field_append:
  assumes "outside_fields t"
  shows "parse_field (s @ t) = map_option (\<lambda>(f, r). (f, r @ t)) (parse_field s)"
proof (cases "field_name [] s")
  case None
  then show ?thesis by (simp add: parse_field_def field_name_append [OF assms])
next
  case (Some x)
  obtain n c r where x: "x = (n, c, r)" by (metis surj_pair)
  note run = parse_field_def field_name_append [OF assms] Some x Let_def field_spec_append [OF assms] option.map_comp comp_def case_prod_beta
  have out: "d \<noteq> CHR ''}'' \<and> d \<noteq> CHR '':''" if "d \<in> set t" for d using that assms by (auto simp: outside_fields_def list_all_iff)
  consider "c = CHR ''}''" | "c = CHR '':''" | "c \<noteq> CHR ''}''" "c \<noteq> CHR '':''" "length r < 2"
    | y z r' where "c \<noteq> CHR ''}''" "c \<noteq> CHR '':''" "r = y # z # r'"
    by (cases r; cases "tl r") auto
  then show ?thesis
  proof cases
    case 3
    have "parse_field s = None" using 3 by (cases r) (simp_all add: run)
    moreover have "parse_field (s @ t) = None"
    proof (cases "r @ t")
      case (Cons y ys)
      show ?thesis
      proof (cases ys)
        case (Cons z zs)
        then have "z \<in> set t" using 3(3) \<open>r @ t = y # ys\<close> by (cases r) auto
        then show ?thesis using 3 out [of z] Cons \<open>r @ t = y # ys\<close> by (simp add: run)
      qed (use 3 Cons in \<open>simp add: run\<close>)
    qed (use 3 in \<open>simp add: run\<close>)
    ultimately show ?thesis by simp
  qed (simp_all add: run)
qed

lemma parse_field_outside: "outside_fields t \<Longrightarrow> parse_field t = None"
  by (simp add: parse_field_def field_name_outside)

lemma pair_cases:
  obtains "c = d" | "c \<noteq> d" "c = CHR ''}'' \<or> parse_field (d # rest) = None"
  | f later where "c \<noteq> d" "c \<noteq> CHR ''}''" "parse_field (d # rest) = Some (f, later)"
  by (cases "parse_field (d # rest)") auto

lemma fill_prefix:
  assumes "list_all (\<lambda>c. \<not> brace c) pre" and "\<not> snd (format_items (pre @ s))" and "fill (fst (format_items (pre @ s))) vs = Inr r"
  shows "\<exists>r'. r = pre @ r'"
proof (cases s rule: format_shape)
  case plain
  then show ?thesis using assms by (auto simp: format_plain then_check_def split: if_splits)
next
  case (last literal c)
  then have "list_all (\<lambda>c. \<not> brace c) (pre @ literal)" using assms(1) by simp
  then show ?thesis using assms(2) last format_step(1) [of "pre @ literal" c] by simp
next
  case (pair literal c d rest)
  have "list_all (\<lambda>c. \<not> brace c) (pre @ literal)" using assms(1) pair by simp
  note step = format_step [OF this pair(2)]
  show ?thesis
  proof (cases rule: pair_cases [where c = c and d = d and rest = rest])
    case 1
    then show ?thesis using assms(3) pair step(2) [of rest] by (auto simp: then_check_def split: sum.splits)
  next
    case 2
    then show ?thesis using assms(2) pair step(3) [OF 2] by simp
  next
    case (3 f later)
    then show ?thesis using assms(3) pair step(4) [OF 3] by (auto simp: then_check_def split: sum.splits option.splits)
  qed
qed

lemma fill_suffix:
  assumes "outside_fields t" and "\<not> snd (format_items (s @ t))"
  shows "fill (fst (format_items (s @ t))) vs = then_check (fill (fst (format_items s)) vs) (\<lambda>r. Inr (r @ t))"
  using assms(2)
proof (induction "length s" arbitrary: s rule: less_induct)
  case less
  show ?case
  proof (cases s rule: format_shape)
    case plain
    then show ?thesis using outside_no_brace [OF assms(1)] by (simp add: format_plain then_check_def)
  next
    case (last literal c)
    show ?thesis
    proof (cases t)
      case Nil
      then show ?thesis using less last format_step(1) [OF last(1,2)] by simp
    next
      case (Cons d t')
      then have "c \<noteq> d" "c = CHR ''}'' \<or> parse_field (d # t') = None"
        using last outside_no_brace [OF assms(1)] parse_field_outside [OF assms(1)] by auto
      then show ?thesis using less.prems format_step(3) [OF last(1,2)] last(3) Cons by simp
    qed
  next
    case (pair literal c d rest)
    note step = format_step [OF pair(1,2)]
    show ?thesis
    proof (cases rule: pair_cases [where c = c and d = d and rest = rest])
      case 1
      then have "\<not> snd (format_items (rest @ t))" using less.prems pair step(2) [of "rest @ t"] by simp
      then show ?thesis using less.hyps [of rest] 1 pair step(2) by (simp add: then_check_def split: sum.splits)
    next
      case 2
      then have "c = CHR ''}'' \<or> parse_field (d # rest @ t) = None" using parse_field_append [OF assms(1), of "d # rest"] by auto
      then show ?thesis using less.prems pair step(3) [OF 2(1), of "rest @ t"] by simp
    next
      case (3 f later)
      then have p: "parse_field (d # rest @ t) = Some (f, later @ t)" using parse_field_append [OF assms(1), of "d # rest"] by simp
      have "length later < length s" using 3 pair parse_field_length [of "d # rest"] by simp
      moreover have "\<not> snd (format_items (later @ t))" using less.prems pair step(4) [OF 3(1,2) p] by simp
      ultimately show ?thesis using less.hyps [of later] pair step(4) [OF 3(1,2) p] step(4) [OF 3]
        by (simp add: then_check_def split: sum.splits option.splits)
    qed
  qed
qed

section \<open>Rendered commands\<close>

definition clean :: "string \<Rightarrow> bool" where
  "clean s \<longleftrightarrow> list_all (\<lambda>c. \<not> control_char c \<and> c \<notin> set SHELL_METACHARACTERS) s"

text \<open>Only the fixed paging suffix of Junos commands holds a character of the shell.\<close>

definition safe_command :: "string \<Rightarrow> string \<Rightarrow> bool" where
  "safe_command platform command =
     (if platform \<in> set JUNOS_PLATFORMS then ends_with JUNOS_SUFFIX command \<and> clean (remove_suffix JUNOS_SUFFIX command)
      else clean command)"

lemma slot_char_clean: "slot_char c \<Longrightarrow> \<not> control_char c \<and> c \<notin> set SHELL_METACHARACTERS"
proof -
  assume c: "slot_char c"
  have "list_all (\<lambda>c. \<not> slot_char c) SHELL_METACHARACTERS" by (simp add: SHELL_METACHARACTERS_def literal_chars)
  moreover have "\<not> control_char c"
    using c by (auto simp: slot_char_def an_char_def control_char_def is_alpha_def is_digit_def code_def)
  ultimately show ?thesis using c by (auto simp: list_all_iff)
qed

lemma slot_chars_clean: "list_all slot_char s \<Longrightarrow> clean s"
  using slot_char_clean by (auto simp: clean_def list_all_iff)

lemma validated_query:
  assumes "load_policy catalogs = Inr ()" and "query_of catalogs p name = Some q"
  shows "validate_query p name q = Inr ()"
proof -
  have queries: "validate_queries p qs = Inr () \<Longrightarrow> map_of qs name = Some q \<Longrightarrow> validate_query p name q = Inr ()" for qs
    by (induction qs) (auto split: if_splits)
  have "validate_query_catalogs cs = Inr () \<Longrightarrow> map_of cs p = Some qs \<Longrightarrow> validate_queries p qs = Inr ()" for cs qs
    by (induction cs) (auto simp: runtime_error_def split: if_splits)
  with queries show ?thesis
    using assms by (auto simp: load_policy_def runtime_error_def query_of_def split: if_splits Option.bind_splits)
qed

lemma template_fields_ok: "template_fields items failed = Inr names \<Longrightarrow> \<not> failed"
  by (induction items failed arbitrary: names rule: template_fields.induct)
    (auto simp: runtime_error_def split: if_splits)

lemma validated_parts:
  assumes "validate_query p name q = Inr ()"
  shows "validate_query_command p (qu_command q) = Inr ()" and "\<forall>(n, s) \<in> set (qu_slots q). map_of KIND_INVENTORY (sl_kind s) = Some (sl_inventory s)"
    and "\<not> snd (format_items (qu_command q))"
  using assms
  by (auto simp: validate_query_def runtime_error_def slot_declared_def list_all_iff Let_def split: if_splits prod.splits
      dest: template_fields_ok)

lemma render_slots_values:
  assumes "render_slots slots supplied inventory = Inr rendered"
    and "\<forall>(n, s) \<in> set slots. map_of KIND_INVENTORY (sl_kind s) = Some (sl_inventory s)"
  shows "(\<forall>(n, v) \<in> set rendered. list_all slot_char v) \<and>
    (\<forall>(n, s) \<in> set slots. the (map_of supplied n) \<in> set (listed inventory (sl_inventory s)))"
  using assms
proof (induction slots supplied inventory arbitrary: rendered rule: render_slots.induct)
  case (2 name s slots supplied inventory)
  from 2(2) obtain v d where v: "validate_slot (JStr (the (map_of supplied name))) (sl_kind s) = Inr v"
    and listed: "the (map_of supplied name) \<in> set (listed inventory (sl_inventory s))"
    and d: "render_slots slots supplied inventory = Inr d" "rendered = (name, v) # d"
    by (auto simp: Let_def value_error_def split: if_splits)
  have "list_all slot_char v" using validate_slot_chars [OF _ v] 2(3) by auto
  with 2(1) [OF refl _ d(1)] listed d 2(3) show ?case by auto
qed simp

lemma remove_suffix_append: "ends_with p s \<Longrightarrow> s = remove_suffix p s @ p"
proof -
  assume "ends_with p s"
  then obtain t where "rev s = rev p @ t"
    by (metis append_take_drop_id ends_with_def length_rev starts_with_def)
  then have "s = rev t @ p" by (metis rev_append rev_rev_ident)
  then show ?thesis using \<open>ends_with p s\<close> by (simp add: remove_suffix_def)
qed

lemma append_remove_suffix: "ends_with p (s @ p) \<and> remove_suffix p (s @ p) = s"
  by (simp add: ends_with_def starts_with_def remove_suffix_def)

lemma command_clean:
  assumes "validate_query_command p command = Inr ()"
  shows "if p \<in> set JUNOS_PLATFORMS then \<exists>c. command = c @ JUNOS_SUFFIX \<and> clean c else clean command"
proof -
  have clean: "clean c" if "\<not> list_ex (\<lambda>c. c \<in> set SHELL_METACHARACTERS) c" "\<not> list_ex control_char c" for c
    using that by (auto simp: clean_def list_all_iff list_ex_iff)
  show ?thesis
  proof (cases "p \<in> set JUNOS_PLATFORMS")
    case True
    then have ends: "ends_with JUNOS_SUFFIX command" and inspected: "\<not> list_ex (\<lambda>c. c \<in> set SHELL_METACHARACTERS) (remove_suffix JUNOS_SUFFIX command)"
      and control: "\<not> list_ex control_char command"
      using assms by (auto simp: validate_query_command_def runtime_error_def Let_def split: if_splits)
    have "command = remove_suffix JUNOS_SUFFIX command @ JUNOS_SUFFIX"
      using ends by (rule remove_suffix_append)
    moreover have "\<not> list_ex control_char (remove_suffix JUNOS_SUFFIX command)"
      using control calculation by (metis list_ex_append)
    ultimately show ?thesis using True clean [OF inspected] by auto
  next
    case False
    then show ?thesis using assms clean [of command] by (auto simp: validate_query_command_def runtime_error_def split: if_splits)
  qed
qed

lemma render_read_query_cases:
  assumes "render_read_query catalogs platform query_name parameters inventory = Inr (p, command)"
  obtains name supplied q rendered where "query_name = JStr name" "query_parameters parameters = Inr supplied"
    "query_of catalogs p name = Some q" "set (keys supplied) = set (keys (qu_slots q))"
    "render_slots (qu_slots q) supplied inventory = Inr rendered" "format_map (qu_command q) rendered = Inr command"
  using assms by (cases query_name) (auto simp: render_read_query_def value_error_def split: option.splits if_splits)

text \<open>(C17) A rendered read query is safe to send: with a catalogue that passed the check made when the module
  is loaded, whatever the caller asks for, every value in a slot is enrolled in the inventory of the
  target, and the command holds no control character and no character of the shell; the commands of
  Junos end with the fixed paging suffix and are clean before it.\<close>

theorem render_read_query_safe:
  assumes "load_policy catalogs = Inr ()" and "render_read_query catalogs platform query_name parameters inventory = Inr (p, command)"
  shows "\<exists>name q supplied. query_name = JStr name \<and> query_of catalogs p name = Some q \<and> query_parameters parameters = Inr supplied \<and>
    (\<forall>(n, s) \<in> set (qu_slots q). \<exists>v. map_of supplied n = Some v \<and> v \<in> set (listed inventory (sl_inventory s))) \<and>
    safe_command p command"
proof -
  obtain name supplied q rendered where name: "query_name = JStr name" and supplied: "query_parameters parameters = Inr supplied"
    and q: "query_of catalogs p name = Some q" and exact: "set (keys supplied) = set (keys (qu_slots q))"
    and rendered: "render_slots (qu_slots q) supplied inventory = Inr rendered" and command: "format_map (qu_command q) rendered = Inr command"
    using assms(2) by (rule render_read_query_cases)
  note valid = validated_parts [OF validated_query [OF assms(1) q]]
  note vals = render_slots_values [OF rendered valid(2)]
  have clean_vals: "\<forall>(n, v) \<in> set rendered. clean v" using vals slot_chars_clean by fastforce
  have filled: "clean r" if "fill (fst (format_items t)) rendered = Inr r" and "clean t" for t r
    using fill_chars [OF that(1), of "\<lambda>c. \<not> control_char c \<and> c \<notin> set SHELL_METACHARACTERS"] that(2) clean_vals format_literals [of t]
    by (fastforce simp: clean_def list_all_iff)
  have "safe_command p command"
  proof (cases "p \<in> set JUNOS_PLATFORMS")
    case True
    then obtain c where c: "qu_command q = c @ JUNOS_SUFFIX" "clean c" using command_clean [OF valid(1)] by auto
    have "outside_fields JUNOS_SUFFIX" by code_simp
    from fill_suffix [OF this, of c rendered] valid(3) format_map_fill [OF command]
    obtain r where "fill (fst (format_items c)) rendered = Inr r" "command = r @ JUNOS_SUFFIX" by (auto simp: c(1))
    then show ?thesis using True filled [OF _ c(2)] append_remove_suffix [of JUNOS_SUFFIX r] by (auto simp: safe_command_def)
  next
    case False
    then show ?thesis using command_clean [OF valid(1)] filled [OF format_map_fill [OF command]] by (simp add: safe_command_def)
  qed
  moreover have "\<exists>v. map_of supplied n = Some v \<and> v \<in> set (listed inventory (sl_inventory s))" if "(n, s) \<in> set (qu_slots q)" for n s
  proof -
    have "n \<in> set (keys supplied)" using that exact by (force simp: keys_def)
    then obtain v where "map_of supplied n = Some v" by (auto simp: keys_def dest!: weak_map_of_SomeI)
    then show ?thesis using vals that by fastforce
  qed
  ultimately show ?thesis using name supplied q by blast
qed

end
