(* ===== verification/Helper_Catalog_Facts.thy ===== *)
theory Helper_Catalog_Facts
  imports Helper_Policy_Facts
begin

text \<open>
  The shipped query catalogue passes the check that \<open>read_policy.py\<close> makes when it is loaded, so what is
  shown for checked catalogues holds for the program as it is. The catalogue is evaluated part by part,
  with names tested by a scan instead of the pattern; that every command of a platform with a reviewed
  list is on that list is shown separately.
\<close>

section \<open>The check of one query, for evaluation\<close>

definition name_ok :: "string \<Rightarrow> bool" where
  "name_ok s = (case s of [] \<Rightarrow> False
     | c # cs \<Rightarrow> is_lower c \<and> length cs \<le> 63 \<and> list_all (\<lambda>c. is_lower c \<or> is_digit c \<or> c = CHR ''_'') cs)"

lemma full_query_name: "full QUERY_NAME s = name_ok s" "full SLOT_NAME s = name_ok s"
  by (simp_all add: QUERY_NAME_def SLOT_NAME_def full_name name_ok_def)

definition inspected_of :: "string \<Rightarrow> string \<Rightarrow> string" where
  "inspected_of p command = (if p \<in> set JUNOS_PLATFORMS then remove_suffix JUNOS_SUFFIX command else command)"

definition command_frame :: "string \<Rightarrow> string \<Rightarrow> bool" where
  "command_frame p command \<longleftrightarrow> command \<noteq> [] \<and> command = strip command \<and> \<not> contains ''  '' command \<and> \<not> list_ex control_char command
     \<and> (if p \<in> set JUNOS_PLATFORMS then count_text JUNOS_SUFFIX command = 1 \<and> ends_with JUNOS_SUFFIX command
          \<and> CHR ''|'' \<notin> set (remove_suffix JUNOS_SUFFIX command) else True)
     \<and> \<not> list_ex (\<lambda>c. c \<in> set SHELL_METACHARACTERS) (inspected_of p command)"

fun fields_ok :: "(string \<times> field option) list \<Rightarrow> string list option" where
  "fields_ok [] = Some []"
| "fields_ok ((_, None) # items) = fields_ok items"
| "fields_ok ((_, Some f) # items) =
     (if name_ok (fd_name f) \<and> fd_spec f = [] \<and> fd_conversion f = None then map_option (\<lambda>ns. fd_name f # ns) (fields_ok items) else None)"

lemma fields_ok_template: "fields_ok items = Some names \<Longrightarrow> template_fields items False = Inr names"
  by (induction items arbitrary: names rule: fields_ok.induct) (auto simp: full_query_name split: if_splits)

definition quick_query :: "string \<Rightarrow> string \<times> query \<Rightarrow> bool" where
  "quick_query p = (\<lambda>(name, q). name_ok name \<and> qu_description q \<noteq> [] \<and> qu_description q = strip (qu_description q)
     \<and> (if qu_pty q then p \<in> {''fortiadc'', ''fortinet''} else True) \<and> length (qu_slots q) \<le> 16
     \<and> list_all (\<lambda>(n, s). name_ok n \<and> map_of KIND_INVENTORY (sl_kind s) = Some (sl_inventory s)) (qu_slots q)
     \<and> command_frame p (qu_command q)
     \<and> (case format_items (qu_command q) of (items, failed) \<Rightarrow> \<not> failed \<and> (case fields_ok items of
          None \<Rightarrow> False | Some names \<Rightarrow> distinct names \<and> set names = set (keys (qu_slots q)))))"

definition family_ok :: "string \<Rightarrow> string \<times> query \<Rightarrow> bool" where
  "family_ok p = (\<lambda>(_, q). validate_family p (inspected_of p (qu_command q)) = Inr ())"

lemma command_frame_valid:
  "command_frame p command \<Longrightarrow> validate_family p (inspected_of p command) = Inr () \<Longrightarrow> validate_query_command p command = Inr ()"
  by (simp add: command_frame_def validate_query_command_def inspected_of_def then_check_def Let_def split: if_splits)

lemma quick_query_valid:
  assumes "quick_query p (name, q)" and "family_ok p (name, q)"
  shows "validate_query p name q = Inr ()"
proof -
  obtain items names where items: "format_items (qu_command q) = (items, False)" "fields_ok items = Some names"
    "distinct names" "set names = set (keys (qu_slots q))"
    using assms(1) by (auto simp: quick_query_def split: prod.splits option.splits)
  have "validate_query_command p (qu_command q) = Inr ()"
    using assms by (intro command_frame_valid) (simp_all add: quick_query_def family_ok_def)
  then show ?thesis
    using assms(1) items fields_ok_template [OF items(2)]
    by (auto simp: validate_query_def quick_query_def slot_declared_def full_query_name then_check_def split: if_splits)
qed

lemma quick_queries_valid: "list_all (quick_query p) qs \<Longrightarrow> list_all (family_ok p) qs \<Longrightarrow> validate_queries p qs = Inr ()"
  by (induction qs) (auto simp: quick_query_valid)

text \<open>A \<open>show\<close> template whose first two words hold no field, the second not \<open>key\<close>\<close>

definition literal_head :: "string \<times> query \<Rightarrow> bool" where
  "literal_head = (\<lambda>(_, q). case split_on blank (qu_command q) of
     a # w # _ \<Rightarrow> a = ''show'' \<and> list_all (\<lambda>c. \<not> brace c) w \<and> casefold w \<noteq> ''key'' | _ \<Rightarrow> False)"

definition show_query :: "string \<Rightarrow> string \<times> query \<Rightarrow> bool" where
  "show_query p nq \<longleftrightarrow> quick_query p nq \<and> family_ok p nq \<and> literal_head nq"

lemma show_queries_valid: "list_all (show_query p) qs \<Longrightarrow> validate_queries p qs = Inr ()"
  by (rule quick_queries_valid) (simp_all add: list_all_iff show_query_def)

section \<open>Reviewed commands\<close>

lemma mem_hd: "x \<in> set (x # xs)"
  by simp

lemma mem_tl: "x \<in> set xs \<Longrightarrow> x \<in> set (y # xs)"
  by simp

lemma reviewed_family:
  "list_all (\<lambda>(_, q). qu_command q \<in> set LINUX_COMMANDS) qs \<Longrightarrow> list_all (family_ok ''linux'') qs"
  "list_all (\<lambda>(_, q). qu_command q \<in> set FORTINET_COMMANDS) qs \<Longrightarrow>
   list_all (\<lambda>(_, q). \<not> starts_with FORTINET_TOP_PREFIX (qu_command q) \<or> qu_command q = FORTINET_TOP_SNAPSHOT) qs \<Longrightarrow>
   list_all (family_ok ''fortinet'') qs"
  "list_all (\<lambda>(_, q). qu_command q \<in> set FORTIADC_COMMANDS) qs \<Longrightarrow> list_all (family_ok ''fortiadc'') qs"
  by (auto simp: list_all_iff family_ok_def validate_family_def inspected_of_def JUNOS_PLATFORMS_def)

lemma reviewed_linux_queries_part: "list_all (\<lambda>(_, q). qu_command q \<in> set LINUX_COMMANDS) linux_queries_part"
  unfolding linux_queries_part_def LINUX_COMMANDS_def mk_query_def
  by (simp only: list.pred_inject prod.case query.simps simp_thms) (intro conjI; (rule mem_hd | rule mem_tl)+)

lemma reviewed_fortinet_queries_1: "list_all (\<lambda>(_, q). qu_command q \<in> set FORTINET_COMMANDS) fortinet_queries_1"
  unfolding fortinet_queries_1_def FORTINET_COMMANDS_def mk_query_def
  by (simp only: list.pred_inject prod.case query.simps simp_thms) (intro conjI; (rule mem_hd | rule mem_tl)+)

lemma top_fortinet_queries_1:
  "list_all (\<lambda>(_, q). \<not> starts_with FORTINET_TOP_PREFIX (qu_command q) \<or> qu_command q = FORTINET_TOP_SNAPSHOT) fortinet_queries_1"
  by code_simp

lemma reviewed_fortinet_queries_2: "list_all (\<lambda>(_, q). qu_command q \<in> set FORTINET_COMMANDS) fortinet_queries_2"
  unfolding fortinet_queries_2_def FORTINET_COMMANDS_def mk_query_def
  by (simp only: list.pred_inject prod.case query.simps simp_thms) (intro conjI; (rule mem_hd | rule mem_tl)+)

lemma top_fortinet_queries_2:
  "list_all (\<lambda>(_, q). \<not> starts_with FORTINET_TOP_PREFIX (qu_command q) \<or> qu_command q = FORTINET_TOP_SNAPSHOT) fortinet_queries_2"
  by code_simp

lemma reviewed_fortinet_queries_3: "list_all (\<lambda>(_, q). qu_command q \<in> set FORTINET_COMMANDS) fortinet_queries_3"
  unfolding fortinet_queries_3_def FORTINET_COMMANDS_def mk_query_def
  by (simp only: list.pred_inject prod.case query.simps simp_thms) (intro conjI; (rule mem_hd | rule mem_tl)+)

lemma top_fortinet_queries_3:
  "list_all (\<lambda>(_, q). \<not> starts_with FORTINET_TOP_PREFIX (qu_command q) \<or> qu_command q = FORTINET_TOP_SNAPSHOT) fortinet_queries_3"
  by code_simp

lemma reviewed_fortinet_queries_4: "list_all (\<lambda>(_, q). qu_command q \<in> set FORTINET_COMMANDS) fortinet_queries_4"
  unfolding fortinet_queries_4_def FORTINET_COMMANDS_def mk_query_def
  by (simp only: list.pred_inject prod.case query.simps simp_thms) (intro conjI; (rule mem_hd | rule mem_tl)+)

lemma top_fortinet_queries_4:
  "list_all (\<lambda>(_, q). \<not> starts_with FORTINET_TOP_PREFIX (qu_command q) \<or> qu_command q = FORTINET_TOP_SNAPSHOT) fortinet_queries_4"
  by code_simp

lemma reviewed_fortinet_queries_5: "list_all (\<lambda>(_, q). qu_command q \<in> set FORTINET_COMMANDS) fortinet_queries_5"
  unfolding fortinet_queries_5_def FORTINET_COMMANDS_def mk_query_def
  by (simp only: list.pred_inject prod.case query.simps simp_thms) (intro conjI; (rule mem_hd | rule mem_tl)+)

lemma top_fortinet_queries_5:
  "list_all (\<lambda>(_, q). \<not> starts_with FORTINET_TOP_PREFIX (qu_command q) \<or> qu_command q = FORTINET_TOP_SNAPSHOT) fortinet_queries_5"
  by code_simp

lemma reviewed_fortinet_queries_6: "list_all (\<lambda>(_, q). qu_command q \<in> set FORTINET_COMMANDS) fortinet_queries_6"
  unfolding fortinet_queries_6_def FORTINET_COMMANDS_def mk_query_def
  by (simp only: list.pred_inject prod.case query.simps simp_thms) (intro conjI; (rule mem_hd | rule mem_tl)+)

lemma top_fortinet_queries_6:
  "list_all (\<lambda>(_, q). \<not> starts_with FORTINET_TOP_PREFIX (qu_command q) \<or> qu_command q = FORTINET_TOP_SNAPSHOT) fortinet_queries_6"
  by code_simp

lemma reviewed_fortinet_queries_7: "list_all (\<lambda>(_, q). qu_command q \<in> set FORTINET_COMMANDS) fortinet_queries_7"
  unfolding fortinet_queries_7_def FORTINET_COMMANDS_def mk_query_def
  by (simp only: list.pred_inject prod.case query.simps simp_thms) (intro conjI; (rule mem_hd | rule mem_tl)+)

lemma top_fortinet_queries_7:
  "list_all (\<lambda>(_, q). \<not> starts_with FORTINET_TOP_PREFIX (qu_command q) \<or> qu_command q = FORTINET_TOP_SNAPSHOT) fortinet_queries_7"
  by code_simp

lemma reviewed_fortiadc_queries_1: "list_all (\<lambda>(_, q). qu_command q \<in> set FORTIADC_COMMANDS) fortiadc_queries_1"
  unfolding fortiadc_queries_1_def FORTIADC_COMMANDS_def mk_query_def
  by (simp only: list.pred_inject prod.case query.simps simp_thms) (intro conjI; (rule mem_hd | rule mem_tl)+)

lemma reviewed_fortiadc_queries_2: "list_all (\<lambda>(_, q). qu_command q \<in> set FORTIADC_COMMANDS) fortiadc_queries_2"
  unfolding fortiadc_queries_2_def FORTIADC_COMMANDS_def mk_query_def
  by (simp only: list.pred_inject prod.case query.simps simp_thms) (intro conjI; (rule mem_hd | rule mem_tl)+)

lemma reviewed_fortiadc_queries_3: "list_all (\<lambda>(_, q). qu_command q \<in> set FORTIADC_COMMANDS) fortiadc_queries_3"
  unfolding fortiadc_queries_3_def FORTIADC_COMMANDS_def mk_query_def
  by (simp only: list.pred_inject prod.case query.simps simp_thms) (intro conjI; (rule mem_hd | rule mem_tl)+)

section \<open>Evaluation of the catalogue\<close>

lemma quick_linux_linux_queries_part: "list_all (quick_query ''linux'') linux_queries_part"
  by code_simp

lemma valid_linux: "validate_queries ''linux'' LINUX_QUERIES = Inr ()"
  by (rule quick_queries_valid) (simp_all add: LINUX_QUERIES_def quick_linux_linux_queries_part
      reviewed_family(1) [OF reviewed_linux_queries_part])

lemma quick_fortinet_fortinet_queries_1: "list_all (quick_query ''fortinet'') fortinet_queries_1"
  by code_simp

lemma quick_fortinet_fortinet_queries_2: "list_all (quick_query ''fortinet'') fortinet_queries_2"
  by code_simp

lemma quick_fortinet_fortinet_queries_3: "list_all (quick_query ''fortinet'') fortinet_queries_3"
  by code_simp

lemma quick_fortinet_fortinet_queries_4: "list_all (quick_query ''fortinet'') fortinet_queries_4"
  by code_simp

lemma quick_fortinet_fortinet_queries_5: "list_all (quick_query ''fortinet'') fortinet_queries_5"
  by code_simp

lemma quick_fortinet_fortinet_queries_6: "list_all (quick_query ''fortinet'') fortinet_queries_6"
  by code_simp

lemma quick_fortinet_fortinet_queries_7: "list_all (quick_query ''fortinet'') fortinet_queries_7"
  by code_simp

lemma valid_fortinet: "validate_queries ''fortinet'' FORTINET_QUERIES = Inr ()"
  by (rule quick_queries_valid) (simp_all add: FORTINET_QUERIES_def quick_fortinet_fortinet_queries_1 quick_fortinet_fortinet_queries_2 quick_fortinet_fortinet_queries_3 quick_fortinet_fortinet_queries_4 quick_fortinet_fortinet_queries_5 quick_fortinet_fortinet_queries_6 quick_fortinet_fortinet_queries_7
      reviewed_family(2) [OF reviewed_fortinet_queries_1 top_fortinet_queries_1] reviewed_family(2) [OF reviewed_fortinet_queries_2 top_fortinet_queries_2] reviewed_family(2) [OF reviewed_fortinet_queries_3 top_fortinet_queries_3] reviewed_family(2) [OF reviewed_fortinet_queries_4 top_fortinet_queries_4] reviewed_family(2) [OF reviewed_fortinet_queries_5 top_fortinet_queries_5] reviewed_family(2) [OF reviewed_fortinet_queries_6 top_fortinet_queries_6] reviewed_family(2) [OF reviewed_fortinet_queries_7 top_fortinet_queries_7])

lemma quick_extreme_exos_extreme_exos_queries_1: "list_all (show_query ''extreme_exos'') extreme_exos_queries_1"
  by code_simp

lemma quick_extreme_exos_extreme_exos_queries_2: "list_all (show_query ''extreme_exos'') extreme_exos_queries_2"
  by code_simp

lemma quick_extreme_exos_extreme_exos_queries_3: "list_all (show_query ''extreme_exos'') extreme_exos_queries_3"
  by code_simp

lemma show_extreme_exos: "list_all (show_query ''extreme_exos'') EXTREME_EXOS_QUERIES"
  using quick_extreme_exos_extreme_exos_queries_1 quick_extreme_exos_extreme_exos_queries_2 quick_extreme_exos_extreme_exos_queries_3 by (simp add: EXTREME_EXOS_QUERIES_def)

lemma quick_cisco_ios_ios_queries_1: "list_all (show_query ''cisco_ios'') ios_queries_1"
  by code_simp

lemma quick_cisco_ios_ios_queries_2: "list_all (show_query ''cisco_ios'') ios_queries_2"
  by code_simp

lemma show_cisco_ios: "list_all (show_query ''cisco_ios'') IOS_QUERIES"
  using quick_cisco_ios_ios_queries_1 quick_cisco_ios_ios_queries_2 by (simp add: IOS_QUERIES_def)

lemma quick_cisco_xe_ios_xe_queries_1: "list_all (show_query ''cisco_xe'') ios_xe_queries_1"
  by code_simp

lemma quick_cisco_xe_ios_xe_queries_2: "list_all (show_query ''cisco_xe'') ios_xe_queries_2"
  by code_simp

lemma show_cisco_xe: "list_all (show_query ''cisco_xe'') IOS_XE_QUERIES"
  using quick_cisco_xe_ios_xe_queries_1 quick_cisco_xe_ios_xe_queries_2 by (simp add: IOS_XE_QUERIES_def)

lemma quick_cisco_nxos_nxos_queries_1: "list_all (show_query ''cisco_nxos'') nxos_queries_1"
  by code_simp

lemma quick_cisco_nxos_nxos_queries_2: "list_all (show_query ''cisco_nxos'') nxos_queries_2"
  by code_simp

lemma show_cisco_nxos: "list_all (show_query ''cisco_nxos'') NXOS_QUERIES"
  using quick_cisco_nxos_nxos_queries_1 quick_cisco_nxos_nxos_queries_2 by (simp add: NXOS_QUERIES_def)

lemma quick_arista_eos_arista_eos_queries_1: "list_all (show_query ''arista_eos'') arista_eos_queries_1"
  by code_simp

lemma quick_arista_eos_arista_eos_queries_2: "list_all (show_query ''arista_eos'') arista_eos_queries_2"
  by code_simp

lemma show_arista_eos: "list_all (show_query ''arista_eos'') ARISTA_EOS_QUERIES"
  using quick_arista_eos_arista_eos_queries_1 quick_arista_eos_arista_eos_queries_2 by (simp add: ARISTA_EOS_QUERIES_def)

lemma quick_juniper_junos_juniper_junos_queries_1: "list_all (show_query ''juniper_junos'') juniper_junos_queries_1"
  by code_simp

lemma quick_juniper_junos_juniper_junos_queries_2: "list_all (show_query ''juniper_junos'') juniper_junos_queries_2"
  by code_simp

lemma show_juniper_junos: "list_all (show_query ''juniper_junos'') JUNIPER_JUNOS_QUERIES"
  using quick_juniper_junos_juniper_junos_queries_1 quick_juniper_junos_juniper_junos_queries_2 by (simp add: JUNIPER_JUNOS_QUERIES_def)

lemma quick_juniper_junos_els_juniper_junos_queries_1: "list_all (show_query ''juniper_junos_els'') juniper_junos_queries_1"
  by code_simp

lemma quick_juniper_junos_els_juniper_junos_queries_2: "list_all (show_query ''juniper_junos_els'') juniper_junos_queries_2"
  by code_simp

lemma quick_juniper_junos_els_juniper_junos_els_queries_part: "list_all (show_query ''juniper_junos_els'') juniper_junos_els_queries_part"
  by code_simp

lemma show_juniper_junos_els: "list_all (show_query ''juniper_junos_els'') JUNIPER_JUNOS_ELS_QUERIES"
  using quick_juniper_junos_els_juniper_junos_queries_1 quick_juniper_junos_els_juniper_junos_queries_2 quick_juniper_junos_els_juniper_junos_els_queries_part by (simp add: JUNIPER_JUNOS_ELS_QUERIES_def JUNIPER_JUNOS_QUERIES_def)

lemma quick_ruckus_unleashed_ruckus_unleashed_queries_part: "list_all (show_query ''ruckus_unleashed'') ruckus_unleashed_queries_part"
  by code_simp

lemma show_ruckus_unleashed: "list_all (show_query ''ruckus_unleashed'') RUCKUS_UNLEASHED_QUERIES"
  using quick_ruckus_unleashed_ruckus_unleashed_queries_part by (simp add: RUCKUS_UNLEASHED_QUERIES_def)

lemma quick_fortiadc_fortiadc_queries_1: "list_all (quick_query ''fortiadc'') fortiadc_queries_1"
  by code_simp

lemma quick_fortiadc_fortiadc_queries_2: "list_all (quick_query ''fortiadc'') fortiadc_queries_2"
  by code_simp

lemma quick_fortiadc_fortiadc_queries_3: "list_all (quick_query ''fortiadc'') fortiadc_queries_3"
  by code_simp

lemma valid_fortiadc: "validate_queries ''fortiadc'' FORTIADC_QUERIES = Inr ()"
  by (rule quick_queries_valid) (simp_all add: FORTIADC_QUERIES_def quick_fortiadc_fortiadc_queries_1 quick_fortiadc_fortiadc_queries_2 quick_fortiadc_fortiadc_queries_3
      reviewed_family(3) [OF reviewed_fortiadc_queries_1] reviewed_family(3) [OF reviewed_fortiadc_queries_2] reviewed_family(3) [OF reviewed_fortiadc_queries_3])

lemmas show_platforms = show_extreme_exos show_cisco_ios show_cisco_xe show_cisco_nxos show_arista_eos
  show_juniper_junos show_juniper_junos_els show_ruckus_unleashed

lemmas valid_platforms = valid_linux valid_fortinet valid_fortiadc show_platforms [THEN show_queries_valid]

lemma catalogs_nonempty:
  "LINUX_QUERIES \<noteq> []" "FORTINET_QUERIES \<noteq> []" "EXTREME_EXOS_QUERIES \<noteq> []" "IOS_QUERIES \<noteq> []" "IOS_XE_QUERIES \<noteq> []" "NXOS_QUERIES \<noteq> []"
  "ARISTA_EOS_QUERIES \<noteq> []" "JUNIPER_JUNOS_QUERIES \<noteq> []" "JUNIPER_JUNOS_ELS_QUERIES \<noteq> []" "RUCKUS_UNLEASHED_QUERIES \<noteq> []" "FORTIADC_QUERIES \<noteq> []"
  by (simp_all add: LINUX_QUERIES_def linux_queries_part_def FORTINET_QUERIES_def fortinet_queries_1_def EXTREME_EXOS_QUERIES_def
      extreme_exos_queries_1_def IOS_QUERIES_def ios_queries_1_def IOS_XE_QUERIES_def ios_xe_queries_1_def NXOS_QUERIES_def nxos_queries_1_def
      ARISTA_EOS_QUERIES_def arista_eos_queries_1_def JUNIPER_JUNOS_QUERIES_def juniper_junos_queries_1_def JUNIPER_JUNOS_ELS_QUERIES_def
      RUCKUS_UNLEASHED_QUERIES_def ruckus_unleashed_queries_part_def FORTIADC_QUERIES_def fortiadc_queries_1_def)

lemma load_read_queries: "load_policy READ_QUERIES = Inr ()"
proof -
  have "set (keys READ_QUERIES) = set EXPECTED_PLATFORMS" by (auto simp: READ_QUERIES_def keys_def EXPECTED_PLATFORMS_def)
  moreover have "validate_query_catalogs READ_QUERIES = Inr ()"
    by (simp add: READ_QUERIES_def EXPECTED_PLATFORMS_def valid_platforms catalogs_nonempty then_check_def)
  ultimately show ?thesis by (simp add: load_policy_def)
qed

lemma read_queries_heads:
  assumes "query_of READ_QUERIES p name = Some q" and "p \<notin> {''linux'', ''fortinet'', ''fortiadc''}"
  shows "literal_head (name, q)" and "family_ok p (name, q)"
proof -
  obtain qs where qs: "map_of READ_QUERIES p = Some qs" "map_of qs name = Some q"
    using assms(1) by (auto simp: query_of_def split: Option.bind_splits)
  then have "list_all (show_query p) qs"
    using assms(2) show_platforms by (auto simp: READ_QUERIES_def split: if_splits)
  then have "show_query p (name, q)" using map_of_SomeD [OF qs(2)] by (simp add: list_all_iff)
  then show "literal_head (name, q)" and "family_ok p (name, q)" by (simp_all add: show_query_def)
qed

lemma show_second:
  assumes "family_ok p (name, q)" and "p \<notin> {''linux'', ''fortinet'', ''fortiadc''}" and "split_on blank (qu_command q) = ''show'' # w # ws"
  shows "\<not> full FORBIDDEN_SHOW_SECOND (casefold w)"
proof -
  define words where "words = split_on blank (inspected_of p (qu_command q))"
  have two: "2 \<le> length words" and free: "\<not> full FORBIDDEN_SHOW_SECOND (casefold (words ! 1))"
    using assms(1,2) by (auto simp: words_def family_ok_def validate_family_def runtime_error_def Let_def split: if_splits)
  have "\<exists>rest. split_on blank (qu_command q) = words @ rest"
  proof (cases "inspected_of p (qu_command q) = qu_command q")
    case False
    then have "ends_with JUNOS_SUFFIX (qu_command q)" "inspected_of p (qu_command q) = remove_suffix JUNOS_SUFFIX (qu_command q)"
      by (auto simp: inspected_of_def remove_suffix_def split: if_splits)
    then have "qu_command q = inspected_of p (qu_command q) @ blank # ''| no-more''"
      using remove_suffix_append [of JUNOS_SUFFIX "qu_command q"] by (simp add: JUNOS_SUFFIX_def)
    then show ?thesis using split_on_append [of blank "inspected_of p (qu_command q)" "''| no-more''"] by (metis words_def)
  qed (simp add: words_def)
  then have "words ! 1 = w" using two assms(3) by (cases words; cases "tl words") auto
  then show ?thesis using free by simp
qed

lemma split_on_two:
  assumes "split_on blank s = a # w # ws"
  shows "(ws = [] \<longrightarrow> s = a @ blank # w) \<and> (ws \<noteq> [] \<longrightarrow> (\<exists>t. s = a @ blank # w @ blank # t))"
    and "blank \<notin> set a" and "blank \<notin> set w"
proof -
  have "s = join [blank] (a # w # ws)" using join_split_on [of blank s] assms by simp
  then show "(ws = [] \<longrightarrow> s = a @ blank # w) \<and> (ws \<noteq> [] \<longrightarrow> (\<exists>t. s = a @ blank # w @ blank # t))"
    by (cases ws) auto
  have "blank \<notin> set p" if "p \<in> set (split_on blank s)" for p s
    using that by (induction s arbitrary: p) (auto split: if_splits list.splits)
  then show "blank \<notin> set a" and "blank \<notin> set w" using assms by (metis list.set_intros)+
qed


text \<open>(C18) No value can turn a \<open>show\<close> query into one of a forbidden family: on the platforms without a list of
  reviewed commands, a rendered command of the shipped catalogue starts with the word \<open>show\<close> and a second
  word that is none of the forbidden ones (configuration, logs, support files, shells), whatever the
  caller supplies.\<close>

theorem rendered_show_family:
  assumes "render_read_query READ_QUERIES platform query_name parameters inventory = Inr (p, command)"
    and "p \<notin> {''linux'', ''fortinet'', ''fortiadc''}"
  shows "\<exists>w ws. split_on blank command = ''show'' # w # ws \<and> \<not> full FORBIDDEN_SHOW_SECOND (casefold w) \<and> casefold w \<noteq> ''key''"
proof -
  obtain name supplied q rendered where q: "query_of READ_QUERIES p name = Some q"
    and command: "format_map (qu_command q) rendered = Inr command"
    using assms(1) by (rule render_read_query_cases)
  note head = read_queries_heads [OF q assms(2)] and valid = validated_parts [OF validated_query [OF load_read_queries q]]
  obtain w ws where words: "split_on blank (qu_command q) = ''show'' # w # ws" and w: "list_all (\<lambda>c. \<not> brace c) w" "casefold w \<noteq> ''key''"
    using head(1) by (auto simp: literal_head_def split: list.splits)
  have free: "\<not> full FORBIDDEN_SHOW_SECOND (casefold w)"
    using show_second [OF head(2) assms(2) words] .
  note two = split_on_two [OF words]
  have lit: "list_all (\<lambda>c. \<not> brace c) (''show '' @ w)" "list_all (\<lambda>c. \<not> brace c) (''show '' @ w @ '' '')" using w by (simp_all add: brace_def)
  note filled = format_map_fill [OF command] and parsed = valid(3)
  show ?thesis
  proof (cases "ws = []")
    case True
    then have t: "qu_command q = ''show '' @ w" using two(1) by simp
    then have "command = ''show '' @ w" using filled lit(1) by (simp add: format_plain then_check_def)
    then show ?thesis using words t free w by auto
  next
    case False
    then obtain t where t: "qu_command q = (''show '' @ w @ '' '') @ t" using two(1) by auto
    then obtain r where "command = (''show '' @ w @ '' '') @ r"
      using fill_prefix [OF lit(2), of t rendered command] filled parsed by auto
    then have "split_on blank command = ''show'' # w # split_on blank r"
      using split_on_append [of blank "''show''" "w @ blank # r"] split_on_append [of blank w r] split_on_free [OF two(3)] by simp
    then show ?thesis using free w by blast
  qed
qed

theorem rendered_show_family_witness:
  "\<exists>w ws. split_on blank ''show vlan users'' = ''show'' # w # ws \<and> \<not> full FORBIDDEN_SHOW_SECOND (casefold w) \<and> casefold w \<noteq> ''key''"
proof -
  have "render_read_query READ_QUERIES (JStr ''extreme_exos'') (JStr ''vlan_details'') (JObj [(''vlan'', JStr ''users'')])
      [(''vlans'', [''users''])] = Inr (''extreme_exos'', ''show vlan users'')"
    by code_simp
  moreover have "''extreme_exos'' \<notin> {''linux'', ''fortinet'', ''fortiadc''}" by simp
  ultimately show ?thesis by (rule rendered_show_family)
qed

theorem render_read_query_safe_witness:
  "\<exists>name q supplied. JStr ''interface_details'' = JStr name \<and> query_of READ_QUERIES ''juniper_junos'' name = Some q \<and>
    query_parameters (JObj [(''interface'', JStr ''ge-0/0/1'')]) = Inr supplied \<and>
    (\<forall>(n, s) \<in> set (qu_slots q). \<exists>v. map_of supplied n = Some v \<and> v \<in> set (listed [(''interfaces'', [''ge-0/0/1''])] (sl_inventory s))) \<and>
    safe_command ''juniper_junos'' ''show interfaces ge-0/0/1 extensive | no-more''"
proof -
  have "render_read_query READ_QUERIES (JStr ''juniper_junos'') (JStr ''interface_details'') (JObj [(''interface'', JStr ''ge-0/0/1'')])
      [(''interfaces'', [''ge-0/0/1''])] = Inr (''juniper_junos'', ''show interfaces ge-0/0/1 extensive | no-more'')"
    by code_simp
  from render_read_query_safe [OF load_read_queries this] show ?thesis .
qed

end
