(* ===== verification/Core_Session.thy ===== *)
theory Core_Session
  imports Netops_Net Complex_Main
begin

text \<open>
  The interactive session with a device, \<open>netops_core/session.py\<close>: waiting for one of several texts in
  what the device sends, and sending single lines; and \<open>netops_core/prompt.py\<close>, which removes the prompt
  from the answer of a command. The pseudo terminal, \<open>select\<close> and the monotonic clock are the fields of
  a terminal; a failing \<open>select\<close> is one that is not ready and a failing \<open>os.read\<close> one that reads nothing,
  as the source handles them. The bytes written and read are logged in the session.
\<close>

section \<open>Terminals and sessions\<close>

record 'd terminal =
  tt_host :: string
  tt_max_transcript_bytes :: nat
  tt_monotonic :: "'d \<Rightarrow> real \<times> 'd"
  tt_select :: "real \<Rightarrow> 'd \<Rightarrow> bool \<times> 'd"
  tt_read :: "'d \<Rightarrow> string \<times> 'd"
  tt_write :: "string \<Rightarrow> 'd \<Rightarrow> (string + nat) \<times> 'd"

record 'd session =
  ss_pending :: string
  ss_closed :: bool
  ss_seen_bytes :: nat
  ss_discarded_login_bytes :: nat
  ss_written :: string
  ss_read :: string
  ss_world :: 'd

definition session_error :: "string \<Rightarrow> exn" where
  "session_error message = OtherError ''SessionError'' message"

definition POLL_SECONDS :: real where "POLL_SECONDS = 1 / 5"

text \<open>\<open>"%.1f"\<close>: to tenths, halves to the even neighbour\<close>

definition half_even :: "real \<Rightarrow> int" where
  "half_even r = (let n = \<lfloor>r\<rfloor>; part = r - of_int n in if part < 1 / 2 \<or> part = 1 / 2 \<and> even n then n else n + 1)"

definition show_tenths :: "real \<Rightarrow> string" where
  "show_tenths r = (let n = nat (half_even (10 * r)) in show_nat (n div 10) @ ''.'' @ show_nat (n mod 10))"

section \<open>Waiting for a text\<close>

text \<open>\<open>buffer.find(pattern)\<close>\<close>

fun find_at :: "string \<Rightarrow> string \<Rightarrow> nat option" where
  "find_at p [] = (if p = [] then Some 0 else None)"
| "find_at p (c # cs) = (if starts_with p (c # cs) then Some 0 else map_option Suc (find_at p cs))"

text \<open>\<open>_match\<close>: the place and the number of the pattern found first\<close>

fun match_loop :: "string \<Rightarrow> nat \<Rightarrow> string list \<Rightarrow> (nat \<times> nat) option \<Rightarrow> (nat \<times> nat) option" where
  "match_loop buffer position [] best = best"
| "match_loop buffer position (p # ps) best =
     match_loop buffer (Suc position) ps (case find_at p buffer of
       None \<Rightarrow> best
     | Some found \<Rightarrow> (case best of
         None \<Rightarrow> Some (found, position)
       | Some (place, index) \<Rightarrow>
           if found < place \<or> found = place \<and> position < index then Some (found, position) else best))"

definition match_in :: "string \<Rightarrow> string list \<Rightarrow> (nat \<times> nat) option" where
  "match_in buffer patterns =
     map_option (\<lambda>(place, index). (index, place + length (patterns ! index))) (match_loop buffer 0 patterns None)"

definition checked_patterns :: "string list \<Rightarrow> exn + string list" where
  "checked_patterns patterns =
     (if [] \<in> set patterns then Inl (session_error ''a pattern must not be empty'')
      else if patterns = [] then Inl (session_error ''expect needs at least one pattern to wait for'')
      else Inr patterns)"

text \<open>One round of the loop: the clock, \<open>select\<close> and \<open>os.read\<close>\<close>

datatype round = Late | Quiet | Ended | Chunk string

definition poll :: "'d terminal \<Rightarrow> real \<Rightarrow> 'd \<Rightarrow> round \<times> 'd" where
  "poll tt deadline d =
     (let (now, d) = tt_monotonic tt d in
      if now \<ge> deadline then (Late, d)
      else let (now, d) = tt_monotonic tt d; (ready, d) = tt_select tt (min POLL_SECONDS (max 0 (deadline - now))) d in
        if \<not> ready then (Quiet, d)
        else let (chunk, d) = tt_read tt d in (if chunk = [] then Ended else Chunk chunk, d))"

definition gave_up :: "nat \<Rightarrow> 'd session \<Rightarrow> string \<Rightarrow> ((exn + nat \<times> string) \<times> 'd session) option" where
  "gave_up seen s message = Some (Inl (session_error message), s\<lparr>ss_seen_bytes := ss_seen_bytes s + seen\<rparr>)"

definition no_answer :: "'d terminal \<Rightarrow> nat \<Rightarrow> real \<Rightarrow> nat \<Rightarrow> string" where
  "no_answer tt awaited seconds seen = tt_host tt @ '' did not answer any of the '' @ show_nat awaited
     @ '' awaited pattern(s) within '' @ show_tenths seconds @ '' seconds, '' @ show_nat seen @ '' byte(s) seen''"

definition ended_early :: "'d terminal \<Rightarrow> nat \<Rightarrow> nat \<Rightarrow> string" where
  "ended_early tt awaited seen = ''the session to '' @ tt_host tt @ '' ended before any of the '' @ show_nat awaited
     @ '' awaited pattern(s) matched, '' @ show_nat seen @ '' byte(s) seen''"

definition too_much :: "'d terminal \<Rightarrow> nat \<Rightarrow> string" where
  "too_much tt awaited = ''the session to '' @ tt_host tt @ '' produced more than '' @ show_nat (tt_max_transcript_bytes tt)
     @ '' bytes without matching any of the '' @ show_nat awaited @ '' awaited pattern(s) and was stopped''"

text \<open>The loop of \<open>expect\<close>; \<open>None\<close> means that it does not end.\<close>

partial_function (option) expect_loop ::
  "'d terminal \<Rightarrow> string list \<Rightarrow> real \<Rightarrow> real \<Rightarrow> string \<Rightarrow> 'd session \<Rightarrow> ((exn + nat \<times> string) \<times> 'd session) option" where
  "expect_loop tt awaited seconds deadline buffer s =
     (case match_in buffer awaited of
        Some (index, upto_here) \<Rightarrow> Some (Inr (index, take upto_here buffer), s\<lparr>ss_pending := drop upto_here buffer\<rparr>)
      | None \<Rightarrow> (case poll tt deadline (ss_world s) of (outcome, d) \<Rightarrow> (case outcome of
          Late \<Rightarrow> gave_up (length buffer) (s\<lparr>ss_world := d\<rparr>) (no_answer tt (length awaited) seconds (length buffer))
        | Quiet \<Rightarrow> expect_loop tt awaited seconds deadline buffer (s\<lparr>ss_world := d\<rparr>)
        | Ended \<Rightarrow> gave_up (length buffer) (s\<lparr>ss_world := d\<rparr>) (ended_early tt (length awaited) (length buffer))
        | Chunk chunk \<Rightarrow>
            if length (buffer @ chunk) > tt_max_transcript_bytes tt
            then gave_up (length (buffer @ chunk)) (s\<lparr>ss_world := d, ss_read := ss_read s @ chunk\<rparr>) (too_much tt (length awaited))
            else expect_loop tt awaited seconds deadline (buffer @ chunk) (s\<lparr>ss_world := d, ss_read := ss_read s @ chunk\<rparr>))))"

definition already_closed :: "'d terminal \<Rightarrow> exn" where
  "already_closed tt = session_error (''the session to '' @ tt_host tt @ '' is already closed'')"

definition expect :: "'d terminal \<Rightarrow> string list \<Rightarrow> real \<Rightarrow> 'd session \<Rightarrow> ((exn + nat \<times> string) \<times> 'd session) option" where
  "expect tt patterns timeout s =
     (if ss_closed s then Some (Inl (already_closed tt), s)
      else case checked_patterns patterns of
        Inl x \<Rightarrow> Some (Inl x, s)
      | Inr awaited \<Rightarrow>
          if timeout \<le> 0 then Some (Inl (OtherError ''SshError'' ''timeout must be a positive number of seconds''), s)
          else let (now, d) = tt_monotonic tt (ss_world s) in
            expect_loop tt awaited timeout (now + timeout) (ss_pending s) (s\<lparr>ss_pending := [], ss_world := d\<rparr>))"

definition discard :: "string \<Rightarrow> 'd session \<Rightarrow> 'd session" where
  "discard data s = s\<lparr>ss_discarded_login_bytes := ss_discarded_login_bytes s + length data\<rparr>"

section \<open>Sending a line\<close>

text \<open>The loop of \<open>send\<close>: \<open>os.write\<close> may take a part of the bytes; a failure, by the name of its class, or
  nothing written ends it.\<close>

function write_loop :: "'d terminal \<Rightarrow> string \<Rightarrow> 'd session \<Rightarrow> string option \<times> 'd session" where
  "write_loop tt data s =
     (if data = [] then (None, s)
      else let (written, d) = tt_write tt data (ss_world s) in
        case written of
          Inl failure \<Rightarrow> (Some failure, s\<lparr>ss_world := d\<rparr>)
        | Inr n \<Rightarrow>
            if n = 0 then (Some ''OSError'', s\<lparr>ss_world := d\<rparr>)
            else write_loop tt (drop n data) (s\<lparr>ss_world := d, ss_written := ss_written s @ take n data\<rparr>))"
  by pat_completeness auto

termination write_loop
  by (relation "measure (\<lambda>(tt, data, s). length data)") auto

declare write_loop.simps [simp del]

definition SINGLE_LINE :: exn where
  "SINGLE_LINE = session_error ''a session line must be a single line, the session adds the newline itself''"

definition send :: "'d terminal \<Rightarrow> string \<Rightarrow> ('d session, unit) act" where
  "send tt line s =
     (if ss_closed s then (Inl (already_closed tt), s)
      else if list_ex (\<lambda>mark. mark \<in> set line) [newline, creturn, CHR 0x00] then (Inl SINGLE_LINE, s)
      else case write_loop tt (line @ [newline]) s of
          (None, s') \<Rightarrow> (Inr (), s')
        | (Some failure, s') \<Rightarrow>
            (Inl (session_error (''cannot write to the session to '' @ tt_host tt @ '' ('' @ failure @ '')'')), s'))"

section \<open>The prompt in the answer of a command\<close>

text \<open>\<open>prefix\<close>: the platforms whose answers carry a prompt\<close>

definition PROMPT_PLATFORMS :: "string list" where
  "PROMPT_PLATFORMS = [''fortios'', ''exos'', ''fortiadc'', ''fortinet'', ''extreme_exos'']"

definition is_marker :: "char \<Rightarrow> bool" where
  "is_marker c \<longleftrightarrow> c = CHR ''#'' \<or> c = CHR ''$''"

text \<open>\<open>PATTERN\<close> on the first line: a name, a blank, the first marker of the line and a blank\<close>

definition prompt_marker :: "string \<Rightarrow> string option" where
  "prompt_marker line =
     (let name = takeWhile (\<lambda>c. \<not> is_marker c) line in
      case dropWhile (\<lambda>c. \<not> is_marker c) line of
        m # c # _ \<Rightarrow> if c = blank \<and> length name \<ge> 2 \<and> last name = blank then Some (name @ [m, c]) else None
      | _ \<Rightarrow> None)"

fun drop_prompts :: "string \<Rightarrow> string list \<Rightarrow> string \<Rightarrow> string list \<times> string" where
  "drop_prompts bare [] ending = ([], ending)"
| "drop_prompts bare (line # rest) ending =
     (if rstrip line = bare then drop_prompts bare rest [newline] else (line # rest, ending))"

definition cleaned :: "string \<Rightarrow> string \<Rightarrow> string" where
  "cleaned answer platform =
     (if platform \<notin> set PROMPT_PLATFORMS \<or> answer = [] then answer
      else case prompt_marker (hd (split_on newline answer)) of
        None \<Rightarrow> answer
      | Some marker \<Rightarrow>
          let ls = split_on newline answer;
              (ls, ending) = (if last ls = [] then (butlast ls, [newline]) else (ls, []));
              ls = drop (length marker) (hd ls) # tl ls;
              (kept, ending) = drop_prompts (rstrip marker) (rev ls) ending
          in join [newline] (rev kept) @ (if kept = [] then [] else ending))"

section \<open>The first text of the stream\<close>

lemma find_at_Some: "find_at p s = Some k \<longleftrightarrow> k \<le> length s \<and> starts_with p (drop k s) \<and> (\<forall>j < k. \<not> starts_with p (drop j s))"
proof (induction s arbitrary: k)
  case Nil
  then show ?case by (auto simp: starts_with_def)
next
  case (Cons c cs)
  then show ?case by (cases k) (auto simp: less_Suc_eq_0_disj)
qed

lemma find_at_None: "find_at p s = None \<Longrightarrow> k \<le> length s \<Longrightarrow> \<not> starts_with p (drop k s)"
proof (induction s arbitrary: k)
  case Nil
  then show ?case by (auto simp: starts_with_def split: if_splits)
next
  case (Cons c cs)
  then show ?case by (cases k) (auto split: if_splits)
qed

text \<open>What the loop of \<open>_match\<close> has found among the patterns before \<open>position\<close>\<close>

definition best_of :: "string \<Rightarrow> string list \<Rightarrow> nat \<Rightarrow> (nat \<times> nat) option \<Rightarrow> bool" where
  "best_of buffer pats position best \<longleftrightarrow> (case best of
     None \<Rightarrow> \<forall>j < position. find_at (pats ! j) buffer = None
   | Some (place, i) \<Rightarrow> i < position \<and> find_at (pats ! i) buffer = Some place
       \<and> (\<forall>j < position. \<forall>g. find_at (pats ! j) buffer = Some g \<longrightarrow> place < g \<or> place = g \<and> i \<le> j))"

lemma match_loop_best:
  "best_of buffer (as @ ps) (length as) best \<Longrightarrow>
   best_of buffer (as @ ps) (length as + length ps) (match_loop buffer (length as) ps best)"
proof (induction ps arbitrary: as best)
  case (Cons p ps)
  let ?best = "case find_at p buffer of None \<Rightarrow> best | Some found \<Rightarrow> (case best of None \<Rightarrow> Some (found, length as)
     | Some (place, index) \<Rightarrow> if found < place \<or> found = place \<and> length as < index then Some (found, length as) else best)"
  have "best_of buffer (as @ p # ps) (Suc (length as)) ?best"
    using Cons.prems unfolding best_of_def
    by (auto simp: less_Suc_eq nth_append split: option.splits if_splits) fastforce+
  then show ?case using Cons.IH [of "as @ [p]" ?best] by simp
qed simp

lemma match_in_Some:
  assumes "match_in buffer pats = Some (i, stop)"
  obtains place where "i < length pats" and "find_at (pats ! i) buffer = Some place" and "stop = place + length (pats ! i)"
    and "\<And>j g. j < length pats \<Longrightarrow> find_at (pats ! j) buffer = Some g \<Longrightarrow> place \<le> g"
proof -
  have "best_of buffer pats (length pats) (match_loop buffer 0 pats None)"
    using match_loop_best [of buffer "[]" pats None] by (simp add: best_of_def)
  moreover obtain place where "match_loop buffer 0 pats None = Some (place, i)" and "stop = place + length (pats ! i)"
    using assms by (auto simp: match_in_def)
  ultimately show ?thesis using that [of place] by (fastforce simp: best_of_def)
qed

text \<open>The text that \<open>expect\<close> returns is the stream up to the end of a pattern that starts first in it.\<close>

definition first_match :: "string list \<Rightarrow> nat \<Rightarrow> string \<Rightarrow> string \<Rightarrow> bool" where
  "first_match pats i data rest \<longleftrightarrow> i < length pats \<and> (\<exists>lead. data = lead @ pats ! i \<and>
     (\<forall>k < length lead. \<forall>p \<in> set pats. \<not> starts_with p (drop k (data @ rest))))"

lemma match_in_first:
  assumes "match_in buffer pats = Some (i, stop)"
  shows "first_match pats i (take stop buffer) (drop stop buffer)"
proof -
  obtain place where i: "i < length pats" and found: "find_at (pats ! i) buffer = Some place"
    and stop: "stop = place + length (pats ! i)"
    and least: "\<And>j g. j < length pats \<Longrightarrow> find_at (pats ! j) buffer = Some g \<Longrightarrow> place \<le> g"
    using match_in_Some [OF assms] by blast
  have place: "place \<le> length buffer" "take (length (pats ! i)) (drop place buffer) = pats ! i"
    using found by (simp_all add: find_at_Some starts_with_def)
  then have "take stop buffer = take place buffer @ pats ! i"
    by (simp add: stop take_add)
  moreover have "\<not> starts_with p (drop k buffer)" if k: "k < place" and p: "p \<in> set pats" for k p
  proof
    assume start: "starts_with p (drop k buffer)"
    obtain j where j: "j < length pats" "pats ! j = p" using p by (auto simp: in_set_conv_nth)
    have "k \<le> length buffer" using k place(1) by simp
    then obtain g where g: "find_at p buffer = Some g" using start find_at_None by fastforce
    then have "g \<le> k" using start by (metis find_at_Some not_le)
    with least [OF j(1)] j(2) g k show False by fastforce
  qed
  moreover have "take stop buffer @ drop stop buffer = buffer" by simp
  ultimately show ?thesis using i place(1) unfolding first_match_def by (metis length_take min_absorb2)
qed

text \<open>What a run of the loop has done to the session: nothing of the stream is lost.\<close>

definition expect_exact :: "string list \<Rightarrow> string \<Rightarrow> 'd session \<Rightarrow> (exn + nat \<times> string) \<times> 'd session \<Rightarrow> bool" where
  "expect_exact pats buffer s y \<longleftrightarrow> (\<exists>r s' new. y = (r, s') \<and> ss_read s' = ss_read s @ new \<and> ss_written s' = ss_written s \<and>
     (case r of Inl _ \<Rightarrow> True
      | Inr (i, data) \<Rightarrow> data @ ss_pending s' = buffer @ new \<and> first_match pats i data (ss_pending s')))"

lemma expect_exact_read:
  "expect_exact pats (buffer @ chunk) (s\<lparr>ss_world := d, ss_read := ss_read s @ chunk\<rparr>) y \<Longrightarrow> expect_exact pats buffer s y"
  by (auto simp: expect_exact_def split: sum.splits)

lemma expect_exact_quiet: "expect_exact pats buffer (s\<lparr>ss_world := d\<rparr>) y \<Longrightarrow> expect_exact pats buffer s y"
  by (simp add: expect_exact_def)

lemma expect_loop_exact:
  assumes "expect_loop tt pats seconds deadline buffer s = Some y"
  shows "expect_exact pats buffer s y"
proof (rule expect_loop.raw_induct [OF _ assms], goal_cases)
  case (1 loop tt pats seconds deadline buffer s y)
  show ?case
  proof (cases "match_in buffer pats")
    case None
    obtain outcome d where poll: "poll tt deadline (ss_world s) = (outcome, d)" by fastforce
    show ?thesis
    proof (cases outcome)
      case Quiet
      then have "loop tt pats seconds deadline buffer (s\<lparr>ss_world := d\<rparr>) = Some y" using 1(2) None poll by simp
      from expect_exact_quiet [OF 1(1) [OF this]] show ?thesis .
    next
      case (Chunk chunk)
      show ?thesis
      proof (cases "length (buffer @ chunk) > tt_max_transcript_bytes tt")
        case True
        then show ?thesis using 1(2) None poll Chunk by (auto simp: gave_up_def expect_exact_def)
      next
        case False
        then have "loop tt pats seconds deadline (buffer @ chunk) (s\<lparr>ss_world := d, ss_read := ss_read s @ chunk\<rparr>) = Some y"
          using 1(2) None poll Chunk by simp
        from expect_exact_read [OF 1(1) [OF this]] show ?thesis .
      qed
    qed (use 1(2) None poll in \<open>auto simp: gave_up_def expect_exact_def\<close>)
  next
    case (Some found)
    then show ?thesis
      using 1(2) match_in_first by (cases found) (auto simp: expect_exact_def)
  qed
qed

text \<open>(C14) Whatever chunks the device sends, \<open>expect\<close> loses and reorders nothing: the text it returns
  followed by the text it keeps for the next call is what was kept before followed by what was read;
  the returned text ends with the awaited pattern it names, and no awaited pattern starts earlier.\<close>

theorem expect_first_match:
  assumes "expect tt patterns timeout s = Some (Inr (i, data), s')"
  shows "\<exists>new. ss_read s' = ss_read s @ new \<and> ss_written s' = ss_written s \<and> data @ ss_pending s' = ss_pending s @ new
     \<and> first_match patterns i data (ss_pending s')"
proof -
  obtain now d where clock: "tt_monotonic tt (ss_world s) = (now, d)" by fastforce
  have "expect_loop tt patterns timeout (now + timeout) (ss_pending s) (s\<lparr>ss_pending := [], ss_world := d\<rparr>) = Some (Inr (i, data), s')"
    using assms clock by (auto simp: expect_def checked_patterns_def split: if_splits sum.splits)
  from expect_loop_exact [OF this] show ?thesis by (auto simp: expect_exact_def)
qed

section \<open>Every wait ends\<close>

text \<open>\<open>steady tt moment\<close>: the time \<open>moment\<close> is what the monotonic clock shows, it does not go back, and a
  \<open>select\<close> that is not ready has waited for its whole timeout.\<close>

definition steady :: "'d terminal \<Rightarrow> ('d \<Rightarrow> real) \<Rightarrow> bool" where
  "steady tt moment \<longleftrightarrow> (\<forall>d. fst (tt_monotonic tt d) = moment d \<and> moment (snd (tt_monotonic tt d)) \<ge> moment d
     \<and> moment (snd (tt_read tt d)) \<ge> moment d
     \<and> (\<forall>seconds. moment (snd (tt_select tt seconds d)) \<ge> (if fst (tt_select tt seconds d) then moment d else moment d + seconds)))"

definition rounds_left :: "real \<Rightarrow> real \<Rightarrow> nat" where
  "rounds_left deadline now = nat \<lceil>(deadline - now) / POLL_SECONDS\<rceil>"

lemma rounds_left_mono: "now \<le> later \<Longrightarrow> rounds_left deadline later \<le> rounds_left deadline now"
  unfolding rounds_left_def POLL_SECONDS_def by (intro nat_mono ceiling_mono divide_right_mono) simp_all

lemma rounds_left_step:
  assumes "now < deadline" and "later \<ge> now + min POLL_SECONDS (deadline - now)"
  shows "rounds_left deadline later < rounds_left deadline now"
proof -
  let ?r = "(deadline - now) / POLL_SECONDS" and ?l = "(deadline - later) / POLL_SECONDS"
  have r: "\<lceil>?r\<rceil> > 0" and "?l \<le> 0 \<or> ?l \<le> ?r - 1"
    using assms by (auto simp: POLL_SECONDS_def min_def split: if_splits)
  then have "\<lceil>?l\<rceil> \<le> 0 \<or> \<lceil>?l\<rceil> \<le> \<lceil>?r\<rceil> - 1"
    by (metis ceiling_diff_one ceiling_mono ceiling_zero)
  with r show ?thesis unfolding rounds_left_def by linarith
qed

lemma poll_steady:
  assumes "steady tt moment" and "poll tt deadline d = (outcome, d')"
  shows "moment d' \<ge> moment d" and "outcome \<noteq> Late \<Longrightarrow> moment d < deadline"
    and "outcome = Quiet \<Longrightarrow> rounds_left deadline (moment d') < rounds_left deadline (moment d)"
    and "outcome = Chunk chunk \<Longrightarrow> chunk \<noteq> []"
proof -
  obtain n1 d1 where d1: "tt_monotonic tt d = (n1, d1)" by fastforce
  obtain n2 d2 where d2: "tt_monotonic tt d1 = (n2, d2)" by fastforce
  define seconds where "seconds = min POLL_SECONDS (max 0 (deadline - n2))"
  obtain ready d3 where d3: "tt_select tt seconds d2 = (ready, d3)" by fastforce
  obtain got d4 where d4: "tt_read tt d3 = (got, d4)" by fastforce
  have times: "n1 = moment d" "moment d1 \<ge> moment d" "n2 = moment d1" "moment d2 \<ge> moment d1"
    "moment d3 \<ge> (if ready then moment d2 else moment d2 + seconds)" "moment d4 \<ge> moment d3"
    using assms(1) d1 d2 d3 d4 unfolding steady_def by (metis fst_conv snd_conv)+
  have "seconds \<ge> 0" by (simp add: seconds_def POLL_SECONDS_def)
  have run: "(outcome, d') = (if n1 \<ge> deadline then (Late, d1) else if \<not> ready then (Quiet, d3)
      else (if got = [] then Ended else Chunk got, d4))"
    using assms(2) d1 d2 d3 d4 by (auto simp: poll_def seconds_def split: if_splits)
  show "moment d' \<ge> moment d" and "outcome \<noteq> Late \<Longrightarrow> moment d < deadline"
    and "outcome = Chunk chunk \<Longrightarrow> chunk \<noteq> []"
    using run times \<open>seconds \<ge> 0\<close> by (auto split: if_splits)
  show "rounds_left deadline (moment d') < rounds_left deadline (moment d)" if "outcome = Quiet"
  proof (rule rounds_left_step)
    show "moment d < deadline" and "moment d' \<ge> moment d + min POLL_SECONDS (deadline - moment d)"
      using that run times unfolding seconds_def POLL_SECONDS_def by (auto split: if_splits)
  qed
qed

lemma expect_loop_ends:
  assumes "steady tt moment"
  shows "\<exists>r. expect_loop tt pats seconds deadline buffer s = Some r"
proof (induction "Suc (tt_max_transcript_bytes tt) - length buffer + rounds_left deadline (moment (ss_world s))"
    arbitrary: buffer s rule: less_induct)
  case less
  obtain outcome d where poll: "poll tt deadline (ss_world s) = (outcome, d)" by fastforce
  note progress = poll_steady [OF assms poll]
  show ?case
  proof (cases "match_in buffer pats = None")
    case False
    then show ?thesis by (subst expect_loop.simps) auto
  next
    case none: True
    show ?thesis
    proof (cases outcome)
      case Quiet
      with progress(3) less [of buffer "s\<lparr>ss_world := d\<rparr>"]
      show ?thesis using none poll by (subst expect_loop.simps) simp
    next
      case (Chunk chunk)
      show ?thesis
      proof (cases "length (buffer @ chunk) > tt_max_transcript_bytes tt")
        case True
        then show ?thesis using none poll Chunk by (subst expect_loop.simps) (simp add: gave_up_def)
      next
        case False
        moreover have "length chunk > 0" using progress(4) [OF Chunk] by simp
        ultimately have "Suc (tt_max_transcript_bytes tt) - length (buffer @ chunk) + rounds_left deadline (moment d)
            < Suc (tt_max_transcript_bytes tt) - length buffer + rounds_left deadline (moment (ss_world s))"
          using rounds_left_mono [OF progress(1), of deadline] unfolding length_append by linarith
        with False less [of "buffer @ chunk" "s\<lparr>ss_world := d, ss_read := ss_read s @ chunk\<rparr>"]
        show ?thesis using none poll Chunk by (subst expect_loop.simps) (simp add: gave_up_def)
      qed
    qed (use none poll in \<open>subst expect_loop.simps, simp add: gave_up_def\<close>)+
  qed
qed

text \<open>(C15) Every call of \<open>expect\<close> ends, with a match or with an error, when the monotonic clock moves on:
  the silent rounds are bounded by the timeout and the others by the limit of the transcript.\<close>

theorem expect_ends:
  assumes "steady tt moment"
  shows "\<exists>r s'. expect tt patterns timeout s = Some (r, s')"
proof -
  obtain now d where clock: "tt_monotonic tt (ss_world s) = (now, d)" by fastforce
  obtain r where "expect_loop tt patterns timeout (now + timeout) (ss_pending s) (s\<lparr>ss_pending := [], ss_world := d\<rparr>) = Some r"
    using expect_loop_ends [OF assms] by blast
  then show ?thesis using clock by (cases r) (auto simp: expect_def checked_patterns_def)
qed

section \<open>A terminal\<close>

text \<open>A terminal that sends its chunks one after the other and then stays silent; its clock moves only
  while \<open>select\<close> waits.\<close>

definition chunk_terminal :: "(real \<times> string list) terminal" where
  "chunk_terminal = \<lparr>tt_host = ''192.0.2.1'', tt_max_transcript_bytes = 100, tt_monotonic = (\<lambda>(t, cs). (t, (t, cs))),
     tt_select = (\<lambda>seconds (t, cs). if cs = [] then (False, (t + seconds, cs)) else (True, (t, cs))),
     tt_read = (\<lambda>(t, cs). case cs of [] \<Rightarrow> ([], (t, cs)) | c # cs \<Rightarrow> (c, (t, cs))), tt_write = (\<lambda>data d. (Inr 4, d))\<rparr>"

definition chunk_session :: "string list \<Rightarrow> (real \<times> string list) session" where
  "chunk_session chunks = \<lparr>ss_pending = [], ss_closed = False, ss_seen_bytes = 0, ss_discarded_login_bytes = 0,
     ss_written = [], ss_read = [], ss_world = (0, chunks)\<rparr>"

lemma chunk_terminal_steady: "steady chunk_terminal fst"
  by (auto simp: steady_def chunk_terminal_def split: list.splits)

text \<open>The prompt arrives in two chunks; what follows it is kept.\<close>

lemma chunk_run:
  "expect chunk_terminal [''fw1'', ''1 #''] 30 (chunk_session [''ab fw'', ''1 # '']) =
     Some (Inr (0, ''ab fw1''), (chunk_session [])\<lparr>ss_pending := '' # '', ss_read := ''ab fw1 # ''\<rparr>)"
  by (simp add: expect_def checked_patterns_def chunk_session_def chunk_terminal_def expect_loop.simps match_in_def poll_def
      starts_with_def POLL_SECONDS_def)

theorem expect_first_match_witness:
  "\<exists>s' new. expect chunk_terminal [''fw1'', ''1 #''] 30 (chunk_session [''ab fw'', ''1 # '']) = Some (Inr (0, ''ab fw1''), s')
     \<and> ss_read s' = new \<and> ''ab fw1'' @ ss_pending s' = new \<and> first_match [''fw1'', ''1 #''] 0 ''ab fw1'' (ss_pending s')"
  using expect_first_match [OF chunk_run] chunk_run by (auto simp: chunk_session_def)

theorem expect_ends_witness:
  "steady chunk_terminal fst \<and> (\<exists>r s'. expect chunk_terminal [''fw1''] 30 (chunk_session [''ab'']) = Some (r, s'))"
  using expect_ends [OF chunk_terminal_steady] chunk_terminal_steady by blast

end
