(* ===== verification/Admin_Access.thy ===== *)
theory Admin_Access
  imports Admin_Execute Core_Session
begin

text \<open>
  The access to a device, \<open>netops_admin/access.py\<close>: snapshots, queries and the interactive dialogue that
  sends the lines of a change. SSH commands, the collection of snapshots, host keys and the session of
  \<open>netops_core\<close> are the fields of a network; an operation of the network that fails returns the message of
  its exception. What is typed into a session is logged, the password of an administrator as a secret.
\<close>

section \<open>Network and endpoint\<close>

record ran =
  rn_rc :: int
  rn_stdout :: string
  rn_stderr :: string

type_synonym ('x, 'a) net = "'x \<Rightarrow> (string + 'a) \<times> 'x"

record 'x network =
  nw_credentials :: "('x, credential \<times> credential) net"
  nw_scan :: "string \<Rightarrow> ('x, string) net"
  nw_collect_ssh :: "credential \<Rightarrow> ('x, string) net"
  nw_run_command :: "string \<Rightarrow> credential \<Rightarrow> string \<Rightarrow> string \<Rightarrow> real \<Rightarrow> ('x, ran) net"
  nw_session :: "string \<Rightarrow> credential \<Rightarrow> string \<Rightarrow> ('x, unit) net"
  nw_send :: "string \<Rightarrow> ('x, unit) net"
  nw_expect :: "string list \<Rightarrow> real \<Rightarrow> ('x, nat \<times> string) net"
  nw_discard :: "string \<Rightarrow> 'x \<Rightarrow> 'x"
  nw_close :: "'x \<Rightarrow> 'x"

record endpoint =
  ep_platform :: string
  ep_address :: string
  ep_check_address :: "string option"
  ep_credential :: credential
  ep_check_credential :: credential

datatype sent = Typed string | Secret

text \<open>The state of an access: \<open>read_seconds\<close>, the host keys seen so far and the log of the dialogue\<close>

record 'x link =
  lk_read_seconds :: "real option"
  lk_host_key_lines :: "(string, string) dict"
  lk_sent :: "sent list"
  lk_world :: 'x

definition QUERY_TIMEOUT_SECONDS :: real where "QUERY_TIMEOUT_SECONDS = 60"
definition LINE_TIMEOUT_SECONDS :: real where "LINE_TIMEOUT_SECONDS = 30"
definition LOGIN_TIMEOUT_SECONDS :: real where "LOGIN_TIMEOUT_SECONDS = 30"
definition PASSWORD_PROMPT :: string where "PASSWORD_PROMPT = ''password:''"
definition STDERR_MAX_BYTES :: nat where "STDERR_MAX_BYTES = 65536"

text \<open>An operation of the network whose failure is raised as \<open>failure message\<close>\<close>

definition net :: "(string \<Rightarrow> exn) \<Rightarrow> ('x, 'a) net \<Rightarrow> ('x link, 'a) act" where
  "net failure m k = (case m (lk_world k) of
     (Inl why, x) \<Rightarrow> (Inl (failure why), k\<lparr>lk_world := x\<rparr>)
   | (Inr v, x) \<Rightarrow> (Inr v, k\<lparr>lk_world := x\<rparr>))"

definition access_error :: "string \<Rightarrow> exn" where
  "access_error why = AccessError why 0"

section \<open>Snapshots and queries\<close>

definition host_key :: "'x network \<Rightarrow> string \<Rightarrow> ('x link, string) act" where
  "host_key nw address = bind (fetch lk_host_key_lines) (\<lambda>known. case map_of known address of
     Some line \<Rightarrow> ret line
   | None \<Rightarrow> bind (net (\<lambda>m. access_error (''host key check failed: '' @ m)) (nw_scan nw address)) (\<lambda>line.
       seq (modify (\<lambda>k. k\<lparr>lk_host_key_lines := AList.update address line (lk_host_key_lines k)\<rparr>)) (ret line)))"

definition snapshot_text :: "'x network \<Rightarrow> endpoint \<Rightarrow> ('x link, string) act" where
  "snapshot_text nw ep = net (\<lambda>m. access_error (''snapshot collection failed: '' @ m)) (nw_collect_ssh nw (ep_credential ep))"

definition read_timeout :: "real option \<Rightarrow> real" where
  "read_timeout read_seconds = (case read_seconds of
     None \<Rightarrow> QUERY_TIMEOUT_SECONDS
   | Some seconds \<Rightarrow> min QUERY_TIMEOUT_SECONDS seconds)"

definition exit_status :: "int \<Rightarrow> string" where
  "exit_status rc = (if rc < 0 then ''-'' @ show_nat (nat (- rc)) else show_nat (nat rc))"

text \<open>\<open>_query\<close>\<close>

definition run_query :: "'x network \<Rightarrow> endpoint \<Rightarrow> credential \<Rightarrow> string \<Rightarrow> string \<Rightarrow> bool \<Rightarrow> bool \<Rightarrow> ('x link, string) act" where
  "run_query nw ep cred address command any_status with_stderr =
     bind (host_key nw address) (\<lambda>key.
     bind (fetch lk_read_seconds) (\<lambda>read_seconds.
     bind (net (\<lambda>m. access_error (''query failed: '' @ m)) (nw_run_command nw address cred key command (read_timeout read_seconds))) (\<lambda>result.
     if rn_rc result \<noteq> 0 \<and> \<not> any_status
     then throw (access_error (''query ended with exit status '' @ exit_status (rn_rc result)))
     else let answer = cleaned (rn_stdout result) (ep_platform ep) in
       if \<not> with_stderr then ret answer
       else if length (rn_stderr result) \<ge> STDERR_MAX_BYTES
       then throw (access_error ''query answer on stderr reached the capture limit'')
       else ret (join [newline] (filter (\<lambda>part. strip part \<noteq> []) [answer, cleaned (rn_stderr result) (ep_platform ep)])))))"

definition query :: "'x network \<Rightarrow> endpoint \<Rightarrow> string \<Rightarrow> ('x link, string) act" where
  "query nw ep command = run_query nw ep (ep_credential ep) (ep_address ep) command False False"

definition diagnose_query :: "'x network \<Rightarrow> endpoint \<Rightarrow> string \<Rightarrow> ('x link, string) act" where
  "diagnose_query nw ep command = run_query nw ep (ep_credential ep) (ep_address ep) command False True"

text \<open>\<open>check_address or address\<close>\<close>

definition check_address :: "endpoint \<Rightarrow> string" where
  "check_address ep = (case ep_check_address ep of None \<Rightarrow> ep_address ep | Some a \<Rightarrow> if a = [] then ep_address ep else a)"

definition check_query :: "'x network \<Rightarrow> endpoint \<Rightarrow> string \<Rightarrow> ('x link, string) act" where
  "check_query nw ep command = run_query nw ep (ep_check_credential ep) (check_address ep) command True False"

definition own_query :: "'x network \<Rightarrow> endpoint \<Rightarrow> string \<Rightarrow> bool \<Rightarrow> ('x link, string) act" where
  "own_query nw ep command check =
     (if check then run_query nw ep (ep_check_credential ep) (check_address ep) command True True
      else run_query nw ep (ep_credential ep) (ep_address ep) command True True)"

section \<open>The session\<close>

definition login_failed :: "string \<Rightarrow> exn" where
  "login_failed why = access_error (''interactive login failed: '' @ why)"

definition session_failed :: "nat \<Rightarrow> string \<Rightarrow> exn" where
  "session_failed accepted why =
     AccessError (''interactive session failed after '' @ show_nat accepted @ '' lines: '' @ why) accepted"

definition key_failed :: "string \<Rightarrow> exn" where
  "key_failed why = access_error (''interactive session failed while generating the API key: '' @ why)"

text \<open>\<open>with self._session() as shell\<close>: the session is closed however its body ends. The exceptions of the
  session are turned into access errors where they arise, with the lines accepted until then.\<close>

definition with_session :: "'x network \<Rightarrow> endpoint \<Rightarrow> (string \<Rightarrow> exn) \<Rightarrow> ('x link, 'a) act \<Rightarrow> ('x link, 'a) act" where
  "with_session nw ep failed body =
     bind (host_key nw (ep_address ep)) (\<lambda>key.
     seq (net failed (nw_session nw (ep_address ep) (ep_credential ep) key))
     (attempt body
       (\<lambda>x. seq (modify (\<lambda>k. k\<lparr>lk_world := nw_close nw (lk_world k)\<rparr>)) (throw x))
       (\<lambda>v. seq (modify (\<lambda>k. k\<lparr>lk_world := nw_close nw (lk_world k)\<rparr>)) (ret v))))"

definition say :: "'x network \<Rightarrow> (string \<Rightarrow> exn) \<Rightarrow> sent \<Rightarrow> string \<Rightarrow> ('x link, unit) act" where
  "say nw failed entry line = seq (modify (\<lambda>k. k\<lparr>lk_sent := lk_sent k @ [entry]\<rparr>)) (net failed (nw_send nw line))"

definition hear :: "'x network \<Rightarrow> (string \<Rightarrow> exn) \<Rightarrow> string list \<Rightarrow> real \<Rightarrow> ('x link, nat \<times> string) act" where
  "hear nw failed patterns seconds = net failed (nw_expect nw patterns seconds)"

definition login_anchor :: "prompt_spec \<Rightarrow> string" where
  "login_anchor spec = dropWhile (\<lambda>c. c = newline) (ps_anchor spec)"

definition login :: "'x network \<Rightarrow> (string \<Rightarrow> exn) \<Rightarrow> prompt_spec \<Rightarrow> ('x link, string) act" where
  "login nw failed spec =
     bind (hear nw failed [login_anchor spec] LOGIN_TIMEOUT_SECONDS) (\<lambda>(_, data).
     seq (modify (\<lambda>k. k\<lparr>lk_world := nw_discard nw data (lk_world k)\<rparr>))
     (bind (hear nw failed (ps_ends spec) LOGIN_TIMEOUT_SECONDS) (\<lambda>(_, prompt). ret (data @ prompt))))"

text \<open>\<open>re.split(rb"[\r\n]", data)[-1].partition(anchor)\<close>, and \<open>bytes.strip\<close>\<close>

definition last_line :: "string \<Rightarrow> string" where
  "last_line data = rev (takeWhile (\<lambda>c. c \<noteq> creturn \<and> c \<noteq> newline) (rev data))"

definition byte_space :: "char \<Rightarrow> bool" where
  "byte_space c \<longleftrightarrow> c \<in> set [CHR 0x09, CHR 0x0A, CHR 0x0B, CHR 0x0C, CHR 0x0D, CHR 0x20]"

definition byte_strip :: "string \<Rightarrow> string" where
  "byte_strip s = rev (dropWhile byte_space (rev (dropWhile byte_space s)))"

definition login_prefix :: "'x network \<Rightarrow> endpoint \<Rightarrow> prompt_spec \<Rightarrow> ('x link, string) act" where
  "login_prefix nw ep spec =
     bind (with_session nw ep login_failed (login nw login_failed spec)) (\<lambda>data.
     case find_at (login_anchor spec) (last_line data) of
       None \<Rightarrow> throw (access_error ''the login prompt does not carry the device name'')
     | Some place \<Rightarrow> ret (byte_strip (take place (last_line data))))"

section \<open>The dialogue\<close>

text \<open>\<open>HOSTNAME\<close>\<close>

definition host_char :: "char \<Rightarrow> bool" where
  "host_char c \<longleftrightarrow> is_alpha c \<or> is_digit c \<or> c \<in> set ''._-''"

definition is_hostname :: "string \<Rightarrow> bool" where
  "is_hostname s \<longleftrightarrow> s \<noteq> [] \<and> (is_alpha (hd s) \<or> is_digit (hd s)) \<and> length s \<le> 64 \<and> list_all host_char (tl s)"

definition usable_anchor :: "prompt_spec \<Rightarrow> bool" where
  "usable_anchor spec \<longleftrightarrow> is_hostname (rev (dropWhile (\<lambda>c. c = CHR ''.'') (rev (strip (ps_anchor spec)))))"

text \<open>\<open>frames\<close>: the open sections of the dialogue with the entry edited in each\<close>

type_synonym frames = "(string \<times> string option) list"

definition enter :: "frames \<Rightarrow> string \<Rightarrow> frames" where
  "enter frames line =
     (let words = split_ws line in
      if take 1 words = [''config''] then frames @ [(strip line, None)]
      else if take 1 words = [''edit''] \<and> frames \<noteq> [] then butlast frames @ [(fst (last frames), Some (strip line))]
      else frames)"

definition leave :: "frames \<Rightarrow> string \<Rightarrow> frames" where
  "leave frames line =
     (if strip line = ''next'' \<and> frames \<noteq> [] then butlast frames @ [(fst (last frames), None)]
      else if strip line = ''end'' \<and> frames \<noteq> [] then butlast frames
      else frames)"

definition frame_parts :: "string \<times> string option \<Rightarrow> string list" where
  "frame_parts = (\<lambda>(section, entry). filter (\<lambda>part. part \<noteq> []) (section # (case entry of None \<Rightarrow> [] | Some e \<Rightarrow> [e])))"

definition where_in :: "frames \<Rightarrow> string" where
  "where_in frames = (let parts = concat (map frame_parts frames) in if parts = [] then [] else '' ('' @ join '', '' parts @ '')'')"

text \<open>\<open>_answer\<close>: the refused rows of what the device sent after the echo\<close>

definition refusal :: "prompt_spec \<Rightarrow> string \<Rightarrow> string \<Rightarrow> string" where
  "refusal spec data marker =
     (let rows = tl (split_on newline (filter (\<lambda>c. c \<noteq> creturn) data));
          found = map strip (filter (\<lambda>row. strip row \<noteq> [] \<and> ps_error spec (newline # row) \<noteq> None) rows)
      in if join '' | '' found = [] then marker else join '' | '' found)"

fun line_text :: "line \<Rightarrow> string" where
  "line_text (Command t) = t"
| "line_text (Ask t _) = t"
| "line_text (Raw t) = t"
| "line_text (Password t) = t"

fun is_password :: "line \<Rightarrow> bool" where
  "is_password (Password _) = True"
| "is_password _ = False"

definition typed_line :: "prompt_spec \<Rightarrow> string \<Rightarrow> string" where
  "typed_line spec line = (case ps_typed spec of None \<Rightarrow> line | Some f \<Rightarrow> f line)"

definition prompts :: "prompt_spec \<Rightarrow> string list" where
  "prompts spec = ps_anchor spec # (case ps_continuation spec of None \<Rightarrow> [] | Some c \<Rightarrow> if c = [] then [] else [c])"

text \<open>After the name of the device the end of the prompt follows; the continuation is a whole prompt.\<close>

definition prompt_tail :: "'x network \<Rightarrow> (string \<Rightarrow> exn) \<Rightarrow> prompt_spec \<Rightarrow> nat \<Rightarrow> string \<Rightarrow> ('x link, string) act" where
  "prompt_tail nw failed spec index data =
     (if index = 0 then bind (hear nw failed (ps_ends spec) LINE_TIMEOUT_SECONDS) (\<lambda>(_, tail). ret (data @ tail)) else ret data)"

fun line_answer :: "'x network \<Rightarrow> endpoint \<Rightarrow> (string \<Rightarrow> exn) \<Rightarrow> prompt_spec \<Rightarrow> line \<Rightarrow> ('x link, string) act" where
  "line_answer nw ep failed spec (Raw _) = ret []"
| "line_answer nw ep failed spec (Ask _ question) =
     bind (hear nw failed [question] LINE_TIMEOUT_SECONDS) (\<lambda>(_, data). ret data)"
| "line_answer nw ep failed spec (Command _) =
     bind (hear nw failed (prompts spec) LINE_TIMEOUT_SECONDS) (\<lambda>(index, data). prompt_tail nw failed spec index data)"
| "line_answer nw ep failed spec (Password _) =
     bind (hear nw failed (PASSWORD_PROMPT # prompts spec) LINE_TIMEOUT_SECONDS) (\<lambda>(index, data).
     if index = 0
     then seq (say nw failed Secret (cr_use (ep_credential ep)))
       (bind (hear nw failed (prompts spec) LINE_TIMEOUT_SECONDS) (\<lambda>(index, answer). prompt_tail nw failed spec index (data @ answer)))
     else prompt_tail nw failed spec (index - 1) data)"

text \<open>One turn of the loop of \<open>apply\<close>; a raw line awaits no answer.\<close>

definition exchange ::
  "'x network \<Rightarrow> endpoint \<Rightarrow> prompt_spec \<Rightarrow> nat \<Rightarrow> nat \<Rightarrow> frames \<Rightarrow> line \<Rightarrow> ('x link, frames) act" where
  "exchange nw ep spec number accepted frames line =
     (let failed = session_failed accepted; frames = enter frames (line_text line) in
      seq (say nw failed (Typed (typed_line spec (line_text line))) (typed_line spec (line_text line)))
      (case line of Raw _ \<Rightarrow> ret frames
       | _ \<Rightarrow> bind (line_answer nw ep failed spec line) (\<lambda>data. case ps_error spec data of
           Some marker \<Rightarrow> throw (AccessError (''line '' @ show_nat number @ where_in frames @ '' was refused by the device: ''
             @ refusal spec data marker) accepted)
         | None \<Rightarrow> ret (leave frames (line_text line)))))"

fun dialogue :: "'x network \<Rightarrow> endpoint \<Rightarrow> prompt_spec \<Rightarrow> nat \<Rightarrow> nat \<Rightarrow> frames \<Rightarrow> line list \<Rightarrow> ('x link, nat) act" where
  "dialogue nw ep spec number accepted frames [] = ret accepted"
| "dialogue nw ep spec number accepted frames (line # rest) =
     bind (exchange nw ep spec number accepted frames line) (\<lambda>frames.
     dialogue nw ep spec (Suc number) (Suc accepted) frames rest)"

definition UNUSABLE_HOSTNAME :: exn where
  "UNUSABLE_HOSTNAME = access_error ''the device hostname is not usable as a prompt anchor''"

definition apply_lines :: "'x network \<Rightarrow> endpoint \<Rightarrow> line list \<Rightarrow> prompt_spec \<Rightarrow> ('x link, nat) act" where
  "apply_lines nw ep steps spec =
     (if \<not> usable_anchor spec then throw UNUSABLE_HOSTNAME
      else if list_ex is_password steps \<and> cr_kind (ep_credential ep) \<noteq> ''password''
      then throw (access_error ''the administrator password prompt needs a password write credential'')
      else with_session nw ep (session_failed 0)
        (seq (login nw (session_failed 0) spec) (dialogue nw ep spec 1 0 [] steps)))"

definition generate_api_key :: "'x network \<Rightarrow> endpoint \<Rightarrow> string \<Rightarrow> prompt_spec \<Rightarrow> ('x link, string) act" where
  "generate_api_key nw ep command spec =
     (if cr_kind (ep_credential ep) \<noteq> ''password'' then throw (access_error ''the API key needs a password write credential'')
      else if \<not> usable_anchor spec then throw UNUSABLE_HOSTNAME
      else with_session nw ep key_failed
        (seq (login nw key_failed spec)
        (seq (say nw key_failed (Typed command) command)
        (bind (hear nw key_failed [PASSWORD_PROMPT, ps_anchor spec] LINE_TIMEOUT_SECONDS) (\<lambda>(index, asked).
         if index \<noteq> 0 then throw (access_error ''the device did not ask for the administrator password'')
         else seq (say nw key_failed Secret (cr_use (ep_credential ep)))
           (bind (hear nw key_failed [ps_anchor spec] LINE_TIMEOUT_SECONDS) (\<lambda>(_, answer).
            bind (hear nw key_failed (ps_ends spec) LINE_TIMEOUT_SECONDS) (\<lambda>_. ret (asked @ answer)))))))))"

text \<open>\<open>DeviceAccess\<close>: the access the execution uses, once the credentials are loaded; loading fails with the
  name of the exception.\<close>

definition device_access :: "'x network \<Rightarrow> endpoint \<Rightarrow> 'x link access" where
  "device_access nw ep = \<lparr>ac_snapshot = snapshot_text nw ep, ac_query = query nw ep, ac_check_query = check_query nw ep,
     ac_login_prefix = login_prefix nw ep, ac_apply = apply_lines nw ep, ac_generate_api_key = generate_api_key nw ep,
     ac_credential = ep_credential ep, ac_check_credential = ep_check_credential ep, ac_read_seconds = lk_read_seconds,
     ac_set_read_seconds = (\<lambda>seconds k. k\<lparr>lk_read_seconds := seconds\<rparr>)\<rparr>"

definition open_access :: "'x network \<Rightarrow> endpoint \<Rightarrow> ('x link, 'x link access) act" where
  "open_access nw ep =
     bind (net (\<lambda>name. access_error (''the credentials cannot be loaded ('' @ name @ '')'')) (nw_credentials nw)) (\<lambda>(credential, check).
     if cr_login check = cr_login credential then throw (access_error ''the check credential logs in with the write account'')
     else ret (device_access nw (ep\<lparr>ep_credential := credential, ep_check_credential := check\<rparr>)))"

section \<open>What a dialogue sends\<close>

text \<open>\<open>says m L a\<close>: however \<open>m\<close> ends, what it types is in \<open>L\<close>, and it raises nothing but access errors that
  count \<open>a\<close> accepted lines.\<close>

definition says :: "('x link, 'a) act \<Rightarrow> (sent list \<Rightarrow> bool) \<Rightarrow> nat \<Rightarrow> bool" where
  "says m L a \<longleftrightarrow> (\<forall>k r k'. m k = (r, k') \<longrightarrow>
     (\<exists>new. lk_sent k' = lk_sent k @ new \<and> L new) \<and> (\<forall>x. r = Inl x \<longrightarrow> (\<exists>why. x = AccessError why a)))"

abbreviation nothing :: "sent list \<Rightarrow> bool" where "nothing l \<equiv> l = []"

lemma saysD:
  assumes "says m L a" and "m k = (r, k')"
  obtains new where "lk_sent k' = lk_sent k @ new" and "L new" and "\<And>x. r = Inl x \<Longrightarrow> \<exists>why. x = AccessError why a"
  using assms by (fastforce simp: says_def)

lemma says_sent: "says m L a \<Longrightarrow> m k = (r, k') \<Longrightarrow> \<exists>new. lk_sent k' = lk_sent k @ new \<and> L new"
  by (simp add: says_def)

lemma says_error: "says m L a \<Longrightarrow> m k = (Inl x, k') \<Longrightarrow> \<exists>why. x = AccessError why a"
  by (simp add: says_def)

lemma says_ret: "L [] \<Longrightarrow> says (ret x) L a" "L [] \<Longrightarrow> says (throw (AccessError why a)) L a"
  "L [] \<Longrightarrow> says (fetch f) L a" "L [] \<Longrightarrow> (\<And>k. lk_sent (g k) = lk_sent k) \<Longrightarrow> says (modify g) L a"
  by (auto simp: says_def ret_def throw_def fetch_def modify_def)

lemma says_net: "(\<And>why. \<exists>m. failed why = AccessError m a) \<Longrightarrow> L [] \<Longrightarrow> says (net failed op) L a"
  by (auto simp: says_def net_def split: prod.splits sum.splits)

lemma says_bind:
  assumes "says m L1 a" and "\<And>v. says (f v) L2 a" and "\<And>l. L1 l \<Longrightarrow> L l" and "\<And>l1 l2. L1 l1 \<Longrightarrow> L2 l2 \<Longrightarrow> L (l1 @ l2)"
  shows "says (bind m f) L a"
  unfolding says_def
proof (intro allI impI)
  fix k r k'
  assume "bind m f k = (r, k')"
  then show "(\<exists>new. lk_sent k' = lk_sent k @ new \<and> L new) \<and> (\<forall>x. r = Inl x \<longrightarrow> (\<exists>why. x = AccessError why a))"
  proof (cases rule: bind_cases)
    case (raised x)
    then show ?thesis using assms(1,3) by (blast elim: saysD)
  next
    case (passed v k1)
    obtain l1 where "lk_sent k1 = lk_sent k @ l1" "L1 l1" using saysD [OF assms(1) passed(1)] by blast
    moreover obtain l2 where "lk_sent k' = lk_sent k1 @ l2" "L2 l2" "\<And>x. r = Inl x \<Longrightarrow> \<exists>why. x = AccessError why a"
      using saysD [OF assms(2) passed(2)] by blast
    ultimately show ?thesis using assms(4) by auto
  qed
qed

lemma says_bind_quiet:
  "says m nothing a \<Longrightarrow> (\<And>v. says (f v) L a) \<Longrightarrow> L [] \<Longrightarrow> says (bind m f) L a"
  by (rule says_bind [where ?L1.0 = nothing and ?L2.0 = L]) auto

lemma says_seq_quiet: "says m nothing a \<Longrightarrow> says n L a \<Longrightarrow> L [] \<Longrightarrow> says (seq m n) L a"
  unfolding seq_def by (rule says_bind_quiet)

lemma says_prod: "(\<And>a b. says (f a b) L n) \<Longrightarrow> says (case p of (a, b) \<Rightarrow> f a b) L n"
  by (cases p) auto

lemma failed_access [simp]: "\<exists>m. session_failed a why = AccessError m a" "\<exists>m. access_error why = AccessError m 0"
  by (simp_all add: session_failed_def access_error_def)

lemma says_hear: "says (hear nw (session_failed a) ps seconds) nothing a"
  unfolding hear_def by (intro says_net) simp_all

lemma says_host_key: "says (host_key nw address) nothing 0"
  unfolding host_key_def
  by (intro says_bind_quiet says_ret says_seq_quiet says_net) (auto split: option.split intro!: says_ret says_bind_quiet says_seq_quiet says_net)

lemma says_login: "says (login nw (session_failed a) spec) nothing a"
  unfolding login_def by (intro says_bind_quiet says_hear says_prod says_seq_quiet says_ret) simp_all

lemma says_tail: "says (prompt_tail nw (session_failed a) spec index data) nothing a"
  unfolding prompt_tail_def by (auto intro!: says_bind_quiet says_hear says_prod says_ret)

lemma says_say: "says (say nw (session_failed a) entry line) (\<lambda>l. l = [entry]) a"
  by (auto simp: says_def say_def seq_def bind_def modify_def net_def split: prod.splits sum.splits)

lemma says_seq:
  assumes "says m L1 a" and "says n L2 a" and "\<And>l. L1 l \<Longrightarrow> L l" and "\<And>l1 l2. L1 l1 \<Longrightarrow> L2 l2 \<Longrightarrow> L (l1 @ l2)"
  shows "says (seq m n) L a"
  unfolding seq_def using assms by (rule says_bind)

text \<open>The secret is typed only after a line that may ask for it.\<close>

lemma says_answer:
  "says (line_answer nw ep (session_failed a) spec line) (\<lambda>l. l = [] \<or> is_password line \<and> l = [Secret]) a"
proof (cases line)
  case (Password t)
  have "says (bind (hear nw (session_failed a) ps seconds) (\<lambda>(index, answer). prompt_tail nw (session_failed a) spec index (data @ answer))) nothing a"
    for ps seconds data
    by (intro says_bind_quiet says_hear says_prod says_tail) simp
  then have secret: "says (seq (say nw (session_failed a) Secret key) (bind (hear nw (session_failed a) ps seconds)
      (\<lambda>(index, answer). prompt_tail nw (session_failed a) spec index (data @ answer)))) (\<lambda>l. l = [] \<or> l = [Secret]) a"
    for key ps seconds data
    by (rule says_seq [OF says_say]) auto
  have "says (prompt_tail nw (session_failed a) spec i data) (\<lambda>l. l = [] \<or> l = [Secret]) a" for i data
    using says_tail [of nw a spec i data] by (auto simp: says_def)
  with secret show ?thesis
    unfolding Password by (auto intro!: says_bind_quiet says_hear says_prod)
qed (auto intro!: says_bind_quiet says_hear says_prod says_ret says_tail)

lemma says_exchange:
  "says (exchange nw ep spec number a frames line)
     (\<lambda>l. l = [Typed (typed_line spec (line_text line))] \<or> is_password line \<and> l = [Typed (typed_line spec (line_text line)), Secret]) a"
proof -
  have rest: "says (case line of Raw _ \<Rightarrow> ret fr | _ \<Rightarrow> bind (line_answer nw ep (session_failed a) spec line)
     (\<lambda>data. case ps_error spec data of Some marker \<Rightarrow> throw (AccessError (why data marker) a)
       | None \<Rightarrow> ret (leave fr t))) (\<lambda>l. l = [] \<or> is_password line \<and> l = [Secret]) a" for fr why t
  proof -
    have "says (bind (line_answer nw ep (session_failed a) spec line) (\<lambda>data. case ps_error spec data of
       Some marker \<Rightarrow> throw (AccessError (why data marker) a) | None \<Rightarrow> ret (leave fr t))) (\<lambda>l. l = [] \<or> is_password line \<and> l = [Secret]) a"
      by (rule says_bind [OF says_answer, where ?L2.0 = nothing]) (auto split: option.split intro: says_ret)
    then show ?thesis by (cases line) (auto intro: says_ret)
  qed
  show ?thesis
    unfolding exchange_def Let_def by (rule says_seq [OF says_say rest]) auto
qed

text \<open>\<open>spoken\<close>: the log of lines typed one after the other, each followed by the secret at most once and
  only when the line may ask for it\<close>

fun spoken :: "prompt_spec \<Rightarrow> line list \<Rightarrow> sent list \<Rightarrow> bool" where
  "spoken spec [] l = (l = [])"
| "spoken spec (line # rest) l = (case l of
     Typed t # l' \<Rightarrow> t = typed_line spec (line_text line) \<and>
       (spoken spec rest l' \<or> (case l' of Secret # l'' \<Rightarrow> is_password line \<and> spoken spec rest l'' | _ \<Rightarrow> False))
   | _ \<Rightarrow> False)"

definition talked :: "prompt_spec \<Rightarrow> nat \<Rightarrow> line list \<Rightarrow> 'x link \<Rightarrow> (exn + nat) \<times> 'x link \<Rightarrow> bool" where
  "talked spec a lines k y \<longleftrightarrow> (\<exists>n new. n \<le> length lines \<and> lk_sent (snd y) = lk_sent k @ new \<and> spoken spec (take n lines) new
     \<and> (case fst y of
          Inr m \<Rightarrow> m = a + length lines \<and> n = length lines
        | Inl x \<Rightarrow> \<exists>why b. x = AccessError why (a + b) \<and> b \<le> n \<and> n \<le> b + 1))"

lemma talked_nothing: "lk_sent k' = lk_sent k \<Longrightarrow> x = AccessError why a \<Longrightarrow> talked spec a lines k (Inl x, k')"
  by (auto simp: talked_def intro!: exI [of _ 0] exI [of _ "[]"])

lemma dialogue_talked: "dialogue nw ep spec number a frames lines k = y \<Longrightarrow> talked spec a lines k y"
proof (induction lines arbitrary: number a frames k)
  case Nil
  then show ?case by (auto simp: talked_def ret_def)
next
  case (Cons line rest)
  let ?t = "Typed (typed_line spec (line_text line))"
  obtain r k' where y: "y = (r, k')" by fastforce
  have "bind (exchange nw ep spec number a frames line) (\<lambda>frames. dialogue nw ep spec (Suc number) (Suc a) frames rest) k = (r, k')"
    using Cons.prems y by simp
  then show ?case
  proof (cases rule: bind_cases)
    case (raised x)
    obtain l where l: "lk_sent k' = lk_sent k @ l" "l = [?t] \<or> is_password line \<and> l = [?t, Secret]"
      using says_sent [OF says_exchange raised(1)] by blast
    obtain why where "x = AccessError why a" using says_error [OF says_exchange raised(1)] by blast
    moreover have "spoken spec (take 1 (line # rest)) l" using l(2) by auto
    ultimately show ?thesis using l(1) y raised(2) unfolding talked_def by (intro exI [of _ 1] exI [of _ l]) auto
  next
    case (passed fr k1)
    obtain l where l: "lk_sent k1 = lk_sent k @ l" "l = [?t] \<or> is_password line \<and> l = [?t, Secret]"
      using says_sent [OF says_exchange passed(1)] by blast
    obtain n new where n: "n \<le> length rest" "lk_sent k' = lk_sent k1 @ new" "spoken spec (take n rest) new"
      "case r of Inr m \<Rightarrow> m = Suc a + length rest \<and> n = length rest
         | Inl x \<Rightarrow> \<exists>why b. x = AccessError why (Suc a + b) \<and> b \<le> n \<and> n \<le> b + 1"
      using Cons.IH [of "Suc number" "Suc a" fr k1] passed(2) y by (auto simp: talked_def)
    have "spoken spec (take (Suc n) (line # rest)) (l @ new)" using l(2) n(3) by auto
    moreover have "case r of Inr m \<Rightarrow> m = a + length (line # rest) \<and> Suc n = length (line # rest)
         | Inl x \<Rightarrow> \<exists>why b. x = AccessError why (a + b) \<and> b \<le> Suc n \<and> Suc n \<le> b + 1"
      using n(4) by (cases r) (auto intro!: exI [of _ "Suc b" for b])
    ultimately show ?thesis using n(1,2) l(1) y unfolding talked_def by (intro exI [of _ "Suc n"] exI [of _ "l @ new"]) auto
  qed
qed

lemma talked_after:
  "lk_sent k1 = lk_sent k \<Longrightarrow> talked spec a lines k1 (r, k2) \<Longrightarrow> lk_sent k' = lk_sent k2 \<Longrightarrow> talked spec a lines k (r, k')"
  by (simp add: talked_def)

lemma talked_bind:
  assumes "says m nothing a" and "\<And>v k. talked spec a lines k (f v k)"
  shows "talked spec a lines k (bind m f k)"
proof -
  obtain r k' where run: "bind m f k = (r, k')" by fastforce
  then show ?thesis
  proof (cases rule: bind_cases)
    case (raised x)
    then have "lk_sent k' = lk_sent k" using says_sent [OF assms(1)] by fastforce
    moreover obtain why where "x = AccessError why a" using says_error [OF assms(1) raised(1)] by blast
    ultimately show ?thesis using raised(2) run talked_nothing [of k' k x why a spec lines] by simp
  next
    case (passed v k1)
    obtain l where "lk_sent k1 = lk_sent k @ l" "l = []" using says_sent [OF assms(1) passed(1)] by blast
    then have "lk_sent k1 = lk_sent k" by simp
    moreover have "talked spec a lines k1 (r, k')" using assms(2) [of k1 v] passed(2) by simp
    ultimately have "talked spec a lines k (r, k')" by (rule talked_after) simp
    then show ?thesis using run by simp
  qed
qed

lemma talked_session:
  assumes "\<And>k. talked spec 0 lines k (body k)"
  shows "talked spec 0 lines k (with_session nw ep (session_failed 0) body k)"
proof -
  have closed: "talked spec 0 lines k (attempt body
       (\<lambda>x. seq (modify (\<lambda>k. k\<lparr>lk_world := nw_close nw (lk_world k)\<rparr>)) (throw x))
       (\<lambda>v. seq (modify (\<lambda>k. k\<lparr>lk_world := nw_close nw (lk_world k)\<rparr>)) (ret v)) k)" for k
  proof -
    obtain r b where run: "body k = (r, b)" by fastforce
    from talked_after [OF refl assms [of k, unfolded run]] show ?thesis
      by (cases r) (simp_all add: run attempt_def seq_def bind_def modify_def ret_def throw_def)
  qed
  show ?thesis
    unfolding with_session_def seq_def [of "net _ _"]
    by (intro talked_bind says_host_key says_net closed) simp_all
qed

lemma apply_lines_talked: "talked spec 0 steps k (apply_lines nw ep steps spec k)"
proof (cases "usable_anchor spec \<and> (list_ex is_password steps \<longrightarrow> cr_kind (ep_credential ep) = ''password'')")
  case True
  have "talked spec 0 steps k (seq (login nw (session_failed 0) spec) (dialogue nw ep spec 1 0 [] steps) k)" for k
    unfolding seq_def by (intro talked_bind says_login dialogue_talked) simp
  from talked_session [OF this] True show ?thesis by (auto simp: apply_lines_def)
next
  case False
  then show ?thesis
    by (auto simp: apply_lines_def throw_def UNUSABLE_HOSTNAME_def access_error_def intro: talked_nothing)
qed


end
