(* ===== verification/Admin_Fortiadc.thy ===== *)
theory Admin_Fortiadc
  imports Admin_Request Admin_Access Netops_Regex
begin

text \<open>
  The FortiADC commands, \<open>netops_admin/fortiadc.py\<close> and \<open>netops_admin/fortiadc_member.py\<close>: the listing of a
  pool, the health of its members, the change of the status of a member, and adding and removing a member.
  There is no safeguard on the device: a change is read back, and undone when what is read differs. Every
  question to the device and every block of lines sent to it is kept in a log.
\<close>

section \<open>Words and lines of a listing\<close>

definition STATUSES :: "string list" where "STATUSES = [''enable'', ''disable'', ''maintain'']"
definition DEFAULT_STATUS :: string where "DEFAULT_STATUS = ''enable''"

text \<open>\<open>[A-Za-z0-9][A-Za-z0-9._-]{0,n}\<close> and \<open>[1-9][0-9]{0,n}\<close> as whole texts: \<open>POOL\<close>, \<open>HOSTNAME\<close>, \<open>MEMBER\<close>, \<open>PORT\<close>, \<open>WEIGHT\<close>\<close>

definition name_within :: "nat \<Rightarrow> string \<Rightarrow> bool" where
  "name_within n s \<longleftrightarrow> s \<noteq> [] \<and> (is_alpha (hd s) \<or> is_digit (hd s)) \<and> length (tl s) \<le> n \<and> list_all host_char (tl s)"

definition number_within :: "nat \<Rightarrow> string \<Rightarrow> bool" where
  "number_within n s \<longleftrightarrow> s \<noteq> [] \<and> is_digit (hd s) \<and> hd s \<noteq> CHR ''0'' \<and> length (tl s) \<le> n \<and> list_all is_digit (tl s)"

definition is_pool :: "string \<Rightarrow> bool" where "is_pool = name_within 62"
definition is_member :: "string \<Rightarrow> bool" where "is_member = number_within 8"
definition is_adc_hostname :: "string \<Rightarrow> bool" where "is_adc_hostname = name_within 63"

definition unreadable :: "string \<Rightarrow> exn" where
  "unreadable why = Rejected [''the pool listing cannot be read ('' @ why @ '')'']"

text \<open>\<open>PAGER.sub("", text)\<close>\<close>

definition PAGER :: string where "PAGER = ''--More-- '' @ [creturn]"

definition after_pager :: "string \<Rightarrow> string option" where
  "after_pager s =
     (let rest = drop (length PAGER) s; n = length (takeWhile (\<lambda>c. c = blank) rest) in
      if starts_with PAGER s \<and> 1 \<le> n \<and> n \<le> 256 \<and> take 1 (drop n rest) = [creturn] then Some (drop (Suc n) rest) else None)"

function without_pager :: "string \<Rightarrow> string" where
  "without_pager [] = []"
| "without_pager (c # cs) = (case after_pager (c # cs) of
     Some rest \<Rightarrow> without_pager rest
   | None \<Rightarrow> c # without_pager cs)"
  by pat_completeness auto

termination without_pager
  by (relation "measure length") (auto simp: after_pager_def Let_def split: if_splits)

definition without_returns :: "string \<Rightarrow> string" where
  "without_returns text = filter (\<lambda>c. c \<noteq> creturn) text"

definition adc_lines :: "string \<Rightarrow> string list" where
  "adc_lines text = splitlines (without_returns (without_pager text))"

text \<open>\<open>TOKEN\<close>: a quoted text with escapes or a run without blanks, quotes and backslashes, up to a blank, a tab
  or the end. Both alternatives match in one way only, so no backtracking is lost.\<close>

fun quoted_end :: "string \<Rightarrow> string \<Rightarrow> (string \<times> string) option" where
  "quoted_end [] acc = None"
| "quoted_end (c # cs) acc =
     (if c = dquote then Some (acc, cs)
      else if c = backslash
      then (case cs of [] \<Rightarrow> None | d # ds \<Rightarrow> if d = newline then None else quoted_end ds (acc @ [c, d]))
      else quoted_end cs (acc @ [c]))"

definition token_end :: "string \<Rightarrow> bool" where
  "token_end rest \<longleftrightarrow> rest = [] \<or> rest = [newline] \<or> hd rest = blank \<or> hd rest = tab"

definition plain :: "char \<Rightarrow> bool" where
  "plain c \<longleftrightarrow> \<not> is_space c \<and> c \<noteq> dquote \<and> c \<noteq> backslash"

definition token :: "string \<Rightarrow> (string \<times> string) option" where
  "token s = Option.bind
     (if s = [] then None
      else if hd s = dquote then quoted_end (tl s) []
      else if plain (hd s) then Some (takeWhile plain s, dropWhile plain s)
      else None)
     (\<lambda>(word, rest). if token_end rest then Some (word, rest) else None)"

definition is_gap :: "char \<Rightarrow> bool" where
  "is_gap c \<longleftrightarrow> c = blank \<or> c = tab"

lemma quoted_end_shrinks: "quoted_end s acc = Some (w, rest) \<Longrightarrow> length rest < length s"
  by (induction s acc rule: quoted_end.induct) (fastforce split: if_splits list.splits)+

lemma token_shrinks: "token s = Some (w, rest) \<Longrightarrow> length rest < length s"
proof (cases s)
  case (Cons c cs)
  assume "token s = Some (w, rest)"
  then consider "c = dquote" "quoted_end cs [] = Some (w, rest)" | "plain c" "rest = dropWhile plain cs"
    by (auto simp: token_def Cons split: if_splits bind_splits)
  then show ?thesis
    using length_dropWhile_le [of plain cs] quoted_end_shrinks [of cs "[]" w rest] by cases (auto simp: Cons)
qed (simp add: token_def)

function adc_words :: "string \<Rightarrow> exn + string list" where
  "adc_words s =
     (if dropWhile is_gap s = [] then Inr []
      else case token (dropWhile is_gap s) of
        None \<Rightarrow> Inl (unreadable ''malformed quoting'')
      | Some (word, rest) \<Rightarrow> then_check (adc_words rest) (\<lambda>words. Inr (word # words)))"
  by pat_completeness auto

termination adc_words
  using token_shrinks length_dropWhile_le by (relation "measure length") (fastforce intro: less_le_trans)+

declare adc_words.simps [simp del]

text \<open>The lines the parsers tell apart; \<open>set\<close> counts only inside an entry.\<close>

datatype adc_line = Config string | Edit string | Close string | Assign string string | Unexpected

definition line_kind :: "string list \<Rightarrow> adc_line" where
  "line_kind words =
     (let head = hd words in
      if head = ''config'' \<and> length words > 1 then Config (join '' '' (tl words))
      else if head = ''edit'' \<and> length words = 2 then Edit (words ! 1)
      else if head \<in> set [''next'', ''end''] \<and> length words = 1 then Close (if head = ''next'' then ''edit'' else ''config'')
      else if head = ''set'' \<and> length words > 2 then Assign (words ! 1) (join '' '' (drop 2 words))
      else Unexpected)"

type_synonym stack = "(string \<times> string) list"

definition close_block :: "string \<Rightarrow> stack \<Rightarrow> exn + stack" where
  "close_block kind stack =
     (if stack = [] \<or> fst (last stack) \<noteq> kind then Inl (unreadable ''unbalanced block'') else Inr (butlast stack))"

definition in_entry :: "stack \<Rightarrow> bool" where
  "in_entry stack \<longleftrightarrow> stack \<noteq> [] \<and> fst (last stack) = ''edit''"

fun fold_lines :: "(adc_line \<Rightarrow> 's \<Rightarrow> exn + 's) \<Rightarrow> string list \<Rightarrow> 's \<Rightarrow> exn + 's" where
  "fold_lines turn [] st = Inr st"
| "fold_lines turn (raw # rows) st = then_check (adc_words raw) (\<lambda>words.
     then_check (if words = [] then Inr st else turn (line_kind words) st) (fold_lines turn rows))"

section \<open>The parsers\<close>

text \<open>\<open>parse_status\<close>\<close>

record status_scan =
  ss_stack :: stack
  ss_seen :: "stack list"
  ss_status :: "string option"

definition member_target :: "string \<Rightarrow> string \<Rightarrow> stack" where
  "member_target pool member = [(''config'', ''load-balance pool''), (''edit'', pool), (''config'', ''pool_member''), (''edit'', member)]"

fun status_line :: "stack \<Rightarrow> adc_line \<Rightarrow> status_scan \<Rightarrow> exn + status_scan" where
  "status_line wanted (Config name) st = Inr (st\<lparr>ss_stack := ss_stack st @ [(''config'', name)]\<rparr>)"
| "status_line wanted (Edit name) st =
     (let stack = ss_stack st @ [(''edit'', name)] in
      if stack \<in> set (ss_seen st) then Inl (unreadable ''duplicate entry'')
      else Inr (st\<lparr>ss_stack := stack, ss_seen := stack # ss_seen st\<rparr>))"
| "status_line wanted (Close kind) st = then_check (close_block kind (ss_stack st)) (\<lambda>stack. Inr (st\<lparr>ss_stack := stack\<rparr>))"
| "status_line wanted (Assign name v) st =
     (if \<not> in_entry (ss_stack st) then Inl (unreadable ''unexpected line'')
      else if ss_stack st = wanted \<and> name = ''status''
      then if ss_status st \<noteq> None then Inl (unreadable ''duplicate status'') else Inr (st\<lparr>ss_status := Some v\<rparr>)
      else Inr st)"
| "status_line wanted Unexpected st = Inl (unreadable ''unexpected line'')"

definition parse_status :: "string \<Rightarrow> string \<Rightarrow> string \<Rightarrow> exn + string" where
  "parse_status text pool member =
     (let wanted = member_target pool member in
      then_check (fold_lines (status_line wanted) (adc_lines text) \<lparr>ss_stack = [], ss_seen = [], ss_status = None\<rparr>) (\<lambda>st.
      if ss_stack st \<noteq> [] then Inl (unreadable ''unbalanced block'')
      else if wanted \<notin> set (ss_seen st) then reject ''the pool or the member is not listed by the device''
      else let status = (case ss_status st of None \<Rightarrow> DEFAULT_STATUS | Some v \<Rightarrow> v) in
        if status \<notin> set STATUSES then Inl (unreadable ''unknown status'') else Inr status))"

text \<open>\<open>_blocks\<close>: the entries of a section. \<open>current\<close> is the entry that was added last, named by its key.\<close>

type_synonym entry = "(string, string) dict"

record block_scan =
  bs_stack :: stack
  bs_blocks :: "(string, entry) dict"
  bs_current :: "string option"

definition entry_of :: "string \<Rightarrow> (string, entry) dict \<Rightarrow> entry" where
  "entry_of key d = (case map_of d key of None \<Rightarrow> [] | Some entry \<Rightarrow> entry)"

definition no_current :: exn where
  "no_current = OtherError ''TypeError'' ''there is no current entry''"

fun block_line :: "string \<Rightarrow> adc_line \<Rightarrow> block_scan \<Rightarrow> exn + block_scan" where
  "block_line section_name (Config name) st = Inr (st\<lparr>bs_stack := bs_stack st @ [(''config'', name)]\<rparr>)"
| "block_line section_name (Edit name) st =
     (let stack = bs_stack st @ [(''edit'', name)] in
      if stack = [(''config'', section_name), (''edit'', name)]
      then if name \<in> set (keys (bs_blocks st)) then Inl (unreadable ''duplicate entry'')
        else Inr (st\<lparr>bs_stack := stack, bs_blocks := AList.update name [] (bs_blocks st), bs_current := Some name\<rparr>)
      else Inr (st\<lparr>bs_stack := stack\<rparr>))"
| "block_line section_name (Close kind) st = then_check (close_block kind (bs_stack st)) (\<lambda>stack. Inr (st\<lparr>bs_stack := stack\<rparr>))"
| "block_line section_name (Assign name v) st =
     (if \<not> in_entry (bs_stack st) then Inl (unreadable ''unexpected line'')
      else if length (bs_stack st) = 2 \<and> hd (bs_stack st) = (''config'', section_name)
      then (case bs_current st of
          None \<Rightarrow> Inl no_current
        | Some key \<Rightarrow> Inr (st\<lparr>bs_blocks := AList.update key (AList.update name v (entry_of key (bs_blocks st))) (bs_blocks st)\<rparr>))
      else Inr st)"
| "block_line section_name Unexpected st = Inl (unreadable ''unexpected line'')"

definition adc_blocks :: "string \<Rightarrow> string \<Rightarrow> exn + (string, entry) dict" where
  "adc_blocks text section_name =
     then_check (fold_lines (block_line section_name) (adc_lines text) \<lparr>bs_stack = [], bs_blocks = [], bs_current = None\<rparr>) (\<lambda>st.
     if bs_stack st \<noteq> [] then Inl (unreadable ''unbalanced block'') else Inr (bs_blocks st))"

text \<open>\<open>_member_numbers\<close>: lines it does not know are passed over, and \<open>next\<close> and \<open>end\<close> close whatever is open.\<close>

fun number_lines :: "string list \<Rightarrow> stack \<Rightarrow> string list \<Rightarrow> exn + string list" where
  "number_lines [] stack numbers = Inr numbers"
| "number_lines (raw # rows) stack numbers = then_check (adc_words raw) (\<lambda>words.
     if words = [] then number_lines rows stack numbers
     else if hd words = ''config'' \<and> length words > 1 then number_lines rows (stack @ [(''config'', join '' '' (tl words))]) numbers
     else if hd words = ''edit'' \<and> length words = 2
     then number_lines rows (stack @ [(''edit'', words ! 1)])
       (if length stack = 3 \<and> stack ! 2 = (''config'', ''pool_member'') then numbers @ [words ! 1] else numbers)
     else if hd words \<in> set [''next'', ''end''] \<and> stack \<noteq> [] then number_lines rows (butlast stack) numbers
     else number_lines rows stack numbers)"

definition member_numbers :: "string \<Rightarrow> exn + string list" where
  "member_numbers text = number_lines (adc_lines text) [] []"

text \<open>\<open>parse_members\<close>: it removes carriage returns but not the remains of the pager.\<close>

record member_scan =
  mc_stack :: stack
  mc_members :: "(string, entry) dict"
  mc_current :: "string option"
  mc_pool_seen :: bool

fun member_line :: "string \<Rightarrow> adc_line \<Rightarrow> member_scan \<Rightarrow> exn + member_scan" where
  "member_line pool (Config name) st = Inr (st\<lparr>mc_stack := mc_stack st @ [(''config'', name)]\<rparr>)"
| "member_line pool (Edit name) st =
     (let stack = mc_stack st @ [(''edit'', name)];
          seen = (mc_pool_seen st \<or> length stack = 2 \<and> hd stack = (''config'', ''load-balance pool'') \<and> name = pool);
          st' = st\<lparr>mc_stack := stack, mc_pool_seen := seen\<rparr>
      in if length stack = 4 \<and> take 3 stack = [(''config'', ''load-balance pool''), (''edit'', pool), (''config'', ''pool_member'')]
      then if name \<in> set (keys (mc_members st)) then Inl (unreadable ''duplicate entry'')
        else Inr (st'\<lparr>mc_members := AList.update name [] (mc_members st), mc_current := Some name\<rparr>)
      else Inr st')"
| "member_line pool (Close kind) st = then_check (close_block kind (mc_stack st)) (\<lambda>stack. Inr (st\<lparr>mc_stack := stack\<rparr>))"
| "member_line pool (Assign name v) st =
     (if \<not> in_entry (mc_stack st) then Inl (unreadable ''unexpected line'')
      else if length (mc_stack st) = 4 \<and> mc_stack st ! 1 = (''edit'', pool) \<and> mc_stack st ! 2 = (''config'', ''pool_member'')
      then (case mc_current st of
          None \<Rightarrow> Inl no_current
        | Some key \<Rightarrow> if name \<in> set (keys (entry_of key (mc_members st))) then Inl (unreadable ''duplicate attribute'')
            else Inr (st\<lparr>mc_members := AList.update key (AList.update name v (entry_of key (mc_members st))) (mc_members st)\<rparr>))
      else Inr st)"
| "member_line pool Unexpected st = Inl (unreadable ''unexpected line'')"

definition parse_members :: "string \<Rightarrow> string \<Rightarrow> exn + (string, entry) dict" where
  "parse_members text pool =
     then_check (fold_lines (member_line pool) (splitlines (without_returns text))
       \<lparr>mc_stack = [], mc_members = [], mc_current = None, mc_pool_seen = False\<rparr>) (\<lambda>st.
     if mc_stack st \<noteq> [] then Inl (unreadable ''unbalanced block'')
     else if \<not> mc_pool_seen st then reject ''the pool is not listed by the device''
     else Inr (mc_members st))"

section \<open>Health of the members\<close>

definition HEALTH_STATES :: "string list" where "HEALTH_STATES = [''UP'', ''DOWN'']"
definition VS_COMMAND :: string where "VS_COMMAND = ''show load-balance virtual-server''"

definition HEALTH_REFUSALS :: "string list" where
  "HEALTH_REFUSALS = [''parsing error'', ''command fail'', ''permission'', ''not authorized'', ''unknown action'', ''invalid'']"

abbreviation "p_gaps \<equiv> PStar (PCls is_gap)"
abbreviation "p_letters \<equiv> pplus (PCls is_alpha)"

definition AVAILABILITY :: pat where
  "AVAILABILITY = pseq [PWordb, plit ''availability:'', p_gaps, PGrp 1 p_letters]"

definition MEMBER_ID :: pat where
  "MEMBER_ID = pseq [PWordb, plit ''id:'', p_gaps, PGrp 1 (pplus p_digit), PWordb]"

definition HC_STATE :: pat where
  "HC_STATE = pseq [PWordb, plit ''hc_state:'', p_gaps, PGrp 1 p_letters]"

definition vs_stat_command :: "string \<Rightarrow> string" where
  "vs_stat_command vs = ''diagnose server-load-balance vs_stat vdom root vs '' @ vs"

definition health_unreadable :: "string \<Rightarrow> exn" where
  "health_unreadable why = Rejected [''the health of the pool members cannot be read ('' @ why @ ''); the change is refused'']"

text \<open>\<open>str.upper()\<close> on ASCII\<close>

definition upper :: "string \<Rightarrow> string" where
  "upper s = map (\<lambda>c. if 97 \<le> code c \<and> code c \<le> 122 then char_of (code c - 32) else c) s"

text \<open>\<open>int(s)\<close>: blanks around, a sign and single underscores between digits are accepted, and no more than 4300 digits.\<close>

definition INT_MAX_STR_DIGITS :: nat where "INT_MAX_STR_DIGITS = 4300"

fun signed :: "string \<Rightarrow> bool \<times> string" where
  "signed [] = (False, [])"
| "signed (c # cs) = (if c = CHR ''-'' then (True, cs) else if c = CHR ''+'' then (False, cs) else (False, c # cs))"

definition py_int :: "string \<Rightarrow> exn + int" where
  "py_int s =
     (let (negative, body) = signed (strip s); parts = split_on CHR ''_'' body in
      if \<not> list_all (\<lambda>p. p \<noteq> [] \<and> list_all is_digit p) parts
      then Inl (OtherError ''ValueError'' (''invalid literal for int() with base 10: '' @ py_repr s))
      else if length (concat parts) > INT_MAX_STR_DIGITS
      then Inl (OtherError ''ValueError'' ''Exceeds the limit for integer string conversion'')
      else Inr (if negative then - int (int_of (concat parts)) else int (int_of (concat parts))))"

fun vs_stat_lines :: "string list \<Rightarrow> (int, string) dict \<Rightarrow> int option \<Rightarrow> exn + (int, string) dict" where
  "vs_stat_lines [] states current = Inr states"
| "vs_stat_lines (line # rows) states current =
     then_check (case Option.bind (re_search MEMBER_ID line) (\<lambda>m. group m 1) of
         None \<Rightarrow> Inr current
       | Some digits \<Rightarrow> then_check (py_int digits) (\<lambda>n. Inr (Some n))) (\<lambda>current.
     case Option.bind (re_search HC_STATE line) (\<lambda>m. group m 1) of
       None \<Rightarrow> vs_stat_lines rows states current
     | Some state \<Rightarrow> (case current of
         None \<Rightarrow> Inl (health_unreadable ''vs_stat member list is not recognised'')
       | Some number \<Rightarrow>
           if number \<in> set (keys states) \<or> upper state \<notin> set HEALTH_STATES
           then Inl (health_unreadable ''vs_stat member list is not recognised'')
           else vs_stat_lines rows (AList.update number (upper state) states) current))"

definition parse_vs_stat :: "string \<Rightarrow> exn + (int, string) dict" where
  "parse_vs_stat text =
     (if list_ex (\<lambda>refusal. contains refusal (casefold text)) HEALTH_REFUSALS then Inl (health_unreadable ''vs_stat was refused'')
      else let rows = splitlines (without_returns text) in
        if length (filter (\<lambda>line. re_search AVAILABILITY line \<noteq> None) rows) \<noteq> 1
        then Inl (health_unreadable ''vs_stat output is not recognised'')
        else then_check (vs_stat_lines rows [] None) (\<lambda>states.
          if states = [] then Inl (health_unreadable ''vs_stat lists no members'') else Inr states))"

section \<open>The device\<close>

record 'd adc_access =
  da_query :: "string \<Rightarrow> ('d, string) act"
  da_diagnose_query :: "string \<Rightarrow> ('d, string) act"
  da_apply :: "string list \<Rightarrow> prompt_spec \<Rightarrow> ('d, nat) act"

text \<open>What was asked with its answer, and what was sent with the exception it ended in\<close>

datatype adc_event = Asked string "exn + string" | Sent "string list" "exn option"

record 'd adc_world =
  aw_device :: 'd
  aw_log :: "adc_event list"

definition asks :: "(string \<Rightarrow> ('d, string) act) \<Rightarrow> string \<Rightarrow> ('d adc_world, string) act" where
  "asks op command w = (case op command (aw_device w) of
     (answer, d) \<Rightarrow> (answer, \<lparr>aw_device = d, aw_log = aw_log w @ [Asked command answer]\<rparr>))"

text \<open>\<open>_write\<close> of both files\<close>

definition adc_write :: "'d adc_access \<Rightarrow> prompt_spec \<Rightarrow> string list \<Rightarrow> ('d adc_world, string option) act" where
  "adc_write acc spec steps w = (case da_apply acc steps spec (aw_device w) of
     (Inl x, d) \<Rightarrow> (Inr (Some (''write failed ('' @ class_name x @ '')'')), \<lparr>aw_device = d, aw_log = aw_log w @ [Sent steps (Some x)]\<rparr>)
   | (Inr _, d) \<Rightarrow> (Inr None, \<lparr>aw_device = d, aw_log = aw_log w @ [Sent steps None]\<rparr>))"

text \<open>The access of \<open>access.py\<close>, whose lines are plain commands here\<close>

definition adc_device :: "'x network \<Rightarrow> endpoint \<Rightarrow> 'x link adc_access" where
  "adc_device nw ep = \<lparr>da_query = query nw ep, da_diagnose_query = diagnose_query nw ep,
     da_apply = (\<lambda>steps. apply_lines nw ep (map Command steps))\<rparr>"

definition REFUSALS :: "(string \<times> string) list" where
  "REFUSALS = [(''command fail'', ''command failed''), (''command parse error'', ''command parse error''),
     (''unknown action'', ''unknown action''), (''value parse error'', ''value parse error'')]"

definition adc_cli_error :: "string \<Rightarrow> string option" where
  "adc_cli_error text = map_option snd (find (\<lambda>(marker, label). contains marker (casefold text)) REFUSALS)"

definition adc_prompt_spec :: "string \<Rightarrow> prompt_spec" where
  "adc_prompt_spec hostname = \<lparr>ps_anchor = newline # hostname, ps_ends = [''# ''], ps_continuation = None,
     ps_error = adc_cli_error, ps_typed = None\<rparr>"

definition HOSTNAME_LINE :: pat where
  "HOSTNAME_LINE = pseq [PBol, plit ''Hostname:'', pplus (PCls is_gap), PGrp 1 (pplus p_nonspace), p_gaps, PEol]"

definition adc_hostname :: "'d adc_access \<Rightarrow> ('d adc_world, string) act" where
  "adc_hostname acc = attempt (asks (da_query acc) ''get system status'')
     (\<lambda>_. lift_res (reject ''the device state cannot be read''))
     (\<lambda>text. case List.map_filter (\<lambda>m. group m 1) (re_findall HOSTNAME_LINE (without_returns text)) of
        [found] \<Rightarrow> if is_adc_hostname found then ret found else lift_res (reject ''the device hostname cannot be established'')
      | _ \<Rightarrow> lift_res (reject ''the device hostname cannot be established''))"

definition show_command :: "string \<Rightarrow> string" where
  "show_command pool = ''show load-balance pool '' @ pool"

definition listing :: "'d adc_access \<Rightarrow> string \<Rightarrow> ('d adc_world, string) act" where
  "listing acc pool = handle (asks (da_query acc) (show_command pool)) (\<lambda>_. lift_res (reject ''the device state cannot be read''))"

definition read_health :: "'d adc_access \<Rightarrow> string \<Rightarrow> ('d adc_world, (int, bool) dict) act" where
  "read_health acc vs = attempt (asks (da_diagnose_query acc) (vs_stat_command vs))
     (\<lambda>_. throw (health_unreadable ''vs_stat query failed''))
     (\<lambda>text. lift_res (then_check (parse_vs_stat text) (\<lambda>states. Inr (map (\<lambda>(number, state). (number, state = ''UP'')) states))))"

definition adc_read :: "'d adc_access \<Rightarrow> string \<Rightarrow> string \<Rightarrow> ('d adc_world, string) act" where
  "adc_read acc pool member = bind (listing acc pool) (\<lambda>text. lift_res (parse_status text pool member))"

text \<open>\<open>except Rejected: return None\<close>\<close>

definition or_none :: "('s, 'a) act \<Rightarrow> ('s, 'a option) act" where
  "or_none m = attempt m (\<lambda>x. if is_rejected x then ret None else throw x) (\<lambda>v. ret (Some v))"

definition readback :: "'d adc_access \<Rightarrow> string \<Rightarrow> string \<Rightarrow> ('d adc_world, string option) act" where
  "readback acc pool member = or_none (adc_read acc pool member)"

text \<open>\<open>_blocks(access.query(VS_COMMAND), ...)\<close> with its two handlers, in \<open>prechecks\<close> and \<open>_users\<close>\<close>

definition virtual_servers :: "'d adc_access \<Rightarrow> ('d adc_world, (string, entry) dict) act" where
  "virtual_servers acc = handle
     (bind (asks (da_query acc) VS_COMMAND) (\<lambda>text. lift_res (adc_blocks text ''load-balance virtual-server'')))
     (\<lambda>x. if is_rejected x then throw x else lift_res (reject ''the virtual servers cannot be read''))"

section \<open>The status of a member\<close>

definition adc_render :: "string \<Rightarrow> string \<Rightarrow> string \<Rightarrow> string list" where
  "adc_render pool member status = [''config load-balance pool'', ''edit \"'' @ pool @ ''\"'', ''config pool_member'', ''edit '' @ member,
     ''set status '' @ status, ''next'', ''end'', ''next'', ''end'']"

text \<open>A virtual server whose pools cannot be evaluated\<close>

definition selects_pools :: "entry \<Rightarrow> bool" where
  "selects_pools attributes \<longleftrightarrow>
     (case map_of attributes ''content-routing'' of None \<Rightarrow> False | Some v \<Rightarrow> v \<noteq> ''disable'')
     \<or> (case map_of attributes ''schedule-pool-list'' of None \<Rightarrow> False | Some v \<Rightarrow> v \<noteq> [])"

fun pool_users :: "string \<Rightarrow> (string, entry) dict \<Rightarrow> exn + string list" where
  "pool_users pool [] = Inr []"
| "pool_users pool ((name, attributes) # servers) =
     (if selects_pools attributes
      then reject (''the virtual server '' @ name @ '' selects pools by content routing or schedule; the pool use cannot be evaluated'')
      else then_check (pool_users pool servers) (\<lambda>users.
        Inr (if map_of attributes ''load-balance-pool'' = Some pool then name # users else users)))"

fun statuses_of :: "string \<Rightarrow> string \<Rightarrow> string list \<Rightarrow> (string, string) dict \<Rightarrow> exn + (string, string) dict" where
  "statuses_of text pool [] statuses = Inr statuses"
| "statuses_of text pool (number # numbers) statuses = then_check (parse_status text pool number) (\<lambda>status.
     statuses_of text pool numbers (AList.update number status statuses))"

text \<open>\<open>any(state == "enable" and health.get(int(number), False) ...)\<close>\<close>

fun any_healthy :: "(int, bool) dict \<Rightarrow> (string, string) dict \<Rightarrow> exn + bool" where
  "any_healthy health [] = Inr False"
| "any_healthy health ((number, state) # statuses) =
     (if state \<noteq> ''enable'' then any_healthy health statuses
      else then_check (py_int number) (\<lambda>n. if map_of health n = Some True then Inr True else any_healthy health statuses))"

definition keeps_service :: "'d adc_access \<Rightarrow> (string, string) dict \<Rightarrow> string \<Rightarrow> ('d adc_world, unit) act" where
  "keeps_service acc statuses vs = bind (read_health acc vs) (\<lambda>health. bind (lift_res (any_healthy health statuses)) (\<lambda>healthy.
     if healthy then ret ()
     else lift_res (reject (''the change would leave virtual server '' @ vs @ '' without a healthy enabled member''))))"

definition adc_prechecks :: "'d adc_access \<Rightarrow> string \<Rightarrow> string \<Rightarrow> string \<Rightarrow> string \<Rightarrow> ('d adc_world, unit) act" where
  "adc_prechecks acc pool member status text =
     bind (virtual_servers acc) (\<lambda>servers.
     bind (lift_res (pool_users pool servers)) (\<lambda>users.
     if users = [] then lift_res (reject ''no virtual server uses the pool; the effect of the change cannot be evaluated'')
     else bind (lift_res (member_numbers text)) (\<lambda>numbers.
       bind (lift_res (statuses_of text pool numbers [])) (\<lambda>statuses.
       seq (each (keeps_service acc (AList.update member status statuses)) users) (ret ())))))"

record status_record =
  sr_pool :: string
  sr_member :: string
  sr_requested :: string
  sr_before :: string
  sr_reason :: "string option"
  sr_result :: string
  sr_after :: "string option"

definition EXIT :: "(string, int) dict" where
  "EXIT = [(''confirmed'', 0), (''unchanged'', 0), (''rolled_back'', 4), (''unknown'', 7)]"

definition exit_code :: "string \<Rightarrow> int option" where
  "exit_code result = map_of EXIT result"

definition reason_of :: "string option \<Rightarrow> 'a option \<Rightarrow> string" where
  "reason_of failure after = (case failure of
     Some why \<Rightarrow> why
   | None \<Rightarrow> if after \<noteq> None then ''read-back differs'' else ''read-back unreadable'')"

text \<open>What follows the prechecks: the write, the read-back and the way back\<close>

definition change_status :: "'d adc_access \<Rightarrow> prompt_spec \<Rightarrow> string \<Rightarrow> string \<Rightarrow> string \<Rightarrow> string \<Rightarrow> ('d adc_world, status_record) act" where
  "change_status acc spec pool member status before =
     (let finished = (\<lambda>reason result after. \<lparr>sr_pool = pool, sr_member = member, sr_requested = status, sr_before = before,
        sr_reason = reason, sr_result = result, sr_after = after\<rparr>) in
      bind (adc_write acc spec (adc_render pool member status)) (\<lambda>failure.
      bind (readback acc pool member) (\<lambda>after.
      if failure = None \<and> after = Some status then ret (finished None ''confirmed'' after)
      else let reason = reason_of failure after in
        bind (if after \<noteq> Some before
              then bind (adc_write acc spec (adc_render pool member before)) (\<lambda>_. readback acc pool member)
              else ret after) (\<lambda>after.
        ret (finished (Some reason) (if after = Some before then ''rolled_back'' else ''unknown'') after)))))"

definition adc_run :: "'d adc_access \<Rightarrow> string \<Rightarrow> string \<Rightarrow> string \<Rightarrow> ('d adc_world, status_record) act" where
  "adc_run acc pool member status =
     (if \<not> is_pool pool then lift_res (reject ''the pool name is not valid'')
      else if \<not> is_member member then lift_res (reject ''the member must be a pool member number'')
      else if status \<notin> set STATUSES then lift_res (reject (''the status must be one of: '' @ join '', '' STATUSES))
      else bind (adc_hostname acc) (\<lambda>hostname.
        bind (listing acc pool) (\<lambda>text.
        bind (lift_res (parse_status text pool member)) (\<lambda>before.
        if before = status
        then ret \<lparr>sr_pool = pool, sr_member = member, sr_requested = status, sr_before = before, sr_reason = None,
          sr_result = ''unchanged'', sr_after = Some before\<rparr>
        else seq (adc_prechecks acc pool member status text)
          (change_status acc (adc_prompt_spec hostname) pool member status before)))))"

section \<open>Adding and removing members\<close>

definition REAL_SERVER_COMMAND :: string where "REAL_SERVER_COMMAND = ''show load-balance real-server''"

definition in_quotes :: "string \<Rightarrow> string" where "in_quotes v = [dquote] @ v @ [dquote]"

text \<open>\<open>RESTORABLE\<close>: the settings a removed member can be given back, how they are written and what they may be\<close>

definition RESTORABLE :: "(string \<times> (string \<Rightarrow> string) \<times> (string \<Rightarrow> bool)) list" where
  "RESTORABLE = [(''real-server'', in_quotes, is_pool), (''status'', id, (\<lambda>v. v \<in> set [''disable'', ''maintain''])),
     (''pool_member_service_port'', id, number_within 4), (''pool_member_cookie'', in_quotes, is_pool),
     (''pool_member_weight'', id, number_within 2)]"

definition render_add :: "string \<Rightarrow> string \<Rightarrow> string \<Rightarrow> string \<Rightarrow> string list" where
  "render_add pool member real_server port = [''config load-balance pool'', ''edit \"'' @ pool @ ''\"'', ''config pool_member'', ''edit '' @ member,
     ''set real-server \"'' @ real_server @ ''\"'', ''set pool_member_service_port '' @ port, ''set status disable'',
     ''next'', ''end'', ''next'', ''end'']"

definition render_remove :: "string \<Rightarrow> string \<Rightarrow> string list" where
  "render_remove pool member = [''config load-balance pool'', ''edit \"'' @ pool @ ''\"'', ''config pool_member'', ''delete '' @ member,
     ''end'', ''next'', ''end'']"

definition render_sets :: "entry \<Rightarrow> string list" where
  "render_sets entry = List.map_filter (\<lambda>(key, form, _). map_option (\<lambda>v. ''set '' @ key @ '' '' @ form v) (map_of entry key)) RESTORABLE"

definition render_create :: "string \<Rightarrow> string \<Rightarrow> entry \<Rightarrow> string list" where
  "render_create pool member entry = [''config load-balance pool'', ''edit \"'' @ pool @ ''\"'', ''config pool_member'', ''edit '' @ member]
     @ render_sets entry @ [''next'', ''end'', ''next'', ''end'']"

definition restorable_value :: "string \<Rightarrow> string \<Rightarrow> bool" where
  "restorable_value key v = (case map_of RESTORABLE key of None \<Rightarrow> False | Some (_, pattern) \<Rightarrow> pattern v)"

definition unrestorable :: "entry \<Rightarrow> string list" where
  "unrestorable entry = sort (map fst (filter (\<lambda>(key, v). \<not> restorable_value key v) entry))"

definition pool_members :: "'d adc_access \<Rightarrow> string \<Rightarrow> ('d adc_world, (string, entry) dict) act" where
  "pool_members acc pool = bind (listing acc pool) (\<lambda>text. lift_res (parse_members text pool))"

definition members_back :: "'d adc_access \<Rightarrow> string \<Rightarrow> ('d adc_world, (string, entry) dict option) act" where
  "members_back acc pool = or_none (pool_members acc pool)"

definition real_server_exists :: "'d adc_access \<Rightarrow> string \<Rightarrow> ('d adc_world, bool) act" where
  "real_server_exists acc real_server = attempt (asks (da_query acc) REAL_SERVER_COMMAND)
     (\<lambda>_. lift_res (reject ''the real servers cannot be read''))
     (\<lambda>text. bind (lift_res (adc_blocks text ''load-balance real-server'')) (\<lambda>servers. ret (real_server \<in> set (keys servers))))"

definition adc_users :: "'d adc_access \<Rightarrow> string \<Rightarrow> ('d adc_world, string list) act" where
  "adc_users acc pool = bind (virtual_servers acc) (\<lambda>servers.
     ret (sort (map fst (filter (\<lambda>(_, attributes). map_of attributes ''load-balance-pool'' = Some pool) servers))))"

definition adc_check :: "string \<Rightarrow> string \<Rightarrow> string option \<Rightarrow> string option \<Rightarrow> exn + unit" where
  "adc_check pool member real_server port =
     (if \<not> is_pool pool then reject ''the pool name is not valid''
      else if \<not> is_member member then reject ''the member must be a pool member number''
      else if (case real_server of None \<Rightarrow> False | Some name \<Rightarrow> \<not> is_pool name) then reject ''the real server name is not valid''
      else if (case port of None \<Rightarrow> False | Some p \<Rightarrow> \<not> number_within 4 p \<or> int_of p > 65535)
      then reject ''the service port must be a number from 1 to 65535''
      else Inr ())"

definition entry_matches :: "entry \<Rightarrow> string \<Rightarrow> string \<Rightarrow> bool" where
  "entry_matches entry real_server port \<longleftrightarrow> map_of entry ''real-server'' = Some real_server
     \<and> map_of entry ''pool_member_service_port'' = Some port \<and> map_of entry ''status'' = Some ''disable''"

text \<open>\<open>==\<close> of dictionaries of dictionaries, and \<open>sorted(before, key=int)\<close>\<close>

definition members_eq :: "(string, entry) dict \<Rightarrow> (string, entry) dict \<Rightarrow> bool" where
  "members_eq a b \<longleftrightarrow> (\<forall>key \<in> set (keys a) \<union> set (keys b). case (map_of a key, map_of b key) of
     (Some x, Some y) \<Rightarrow> dict_eq x y
   | _ \<Rightarrow> False)"

fun py_ints :: "string list \<Rightarrow> exn + int list" where
  "py_ints [] = Inr []"
| "py_ints (s # ss) = then_check (py_int s) (\<lambda>n. then_check (py_ints ss) (\<lambda>ns. Inr (n # ns)))"

definition sorted_by_int :: "string list \<Rightarrow> exn + string list" where
  "sorted_by_int names = then_check (py_ints names) (\<lambda>ns. Inr (map snd (sort_key fst (zip ns names))))"

record member_record =
  mr_operation :: string
  mr_pool :: string
  mr_member :: string
  mr_real_server :: "string option"
  mr_service_port :: "string option"
  mr_requested :: "string option"
  mr_commands :: "string list"
  mr_existing_members :: "string list"
  mr_virtual_servers :: "string list"
  mr_member_before :: "entry option"
  mr_inverse :: "string list"
  mr_reason :: "string option"
  mr_restore :: "(bool \<times> string option) option"
  mr_result :: string
  mr_after :: "string option"

definition added_already :: "(string, entry) dict \<Rightarrow> string \<Rightarrow> string \<Rightarrow> bool" where
  "added_already before real_server port = list_ex (\<lambda>(_, entry).
     map_of entry ''real-server'' = Some real_server \<and> map_of entry ''pool_member_service_port'' = Some port) before"

text \<open>\<open>add\<close> after its checks: the write, the read-back and the way back\<close>

definition add_member ::
  "'d adc_access \<Rightarrow> prompt_spec \<Rightarrow> string \<Rightarrow> string \<Rightarrow> string \<Rightarrow> string \<Rightarrow> (string, entry) dict \<Rightarrow> string list \<Rightarrow> string list
     \<Rightarrow> ('d adc_world, member_record) act" where
  "add_member acc spec pool member real_server port before existing users =
     (let finished = (\<lambda>reason result after. \<lparr>mr_operation = ''pool-member-add'', mr_pool = pool, mr_member = member,
        mr_real_server = Some real_server, mr_service_port = Some port, mr_requested = Some ''disable'',
        mr_commands = render_add pool member real_server port, mr_existing_members = existing, mr_virtual_servers = users,
        mr_member_before = None, mr_inverse = render_remove pool member, mr_reason = reason, mr_restore = None,
        mr_result = result, mr_after = after\<rparr>) in
      bind (adc_write acc spec (render_add pool member real_server port)) (\<lambda>failure.
      bind (members_back acc pool) (\<lambda>after.
      if failure = None \<and> (case after of None \<Rightarrow> False | Some members \<Rightarrow> (case map_of members member of None \<Rightarrow> False | Some entry \<Rightarrow>
           members_eq (filter (\<lambda>(key, _). key \<noteq> member) members) before \<and> entry_matches entry real_server port))
      then ret (finished None ''confirmed'' (Some ''disable''))
      else let reason = reason_of failure after in
        bind (if (case after of None \<Rightarrow> True | Some members \<Rightarrow> member \<in> set (keys members))
              then bind (adc_write acc spec (render_remove pool member)) (\<lambda>_. members_back acc pool)
              else ret after) (\<lambda>after.
        let restored = (case after of None \<Rightarrow> False | Some members \<Rightarrow> members_eq members before) in
        ret (finished (Some reason) (if restored then ''rolled_back'' else ''unknown'') (if restored then None else Some ''unverified''))))))"

definition adc_add :: "'d adc_access \<Rightarrow> string \<Rightarrow> string \<Rightarrow> string \<Rightarrow> string \<Rightarrow> ('d adc_world, member_record) act" where
  "adc_add acc pool member real_server port =
     bind (lift_res (adc_check pool member (Some real_server) (Some port))) (\<lambda>_.
     bind (adc_hostname acc) (\<lambda>hostname.
     bind (pool_members acc pool) (\<lambda>before.
     if member \<in> set (keys before) then lift_res (reject ''the member number is already used in the pool'')
     else if added_already before real_server port
     then lift_res (reject ''the real server with this port is already a member of the pool'')
     else bind (real_server_exists acc real_server) (\<lambda>exists.
       if \<not> exists then lift_res (reject ''the real server is not configured on the device'')
       else bind (lift_res (sorted_by_int (keys before))) (\<lambda>existing.
         bind (adc_users acc pool) (\<lambda>users.
         add_member acc (adc_prompt_spec hostname) pool member real_server port before existing users))))))"

text \<open>\<open>remove\<close> after its checks\<close>

definition remove_member ::
  "'d adc_access \<Rightarrow> prompt_spec \<Rightarrow> string \<Rightarrow> string \<Rightarrow> entry \<Rightarrow> (string, entry) dict \<Rightarrow> string list \<Rightarrow> string list
     \<Rightarrow> ('d adc_world, member_record) act" where
  "remove_member acc spec pool member entry before existing users =
     (let back = render_create pool member entry;
          finished = (\<lambda>reason restore result after. \<lparr>mr_operation = ''pool-member-remove'', mr_pool = pool, mr_member = member,
        mr_real_server = None, mr_service_port = None, mr_requested = None,
        mr_commands = render_remove pool member, mr_existing_members = existing, mr_virtual_servers = users,
        mr_member_before = Some entry, mr_inverse = back, mr_reason = reason, mr_restore = restore,
        mr_result = result, mr_after = after\<rparr>) in
      bind (adc_write acc spec (render_remove pool member)) (\<lambda>failure.
      bind (members_back acc pool) (\<lambda>after.
      if failure = None \<and> (case after of None \<Rightarrow> False | Some members \<Rightarrow> members_eq members (filter (\<lambda>(key, _). key \<noteq> member) before))
      then ret (finished None None ''confirmed'' (Some ''absent''))
      else let reason = reason_of failure after in
        bind (if (case after of None \<Rightarrow> True | Some members \<Rightarrow> member \<notin> set (keys members))
              then bind (adc_write acc spec back) (\<lambda>failed. bind (members_back acc pool) (\<lambda>after.
                ret ((True, Some (case failed of None \<Rightarrow> ''ok'' | Some why \<Rightarrow> why)), after)))
              else ret ((False, None), after)) (\<lambda>(restore, after).
        let restored = (case after of None \<Rightarrow> False | Some members \<Rightarrow> members_eq members before) in
        ret (finished (Some reason) (Some restore) (if restored then ''rolled_back'' else ''unknown'')
          (Some (if restored then ''present'' else ''unverified'')))))))"

definition adc_remove :: "'d adc_access \<Rightarrow> string \<Rightarrow> string \<Rightarrow> ('d adc_world, member_record) act" where
  "adc_remove acc pool member =
     bind (lift_res (adc_check pool member None None)) (\<lambda>_.
     bind (adc_hostname acc) (\<lambda>hostname.
     bind (pool_members acc pool) (\<lambda>before.
     case map_of before member of
       None \<Rightarrow> lift_res (reject ''the member is not in the pool'')
     | Some entry \<Rightarrow>
         if map_of entry ''status'' \<notin> {Some ''disable'', Some ''maintain''}
         then lift_res (reject ''only a disabled or maintained member can be removed'')
         else if length before = 1 then lift_res (reject ''the last member of a pool is never removed'')
         else if unrestorable entry \<noteq> [] \<or> ''real-server'' \<notin> set (keys entry)
         then lift_res (reject (''the member has settings that cannot be restored: ''
           @ (if join '', '' (unrestorable entry) = [] then ''no real-server'' else join '', '' (unrestorable entry))))
         else bind (lift_res (sorted_by_int (keys before))) (\<lambda>existing.
           bind (adc_users acc pool) (\<lambda>users.
           remove_member acc (adc_prompt_spec hostname) pool member entry before existing users)))))"

end
