(* ===== verification/Admin_Fortiadc_Facts.thy ===== *)
theory Admin_Fortiadc_Facts
  imports Admin_Fortiadc
begin

text \<open>
  What the FortiADC commands send and report. A rule for what an action adds to the log of questions and
  writes carries the proofs; the parsers of listings only ever refuse, and the lines that give a removed
  member back are read as exactly that member.
\<close>

section \<open>What an action adds to the log\<close>

definition yields :: "('d adc_world, 'a) act \<Rightarrow> (exn + 'a \<Rightarrow> adc_event list \<Rightarrow> bool) \<Rightarrow> bool" where
  "yields m Q \<longleftrightarrow> (\<forall>w r w'. m w = (r, w') \<longrightarrow> (\<exists>new. aw_log w' = aw_log w @ new \<and> Q r new))"

lemma yieldsI:
  "(\<And>w r w'. m w = (r, w') \<Longrightarrow> \<exists>new. aw_log w' = aw_log w @ new \<and> Q r new) \<Longrightarrow> yields m Q"
  by (auto simp: yields_def)

lemma yieldsD: "yields m Q \<Longrightarrow> m w = (r, w') \<Longrightarrow> \<exists>new. aw_log w' = aw_log w @ new \<and> Q r new"
  by (simp add: yields_def)

lemma yields_weaken: "yields m P \<Longrightarrow> (\<And>r new. P r new \<Longrightarrow> Q r new) \<Longrightarrow> yields m Q"
  unfolding yields_def by blast

lemma yields_pure [simp]:
  "yields (ret v) Q \<longleftrightarrow> Q (Inr v) []" "yields (throw x) Q \<longleftrightarrow> Q (Inl x) []" "yields (lift_res q) Q \<longleftrightarrow> Q q []"
  by (auto simp: yields_def ret_def throw_def lift_res_def)

lemma yields_attempt:
  assumes m: "yields m P"
    and h: "\<And>x n. P (Inl x) n \<Longrightarrow> yields (h x) (\<lambda>r new. Q r (n @ new))"
    and f: "\<And>a n. P (Inr a) n \<Longrightarrow> yields (f a) (\<lambda>r new. Q r (n @ new))"
  shows "yields (attempt m h f) Q"
proof (rule yieldsI)
  fix w r w'
  assume run: "attempt m h f w = (r, w')"
  obtain q t where mt: "m w = (q, t)" by fastforce
  then obtain n where n: "aw_log t = aw_log w @ n" "P q n" using yieldsD [OF m] by blast
  have "\<exists>new. aw_log w' = aw_log t @ new \<and> Q r (n @ new)"
  proof (cases q)
    case (Inl x)
    then show ?thesis using run mt n h yieldsD [of "h x" _ t r w'] by (fastforce simp: attempt_def)
  next
    case (Inr a)
    then show ?thesis using run mt n f yieldsD [of "f a" _ t r w'] by (fastforce simp: attempt_def)
  qed
  then show "\<exists>new. aw_log w' = aw_log w @ new \<and> Q r new" using n by auto
qed

lemma yields_bind:
  assumes "yields m P" and "\<And>x n. P (Inl x) n \<Longrightarrow> Q (Inl x) n"
    and "\<And>a n. P (Inr a) n \<Longrightarrow> yields (f a) (\<lambda>r new. Q r (n @ new))"
  shows "yields (bind m f) Q"
  unfolding bind_attempt
  by (rule yields_attempt [OF assms(1)]) (simp_all add: assms(2,3))

lemma yields_seq:
  "yields m P \<Longrightarrow> (\<And>x n. P (Inl x) n \<Longrightarrow> Q (Inl x) n) \<Longrightarrow> (\<And>a n. P (Inr a) n \<Longrightarrow> yields f (\<lambda>r new. Q r (n @ new)))
     \<Longrightarrow> yields (seq m f) Q"
  unfolding seq_def by (rule yields_bind)

lemma yields_lift:
  "(\<And>x. q = Inl x \<Longrightarrow> Q (Inl x) []) \<Longrightarrow> (\<And>v. q = Inr v \<Longrightarrow> yields (f v) Q) \<Longrightarrow> yields (bind (lift_res q) f) Q"
  by (rule yields_bind [where P = "\<lambda>r new. new = [] \<and> r = q"]) auto

lemma yields_if: "(b \<Longrightarrow> yields m Q) \<Longrightarrow> (\<not> b \<Longrightarrow> yields m' Q) \<Longrightarrow> yields (if b then m else m') Q"
  by simp

lemma yields_handle:
  "yields m P \<Longrightarrow> (\<And>a n. P (Inr a) n \<Longrightarrow> Q (Inr a) n) \<Longrightarrow> (\<And>x n. P (Inl x) n \<Longrightarrow> yields (h x) (\<lambda>r new. Q r (n @ new)))
     \<Longrightarrow> yields (handle m h) Q"
  unfolding handle_attempt by (erule yields_attempt) simp_all

lemma yields_asks: "yields (asks op command) (\<lambda>r new. new = [Asked command r])"
  by (auto simp: yields_def asks_def split: prod.splits)

text \<open>The blocks of lines that were sent\<close>

definition sent_blocks :: "adc_event list \<Rightarrow> string list list" where
  "sent_blocks events = List.map_filter (\<lambda>e. case e of Sent steps _ \<Rightarrow> Some steps | Asked _ _ \<Rightarrow> None) events"

lemma sent_blocks_simps [simp]:
  "sent_blocks [] = []" "sent_blocks (Asked c a # es) = sent_blocks es" "sent_blocks (Sent steps x # es) = steps # sent_blocks es"
  "sent_blocks (xs @ ys) = sent_blocks xs @ sent_blocks ys"
  by (simp_all add: sent_blocks_def List.map_filter_def)

abbreviation silent :: "('d adc_world, 'a) act \<Rightarrow> bool" where
  "silent m \<equiv> yields m (\<lambda>_ new. sent_blocks new = [])"

lemma yields_write:
  "yields (adc_write acc spec steps) (\<lambda>r new. \<exists>x. new = [Sent steps x] \<and> (\<exists>failure. r = Inr failure \<and> (failure = None \<longleftrightarrow> x = None)))"
  by (auto simp: yields_def adc_write_def split: prod.splits sum.splits)

section \<open>Listings are read or refused\<close>

lemma then_check_raised: "then_check r f = Inl x \<Longrightarrow> r = Inl x \<or> (\<exists>v. r = Inr v \<and> f v = Inl x)"
  by (cases r) (auto simp: then_check_def)

lemma unreadable_rejected [simp]: "is_rejected (unreadable why)"
  by (simp add: unreadable_def)

lemma adc_words_rejects: "adc_words s = Inl x \<Longrightarrow> is_rejected x"
proof (induction s rule: adc_words.induct)
  case (1 s)
  from 1(2) have "dropWhile is_gap s \<noteq> []" by (subst (asm) adc_words.simps) (auto split: if_splits)
  with 1 show ?case
    by (subst (asm) (2) adc_words.simps) (auto split: if_splits option.splits dest!: then_check_raised)
qed

lemma fold_lines_rejects:
  assumes "\<And>line st x. turn line st = Inl x \<Longrightarrow> is_rejected x"
  shows "fold_lines turn rows st = Inl x \<Longrightarrow> is_rejected x"
proof (induction rows arbitrary: st)
  case (Cons raw rows)
  from Cons.prems consider "adc_words raw = Inl x"
    | words where "(if words = [] then Inr st else turn (line_kind words) st) = Inl x"
    | st' where "fold_lines turn rows st' = Inl x"
    by (auto dest!: then_check_raised)
  then show ?case
    using adc_words_rejects assms Cons.IH by cases (auto split: if_splits)
qed simp

lemma close_block_rejects: "close_block kind stack = Inl x \<Longrightarrow> is_rejected x"
  by (auto simp: close_block_def split: if_splits)

lemma status_line_rejects: "status_line wanted line st = Inl x \<Longrightarrow> is_rejected x"
  by (cases line) (auto simp: Let_def split: if_splits dest!: then_check_raised dest: close_block_rejects)

lemma parse_status_rejects: "parse_status text pool member = Inl x \<Longrightarrow> is_rejected x"
  by (auto simp: parse_status_def reject_def Let_def split: if_splits option.splits dest!: then_check_raised
      intro: fold_lines_rejects [OF status_line_rejects])

lemma parse_status_known: "parse_status text pool member = Inr status \<Longrightarrow> status \<in> set STATUSES"
  by (auto simp: parse_status_def reject_def Let_def split: if_splits option.splits)

section \<open>The change of a status\<close>

text \<open>Whether a log ends with a listing that shows the member with a status\<close>

definition shows_last :: "adc_event list \<Rightarrow> string \<Rightarrow> string \<Rightarrow> string \<Rightarrow> bool" where
  "shows_last events pool member status \<longleftrightarrow> (\<exists>before text.
     events = before @ [Asked (show_command pool) (Inr text)] \<and> parse_status text pool member = Inr status)"

lemma shows_last_append: "shows_last events pool member status \<Longrightarrow> shows_last (earlier @ events) pool member status"
  unfolding shows_last_def by (metis append_assoc)

lemma shows_last_Cons [simp]: "shows_last (e # e' # events) pool member status \<longleftrightarrow> shows_last (e' # events) pool member status"
  by (auto simp: shows_last_def Cons_eq_append_conv)

lemma yields_listing:
  "yields (listing acc pool) (\<lambda>r new. \<exists>a. new = [Asked (show_command pool) a] \<and> (\<forall>text. r = Inr text \<longrightarrow> a = Inr text) \<and> (\<forall>x. r = Inl x \<longrightarrow> is_rejected x))"
  unfolding listing_def by (rule yields_handle [OF yields_asks]) (auto simp: reject_def)

lemma yields_readback:
  "yields (readback acc pool member) (\<lambda>r new. \<exists>a after. new = [Asked (show_command pool) a] \<and> r = Inr after
     \<and> (\<forall>status. after = Some status \<longrightarrow> shows_last new pool member status))"
  unfolding readback_def or_none_def adc_read_def
proof (rule yields_attempt [where P = "\<lambda>r new. \<exists>a. new = [Asked (show_command pool) a] \<and> (\<forall>x. r = Inl x \<longrightarrow> is_rejected x)
     \<and> (\<forall>status. r = Inr status \<longrightarrow> shows_last new pool member status)"])
  show "yields (bind (listing acc pool) (\<lambda>text. lift_res (parse_status text pool member)))
     (\<lambda>r new. \<exists>a. new = [Asked (show_command pool) a] \<and> (\<forall>x. r = Inl x \<longrightarrow> is_rejected x)
       \<and> (\<forall>status. r = Inr status \<longrightarrow> shows_last new pool member status))"
    by (rule yields_bind [OF yields_listing]) (auto simp: shows_last_def dest: parse_status_rejects)
qed auto

lemma silent_hostname: "silent (adc_hostname acc)"
  unfolding adc_hostname_def by (rule yields_attempt [OF yields_asks]) (auto split: list.splits)

text \<open>What the prechecks must have seen: no virtual server selects its pools in a way that cannot be
  evaluated, at least one uses the pool, and each that does keeps a member that is enabled after the change
  and reported up.\<close>

definition users_of :: "string \<Rightarrow> (string, entry) dict \<Rightarrow> string list" where
  "users_of pool servers = map fst (filter (\<lambda>(_, attributes). map_of attributes ''load-balance-pool'' = Some pool) servers)"

definition stays_up :: "adc_event list \<Rightarrow> string \<Rightarrow> string \<Rightarrow> string \<Rightarrow> string \<Rightarrow> string \<Rightarrow> bool" where
  "stays_up events text pool member status vs \<longleftrightarrow> (\<exists>answer states number n.
     Asked (vs_stat_command vs) (Inr answer) \<in> set events \<and> parse_vs_stat answer = Inr states
     \<and> (if number = member then status = ''enable'' else parse_status text pool number = Inr ''enable'')
     \<and> py_int number = Inr n \<and> map_of states n = Some ''UP'')"

definition served :: "adc_event list \<Rightarrow> string \<Rightarrow> string \<Rightarrow> string \<Rightarrow> string \<Rightarrow> bool" where
  "served events text pool member status \<longleftrightarrow> (\<exists>answer servers.
     Asked VS_COMMAND (Inr answer) \<in> set events \<and> adc_blocks answer ''load-balance virtual-server'' = Inr servers
     \<and> list_all (\<lambda>(_, attributes). \<not> selects_pools attributes) servers \<and> users_of pool servers \<noteq> []
     \<and> list_all (stays_up events text pool member status) (users_of pool servers))"

lemma pool_users_Inr:
  "pool_users pool servers = Inr users \<Longrightarrow>
     users = users_of pool servers \<and> list_all (\<lambda>(_, attributes). \<not> selects_pools attributes) servers"
  by (induction pool servers arbitrary: users rule: pool_users.induct)
    (auto simp: users_of_def reject_def split: if_splits)

text \<open>Statuses that were all read from a listing\<close>

definition read_from :: "string \<Rightarrow> string \<Rightarrow> (string, string) dict \<Rightarrow> bool" where
  "read_from text pool statuses \<longleftrightarrow> wf_dict statuses \<and> (\<forall>k v. map_of statuses k = Some v \<longrightarrow> parse_status text pool k = Inr v)"

lemma read_from_update: "read_from text pool d \<Longrightarrow> parse_status text pool k = Inr v \<Longrightarrow> read_from text pool (AList.update k v d)"
  by (auto simp: read_from_def)

lemma statuses_of_Inr:
  "statuses_of text pool numbers d = Inr statuses \<Longrightarrow> read_from text pool d \<Longrightarrow> read_from text pool statuses"
proof (induction numbers arbitrary: d)
  case (Cons number numbers)
  from Cons.prems(1) obtain status where "parse_status text pool number = Inr status"
    and "statuses_of text pool numbers (AList.update number status d) = Inr statuses"
    by auto
  with Cons.IH Cons.prems(2) show ?case by (blast intro: read_from_update)
qed simp

lemma any_healthy_True:
  "any_healthy health statuses = Inr True \<Longrightarrow>
     \<exists>number n. (number, ''enable'') \<in> set statuses \<and> py_int number = Inr n \<and> map_of health n = Some True"
  by (induction health statuses rule: any_healthy.induct) (fastforce split: if_splits)+

lemma map_of_up: "map_of (map (\<lambda>(number, state). (number, state = ''UP'')) states) n = Some True \<Longrightarrow> map_of states n = Some ''UP''"
  by (induction states) (auto split: if_splits)

lemma yields_health:
  "yields (read_health acc vs) (\<lambda>r new. sent_blocks new = [] \<and> (\<forall>health. r = Inr health \<longrightarrow> (\<exists>answer states.
     Asked (vs_stat_command vs) (Inr answer) \<in> set new \<and> parse_vs_stat answer = Inr states
     \<and> (\<forall>n. map_of health n = Some True \<longrightarrow> map_of states n = Some ''UP''))))"
  unfolding read_health_def
  by (rule yields_attempt [OF yields_asks]) (auto dest: map_of_up)

lemma yields_keeps_service:
  assumes "read_from text pool statuses"
  shows "yields (keeps_service acc (AList.update member status statuses) vs)
     (\<lambda>r new. sent_blocks new = [] \<and> (r = Inr () \<longrightarrow> stays_up new text pool member status vs))"
proof -
  have entry: "if number = member then status = ''enable'' else parse_status text pool number = Inr ''enable''"
    if "(number, ''enable'') \<in> set (AList.update member status statuses)" for number
  proof -
    have "map_of (AList.update member status statuses) number = Some ''enable''"
      using that assms wf_dict_update by (metis keys_def map_of_eq_Some_iff read_from_def wf_dict_def)
    then show ?thesis using assms by (auto simp: read_from_def split: if_splits)
  qed
  have up: "stays_up events text pool member status vs"
    if healthy: "any_healthy health (AList.update member status statuses) = Inr True"
      and asked: "Asked (vs_stat_command vs) (Inr answer) \<in> set events" "parse_vs_stat answer = Inr states"
      and states: "\<And>n. map_of health n = Some True \<Longrightarrow> map_of states n = Some ''UP''" for events health answer states
    using any_healthy_True [OF healthy] asked states entry unfolding stays_up_def by blast
  show ?thesis
    unfolding keeps_service_def
    by (rule yields_bind [OF yields_health]; (rule yields_lift)?) (auto simp: reject_def intro: up)
qed

lemma stays_up_append: "stays_up events text pool member status vs \<Longrightarrow> stays_up (before @ events @ after) text pool member status vs"
  unfolding stays_up_def set_append by blast

lemma yields_each:
  assumes "\<And>x. yields (f x) (\<lambda>r new. sent_blocks new = [] \<and> (r = Inr () \<longrightarrow> P new x))"
    and "\<And>before new after x. P new x \<Longrightarrow> P (before @ new @ after) x"
  shows "yields (each f xs) (\<lambda>r new. sent_blocks new = [] \<and> (\<forall>ys. r = Inr ys \<longrightarrow> list_all (P new) xs))"
proof (induction xs)
  case (Cons x xs)
  show ?case
    unfolding each.simps
  proof (rule yields_bind [OF assms(1)])
    fix a n
    assume n: "sent_blocks n = [] \<and> (Inr a = Inr () \<longrightarrow> P n x)"
    show "yields (bind (each f xs) (\<lambda>ys. ret (a # ys)))
       (\<lambda>r new. sent_blocks (n @ new) = [] \<and> (\<forall>ys. r = Inr ys \<longrightarrow> list_all (P (n @ new)) (x # xs)))"
      by (rule yields_bind [OF Cons.IH])
        (use n assms(2) [of n x "[]"] assms(2) [of _ _ n "[]"] in \<open>auto simp: list_all_iff\<close>)
  qed simp
qed simp

lemma yields_servers:
  "yields (virtual_servers acc) (\<lambda>r new. sent_blocks new = [] \<and> (\<forall>servers. r = Inr servers \<longrightarrow> (\<exists>answer.
     Asked VS_COMMAND (Inr answer) \<in> set new \<and> adc_blocks answer ''load-balance virtual-server'' = Inr servers)))"
  unfolding virtual_servers_def
  by (rule yields_handle [where P = "\<lambda>r new. sent_blocks new = [] \<and> (\<forall>servers. r = Inr servers \<longrightarrow> (\<exists>answer.
     Asked VS_COMMAND (Inr answer) \<in> set new \<and> adc_blocks answer ''load-balance virtual-server'' = Inr servers))"]; (rule yields_bind [OF yields_asks])?)
    (auto simp: reject_def)

lemma yields_prechecks:
  "yields (adc_prechecks acc pool member status text)
     (\<lambda>r new. sent_blocks new = [] \<and> (r = Inr () \<longrightarrow> served new text pool member status))"
  unfolding adc_prechecks_def
proof (rule yields_bind [OF yields_servers])
  fix servers n
  assume n: "sent_blocks n = [] \<and> (\<forall>s. Inr servers = Inr s \<longrightarrow> (\<exists>answer.
     Asked VS_COMMAND (Inr answer) \<in> set n \<and> adc_blocks answer ''load-balance virtual-server'' = Inr s))"
  have each: "yields (seq (each (keeps_service acc (AList.update member status statuses)) users) (ret ()))
      (\<lambda>r new. sent_blocks (n @ new) = [] \<and> (r = Inr () \<longrightarrow> served (n @ new) text pool member status))"
    if users: "pool_users pool servers = Inr users" "users \<noteq> []" and statuses: "read_from text pool statuses" for users statuses
  proof (rule yields_seq [OF yields_each [where P = "\<lambda>new. stays_up new text pool member status"]])
    show "yields (keeps_service acc (AList.update member status statuses) vs)
       (\<lambda>r new. sent_blocks new = [] \<and> (r = Inr () \<longrightarrow> stays_up new text pool member status vs))" for vs
      by (rule yields_keeps_service [OF statuses])
    fix a events
    assume up: "sent_blocks events = [] \<and> (\<forall>ys. Inr a = Inr ys \<longrightarrow> list_all (stays_up events text pool member status) users)"
    then have "list_all (stays_up (n @ events) text pool member status) (users_of pool servers)"
      using pool_users_Inr [OF users(1)] stays_up_append [of events _ _ _ _ _ n "[]"] by (auto simp: list_all_iff)
    then show "yields (ret ()) (\<lambda>r new. sent_blocks (n @ events @ new) = [] \<and> (r = Inr () \<longrightarrow> served (n @ events @ new) text pool member status))"
      using n up users(2) pool_users_Inr [OF users(1)] by (auto simp: served_def)
  qed (auto simp: stays_up_append n)
  have empty: "read_from text pool []" by (simp add: read_from_def wf_dict_def)
  show "yields (bind (lift_res (pool_users pool servers)) (\<lambda>users.
     if users = [] then lift_res (reject ''no virtual server uses the pool; the effect of the change cannot be evaluated'')
     else bind (lift_res (member_numbers text)) (\<lambda>numbers. bind (lift_res (statuses_of text pool numbers [])) (\<lambda>statuses.
       seq (each (keeps_service acc (AList.update member status statuses)) users) (ret ())))))
    (\<lambda>r new. sent_blocks (n @ new) = [] \<and> (r = Inr () \<longrightarrow> served (n @ new) text pool member status))"
    by (intro yields_lift yields_if impI each) (auto simp: n reject_def dest: statuses_of_Inr [OF _ empty])
qed simp

text \<open>How a change ends: refused with nothing sent, unchanged with nothing sent, or with the result that the
  last listing of the pool shows.\<close>

fun status_outcome :: "string \<Rightarrow> string \<Rightarrow> string \<Rightarrow> exn + status_record \<Rightarrow> adc_event list \<Rightarrow> bool" where
  "status_outcome pool member status (Inl _) events \<longleftrightarrow> sent_blocks events = []"
| "status_outcome pool member status (Inr report) events \<longleftrightarrow>
     (let forward = adc_render pool member status; back = adc_render pool member (sr_before report) in
      sr_result report = ''unchanged'' \<and> sr_before report = status \<and> sent_blocks events = [] \<and> shows_last events pool member status
      \<or> sr_result report = ''confirmed'' \<and> sr_before report \<noteq> status \<and> sent_blocks events = [forward]
        \<and> Sent forward None \<in> set events \<and> shows_last events pool member status
      \<or> sr_result report = ''rolled_back'' \<and> sr_before report \<noteq> status \<and> sent_blocks events \<in> {[forward], [forward, back]}
        \<and> shows_last events pool member (sr_before report)
      \<or> sr_result report = ''unknown'' \<and> sr_before report \<noteq> status \<and> sent_blocks events = [forward, back])"

lemma status_outcome_append:
  "status_outcome pool member status r events \<Longrightarrow> sent_blocks earlier = [] \<Longrightarrow> status_outcome pool member status r (earlier @ events)"
  by (cases r) (auto simp: Let_def intro: shows_last_append)

lemma yields_write_readback:
  "yields (bind (adc_write acc spec steps) (\<lambda>_. readback acc pool member)) (\<lambda>r new. \<exists>after x a.
     r = Inr after \<and> new = [Sent steps x, Asked (show_command pool) a] \<and> (\<forall>status. after = Some status \<longrightarrow> shows_last new pool member status))"
  by (rule yields_bind [OF yields_write]; (rule yields_weaken [OF yields_readback])?) (auto simp: shows_last_def)

lemma yields_change_status:
  assumes "before \<noteq> status"
  shows "yields (change_status acc spec pool member status before)
     (\<lambda>r new. status_outcome pool member status r new \<and> (\<forall>report. r = Inr report \<longrightarrow> sr_before report = before))"
  unfolding change_status_def Let_def
proof (rule yields_bind [OF yields_write], goal_cases)
  case (2 failure n)
  then obtain x where n: "n = [Sent (adc_render pool member status) x]" and x: "failure = None \<longleftrightarrow> x = None" by auto
  show ?case
  proof ((rule yields_bind [OF yields_readback]; (rule yields_if)?), goal_cases)
    case (3 after k)
    let ?Q = "\<lambda>r new. \<exists>v. r = Inr v \<and> (sent_blocks new = [] \<and> v = Some before \<or> sent_blocks new = [adc_render pool member before])
       \<and> (v = Some before \<longrightarrow> shows_last (k @ new) pool member before)"
    have "yields (if after \<noteq> Some before
        then bind (adc_write acc spec (adc_render pool member before)) (\<lambda>_. readback acc pool member) else ret after) ?Q"
      using 3 by (intro yields_if yields_weaken [OF yields_write_readback]) auto
    then show ?case
      by (rule yields_bind) (use n 3(1) assms in \<open>auto simp: Let_def\<close>)
  qed (use n x assms in \<open>auto simp: Let_def\<close>)
qed auto

definition justified :: "string \<Rightarrow> string \<Rightarrow> string \<Rightarrow> adc_event list \<Rightarrow> bool" where
  "justified pool member status events \<longleftrightarrow> (\<exists>earlier later text. events = earlier @ later \<and> sent_blocks earlier = []
     \<and> Asked (show_command pool) (Inr text) \<in> set earlier \<and> served earlier text pool member status)"

lemma served_append: "served events text pool member status \<Longrightarrow> served (earlier @ events @ later) text pool member status"
  unfolding served_def set_append using stays_up_append by (fastforce simp: list_all_iff)

text \<open>The status a report gives as the one before is that of a listing read before anything was sent.\<close>

fun begins_with :: "string \<Rightarrow> string \<Rightarrow> exn + status_record \<Rightarrow> adc_event list \<Rightarrow> bool" where
  "begins_with pool member (Inl _) events = True"
| "begins_with pool member (Inr report) events \<longleftrightarrow> (\<exists>earlier later.
     events = earlier @ later \<and> sent_blocks earlier = [] \<and> shows_last earlier pool member (sr_before report))"

lemma begins_withI:
  "shows_last earlier pool member before \<Longrightarrow> sent_blocks earlier = [] \<Longrightarrow> (\<And>report. r = Inr report \<Longrightarrow> sr_before report = before)
     \<Longrightarrow> begins_with pool member r (earlier @ later)"
  by (cases r) auto

abbreviation safe_run :: "string \<Rightarrow> string \<Rightarrow> string \<Rightarrow> exn + status_record \<Rightarrow> adc_event list \<Rightarrow> bool" where
  "safe_run pool member status r events \<equiv> (sent_blocks events = [] \<or> justified pool member status events)
     \<and> begins_with pool member r events \<and> status_outcome pool member status r events"

lemma yields_checked_change:
  assumes "sent_blocks n = []" and "parse_status listed pool member = Inr before" and "before \<noteq> status"
    and k: "k = n @ [Asked (show_command pool) (Inr listed)]"
  shows "yields (seq (adc_prechecks acc pool member status listed) (change_status acc spec pool member status before))
     (\<lambda>r new. safe_run pool member status r (k @ new))"
proof (rule yields_seq [OF yields_prechecks], goal_cases)
  case (2 u e)
  have shown: "shows_last k pool member before" "sent_blocks k = []" using assms by (auto simp: shows_last_def)
  from 2 have "justified pool member status (k @ e @ later)" for later
    unfolding justified_def using served_append [of e listed pool member status k "[]"] shown(2) k
    by (intro exI [of _ "k @ e"] exI [of _ later] exI [of _ listed]) auto
  moreover note begins_withI [OF shown]
  ultimately show ?case
    using 2 shown(2) status_outcome_append [of pool member status _ _ "k @ e"]
    by (intro yields_weaken [OF yields_change_status [OF assms(3)]]) auto
qed (use assms in auto)

text \<open>
  (C12) A change of the status of a pool member sends nothing unless, before anything was sent, the listing of the pool was
  read, no virtual server selects its pools by content routing or schedule, at least one uses the pool, and every one
  that does has a member that is enabled after the change and reported up. A refusal sends nothing; \<open>unchanged\<close> and
  \<open>confirmed\<close> mean that the last listing shows the requested status, \<open>rolled_back\<close> that it shows the status before, and the
  lines sent are those of the change, once, followed at most by those of the way back.
\<close>

theorem adc_run_safe:
  "\<exists>new. aw_log (snd (adc_run acc pool member status w)) = aw_log w @ new
     \<and> (sent_blocks new = [] \<or> justified pool member status new)
     \<and> begins_with pool member (fst (adc_run acc pool member status w)) new
     \<and> status_outcome pool member status (fst (adc_run acc pool member status w)) new"
proof -
  let ?Q = "safe_run pool member status"
  have "yields (adc_run acc pool member status) ?Q"
    unfolding adc_run_def
  proof (intro yields_if, goal_cases)
    case 4
    show ?case
    proof (rule yields_bind [OF silent_hostname], goal_cases)
      case (2 hostname n)
      show ?case
      proof (rule yields_bind [OF yields_listing], goal_cases)
        case (2 listed k)
        then have k: "k = [Asked (show_command pool) (Inr listed)]" by auto
        show ?case
        proof (intro yields_lift yields_if, goal_cases)
          case (2 before)
          with \<open>sent_blocks n = []\<close> k show ?case
            using begins_withI [of "n @ k" pool member before _ "[]"] by (force simp: Let_def shows_last_def simp del: begins_with.simps)
        next
          case (3 before)
          then show ?case
            using yields_checked_change [of n listed pool member before status "n @ k"] \<open>sent_blocks n = []\<close> k by simp
        qed (use \<open>sent_blocks n = []\<close> k in auto)
      qed (use \<open>sent_blocks n = []\<close> in auto)
    qed auto
  qed (auto simp: reject_def)
  moreover obtain r w' where "adc_run acc pool member status w = (r, w')" by fastforce
  ultimately show ?thesis using yieldsD [of "adc_run acc pool member status" ?Q w r w'] by simp
qed

section \<open>Rendered lines are read as they were meant\<close>

text \<open>A word without blanks, quotes, backslashes and line breaks\<close>

definition plain_word :: "string \<Rightarrow> bool" where
  "plain_word w \<longleftrightarrow> w \<noteq> [] \<and> list_all plain w"

lemma plain_not_gap: "plain c \<Longrightarrow> \<not> is_gap c"
  by (auto simp: plain_def is_gap_def is_space_def)

lemma plain_no_break: "plain c \<Longrightarrow> \<not> line_break c"
  by (auto simp: plain_def line_break_def is_space_def)

lemma token_plain: "plain_word w \<Longrightarrow> rest = [] \<or> hd rest = blank \<Longrightarrow> token (w @ rest) = Some (w, rest)"
proof -
  assume w: "plain_word w" and rest: "rest = [] \<or> hd rest = blank"
  then have "takeWhile plain (w @ rest) = w \<and> dropWhile plain (w @ rest) = rest"
    by (cases rest) (auto simp: plain_word_def list_all_iff takeWhile_append dropWhile_append plain_def)
  moreover have "hd (w @ rest) \<noteq> dquote" "plain (hd (w @ rest))" "w @ rest \<noteq> []"
    using w by (cases w; auto simp: plain_word_def plain_def)+
  ultimately show ?thesis using rest by (auto simp: token_def token_end_def)
qed

lemma quoted_end_plain: "list_all plain v \<Longrightarrow> quoted_end (v @ dquote # rest) d = Some (d @ v, rest)"
  by (induction v arbitrary: d) (auto simp: plain_def)

lemma adc_words_token:
  "token s = Some (w, rest) \<Longrightarrow> \<not> is_gap (hd s) \<Longrightarrow> adc_words s = then_check (adc_words rest) (\<lambda>words. Inr (w # words))"
  by (cases s) (subst adc_words.simps; simp add: token_def)+

lemma adc_words_nil [simp]: "adc_words [] = Inr []"
  by (simp add: adc_words.simps)

lemma adc_words_blank [simp]: "adc_words (blank # s) = adc_words s"
  by (subst (1 2) adc_words.simps) (auto simp: is_gap_def)

lemma adc_words_plain [simp]:
  "plain_word w \<Longrightarrow> adc_words w = Inr [w]"
  "plain_word w \<Longrightarrow> adc_words (w @ blank # rest) = then_check (adc_words rest) (\<lambda>words. Inr (w # words))"
  using token_plain [of w "[]"] token_plain [of w "blank # rest"] adc_words_token [of w w "[]"]
    adc_words_token [of "w @ blank # rest" w "blank # rest"] plain_not_gap [of "hd w"]
  by (cases w; simp add: plain_word_def then_check_def)+

lemma adc_words_quoted [simp]: "list_all plain v \<Longrightarrow> adc_words (dquote # v @ [dquote]) = Inr [v]"
  using quoted_end_plain [of v "[]" "[]"] adc_words_token [of "dquote # v @ [dquote]" v "[]"]
  by (simp add: token_def token_end_def is_gap_def then_check_def)

lemma host_char_plain: "host_char c \<Longrightarrow> plain c"
  by (auto simp: host_char_def plain_def is_alpha_def is_digit_def is_space_def code_def)

lemma alnum_plain: "is_alpha c \<Longrightarrow> plain c" "is_digit c \<Longrightarrow> plain c"
  by (simp_all add: host_char_def host_char_plain)

lemma name_within_plain: "name_within n s \<Longrightarrow> plain_word s"
  by (cases s) (auto simp: name_within_def plain_word_def list_all_iff intro: alnum_plain host_char_plain)

lemma number_within_plain: "number_within n s \<Longrightarrow> plain_word s"
  by (cases s) (auto simp: number_within_def plain_word_def list_all_iff intro: alnum_plain)

section \<open>Texts of lines\<close>

definition unlines :: "string list \<Rightarrow> string" where
  "unlines rows = concat (map (\<lambda>row. row @ [newline]) rows)"

abbreviation one_line :: "string \<Rightarrow> bool" where
  "one_line row \<equiv> list_all (\<lambda>c. \<not> line_break c) row"

lemma line_parts_row: "one_line row \<Longrightarrow> line_parts (row @ newline # rest) cur = (cur @ row) # line_parts rest []"
  by (induction row arbitrary: cur) (auto simp: line_break_def split: list.splits)

lemma splitlines_unlines: "list_all one_line rows \<Longrightarrow> splitlines (unlines rows) = rows"
  unfolding splitlines_def unlines_def by (induction rows) (auto simp: line_parts_row)

lemma returns_unlines: "list_all one_line rows \<Longrightarrow> without_returns (unlines rows) = unlines rows"
  unfolding without_returns_def unlines_def
  by (induction rows) (auto simp: filter_id_conv list_all_iff line_break_def)

section \<open>Giving a removed member back\<close>

lemma fold_lines_append: "fold_lines turn (xs @ ys) st = then_check (fold_lines turn xs st) (fold_lines turn ys)"
  by (induction xs arbitrary: st) (auto simp: then_check_def split: sum.splits)

text \<open>A parser inside the member \<open>member\<close> of the pool\<close>

definition in_member :: "string \<Rightarrow> string \<Rightarrow> entry \<Rightarrow> member_scan" where
  "in_member pool member entry = \<lparr>mc_stack = member_target pool member, mc_members = [(member, entry)], mc_current = Some member, mc_pool_seen = True\<rparr>"

lemma member_opened:
  assumes "plain_word pool" and "plain_word member"
  shows "fold_lines (member_line pool) [''config load-balance pool'', ''edit \"'' @ pool @ ''\"'', ''config pool_member'', ''edit '' @ member]
     \<lparr>mc_stack = [], mc_members = [], mc_current = None, mc_pool_seen = False\<rparr> = Inr (in_member pool member [])"
proof -
  have "adc_words ''config load-balance pool'' = Inr [''config'', ''load-balance'', ''pool'']" by code_simp
  moreover have "adc_words ''config pool_member'' = Inr [''config'', ''pool_member'']" by code_simp
  moreover have edit: "plain_word ''edit''" by code_simp
  moreover have "adc_words (''edit \"'' @ pool @ ''\"'') = Inr [''edit'', pool]"
    using adc_words_plain(2) [OF edit, of "dquote # pool @ [dquote]"] assms(1) by (simp add: then_check_def plain_word_def)
  moreover have "adc_words (''edit '' @ member) = Inr [''edit'', member]"
    using adc_words_plain(2) [OF edit, of member] assms(2) by (simp add: then_check_def)
  ultimately show ?thesis
    by (simp add: then_check_def line_kind_def in_member_def member_target_def Let_def)
qed

lemma member_closed:
  "fold_lines (member_line pool) [''next'', ''end'', ''next'', ''end''] (in_member pool member entry)
     = Inr \<lparr>mc_stack = [], mc_members = [(member, entry)], mc_current = Some member, mc_pool_seen = True\<rparr>"
proof -
  have "adc_words ''next'' = Inr [''next'']" "adc_words ''end'' = Inr [''end'']" by code_simp+
  then show ?thesis
    by (simp add: then_check_def line_kind_def in_member_def member_target_def close_block_def)
qed

lemma member_set:
  assumes "adc_words row = Inr [''set'', key, v]" and "key \<notin> set (keys entry)"
  shows "fold_lines (member_line pool) (row # rows) (in_member pool member entry)
     = fold_lines (member_line pool) rows (in_member pool member (entry @ [(key, v)]))"
  using assms by (simp add: then_check_def line_kind_def in_member_def member_target_def in_entry_def entry_of_def update_fresh)

text \<open>The settings in the order in which they are written\<close>

definition restored_entry :: "entry \<Rightarrow> (string \<times> (string \<Rightarrow> string) \<times> (string \<Rightarrow> bool)) list \<Rightarrow> entry" where
  "restored_entry entry settings = List.map_filter (\<lambda>(key, _, _). map_option (Pair key) (map_of entry key)) settings"

definition writable :: "string \<times> (string \<Rightarrow> string) \<times> (string \<Rightarrow> bool) \<Rightarrow> bool" where
  "writable setting \<longleftrightarrow> (case setting of (key, form, pattern) \<Rightarrow> plain_word key
     \<and> (\<forall>v. pattern v \<longrightarrow> adc_words (form v) = Inr [v] \<and> one_line (form v)))"

lemma plain_word_one_line: "plain_word w \<Longrightarrow> one_line w"
  by (auto simp: plain_word_def list_all_iff dest: plain_no_break)

lemma restorable_writable: "list_all writable RESTORABLE"
proof -
  have "plain_word ''real-server''" "plain_word ''status''" "plain_word ''pool_member_service_port''"
    "plain_word ''pool_member_cookie''" "plain_word ''pool_member_weight''" "plain_word ''disable''" "plain_word ''maintain''"
    by code_simp+
  moreover have "adc_words (in_quotes v) = Inr [v] \<and> one_line (in_quotes v)" if "is_pool v" for v
    using name_within_plain [OF that [unfolded is_pool_def]] plain_word_one_line [of v]
    by (simp add: in_quotes_def plain_word_def line_break_def)
  moreover have "adc_words v = Inr [v] \<and> one_line v" if "plain_word v" for v
    using that plain_word_one_line by simp
  ultimately show ?thesis
    unfolding RESTORABLE_def writable_def by (auto simp: line_break_def dest: number_within_plain)
qed

definition reads_back :: "entry \<Rightarrow> string \<times> (string \<Rightarrow> string) \<times> (string \<Rightarrow> bool) \<Rightarrow> bool" where
  "reads_back entry setting \<longleftrightarrow> (case setting of (key, form, _) \<Rightarrow> plain_word key
     \<and> (\<forall>v. map_of entry key = Some v \<longrightarrow> adc_words (form v) = Inr [v] \<and> one_line (form v)))"

lemma sets_read:
  assumes "list_all (reads_back entry) settings" and "distinct (map fst settings)"
    and "set (map fst settings) \<inter> set (keys done) = {}"
  shows "fold_lines (member_line pool)
      (List.map_filter (\<lambda>(key, form, _). map_option (\<lambda>v. ''set '' @ key @ '' '' @ form v) (map_of entry key)) settings)
      (in_member pool member done) = Inr (in_member pool member (done @ restored_entry entry settings))"
  using assms
proof (induction settings arbitrary: "done")
  case (Cons setting settings)
  obtain key form pattern where setting: "setting = (key, form, pattern)" by (cases setting)
  have set_word: "plain_word ''set''" by code_simp
  show ?case
  proof (cases "map_of entry key")
    case None
    then show ?thesis using Cons setting by (simp add: List.map_filter_simps restored_entry_def)
  next
    case (Some v)
    then have v: "plain_word key" "adc_words (form v) = Inr [v]"
      using Cons.prems(1) setting by (simp_all add: reads_back_def)
    then have "adc_words (''set '' @ key @ '' '' @ form v) = Inr [''set'', key, v]"
      using adc_words_plain(2) [OF set_word, of "key @ blank # form v"] by (simp add: then_check_def)
    then show ?thesis
      using Cons.IH [of "done @ [(key, v)]"] Cons.prems Some setting
      by (simp add: List.map_filter_simps restored_entry_def member_set del: fold_lines.simps)
  qed
qed (simp add: List.map_filter_simps restored_entry_def)

lemma restored_entry_eq:
  assumes "wf_dict entry" and "set (keys entry) \<subseteq> set (map fst settings)" and "distinct (map fst settings)"
  shows "dict_eq (restored_entry entry settings) entry"
proof -
  have part: "map_of (restored_entry entry settings) k = (if k \<in> set (map fst settings) then map_of entry k else None)"
    if "distinct (map fst settings)" for k settings
    using that by (induction settings) (auto simp: restored_entry_def List.map_filter_simps split: option.splits)
  have "map_of entry k = None" if "k \<notin> set (map fst settings)" for k
    using that assms(2) by (intro map_of_fresh) blast
  then have "map_of (restored_entry entry settings) = map_of entry"
    using part [OF assms(3)] by (intro ext) auto
  then show ?thesis by (simp add: dict_eq_map_of)
qed

lemma unrestorable_nil:
  assumes "unrestorable entry = []" and "wf_dict entry"
  shows "list_all (reads_back entry) RESTORABLE" and "set (keys entry) \<subseteq> set (map fst RESTORABLE)"
proof -
  have all: "restorable_value key v" if "map_of entry key = Some v" for key v
    using map_of_SomeD [OF that] assms(1)
    by (auto simp: unrestorable_def filter_empty_conv simp flip: set_empty)
  show "list_all (reads_back entry) RESTORABLE"
    unfolding list_all_iff
  proof
    fix setting
    assume mem: "setting \<in> set RESTORABLE"
    obtain key form pattern where s: "setting = (key, form, pattern)" by (cases setting)
    have "distinct (map fst RESTORABLE)" by (simp add: RESTORABLE_def)
    then have "map_of RESTORABLE key = Some (form, pattern)" using mem s by simp
    then have "pattern v" if "map_of entry key = Some v" for v
      using all [OF that] by (simp add: restorable_value_def)
    moreover have "writable setting" using mem restorable_writable by (simp add: list_all_iff)
    ultimately show "reads_back entry setting" by (simp add: s reads_back_def writable_def)
  qed
  show "set (keys entry) \<subseteq> set (map fst RESTORABLE)"
  proof
    fix key
    assume "key \<in> set (keys entry)"
    then obtain v where "map_of entry key = Some v"
      by (metis keys_def map_of_eq_None_iff not_None_eq set_map)
    then have "restorable_value key v" by (rule all)
    then have "map_of RESTORABLE key \<noteq> None" by (auto simp: restorable_value_def split: option.splits)
    then show "key \<in> set (map fst RESTORABLE)" by (simp add: map_of_eq_None_iff)
  qed
qed

lemma render_create_lines:
  assumes "plain_word pool" and "plain_word member" and "list_all (reads_back entry) RESTORABLE"
  shows "list_all one_line (render_create pool member entry)"
proof -
  have sets: "list_all one_line
      (List.map_filter (\<lambda>(key, form, _). map_option (\<lambda>v. ''set '' @ key @ '' '' @ form v) (map_of entry key)) settings)"
    if "list_all (reads_back entry) settings" for settings
    using that
    by (induction settings) (auto simp: List.map_filter_simps reads_back_def line_break_def dest: plain_word_one_line split: option.splits)
  show ?thesis
    using sets [OF assms(3)] assms(1,2) [THEN plain_word_one_line]
    by (simp add: render_create_def render_sets_def line_break_def)
qed

lemma render_create_parses:
  assumes "is_pool pool" and "is_member member" and "wf_dict entry" and "unrestorable entry = []"
  shows "\<exists>again. parse_members (unlines (render_create pool member entry)) pool = Inr [(member, again)] \<and> dict_eq again entry"
proof (intro exI conjI)
  have words: "plain_word pool" "plain_word member"
    using assms(1,2) by (auto simp: is_pool_def is_member_def intro: name_within_plain number_within_plain)
  note reads = unrestorable_nil [OF assms(4,3)]
  have settings: "distinct (map fst RESTORABLE)" by (simp add: RESTORABLE_def)
  have "fold_lines (member_line pool) (render_create pool member entry)
      \<lparr>mc_stack = [], mc_members = [], mc_current = None, mc_pool_seen = False\<rparr>
     = Inr \<lparr>mc_stack = [], mc_members = [(member, restored_entry entry RESTORABLE)], mc_current = Some member, mc_pool_seen = True\<rparr>"
    unfolding render_create_def render_sets_def fold_lines_append member_opened [OF words]
    using sets_read [OF reads(1) settings, of "[]" pool member] member_closed
    by (simp add: then_check_def del: fold_lines.simps)
  then show "parse_members (unlines (render_create pool member entry)) pool = Inr [(member, restored_entry entry RESTORABLE)]"
    using render_create_lines [OF words reads(1)]
    by (simp add: parse_members_def returns_unlines splitlines_unlines then_check_def)
  show "dict_eq (restored_entry entry RESTORABLE) entry"
    by (rule restored_entry_eq [OF assms(3) reads(2) settings])
qed

section \<open>The removal of a member\<close>

text \<open>A listing has each member and each setting of a member once.\<close>

definition wf_scan :: "member_scan \<Rightarrow> bool" where
  "wf_scan st \<longleftrightarrow> wf_dict (mc_members st) \<and> (\<forall>key entry. map_of (mc_members st) key = Some entry \<longrightarrow> wf_dict entry)"

lemma entry_of_wf: "wf_scan st \<Longrightarrow> wf_dict (entry_of key (mc_members st))"
  by (auto simp: wf_scan_def entry_of_def wf_dict_def split: option.splits)

lemma member_line_wf: "member_line pool line st = Inr st' \<Longrightarrow> wf_scan st \<Longrightarrow> wf_scan st'"
proof (cases line)
  case (Assign name v)
  assume "member_line pool line st = Inr st'" and wf: "wf_scan st"
  then show "wf_scan st'"
    using Assign entry_of_wf [OF wf, of "the (mc_current st)"]
    by (auto simp: wf_scan_def split: if_splits option.splits)
qed (auto simp: wf_scan_def wf_dict_def [of "[]"] Let_def split: if_splits)

lemma fold_lines_invariant:
  assumes "\<And>line st st'. turn line st = Inr st' \<Longrightarrow> I st \<Longrightarrow> I st'"
  shows "fold_lines turn rows st = Inr st' \<Longrightarrow> I st \<Longrightarrow> I st'"
proof (induction rows arbitrary: st)
  case (Cons raw rows)
  from Cons.prems(1) obtain words st1 where "(if words = [] then Inr st else turn (line_kind words) st) = Inr st1"
    and "fold_lines turn rows st1 = Inr st'"
    by auto
  then show ?case using Cons.IH Cons.prems(2) assms by (auto split: if_splits)
qed simp

lemma parse_members_wf:
  assumes "parse_members text pool = Inr members" and "map_of members key = Some entry"
  shows "wf_dict entry"
proof -
  obtain st where st: "fold_lines (member_line pool) (splitlines (without_returns text))
     \<lparr>mc_stack = [], mc_members = [], mc_current = None, mc_pool_seen = False\<rparr> = Inr st" "members = mc_members st"
    using assms(1) by (auto simp: parse_members_def reject_def split: if_splits)
  have "wf_scan st"
    by (rule fold_lines_invariant [OF member_line_wf st(1)]) (simp_all add: wf_scan_def wf_dict_def)
  then show ?thesis using assms(2) st(2) by (simp add: wf_scan_def)
qed

definition last_members :: "adc_event list \<Rightarrow> string \<Rightarrow> ((string, entry) dict \<Rightarrow> bool) \<Rightarrow> bool" where
  "last_members events pool P \<longleftrightarrow> (\<exists>earlier text members.
     events = earlier @ [Asked (show_command pool) (Inr text)] \<and> parse_members text pool = Inr members \<and> P members)"

lemma last_members_append: "last_members events pool P \<Longrightarrow> last_members (earlier @ events) pool P"
  unfolding last_members_def by (metis append_assoc)

lemma last_members_Cons [simp]: "last_members (e # e' # events) pool P \<longleftrightarrow> last_members (e' # events) pool P"
  by (auto simp: last_members_def Cons_eq_append_conv)

lemma yields_members:
  "yields (pool_members acc pool) (\<lambda>r new. \<exists>a. new = [Asked (show_command pool) a]
     \<and> (\<forall>members. r = Inr members \<longrightarrow> (\<exists>text. a = Inr text \<and> parse_members text pool = Inr members)))"
  unfolding pool_members_def by (rule yields_bind [OF yields_listing]) auto

lemma yields_members_back:
  "yields (members_back acc pool) (\<lambda>r new. \<exists>a. new = [Asked (show_command pool) a]
     \<and> (\<forall>members P. r = Inr (Some members) \<longrightarrow> P members \<longrightarrow> last_members new pool P))"
  unfolding members_back_def or_none_def
  by (rule yields_attempt [OF yields_members]) (auto simp: last_members_def)

text \<open>What was sent and what the last listing shows, for each result of a removal\<close>

definition remove_outcome :: "string \<Rightarrow> string \<Rightarrow> (string, entry) dict \<Rightarrow> member_record \<Rightarrow> adc_event list \<Rightarrow> bool" where
  "remove_outcome pool member before report events \<longleftrightarrow>
     (let forward = render_remove pool member; both = [[forward], [forward, mr_inverse report]] in
      mr_result report = ''confirmed'' \<and> sent_blocks events = [forward] \<and> Sent forward None \<in> set events
        \<and> last_members events pool (\<lambda>members. members_eq members (filter (\<lambda>(key, _). key \<noteq> member) before))
      \<or> mr_result report = ''rolled_back'' \<and> sent_blocks events \<in> set both \<and> last_members events pool (\<lambda>members. members_eq members before)
      \<or> mr_result report = ''unknown'' \<and> sent_blocks events \<in> set both)"

lemma remove_outcome_append:
  "remove_outcome pool member before report events \<Longrightarrow> sent_blocks earlier = [] \<Longrightarrow> remove_outcome pool member before report (earlier @ events)"
  by (auto simp: remove_outcome_def Let_def intro: last_members_append)

lemma yields_write_members:
  "yields (bind (adc_write acc spec steps) (\<lambda>failed. bind (members_back acc pool) (\<lambda>after. ret (g failed, after))))
     (\<lambda>r new. \<forall>u after. r = Inr (u, after) \<longrightarrow> (\<exists>x a. new = [Sent steps x, Asked (show_command pool) a]
       \<and> (\<forall>members P. after = Some members \<longrightarrow> P members \<longrightarrow> last_members new pool P)))"
proof (rule yields_bind [OF yields_write], goal_cases)
  case (2 failed n)
  then show ?case by (intro yields_bind [OF yields_members_back]) auto
qed auto

lemma yields_remove_member:
  "yields (remove_member acc spec pool member entry before existing users) (\<lambda>r new. \<forall>report. r = Inr report \<longrightarrow>
     mr_member_before report = Some entry \<and> mr_inverse report = render_create pool member entry
     \<and> remove_outcome pool member before report new)"
  unfolding remove_member_def Let_def
proof (rule yields_bind [OF yields_write], goal_cases)
  case (2 failure n)
  then obtain x where n: "n = [Sent (render_remove pool member) x]" and x: "failure = None \<longleftrightarrow> x = None" by auto
  show ?case
  proof ((rule yields_bind [OF yields_members_back]; (rule yields_if)?), goal_cases)
    case (2 after k)
    then obtain members where "after = Some members" "members_eq members (filter (\<lambda>(key, _). key \<noteq> member) before)"
      by (auto split: option.splits)
    then show ?case using 2 n x by (auto simp: remove_outcome_def)
  next
    case (3 after k)
    then obtain a where k: "k = [Asked (show_command pool) a]"
      and last: "\<And>members P. after = Some members \<Longrightarrow> P members \<Longrightarrow> last_members k pool P" by auto
    show ?case
    proof (rule yields_bind [where P = "\<lambda>r new. \<forall>u v. r = Inr (u, v) \<longrightarrow> sent_blocks new \<in> {[], [render_create pool member entry]}
          \<and> (\<forall>members P. v = Some members \<longrightarrow> P members \<longrightarrow> last_members (k @ new) pool P)"], goal_cases)
      case 1
      show ?case using k last by (intro yields_if yields_weaken [OF yields_write_members]) auto
    next
      case (3 v e)
      then show ?case using n k by (auto simp: remove_outcome_def split: prod.splits option.splits)
    qed simp
  qed auto
qed auto

text \<open>What a removal that returns has checked before, and how its lines and its result relate\<close>

definition removal :: "string \<Rightarrow> string \<Rightarrow> member_record \<Rightarrow> adc_event list \<Rightarrow> bool" where
  "removal pool member report events \<longleftrightarrow> (\<exists>text before entry again.
     Asked (show_command pool) (Inr text) \<in> set events \<and> parse_members text pool = Inr before
     \<and> map_of before member = Some entry \<and> map_of entry ''status'' \<in> {Some ''disable'', Some ''maintain''} \<and> length before > 1
     \<and> mr_member_before report = Some entry
     \<and> parse_members (unlines (mr_inverse report)) pool = Inr [(member, again)] \<and> dict_eq again entry
     \<and> remove_outcome pool member before report events)"

lemma yields_remove_checked:
  assumes "is_pool pool" and "is_member member" and "sent_blocks n = []"
    and listed: "parse_members listed pool = Inr before" "Asked (show_command pool) (Inr listed) \<in> set n"
    and entry: "map_of before member = Some entry" "map_of entry ''status'' \<in> {Some ''disable'', Some ''maintain''}"
      "length before \<noteq> 1" "unrestorable entry = []"
  shows "yields (bind (lift_res (sorted_by_int (keys before))) (\<lambda>existing. bind (adc_users acc pool) (\<lambda>users.
       remove_member acc spec pool member entry before existing users)))
     (\<lambda>r new. \<forall>report. r = Inr report \<longrightarrow> removal pool member report (n @ new))"
proof (rule yields_lift, simp, rule yields_bind [where P = "\<lambda>_ new. sent_blocks new = []"], goal_cases)
  case (1 existing)
  show ?case
    unfolding adc_users_def by (rule yields_bind [OF yields_servers]) auto
next
  case (3 existing users k)
  have "wf_dict entry" by (rule parse_members_wf [OF listed(1) entry(1)])
  then obtain again where again: "parse_members (unlines (render_create pool member entry)) pool = Inr [(member, again)]" "dict_eq again entry"
    using render_create_parses [OF assms(1,2) _ entry(4)] by blast
  have "length before > 1" using entry(1,3) by (cases before) auto
  moreover have "removal pool member report (n @ k @ e)"
    if "mr_member_before report = Some entry" "mr_inverse report = render_create pool member entry"
      "remove_outcome pool member before report e" for report e
    unfolding removal_def
    using that again listed entry(1,2) remove_outcome_append [of pool member before report e "n @ k"] assms(3) 3(2) calculation
    by (intro exI [of _ listed] exI [of _ before] exI [of _ entry] exI [of _ again]) simp
  ultimately show ?case
    by (intro yields_weaken [OF yields_remove_member]) simp
qed simp

text \<open>
  (C13) A removal of a pool member that returns has seen the member in the pool, disabled or in maintenance and not the last
  one. It sent the removal once and at most the inverse after it; \<open>confirmed\<close> means that the last listing shows
  exactly the other members as they were, \<open>rolled_back\<close> that it shows all members as they were. The inverse,
  read as a listing, is exactly the removed member with all its settings.
\<close>

theorem adc_remove_reversible:
  assumes "adc_remove acc pool member w = (Inr report, w')"
  shows "\<exists>new. aw_log w' = aw_log w @ new \<and> removal pool member report new"
proof -
  let ?Q = "\<lambda>r new. \<forall>report. r = Inr report \<longrightarrow> removal pool member report new"
  have "yields (adc_remove acc pool member) ?Q"
    unfolding adc_remove_def
  proof (rule yields_lift, simp, rule yields_bind [OF silent_hostname], simp, rule yields_bind [OF yields_members], simp, goal_cases)
    case (1 checked hostname n before k)
    then have valid: "is_pool pool" "is_member member" by (auto simp: adc_check_def reject_def split: if_splits)
    from 1 obtain listed where k: "k = [Asked (show_command pool) (Inr listed)]" "parse_members listed pool = Inr before" by auto
    show ?case
    proof (cases "map_of before member")
      case (Some entry)
      show ?thesis
        unfolding Some option.case
        using yields_remove_checked [OF valid, of "n @ k" listed before entry acc] 1 k Some
        by (intro yields_if) (auto simp: reject_def)
    qed (simp add: reject_def)
  qed
  then show ?thesis using yieldsD assms by fastforce
qed

section \<open>A pool of two members\<close>

definition sample_members :: "bool \<Rightarrow> string" where
  "sample_members present = unlines ([''config load-balance pool'', ''  edit \"web\"'', ''    config pool_member'', ''      edit 1'',
     ''        set real-server \"rs-1\"'', ''      next'']
     @ (if present then [''      edit 2'', ''        set real-server \"rs-2\"'', ''        set status disable'', ''      next''] else [])
     @ [''    end'', ''  next'', ''end''])"

definition sample_adc :: "bool adc_access" where
  "sample_adc = \<lparr>
     da_query = (\<lambda>command. fetch (\<lambda>present.
       if command = show_command ''web'' then sample_members present
       else if command = VS_COMMAND then unlines [''config load-balance virtual-server'', ''  edit \"vs\"'', ''    set load-balance-pool web'', ''  next'', ''end'']
       else unlines [''Version: 7.6'', ''Hostname: adc''])),
     da_diagnose_query = (\<lambda>command. ret []),
     da_apply = (\<lambda>steps spec. seq (modify (\<lambda>present. steps \<noteq> render_remove ''web'' ''2'')) (ret (length steps)))\<rparr>"

lemma sample_removal:
  "case adc_remove sample_adc ''web'' ''2'' \<lparr>aw_device = True, aw_log = []\<rparr> of
     (Inr report, _) \<Rightarrow> mr_result report = ''confirmed'' | _ \<Rightarrow> False"
  by code_simp

text \<open>A removal that is confirmed\<close>

theorem adc_remove_reversible_witness:
  "\<exists>report w'. adc_remove sample_adc ''web'' ''2'' \<lparr>aw_device = True, aw_log = []\<rparr> = (Inr report, w')
     \<and> mr_result report = ''confirmed'' \<and> removal ''web'' ''2'' report (aw_log w')"
proof -
  obtain report w' where run: "adc_remove sample_adc ''web'' ''2'' \<lparr>aw_device = True, aw_log = []\<rparr> = (Inr report, w')"
    and "mr_result report = ''confirmed''"
    using sample_removal by (auto split: prod.splits sum.splits)
  then show ?thesis using adc_remove_reversible [OF run] by auto
qed

section \<open>A paged listing\<close>

text \<open>The remains of the pager are removed before a status is read, and not before the members are read.\<close>

definition paged_listing :: string where
  "paged_listing = unlines [''config load-balance pool'', ''  edit \"web\"'', ''    config pool_member'',
     PAGER @ [blank, blank, creturn] @ ''      edit 1'', ''        set status disable'', ''      next'', ''    end'', ''  next'', ''end'']"

lemma paged_listing_members_refused:
  "parse_status paged_listing ''web'' ''1'' = Inr ''disable'' \<and> parse_members paged_listing ''web'' = Inl (unreadable ''unexpected line'')"
proof
  show "parse_status paged_listing ''web'' ''1'' = Inr ''disable''" by code_simp
  show "parse_members paged_listing ''web'' = Inl (unreadable ''unexpected line'')" by code_simp
qed

end
