(* ===== verification/Admin_Exos_Guard.thy ===== *)
theory Admin_Exos_Guard
  imports Admin_Exos Netops_Regex
begin

text \<open>
  The ExtremeXOS safeguard and the answers of the switch, \<open>netops_admin/exos.py\<close> and the second part of
  \<open>netops_admin/membership.py\<close>: the timed UPM profile, its listing, and what the check account shows of a
  VLAN, a port or a membership.
\<close>

section \<open>The timed profile\<close>

definition exos_name :: "string \<Rightarrow> string \<Rightarrow> string" where
  "exos_name change_id part = the (map_of (exos_safeguard_names change_id) part)"

definition ERROR_PREFIXES :: "string list" where "ERROR_PREFIXES = [''%%'', ''Error:'', ''ERROR:'']"

definition exos_cli_error :: "string \<Rightarrow> string option" where
  "exos_cli_error answer = map_option (take 80)
     (find (\<lambda>line. list_ex (\<lambda>p. starts_with p line) ERROR_PREFIXES) (map strip (drop 1 (splitlines answer))))"

definition exos_safeguard_script :: "string list \<Rightarrow> exn + string list" where
  "exos_safeguard_script undoing =
     (if list_ex (contains EXPANDED) undoing then reject EXPANDED_REFUSAL
      else Inr ([''configure cli mode persistent'', ''configure cli mode scripting ignore-error''] @ map strip undoing))"

definition exos_render_safeguard :: "string \<Rightarrow> string list \<Rightarrow> int \<Rightarrow> exn + line list" where
  "exos_render_safeguard change_id undoing seconds =
     (let profile = exos_name change_id ''profile''; timer = exos_name change_id ''timer'' in
      then_check (exos_safeguard_script undoing) (\<lambda>script.
      Inr ([Ask (''create upm profile '' @ profile) ''Start typing''] @ map Raw script
        @ [Command ''.'', Command (''create upm timer '' @ timer),
           Command (''configure upm timer '' @ timer @ '' profile '' @ profile),
           Command (''configure upm timer '' @ timer @ '' after '' @ show_int seconds)])))"

definition exos_safeguard_removal :: "string \<Rightarrow> string list" where
  "exos_safeguard_removal change_id =
     [''delete upm timer '' @ exos_name change_id ''timer'', ''delete upm profile '' @ exos_name change_id ''profile'']"

definition PROFILE_BEGIN :: string where "PROFILE_BEGIN = ''Profile Contents Begin''"
definition PROFILE_END :: string where "PROFILE_END = ''Profile Contents Ends''"

text \<open>\<open>s.split(p, 1)\<close>: the text before the first \<open>p\<close>, and the text after it\<close>

definition text_before :: "string \<Rightarrow> string \<Rightarrow> string" where
  "text_before p s = (case suffix_from p s of None \<Rightarrow> s | Some t \<Rightarrow> take (length s - length t) s)"

definition text_after :: "string \<Rightarrow> string \<Rightarrow> string option" where
  "text_after p s = map_option (drop (length p)) (suffix_from p s)"

definition profile_contents :: "string \<Rightarrow> string list option" where
  "profile_contents answer =
     (if \<not> contains PROFILE_BEGIN answer \<or> \<not> contains PROFILE_END answer then None
      else Some (filter (\<lambda>line. line \<noteq> [] \<and> \<not> list_all (\<lambda>c. c = CHR ''*'') line)
        (map strip (splitlines (text_before PROFILE_END (the (text_after PROFILE_BEGIN answer)))))))"

text \<open>\<open>TIMER_ROW\<close>\<close>

definition p_stamp :: pat where
  "p_stamp = pseq [ptimes 4 p_digit, plit ''-'', ptimes 2 p_digit, plit ''-'', ptimes 2 p_digit, plit '' '',
     ptimes 2 p_digit, plit '':'', ptimes 2 p_digit, plit '':'', ptimes 2 p_digit]"

definition TIMER_ROW :: pat where
  "TIMER_ROW = pseq [PBol, PGrp 1 (pplus p_nonspace), pplus p_space, PGrp 2 (pplus p_nonspace), pplus p_space,
     PGrp 3 (pplus (PCls (\<lambda>c. c \<in> set ''edop''))), popt (PSeq (pplus p_space) (PGrp 4 p_stamp)), PStar p_space, PEol]"

record timer =
  tm_profile :: string
  tm_flags :: string
  tm_next :: "string option"

definition timer_row :: "string \<Rightarrow> string \<Rightarrow> timer option" where
  "timer_row answer name =
     map_option (\<lambda>m. \<lparr>tm_profile = the (group m 2), tm_flags = the (group m 3), tm_next = group m 4\<rparr>)
       (find (\<lambda>m. group m 1 = Some name) (re_findall TIMER_ROW answer))"

text \<open>\<open>upm_listing_complete\<close>: as many rows between the second and the third separator as the listing declares\<close>

definition upm_count :: "string \<Rightarrow> pat" where
  "upm_count kind = pseq [PBol, PStar p_inline, plit (''Number of UPM '' @ kind @ '':''), PStar p_space,
     PGrp 1 (PSeq p_digit (pupto 8 p_digit)), PStar p_space, PEol]"

definition is_separator :: "string \<Rightarrow> bool" where
  "is_separator line \<longleftrightarrow> (let s = strip line in
     length s \<ge> 3 \<and> (list_all (\<lambda>c. c = CHR ''='') s \<or> list_all (\<lambda>c. c = CHR ''-'') s))"

definition separators :: "string list \<Rightarrow> nat list" where
  "separators lines = filter (\<lambda>i. is_separator (lines ! i)) [0 ..< length lines]"

definition listed_rows :: "string list \<Rightarrow> string list" where
  "listed_rows lines = (case separators lines of
     _ # b # c # _ \<Rightarrow> filter (\<lambda>line. strip line \<noteq> []) (drop (b + 1) (take c lines))
   | _ \<Rightarrow> [])"

definition upm_listing_complete :: "string \<Rightarrow> string \<Rightarrow> bool" where
  "upm_listing_complete answer kind = (case re_search (upm_count kind) answer of
     None \<Rightarrow> False
   | Some m \<Rightarrow>
       let declared = int_of (the (group m 1)); rows = listed_rows (splitlines answer)
       in if declared = 0 then rows = [] else length rows \<ge> declared)"

definition listed_names :: "string \<Rightarrow> string list" where
  "listed_names answer = concat (map (\<lambda>line. case split_ws line of
     word # _ \<Rightarrow> if starts_with ''netops'' word then [word] else []
   | [] \<Rightarrow> []) (splitlines answer))"

section \<open>The state of the switch\<close>

definition p_clock :: pat where
  "p_clock = pseq [ptimes 3 p_word, plit '' '', ptimes 3 p_word, pplus (PCls (\<lambda>c. c = blank)), PSeq p_digit (popt p_digit), plit '' '',
     ptimes 2 p_digit, plit '':'', ptimes 2 p_digit, plit '':'', ptimes 2 p_digit, plit '' '', ptimes 4 p_digit]"

definition SWITCH_TIME :: pat where
  "SWITCH_TIME = pseq [PBol, plit ''Current Time:'', pplus p_space, PGrp 1 p_clock, PStar p_space, PEol]"
definition SYSNAME :: pat where
  "SYSNAME = pseq [PBol, plit ''SysName:'', pplus p_space, PGrp 1 (pplus p_nonspace), PStar p_space, PEol]"
definition IMAGE_VERSION :: pat where
  "IMAGE_VERSION = pseq [PBol, plit ''Image'', PStar p_space, plit '':'', PStar p_space, plit ''ExtremeXOS version '', PGrp 1 (pplus p_nonspace)]"

definition switch_field :: "pat \<Rightarrow> string \<Rightarrow> string \<Rightarrow> exn + string" where
  "switch_field a answer label = (case re_search a answer of
     None \<Rightarrow> reject (''the switch does not report its '' @ label)
   | Some m \<Rightarrow> Inr (join '' '' (split_ws (the (group m 1)))))"

definition ACCOUNT_COMMANDS :: "string list list" where
  "ACCOUNT_COMMANDS = [[''create'', ''account''], [''configure'', ''account''], [''create'', ''sshd2''], [''configure'', ''sshd2'']]"

definition account_fingerprint :: "(string \<Rightarrow> string) \<Rightarrow> exos_snapshot \<Rightarrow> string" where
  "account_fingerprint sha256 snap = sha256 (join [newline]
     (sort (map (\<lambda>c. strip (c_text c)) (filter (\<lambda>c. take 2 (c_tokens c) \<in> set ACCOUNT_COMMANDS) (xs_commands snap)))))"

definition account_name :: "command \<Rightarrow> string list" where
  "account_name c =
     (let t = c_tokens c in
      if take 2 t = [''create'', ''account''] \<and> length t \<ge> 4 then [t ! 3]
      else if take 2 t = [''configure'', ''account''] \<and> length t \<ge> 3 then [t ! 2]
      else [])"

definition accounts :: "exos_snapshot \<Rightarrow> string list" where
  "accounts snap = sort (remdups (concat (map account_name (xs_commands snap))))"

section \<open>What the check account shows\<close>

definition VLAN_HEADER :: pat where
  "VLAN_HEADER = pseq [PBol, plit ''VLAN Interface with name '', PGrp 1 (pplus p_nonspace), plit '' created'']"
definition VLAN_TAG :: pat where "VLAN_TAG = PSeq (plit ''802.1Q Tag '') (PGrp 1 (pplus p_digit))"
definition VLAN_DESCRIPTION :: pat where
  "VLAN_DESCRIPTION = pseq [PBol, PStar p_inline, plit ''Description:'', PStar p_space, PGrp 1 (PStar p_any), PEol]"

definition shown_vlan :: "string \<Rightarrow> string \<Rightarrow> exn + attributes option" where
  "shown_vlan answer key = (case re_search VLAN_HEADER answer of
     None \<Rightarrow> if contains ''Invalid numeric list'' answer then Inr None
       else reject (''the check account answer about VLAN '' @ key @ '' is not recognised'')
   | Some header \<Rightarrow>
       if group header 1 \<noteq> Some key then reject ''the check account answer names another VLAN''
       else let tag = (case re_search VLAN_TAG answer of None \<Rightarrow> [] | Some m \<Rightarrow> [(''tag'', the (group m 1))]);
                description = (case re_search VLAN_DESCRIPTION answer of
                    None \<Rightarrow> []
                  | Some m \<Rightarrow> let d = rstrip (the (group m 1)) in if d = ''None'' then [] else [(''description'', d)])
            in Inr (Some (tag @ description)))"

definition SESSION_ROW :: pat where
  "SESSION_ROW = pseq [PBol, PStar p_inline, PGrp 1 (popt (plit ''*'')), pplus p_digit, pplus p_space, ptimes 3 p_word, plit '' '',
     ptimes 3 p_word, pplus (PCls (\<lambda>c. c = blank)), p_digit]"

definition exos_foreign_sessions :: "string \<Rightarrow> exn + nat" where
  "exos_foreign_sessions answer = (case re_findall SESSION_ROW answer of
     [] \<Rightarrow> reject ''the session list is not readable''
   | rows \<Rightarrow> Inr (length (filter (\<lambda>m. group m 1 \<noteq> Some ''*'') rows)))"

definition PORT_HEADER :: pat where
  "PORT_HEADER = pseq [PBol, plit ''Port:'', pplus p_space, PGrp 1 (pplus p_digit),
     popt (pseq [plit ''('', PGrp 2 (PStar p_any), plit '')'']), popt (plit '':''), PStar p_space, PEol]"

definition shown_port :: "string \<Rightarrow> string \<Rightarrow> exn + attributes option" where
  "shown_port answer key = (case re_search PORT_HEADER answer of
     None \<Rightarrow> if contains ''Invalid port number'' answer then Inr None
       else reject (''the check account answer about port '' @ key @ '' is not recognised'')
   | Some header \<Rightarrow>
       if group header 1 \<noteq> Some key then reject ''the check account answer names another port''
       else Inr (Some (case group header 2 of Some (c # cs) \<Rightarrow> [(''display-string'', c # cs)] | _ \<Rightarrow> [])))"

definition p_number :: pat where
  "p_number = PSeq (PCls (\<lambda>c. is_digit c \<and> c \<noteq> CHR ''0'')) (PStar p_digit)"

definition PORT_ROW :: pat where
  "PORT_ROW = pseq [PBol, PGrp 1 (PSeq p_number (popt (PSeq (plit '':'') p_number))), p_space]"

definition switch_ports :: "string \<Rightarrow> exn + string list" where
  "switch_ports answer =
     (let found = (if contains ''Port Summary'' answer then remdups (map (\<lambda>m. the (group m 1)) (re_findall PORT_ROW answer)) else [])
      in if found = [] then reject ''the port list of the switch is not recognised''
         else Inr (sort_key exos_port_order found))"

definition vlan_total :: pat where
  "vlan_total = pseq [PBol, plit ''Total number of VLAN(s) : '', PGrp 1 (pplus p_digit), PStar p_space, PEol]"

definition name_char :: "char \<Rightarrow> bool" where
  "name_char c \<longleftrightarrow> is_alpha c \<or> is_digit c \<or> c \<in> set ''_-''"

definition vlan_row :: pat where
  "vlan_row = pseq [PBol, PGrp 1 (PSeq (PCls is_alpha) (pupto 31 (PCls name_char))), pplus p_space,
     PGrp 2 (PSeq p_digit (pupto 3 p_digit)), pplus p_space, pplus p_any, PEol]"

definition vlan_absent_from_list :: "string \<Rightarrow> string \<Rightarrow> bool" where
  "vlan_absent_from_list answer key \<longleftrightarrow>
     list_all (\<lambda>word. contains word answer) [''Name'', ''VID'', ''Protocol'', ''Ports'', ''Flags''] \<and>
     (case re_search vlan_total answer of
        None \<Rightarrow> False
      | Some declared \<Rightarrow>
          let names = map (\<lambda>m. the (group m 1)) (re_findall vlan_row answer); folded = casefold key in
          length names = int_of (the (group declared 1)) \<and> distinct names \<and>
          \<not> list_ex (\<lambda>name. casefold name = folded \<or> length name \<ge> 15 \<and> starts_with (casefold name) folded) names)"

section \<open>Membership answers\<close>

definition PORT_NUMBER :: "string \<Rightarrow> bool" where
  "PORT_NUMBER s \<longleftrightarrow> re_fullmatch_pat (PSeq p_number (popt (PSeq (plit '':'') p_number))) s \<noteq> None"

text \<open>The rest of a line that starts with a mode: the mode and the names\<close>

definition mode_and_names :: "string \<Rightarrow> (string \<times> string) option" where
  "mode_and_names s =
     (let after_mode = (\<lambda>mode. case eat mode s of
          Some (c # cs) \<Rightarrow> if is_space c then Some (mode, strip cs) else None
        | _ \<Rightarrow> None)
      in case after_mode ''Untagged'' of Some r \<Rightarrow> Some r | None \<Rightarrow> after_mode ''Tagged'')"

text \<open>\<open>_line\<close>: the identity, the mode and the names of a line\<close>

definition member_line :: "string \<Rightarrow> string option \<times> (string \<times> string) option" where
  "member_line line =
     (let s = lstrip line; word = takeWhile (\<lambda>c. \<not> is_space c) s; rest = dropWhile (\<lambda>c. \<not> is_space c) s;
          mode_row = (if s \<noteq> line then mode_and_names s else None);
          port_row = (if word \<noteq> [] \<and> rest \<noteq> [] then mode_and_names (lstrip rest) else None)
      in if mode_row \<noteq> None then (None, mode_row)
         else if port_row \<noteq> None then (Some word, port_row)
         else if s = line \<and> word \<noteq> [] \<and> list_all is_space rest \<and> \<not> list_all (\<lambda>c. c = CHR ''-'') word then (Some word, None)
         else (None, None))"

fun first_identity :: "string list \<Rightarrow> string option" where
  "first_identity [] = None"
| "first_identity (line # ls) = (case fst (member_line line) of None \<Rightarrow> first_identity ls | Some identity \<Rightarrow> Some identity)"

definition port_label :: "string \<Rightarrow> string option" where
  "port_label answer = (case first_identity (splitlines answer) of
     None \<Rightarrow> None
   | Some identity \<Rightarrow> if PORT_NUMBER identity then None else Some identity)"

definition selected :: "string \<Rightarrow> string \<Rightarrow> string option \<Rightarrow> exn + unit" where
  "selected identity port alias =
     (if PORT_NUMBER identity
      then (if identity \<noteq> port then reject ''the check account returned another port'' else Inr ())
      else if alias \<noteq> Some identity
      then reject (''the check account membership answer names the port by another name than the display string the switch reports for port '' @ port)
      else Inr ())"

text \<open>\<open>re.split(r"[,\s]+", s)\<close>\<close>

fun split_runs :: "(char \<Rightarrow> bool) \<Rightarrow> string \<Rightarrow> string \<Rightarrow> string list" where
  "split_runs P [] cur = [cur]"
| "split_runs P (c # cs) cur =
     (if P c then (case cs of d # _ \<Rightarrow> if P d then split_runs P cs cur else cur # split_runs P cs []
                            | [] \<Rightarrow> [cur, []])
      else split_runs P cs (cur @ [c]))"

definition split_names :: "string \<Rightarrow> string list" where
  "split_names s = split_runs (\<lambda>c. c = CHR '','' \<or> is_space c) s []"

definition vlan_name :: "string \<Rightarrow> bool" where
  "vlan_name s \<longleftrightarrow> s \<noteq> [] \<and> is_alpha (hd s) \<and> length s \<le> 32 \<and> list_all name_char (tl s)"

record reading =
  rd_modes :: modes
  rd_current :: "string option"
  rd_matched :: bool

definition note_names :: "string \<Rightarrow> string list \<Rightarrow> reading \<Rightarrow> reading" where
  "note_names mode names r = r\<lparr>rd_modes := (if mode = ''Tagged''
     then (rd_modes r)\<lparr>md_tagged := add_new (md_tagged (rd_modes r)) names\<rparr>
     else (rd_modes r)\<lparr>md_untagged := add_new (md_untagged (rd_modes r)) names\<rparr>)\<rparr>"

definition continuation :: "string \<Rightarrow> bool" where
  "continuation line \<longleftrightarrow> (let s = rstrip line; t = lstrip s in
     t \<noteq> s \<and> t \<noteq> [] \<and> is_alpha (hd t) \<and> list_all (\<lambda>c. name_char c \<or> c \<in> set '', '') (tl t))"

definition shown_line :: "string \<Rightarrow> string option \<Rightarrow> string \<Rightarrow> reading \<Rightarrow> exn + reading" where
  "shown_line port alias line r =
     (let (identity, mode) = member_line line in
      then_check (case identity of None \<Rightarrow> Inr r | Some i \<Rightarrow> then_check (selected i port alias) (\<lambda>_. Inr (r\<lparr>rd_matched := True\<rparr>))) (\<lambda>r.
      case mode of
        Some (m, names) \<Rightarrow>
          if \<not> rd_matched r
          then (if strip names = [] then Inr r else reject ''membership answer has no selected port'')
          else let found = split_names names in
            if \<not> list_all vlan_name found then reject ''unsupported VLAN name in membership answer''
            else Inr (note_names m found (r\<lparr>rd_current := Some m\<rparr>))
      | None \<Rightarrow>
          if identity = None \<and> rd_matched r \<and> strip line \<noteq> []
          then (case rd_current r of
              None \<Rightarrow> reject ''unsupported membership continuation''
            | Some m \<Rightarrow> if continuation line then Inr (note_names m (split_names (strip line)) r)
                else reject ''unsupported membership continuation'')
          else Inr r))"

fun shown_loop :: "string \<Rightarrow> string option \<Rightarrow> string list \<Rightarrow> reading \<Rightarrow> exn + reading" where
  "shown_loop port alias [] r = Inr r"
| "shown_loop port alias (line # ls) r = then_check (shown_line port alias line r) (shown_loop port alias ls)"

definition shown_membership :: "string \<Rightarrow> string \<Rightarrow> string option \<Rightarrow> exn + attributes" where
  "shown_membership answer port alias =
     (if \<not> contains ''VLAN Name(s)'' answer \<or> \<not> contains ''Untagged'' answer
      then reject ''the check account membership answer is not recognised''
      else then_check (shown_loop port alias (splitlines answer)
          \<lparr>rd_modes = \<lparr>md_tagged = [], md_untagged = []\<rparr>, rd_current = None, rd_matched = False\<rparr>) (\<lambda>r.
        if \<not> rd_matched r \<or> length (md_untagged (rd_modes r)) \<noteq> 1
        then reject ''the check account must report one native VLAN''
        else Inr (member_state (rd_modes r))))"

end
