(* ===== verification/Admin_Exec_Exos.thy ===== *)
theory Admin_Exec_Exos
  imports Admin_Execute Admin_Exos_Guard
begin

text \<open>
  The ExtremeXOS adapter of the execution, \<open>netops_admin/exec_exos.py\<close>. The safeguard is a UPM profile with
  the inverse commands and a timer that runs it once.
\<close>

section \<open>Queries of the switch\<close>

definition QUERY_SWITCH :: string where "QUERY_SWITCH = ''show switch''"
definition QUERY_VERSION :: string where "QUERY_VERSION = ''show version''"
definition QUERY_PROFILES :: string where "QUERY_PROFILES = ''show upm profile''"
definition QUERY_TIMERS :: string where "QUERY_TIMERS = ''show upm timers''"
definition QUERY_PORTS :: string where "QUERY_PORTS = ''show ports no-refresh''"
definition EXOS_SESSIONS :: string where "EXOS_SESSIONS = ''show session''"
definition TIMER_TOLERANCE_SECONDS :: int where "TIMER_TOLERANCE_SECONDS = 10"
definition UNSAVED_MARKER :: string where "UNSAVED_MARKER = ''*''"

definition exos_prompt_spec :: "string \<Rightarrow> prompt_spec" where
  "exos_prompt_spec name = \<lparr>ps_anchor = name @ ''.'', ps_ends = [''# '', ''> ''], ps_continuation = None,
     ps_error = exos_cli_error, ps_typed = None\<rparr>"

definition exos_safeguard_label :: "string \<Rightarrow> string" where
  "exos_safeguard_label change_id = exos_name change_id ''timer''"

definition exos_hostname :: "'d access \<Rightarrow> string \<Rightarrow> ('d, string) act" where
  "exos_hostname acc text = bind (ac_query acc QUERY_SWITCH) (\<lambda>answer. lift_res (switch_field SYSNAME answer ''system name''))"

definition exos_clock :: "'d access \<Rightarrow> ('d, int) act" where
  "exos_clock acc = bind (ac_query acc QUERY_SWITCH) (\<lambda>answer.
     lift_res (then_check (switch_field SWITCH_TIME answer ''clock'') (\<lambda>stamp. then_check (read_clock_text stamp) (\<lambda>t. Inr (int t)))))"

definition exos_accounts_check :: "(string \<Rightarrow> string) \<Rightarrow> 'd access \<Rightarrow> device \<Rightarrow> string \<Rightarrow> ('d, string) act" where
  "exos_accounts_check sha256 acc dev text = bind (lift_res (exos_load text (dv_firmware dev))) (\<lambda>snap.
     let present = accounts snap in
     if present \<noteq> sort (dv_accounts dev)
     then throw (Rejected [''the switch accounts differ from the expected list ('' @ show_nat (length present) @ '' present, ''
       @ show_nat (length (dv_accounts dev)) @ '' expected)''])
     else ret (account_fingerprint sha256 snap))"

definition exos_prechecks :: "'d access \<Rightarrow> device \<Rightarrow> string \<Rightarrow> prompt_spec \<Rightarrow> ('d, string list) act" where
  "exos_prechecks acc dev text spec =
     bind (bind (ac_query acc QUERY_VERSION) (\<lambda>answer. lift_res (switch_field IMAGE_VERSION answer ''software version''))) (\<lambda>running.
     bind (ac_login_prefix acc spec) (\<lambda>lead.
     ret ((if Some running \<noteq> dv_firmware dev
           then [''the switch runs '' @ running @ '', not the configured '' @ (case dv_firmware dev of None \<Rightarrow> ''None'' | Some f \<Rightarrow> f)] else [])
        @ (if contains UNSAVED_MARKER lead then [''the switch has unsaved configuration changes of someone else''] else []))))"

definition exos_ports :: "'d access \<Rightarrow> string \<Rightarrow> ('d, string list option) act" where
  "exos_ports acc table =
     (if table \<notin> {''vlan-membership'', ''ports''} then ret None
      else bind (ac_query acc QUERY_PORTS) (\<lambda>answer. lift_res (then_check (switch_ports answer) (\<lambda>found. Inr (Some found)))))"

text \<open>The names of our profiles and timers that the two listings show\<close>

definition listed_guards :: "string \<Rightarrow> string \<Rightarrow> string list" where
  "listed_guards profiles timers = remdups (listed_names profiles @ listed_names timers)"

definition exos_leftovers :: "'d access \<Rightarrow> ('d, string list) act" where
  "exos_leftovers acc = bind (ac_query acc QUERY_PROFILES) (\<lambda>profiles. bind (ac_query acc QUERY_TIMERS) (\<lambda>timers.
     ret (sort (listed_guards profiles timers))))"

section \<open>Installing and removing the safeguard\<close>

definition exos_timer_bound :: "string \<Rightarrow> timer option \<Rightarrow> string option" where
  "exos_timer_bound profile row = (case row of
     None \<Rightarrow> None
   | Some t \<Rightarrow> if tm_profile t \<noteq> profile \<or> CHR ''o'' \<notin> set (tm_flags t) then None
       else (case tm_next t of None \<Rightarrow> None | Some [] \<Rightarrow> None | Some moment \<Rightarrow> Some moment))"

text \<open>The time the timer shows replaces the planned time in the record.\<close>

definition exos_install_safeguard ::
  "'d access \<Rightarrow> operation \<Rightarrow> plan \<Rightarrow> device \<Rightarrow> prompt_spec \<Rightarrow> ('d, string list \<times> safeguard) act" where
  "exos_install_safeguard acc r plan dev spec =
     (let profile = exos_name (op_change_id r) ''profile''; timer = exos_name (op_change_id r) ''timer'' in
      bind (lift_res (exos_render_safeguard (op_change_id r) (pl_inverse plan) (dv_safeguard_seconds dev))) (\<lambda>lines.
      seq (ac_apply acc lines spec)
      (bind (ac_query acc (QUERY_PROFILES @ '' '' @ profile)) (\<lambda>shown_profile.
       bind (lift_res (exos_safeguard_script (pl_inverse plan))) (\<lambda>script.
       bind (ac_query acc QUERY_TIMERS) (\<lambda>timers.
       let problems = (if profile_contents shown_profile \<noteq> Some script then [''safeguard profile differs from the planned inverse''] else []) in
       case op_safeguard r of
         None \<Rightarrow> throw (OtherError ''KeyError'' ''safeguard'')
       | Some g \<Rightarrow> (case exos_timer_bound profile (timer_row timers timer) of
           None \<Rightarrow> ret (problems @ [''safeguard timer is missing, periodic, unscheduled or bound to another profile''], g)
         | Some next_run \<Rightarrow>
             bind (lift_res (read_stamp (sg_fire_at g))) (\<lambda>planned.
             bind (lift_res (read_stamp next_run)) (\<lambda>scheduled.
             ret (problems @ (if \<bar>int scheduled - int planned\<bar> > TIMER_TOLERANCE_SECONDS
                    then [''safeguard timer fires at another time than planned''] else []),
                  g\<lparr>sg_fire_at := next_run\<rparr>))))))))))"

definition exos_guard_absent :: "'d access \<Rightarrow> operation \<Rightarrow> ('d, bool) act" where
  "exos_guard_absent acc r =
     attempt (bind (ac_query acc QUERY_PROFILES) (\<lambda>profiles. bind (ac_query acc QUERY_TIMERS) (\<lambda>timers. ret (profiles, timers))))
       (\<lambda>_. ret False)
       (\<lambda>(profiles, timers).
         if \<not> (upm_listing_complete profiles ''Profiles'' \<and> upm_listing_complete timers ''Timers'') then ret False
         else ret (exos_name (op_change_id r) ''profile'' \<notin> set (listed_guards profiles timers)
           \<and> exos_name (op_change_id r) ''timer'' \<notin> set (listed_guards profiles timers)))"

definition exos_remove_safeguard :: "'d access \<Rightarrow> operation \<Rightarrow> prompt_spec \<Rightarrow> ('d, bool) act" where
  "exos_remove_safeguard acc r spec =
     seq (handle (seq (ac_apply acc (map Command (exos_safeguard_removal (op_change_id r))) spec) (ret ())) (\<lambda>_. ret ()))
       (exos_guard_absent acc r)"

definition exos_remove_remaining :: "'d access \<Rightarrow> operation \<Rightarrow> prompt_spec \<Rightarrow> ('d, bool) act" where
  "exos_remove_remaining acc r spec =
     seq (handle (bind (ac_query acc QUERY_PROFILES) (\<lambda>profiles. bind (ac_query acc QUERY_TIMERS) (\<lambda>timers.
            let lines = map fst (filter (\<lambda>(line, name). name \<in> set (listed_guards profiles timers))
                  (zip (exos_safeguard_removal (op_change_id r)) [exos_name (op_change_id r) ''timer'', exos_name (op_change_id r) ''profile''])) in
            if lines \<noteq> [] then seq (ac_apply acc (map Command lines) spec) (ret ()) else ret ())))
          (\<lambda>_. ret ()))
       (exos_guard_absent acc r)"

definition exos_safeguard_disarmed :: "'d access \<Rightarrow> operation \<Rightarrow> ('d, bool) act" where
  "exos_safeguard_disarmed acc r = attempt (ac_query acc QUERY_TIMERS) (\<lambda>_. ret False) (\<lambda>timers.
     ret (upm_listing_complete timers ''Timers'' \<and> exos_name (op_change_id r) ''timer'' \<notin> set (listed_names timers)))"

definition exos_safeguard_fired :: "'d access \<Rightarrow> operation \<Rightarrow> ('d, bool) act" where
  "exos_safeguard_fired acc r = attempt (ac_query acc QUERY_TIMERS) (\<lambda>_. ret False) (\<lambda>timers.
     ret (upm_listing_complete timers ''Timers'' \<and> (case timer_row timers (exos_name (op_change_id r) ''timer'') of
       None \<Rightarrow> False
     | Some t \<Rightarrow> tm_profile t = exos_name (op_change_id r) ''profile'' \<and> (tm_next t = None \<or> tm_next t = Some [])
         \<and> CHR ''o'' \<notin> set (tm_flags t))))"

definition exos_persist :: "'d access \<Rightarrow> prompt_spec \<Rightarrow> ('d, bool) act" where
  "exos_persist acc spec = seq (ac_apply acc [Ask ''save configuration'' ''(y/N)'', Command ''y''] spec) (ret True)"

section \<open>What the check account sees\<close>

definition port_detail :: "'d access \<Rightarrow> string \<Rightarrow> ('d, attributes option) act" where
  "port_detail acc key = bind (ac_check_query acc (''show ports '' @ key @ '' information detail'')) (\<lambda>answer. lift_res (shown_port answer key))"

definition observe_membership :: "'d access \<Rightarrow> string \<Rightarrow> ('d, attributes option) act" where
  "observe_membership acc key = bind (ac_check_query acc (''show ports '' @ key @ '' vlan'')) (\<lambda>answer.
     bind (if port_label answer = None then ret None
           else bind (port_detail acc key) (\<lambda>port. ret (case port of None \<Rightarrow> None | Some p \<Rightarrow> map_of p ''display-string''))) (\<lambda>alias.
     lift_res (then_check (shown_membership answer key alias) (\<lambda>m. Inr (Some m)))))"

definition observe_vlan :: "'d access \<Rightarrow> string \<Rightarrow> ('d, attributes option) act" where
  "observe_vlan acc key = bind (ac_check_query acc (''show vlan '' @ key)) (\<lambda>answer. case shown_vlan answer key of
     Inr seen \<Rightarrow> ret seen
   | Inl x \<Rightarrow>
       if \<not> is_rejected x \<or> \<not> contains ''A number within the range of 1-4094 is expected.'' answer then throw x
       else bind (ac_check_query acc ''show vlan'') (\<lambda>listing.
         if vlan_absent_from_list listing key then ret None
         else throw (Rejected [''the check account cannot establish the VLAN state''])))"

definition exos_observe :: "'d access \<Rightarrow> plan \<Rightarrow> ('d, attributes option) act" where
  "exos_observe acc plan =
     (if pl_table plan = ''vlan-membership'' then observe_membership acc (pl_key plan)
      else if pl_table plan = ''ports'' then port_detail acc (pl_key plan)
      else observe_vlan acc (pl_key plan))"

definition exos_count_sessions :: "'d access \<Rightarrow> device \<Rightarrow> ('d, nat) act" where
  "exos_count_sessions acc dev = bind (ac_query acc EXOS_SESSIONS) (\<lambda>answer. lift_res (exos_foreign_sessions answer))"

text \<open>The module as the execution sees it; it has no token to revoke.\<close>

definition exos_adapter :: "(string \<Rightarrow> string) \<Rightarrow> 'd adapter" where
  "exos_adapter sha256 = \<lparr>ad_prompt_spec = exos_prompt_spec, ad_safeguard_label = exos_safeguard_label,
     ad_hostname = exos_hostname, ad_clock = exos_clock, ad_accounts_check = exos_accounts_check sha256,
     ad_prechecks = exos_prechecks, ad_plan_prechecks = (\<lambda>_ _ _ _. ret []), ad_ports = exos_ports,
     ad_leftovers = exos_leftovers, ad_install_safeguard = exos_install_safeguard,
     ad_remove_safeguard = exos_remove_safeguard, ad_remove_remaining = exos_remove_remaining,
     ad_safeguard_absent = exos_guard_absent, ad_safeguard_disarmed = exos_safeguard_disarmed, ad_FIRING_OBSERVED = True,
     ad_safeguard_fired = exos_safeguard_fired, ad_revoke_token = None, ad_persist = exos_persist,
     ad_observe = exos_observe, ad_foreign_sessions = exos_count_sessions\<rparr>"

end
