(* ===== verification/Admin_Exec_Fortios.thy ===== *)
theory Admin_Exec_Fortios
  imports Admin_Execute Admin_Fortios_Guard
begin

text \<open>
  The FortiOS adapter of the execution, \<open>netops_admin/exec_fortios.py\<close>: what the execution asks of a
  platform, answered by queries and scripts of the device. The profiles and SHA-256 are parameters.
\<close>

section \<open>Queries of the device\<close>

definition QUERY_CLOCK :: string where "QUERY_CLOCK = ''get system status''"
definition QUERY_ADMINS :: string where "QUERY_ADMINS = ''show system admin''"
definition QUERY_STITCHES :: string where "QUERY_STITCHES = ''show system automation-stitch''"
definition QUERY_GLOBAL :: string where "QUERY_GLOBAL = ''show system global''"
definition FORTIOS_SESSIONS :: string where "FORTIOS_SESSIONS = ''get system admin list''"

definition fortios_prompt_spec :: "string \<Rightarrow> prompt_spec" where
  "fortios_prompt_spec name = \<lparr>ps_anchor = newline # name, ps_ends = [''$ '', ''# ''], ps_continuation = Some (newline # ''> ''),
     ps_error = fortios_cli_error, ps_typed = Some typed\<rparr>"

definition fortios_safeguard_label :: "string \<Rightarrow> string" where
  "fortios_safeguard_label change_id = name_of (fortios_safeguard_names change_id) ''stitch''"

definition fortios_hostname :: "'d access \<Rightarrow> string \<Rightarrow> ('d, string) act" where
  "fortios_hostname acc text = bind (lift_res (fortios_load text None)) (\<lambda>snap.
     case Option.bind (map_of (n_sub (fs_root snap)) ''system global'') (\<lambda>n. node_value n ''hostname'' None) of
       None \<Rightarrow> throw (Rejected [''the snapshot does not name the device hostname''])
     | Some name \<Rightarrow> if name = [] then throw (Rejected [''the snapshot does not name the device hostname'']) else ret name)"

definition fortios_clock :: "'d access \<Rightarrow> ('d, int) act" where
  "fortios_clock acc = bind (ac_query acc QUERY_CLOCK) (\<lambda>answer.
     lift_res (then_check (clock_text answer) (\<lambda>stamp. then_check (read_clock_text stamp) (\<lambda>t. Inr (int t)))))"

definition other_admins :: "string list \<Rightarrow> string list \<Rightarrow> string" where
  "other_admins visible expected = ''the write account sees other administrators than the configured ones: ''
     @ join ''; '' (concat (map (\<lambda>(label, names). if names = [] then [] else [label @ '': '' @ join '', '' names])
         [(''not configured'', sort (remdups (filter (\<lambda>n. n \<notin> set expected) visible))),
          (''not visible'', sort (remdups (filter (\<lambda>n. n \<notin> set visible) expected)))]))"

definition fortios_accounts_check :: "(string \<Rightarrow> string) \<Rightarrow> 'd access \<Rightarrow> device \<Rightarrow> string \<Rightarrow> ('d, string) act" where
  "fortios_accounts_check sha256 acc dev text = bind (ac_query acc QUERY_ADMINS) (\<lambda>table.
     bind (lift_res (visible_admins table)) (\<lambda>visible.
     let expected = (if dv_accounts dev \<noteq> [] then sort (dv_accounts dev) else [cr_login (ac_credential acc)]) in
     if visible \<noteq> expected then throw (Rejected [other_admins visible expected])
     else lift_res (admin_fingerprint sha256 table text [''super_admin''])))"

definition fortios_leftovers :: "'d access \<Rightarrow> ('d, string list) act" where
  "fortios_leftovers acc = bind (ac_query acc QUERY_STITCHES) (\<lambda>answer. lift_res (leftover_safeguards answer))"

definition fortios_observe :: "'d access \<Rightarrow> plan \<Rightarrow> ('d, attributes option) act" where
  "fortios_observe acc plan =
     bind (ac_check_query acc (if pl_table plan = DHCP_TABLE
        then ''show system dhcp server '' @ hd (split_on CHR '':'' (pl_key plan))
        else ''show '' @ pl_table plan @ '' '' @ in_quotes (pl_key plan)))
     (\<lambda>answer. lift_res (shown_object answer (pl_table plan) (pl_key plan)))"

definition fortios_count_sessions :: "'d access \<Rightarrow> device \<Rightarrow> ('d, nat) act" where
  "fortios_count_sessions acc dev = bind (ac_query acc FORTIOS_SESSIONS) (\<lambda>answer.
     lift_res (fortios_foreign_sessions answer [cr_login (ac_credential acc), cr_login (ac_check_credential acc)]))"

section \<open>The webhook safeguard before a change\<close>

text \<open>\<open>_webhook(plan)\<close>\<close>

definition uses_webhook :: "plan \<Rightarrow> bool" where
  "uses_webhook plan = webhook_firmware (pl_firmware plan)"

text \<open>\<open>_request(plan, device)\<close>\<close>

definition webhook_request :: "profiles \<Rightarrow> plan \<Rightarrow> device \<Rightarrow> exn + rest_request" where
  "webhook_request loaded plan dev =
     then_check (find_profile loaded ''fortios'' (pl_table plan) (case pl_firmware plan of None \<Rightarrow> ''None'' | Some f \<Rightarrow> f)) (\<lambda>prof.
     rest_inverse prof (pl_op plan) (pl_key plan) (pl_inverse plan) (dv_address dev))"

definition address_holder :: "fortios_snapshot \<Rightarrow> string \<Rightarrow> string option" where
  "address_holder snap address = (case filter (\<lambda>(_, entry). take 1 (node_values entry ''ip'') = [address]) (table_items snap ''system interface'') of
     [] \<Rightarrow> None
   | (name, _) # _ \<Rightarrow> Some name)"

definition webhook_preflight ::
  "'d access \<Rightarrow> device \<Rightarrow> string \<Rightarrow> ('d, string list \<times> string option \<times> string option) act" where
  "webhook_preflight acc dev text = bind (lift_res (fortios_load text None)) (\<lambda>snap.
     let login = cr_login (ac_credential acc);
         reasons = webhook_prechecks snap (dv_address dev) (Some (cr_kind (ac_credential acc)))
           @ write_permission login (write_account_profile snap login) in
     bind (handle (bind (ac_query acc QUERY_GLOBAL) (\<lambda>answer. lift_res (then_check (admin_sport answer) (\<lambda>p. Inr ([], Some p)))))
        (\<lambda>x. if is_rejected x then ret (reasons_of x, None) else throw x)) (\<lambda>(more_reasons, port).
     ret (reasons @ more_reasons, port, address_holder snap (dv_address dev))))"

definition fortios_plan_prechecks :: "profiles \<Rightarrow> 'd access \<Rightarrow> device \<Rightarrow> plan \<Rightarrow> string \<Rightarrow> ('d, string list) act" where
  "fortios_plan_prechecks loaded acc dev plan text =
     (if \<not> uses_webhook plan then ret []
      else bind (webhook_preflight acc dev text) (\<lambda>(reasons, _, _). case webhook_request loaded plan dev of
          Inr _ \<Rightarrow> ret reasons
        | Inl x \<Rightarrow> if is_rejected x then ret (reasons @ reasons_of x) else throw x))"

definition fortios_safeguard_preflight :: "'d access \<Rightarrow> device \<Rightarrow> string \<Rightarrow> string option \<Rightarrow> ('d, string) act" where
  "fortios_safeguard_preflight acc dev text firmware =
     (let shown = (\<lambda>t. case t of None \<Rightarrow> ''None'' | Some s \<Rightarrow> s) in
      if \<not> webhook_firmware firmware then ret (''not used: firmware '' @ shown firmware @ '' keeps the cli-script safeguard'')
      else bind (webhook_preflight acc dev text) (\<lambda>(reasons, port, holder).
        if reasons \<noteq> [] then throw (Rejected reasons)
        else ret (''the safeguard webhook can call '' @ dv_address dev @ '' on HTTPS port '' @ shown port @ '' through interface ''
          @ shown holder @ ''; preview and apply check the table and the request'')))"

section \<open>Installing and removing the safeguard\<close>

text \<open>\<open>_answers\<close> and \<open>_webhook_answers\<close>: one query per part, in the order of the parts\<close>

definition query_parts :: "'d access \<Rightarrow> (string, string) dict \<Rightarrow> ('d, (string, string) dict) act" where
  "query_parts acc queries = each (\<lambda>(kind, command). bind (ac_query acc command) (\<lambda>answer. ret (kind, answer))) queries"

definition guard_answers :: "'d access \<Rightarrow> string \<Rightarrow> ('d, (string, string) dict) act" where
  "guard_answers acc change_id = query_parts acc (safeguard_queries change_id)"

definition webhook_answers :: "'d access \<Rightarrow> string \<Rightarrow> string list \<Rightarrow> ('d, (string, string) dict) act" where
  "webhook_answers acc change_id parts =
     query_parts acc (map (\<lambda>part. (part, answer_of (webhook_queries change_id) part)) parts)"

text \<open>\<open>record["safeguard"]["fire_at"]\<close>\<close>

definition planned_safeguard :: "operation \<Rightarrow> exn + safeguard" where
  "planned_safeguard r = (case op_safeguard r of None \<Rightarrow> Inl (OtherError ''KeyError'' ''safeguard'') | Some g \<Rightarrow> Inr g)"

text \<open>\<open>s.replace(p, r)\<close> for a text \<open>p\<close> that is not empty\<close>

function replace_text :: "string \<Rightarrow> string \<Rightarrow> string \<Rightarrow> string" where
  "replace_text p r [] = []"
| "replace_text p r (c # cs) =
     (if p \<noteq> [] \<and> starts_with p (c # cs) then r @ replace_text p r (drop (length p) (c # cs)) else c # replace_text p r cs)"
  by pat_completeness auto

termination replace_text
  by (relation "measure (\<lambda>(p, r, s). length s)") (auto simp: neq_Nil_conv)

text \<open>The token must not appear in a message.\<close>

definition hide_token :: "string \<Rightarrow> exn \<Rightarrow> exn" where
  "hide_token token x = (case x of
     AccessError why n \<Rightarrow> if contains token why then AccessError (replace_text token ''<token>'' why) n else x
   | _ \<Rightarrow> x)"

definition install_webhook ::
  "profiles \<Rightarrow> 'd access \<Rightarrow> operation \<Rightarrow> plan \<Rightarrow> device \<Rightarrow> prompt_spec \<Rightarrow> ('d, string list \<times> safeguard) act" where
  "install_webhook loaded acc r plan dev spec =
     bind (lift_res (planned_safeguard r)) (\<lambda>g.
     bind (lift_res (webhook_request loaded plan dev)) (\<lambda>request.
     bind (bind (ac_query acc QUERY_GLOBAL) (\<lambda>answer. lift_res (admin_sport answer))) (\<lambda>port.
     seq (ac_apply acc (render_webhook_identity (op_change_id r) (dv_address dev)) spec)
     (bind (bind (ac_generate_api_key acc (render_key_request (op_change_id r)) spec) (\<lambda>answer. lift_res (api_key answer))) (\<lambda>token.
     seq (handle (bind (lift_res (render_webhook_safeguard (op_change_id r) request port token (sg_fire_at g)))
            (\<lambda>lines. ac_apply acc (map Command lines) spec))
          (\<lambda>x. throw (hide_token token x)))
     (bind (webhook_answers acc (op_change_id r) WEBHOOK_PARTS) (\<lambda>answers.
      ret (webhook_state (op_change_id r) answers request port token (sg_fire_at g) (dv_address dev), g))))))))"

definition fortios_install_safeguard ::
  "profiles \<Rightarrow> 'd access \<Rightarrow> operation \<Rightarrow> plan \<Rightarrow> device \<Rightarrow> prompt_spec \<Rightarrow> ('d, string list \<times> safeguard) act" where
  "fortios_install_safeguard loaded acc r plan dev spec =
     (if uses_webhook plan then install_webhook loaded acc r plan dev spec
      else bind (lift_res (planned_safeguard r)) (\<lambda>g.
        bind (lift_res (fortios_render_safeguard (op_change_id r) (pl_inverse plan) (sg_fire_at g))) (\<lambda>lines.
        seq (ac_apply acc (map Command lines) spec)
        (bind (guard_answers acc (op_change_id r)) (\<lambda>answers.
         bind (lift_res (safeguard_state (op_change_id r) answers (pl_inverse plan) (sg_fire_at g))) (\<lambda>problems.
         ret (problems, g)))))))"

text \<open>\<open>safeguard_absent\<close>: what cannot be read is not absent\<close>

definition fortios_guard_absent :: "'d access \<Rightarrow> operation \<Rightarrow> ('d, bool) act" where
  "fortios_guard_absent acc r =
     handle (if uses_webhook (op_plan r)
       then bind (webhook_answers acc (op_change_id r) WEBHOOK_PARTS) (\<lambda>answers. ret (webhook_absent (op_change_id r) answers WEBHOOK_PARTS))
       else bind (guard_answers acc (op_change_id r)) (\<lambda>answers. ret (fortios_safeguard_absent (op_change_id r) answers)))
     (\<lambda>_. ret False)"

definition remove_webhook_parts :: "'d access \<Rightarrow> operation \<Rightarrow> prompt_spec \<Rightarrow> string list \<Rightarrow> ('d, bool) act" where
  "remove_webhook_parts acc r spec parts =
     seq (handle (bind (webhook_answers acc (op_change_id r) parts) (\<lambda>answers.
            let present = filter (\<lambda>part. \<not> webhook_absent (op_change_id r) answers [part]) parts in
            if present \<noteq> [] then seq (ac_apply acc (render_webhook_removal (op_change_id r) present) spec) (ret ()) else ret ()))
          (\<lambda>_. ret ()))
     (handle (bind (webhook_answers acc (op_change_id r) parts) (\<lambda>answers. ret (webhook_absent (op_change_id r) answers parts)))
       (\<lambda>_. ret False))"

definition fortios_revoke_token :: "'d access \<Rightarrow> operation \<Rightarrow> prompt_spec \<Rightarrow> ('d, bool option) act" where
  "fortios_revoke_token acc r spec =
     (if \<not> uses_webhook (op_plan r) then ret None
      else bind (remove_webhook_parts acc r spec [''user'', ''profile'']) (\<lambda>gone. ret (Some gone)))"

definition fortios_remove_remaining :: "'d access \<Rightarrow> operation \<Rightarrow> prompt_spec \<Rightarrow> ('d, bool) act" where
  "fortios_remove_remaining acc r spec =
     (if uses_webhook (op_plan r) then remove_webhook_parts acc r spec WEBHOOK_PARTS
      else seq (handle (bind (guard_answers acc (op_change_id r)) (\<lambda>answers.
             let parts = filter (\<lambda>part. \<not> entry_absent (answer_of answers part) (''system automation-'' @ part)
                   (name_of (fortios_safeguard_names (op_change_id r)) part)) SAFEGUARD_PARTS in
             if parts \<noteq> [] then seq (ac_apply acc (map Command (fortios_safeguard_removal (op_change_id r) parts)) spec) (ret ()) else ret ()))
           (\<lambda>_. ret ()))
         (fortios_guard_absent acc r))"

definition fortios_remove_safeguard :: "'d access \<Rightarrow> operation \<Rightarrow> prompt_spec \<Rightarrow> ('d, bool) act" where
  "fortios_remove_safeguard acc r spec =
     (if uses_webhook (op_plan r) then fortios_remove_remaining acc r spec
      else seq (handle (seq (ac_apply acc (map Command (fortios_safeguard_removal (op_change_id r) SAFEGUARD_PARTS)) spec) (ret ())) (\<lambda>_. ret ()))
         (fortios_guard_absent acc r))"

definition fortios_safeguard_disarmed :: "'d access \<Rightarrow> operation \<Rightarrow> ('d, bool) act" where
  "fortios_safeguard_disarmed acc r =
     handle (bind (ac_query acc (answer_of (safeguard_queries (op_change_id r)) ''stitch'')) (\<lambda>answer.
       ret (entry_absent answer ''system automation-stitch'' (name_of (fortios_safeguard_names (op_change_id r)) ''stitch''))))
     (\<lambda>_. ret False)"

text \<open>The module as the execution sees it\<close>

definition fortios_adapter :: "(string \<Rightarrow> string) \<Rightarrow> profiles \<Rightarrow> 'd adapter" where
  "fortios_adapter sha256 loaded = \<lparr>ad_prompt_spec = fortios_prompt_spec, ad_safeguard_label = fortios_safeguard_label,
     ad_hostname = fortios_hostname, ad_clock = fortios_clock, ad_accounts_check = fortios_accounts_check sha256,
     ad_prechecks = (\<lambda>_ _ _ _. ret []), ad_plan_prechecks = fortios_plan_prechecks loaded, ad_ports = (\<lambda>_ _. ret None),
     ad_leftovers = fortios_leftovers, ad_install_safeguard = fortios_install_safeguard loaded,
     ad_remove_safeguard = fortios_remove_safeguard, ad_remove_remaining = fortios_remove_remaining,
     ad_safeguard_absent = fortios_guard_absent, ad_safeguard_disarmed = fortios_safeguard_disarmed, ad_FIRING_OBSERVED = False,
     ad_safeguard_fired = (\<lambda>_ _. ret True), ad_revoke_token = Some fortios_revoke_token, ad_persist = (\<lambda>_ _. ret False),
     ad_observe = fortios_observe, ad_foreign_sessions = fortios_count_sessions\<rparr>"

end
