(* ===== verification/Admin_Fortios_Render.thy ===== *)
theory Admin_Fortios_Render
  imports Admin_Fortios_Guard Admin_Request_Facts
begin

text \<open>
  The command scripts of \<open>fortios.py\<close> read back by the reader of configurations: a rendered change is
  one block that edits one entry and assigns exactly the given values, whatever quotes, backslashes,
  blanks or key words the values hold.
\<close>

section \<open>What a script is meant to say\<close>

text \<open>The words of a value: a name list and a plain value are split at blanks, a text is one word.\<close>

definition value_words :: "profile \<Rightarrow> string \<Rightarrow> string \<Rightarrow> string list" where
  "value_words prof name v = (case map_of (pf_attributes prof) name of
     None \<Rightarrow> []
   | Some a \<Rightarrow> if at_type a = NameList then split_ws v else if at_type a = TextType then [v] else split_on blank v)"

text \<open>The values that are rendered without quotes are words without quotes and space characters.\<close>

definition plain_value :: "profile \<Rightarrow> string \<Rightarrow> string \<Rightarrow> bool" where
  "plain_value prof name v = (case map_of (pf_attributes prof) name of
     None \<Rightarrow> False
   | Some a \<Rightarrow> at_type a \<in> {NameList, TextType} \<or> section_name v)"

definition assigned :: "string list \<Rightarrow> attr" where
  "assigned vals = \<lparr>a_values = vals, a_line = 0, a_unset = False\<rparr>"

definition unassigned :: attr where
  "unassigned = \<lparr>a_values = [], a_line = 0, a_unset = True\<rparr>"

definition change_attrs :: "profile \<Rightarrow> attributes \<Rightarrow> string list \<Rightarrow> (string \<times> attr) list" where
  "change_attrs prof assign remove =
     map (\<lambda>(name, v). (name, assigned (value_words prof name v))) (sort_key fst assign)
     @ map (\<lambda>name. (name, unassigned)) (sort remove)"

text \<open>The tree with the one entry at the given path: sections and entries alternate.\<close>

fun section_tree :: "string list \<Rightarrow> (string \<times> string) list \<Rightarrow> (string \<times> attr) list \<Rightarrow> node" where
  "section_tree path [] as = Node path 0 as [] [] []"
| "section_tree path ((name, key) # rest) as = Node path 0 []
     [(name, Node (path @ [name]) 0 [] [] [(key, section_tree (path @ [name, key]) rest as)] [])] [] []"

definition target_blocks :: "profile \<Rightarrow> string \<Rightarrow> (string \<times> string) list" where
  "target_blocks prof key =
     (if pf_table prof = DHCP_TABLE
      then (case split_on CHR '':'' key of
          [sid, rid] \<Rightarrow> [(''system dhcp server'', sid), (''reserved-address'', rid)] | _ \<Rightarrow> [])
      else [(pf_table prof, key)])"

text \<open>Keys that are rendered without quotes\<close>

definition plain_key :: "profile \<Rightarrow> string \<Rightarrow> bool" where
  "plain_key prof key \<longleftrightarrow> pf_table prof = DHCP_TABLE \<longrightarrow> list_all plain_word (split_on CHR '':'' key)"

section \<open>Lines of a script\<close>

lemma quoted_Inr: "quoted v = Inr q \<longleftrightarrow> q = quote v \<and> \<not> list_ex is_control v"
  by (auto simp: quoted_def reject_def)

lemma control_creturn: "\<not> list_ex is_control v \<Longrightarrow> creturn \<notin> set v"
  using list_ex_iff [of is_control v] by (auto simp: is_control_def code_def)

lemma quoted_all_Inr: "quoted_all vs = Inr qs \<Longrightarrow> qs = map quote vs \<and> (\<forall>v \<in> set vs. creturn \<notin> set v)"
  by (induction vs arbitrary: qs) (auto simp: quoted_Inr control_creturn)

lemma parse_line_blank: "parse_line k (l @ [blank]) st = parse_line k l st"
proof (cases "list_all is_space l")
  case True
  then have "dropWhile is_space l = []" "dropWhile is_space (l @ [blank]) = []" by (auto simp: list_all_iff is_space_def)
  then have "strip (l @ [blank]) = strip l" by (simp only: strip_def lstrip_def)
  then show ?thesis by (simp add: parse_line_def)
next
  case False
  then have "dropWhile is_space (l @ [blank]) = dropWhile is_space l @ [blank]"
    by (induction l) (auto simp: list_all_iff)
  moreover have "is_space blank" by (simp add: is_space_def)
  ultimately have "strip (l @ [blank]) = strip l" by (simp add: strip_def lstrip_def rstrip_def)
  then show ?thesis by (simp add: parse_line_def)
qed

lemma rendered_cases:
  assumes "plain_value prof name v" and "rendered_value prof name v = Inr r"
  obtains (quotes) vs where "r = join '' '' (map quote vs)" "value_words prof name v = vs" "\<forall>w \<in> set vs. creturn \<notin> set w"
    | (plain) "r = v" "section_name v" "value_words prof name v = split_on blank v"
proof -
  obtain a where a: "map_of (pf_attributes prof) name = Some a"
    using assms(1) by (auto simp: plain_value_def split: option.splits)
  show thesis
    using assms a
    by (auto simp: rendered_value_def plain_value_def value_words_def quoted_Inr control_creturn
        split: if_splits dest!: quoted_all_Inr intro: that(1) [of "[v]"] that(2) that(1) [of "split_ws v"])
qed

lemma parse_set_line:
  assumes "plain_word name" and "plain_value prof name v" and "rendered_value prof name v = Inr r"
  shows "parse_line k (''        set '' @ name @ '' '' @ r) st =
      Inr (assign_attr name (assigned (value_words prof name v)\<lparr>a_line := k\<rparr>) st) \<and> closed_line r"
  using assms(2,3)
proof (cases rule: rendered_cases)
  case (quotes vs)
  have "parse_line k (''        '' @ attr_line name (assigned vs)) st = Inr (assign_attr name (assigned vs\<lparr>a_line := k\<rparr>) st)"
    using assms(1) quotes(3) by (intro parse_attr_line) (auto simp: wf_attr_def assigned_def)
  then show ?thesis using quotes closed_quotes [of vs] parse_line_blank [of k "''        set '' @ name"]
    by (cases "vs = []") (simp_all add: attr_line_def assigned_def quotes_Nil)
next
  case plain
  have "tokenize (''set '' @ name @ '' '' @ r) = ''set'' # name # value_words prof name v"
    using assms(1) tokenize_word [OF keyword_plain(1), of "name @ '' '' @ r"] plain tok_words [of "split_on blank v" "[''set'', name]"]
    by (simp add: tok_word_blank section_name_def)
  moreover have "parse_line k (''        '' @ (''set '' @ name @ '' '' @ r)) st =
      parse_tokens k (tokenize (''set '' @ name @ '' '' @ r)) st"
    using section_last [of v] plain by (intro parse_line_indent) auto
  ultimately show ?thesis using plain closed_section [of v] by (simp add: parse_tokens_def assigned_def)
qed

lemma set_lines_assign:
  assumes "set_lines prof assign = Inr ls" and "\<forall>(name, v) \<in> set assign. plain_word name \<and> plain_value prof name v"
  shows "list_all2 (\<lambda>l (name, a). closed_line l \<and> (\<forall>k st. parse_line k l st = Inr (assign_attr name (a\<lparr>a_line := k\<rparr>) st)))
    ls (map (\<lambda>(name, v). (name, assigned (value_words prof name v))) assign)"
  using assms
proof (induction assign arbitrary: ls)
  case (Cons nv assign)
  obtain name v where nv: "nv = (name, v)" by fastforce
  with Cons.prems obtain r rest where r: "rendered_value prof name v = Inr r" and rest: "set_lines prof assign = Inr rest"
    and ls: "ls = (''        set '' @ name @ '' '' @ r) # rest" by auto
  have ok: "plain_word name" "plain_value prof name v" using Cons.prems nv by auto
  have "closed_line (''        set '' @ name @ '' '' @ r)"
    using closed_plain [OF ok(1)] parse_set_line [OF ok r] closed_free [of "''        set ''"] closed_free [of "'' ''"]
    by (intro closed_append) auto
  moreover have "list_all2 (\<lambda>l (name, a). closed_line l \<and> (\<forall>k st. parse_line k l st = Inr (assign_attr name (a\<lparr>a_line := k\<rparr>) st)))
    rest (map (\<lambda>(name, v). (name, assigned (value_words prof name v))) assign)"
    using Cons.IH [OF rest] Cons.prems by simp
  ultimately show ?case using parse_set_line [OF ok r] by (simp add: nv ls)
qed simp

lemma unset_lines_assign:
  assumes "list_all plain_word names"
  shows "list_all2 (\<lambda>l (name, a). closed_line l \<and> (\<forall>k st. parse_line k l st = Inr (assign_attr name (a\<lparr>a_line := k\<rparr>) st)))
    (map (\<lambda>name. ''        unset '' @ name) names) (map (\<lambda>name. (name, unassigned)) names)"
proof -
  have "parse_line k (''        '' @ attr_line name unassigned) st = Inr (assign_attr name (unassigned\<lparr>a_line := k\<rparr>) st)"
    if "name \<in> set names" for name k st
    using that assms by (intro parse_attr_line) (auto simp: list_all_iff wf_attr_def unassigned_def)
  moreover have "closed_line (''        unset '' @ name)" if "name \<in> set names" for name
    using that assms closed_append [OF closed_free [of "''        unset ''"] closed_plain [of name]] by (simp add: list_all_iff)
  ultimately show ?thesis
    by (auto simp: list_all2_map1 list_all2_map2 list_all2_same attr_line_def unassigned_def)
qed

section \<open>Blocks of a script\<close>

lemma parse_edit_word:
  assumes "plain_word w" and "set indent \<subseteq> {blank}" and "length st \<le> MAX_DEPTH"
  shows "parse_line k (indent @ ''edit '' @ w) st = Inr (open_edit k [w] st)"
proof -
  have "parse_line k (indent @ ''edit '' @ w) st = parse_tokens k (tokenize (''edit '' @ w)) st"
    using assms plain_word_last [of w] by (intro parse_line_indent) auto
  moreover have "tokenize (''edit '' @ w) = [''edit'', w]"
    using tokenize_word [OF keyword_plain(4), of w] tok_word_end [OF assms(1)] by simp
  ultimately show ?thesis using assms(3) by (simp add: parse_tokens_def)
qed

lemma read_block:
  assumes name: "section_name name" and depth: "Suc (Suc (length rest)) \<le> MAX_DEPTH" and vdom: "p \<noteq> [VDOM_SECTION]"
    and start: "\<And>k st. length st \<le> MAX_DEPTH \<Longrightarrow> parse_line k first st = Inr (open_edit k [key] st)"
    and indent: "set indent \<subseteq> {blank}" and path: "n_path ent = p @ [name, key]"
    and nls: "map snd nls = [''config '' @ name] @ ([first] @ body @ [indent @ ''next'']) @ [''end'']"
    and body: "\<And>n2 k st. map snd n2 = body \<Longrightarrow> length st = Suc (Suc (length rest)) \<Longrightarrow>
      \<exists>n'. parse_loop n2 ((Node (n_path ent) k [] [] [] [], AsEntry key) # st) = Inr ((n', AsEntry key) # st)
        \<and> erase n' = erase ent"
  shows "\<exists>n'. parse_loop nls ((Node p l as [] [] ct, h) # rest) = Inr ((n', h) # rest)
    \<and> erase n' = erase (Node p 0 as [(name, Node (p @ [name]) 0 [] [] [(key, ent)] [])] [] [])"
proof -
  let ?sect = "Node (p @ [name]) 0 [] [] [(key, ent)] []"
  have inner: "\<exists>n'. parse_loop n2 ((Node (p @ [name]) k [] [] [] (split_on blank name), AsSub name) # st) = Inr ((n', AsSub name) # st)
      \<and> erase n' = erase ?sect"
    if "map snd n2 = [first] @ body @ [indent @ ''next'']" and "length st = Suc (length rest)" for n2 k st
    using read_entry_by [OF start indent _ _ _ that(1), where p = "p @ [name]" and rest = st and ent = ent and ?es0.0 = "[]"] that(2) body depth path
    by fastforce
  have "\<exists>n'. parse_loop nls ((Node p l as [] [] ct, h) # rest) = Inr ((Node p l as ([] @ [(name, n')]) [] ct, h) # rest)
      \<and> erase n' = erase ?sect"
    using depth inner nls by (intro read_section [OF _ name _ _ _ vdom, where indent = "[]" and body = "[first] @ body @ [indent @ ''next'']"]) auto
  then obtain n' where "parse_loop nls ((Node p l as [] [] ct, h) # rest) = Inr ((Node p l as [(name, n')] [] ct, h) # rest)"
    "erase n' = erase ?sect" by auto
  then show ?thesis by (intro exI [of _ "Node p l as [(name, n')] [] ct"]) simp
qed

lemma read_body:
  assumes "list_all2 (\<lambda>l (name, a). closed_line l \<and> (\<forall>k st. parse_line k l st = Inr (assign_attr name (a\<lparr>a_line := k\<rparr>) st))) body as"
    and "wf_dict as" and "map snd nls = body"
  shows "\<exists>n'. parse_loop nls ((Node p k [] [] [] ct, h) # st) = Inr ((n', h) # st) \<and> erase n' = erase (Node p 0 as [] [] [])"
proof -
  have "list_all2 (\<lambda>l (name, a). \<forall>k st. parse_line k l st = Inr (assign_attr name (a\<lparr>a_line := k\<rparr>) st)) (map snd nls) as"
    unfolding assms(3) by (rule list.rel_mono_strong [OF assms(1)]) auto
  from parse_assigns [OF this assms(2), of "[]"] show ?thesis by fastforce
qed

section \<open>Whole scripts\<close>

lemma parse_closed_lines:
  assumes "\<forall>l \<in> set ls. closed_line l" and "\<And>nls. map snd nls = ls \<Longrightarrow> \<exists>n'. parse_loop nls [root_frame] = Inr [(n', AtRoot)] \<and> erase n' = erase t"
  shows "\<exists>t'. parse (lines_text ls) = Inr t' \<and> erase t' = erase t"
proof -
  from assms(2) [of "numbered 1 ls"] obtain n' where n': "parse_loop (numbered 1 ls) [root_frame] = Inr [(n', AtRoot)]" "erase n' = erase t"
    by auto
  have "logical_lines (lines_text ls) = (numbered 1 ls, None)" by (rule logical_lines_text [OF assms(1)])
  then have "parse (lines_text ls) = Inr n'" using n'(1) by (simp add: parse_def)
  with n'(2) show ?thesis by blast
qed

lemma fixed_sections: "section_name ''system dhcp server''" "section_name ''reserved-address''"
  by code_simp+

lemma render_update_parts:
  assumes "fortios_render_update prof key assign remove = Inr cmds"
  obtains before local_key after sets where "edit_context prof key = Inr (before, local_key, after)"
    "set_lines prof (sort_key fst assign) = Inr sets"
    "cmds = before @ [''    edit '' @ local_key] @ (sets @ map (\<lambda>name. ''        unset '' @ name) (sort remove)) @ [''    next''] @ after"
  using assms by (auto simp: fortios_render_update_def)

lemma change_lines_assign:
  assumes "set_lines prof (sort_key fst assign) = Inr sets"
    and "\<forall>(name, v) \<in> set assign. plain_word name \<and> plain_value prof name v" and "list_all plain_word remove"
  shows "list_all2 (\<lambda>l (name, a). closed_line l \<and> (\<forall>k st. parse_line k l st = Inr (assign_attr name (a\<lparr>a_line := k\<rparr>) st)))
    (sets @ map (\<lambda>name. ''        unset '' @ name) (sort remove)) (change_attrs prof assign remove)"
  unfolding change_attrs_def
  using assms set_lines_assign [OF assms(1)] unset_lines_assign [of "sort remove"]
  by (intro list_all2_appendI) (auto simp: list_all_iff)

lemma keys_change_attrs: "keys (change_attrs prof assign remove) = keys (sort_key fst assign) @ sort remove"
  by (simp add: change_attrs_def keys_def comp_def case_prod_beta)

lemma change_attrs_wf:
  assumes "wf_dict assign" and "distinct remove" and "set (keys assign) \<inter> set remove = {}"
  shows "wf_dict (change_attrs prof assign remove)"
proof -
  have "distinct (keys (sort_key fst assign))"
    using assms(1) by (simp add: wf_dict_def keys_def distinct_map)
  then show ?thesis using assms(2,3) by (simp add: wf_dict_def keys_change_attrs) (simp add: keys_def)
qed

text \<open>The lines around the body: closed, and read as the blocks of the target.\<close>

lemma read_context:
  assumes ctx: "edit_context prof key = Inr (before, local_key, after)"
    and table: "section_name (pf_table prof)" and key: "plain_key prof key"
    and body: "list_all2 (\<lambda>l (name, a). closed_line l \<and> (\<forall>k st. parse_line k l st = Inr (assign_attr name (a\<lparr>a_line := k\<rparr>) st))) body as"
      "wf_dict as"
    and nls: "map snd nls = before @ [''    edit '' @ local_key] @ body @ [''    next''] @ after"
  shows "\<exists>n'. parse_loop nls [root_frame] = Inr [(n', AtRoot)] \<and> erase n' = erase (section_tree [] (target_blocks prof key) as)"
proof (cases "pf_table prof = DHCP_TABLE")
  case False
  with ctx have parts: "before = [''config '' @ pf_table prof]" "local_key = quote key" "after = [''end'']"
    by (auto simp: edit_context_def quoted_Inr)
  have "\<exists>n'. parse_loop nls ((Node [] 0 [] [] [] [], AtRoot) # []) = Inr ((n', AtRoot) # [])
      \<and> erase n' = erase (Node [] 0 [] [(pf_table prof, Node ([] @ [pf_table prof]) 0 [] [] [(key, Node [pf_table prof, key] 0 as [] [] [])] [])] [] [])"
    using nls parts read_body [OF body] parse_edit_line [of "''    ''"]
    by (intro read_block [OF table, where first = "''    edit '' @ local_key" and indent = "''    ''" and body = body]) (auto simp: MAX_DEPTH_def)
  then show ?thesis using False by (simp add: root_frame_def target_blocks_def)
next
  case True
  with ctx key obtain sid rid where parts: "before = [''config system dhcp server'', ''edit '' @ sid, ''config reserved-address'']" "local_key = rid"
    "after = [''end'', ''next'', ''end'']" "split_on CHR '':'' key = [sid, rid]" "plain_word sid" "plain_word rid"
    by (auto simp: edit_context_def two_parts_def plain_key_def split: list.splits)
  let ?path = "[''system dhcp server'', sid]"
  let ?inner = "Node ?path 0 [] [(''reserved-address'', Node (?path @ [''reserved-address'']) 0 [] []
    [(rid, Node (?path @ [''reserved-address'', rid]) 0 as [] [] [])] [])] [] []"
  let ?mid = "[''config reserved-address''] @ ([''    edit '' @ rid] @ body @ [''    next'']) @ [''end'']"
  have mid: "\<exists>n'. parse_loop n2 ((Node [''system dhcp server'', sid] k [] [] [] [], AsEntry sid) # st) = Inr ((n', AsEntry sid) # st)
      \<and> erase n' = erase ?inner" if "map snd n2 = ?mid" "length st = 2" for n2 k st
    using that read_body [OF body] parse_edit_word [OF parts(6), of "''    ''"]
    by (intro read_block [OF fixed_sections(2), where first = "''    edit '' @ rid" and indent = "''    ''" and body = body])
      (auto simp: MAX_DEPTH_def)
  have "\<exists>n'. parse_loop nls ((Node [] 0 [] [] [] [], AtRoot) # []) = Inr ((n', AtRoot) # [])
      \<and> erase n' = erase (Node [] 0 [] [(''system dhcp server'', Node ([] @ [''system dhcp server'']) 0 [] [] [(sid, ?inner)] [])] [] [])"
    using nls parts mid parse_edit_word [OF parts(5), of "[]"]
    by (intro read_block [OF fixed_sections(1), where first = "''edit '' @ sid" and indent = "[]" and body = ?mid]) (auto simp: MAX_DEPTH_def)
  then show ?thesis using True parts(4) by (simp add: root_frame_def target_blocks_def)
qed

section \<open>Canonical values and whole changes\<close>

lemma plain_char_code: "45 \<le> code c \<Longrightarrow> plain_char c"
  by (auto simp: plain_char_def is_space_def code_def)

lemma plain_word_codes: "w \<noteq> [] \<Longrightarrow> (\<And>c. c \<in> set w \<Longrightarrow> 45 \<le> code c) \<Longrightarrow> plain_word w"
  by (simp add: plain_word_def list_all_iff plain_char_code)

lemma plain_word_blank: "plain_word w \<Longrightarrow> blank \<notin> set w"
  using plain_char_not_blank [of blank] by (auto simp: plain_word_def list_all_iff blank_char_def)

lemma section_word: "plain_word w \<Longrightarrow> section_name w"
  using split_on_free [OF plain_word_blank [of w]] by (simp add: section_name_def)

lemma section_two: "plain_word v \<Longrightarrow> plain_word w \<Longrightarrow> section_name (v @ blank # w)"
  using split_on_append [of blank v w] section_word [of v] section_word [of w] by (simp add: section_name_def)

lemma show_ip_word: "plain_word (show_ip w)"
  using show_ip_chars [of w] by (intro plain_word_codes) (auto simp: is_digit_def code_def)

lemma digit_codes: "list_all is_digit s \<Longrightarrow> c \<in> set s \<Longrightarrow> 45 \<le> code c"
  by (auto simp: list_all_iff is_digit_def)

lemma show_int_word: "plain_word (show_int i)"
  using digit_codes [OF show_nat_digits] by (intro plain_word_codes) (auto simp: show_int_def code_def split: if_splits)

lemma mac_word:
  assumes "mac_address s"
  shows "plain_word (casefold s)"
proof (rule plain_word_codes)
  show "casefold s \<noteq> []" using mac_length [of "casefold s"] assms mac_casefold [of s] by auto
  fix c assume "c \<in> set (casefold s)"
  moreover have "c = CHR '':'' \<or> (\<exists>p \<in> set ps. c \<in> set p)" if "c \<in> set (join '':'' ps)" for ps
    using that by (induction ps) (auto simp: join_Cons split: if_splits)
  from this [of "split_on CHR '':'' (casefold s)"]
  have "c \<in> set (casefold s) \<Longrightarrow> c = CHR '':'' \<or> (\<exists>p \<in> set (split_on CHR '':'' (casefold s)). c \<in> set p)" by simp
  moreover have "\<forall>p \<in> set (split_on CHR '':'' (casefold s)). \<forall>c \<in> set p. is_hex c"
    using assms mac_casefold [of s] by (simp add: mac_address_def Let_def list_all_iff)
  ultimately have "c = CHR '':'' \<or> is_hex c" by blast
  then show "45 \<le> code c" using code_fold [of c] by (auto simp: is_hex_def is_lower_hex_def is_digit_def code_def split: if_splits)
qed

lemma attribute_name_word: "ATTRIBUTE_NAME s \<Longrightarrow> plain_word s"
proof (rule plain_word_codes)
  fix c assume "ATTRIBUTE_NAME s" and "c \<in> set s"
  then have "is_lower c \<or> is_digit c \<or> c = CHR ''-''" by (cases s) (auto simp: ATTRIBUTE_NAME_def list_all_iff)
  then show "45 \<le> code c" by (auto simp: is_lower_def is_digit_def code_def)
qed (simp add: ATTRIBUTE_NAME_def)

lemma canonical_integer_shown: "canonical_integer a c = Inr v \<Longrightarrow> \<exists>i. v = show_int i"
  by (auto simp: canonical_integer_def reject_def Let_def split: option.splits if_splits)

lemma canonical_plain:
  assumes "map_of (pf_attributes prof) name = Some a" and "canonical_value a c platform = Inr v"
  shows "plain_value prof name v"
proof (cases "at_type a = IntegerType")
  case True
  then show ?thesis using assms canonical_integer_shown [of a c v] show_int_word section_word
    by (auto simp: canonical_value_def plain_value_def)
next
  case False
  then have "at_type a \<in> {NameList, TextType} \<or> section_name v"
    using assms(2) section_word [OF show_ip_word] section_word [OF mac_word] section_two [OF show_ip_word show_ip_word]
    by (auto simp: canonical_value_def canonical_mac_def canonical_network_def reject_def Let_def
        split: attribute_type.splits change_value.splits option.splits if_splits)
  with assms(1) show ?thesis by (simp add: plain_value_def)
qed

lemma context_closed:
  assumes "edit_context prof key = Inr (before, local_key, after)" and "section_name (pf_table prof)" and "plain_key prof key"
  shows "\<forall>l \<in> set (before @ [''    edit '' @ local_key] @ [''    next''] @ after). closed_line l"
proof -
  have edit: "closed_line (''    edit '' @ q)" "closed_line (''edit '' @ q)" if "closed_line q" for q
    using that closed_append [OF closed_free [of "''    edit ''"]] closed_append [OF closed_keywords(2)] by simp_all
  have table: "closed_line (''config '' @ pf_table prof)"
    using closed_append [OF closed_keywords(1) closed_section [OF assms(2)]] by simp
  have fixed: "closed_line ''config system dhcp server''" "closed_line ''config reserved-address''" "closed_line ''    next''"
    by (rule closed_free; simp)+
  show ?thesis
  proof (cases "pf_table prof = DHCP_TABLE")
    case True
    with assms(1,3) obtain sid rid where "plain_word sid" "plain_word rid" "local_key = rid" "after = [''end'', ''next'', ''end'']"
      "before = [''config system dhcp server'', ''edit '' @ sid, ''config reserved-address'']"
      by (auto simp: edit_context_def two_parts_def plain_key_def split: list.splits)
    then show ?thesis using edit(1) [OF closed_plain [of rid]] edit(2) [OF closed_plain [of sid]] fixed closed_keywords(3,4) by simp
  next
    case False
    with assms(1) have "local_key = quote key" "closed_line (quote key)" "before = [''config '' @ pf_table prof]" "after = [''end'']"
      using closed_quote [OF control_creturn [of key]] by (auto simp: edit_context_def quoted_Inr)
    then show ?thesis using edit(1) [of "quote key"] table fixed(3) closed_keywords(3) by simp
  qed
qed

lemma body_closed:
  assumes "list_all2 (\<lambda>l (name, a). closed_line l \<and> (\<forall>k st. parse_line k l st = Inr (assign_attr name (a\<lparr>a_line := k\<rparr>) st))) body as"
  shows "\<forall>l \<in> set body. closed_line l"
  using assms by (induction rule: list_all2_induct) auto

lemma render_create_update: "fortios_render_create prof key assign = fortios_render_update prof key assign []"
  by (simp add: fortios_render_create_def fortios_render_update_def)

text \<open>(C9) The rendered commands say what was asked and nothing else: read by the parser of configurations,
  the script of a create or an update is one block that edits the one target entry, assigns to each
  given attribute the words of its value, and removes exactly the named attributes. No quote,
  backslash, blank, key word or line break in a value or in a key can close the block, open another
  one or set another attribute. The values are those the check of requests accepts; a DHCP key has
  two plain identifiers.\<close>

theorem render_update_parses:
  assumes "fortios_render_update prof key assign remove = Inr cmds \<or>
      remove = [] \<and> fortios_render_create prof key assign = Inr cmds"
    and "section_name (pf_table prof)" and "plain_key prof key"
    and "\<forall>(name, v) \<in> set assign. ATTRIBUTE_NAME name \<and>
      (\<exists>a c. map_of (pf_attributes prof) name = Some a \<and> canonical_value a c (pf_platform prof) = Inr v)"
    and "list_all ATTRIBUTE_NAME remove"
    and "wf_dict assign" and "distinct remove" and "set (keys assign) \<inter> set remove = {}"
  shows "\<exists>t. parse (lines_text cmds) = Inr t \<and>
    erase t = erase (section_tree [] (target_blocks prof key) (change_attrs prof assign remove))"
proof -
  have "fortios_render_update prof key assign remove = Inr cmds" using assms(1) render_create_update by auto
  then obtain before local_key after sets where ctx: "edit_context prof key = Inr (before, local_key, after)"
    and sets: "set_lines prof (sort_key fst assign) = Inr sets"
    and cmds: "cmds = before @ [''    edit '' @ local_key]
      @ (sets @ map (\<lambda>name. ''        unset '' @ name) (sort remove)) @ [''    next''] @ after"
    by (rule render_update_parts)
  have names: "\<forall>(name, v) \<in> set assign. plain_word name \<and> plain_value prof name v" "list_all plain_word remove"
    using assms(4,5) canonical_plain attribute_name_word by (fastforce simp: list_all_iff)+
  note body = change_lines_assign [OF sets names] and wf = change_attrs_wf [OF assms(6-8), of prof]
  have "\<forall>l \<in> set cmds. closed_line l"
    using context_closed [OF ctx assms(2,3)] body_closed [OF body] by (simp add: cmds ball_Un)
  then show ?thesis
    using read_context [OF ctx assms(2,3) body wf] by (intro parse_closed_lines) (simp_all add: cmds)
qed

section \<open>A sample change\<close>

definition text_attribute :: attribute where
  "text_attribute = \<lparr>at_name = ''comment'', at_type = TextType, at_default = None, at_required_on_create = False, at_update = True,
     at_unset = True, at_referenced_update = True, at_max_length = Some 63, at_minimum = None, at_maximum = None,
     at_forbidden_values = [], at_pattern = None, at_undo_to_default = False\<rparr>"

definition subnet_attribute :: attribute where
  "subnet_attribute = \<lparr>at_name = ''subnet'', at_type = Ipv4Network, at_default = None, at_required_on_create = True, at_update = True,
     at_unset = False, at_referenced_update = False, at_max_length = None, at_minimum = None, at_maximum = None,
     at_forbidden_values = [], at_pattern = None, at_undo_to_default = False\<rparr>"

definition address_profile :: profile where
  "address_profile = \<lparr>pf_platform = ''fortios'', pf_table = ''firewall address'', pf_versions = [''7.4.8''], pf_ops = [''create'', ''update'', ''delete''],
     pf_key_pattern = \<lparr>re_source = ''^.+$'', re_fullmatch = (\<lambda>s. s \<noteq> [])\<rparr>, pf_protected_keys = [],
     pf_attributes = [(''subnet'', subnet_attribute), (''comment'', text_attribute)], pf_fixed = [], pf_volatile = [],
     pf_reserved_values = [], pf_inverse_identity_changes = [], pf_rollback_evidence = ''measured'', pf_implicit_keys = False,
     pf_undo_ops = [], pf_exact_versions = False, pf_table_scoped_key = False, pf_create_values = [], pf_create_position = None,
     pf_isolated_update = [], pf_provisional = False, pf_value_requires = []\<rparr>"

definition hostile_comment :: string where
  "hostile_comment = ''x'' @ [dquote] @ '' next end config system admin''"

definition hostile_script :: "string list" where
  "hostile_script = projr (fortios_render_update address_profile ''web'' [(''comment'', hostile_comment)] [''fabric-object''])"

lemma hostile_rendered:
  "fortios_render_update address_profile ''web'' [(''comment'', hostile_comment)] [''fabric-object''] = Inr hostile_script"
  by code_simp

theorem render_update_parses_witness:
  "\<exists>t. parse (lines_text hostile_script) = Inr t \<and> erase t = erase (section_tree [] (target_blocks address_profile ''web'')
    (change_attrs address_profile [(''comment'', hostile_comment)] [''fabric-object'']))"
proof (rule render_update_parses)
  show "fortios_render_update address_profile ''web'' [(''comment'', hostile_comment)] [''fabric-object''] = Inr hostile_script \<or>
      [''fabric-object''] = [] \<and> fortios_render_create address_profile ''web'' [(''comment'', hostile_comment)] = Inr hostile_script"
    using hostile_rendered by simp
  have "map_of (pf_attributes address_profile) ''comment'' = Some text_attribute" by (simp add: address_profile_def)
  moreover have "ATTRIBUTE_NAME ''comment''"
    and "canonical_value text_attribute (VStr hostile_comment) (pf_platform address_profile) = Inr hostile_comment"
    by code_simp+
  ultimately show "\<forall>(name, v) \<in> set [(''comment'', hostile_comment)]. ATTRIBUTE_NAME name \<and>
      (\<exists>a c. map_of (pf_attributes address_profile) name = Some a \<and> canonical_value a c (pf_platform address_profile) = Inr v)"
    by auto
qed code_simp+

end
