(* ===== verification/Admin_Fortios_Safeguard.thy ===== *)
theory Admin_Fortios_Safeguard
  imports Admin_Exec_Fortios Admin_Fortios_Render
begin

text \<open>
  The safeguard of FortiOS from its script to its check: the script that installs it, read as the device
  shows it, passes the check that must pass before a change is sent.
\<close>

section \<open>Lines of the script\<close>

lemma config_line:
  "section_name name \<Longrightarrow> length st \<le> MAX_DEPTH \<Longrightarrow> parse_line k (''config '' @ name) st = Inr (open_config k (split_on blank name) st)"
  using parse_config_line [of "[]" name st k] by simp

lemma edit_line: "length st \<le> MAX_DEPTH \<Longrightarrow> parse_line k (''edit '' @ quote name) st = Inr (open_edit k [name] st)"
  using parse_edit_line [of "[]" st k name] by simp

lemma plain_line:
  assumes "plain_word name" and "section_name v"
  shows "parse_line k (''set '' @ name @ '' '' @ v) st =
    Inr (assign_attr name \<lparr>a_values = split_on blank v, a_line = k, a_unset = False\<rparr> st)"
proof -
  have "tokenize (''set '' @ name @ '' '' @ v) = ''set'' # name # split_on blank v"
    using assms tokenize_word [OF keyword_plain(1), of "name @ '' '' @ v"] tok_words [of "split_on blank v" "[''set'', name]"]
    by (simp add: tok_word_blank section_name_def)
  moreover have "parse_line k ([] @ (''set '' @ name @ '' '' @ v)) st = parse_tokens k (tokenize (''set '' @ name @ '' '' @ v)) st"
    using section_last [OF assms(2)] by (intro parse_line_indent) auto
  ultimately show ?thesis by (simp add: parse_tokens_def)
qed

lemma quoted_line:
  assumes "plain_word name" and "creturn \<notin> set v"
  shows "parse_line k (''set '' @ name @ '' '' @ quote v) st = Inr (assign_attr name \<lparr>a_values = [v], a_line = k, a_unset = False\<rparr> st)"
  using parse_attr_line [of "[]" name "assigned [v]" k st] assms by (simp add: wf_attr_def assigned_def attr_line_def)

lemma close_lines:
  "length st \<noteq> 1 \<Longrightarrow> parse_line k ''next'' st = Inr (pop st)"
  "length st \<noteq> 1 \<Longrightarrow> \<not> closes_vdom_entry st \<Longrightarrow> parse_line k ''end'' st = Inr (pop st)"
  using parse_next_line [of "[]" st k] parse_end_line [of "[]" st k] by simp_all

lemma guard_sections:
  "section_name ''system automation-action''" "section_name ''system automation-trigger''" "section_name ''system automation-stitch''"
  "section_name ''actions''" "section_name ''cli-script''" "section_name ''scheduled''" "section_name ''once''" "section_name ''enable''"
  "plain_word ''action-type''" "plain_word ''script''" "plain_word ''trigger-type''" "plain_word ''trigger-frequency''"
  "plain_word ''trigger-datetime''" "plain_word ''status''" "plain_word ''trigger''" "plain_word ''action''" "plain_word ''1''"
  by code_simp+

lemma guard_lines:
  "length st \<le> MAX_DEPTH \<Longrightarrow> parse_line k ''config system automation-action'' st = Inr (open_config k [''system'', ''automation-action''] st)"
  "length st \<le> MAX_DEPTH \<Longrightarrow> parse_line k ''config system automation-trigger'' st = Inr (open_config k [''system'', ''automation-trigger''] st)"
  "length st \<le> MAX_DEPTH \<Longrightarrow> parse_line k ''config system automation-stitch'' st = Inr (open_config k [''system'', ''automation-stitch''] st)"
  "length st \<le> MAX_DEPTH \<Longrightarrow> parse_line k ''config actions'' st = Inr (open_config k [''actions''] st)"
  "length st \<le> MAX_DEPTH \<Longrightarrow> parse_line k ''edit 1'' st = Inr (open_edit k [''1''] st)"
  "parse_line k ''set action-type cli-script'' st = Inr (assign_attr ''action-type'' \<lparr>a_values = [''cli-script''], a_line = k, a_unset = False\<rparr> st)"
  "parse_line k ''set trigger-type scheduled'' st = Inr (assign_attr ''trigger-type'' \<lparr>a_values = [''scheduled''], a_line = k, a_unset = False\<rparr> st)"
  "parse_line k ''set trigger-frequency once'' st = Inr (assign_attr ''trigger-frequency'' \<lparr>a_values = [''once''], a_line = k, a_unset = False\<rparr> st)"
  "parse_line k ''set status enable'' st = Inr (assign_attr ''status'' \<lparr>a_values = [''enable''], a_line = k, a_unset = False\<rparr> st)"
  using config_line [OF guard_sections(1), of st k] config_line [OF guard_sections(2), of st k] config_line [OF guard_sections(3), of st k]
    config_line [OF guard_sections(4), of st k] parse_edit_word [OF guard_sections(17), of "[]" st k]
    plain_line [OF guard_sections(9,5), of k st] plain_line [OF guard_sections(11,6), of k st]
    plain_line [OF guard_sections(12,7), of k st] plain_line [OF guard_sections(14,8), of k st]
  by simp_all

section \<open>The whole script\<close>

text \<open>The logical lines of the script: the quoted script of the action is one of them.\<close>

definition guard_script :: "string \<Rightarrow> string \<Rightarrow> string \<Rightarrow> string \<Rightarrow> string \<Rightarrow> string list" where
  "guard_script a t s script fire_at = [
     ''config system automation-action'', ''edit '' @ quote a, ''set action-type cli-script'', ''set script '' @ quote script, ''next'', ''end'',
     ''config system automation-trigger'', ''edit '' @ quote t, ''set trigger-type scheduled'',
     ''set trigger-frequency once'', ''set trigger-datetime '' @ fire_at, ''next'', ''end'',
     ''config system automation-stitch'', ''edit '' @ quote s, ''set status enable'', ''set trigger '' @ quote t,
     ''config actions'', ''edit 1'', ''set action '' @ quote a, ''next'', ''end'', ''next'', ''end'']"

text \<open>The tree of the script, with the line numbers \<open>k\<close>\<close>

definition value_at :: "string list \<Rightarrow> nat \<Rightarrow> attr" where
  "value_at vals k = \<lparr>a_values = vals, a_line = k, a_unset = False\<rparr>"

definition guard_tree :: "(nat \<Rightarrow> nat) \<Rightarrow> string \<Rightarrow> string \<Rightarrow> string \<Rightarrow> string \<Rightarrow> string \<Rightarrow> node" where
  "guard_tree k a t s script fire_at = Node [] 0 [] [
     (''system automation-action'', Node [''system automation-action''] (k 0) [] []
       [(a, Node [''system automation-action'', a] (k 1) [(''action-type'', value_at [''cli-script''] (k 2)), (''script'', value_at [script] (k 3))] [] [] [])]
       [''system'', ''automation-action'']),
     (''system automation-trigger'', Node [''system automation-trigger''] (k 6) [] []
       [(t, Node [''system automation-trigger'', t] (k 7) [(''trigger-type'', value_at [''scheduled''] (k 8)),
          (''trigger-frequency'', value_at [''once''] (k 9)), (''trigger-datetime'', value_at (split_on blank fire_at) (k 10))] [] [] [])]
       [''system'', ''automation-trigger'']),
     (''system automation-stitch'', Node [''system automation-stitch''] (k 13) [] []
       [(s, Node [''system automation-stitch'', s] (k 14) [(''status'', value_at [''enable''] (k 15)), (''trigger'', value_at [t] (k 16))]
         [(''actions'', Node [''system automation-stitch'', s, ''actions''] (k 17) [] []
            [(''1'', Node [''system automation-stitch'', s, ''actions'', ''1''] (k 18) [(''action'', value_at [a] (k 19))] [] [] [])] [''actions''])] [] [])]
       [''system'', ''automation-stitch''])] [] []"

lemma guard_script_parses:
  assumes "map snd nls = guard_script a t s script fire_at" and "section_name fire_at"
    and "\<forall>v \<in> {a, t, script}. creturn \<notin> set v"
  shows "\<exists>k. parse_loop nls [root_frame] = Inr [(guard_tree k a t s script fire_at, AtRoot)]"
proof -
  have lines: "\<And>k st. parse_line k (''set trigger-datetime '' @ fire_at) st = Inr (assign_attr ''trigger-datetime'' (value_at (split_on blank fire_at) k) st)"
    "\<And>k st. parse_line k (''set script '' @ quote script) st = Inr (assign_attr ''script'' (value_at [script] k) st)"
    "\<And>k st. parse_line k (''set trigger '' @ quote t) st = Inr (assign_attr ''trigger'' (value_at [t] k) st)"
    "\<And>k st. parse_line k (''set action '' @ quote a) st = Inr (assign_attr ''action'' (value_at [a] k) st)"
    using plain_line [OF guard_sections(13) assms(2)] quoted_line [OF guard_sections(10), of script]
      quoted_line [OF guard_sections(15), of t] quoted_line [OF guard_sections(16), of a] assms(3)
    by (simp_all add: value_at_def)
  have "length nls = 24" using arg_cong [OF assms(1), of length] by (simp add: guard_script_def)
  define k where "k i = fst (nls ! i)" for i
  have nls: "nls = zip (map k [0..<24]) (guard_script a t s script fire_at)"
  proof -
    have "map fst nls = map k [0..<24]" using \<open>length nls = 24\<close> by (intro nth_equalityI) (simp_all add: k_def)
    then show ?thesis using zip_map_fst_snd [of nls] assms(1) by simp
  qed
  have "parse_loop nls [root_frame] = Inr [(guard_tree k a t s script fire_at, AtRoot)]"
    unfolding nls guard_script_def
    by (simp add: upt_rec Let_def eval_nat_numeral guard_lines lines [simplified] edit_line [simplified] close_lines MAX_DEPTH_def root_frame_def open_config_def open_edit_def
        assign_attr_def pop_def closes_vdom_entry_def VDOM_SECTION_def guard_tree_def value_at_def)
  then show ?thesis by blast
qed

section \<open>Texts of the script\<close>

lemma join_escape: "join [newline] (map escape ls) = escape (join [newline] ls)"
proof (induction ls)
  case (Cons l ls)
  have "escape (xs @ ys) = escape xs @ escape ys" for xs ys by (induction xs) simp_all
  with Cons show ?case by (auto simp: join_Cons)
qed simp

lemma lines_text_append: "lines_text (xs @ ys) = lines_text xs @ lines_text ys"
  by (simp add: lines_text_def)

lemma lines_text_joined: "ls \<noteq> [] \<Longrightarrow> lines_text ls = join [newline] ls @ [newline]"
  by (induction ls) (auto simp: lines_text_def join_Cons)

text \<open>The script of the action is sent line by line and is one quoted value.\<close>

lemma script_text:
  assumes "rest \<noteq> []"
  shows "lines_text ((lead @ [dquote] @ first) # butlast rest @ [last (first # rest) @ [dquote]]) =
    lines_text [lead @ [dquote] @ join [newline] (first # rest) @ [dquote]]"
proof -
  have "join [newline] (butlast rest @ [last rest @ [dquote]]) = join [newline] rest @ [dquote]"
    using assms by (induction rest) (auto simp: join_Cons)
  then show ?thesis
    using assms by (simp add: lines_text_joined join_Cons)
qed

lemma hex_name:
  assumes "list_all is_lower_hex change_id"
  shows "escape (''netops-sg-'' @ take 12 change_id @ [CHR ''-'', c]) = ''netops-sg-'' @ take 12 change_id @ escape [CHR ''-'', c]"
    and "creturn \<notin> set (take 12 change_id)"
proof -
  have chars: "c \<noteq> dquote \<and> c \<noteq> backslash \<and> c \<noteq> creturn" if "c \<in> set (take 12 change_id)" for c
    using that assms by (auto simp: list_all_iff is_lower_hex_def is_digit_def code_def dest!: in_set_takeD)
  then show "creturn \<notin> set (take 12 change_id)" by blast
  have "escape (xs @ ys) = xs @ escape ys" if "\<forall>c \<in> set xs. c \<noteq> dquote \<and> c \<noteq> backslash" for xs ys
    using that by (induction xs) auto
  from this [of "take 12 change_id"] chars
  show "escape (''netops-sg-'' @ take 12 change_id @ [CHR ''-'', c]) = ''netops-sg-'' @ take 12 change_id @ escape [CHR ''-'', c]"
    by simp
qed

lemma digits_plain: "list_all is_digit w \<Longrightarrow> w \<noteq> [] \<Longrightarrow> plain_word w"
  by (auto simp: plain_word_def plain_char_def list_all_iff is_digit_def is_space_def code_def)

lemma two_digits_plain: "n < 100 \<Longrightarrow> list_all plain_char (two_digits n)"
  using digits_plain [OF two_digits_digits, of n] by (simp add: plain_word_def) (simp add: two_digits_def)

lemma two_words:
  assumes "list_all plain_char a" and "a \<noteq> []" and "list_all plain_char b" and "b \<noteq> []"
  shows "section_name (a @ '' '' @ b)"
proof -
  have "\<not> plain_char blank" by (simp add: plain_char_def)
  then have "blank \<notin> set a" "blank \<notin> set b" using assms(1,3) unfolding list_all_iff by blast+
  then have "split_on blank (a @ blank # b) = [a, b]" by (simp add: split_on_append split_on_free)
  then show ?thesis using assms by (simp add: section_name_def plain_word_def)
qed

lemma stamp_section:
  assumes "DAY_SECONDS \<le> t"
  shows "section_name (stamp_text t)"
proof -
  obtain y m d where date: "ord2ymd (t div DAY_SECONDS) = (y, m, d)" by (metis prod_cases3)
  have "1 \<le> t div DAY_SECONDS" using assms div_le_mono [of DAY_SECONDS t DAY_SECONDS] by (simp add: DAY_SECONDS_def)
  note parts = ord2ymd_exact [OF this date]
  then have "days_in_month y m \<le> 31"
    using less_12_cases [of m] by (auto simp: days_in_month_length month_length_simps)
  then have "m < 100" "d < 100" using parts by linarith+
  moreover define s where "s = t mod DAY_SECONDS"
  have "s < 86400" by (simp add: s_def DAY_SECONDS_def)
  then have "s div 3600 < 100" "s div 60 mod 60 < 100" "s mod 60 < 100"
    by (simp_all add: less_mult_imp_div_less order.strict_trans [OF mod_less_divisor])
  moreover have "list_all plain_char (show_nat y)" using digits_plain [OF show_nat_digits] by (simp add: plain_word_def)
  moreover have "plain_char (CHR ''-'')" "plain_char (CHR '':'')" by (simp_all add: plain_char_def is_space_def)
  moreover have "stamp_text t = (show_nat y @ ''-'' @ two_digits m @ ''-'' @ two_digits d) @ '' ''
      @ (two_digits (s div 3600) @ '':'' @ two_digits (s div 60 mod 60) @ '':'' @ two_digits (s mod 60))"
    using date by (simp add: stamp_text_def s_def Let_def)
  ultimately show ?thesis
    by (simp only:) (rule two_words; simp add: two_digits_plain)
qed

section \<open>The installed safeguard passes its check\<close>

lemma guard_script_closed:
  assumes "section_name fire_at" and "\<forall>v \<in> {a, t, s, script}. creturn \<notin> set v"
  shows "\<forall>l \<in> set (guard_script a t s script fire_at). closed_line l"
proof -
  have "closed_line (lead @ quote v)" if "lead \<in> {''edit '', ''set script '', ''set trigger '', ''set action ''}" "v \<in> {a, t, s, script}" for lead v
    using that assms(2) by (intro closed_append closed_quote closed_free) auto
  then have quoted: "closed_line (''edit '' @ quote a)" "closed_line (''edit '' @ quote t)" "closed_line (''edit '' @ quote s)"
    "closed_line (''set script '' @ quote script)" "closed_line (''set trigger '' @ quote t)" "closed_line (''set action '' @ quote a)"
    by blast+
  have "closed_line (''set trigger-datetime '' @ fire_at)"
    by (intro closed_append closed_section [OF assms(1)] closed_free) simp_all
  with quoted show ?thesis
    unfolding guard_script_def list.set ball_simps by (intro conjI) (auto intro!: closed_free)
qed

lemma guard_tree_accepted:
  assumes "script_lines undoing = Inr script" and "names = fortios_safeguard_names change_id"
    and "\<forall>kind \<in> {''action'', ''trigger'', ''stitch''}. parse (answer_of answers kind) =
      Inr (guard_tree k (name_of names ''action'') (name_of names ''trigger'') (name_of names ''stitch'') (join [newline] script) fire_at)"
  shows "safeguard_state change_id answers undoing fire_at = Inr []"
  using assms(1,3) unfolding safeguard_state_def assms(2) Let_def
  by (simp add: single_entry_def guard_tree_def action_problems_def scheduled_once_def bound_stitch_def stitch_actions_def node_value_def
      node_section_def value_at_def attr_value_def then_check_def)

lemma set_strip: "set (strip l) \<subseteq> set l"
  by (auto simp: strip_def rstrip_def lstrip_def dest!: set_dropWhileD)

lemma set_join: "set (join sep ls) \<subseteq> set sep \<union> \<Union> (set ` set ls)"
  by (induction ls) (auto simp: join_Cons)

lemma guard_names:
  assumes "list_all is_lower_hex change_id" and "part \<in> {''action'', ''trigger'', ''stitch''}"
  shows "in_quotes (name_of (fortios_safeguard_names change_id) part) = quote (name_of (fortios_safeguard_names change_id) part)"
    and "creturn \<notin> set (name_of (fortios_safeguard_names change_id) part)"
  using assms(2) hex_name [OF assms(1)] by (auto simp: in_quotes_def quote_def name_of_def fortios_safeguard_names_def)

lemma rendered_guard_text:
  assumes "fortios_render_safeguard change_id undoing fire_at = Inr lines" and "length undoing \<ge> 2" and "list_all is_lower_hex change_id"
  shows "lines_text lines = lines_text (guard_script (name_of (fortios_safeguard_names change_id) ''action'')
    (name_of (fortios_safeguard_names change_id) ''trigger'') (name_of (fortios_safeguard_names change_id) ''stitch'')
    (join [newline] (map strip undoing)) fire_at)"
proof -
  obtain u1 u2 us where us: "undoing = u1 # u2 # us" using assms(2) by (cases undoing; cases "tl undoing") auto
  let ?first = "escape (strip u1)" and ?rest = "map (escape \<circ> strip) (u2 # us)"
  have lines: "lines = [''config system automation-action'', ''edit '' @ in_quotes (name_of (fortios_safeguard_names change_id) ''action''),
      ''set action-type cli-script''] @ ((''set script '' @ [dquote] @ ?first) # butlast ?rest @ [last (?first # ?rest) @ [dquote]])
      @ [''next'', ''end''] @ trigger_lines (fortios_safeguard_names change_id) fire_at"
    using assms(1) unfolding fortios_render_safeguard_def us
    by (auto simp: script_lines_def reject_def then_check_def comp_def Let_def split: if_splits)
  have "join [newline] (?first # ?rest) = escape (join [newline] (map strip undoing))"
    using join_escape [of "map strip undoing"] by (simp add: us comp_def)
  then have "lines_text ((''set script '' @ [dquote] @ ?first) # butlast ?rest @ [last (?first # ?rest) @ [dquote]]) =
      lines_text [''set script '' @ quote (join [newline] (map strip undoing))]"
    using script_text [of ?rest "''set script ''" ?first] by (simp add: quote_def)
  then show ?thesis
    unfolding lines lines_text_append trigger_lines_def guard_script_def
    using guard_names(1) [OF assms(3)] by (simp add: lines_text_def)
qed

text \<open>(C10) The safeguard that is installed is the one that is checked: the script that installs it, read as
  a configuration, passes the check of the installed safeguard against the planned inverse and the firing
  time, for every inverse of at least two lines and every firing time the device clock can give. A change
  is sent only after this check.\<close>

theorem installed_safeguard_verifies:
  assumes rendered: "fortios_render_safeguard change_id undoing fire_at = Inr lines" and fire_at: "firing_time now seconds = Inr fire_at"
    and change_id: "list_all is_lower_hex change_id" and undoing: "length undoing \<ge> 2" "\<forall>l \<in> set undoing. creturn \<notin> set l"
  shows "safeguard_state change_id (map (\<lambda>kind. (kind, lines_text lines)) [''action'', ''trigger'', ''stitch'']) undoing fire_at = Inr []"
proof -
  let ?a = "name_of (fortios_safeguard_names change_id) ''action''" and ?t = "name_of (fortios_safeguard_names change_id) ''trigger''"
    and ?s = "name_of (fortios_safeguard_names change_id) ''stitch''"
  have script: "script_lines undoing = Inr (map strip undoing)"
    using rendered by (auto simp: fortios_render_safeguard_def script_lines_def reject_def then_check_def split: if_splits)
  let ?script = "join [newline] (map strip undoing)"
  have words: "section_name fire_at"
    using fire_at stamp_section by (auto simp: firing_time_def le_nat_iff split: if_splits)
  have clean: "\<forall>v \<in> {?a, ?t, ?s, ?script}. creturn \<notin> set v"
  proof -
    have "creturn \<notin> set (strip l)" if "l \<in> set undoing" for l using that undoing(2) set_strip by blast
    then have "creturn \<notin> set ?script" using set_join [of "[newline]" "map strip undoing"] by auto
    then show ?thesis using guard_names(2) [OF change_id] by simp
  qed
  note lines = rendered_guard_text [OF rendered undoing(1) change_id]
  obtain k where "parse_loop (numbered 1 (guard_script ?a ?t ?s ?script fire_at)) [root_frame] = Inr [(guard_tree k ?a ?t ?s ?script fire_at, AtRoot)]"
    using guard_script_parses [OF snd_numbered words, of ?a ?t ?script 1 ?s] clean by auto
  then have "parse (lines_text lines) = Inr (guard_tree k ?a ?t ?s ?script fire_at)"
    using logical_lines_text [OF guard_script_closed [OF words clean]] lines by (simp add: parse_def)
  then show ?thesis by (intro guard_tree_accepted [OF script refl]) (auto simp: answer_of_def)
qed

text \<open>Witness: the deletion of a created address is undone on 28 November 2025\<close>

definition sample_undoing :: "string list" where
  "sample_undoing = [''config firewall address'', ''    delete '' @ quote ''web \"1\"'', ''end'']"

theorem installed_safeguard_verifies_witness:
  "\<exists>lines. fortios_render_safeguard ''0123456789abcdef'' sample_undoing (stamp_text 63900000600) = Inr lines
     \<and> safeguard_state ''0123456789abcdef'' (map (\<lambda>kind. (kind, lines_text lines)) [''action'', ''trigger'', ''stitch''])
        sample_undoing (stamp_text 63900000600) = Inr []"
proof -
  obtain lines where lines: "fortios_render_safeguard ''0123456789abcdef'' sample_undoing (stamp_text 63900000600) = Inr lines"
    by (simp add: fortios_render_safeguard_def sample_undoing_def script_lines_def then_check_def Let_def starts_with_def quote_def)
  have "firing_time 63900000000 600 = Inr (stamp_text 63900000600)"
    by (simp add: firing_time_def DAY_SECONDS_def LAST_DAY_def)
  from installed_safeguard_verifies [OF lines this] lines show ?thesis
    by (simp add: sample_undoing_def is_lower_hex_def is_digit_bits code_def quote_def)
qed

end
