(* ===== verification/Spec2Isabelle.thy ===== *)
theory Spec2Isabelle
  imports Admin_Run Admin_Fortios_Facts Admin_Engine_Facts Admin_Membership_Facts Exos_Model_Facts
    Helper_Catalog_Facts Admin_Fortiadc_Facts Admin_Exec_Exos Admin_Fortios_Safeguard
begin

text \<open>
  \<^bold>\<open>NetOps: a verification library.\<close>

  NetOps operates network devices. Its Admin component (\<open>components/netops-admin\<close>) changes one object
  of a FortiGate or of an ExtremeXOS switch under a safeguard: a script installed on the device that
  undoes the change at a fixed time unless the program confirms it. The library models the change path
  of Admin from a request to the finished journal record, with the readers of device configurations it
  shares with the Core and Auditor components, the sessions of Core, and the read policy of the Helper
  component (\<open>components/netops-helper\<close>), which decides which commands its read-only queries may send.

  \<^bold>\<open>Parts and theories.\<close>

  \<^item> \<open>Netops_Base\<close>, \<open>Netops_Net\<close>, \<open>Netops_Regex\<close>: the prelude. Python strings, dictionaries in insertion order,
    exceptions (\<open>errors.py\<close>), effectful computations that may raise, numerals, IPv4 addresses and networks,
    and a backtracking matcher for the regular expressions the sources apply to device answers.
    \<open>Netops_Time\<close>: the calendar and the texts of points in time. \<open>Netops_Ip6\<close>: IPv6 addresses.
  \<^item> \<open>Fortios_Config\<close> (\<open>netops_core/fortios.py\<close>, the writer of \<open>prediction.py\<close>) and \<open>Exos_Config\<close>
    (\<open>netops_auditor/l1_exos.py\<close>): tokenizers, parsers and writers of configurations. \<open>Exos_Model\<close>
    (\<open>netops_auditor/management.py\<close>): port lists and the VLAN membership of ports.
  \<^item> \<open>Admin_Types\<close>: requests, profiles, plans, journal records and audit events.
    \<open>Admin_Request\<close> (\<open>request.py\<close>) and \<open>Admin_Profile\<close> (\<open>profiles.py\<close>): documents and canonical values.
  \<^item> \<open>Admin_Fortios\<close> and \<open>Admin_Fortios_Guard\<close> (\<open>fortios.py\<close>), \<open>Admin_Exos\<close> and \<open>Admin_Exos_Guard\<close> (\<open>exos.py\<close>,
    \<open>membership.py\<close>): snapshots, references, digests of the rest of a configuration, commands, checks
    and safeguards of the two platforms.
  \<^item> \<open>Admin_Engine\<close> (\<open>engine.py\<close>): plans and their verification. A platform module is a record of operations;
    the locale \<open>engine_platform\<close> states what the engine relies on and is interpreted for both modules.
  \<^item> \<open>Admin_Store\<close> (\<open>state.py\<close>): the journal, blocks, baselines, certificates, budgets and locks. The disk,
    other processes and the clocks are services; locales \<open>file_table\<close> and \<open>removable_table\<close> describe the
    tables of the store and are interpreted for each of them.
  \<^item> \<open>Admin_Execute\<close> (\<open>execute.py\<close>, \<open>blocking.py\<close>, \<open>enrollment.py\<close>): every operation of the execution. The device
    access, the platform adapter and the auditor are interface records; every effect that matters is
    recorded in a trace.
  \<^item> \<open>Admin_Access\<close> (\<open>access.py\<close>) provides the record of the device access over a network of ssh sessions,
    \<open>Admin_Exec_Fortios\<close> (\<open>exec_fortios.py\<close>) and \<open>Admin_Exec_Exos\<close> (\<open>exec_exos.py\<close>) the two platform adapters.
    \<open>Core_Session\<close> (\<open>netops_core/session.py\<close>, \<open>prompt.py\<close>): \<open>expect\<close>, \<open>send\<close> and \<open>discard\<close> of a session over a
    pseudo terminal, and the removal of prompts from answers.
  \<^item> \<open>Admin_Fortiadc\<close> (\<open>fortiadc.py\<close>, \<open>fortiadc_member.py\<close>): the status, the addition and the removal of a pool member
    of a FortiADC, over the same device access. There is no safeguard on that device: a change is read back
    and undone by the program.
  \<^item> \<open>Helper_Policy\<close> (\<open>netops_helper/read_policy.py\<close>): typed slots, the check of a catalogue and the rendering
    of a query. \<open>Helper_Catalog\<close> (\<open>query_catalog\<close>): the catalogue the Helper ships.

  \<^bold>\<open>What is shown.\<close>

  \<^item> \<open>Admin_Safety\<close>, \<open>Admin_Recovery\<close>, \<open>Admin_Run\<close>: change commands are sent at most once, only after a verified
    safeguard and a durable journal record, and are those of the journaled plan; a result \<open>confirmed\<close>
    implies the complete dialogue; recovery confirms only what had been confirmed before the interruption;
    blocking comes before every other durable effect of a blocking result; the waiting loops end.
    The locale \<open>run_order\<close> carries these proofs: a preorder on states that basic computations respect.
  \<^item> \<open>Admin_Store\<close>: no lost update, atomic replacement, locks released on every way out, budgets that follow
    the monotonic clock.
  \<^item> \<open>Admin_Engine_Facts\<close>, \<open>Admin_Membership_Facts\<close>: plans only for allowed objects and operations, inverses
    that lead back, plan documents read back as written, verification exact, membership commands that reach
    the predicted state in the order in which they are sent.
  \<^item> \<open>Admin_Fortios_Render\<close>: the rendered FortiOS commands, read by the parser of configurations, edit the
    one target entry and assign exactly the accepted values; nothing in a value or a key is a command.
    \<open>Admin_Fortios_Safeguard\<close>: the script that installs the safeguard, read as a configuration, passes the
    check of the installed safeguard.
  \<^item> \<open>Admin_Access\<close>: an application of lines types a prefix of them, each once, and types the password only
    after a line that may ask for it; its error counts the lines that were accepted. \<open>Core_Session\<close>: \<open>expect\<close>
    loses nothing of the stream, returns it up to the pattern that starts first, and ends when the clock
    moves on.
  \<^item> \<open>Admin_Fortiadc_Facts\<close>: a status is changed only when every virtual server of the pool keeps an enabled
    member that is reported up; every result is what the last listing shows; the inverse of a removal, read
    as a listing, is exactly the removed member. A paged listing is refused when members are read, though
    not when a status is.
  \<^item> \<open>Helper_Policy_Facts\<close>, \<open>Helper_Catalog_Facts\<close>: a rendered query holds no control or shell character, no
    value turns it into a command of a forbidden family, and the shipped catalogue passes the check made
    when it is loaded.
  \<^item> \<open>Admin_Request_Facts\<close>, \<open>Admin_Fortios_Facts\<close>, \<open>Exos_Model_Facts\<close> and the theories of the readers: canonical
    values are fixed points, profiles are well formed, closures of groups and interfaces are exact, port
    ranges are exact, configurations are read back as written.

  \<^bold>\<open>Conventions.\<close> Texts are lists of ASCII characters; a snapshot has no byte order mark. Sets whose order
  the program cannot observe are lists without repetitions. SHA-256, the regular expressions of profile
  files, the network, clocks and other processes are parameters. Loops are recursive functions that
  terminate, with two exceptions where the program waits for time to pass. The polling loops of
  \<open>_wait_for_expiry\<close> get \<open>WAIT_ROUNDS\<close> rounds, two more than the wait limit has seconds; every round
  sleeps a second or more or ends, and it is proved that the rounds never run out.
  The loop of \<open>expect\<close> is a partial function whose value is None when it does not end; that it ends is
  proved from a clock that moves on.

  \<^bold>\<open>Not modelled.\<close> Schema transactions (\<open>schema_*.py\<close>), the starting and reaping
  of ssh processes, host keys and vaults, file modes and temporary files, interrupts, and the front ends;
  of the Auditor only the readers and the membership model, of the Helper only the read policy and its
  catalogue, of the Gateway nothing.
\<close>

end
